(* ===== verification/Prelude.thy ===== *)
theory Prelude
  imports Complex_Main "HOL-Library.Word"
begin

text \<open>
  What every component of the model shares: the JavaScript values the source computes with
  (numbers, dates, text, dynamically inspected objects), the result type of the fallible
  operations, and the interface of a guarded state machine.

  \<^item> \<open>number\<close> is a JavaScript number: a NaN, two infinities and the finite values, which are
    exact rationals here. The double arithmetic of the source is exact on the integers up to
    2^53 the guards admit; no rounding is modelled, and the two zeros are one value.
  \<^item> \<open>date\<close> is a \<^verbatim>\<open>Date\<close>: a time value in milliseconds, or an invalid date whose
    \<^verbatim>\<open>getTime()\<close> is NaN; \<open>new_date\<close> clips as ECMAScript's TimeClip does.
  \<^item> \<open>js_string\<close> is text as UTF-16 code units; codes, identifiers and messages, which are only
    compared, are \<open>string\<close>.
  \<^item> \<open>jsval\<close> is a value of type \<^verbatim>\<open>unknown\<close> the code inspects structurally.
\<close>

section \<open>Numbers\<close>

datatype number = NaN | PosInf | NegInf | Fin rat

definition nint :: "int \<Rightarrow> number" where
  "nint n = Fin (of_int n)"

fun num_neg :: "number \<Rightarrow> number" where
  "num_neg NaN = NaN"
| "num_neg PosInf = NegInf"
| "num_neg NegInf = PosInf"
| "num_neg (Fin q) = Fin (- q)"

fun num_add :: "number \<Rightarrow> number \<Rightarrow> number" where
  "num_add NaN y = NaN"
| "num_add x NaN = NaN"
| "num_add PosInf NegInf = NaN"
| "num_add NegInf PosInf = NaN"
| "num_add PosInf y = PosInf"
| "num_add NegInf y = NegInf"
| "num_add x PosInf = PosInf"
| "num_add x NegInf = NegInf"
| "num_add (Fin p) (Fin q) = Fin (p + q)"

definition num_sub :: "number \<Rightarrow> number \<Rightarrow> number" where
  "num_sub x y = num_add x (num_neg y)"

text \<open>Multiplication by a positive constant: the only multiplication the modelled code uses.\<close>

fun num_scale :: "rat \<Rightarrow> number \<Rightarrow> number" where
  "num_scale c (Fin q) = Fin (c * q)"
| "num_scale c x = x"

fun num_lt :: "number \<Rightarrow> number \<Rightarrow> bool" where
  "num_lt NaN y = False"
| "num_lt x NaN = False"
| "num_lt PosInf y = False"
| "num_lt x NegInf = False"
| "num_lt NegInf y = True"
| "num_lt x PosInf = True"
| "num_lt (Fin p) (Fin q) = (p < q)"

definition num_eq :: "number \<Rightarrow> number \<Rightarrow> bool" where
  "num_eq x y = (x \<noteq> NaN \<and> x = y)"

definition num_le :: "number \<Rightarrow> number \<Rightarrow> bool" where
  "num_le x y = (num_lt x y \<or> num_eq x y)"

text \<open>\<^verbatim>\<open>Math.min\<close> and \<^verbatim>\<open>Math.max\<close>: NaN when either argument is.\<close>

definition num_min :: "number \<Rightarrow> number \<Rightarrow> number" where
  "num_min x y = (if x = NaN \<or> y = NaN then NaN else if num_lt y x then y else x)"

definition num_max :: "number \<Rightarrow> number \<Rightarrow> number" where
  "num_max x y = (if x = NaN \<or> y = NaN then NaN else if num_lt x y then y else x)"

fun num_floor :: "number \<Rightarrow> number" where
  "num_floor (Fin q) = nint \<lfloor>q\<rfloor>"
| "num_floor x = x"

fun num_abs :: "number \<Rightarrow> number" where
  "num_abs NaN = NaN"
| "num_abs (Fin q) = Fin \<bar>q\<bar>"
| "num_abs x = PosInf"

fun is_finite :: "number \<Rightarrow> bool" where
  "is_finite (Fin q) = True"
| "is_finite x = False"

fun is_integer :: "number \<Rightarrow> bool" where
  "is_integer (Fin q) = (of_int \<lfloor>q\<rfloor> = q)"
| "is_integer x = False"

definition max_safe_integer :: int where
  "max_safe_integer = 9007199254740991"

fun is_safe_integer :: "number \<Rightarrow> bool" where
  "is_safe_integer (Fin q) =
     (of_int \<lfloor>q\<rfloor> = q \<and> \<bar>\<lfloor>q\<rfloor>\<bar> \<le> max_safe_integer)"
| "is_safe_integer x = False"

lemma nint_inject [simp]: "nint a = nint b \<longleftrightarrow> a = b"
  by (simp add: nint_def)

lemma nint_not_special [simp]: "nint a \<noteq> NaN" "nint a \<noteq> PosInf" "nint a \<noteq> NegInf"
  "NaN \<noteq> nint a" "PosInf \<noteq> nint a" "NegInf \<noteq> nint a"
  by (simp_all add: nint_def)

lemma num_neg_nint [simp]: "num_neg (nint a) = nint (- a)"
  by (simp add: nint_def)

lemma num_add_nint [simp]: "num_add (nint a) (nint b) = nint (a + b)"
  by (simp add: nint_def)

lemma num_sub_nint [simp]: "num_sub (nint a) (nint b) = nint (a - b)"
  by (simp add: num_sub_def)

lemma num_sub_NaN [simp]: "num_sub NaN y = NaN" "num_sub x NaN = NaN"
  by (cases x; simp add: num_sub_def)+

lemma num_add_NaN [simp]: "num_add x NaN = NaN"
  by (cases x) simp_all

lemma num_scale_nint [simp]: "num_scale (of_int c) (nint a) = nint (c * a)"
  by (simp add: nint_def)

lemma num_scale_numeral [simp]: "num_scale (numeral k) (nint a) = nint (numeral k * a)"
  by (simp add: nint_def)

lemma num_lt_nint [simp]: "num_lt (nint a) (nint b) \<longleftrightarrow> a < b"
  by (simp add: nint_def)

lemma num_lt_NaN [simp]: "\<not> num_lt x NaN"
  by (cases x) simp_all

lemma num_eq_nint [simp]: "num_eq (nint a) (nint b) \<longleftrightarrow> a = b"
  by (simp add: num_eq_def)

lemma num_eq_NaN [simp]: "\<not> num_eq NaN y" "\<not> num_eq x NaN"
  by (auto simp: num_eq_def)

lemma num_le_nint [simp]: "num_le (nint a) (nint b) \<longleftrightarrow> a \<le> b"
  by (auto simp: num_le_def)

lemma num_le_NaN [simp]: "\<not> num_le NaN y" "\<not> num_le x NaN"
  by (auto simp: num_le_def)

lemma num_min_nint [simp]: "num_min (nint a) (nint b) = nint (min a b)"
  by (auto simp: num_min_def)

lemma num_max_nint [simp]: "num_max (nint a) (nint b) = nint (max a b)"
  by (auto simp: num_max_def)

lemma num_min_NaN [simp]: "num_min NaN y = NaN" "num_min x NaN = NaN"
  by (simp_all add: num_min_def)

lemma num_max_NaN [simp]: "num_max NaN y = NaN" "num_max x NaN = NaN"
  by (simp_all add: num_max_def)

lemma is_finite_nint [simp]: "is_finite (nint a)"
  by (simp add: nint_def)

lemma is_integer_nint [simp]: "is_integer (nint a)"
  by (simp add: nint_def)

lemma is_safe_integer_nint [simp]: "is_safe_integer (nint a) \<longleftrightarrow> \<bar>a\<bar> \<le> max_safe_integer"
  by (simp add: nint_def)

lemma is_integerE:
  assumes "is_integer n"
  obtains k where "n = nint k"
  using assms by (cases n) (auto simp: nint_def)

lemma is_safe_integerE:
  assumes "is_safe_integer n"
  obtains k where "n = nint k" and "\<bar>k\<bar> \<le> max_safe_integer"
  using assms by (cases n) (auto simp: nint_def)

section \<open>Dates\<close>

datatype date = InvalidDate | At int

fun get_time :: "date \<Rightarrow> number" where
  "get_time InvalidDate = NaN"
| "get_time (At t) = nint t"

definition max_time_value :: int where
  "max_time_value = 8640000000000000"

definition trunc_rat :: "rat \<Rightarrow> int" where
  "trunc_rat q = (if 0 \<le> q then \<lfloor>q\<rfloor> else - \<lfloor>- q\<rfloor>)"

fun new_date :: "number \<Rightarrow> date" where
  "new_date (Fin q) =
     (if \<bar>q\<bar> \<le> of_int max_time_value then At (trunc_rat q) else InvalidDate)"
| "new_date x = InvalidDate"

lemma new_date_nint [simp]:
  "new_date (nint t) = (if \<bar>t\<bar> \<le> max_time_value then At t else InvalidDate)"
proof -
  have "\<bar>rat_of_int t\<bar> \<le> rat_of_int max_time_value \<longleftrightarrow> \<bar>t\<bar> \<le> max_time_value"
    by (metis of_int_abs of_int_le_iff)
  then show ?thesis
    by (simp add: nint_def trunc_rat_def flip: of_int_minus)
qed

lemma new_date_NaN [simp]: "new_date NaN = InvalidDate"
  by simp

text \<open>The time values an ECMAScript date can hold.\<close>

fun valid_date :: "date \<Rightarrow> bool" where
  "valid_date InvalidDate = False"
| "valid_date (At t) = (\<bar>t\<bar> \<le> max_time_value)"

section \<open>Text\<close>

type_synonym js_string = "16 word list"

definition is_js_space :: "16 word \<Rightarrow> bool" where
  "is_js_space w =
     (let c = unat w in
        c \<in> {9, 10, 11, 12, 13, 32, 160, 5760, 8232, 8233, 8239, 8287, 12288, 65279}
        \<or> (8192 \<le> c \<and> c \<le> 8202))"

text \<open>\<^verbatim>\<open>String.prototype.trim\<close>.\<close>

definition js_trim :: "js_string \<Rightarrow> js_string" where
  "js_trim s = rev (dropWhile is_js_space (rev (dropWhile is_js_space s)))"

definition js :: "string \<Rightarrow> js_string" where
  "js s = map (\<lambda>c. word_of_nat (of_char c)) s"

lemma dropWhile_idem [simp]: "dropWhile P (dropWhile P xs) = dropWhile P xs"
  by (induction xs) auto

lemma dropWhile_rev_dropWhile:
  assumes "xs = [] \<or> \<not> P (hd xs)"
  shows "rev (dropWhile P (rev xs)) = [] \<or> \<not> P (hd (rev (dropWhile P (rev xs))))"
proof (cases "rev (dropWhile P (rev xs))")
  case Nil
  then show ?thesis by simp
next
  case (Cons y ys)
  have "rev xs = takeWhile P (rev xs) @ dropWhile P (rev xs)"
    by simp
  then have "xs = rev (dropWhile P (rev xs)) @ rev (takeWhile P (rev xs))"
    by (metis rev_append rev_rev_ident)
  with Cons have "hd xs = y" and "xs \<noteq> []"
    by (metis append_Cons list.sel(1), auto)
  with assms Cons show ?thesis by simp
qed

lemma js_trim_idem: "js_trim (js_trim s) = js_trim s"
proof -
  have "dropWhile is_js_space (js_trim s) = js_trim s"
  proof -
    have "js_trim s = [] \<or> \<not> is_js_space (hd (js_trim s))"
      unfolding js_trim_def
      by (rule dropWhile_rev_dropWhile) (use hd_dropWhile in blast)
    then show ?thesis by (cases "js_trim s") auto
  qed
  then show ?thesis
    by (simp add: js_trim_def)
qed

lemma length_js_trim: "length (js_trim s) \<le> length s"
  unfolding js_trim_def by (metis length_dropWhile_le length_rev order_trans)

text \<open>The decimal numeral of a natural number, as a template literal prints it.\<close>

fun show_nat :: "nat \<Rightarrow> string" where
  "show_nat n =
     (if n < 10 then [char_of (48 + n)] else show_nat (n div 10) @ [char_of (48 + n mod 10)])"

declare show_nat.simps [simp del]

definition show_int :: "int \<Rightarrow> string" where
  "show_int i = (if i < 0 then CHR ''-'' # show_nat (nat (- i)) else show_nat (nat i))"

definition is_digit :: "char \<Rightarrow> bool" where
  "is_digit c = (48 \<le> (of_char c :: nat) \<and> (of_char c :: nat) \<le> 57)"

fun digits_value :: "string \<Rightarrow> nat" where
  "digits_value s = foldl (\<lambda>n c. 10 * n + (of_char c - 48)) 0 s"

lemma show_nat_digits: "\<forall>c \<in> set (show_nat n). is_digit c"
proof (induction n rule: show_nat.induct)
  case (1 n)
  show ?case
  proof (cases "n < 10")
    case True
    then show ?thesis
      by (subst show_nat.simps) (simp add: is_digit_def)
  next
    case False
    with 1 show ?thesis
      by (subst show_nat.simps) (auto simp: is_digit_def)
  qed
qed

lemma show_nat_ne: "show_nat n \<noteq> []"
  by (subst show_nat.simps) simp

lemma digits_value_show_nat: "digits_value (show_nat n) = n"
proof (induction n rule: show_nat.induct)
  case (1 n)
  show ?case
  proof (cases "n < 10")
    case True
    then show ?thesis by (subst show_nat.simps) simp
  next
    case False
    with 1 show ?thesis by (subst show_nat.simps) simp
  qed
qed

lemma show_nat_inject [simp]: "show_nat m = show_nat n \<longleftrightarrow> m = n"
  by (metis digits_value_show_nat)

section \<open>Dynamically inspected values\<close>

text \<open>
  A value of type \<^verbatim>\<open>unknown\<close>. An object is its list of visible properties (own and
  inherited); \<open>has_prop\<close> is the \<^verbatim>\<open>in\<close> operator and \<open>prop_of\<close> a property read.
\<close>

datatype jsval =
    JUndefined
  | JNull
  | JBool bool
  | JNum number
  | JStr string
  | JObj "(string \<times> jsval) list"

fun has_prop :: "string \<Rightarrow> jsval \<Rightarrow> bool" where
  "has_prop k (JObj ps) = (map_of ps k \<noteq> None)"
| "has_prop k v = False"

fun prop_of :: "jsval \<Rightarrow> string \<Rightarrow> jsval" where
  "prop_of (JObj ps) k = (case map_of ps k of None \<Rightarrow> JUndefined | Some v \<Rightarrow> v)"
| "prop_of v k = JUndefined"

fun is_object :: "jsval \<Rightarrow> bool" where
  "is_object (JObj ps) = True"
| "is_object v = False"

section \<open>Results\<close>

type_synonym ('e, 'a) result = "'e + 'a"

abbreviation err :: "'e \<Rightarrow> ('e, 'a) result" where "err \<equiv> Inl"
abbreviation ok :: "'a \<Rightarrow> ('e, 'a) result" where "ok \<equiv> Inr"

definition is_ok :: "('e, 'a) result \<Rightarrow> bool" where
  "is_ok r = (case r of Inl e \<Rightarrow> False | Inr a \<Rightarrow> True)"

lemma is_ok_simps [simp]: "\<not> is_ok (Inl e)" "is_ok (Inr a)"
  by (simp_all add: is_ok_def)

lemma is_ok_iff: "is_ok r \<longleftrightarrow> (\<exists>a. r = Inr a)"
  by (cases r) simp_all

section \<open>Guarded machines\<close>

text \<open>
  Several components are machines whose step is refused (\<open>None\<close>) when its guard fails. A run
  stops at the first refused step.
\<close>

fun run :: "('s \<Rightarrow> 'e \<Rightarrow> 's option) \<Rightarrow> 's \<Rightarrow> 'e list \<Rightarrow> 's option" where
  "run step s [] = Some s"
| "run step s (e # es) = (case step s e of None \<Rightarrow> None | Some s' \<Rightarrow> run step s' es)"

lemma run_Cons_iff:
  "run step s (e # es) = Some r \<longleftrightarrow> (\<exists>t. step s e = Some t \<and> run step t es = Some r)"
  by (auto split: option.splits)

lemma run_append:
  "run step s (es @ fs) = (case run step s es of None \<Rightarrow> None | Some s' \<Rightarrow> run step s' fs)"
  by (induction es arbitrary: s) (auto split: option.splits)

locale guarded_machine =
  fixes step :: "'s \<Rightarrow> 'e \<Rightarrow> 's option"
    and inv :: "'s \<Rightarrow> bool"
  assumes step_inv: "inv s \<Longrightarrow> step s e = Some s' \<Longrightarrow> inv s'"
begin

lemma run_inv: "inv s \<Longrightarrow> run step s es = Some s' \<Longrightarrow> inv s'"
proof (induction es arbitrary: s)
  case Nil
  then show ?case by simp
next
  case (Cons e es)
  then obtain t where t: "step s e = Some t" "run step t es = Some s'"
    by (auto split: option.splits)
  with Cons.prems(1) have "inv t" by (blast intro: step_inv)
  then show ?case using t(2) by (rule Cons.IH)
qed

end

text \<open>A machine with a counter that every step of a well-formed state moves up.\<close>

locale fenced_machine = guarded_machine +
  fixes rank :: "'s \<Rightarrow> int"
  assumes step_rank: "inv s \<Longrightarrow> step s e = Some s' \<Longrightarrow> rank s < rank s'"
begin

lemma run_rank:
  "inv s \<Longrightarrow> run step s es = Some s' \<Longrightarrow> rank s + int (length es) \<le> rank s'"
proof (induction es arbitrary: s)
  case Nil
  then show ?case by simp
next
  case (Cons e es)
  then obtain t where t: "step s e = Some t" "run step t es = Some s'"
    by (auto split: option.splits)
  with Cons.prems(1) have "inv t" and "rank s < rank t"
    by (blast intro: step_inv step_rank)+
  with Cons.IH[OF \<open>inv t\<close> t(2)] show ?case by simp
qed

lemma run_moves:
  assumes "inv s" "run step s (e # es) = Some s'"
  shows "s' \<noteq> s"
  using run_rank[OF assms] by auto

end

text \<open>
  A machine given as a step relation: its invariant holds along every run, and when its steps only
  move the state forward in some preorder, so do its runs.
\<close>

locale step_machine =
  fixes step :: "'s \<Rightarrow> 's \<Rightarrow> bool"
    and inv :: "'s \<Rightarrow> bool"
  assumes step_inv: "step s s' \<Longrightarrow> inv s \<Longrightarrow> inv s'"
begin

lemma runs_inv: "step\<^sup>*\<^sup>* s s' \<Longrightarrow> inv s \<Longrightarrow> inv s'"
  by (induction rule: rtranclp_induct) (auto intro: step_inv)

end

locale evolving_machine = step_machine +
  fixes evolves :: "'s \<Rightarrow> 's \<Rightarrow> bool"
  assumes step_evolves: "step s s' \<Longrightarrow> inv s \<Longrightarrow> evolves s s'"
    and evolves_same: "evolves s s"
    and evolves_on: "evolves s t \<Longrightarrow> evolves t u \<Longrightarrow> evolves s u"
begin

lemma runs_evolve: "step\<^sup>*\<^sup>* s s' \<Longrightarrow> inv s \<Longrightarrow> evolves s s'"
  by (induction rule: rtranclp_induct)
    (auto intro: evolves_same evolves_on step_evolves runs_inv)

end

end
