(* ===== verification/Sha256.thy ===== *)
theory Sha256
  imports Prelude
begin

text \<open>
  The browser-safe SHA-256 of \<^verbatim>\<open>src/shared/domain/sha256.ts\<close> and the Google reply text
  digest of \<^verbatim>\<open>src/shared/domain/google-reply-text.ts\<close>. Every 32-bit operation of the source ends in
  \<^verbatim>\<open>>>> 0\<close>, so a \<open>32 word\<close> holds exactly what the JavaScript number holds. The text encoder
  is the platform's \<^verbatim>\<open>TextEncoder\<close> (UTF-8, lone surrogates become U+FFFD). The digests of
  reviews and replies in the other components are computed with these definitions; the lemmas
  say that the padded message is a whole number of blocks that determines its bytes.
\<close>

unbundle bit_operations_syntax

type_synonym u8 = "8 word"
type_synonym u32 = "32 word"

section \<open>UTF-8\<close>

definition code_point_bytes :: "nat \<Rightarrow> u8 list" where
  "code_point_bytes c =
     (if c < 0x80 then [word_of_nat c]
      else if c < 0x800 then
        [word_of_nat (0xC0 + c div 64), word_of_nat (0x80 + c mod 64)]
      else if c < 0x10000 then
        [word_of_nat (0xE0 + c div 4096), word_of_nat (0x80 + c div 64 mod 64),
         word_of_nat (0x80 + c mod 64)]
      else
        [word_of_nat (0xF0 + c div 262144), word_of_nat (0x80 + c div 4096 mod 64),
         word_of_nat (0x80 + c div 64 mod 64), word_of_nat (0x80 + c mod 64)])"

definition is_high_surrogate :: "16 word \<Rightarrow> bool" where
  "is_high_surrogate w = (0xD800 \<le> unat w \<and> unat w \<le> 0xDBFF)"

definition is_low_surrogate :: "16 word \<Rightarrow> bool" where
  "is_low_surrogate w = (0xDC00 \<le> unat w \<and> unat w \<le> 0xDFFF)"

fun code_points :: "js_string \<Rightarrow> nat list" where
  "code_points [] = []"
| "code_points [w] =
     [if is_high_surrogate w \<or> is_low_surrogate w then 0xFFFD else unat w]"
| "code_points (w # v # s) =
     (if is_high_surrogate w \<and> is_low_surrogate v
      then (0x10000 + (unat w - 0xD800) * 1024 + (unat v - 0xDC00)) # code_points s
      else (if is_high_surrogate w \<or> is_low_surrogate w then 0xFFFD else unat w)
             # code_points (v # s))"

definition text_encode :: "js_string \<Rightarrow> u8 list" where
  "text_encode s = concat (map code_point_bytes (code_points s))"

section \<open>The compression function\<close>

text \<open>The source writes these two tables in hexadecimal; here the same words in decimal.\<close>

definition K :: "u32 list" where
  "K = [
     1116352408, 1899447441, 3049323471, 3921009573, 961987163, 1508970993, 2453635748,
     2870763221, 3624381080, 310598401, 607225278, 1426881987, 1925078388, 2162078206,
     2614888103, 3248222580, 3835390401, 4022224774, 264347078, 604807628, 770255983,
     1249150122, 1555081692, 1996064986, 2554220882, 2821834349, 2952996808, 3210313671,
     3336571891, 3584528711, 113926993, 338241895, 666307205, 773529912, 1294757372,
     1396182291, 1695183700, 1986661051, 2177026350, 2456956037, 2730485921, 2820302411,
     3259730800, 3345764771, 3516065817, 3600352804, 4094571909, 275423344, 430227734,
     506948616, 659060556, 883997877, 958139571, 1322822218, 1537002063, 1747873779,
     1955562222, 2024104815, 2227730452, 2361852424, 2428436474, 2756734187, 3204031479,
     3329325298]"

definition INITIAL_STATE :: "u32 list" where
  "INITIAL_STATE = [
     1779033703, 3144134277, 1013904242, 2773480762, 1359893119, 2600822924, 528734635,
     1541459225]"

definition rotr :: "u32 \<Rightarrow> nat \<Rightarrow> u32" where
  "rotr x n = (drop_bit n x OR push_bit (32 - n) x)"

definition block_word :: "u8 list \<Rightarrow> nat \<Rightarrow> u32" where
  "block_word block i =
     (push_bit 24 (ucast (block ! i)) OR push_bit 16 (ucast (block ! (i + 1)))
      OR push_bit 8 (ucast (block ! (i + 2))) OR ucast (block ! (i + 3)))"

definition schedule_step :: "u32 list \<Rightarrow> nat \<Rightarrow> u32 list" where
  "schedule_step w t =
     (let s0 = rotr (w ! (t - 15)) 7 XOR rotr (w ! (t - 15)) 18 XOR drop_bit 3 (w ! (t - 15));
          s1 = rotr (w ! (t - 2)) 17 XOR rotr (w ! (t - 2)) 19 XOR drop_bit 10 (w ! (t - 2))
      in w @ [w ! (t - 16) + s0 + w ! (t - 7) + s1])"

definition message_schedule :: "u8 list \<Rightarrow> nat \<Rightarrow> u32 list" where
  "message_schedule block offset =
     foldl schedule_step (map (\<lambda>t. block_word block (offset + t * 4)) [0..<16]) [16..<64]"

type_synonym registers = "u32 \<times> u32 \<times> u32 \<times> u32 \<times> u32 \<times> u32 \<times> u32 \<times> u32"

fun compress_round :: "u32 list \<Rightarrow> registers \<Rightarrow> nat \<Rightarrow> registers" where
  "compress_round w (a, b, c, d, e, f, g, h) t =
     (let s1 = rotr e 6 XOR rotr e 11 XOR rotr e 25;
          ch = (e AND f) XOR (NOT e AND g);
          temp1 = h + s1 + ch + K ! t + w ! t;
          s0 = rotr a 2 XOR rotr a 13 XOR rotr a 22;
          maj = (a AND b) XOR (a AND c) XOR (b AND c);
          temp2 = s0 + maj
      in (temp1 + temp2, a, b, c, d + temp1, e, f, g))"

definition compress :: "u32 list \<Rightarrow> u8 list \<Rightarrow> nat \<Rightarrow> u32 list" where
  "compress state block offset =
     (let w = message_schedule block offset;
          (a, b, c, d, e, f, g, h) = foldl (compress_round w)
            (state ! 0, state ! 1, state ! 2, state ! 3,
             state ! 4, state ! 5, state ! 6, state ! 7) [0..<64]
      in [state ! 0 + a, state ! 1 + b, state ! 2 + c, state ! 3 + d,
          state ! 4 + e, state ! 5 + f, state ! 6 + g, state ! 7 + h])"

section \<open>Padding and the digest\<close>

definition padded_length :: "nat \<Rightarrow> nat" where
  "padded_length n = push_bit 6 (drop_bit 6 (n + 8) + 1)"

definition be32 :: "u32 \<Rightarrow> u8 list" where
  "be32 w = [ucast (drop_bit 24 w), ucast (drop_bit 16 w), ucast (drop_bit 8 w), ucast w]"

text \<open>\<^verbatim>\<open>Uint8Array.set\<close> and \<^verbatim>\<open>DataView.setUint32\<close> within bounds.\<close>

definition set_bytes :: "nat \<Rightarrow> u8 list \<Rightarrow> u8 list \<Rightarrow> u8 list" where
  "set_bytes off bs arr = take off arr @ bs @ drop (off + length bs) arr"

definition pad :: "u8 list \<Rightarrow> u8 list" where
  "pad bytes =
     (let bit_length = length bytes * 8;
          pl = padded_length (length bytes);
          padded = (set_bytes 0 bytes (replicate pl 0))[length bytes := 0x80]
      in set_bytes (pl - 4) (be32 (word_of_nat bit_length))
           (set_bytes (pl - 8) (be32 (word_of_nat (bit_length div 0x100000000))) padded))"

definition digest_words :: "u8 list \<Rightarrow> u32 list" where
  "digest_words bytes =
     (let padded = pad bytes
      in foldl (\<lambda>state i. compress state padded (i * 64)) INITIAL_STATE
           [0..<length padded div 64])"

definition HEX :: string where
  "HEX = ''0123456789abcdef''"

definition hex_word :: "u32 \<Rightarrow> string" where
  "hex_word w = map (\<lambda>shift. HEX ! unat (drop_bit shift w AND 0xf)) [28, 24, 20, 16, 12, 8, 4, 0]"

definition sha256_bytes :: "u8 list \<Rightarrow> string" where
  "sha256_bytes bytes = concat (map hex_word (digest_words bytes))"

definition sha256Hex :: "js_string \<Rightarrow> string" where
  "sha256Hex input = sha256_bytes (text_encode input)"


section \<open>Properties\<close>

lemma padded_length_eq: "padded_length n = ((n + 8) div 64 + 1) * 64"
  by (simp add: padded_length_def drop_bit_eq_div push_bit_eq_mult)

lemma padded_length_bounds: "n + 9 \<le> padded_length n" "padded_length n \<le> n + 72"
  by (simp_all add: padded_length_eq)

lemma length_be32 [simp]: "length (be32 w) = 4"
  by (simp add: be32_def)

lemma be32_inject: "be32 v = be32 w \<longleftrightarrow> v = w"
proof
  assume "be32 v = be32 w"
  then have b: "\<And>k. k \<in> {24, 16, 8, 0} \<Longrightarrow>
      (ucast (drop_bit k v) :: u8) = ucast (drop_bit k w)"
    by (auto simp: be32_def)
  show "v = w"
  proof (rule bit_word_eqI)
    fix n assume n: "n < LENGTH(32)"
    define k where "k = 8 * (n div 8)"
    have "n div 8 < 4"
      using n by simp
    then have "n div 8 = 0 \<or> n div 8 = 1 \<or> n div 8 = 2 \<or> n div 8 = 3"
      by arith
    then have k: "k \<in> {24, 16, 8, 0}"
      by (auto simp: k_def)
    have j: "n - k < 8" "n = k + (n - k)"
      unfolding k_def by arith+
    have "bit (ucast (drop_bit k v) :: u8) (n - k) = bit (ucast (drop_bit k w) :: u8) (n - k)"
      using b[OF k] by simp
    then show "bit v n = bit w n"
      using j by (simp add: bit_ucast_iff bit_drop_bit_eq)
  qed
qed simp

lemma set_bytes_mid:
  "length ws = length bs \<Longrightarrow> set_bytes (length xs) bs (xs @ ws @ ys) = xs @ bs @ ys"
  by (simp add: set_bytes_def)

text \<open>The padded message: the bytes, the marker, zeros, and the bit length in eight bytes.\<close>

definition length_suffix :: "nat \<Rightarrow> u8 list" where
  "length_suffix n = be32 (word_of_nat (n * 8 div 0x100000000)) @ be32 (word_of_nat (n * 8))"

lemma pad_eq:
  "pad bytes = bytes @ 0x80 # replicate (padded_length (length bytes) - length bytes - 9) 0
     @ length_suffix (length bytes)"
proof -
  define n where "n = length bytes"
  define pl where "pl = padded_length n"
  have pl: "n + 9 \<le> pl"
    unfolding pl_def by (rule padded_length_bounds)
  define z where "z = pl - n - 9"
  have pl_z: "pl = n + 1 + z + 8"
    using pl by (simp add: z_def)
  have "pl = n + (1 + (z + (4 + 4)))"
    using pl_z by simp
  then have "replicate pl 0 = (replicate n 0 @ [0] @ replicate z 0 @ replicate 4 0 @ replicate 4 0 :: u8 list)"
    by (simp only: replicate_add) simp
  then have base: "(set_bytes 0 bytes (replicate pl 0))[n := 0x80]
      = (bytes @ 0x80 # replicate z 0) @ replicate 4 0 @ replicate 4 0"
    by (simp add: set_bytes_def n_def[symmetric] list_update_append)
  have len: "length (bytes @ 0x80 # replicate z 0 :: u8 list) = pl - 8"
    using pl_z by (simp add: n_def)
  have len': "length ((bytes @ 0x80 # replicate z 0) @ be32 w) = pl - 4" for w
    using pl_z by (simp add: n_def)
  have one: "set_bytes (pl - 8) (be32 w) ((bytes @ 0x80 # replicate z 0) @ replicate 4 0 @ replicate 4 0)
      = (bytes @ 0x80 # replicate z 0) @ be32 w @ replicate 4 0" for w
    unfolding len[symmetric] by (rule set_bytes_mid) simp
  have two: "set_bytes (pl - 4) (be32 v) ((bytes @ 0x80 # replicate z 0) @ be32 w @ replicate 4 0)
      = (bytes @ 0x80 # replicate z 0) @ be32 w @ be32 v" for v w
    using set_bytes_mid[of "replicate 4 0" "be32 v" "(bytes @ 0x80 # replicate z 0) @ be32 w" "[]"]
    unfolding len' by simp
  show ?thesis
    unfolding pad_def Let_def n_def[symmetric] pl_def[symmetric] base one two
    by (simp add: length_suffix_def z_def n_def pl_def)
qed

lemma length_length_suffix [simp]: "length (length_suffix n) = 8"
  by (simp add: length_suffix_def)

lemma length_pad: "length (pad bytes) = padded_length (length bytes)"
  using padded_length_bounds(1)[of "length bytes"] by (simp add: pad_eq)

lemma length_suffix_inject:
  assumes "length_suffix m = length_suffix n" "m < 2 ^ 61" "n < 2 ^ 61"
  shows "m = n"
proof -
  have "(word_of_nat (m * 8 div 0x100000000) :: u32) = word_of_nat (n * 8 div 0x100000000)"
    and lo: "(word_of_nat (m * 8) :: u32) = word_of_nat (n * 8)"
    using assms(1) by (auto simp: length_suffix_def be32_inject)
  then have "unat (word_of_nat (m * 8 div 0x100000000) :: u32)
      = unat (word_of_nat (n * 8 div 0x100000000) :: u32)"
    by simp
  then have "m * 8 div 0x100000000 mod 2 ^ 32 = n * 8 div 0x100000000 mod 2 ^ 32"
    by (simp only: unat_of_nat len_num1 len_bit0 len_bit1) simp
  moreover have "k * 8 div 0x100000000 < 2 ^ 32" if "k < 2 ^ 61" for k :: nat
    using that by (simp add: div_less_iff_less_mult)
  ultimately have hi: "m * 8 div 0x100000000 = n * 8 div 0x100000000"
    using assms(2,3) by simp
  have "unat (word_of_nat (m * 8) :: u32) = unat (word_of_nat (n * 8) :: u32)"
    using lo by simp
  then have "m * 8 mod 0x100000000 = n * 8 mod 0x100000000"
    by (simp only: unat_of_nat len_num1 len_bit0 len_bit1) simp
  with hi have "m * 8 = n * 8"
    by (metis div_mult_mod_eq)
  then show ?thesis by simp
qed

lemma pad_inject:
  assumes "pad xs = pad ys" "length xs < 2 ^ 61" "length ys < 2 ^ 61"
  shows "xs = ys"
proof -
  have "drop (length (pad zs) - 8) (pad zs) = length_suffix (length zs)" for zs
    by (simp add: pad_eq)
  with assms(1) have "length_suffix (length xs) = length_suffix (length ys)"
    by metis
  with assms(2,3) have "length xs = length ys"
    by (blast intro: length_suffix_inject)
  with assms(1) show ?thesis by (simp add: pad_eq)
qed

text \<open>
  The padded message is a whole number of 64-byte blocks, starts with the bytes themselves,
  adds at most 72 bytes, and determines them: two messages below the length bound of FIPS 180-4
  (2^61 bytes) have the same padded form only if they are the same message.
\<close>

theorem pad_blocks_and_injective:
  assumes "length bytes < 2 ^ 61" "length other < 2 ^ 61"
  shows "length (pad bytes) mod 64 = 0 \<and> take (length bytes) (pad bytes) = bytes
   \<and> length (pad bytes) \<le> length bytes + 72
   \<and> (pad bytes = pad other \<longleftrightarrow> bytes = other)"
proof -
  have "length (pad bytes) mod 64 = 0"
    by (simp add: length_pad padded_length_eq)
  moreover have "take (length bytes) (pad bytes) = bytes"
    by (simp add: pad_eq)
  moreover have "length (pad bytes) \<le> length bytes + 72"
    by (simp add: length_pad padded_length_bounds)
  ultimately show ?thesis using pad_inject[OF _ assms] by blast
qed

theorem pad_blocks_and_injective_witness: "pad [1, 2] \<noteq> pad [1, 2, 0]"
  using pad_blocks_and_injective [of "[1, 2]" "[1, 2, 0]"] by simp

lemma length_compress [simp]: "length (compress st block off) = 8"
  by (simp add: compress_def Let_def split: prod.splits)

lemma length_digest_words [simp]: "length (digest_words bytes) = 8"
proof -
  have "length (foldl (\<lambda>st i. compress st p (i * 64)) INITIAL_STATE ks) = 8" for p ks
    by (induction ks rule: rev_induct) (simp_all add: INITIAL_STATE_def)
  then show ?thesis by (simp add: digest_words_def Let_def)
qed

lemma length_sha256Hex: "length (sha256Hex s) = 64"
proof -
  have "length (concat (map hex_word ws)) = 8 * length ws" for ws
    by (induction ws) (simp_all add: hex_word_def)
  then show ?thesis by (simp add: sha256Hex_def sha256_bytes_def)
qed

lemma set_sha256Hex: "set (sha256Hex s) \<subseteq> set HEX"
proof -
  have "unat (w AND 0xf) < length HEX" for w :: u32
  proof -
    have "w AND 0xf \<le> 0xf" by (rule word_and_le1)
    then have "unat (w AND 0xf) \<le> 15" by (simp add: word_le_nat_alt)
    then show ?thesis by (simp add: HEX_def)
  qed
  then have "set (hex_word w) \<subseteq> set HEX" for w
    unfolding hex_word_def by (auto intro: nth_mem)
  then show ?thesis by (auto simp: sha256Hex_def sha256_bytes_def)
qed

section \<open>Google reply text\<close>

text \<open>
  \<open>nfc\<close> is \<^verbatim>\<open>String.prototype.normalize('NFC')\<close> of the platform, a parameter.
  The digest is that of the version tag, a NUL and the normalized text.
\<close>

type_synonym normalizer = "js_string \<Rightarrow> js_string"

definition GOOGLE_REPLY_NORMALIZATION_VERSION :: string where
  "GOOGLE_REPLY_NORMALIZATION_VERSION = ''google-reply-v1''"

text \<open>\<^verbatim>\<open>replace(/\r\n?/gu, '\n')\<close>.\<close>

fun unify_newlines :: "js_string \<Rightarrow> js_string" where
  "unify_newlines [] = []"
| "unify_newlines (c # s) =
     (if c = 13 then
        (case s of
           [] \<Rightarrow> [10]
         | d # s' \<Rightarrow> if d = 10 then 10 # unify_newlines s' else 10 # unify_newlines s)
      else c # unify_newlines s)"

definition normalizeGoogleReplyText :: "normalizer \<Rightarrow> js_string \<Rightarrow> js_string" where
  "normalizeGoogleReplyText nfc text = js_trim (unify_newlines (nfc text))"

definition googleReplyTextDigest :: "normalizer \<Rightarrow> js_string \<Rightarrow> string" where
  "googleReplyTextDigest nfc text =
     sha256Hex (js GOOGLE_REPLY_NORMALIZATION_VERSION @ [0] @ normalizeGoogleReplyText nfc text)"

lemma unify_newlines_no_cr: "13 \<notin> set (unify_newlines s)"
  by (induction s rule: unify_newlines.induct) (auto split: list.splits)

lemma unify_newlines_id: "13 \<notin> set s \<Longrightarrow> unify_newlines s = s"
  by (induction s rule: unify_newlines.induct) auto

lemma set_dropWhile_subset: "set (dropWhile P xs) \<subseteq> set xs"
  by (meson set_dropWhileD subsetI)

lemma set_js_trim: "set (js_trim s) \<subseteq> set s"
  unfolding js_trim_def using set_dropWhile_subset
  by (metis (no_types, lifting) set_rev subset_trans)

lemma normalize_no_cr: "13 \<notin> set (normalizeGoogleReplyText nfc text)"
  unfolding normalizeGoogleReplyText_def
  using set_js_trim[of "unify_newlines (nfc text)"] unify_newlines_no_cr by blast

lemma same_normal_form_same_digest:
  "normalizeGoogleReplyText nfc a = normalizeGoogleReplyText nfc b \<Longrightarrow>
   googleReplyTextDigest nfc a = googleReplyTextDigest nfc b"
  by (simp add: googleReplyTextDigest_def)

end
