(* ===== verification/JsDate.thy ===== *)
theory JsDate
  imports Prelude
begin

text \<open>
  The printed form of a date, as \<^verbatim>\<open>Date.prototype.toISOString\<close> gives it: the code puts it into
  digests and keys. The calendar is ECMAScript's proleptic Gregorian one, by day numbers from
  1970-01-01 (\<open>day_from_year\<close>, \<open>year_from_day\<close>). The lemma \<open>year_of_day\<close> says that the year found
  is the one the day falls in, and \<open>to_iso_string_inject\<close> that the printed form determines the date.
\<close>

definition MS_PER_DAY :: int where "MS_PER_DAY = 86400000"

definition day_from_year :: "int \<Rightarrow> int" where
  "day_from_year y =
     365 * (y - 1970) + (y - 1969) div 4 - (y - 1901) div 100 + (y - 1601) div 400"

definition leap_year :: "int \<Rightarrow> bool" where
  "leap_year y = (y mod 4 = 0 \<and> (y mod 100 \<noteq> 0 \<or> y mod 400 = 0))"

text \<open>The year a day falls in: an estimate from the mean length of a year, corrected by one.\<close>

definition year_from_day :: "int \<Rightarrow> int" where
  "year_from_day d =
     (let e = 1970 + (400 * d) div 146097
      in if d < day_from_year e then e - 1
         else if day_from_year (e + 1) \<le> d then e + 1 else e)"

fun month_and_date :: "int list \<Rightarrow> int \<Rightarrow> int \<Rightarrow> int \<times> int" where
  "month_and_date [] m d = (m, d + 1)"
| "month_and_date (l # ls) m d = (if d < l then (m, d + 1) else month_and_date ls (m + 1) (d - l))"

definition month_lengths :: "int \<Rightarrow> int list" where
  "month_lengths y = [31, if leap_year y then 29 else 28, 31, 30, 31, 30, 31, 31, 30, 31, 30]"

definition pad_digits :: "nat \<Rightarrow> int \<Rightarrow> string" where
  "pad_digits w n = (let s = show_nat (nat n) in replicate (w - length s) (CHR ''0'') @ s)"

definition iso_year :: "int \<Rightarrow> string" where
  "iso_year y =
     (if 0 \<le> y \<and> y \<le> 9999 then pad_digits 4 y
      else if y < 0 then CHR ''-'' # pad_digits 6 (- y)
      else CHR ''+'' # pad_digits 6 y)"

text \<open>\<open>None\<close> is the RangeError of an invalid date.\<close>

fun to_iso_string :: "date \<Rightarrow> string option" where
  "to_iso_string InvalidDate = None"
| "to_iso_string (At t) =
     (let day = t div MS_PER_DAY; ms = t mod MS_PER_DAY; y = year_from_day day;
          (m, d) = month_and_date (month_lengths y) 1 (day - day_from_year y)
      in Some (iso_year y @ ''-'' @ pad_digits 2 m @ ''-'' @ pad_digits 2 d @ ''T''
           @ pad_digits 2 (ms div 3600000) @ '':'' @ pad_digits 2 (ms div 60000 mod 60) @ '':''
           @ pad_digits 2 (ms div 1000 mod 60) @ ''.'' @ pad_digits 3 (ms mod 1000) @ ''Z''))"

text \<open>The estimate is off by at most one year.\<close>

lemma div_bounds: "0 < k \<Longrightarrow> k * (a div k) \<le> a \<and> a < k * (a div k) + k" for a k :: int
  by (metis add_left_cancel add_strict_left_mono less_add_same_cancel1 mult_div_mod_eq
      pos_mod_bound pos_mod_sign le_add_same_cancel1)

lemma year_estimate:
  fixes d :: int
  defines "q \<equiv> (400 * d) div 146097"
  shows "day_from_year (1970 + q - 1) \<le> d" "d < day_from_year (1970 + q + 2)"
proof -
  have q: "146097 * q \<le> 400 * d" "400 * d < 146097 * q + 146097"
    using div_bounds[of 146097 "400 * d"] by (simp_all add: q_def)
  show "day_from_year (1970 + q - 1) \<le> d"
    using q div_bounds[of 4 "q"] div_bounds[of 100 "q + 68"] div_bounds[of 400 "q + 368"]
    by (simp add: day_from_year_def)
  show "d < day_from_year (1970 + q + 2)"
    using q div_bounds[of 4 "q + 3"] div_bounds[of 100 "q + 71"] div_bounds[of 400 "q + 371"]
    by (simp add: day_from_year_def)
qed

lemma year_of_day:
  "day_from_year (year_from_day d) \<le> d \<and> d < day_from_year (year_from_day d + 1)"
  using year_estimate[of d] by (auto simp: year_from_day_def Let_def algebra_simps)

section \<open>The printed form determines the date\<close>

lemma digits_value_zeros: "digits_value (replicate k (CHR ''0'') @ s) = digits_value s"
  by (induction k) (simp_all add: foldl_append)

lemma pad_digits_all: "\<forall>c \<in> set (pad_digits w n). is_digit c"
  using show_nat_digits by (auto simp: pad_digits_def Let_def is_digit_def)

lemma pad_digits_value: "0 \<le> n \<Longrightarrow> int (digits_value (pad_digits w n)) = n"
  by (simp add: pad_digits_def Let_def digits_value_zeros digits_value_show_nat del: digits_value.simps)

lemma pad_digits_ne: "pad_digits w n \<noteq> []"
  by (simp add: pad_digits_def Let_def show_nat_ne)

text \<open>A padded numeral and the separator after it are read back.\<close>

lemma pad_field:
  assumes "pad_digits w m @ c # r = pad_digits v n @ c # q" "0 \<le> m" "0 \<le> n" "\<not> is_digit c"
  shows "m = n" "r = q"
proof -
  have tw: "takeWhile is_digit (pad_digits w k @ c # z) = pad_digits w k" for w k z
    using assms(4) pad_digits_all[of w k] by (simp add: takeWhile_append)
  have eq: "pad_digits w m = pad_digits v n"
    using arg_cong[OF assms(1), of "takeWhile is_digit"] by (simp only: tw)
  show "m = n"
    using arg_cong[OF eq, of "\<lambda>s. int (digits_value s)"]
    by (simp only: pad_digits_value[OF assms(2)] pad_digits_value[OF assms(3)])
  show "r = q"
    using assms(1) by (simp only: eq same_append_eq list.inject)
qed

definition year_sign :: "int \<Rightarrow> int" where
  "year_sign y = (if 0 \<le> y \<and> y \<le> 9999 then 0 else if y < 0 then -1 else 1)"

lemma iso_year_hd: "\<exists>h hs. iso_year y = h # hs
    \<and> year_sign y = (if is_digit h then 0 else if h = CHR ''-'' then -1 else 1)"
proof -
  obtain d ds where "pad_digits 4 y = d # ds" "is_digit d"
    using pad_digits_ne[of 4 y] pad_digits_all[of 4 y] by (cases "pad_digits 4 y") auto
  then show ?thesis
    by (simp add: iso_year_def year_sign_def is_digit_def)
qed

lemma iso_year_field:
  assumes "iso_year y @ CHR ''-'' # r = iso_year z @ CHR ''-'' # q"
  shows "y = z" "r = q"
proof -
  have "year_sign y = year_sign z"
    using assms iso_year_hd[of y] iso_year_hd[of z] by force
  then consider "0 \<le> y" "y \<le> 9999" "0 \<le> z" "z \<le> 9999" | "y < 0" "z < 0" | "9999 < y" "9999 < z"
    by (auto simp: year_sign_def split: if_splits)
  then have "y = z \<and> r = q"
  proof cases
    case 1
    with assms have "pad_digits 4 y @ CHR ''-'' # r = pad_digits 4 z @ CHR ''-'' # q"
      by (simp add: iso_year_def)
    from pad_field[OF this] 1 show ?thesis by (simp add: is_digit_def)
  next
    case 2
    with assms have "pad_digits 6 (- y) @ CHR ''-'' # r = pad_digits 6 (- z) @ CHR ''-'' # q"
      by (simp add: iso_year_def)
    from pad_field[OF this] 2 show ?thesis by (simp add: is_digit_def)
  next
    case 3
    with assms have "pad_digits 6 y @ CHR ''-'' # r = pad_digits 6 z @ CHR ''-'' # q"
      by (simp add: iso_year_def)
    from pad_field[OF this] 3 show ?thesis by (simp add: is_digit_def)
  qed
  then show "y = z" "r = q" by auto
qed

lemma month_and_date_inverse:
  "month_and_date ls m d = (m', d') \<Longrightarrow> 0 \<le> d \<Longrightarrow>
   m \<le> m' \<and> 1 \<le> d' \<and> d = sum_list (take (nat (m' - m)) ls) + d' - 1"
proof (induction ls m d rule: month_and_date.induct)
  case (1 m d)
  then show ?case by simp
next
  case (2 l ls m d)
  show ?case
  proof (cases "d < l")
    case True
    with 2 show ?thesis by simp
  next
    case False
    with 2 have "m + 1 \<le> m'" "1 \<le> d'" "d - l = sum_list (take (nat (m' - (m + 1))) ls) + d' - 1"
      by auto
    moreover from \<open>m + 1 \<le> m'\<close> have "nat (m' - m) = Suc (nat (m' - (m + 1)))" by simp
    ultimately show ?thesis by simp
  qed
qed

lemma time_of_fields:
  fixes ms :: int
  shows "ms = (ms div 3600000) * 3600000 + (ms div 60000 mod 60) * 60000
      + (ms div 1000 mod 60) * 1000 + ms mod 1000"
proof -
  have "ms div 60000 = ms div 1000 div 60" "ms div 3600000 = ms div 60000 div 60"
    by (simp_all flip: zdiv_zmult2_eq)
  moreover have "ms = ms div 1000 * 1000 + ms mod 1000"
    "ms div 1000 = ms div 1000 div 60 * 60 + ms div 1000 mod 60"
    "ms div 60000 = ms div 60000 div 60 * 60 + ms div 60000 mod 60"
    by simp_all
  ultimately show ?thesis by linarith
qed

lemma to_iso_string_inject:
  assumes "to_iso_string d = Some s" "to_iso_string e = Some s"
  shows "d = e"
proof -
  obtain t u where de: "d = At t" "e = At u"
    using assms by (cases d; cases e; simp)
  define day where "day x = x div MS_PER_DAY" for x
  define ms where "ms x = x mod MS_PER_DAY" for x
  define y where "y x = year_from_day (day x)" for x
  define md where "md x = month_and_date (month_lengths (y x)) 1 (day x - day_from_year (y x))" for x
  have md: "1 \<le> fst (md x) \<and> 1 \<le> snd (md x)
      \<and> day x = day_from_year (y x) + sum_list (take (nat (fst (md x) - 1)) (month_lengths (y x)))
          + snd (md x) - 1" for x
    using month_and_date_inverse[of "month_lengths (y x)" 1 "day x - day_from_year (y x)"
        "fst (md x)" "snd (md x)"] year_of_day[of "day x"]
    by (simp add: md_def y_def)
  have ms: "0 \<le> ms x" for x by (simp add: ms_def MS_PER_DAY_def)
  have layout: "to_iso_string (At x) = Some (iso_year (y x) @ CHR ''-'' # pad_digits 2 (fst (md x))
      @ CHR ''-'' # pad_digits 2 (snd (md x)) @ CHR ''T'' # pad_digits 2 (ms x div 3600000)
      @ CHR '':'' # pad_digits 2 (ms x div 60000 mod 60) @ CHR '':'' # pad_digits 2 (ms x div 1000 mod 60)
      @ CHR ''.'' # pad_digits 3 (ms x mod 1000) @ CHR ''Z'' # [])" for x
    by (simp add: Let_def md_def y_def day_def ms_def split: prod.split)
  have seps: "\<not> is_digit (CHR ''-'')" "\<not> is_digit (CHR ''T'')" "\<not> is_digit (CHR '':'')"
    "\<not> is_digit (CHR ''.'')" "\<not> is_digit (CHR ''Z'')"
    by (simp_all add: is_digit_def)
  from assms layout[of t] layout[of u] have eq: "iso_year (y t) @ CHR ''-'' # pad_digits 2 (fst (md t))
      @ CHR ''-'' # pad_digits 2 (snd (md t)) @ CHR ''T'' # pad_digits 2 (ms t div 3600000)
      @ CHR '':'' # pad_digits 2 (ms t div 60000 mod 60) @ CHR '':'' # pad_digits 2 (ms t div 1000 mod 60)
      @ CHR ''.'' # pad_digits 3 (ms t mod 1000) @ CHR ''Z'' # []
    = iso_year (y u) @ CHR ''-'' # pad_digits 2 (fst (md u))
      @ CHR ''-'' # pad_digits 2 (snd (md u)) @ CHR ''T'' # pad_digits 2 (ms u div 3600000)
      @ CHR '':'' # pad_digits 2 (ms u div 60000 mod 60) @ CHR '':'' # pad_digits 2 (ms u div 1000 mod 60)
      @ CHR ''.'' # pad_digits 3 (ms u mod 1000) @ CHR ''Z'' # []"
    by (simp add: de del: to_iso_string.simps)
  note y = iso_year_field[OF eq]
  note m = pad_field[OF y(2) _ _ seps(1)]
  note dd = pad_field[OF m(2) _ _ seps(2)]
  note h = pad_field[OF dd(2) _ _ seps(3)]
  note mi = pad_field[OF h(2) _ _ seps(3)]
  note se = pad_field[OF mi(2) _ _ seps(4)]
  note mil = pad_field[OF se(2) _ _ seps(5)]
  have pos: "0 \<le> fst (md x)" "0 \<le> snd (md x)" "0 \<le> ms x div 3600000"
      "0 \<le> ms x div 60000 mod 60" "0 \<le> ms x div 1000 mod 60" "0 \<le> ms x mod 1000" for x
    using md[of x] ms[of x] by (simp_all add: pos_imp_zdiv_nonneg_iff)
  have "fst (md t) = fst (md u)" "snd (md t) = snd (md u)"
    using m(1) dd(1) pos by auto
  with md[of t] md[of u] y(1) have day: "day t = day u" by simp
  have "ms t div 3600000 = ms u div 3600000"
    by (rule h(1); simp only: pos)
  moreover have "ms t div 60000 mod 60 = ms u div 60000 mod 60"
    by (rule mi(1); simp only: pos) 
  moreover have "ms t div 1000 mod 60 = ms u div 1000 mod 60"
    by (rule se(1); simp only: pos)
  moreover have "ms t mod 1000 = ms u mod 1000"
    by (rule mil(1); simp only: pos)
  ultimately have "ms t = ms u"
    using time_of_fields[of "ms t"] time_of_fields[of "ms u"] by linarith
  with day have "t = u"
    unfolding day_def ms_def by (metis div_mult_mod_eq)
  then show ?thesis by (simp add: de)
qed

lemma pad_digits_no_nul: "CHR 0x00 \<notin> set (pad_digits w n)"
  using pad_digits_all[of w n] by (auto simp: is_digit_def)

lemma iso_string_no_nul: "to_iso_string d = Some s \<Longrightarrow> CHR 0x00 \<notin> set s"
  by (cases d) (auto simp: iso_year_def Let_def pad_digits_no_nul split: prod.splits if_splits)

end
