(* ===== verification/ReplyPublication.thy ===== *)
theory ReplyPublication
  imports Prelude "HOL-Library.Sublist"
begin

text \<open>
  The publication workflow of a reply: \<^verbatim>\<open>src/contexts/review/domain/reply-publication-workflow.ts\<close>.
  The persisted publication state and its transition table, the idempotency key and the
  publication cycle, the timing rules of uncertain and pending writes, and the classification of
  provider failures by the evidence the gateway left. The lemmas show what the table guarantees
  about sends (one authorization per claim, no silent resend of an unknown outcome), that the
  read ladder of an ambiguous write ends, and that a failure is retried only on evidence.
\<close>

section \<open>Review errors\<close>

record review_error =
  re_code :: string
  re_message :: string
  re_context :: "(string \<times> jsval) list"

definition reviewError :: "string \<Rightarrow> string \<Rightarrow> (string \<times> jsval) list \<Rightarrow> review_error" where
  "reviewError code message context =
     \<lparr>re_code = code, re_message = message, re_context = context\<rparr>"

section \<open>Idempotency key and publication cycle\<close>

definition buildIdempotencyKey :: "string \<Rightarrow> int \<Rightarrow> string" where
  "buildIdempotencyKey replyId publicationCycle =
     ''reply-'' @ replyId @ ''-v'' @ show_int publicationCycle"

definition nextPublicationCycle :: "number \<Rightarrow> (review_error, number) result" where
  "nextPublicationCycle current =
     (if \<not> is_safe_integer current \<or> num_lt current (nint 0)
         \<or> num_le (nint max_safe_integer) current
      then err (reviewError ''invalid_transition'' ''Reply publication cycle is invalid''
                  [(''current'', JNum current)])
      else ok (num_add current (nint 1)))"

section \<open>The persisted publication state\<close>

datatype publication_state =
    P_requested
  | P_authorized
  | P_sending
  | P_pending_observation
  | P_published
  | P_terminal
  | P_ambiguous
  | P_cancelled

datatype publication_event =
    E_authorize
  | E_claim
  | E_provider_accepted
  | E_publish
  | E_fail_terminal
  | E_fail_ambiguous
  | E_requeue
  | E_cancel

fun publication_transitions :: "publication_state \<Rightarrow> publication_event \<Rightarrow> publication_state option"
where
  "publication_transitions P_requested e =
     (case e of E_authorize \<Rightarrow> Some P_authorized | E_fail_terminal \<Rightarrow> Some P_terminal
        | E_cancel \<Rightarrow> Some P_cancelled | _ \<Rightarrow> None)"
| "publication_transitions P_authorized e =
     (case e of E_claim \<Rightarrow> Some P_sending | E_fail_terminal \<Rightarrow> Some P_terminal
        | E_cancel \<Rightarrow> Some P_cancelled | _ \<Rightarrow> None)"
| "publication_transitions P_sending e =
     (case e of E_provider_accepted \<Rightarrow> Some P_pending_observation
        | E_fail_terminal \<Rightarrow> Some P_terminal | E_fail_ambiguous \<Rightarrow> Some P_ambiguous
        | E_requeue \<Rightarrow> Some P_authorized | E_cancel \<Rightarrow> Some P_cancelled | _ \<Rightarrow> None)"
| "publication_transitions P_pending_observation e =
     (case e of E_publish \<Rightarrow> Some P_published | E_fail_ambiguous \<Rightarrow> Some P_ambiguous
        | E_cancel \<Rightarrow> Some P_cancelled | _ \<Rightarrow> None)"
| "publication_transitions P_published e = None"
| "publication_transitions P_terminal e =
     (case e of E_authorize \<Rightarrow> Some P_authorized | E_publish \<Rightarrow> Some P_published | _ \<Rightarrow> None)"
| "publication_transitions P_ambiguous e =
     (case e of E_publish \<Rightarrow> Some P_published | E_fail_terminal \<Rightarrow> Some P_terminal | _ \<Rightarrow> None)"
| "publication_transitions P_cancelled e =
     (case e of E_authorize \<Rightarrow> Some P_authorized | _ \<Rightarrow> None)"

text \<open>\<open>None\<close> as the current state is the NULL of the column: no workflow is active.\<close>

fun nextPublicationState ::
  "publication_state option \<Rightarrow> publication_event \<Rightarrow> publication_state option" where
  "nextPublicationState None e =
     (if e = E_authorize then Some P_authorized
      else if e = E_publish then Some P_published else None)"
| "nextPublicationState (Some s) e = publication_transitions s e"

section \<open>Timing\<close>

definition MINUTE_MS :: int where "MINUTE_MS = 60000"
definition HOUR_MS :: int where "HOUR_MS = 60 * MINUTE_MS"

definition AMBIGUOUS_RECONCILE_DELAY_MS :: int where
  "AMBIGUOUS_RECONCILE_DELAY_MS = 15 * 60 * 1000"
definition UNCERTAIN_SEND_PROPAGATION_GRACE_MS :: int where
  "UNCERTAIN_SEND_PROPAGATION_GRACE_MS = 15 * MINUTE_MS"
definition UNCERTAIN_SEND_RECHECK_DELAY_MS :: int where
  "UNCERTAIN_SEND_RECHECK_DELAY_MS = MINUTE_MS"

definition AMBIGUOUS_RECONCILE_LADDER_MS :: "int list" where
  "AMBIGUOUS_RECONCILE_LADDER_MS =
     [15 * MINUTE_MS, 30 * MINUTE_MS, HOUR_MS, 2 * HOUR_MS, 4 * HOUR_MS, 8 * HOUR_MS,
      24 * HOUR_MS, 48 * HOUR_MS, 72 * HOUR_MS]"

definition PROVIDER_OBSERVATION_RECONCILE_DELAY_MS :: int where
  "PROVIDER_OBSERVATION_RECONCILE_DELAY_MS = 60 * 1000"
definition PROVIDER_OBSERVATION_PROPAGATION_GRACE_MS :: int where
  "PROVIDER_OBSERVATION_PROPAGATION_GRACE_MS = 15 * 60 * 1000"
definition PROVIDER_OBSERVATION_PROPAGATION_GRACE_MAX_READS :: int where
  "PROVIDER_OBSERVATION_PROPAGATION_GRACE_MAX_READS = 3"
definition PUBLICATION_RECOVERY_RECONCILE_DELAY_MS :: int where
  "PUBLICATION_RECOVERY_RECONCILE_DELAY_MS = 20 * 60 * 1000"

record attempt_clock =
  attemptStartedAt :: date
  clock_now :: date

definition canDeferUncertainSend :: "attempt_clock \<Rightarrow> bool" where
  "canDeferUncertainSend input =
     (let ageMs = num_sub (get_time (clock_now input)) (get_time (attemptStartedAt input))
      in is_finite ageMs \<and> num_le (nint 0) ageMs
         \<and> num_lt ageMs (nint UNCERTAIN_SEND_PROPAGATION_GRACE_MS))"

definition nextAmbiguousReconcileDueAt :: "attempt_clock \<Rightarrow> date option" where
  "nextAmbiguousReconcileDueAt input =
     (let nowMs = get_time (clock_now input);
          startMs = num_min (get_time (attemptStartedAt input)) nowMs
      in if \<not> is_finite nowMs \<or> \<not> is_finite startMs then None
         else
           let ageMs = num_sub nowMs startMs
           in case List.find (\<lambda>offsetMs. num_lt ageMs (nint offsetMs)) AMBIGUOUS_RECONCILE_LADDER_MS of
                None \<Rightarrow> None
              | Some rung \<Rightarrow>
                  Some (new_date (num_max (num_add startMs (nint rung))
                                   (num_add nowMs (nint UNCERTAIN_SEND_RECHECK_DELAY_MS)))))"

definition canDeferPendingProviderObservation :: "attempt_clock \<Rightarrow> number \<Rightarrow> bool" where
  "canDeferPendingProviderObservation input absentObservationCount =
     (let ageMs = num_sub (get_time (clock_now input)) (get_time (attemptStartedAt input))
      in is_finite ageMs \<and> num_le (nint 0) ageMs
         \<and> num_lt ageMs (nint PROVIDER_OBSERVATION_PROPAGATION_GRACE_MS)
         \<and> is_safe_integer absentObservationCount
         \<and> num_le (nint 1) absentObservationCount
         \<and> num_le absentObservationCount (nint PROVIDER_OBSERVATION_PROPAGATION_GRACE_MAX_READS))"

definition canDeferUnreadablePendingObservation :: "attempt_clock \<Rightarrow> bool" where
  "canDeferUnreadablePendingObservation input =
     (let ageMs = num_sub (get_time (clock_now input)) (get_time (attemptStartedAt input))
      in is_finite ageMs \<and> num_le (nint 0) ageMs
         \<and> num_lt ageMs (nint PROVIDER_OBSERVATION_PROPAGATION_GRACE_MS))"

section \<open>Classification of provider failures\<close>

datatype failure_class = Terminal_rejection | Retryable | Ambiguous

datatype failure_dispatch = Not_sent | Answered | Unknown_dispatch

definition PRE_REQUEST_TERMINAL_CODES :: "string list" where
  "PRE_REQUEST_TERMINAL_CODES =
     [''connection_not_found'', ''connection_inactive'', ''connection_disconnected'',
      ''authorization_changed'', ''reauthorization_required'']"

fun is_str :: "jsval \<Rightarrow> bool" where
  "is_str (JStr s) = True"
| "is_str v = False"

definition isIntegrationErrorShape :: "jsval \<Rightarrow> bool" where
  "isIntegrationErrorShape e =
     (is_object e \<and> has_prop ''_tag'' e \<and> prop_of e ''_tag'' = JStr ''IntegrationError''
      \<and> has_prop ''code'' e \<and> is_str (prop_of e ''code''))"

definition isReviewApiErrorShape :: "jsval \<Rightarrow> bool" where
  "isReviewApiErrorShape e =
     (is_object e \<and> has_prop ''_tag'' e \<and> prop_of e ''_tag'' = JStr ''GoogleReviewApiError''
      \<and> has_prop ''code'' e \<and> is_str (prop_of e ''code''))"

definition GBP_ERROR_KINDS :: "string list" where
  "GBP_ERROR_KINDS =
     [''auth_failed'', ''rate_limited'', ''permission_denied'', ''upstream_error'', ''parse_error'']"

definition isGbpApiErrorShape :: "jsval \<Rightarrow> bool" where
  "isGbpApiErrorShape e =
     (if \<not> is_object e \<or> \<not> has_prop ''_tag'' e \<or> prop_of e ''_tag'' \<noteq> JStr ''GbpApiError''
         \<or> \<not> has_prop ''kind'' e
      then False
      else (\<exists>k \<in> set GBP_ERROR_KINDS. prop_of e ''kind'' = JStr k))"

definition isAbortError :: "jsval \<Rightarrow> bool" where
  "isAbortError e =
     (is_object e \<and> has_prop ''name'' e \<and> prop_of e ''name'' = JStr ''AbortError'')"

definition classifyGbpApiError :: "jsval \<Rightarrow> failure_class" where
  "classifyGbpApiError context =
     (let status = (if is_object context \<and> has_prop ''status'' context
                    then prop_of context ''status'' else JUndefined)
      in case status of
           JNum n \<Rightarrow>
             if num_le (nint 400) n \<and> num_lt n (nint 500) then Terminal_rejection
             else if num_le (nint 500) n then Ambiguous else Ambiguous
         | _ \<Rightarrow> Ambiguous)"

record failure_evidence =
  executionCode :: "string option"
  dispatch :: failure_dispatch
  providerStatus :: "number option"

definition NO_EVIDENCE :: failure_evidence where
  "NO_EVIDENCE = \<lparr>executionCode = None, dispatch = Unknown_dispatch, providerStatus = None\<rparr>"

definition readDispatch :: "jsval \<Rightarrow> failure_dispatch" where
  "readDispatch v =
     (if v = JStr ''not_sent'' then Not_sent
      else if v = JStr ''answered'' then Answered else Unknown_dispatch)"

fun readCode :: "jsval \<Rightarrow> string option" where
  "readCode (JStr s) = (if length s > 0 then Some s else None)"
| "readCode v = None"

fun readStatus :: "jsval \<Rightarrow> number option" where
  "readStatus (JNum n) = (if is_safe_integer n then Some n else None)"
| "readStatus v = None"

definition fieldOf :: "jsval \<Rightarrow> string \<Rightarrow> jsval" where
  "fieldOf v k = (if is_object v \<and> has_prop k v then prop_of v k else JUndefined)"

text \<open>\<^verbatim>\<open>??\<close> on a value that is null or present.\<close>

definition coalesce :: "'a option \<Rightarrow> 'a option \<Rightarrow> 'a option" where
  "coalesce a b = (case a of None \<Rightarrow> b | Some x \<Rightarrow> Some x)"

definition publicationFailureEvidence :: "jsval \<Rightarrow> failure_evidence" where
  "publicationFailureEvidence e =
     (if isReviewApiErrorShape e then
        (let failure = fieldOf e ''failure''
         in if \<not> is_object failure then NO_EVIDENCE
            else \<lparr>executionCode = readCode (fieldOf failure ''executionCode''),
                  dispatch = readDispatch (fieldOf failure ''dispatch''),
                  providerStatus = readStatus (fieldOf failure ''providerStatus'')\<rparr>)
      else if isGbpApiErrorShape e then
        \<lparr>executionCode = coalesce (readCode (fieldOf e ''executionAdmissionCode''))
                            (readCode (fieldOf e ''executionCode'')),
         dispatch = readDispatch (fieldOf e ''dispatch''),
         providerStatus = readStatus (fieldOf e ''providerStatus'')\<rparr>
      else NO_EVIDENCE)"

definition classifyByDispatch :: "failure_evidence \<Rightarrow> failure_class option" where
  "classifyByDispatch evidence =
     (if dispatch evidence = Not_sent then
        Some (if executionCode evidence = Some ''malformed_request''
              then Terminal_rejection else Retryable)
      else if dispatch evidence = Answered then
        Some (case providerStatus evidence of
                None \<Rightarrow> Ambiguous
              | Some status \<Rightarrow>
                  if num_eq status (nint 429) then Retryable
                  else if num_le (nint 400) status \<and> num_lt status (nint 500)
                  then Terminal_rejection
                  else Ambiguous)
      else None)"

definition classifyGatewayError :: "jsval \<Rightarrow> failure_class" where
  "classifyGatewayError e =
     (if prop_of e ''kind'' = JStr ''auth_failed'' \<or> prop_of e ''kind'' = JStr ''permission_denied''
      then Terminal_rejection
      else case classifyByDispatch (publicationFailureEvidence e) of
             Some c \<Rightarrow> c
           | None \<Rightarrow> if prop_of e ''kind'' = JStr ''rate_limited'' then Retryable else Ambiguous)"

definition pre_request_terminal :: "jsval \<Rightarrow> bool" where
  "pre_request_terminal code = (\<exists>c \<in> set PRE_REQUEST_TERMINAL_CODES. code = JStr c)"

definition classifyReviewApiError :: "jsval \<Rightarrow> failure_class" where
  "classifyReviewApiError e =
     (if pre_request_terminal (prop_of e ''code'') \<or> prop_of e ''code'' = JStr ''invalid_request''
      then Terminal_rejection
      else case classifyByDispatch (publicationFailureEvidence e) of
             Some c \<Rightarrow> c
           | None \<Rightarrow>
               if prop_of e ''code'' = JStr ''provider_rate_limited'' then Retryable else Ambiguous)"

datatype failure_cause = Google_reauthorization_required

definition publicationFailureCause :: "jsval \<Rightarrow> failure_cause option" where
  "publicationFailureCause e =
     (let code = (if isReviewApiErrorShape e \<or> isIntegrationErrorShape e
                  then prop_of e ''code'' else JNull)
      in if code = JStr ''reauthorization_required''
         then Some Google_reauthorization_required else None)"

definition classifyPublicationFailure :: "jsval \<Rightarrow> failure_class" where
  "classifyPublicationFailure e =
     (if isAbortError e then Ambiguous
      else if isGbpApiErrorShape e then classifyGatewayError e
      else if isReviewApiErrorShape e then classifyReviewApiError e
      else if \<not> isIntegrationErrorShape e then Ambiguous
      else if prop_of e ''code'' = JStr ''gbp_api_rate_limited'' then Retryable
      else if prop_of e ''code'' = JStr ''gbp_api_error'' then classifyGbpApiError (prop_of e ''context'')
      else if prop_of e ''code'' = JStr ''token_refresh_failed'' then Retryable
      else if pre_request_terminal (prop_of e ''code'') then Terminal_rejection
      else Ambiguous)"


section \<open>Keys and cycles\<close>

lemma takeWhile_rev_suffix:
  assumes "\<forall>c \<in> set ds. P c" "\<not> P x"
  shows "takeWhile P (rev (xs @ [x] @ ds)) = rev ds"
proof -
  have "takeWhile P (rev ds @ x # rev xs) = rev ds @ takeWhile P (x # rev xs)"
    using assms(1) by (intro takeWhile_append2) auto
  with assms(2) show ?thesis by simp
qed

lemma key_split:
  "buildIdempotencyKey r (int c) = (''reply-'' @ r @ ''-'') @ [CHR ''v''] @ show_nat c"
  by (simp add: buildIdempotencyKey_def show_int_def)

lemma key_digits:
  "takeWhile is_digit (rev (buildIdempotencyKey r (int c))) = rev (show_nat c)"
  unfolding key_split
  by (rule takeWhile_rev_suffix) (rule show_nat_digits, simp add: is_digit_def)

text \<open>
  C38. The idempotency key identifies the reply and its publication cycle, whatever characters
  the reply id contains: two publications share a key exactly when they are the same cycle of
  the same reply.
\<close>

theorem idempotency_key_injective:
  assumes "0 \<le> c" "0 \<le> d"
  shows "buildIdempotencyKey r c = buildIdempotencyKey s d \<longleftrightarrow> r = s \<and> c = d"
proof
  assume eq: "buildIdempotencyKey r c = buildIdempotencyKey s d"
  obtain m n where c: "c = int m" and d: "d = int n"
    using assms by (metis nonneg_int_cases)
  have "show_nat m = show_nat n"
    using eq key_digits[of r m] key_digits[of s n] by (simp add: c d)
  with eq show "r = s \<and> c = d"
    by (simp add: c d key_split)
qed simp

theorem idempotency_key_injective_witness:
  "buildIdempotencyKey ''a-v1'' 2 \<noteq> buildIdempotencyKey ''a'' 12"
  using idempotency_key_injective [of 2 12 "''a-v1''" "''a''"] by simp

text \<open>
  The publication cycle advances exactly on the safe integers from 0 below the largest one,
  by one and to a safe integer, so no cycle number repeats; every other number (a fraction, NaN,
  an infinity, a negative or the largest safe integer itself) is refused.
\<close>

theorem publication_cycle_advances:
  "nextPublicationCycle n = ok m \<longleftrightarrow>
     (\<exists>k. n = nint k \<and> 0 \<le> k \<and> k < max_safe_integer \<and> m = nint (k + 1))"
proof
  assume "nextPublicationCycle n = ok m"
  then have ok: "is_safe_integer n" "\<not> num_lt n (nint 0)" "\<not> num_le (nint max_safe_integer) n"
    and m: "m = num_add n (nint 1)"
    by (auto simp: nextPublicationCycle_def split: if_splits)
  from ok(1) obtain k where k: "n = nint k" by (rule is_safe_integerE)
  show "\<exists>k. n = nint k \<and> 0 \<le> k \<and> k < max_safe_integer \<and> m = nint (k + 1)"
    using ok(2,3) m k by auto
next
  assume "\<exists>k. n = nint k \<and> 0 \<le> k \<and> k < max_safe_integer \<and> m = nint (k + 1)"
  then show "nextPublicationCycle n = ok m"
    by (auto simp: nextPublicationCycle_def)
qed

section \<open>Runs of the workflow\<close>

definition workflow_step ::
  "publication_state option \<Rightarrow> publication_event \<Rightarrow> publication_state option option" where
  "workflow_step s e = map_option Some (nextPublicationState s e)"

lemma workflow_step_iff:
  "workflow_step s e = Some t \<longleftrightarrow> (\<exists>u. nextPublicationState s e = Some u \<and> t = Some u)"
  by (auto simp: workflow_step_def)

lemma published_is_final: "run workflow_step (Some P_published) es = Some s \<Longrightarrow> es = []"
  by (cases es) (simp_all add: workflow_step_def)

lemma reaching_sending_claims:
  "run workflow_step s es = Some (Some P_sending) \<Longrightarrow> s \<noteq> Some P_sending \<Longrightarrow> E_claim \<in> set es"
proof (induction es arbitrary: s)
  case Nil
  then show ?case by simp
next
  case (Cons e es)
  from Cons.prems(1) obtain t where t: "nextPublicationState s e = Some t"
      and r: "run workflow_step (Some t) es = Some (Some P_sending)"
    unfolding run_Cons_iff workflow_step_iff by blast
  show ?case
  proof (cases "t = P_sending")
    case True
    with t have "e = E_claim"
      by (cases "(s, e)" rule: nextPublicationState.cases)
         (auto elim!: publication_transitions.elims split: publication_event.splits if_splits)
    then show ?thesis by simp
  next
    case False
    with Cons.IH[OF r] show ?thesis by simp
  qed
qed

lemma terminal_to_sending:
  assumes "run workflow_step (Some P_terminal) es = Some (Some P_sending)"
  shows "subseq [E_authorize, E_claim] es"
proof (cases es)
  case Nil
  with assms show ?thesis by simp
next
  case (Cons e fs)
  show ?thesis
  proof (cases "e = E_authorize")
    case True
    with assms Cons have "run workflow_step (Some P_authorized) fs = Some (Some P_sending)"
      by (simp add: workflow_step_def)
    then have "E_claim \<in> set fs"
      by (rule reaching_sending_claims) simp
    with True Cons show ?thesis
      by (simp add: subseq_singleton_left)
  next
    case False
    with assms Cons have "e = E_publish \<and> run workflow_step (Some P_published) fs = Some (Some P_sending)"
      by (cases e) (simp_all add: workflow_step_def)
    then show ?thesis
      using published_is_final by fastforce
  qed
qed



text \<open>The workflow with the log of its events, an instance of the guarded machine.\<close>

fun logged_step ::
  "publication_state option \<times> publication_event list \<Rightarrow> publication_event \<Rightarrow>
   (publication_state option \<times> publication_event list) option" where
  "logged_step (s, evs) e = map_option (\<lambda>t. (Some t, evs @ [e])) (nextPublicationState s e)"

text \<open>
  Every claim uses up a grant, an authorization or a requeue, and an \<open>authorized\<close> row holds one
  that is not used yet.
\<close>

fun grants_cover_claims :: "publication_state option \<times> publication_event list \<Rightarrow> bool" where
  "grants_cover_claims (s, evs) =
     (count_list evs E_claim + (if s = Some P_authorized then 1 else 0)
        \<le> count_list evs E_authorize + count_list evs E_requeue)"

fun published_by_event :: "publication_state option \<times> publication_event list \<Rightarrow> bool" where
  "published_by_event (s, evs) =
     (s = Some P_published \<longrightarrow> evs \<noteq> [] \<and> last evs = E_publish)"

lemma count_list_snoc: "count_list (xs @ [y]) x = count_list xs x + (if x = y then 1 else 0)"
  by simp

interpretation grants: guarded_machine logged_step grants_cover_claims
proof unfold_locales
  fix c e c'
  assume inv: "grants_cover_claims c" and step: "logged_step c e = Some c'"
  obtain s evs where c: "c = (s, evs)" by (cases c)
  from step c obtain t where t: "nextPublicationState s e = Some t" and c': "c' = (Some t, evs @ [e])"
    by auto
  show "grants_cover_claims c'"
    using inv t unfolding c c'
    by (cases "(s, e)" rule: nextPublicationState.cases)
       (auto elim!: publication_transitions.elims split: publication_event.splits if_splits)
qed

interpretation published: guarded_machine logged_step published_by_event
proof unfold_locales
  fix c e c'
  assume step: "logged_step c e = Some c'"
  obtain s evs where c: "c = (s, evs)" by (cases c)
  from step c obtain t where t: "nextPublicationState s e = Some t" and c': "c' = (Some t, evs @ [e])"
    by auto
  show "published_by_event c'"
    using t unfolding c'
    by (cases "(s, e)" rule: nextPublicationState.cases)
       (auto elim!: publication_transitions.elims split: publication_event.splits if_splits)
qed

lemma run_logged:
  "run workflow_step s es = Some t \<Longrightarrow> run logged_step (s, evs) es = Some (t, evs @ es)"
proof (induction es arbitrary: s evs)
  case Nil
  then show ?case by simp
next
  case (Cons e es)
  from Cons.prems obtain u where u: "nextPublicationState s e = Some u"
      and r: "run workflow_step (Some u) es = Some t"
    unfolding run_Cons_iff workflow_step_iff by blast
  from Cons.IH[OF r] u show ?case by simp
qed

text \<open>
  C28. In every run of the workflow of a reply, from its first authorization on, the number of
  write attempts claimed never exceeds the number of authorizations and classified requeues, and
  \<open>published\<close> is only ever the result of a provider observation.
\<close>

theorem claims_are_covered_by_grants:
  assumes "run workflow_step None es = Some s"
  shows "count_list es E_claim \<le> count_list es E_authorize + count_list es E_requeue
    \<and> (s = Some P_published \<longrightarrow> es \<noteq> [] \<and> last es = E_publish)"
proof -
  have r: "run logged_step (None, []) es = Some (s, es)"
    using run_logged[OF assms, of "[]"] by simp
  have "grants_cover_claims (s, es)"
    by (rule grants.run_inv[OF _ r]) simp
  moreover have "published_by_event (s, es)"
    by (rule published.run_inv[OF _ r]) simp
  ultimately show ?thesis by (auto split: if_splits)
qed

theorem claims_are_covered_by_grants_witness:
  "count_list [E_authorize, E_claim, E_requeue, E_claim, E_provider_accepted, E_publish] E_claim \<le> 2"
  using claims_are_covered_by_grants
    [of "[E_authorize, E_claim, E_requeue, E_claim, E_provider_accepted, E_publish]" "Some P_published"]
  by (simp add: workflow_step_def)


section \<open>The read ladder\<close>

lemmas ladder_defs = AMBIGUOUS_RECONCILE_LADDER_MS_def HOUR_MS_def MINUTE_MS_def
  UNCERTAIN_SEND_RECHECK_DELAY_MS_def UNCERTAIN_SEND_PROPAGATION_GRACE_MS_def

text \<open>The rungs still ahead of an attempt of the given age.\<close>

definition rungs_left :: "int \<Rightarrow> int list" where
  "rungs_left age = filter (\<lambda>r. age < r) AMBIGUOUS_RECONCILE_LADDER_MS"

lemma next_due_none:
  "nextAmbiguousReconcileDueAt \<lparr>attemptStartedAt = At s, clock_now = At n\<rparr> = None
     \<longleftrightarrow> 72 * HOUR_MS \<le> n - s"
  by (auto simp: nextAmbiguousReconcileDueAt_def ladder_defs min_def split: option.splits if_splits)

lemma next_due_some:
  assumes "nextAmbiguousReconcileDueAt \<lparr>attemptStartedAt = At s, clock_now = At n\<rparr> = Some d"
  obtains r where "r \<in> set AMBIGUOUS_RECONCILE_LADDER_MS" "n - min s n < r"
    "d = new_date (nint (max (min s n + r) (n + MINUTE_MS)))"
    "\<forall>q \<in> set AMBIGUOUS_RECONCILE_LADDER_MS. n - min s n < q \<longrightarrow> r \<le> q"
proof -
  let ?age = "n - min s n"
  let ?found = "List.find (\<lambda>q. ?age < q) AMBIGUOUS_RECONCILE_LADDER_MS"
  from assms obtain r where f: "?found = Some r"
    and d: "d = new_date (nint (max (min s n + r) (n + MINUTE_MS)))"
    by (auto simp: nextAmbiguousReconcileDueAt_def UNCERTAIN_SEND_RECHECK_DELAY_MS_def
        split: option.splits)
  from f have r: "r \<in> set AMBIGUOUS_RECONCILE_LADDER_MS" "?age < r"
    by (auto simp: find_Some_iff)
  moreover have "\<forall>q \<in> set AMBIGUOUS_RECONCILE_LADDER_MS. ?age < q \<longrightarrow> r \<le> q"
    using f by (auto simp: ladder_defs split: if_splits)
  ultimately show ?thesis using d that by blast
qed

text \<open>
  A sequence of read-only checks of one attempt, each taken at or after the time the one before
  it scheduled.
\<close>

fun ladder_checks :: "int \<Rightarrow> int \<Rightarrow> int list \<Rightarrow> bool" where
  "ladder_checks s n [] = True"
| "ladder_checks s n (t # ts) =
     ((case nextAmbiguousReconcileDueAt \<lparr>attemptStartedAt = At s, clock_now = At n\<rparr> of
         Some (At d) \<Rightarrow> d \<le> t
       | _ \<Rightarrow> False) \<and> ladder_checks s t ts)"

lemma rungs_left_decrease:
  assumes "s \<le> n"
    and "nextAmbiguousReconcileDueAt \<lparr>attemptStartedAt = At s, clock_now = At n\<rparr> = Some (At d)"
    and "d \<le> t"
  shows "n < t" "length (rungs_left (t - s)) < length (rungs_left (n - s))"
proof -
  from assms(2) obtain r where r: "r \<in> set AMBIGUOUS_RECONCILE_LADDER_MS" "n - s < r"
      and d: "At d = new_date (nint (max (s + r) (n + MINUTE_MS)))"
    using assms(1) by (auto elim!: next_due_some simp: min_absorb1)
  from d have "d = max (s + r) (n + MINUTE_MS)"
    by (auto split: if_splits)
  with assms(3) have t: "s + r \<le> t" "n + MINUTE_MS \<le> t"
    by auto
  then show "n < t" by (simp add: MINUTE_MS_def)
  have "r \<in> set (rungs_left (n - s))" "\<not> t - s < r"
    using r t by (auto simp: rungs_left_def)
  then have "length (filter (\<lambda>q. t - s < q) (rungs_left (n - s))) < length (rungs_left (n - s))"
    by (rule length_filter_less)
  moreover have "rungs_left (t - s) = filter (\<lambda>q. t - s < q) (rungs_left (n - s))"
    using \<open>n < t\<close> by (auto simp: rungs_left_def intro!: filter_cong)
  ultimately show "length (rungs_left (t - s)) < length (rungs_left (n - s))"
    by simp
qed

lemma ladder_checks_bound:
  "s \<le> n \<Longrightarrow> ladder_checks s n ts \<Longrightarrow> length ts \<le> length (rungs_left (n - s))"
proof (induction ts arbitrary: n)
  case Nil
  then show ?case by simp
next
  case (Cons t ts)
  from Cons.prems(2) obtain d where
      d: "nextAmbiguousReconcileDueAt \<lparr>attemptStartedAt = At s, clock_now = At n\<rparr> = Some (At d)"
         "d \<le> t"
    by (auto split: option.splits date.splits)
  note dec = rungs_left_decrease[OF Cons.prems(1) d]
  from dec(1) Cons.prems have "length ts \<le> length (rungs_left (t - s))"
    by (intro Cons.IH) auto
  with dec(2) show ?case by simp
qed

text \<open>
  C39. The read ladder of an ambiguous publication ends: however late the sweep is, at most nine
  checks are scheduled for one attempt, and none once the attempt is 72 hours old.
\<close>

theorem ambiguous_ladder_terminates:
  assumes "s \<le> n" "ladder_checks s n ts"
  shows "length ts \<le> 9
    \<and> (nextAmbiguousReconcileDueAt \<lparr>attemptStartedAt = At s, clock_now = At n\<rparr> = None
         \<longleftrightarrow> 72 * HOUR_MS \<le> n - s)"
proof -
  have "length (rungs_left (n - s)) \<le> 9"
    unfolding rungs_left_def
    by (rule order_trans[OF length_filter_le]) (simp add: AMBIGUOUS_RECONCILE_LADDER_MS_def)
  with ladder_checks_bound[OF assms] show ?thesis
    by (simp add: next_due_none)
qed

theorem ambiguous_ladder_terminates_witness:
  "length [900000, 1800000, 3600000 :: int] \<le> 9"
  using ambiguous_ladder_terminates [of 0 0 "[900000, 1800000, 3600000]"]
  by (simp add: nextAmbiguousReconcileDueAt_def ladder_defs max_time_value_def)

text \<open>
  The timing rules agree with each other. Every scheduled read lies at least a minute ahead
  of the clock and at or after the end of the propagation grace; inside the grace an uncertain
  send is deferred and its next read is the first rung, and outside it no wait is granted. With
  an unreadable time every rule fails closed: no deferral and no read.
\<close>

theorem reconcile_timing:
  "(\<forall>d. nextAmbiguousReconcileDueAt \<lparr>attemptStartedAt = At s, clock_now = At n\<rparr> = Some (At d)
        \<longrightarrow> n + MINUTE_MS \<le> d \<and> min s n + UNCERTAIN_SEND_PROPAGATION_GRACE_MS \<le> d)
   \<and> (canDeferUncertainSend \<lparr>attemptStartedAt = At s, clock_now = At n\<rparr>
        \<longleftrightarrow> s \<le> n \<and> n < s + UNCERTAIN_SEND_PROPAGATION_GRACE_MS)
   \<and> (canDeferPendingProviderObservation \<lparr>attemptStartedAt = At s, clock_now = At n\<rparr> c
        \<longrightarrow> canDeferUnreadablePendingObservation \<lparr>attemptStartedAt = At s, clock_now = At n\<rparr>)
   \<and> (a = InvalidDate \<or> b = InvalidDate \<longrightarrow>
        \<not> canDeferUncertainSend \<lparr>attemptStartedAt = a, clock_now = b\<rparr>
        \<and> \<not> canDeferUnreadablePendingObservation \<lparr>attemptStartedAt = a, clock_now = b\<rparr>
        \<and> nextAmbiguousReconcileDueAt \<lparr>attemptStartedAt = a, clock_now = b\<rparr> = None)"
proof -
  have "n + MINUTE_MS \<le> d \<and> min s n + UNCERTAIN_SEND_PROPAGATION_GRACE_MS \<le> d"
    if "nextAmbiguousReconcileDueAt \<lparr>attemptStartedAt = At s, clock_now = At n\<rparr> = Some (At d)" for d
  proof -
    from that obtain r where r: "r \<in> set AMBIGUOUS_RECONCILE_LADDER_MS"
        and d: "At d = new_date (nint (max (min s n + r) (n + MINUTE_MS)))"
      by (rule next_due_some)
    from r have "15 * MINUTE_MS \<le> r"
      by (auto simp: ladder_defs)
    with d show ?thesis
      by (auto simp: UNCERTAIN_SEND_PROPAGATION_GRACE_MS_def split: if_splits)
  qed
  moreover have "canDeferUncertainSend \<lparr>attemptStartedAt = At s, clock_now = At n\<rparr>
        \<longleftrightarrow> s \<le> n \<and> n < s + UNCERTAIN_SEND_PROPAGATION_GRACE_MS"
    by (auto simp: canDeferUncertainSend_def)
  moreover have "canDeferPendingProviderObservation \<lparr>attemptStartedAt = At s, clock_now = At n\<rparr> c
        \<longrightarrow> canDeferUnreadablePendingObservation \<lparr>attemptStartedAt = At s, clock_now = At n\<rparr>"
    by (auto simp: canDeferPendingProviderObservation_def canDeferUnreadablePendingObservation_def)
  moreover have "a = InvalidDate \<or> b = InvalidDate \<longrightarrow>
        \<not> canDeferUncertainSend \<lparr>attemptStartedAt = a, clock_now = b\<rparr>
        \<and> \<not> canDeferUnreadablePendingObservation \<lparr>attemptStartedAt = a, clock_now = b\<rparr>
        \<and> nextAmbiguousReconcileDueAt \<lparr>attemptStartedAt = a, clock_now = b\<rparr> = None"
    by (auto simp: canDeferUncertainSend_def canDeferUnreadablePendingObservation_def
        nextAmbiguousReconcileDueAt_def)
  ultimately show ?thesis by blast
qed

theorem reconcile_timing_witness:
  "canDeferUncertainSend \<lparr>attemptStartedAt = At 0, clock_now = At 60000\<rparr>
   \<and> nextAmbiguousReconcileDueAt \<lparr>attemptStartedAt = InvalidDate, clock_now = At 5\<rparr> = None"
  using reconcile_timing [of 0 60000 "nint 1" InvalidDate "At 5"]
  by (simp add: UNCERTAIN_SEND_PROPAGATION_GRACE_MS_def MINUTE_MS_def)

section \<open>What a classification rests on\<close>

text \<open>The evidence and codes on which a failure may be sent again.\<close>

definition retry_evidence :: "jsval \<Rightarrow> bool" where
  "retry_evidence e =
     (let ev = publicationFailureEvidence e in
        (dispatch ev = Not_sent \<and> executionCode ev \<noteq> Some ''malformed_request'')
        \<or> (dispatch ev = Answered \<and> providerStatus ev = Some (nint 429))
        \<or> (dispatch ev = Unknown_dispatch
             \<and> (prop_of e ''kind'' = JStr ''rate_limited''
                \<or> prop_of e ''code'' \<in> {JStr ''provider_rate_limited'', JStr ''gbp_api_rate_limited'',
                                        JStr ''token_refresh_failed''})))"

lemma classifyByDispatch_retry:
  "classifyByDispatch ev = Some Retryable \<Longrightarrow>
     (dispatch ev = Not_sent \<and> executionCode ev \<noteq> Some ''malformed_request'')
     \<or> (dispatch ev = Answered \<and> providerStatus ev = Some (nint 429))"
  by (auto simp: classifyByDispatch_def num_eq_def split: if_splits option.splits)

lemma classifyByDispatch_none: "classifyByDispatch ev = None \<Longrightarrow> dispatch ev = Unknown_dispatch"
  by (cases "dispatch ev") (auto simp: classifyByDispatch_def)

lemma gateway_not_review: "isGbpApiErrorShape e \<Longrightarrow> \<not> isReviewApiErrorShape e"
  by (auto simp: isGbpApiErrorShape_def isReviewApiErrorShape_def split: if_splits)

lemma integration_no_evidence:
  "isIntegrationErrorShape e \<Longrightarrow> dispatch (publicationFailureEvidence e) = Unknown_dispatch"
  by (auto simp: isIntegrationErrorShape_def publicationFailureEvidence_def isGbpApiErrorShape_def
      isReviewApiErrorShape_def NO_EVIDENCE_def split: if_splits)

lemma gateway_retry: "classifyGatewayError e = Retryable \<Longrightarrow> retry_evidence e"
  by (auto simp: classifyGatewayError_def retry_evidence_def Let_def
      dest: classifyByDispatch_retry classifyByDispatch_none split: if_splits option.splits)

lemma review_api_retry: "classifyReviewApiError e = Retryable \<Longrightarrow> retry_evidence e"
  by (auto simp: classifyReviewApiError_def retry_evidence_def Let_def
      dest: classifyByDispatch_retry classifyByDispatch_none split: if_splits option.splits)

lemma gbp_status_not_retryable: "classifyGbpApiError c \<noteq> Retryable"
  by (auto simp: classifyGbpApiError_def Let_def split: jsval.splits if_splits)

text \<open>
  Nothing is sent again on a guess. A failure classified retryable is not an abort and
  carries one of the named pieces of evidence: the gateway recorded that nothing was sent (and
  the request was not malformed), the provider answered 429, or, where no dispatch was recorded,
  the error itself names a rate limit or a failed token refresh.
\<close>

theorem retry_needs_evidence:
  assumes "classifyPublicationFailure e = Retryable"
  shows "\<not> isAbortError e \<and> retry_evidence e"
proof -
  from assms have na: "\<not> isAbortError e"
    by (auto simp: classifyPublicationFailure_def)
  consider (gateway) "isGbpApiErrorShape e" | (review) "\<not> isGbpApiErrorShape e" "isReviewApiErrorShape e"
    | (integration) "\<not> isGbpApiErrorShape e" "\<not> isReviewApiErrorShape e"
    by blast
  then have "retry_evidence e"
  proof cases
    case gateway
    with assms na show ?thesis
      by (auto simp: classifyPublicationFailure_def intro: gateway_retry)
  next
    case review
    with assms na show ?thesis
      by (auto simp: classifyPublicationFailure_def intro: review_api_retry)
  next
    case integration
    with assms na have "isIntegrationErrorShape e"
      "prop_of e ''code'' \<in> {JStr ''gbp_api_rate_limited'', JStr ''token_refresh_failed''}"
      by (auto simp: classifyPublicationFailure_def gbp_status_not_retryable split: if_splits)
    then show ?thesis
      by (auto simp: retry_evidence_def integration_no_evidence)
  qed
  with na show ?thesis by blast
qed

theorem retry_needs_evidence_witness:
  "retry_evidence (JObj [(''_tag'', JStr ''GoogleReviewApiError''), (''code'', JStr ''provider_error''),
     (''failure'', JObj [(''dispatch'', JStr ''answered''), (''providerStatus'', JNum (nint 429))])])"
  using retry_needs_evidence [of "JObj [(''_tag'', JStr ''GoogleReviewApiError''),
      (''code'', JStr ''provider_error''),
      (''failure'', JObj [(''dispatch'', JStr ''answered''), (''providerStatus'', JNum (nint 429))])]"]
  by (simp add: classifyPublicationFailure_def isAbortError_def isGbpApiErrorShape_def
      isReviewApiErrorShape_def classifyReviewApiError_def pre_request_terminal_def
      PRE_REQUEST_TERMINAL_CODES_def publicationFailureEvidence_def fieldOf_def readDispatch_def
      max_safe_integer_def classifyByDispatch_def)

text \<open>
  An answer of the provider is read by its status alone: through the review port, a refusal
  that is not one of the pre-request codes and carries a recorded answer is terminal exactly for
  the 4xx statuses other than 429, retryable for 429 and otherwise of unknown outcome; a
  connection that waits for reauthorization is terminal whatever was recorded, and its notice
  names the remedy.
\<close>

theorem provider_answer_classification:
  assumes shape: "isReviewApiErrorShape e" and "\<not> isAbortError e"
    and ev: "dispatch (publicationFailureEvidence e) = Answered"
            "providerStatus (publicationFailureEvidence e) = Some (nint st)"
  shows "(prop_of e ''code'' = JStr ''reauthorization_required'' \<longrightarrow>
            classifyPublicationFailure e = Terminal_rejection
            \<and> publicationFailureCause e = Some Google_reauthorization_required)
     \<and> (\<not> pre_request_terminal (prop_of e ''code'') \<and> prop_of e ''code'' \<noteq> JStr ''invalid_request'' \<longrightarrow>
          classifyPublicationFailure e =
            (if st = 429 then Retryable else if 400 \<le> st \<and> st < 500 then Terminal_rejection
             else Ambiguous))"
proof -
  have "\<not> isGbpApiErrorShape e"
    using shape gateway_not_review by blast
  then have "classifyPublicationFailure e = classifyReviewApiError e"
    using assms by (simp add: classifyPublicationFailure_def)
  then show ?thesis
    using ev shape
    by (auto simp: classifyReviewApiError_def classifyByDispatch_def publicationFailureCause_def
        pre_request_terminal_def PRE_REQUEST_TERMINAL_CODES_def)
qed

theorem provider_answer_classification_witness:
  "classifyPublicationFailure (JObj [(''_tag'', JStr ''GoogleReviewApiError''),
     (''code'', JStr ''provider_error''), (''failure'', JObj [(''dispatch'', JStr ''answered''),
     (''providerStatus'', JNum (nint 503))])]) = Ambiguous"
  using provider_answer_classification [of "JObj [(''_tag'', JStr ''GoogleReviewApiError''),
     (''code'', JStr ''provider_error''), (''failure'', JObj [(''dispatch'', JStr ''answered''),
     (''providerStatus'', JNum (nint 503))])]" 503]
  by (simp add: isAbortError_def isReviewApiErrorShape_def pre_request_terminal_def
      PRE_REQUEST_TERMINAL_CODES_def publicationFailureEvidence_def fieldOf_def readDispatch_def
      max_safe_integer_def)

end
