(* ===== verification/ReplyCommands.thy ===== *)
theory ReplyCommands
  imports ReplyPublication Sha256
begin

text \<open>
  The reply entity, its status rules and the preconditions of its commands:
  \<^verbatim>\<open>src/contexts/review/domain/{types,rules,reply-command-preconditions,reply-ai-text}.ts\<close>.
  The lemmas relate the two authorities the code keeps apart, the status table and the command
  starts, and show what a cancellation and a guest edit leave behind.
\<close>

section \<open>The reply\<close>

datatype reply_status = S_draft | S_pending_approval | S_approved | S_published | S_rejected
  | S_publish_failed

datatype reply_source = Google_sync | Internal

datatype template_layer = L_builtin | L_account | L_property

record voice_choices =
  ratingBand :: "string option"
  bodyPrefixLength :: "int option"
  bodySuffixLength :: "int option"
  closing :: int
  signOff :: int
  contactSentence :: int
  emoji :: int
  includeContact :: bool

record reply =
  reply_id :: string
  reply_reviewId :: string
  reply_organizationId :: string
  reply_text :: js_string
  replyLanguageTag :: "string option"
  templateId :: "string option"
  templateVersion :: "int option"
  templateLayer :: "template_layer option"
  templateRef :: "string option"
  templateRevision :: "int option"
  templateWordingKey :: "string option"
  voiceDigest :: "string option"
  voiceChoices :: "voice_choices option"
  status :: reply_status
  reply_source :: reply_source
  createdBy :: "string option"
  submittedBy :: "string option"
  approvedBy :: "string option"
  rejectedBy :: "string option"
  rejectionReason :: "js_string option"
  measurementBaseReplyRevision :: "int option"
  measurementGenerationId :: "string option"
  aiGenerated :: bool
  stateRevision :: int
  submittedAt :: "date option"
  approvedAt :: "date option"
  publishedAt :: "date option"
  publicationState :: "publication_state option"
  publicationCycle :: int
  publicationAttempts :: int
  publicationLastErrorClass :: "failure_class option"
  reconcileDueAt :: "date option"
  createdAt :: date
  updatedAt :: date

section \<open>Domain rules\<close>

definition isValidRating :: "number \<Rightarrow> bool" where
  "isValidRating n = (n \<in> nint ` {1, 2, 3, 4, 5})"

definition calculateExpiresAt :: "date \<Rightarrow> date \<Rightarrow> date" where
  "calculateExpiresAt reviewedAt now =
     (let maxRetentionWindow = nint (30 * 24 * 60 * 60 * 1000);
          remainingRetention =
            num_sub maxRetentionWindow (num_sub (get_time now) (get_time reviewedAt))
      in if num_lt (nint 0) remainingRetention
         then new_date (num_add (get_time now) remainingRetention) else now)"

record content_fields =
  cf_rating :: int
  cf_text :: "js_string option"
  cf_reviewerName :: "js_string option"
  cf_languageCode :: "js_string option"

definition or_empty :: "js_string option \<Rightarrow> js_string" where
  "or_empty x = (case x of None \<Rightarrow> [] | Some s \<Rightarrow> s)"

text \<open>\<^verbatim>\<open>Array.join\<close> with a separator.\<close>

fun join_with :: "'a list \<Rightarrow> 'a list list \<Rightarrow> 'a list" where
  "join_with sep [] = []"
| "join_with sep [x] = x"
| "join_with sep (x # y # ys) = x @ sep @ join_with sep (y # ys)"

definition computeReviewContentHash :: "content_fields \<Rightarrow> string" where
  "computeReviewContentHash f =
     sha256Hex (join_with [0]
       [js (show_int (cf_rating f)), or_empty (cf_text f),
        or_empty (cf_reviewerName f), or_empty (cf_languageCode f)])"

fun REPLY_TRANSITIONS :: "reply_status \<Rightarrow> reply_status list" where
  "REPLY_TRANSITIONS S_draft = [S_draft, S_pending_approval]"
| "REPLY_TRANSITIONS S_pending_approval = [S_approved, S_rejected]"
| "REPLY_TRANSITIONS S_approved = [S_published, S_publish_failed]"
| "REPLY_TRANSITIONS S_published = [S_approved]"
| "REPLY_TRANSITIONS S_rejected = [S_draft]"
| "REPLY_TRANSITIONS S_publish_failed = [S_approved, S_published]"

definition canTransitionReply :: "reply_status \<Rightarrow> reply_status \<Rightarrow> bool" where
  "canTransitionReply current next_status = (next_status \<in> set (REPLY_TRANSITIONS current))"

fun status_name :: "reply_status \<Rightarrow> string" where
  "status_name S_draft = ''draft''"
| "status_name S_pending_approval = ''pending_approval''"
| "status_name S_approved = ''approved''"
| "status_name S_published = ''published''"
| "status_name S_rejected = ''rejected''"
| "status_name S_publish_failed = ''publish_failed''"

definition quoted :: "string \<Rightarrow> string" where
  "quoted s = CHR 0x27 # s @ [CHR 0x27]"

definition transitionReply ::
  "reply \<Rightarrow> reply_status \<Rightarrow> date \<Rightarrow> (review_error, reply) result" where
  "transitionReply r nextStatus now =
     (if \<not> canTransitionReply (status r) nextStatus
      then err (reviewError ''invalid_transition''
             (''Cannot transition reply from '' @ quoted (status_name (status r)) @ '' to ''
                @ quoted (status_name nextStatus)) [])
      else ok (if nextStatus = S_published
               then r\<lparr>status := nextStatus, updatedAt := now, publishedAt := Some now\<rparr>
               else r\<lparr>status := nextStatus, updatedAt := now\<rparr>))"

datatype reply_text_problem = T_empty | T_too_long | T_invalid_character | T_malformed_unicode

definition REPLY_TEXT_UNACCEPTED_CHARACTER :: string where
  "REPLY_TEXT_UNACCEPTED_CHARACTER = ''This reply contains a character Google doesn'' @ [CHR 0x27]
     @ ''t accept. Remove any unusual control characters and try again.''"

fun replyTextProblemMessage :: "reply_text_problem \<Rightarrow> string" where
  "replyTextProblemMessage T_empty = ''Reply text cannot be empty''"
| "replyTextProblemMessage T_too_long =
     ''This reply is too long for Google. Shorten it to 4,096 bytes or fewer.''"
| "replyTextProblemMessage T_invalid_character = REPLY_TEXT_UNACCEPTED_CHARACTER"
| "replyTextProblemMessage T_malformed_unicode = REPLY_TEXT_UNACCEPTED_CHARACTER"

section \<open>Template slots\<close>

definition REPLY_TEMPLATE_SLOT_TOKENS :: "js_string list" where
  "REPLY_TEMPLATE_SLOT_TOKENS =
     [js ''{guest_name}'', js ''{staff_name}'', js ''{dish}'', js ''{event_type}'',
      js ''{escalation_contact}'']"

text \<open>A character the slot pattern allows between its braces.\<close>

definition slot_char :: "16 word \<Rightarrow> bool" where
  "slot_char c = (c \<notin> {123, 125, 13, 10})"

text \<open>
  All matches of \<^verbatim>\<open>/\{[^{}\r\n]*\}/g\<close>, left to right: at an opening brace the longest run of slot
  characters must be followed by a closing brace, otherwise the scan moves on by one.
\<close>

function slot_matches :: "js_string \<Rightarrow> js_string list" where
  "slot_matches [] = []"
| "slot_matches (c # s) =
     (if c = 123 then
        (case dropWhile slot_char s of
           [] \<Rightarrow> slot_matches s
         | d # rest \<Rightarrow>
             if d = 125 then (c # takeWhile slot_char s @ [d]) # slot_matches rest
             else slot_matches s)
      else slot_matches s)"
  by pat_completeness auto
termination
proof (relation "measure length")
  fix c s d rest
  assume "dropWhile slot_char s = d # rest"
  then have "length (d # rest) \<le> length s"
    by (metis length_dropWhile_le)
  then show "(rest, c # s) \<in> measure length" by simp
qed auto

text \<open>\<^verbatim>\<open>[...new Set(xs)]\<close>: the distinct elements in first-occurrence order.\<close>

definition unique_in_order :: "'a list \<Rightarrow> 'a list" where
  "unique_in_order xs = rev (remdups (rev xs))"

definition unfilledReplySlots :: "js_string \<Rightarrow> js_string list" where
  "unfilledReplySlots text = unique_in_order (slot_matches text)"

definition unknownReplyTemplateSlots :: "js_string \<Rightarrow> js_string list" where
  "unknownReplyTemplateSlots text =
     filter (\<lambda>slot. slot \<notin> set REPLY_TEMPLATE_SLOT_TOKENS) (unfilledReplySlots text)"

definition unfilledReplySlotsMessage :: "js_string \<Rightarrow> js_string option" where
  "unfilledReplySlotsMessage text =
     (let slots = unfilledReplySlots text
      in if length slots = 0 then None
         else Some (js ''Fill every template placeholder before publishing: ''
                @ join_with (js '', '') slots @ js ''.''))"

text \<open>The refusal carries the message, which is text; the error keeps it beside its code.\<close>

definition assertReplySlotsFilled :: "js_string \<Rightarrow> (string \<times> js_string, unit) result" where
  "assertReplySlotsFilled text =
     (case unfilledReplySlotsMessage text of
        None \<Rightarrow> ok ()
      | Some message \<Rightarrow> err (''invalid_reply'', message))"

section \<open>What each command may start from\<close>

datatype reply_command = C_save_draft | C_submit | C_approve | C_reject | C_retry_publication
  | C_edit_published | C_delete | C_confirm_published

definition NO_OPEN_PUBLICATION :: "publication_state option list" where
  "NO_OPEN_PUBLICATION = [None, Some P_cancelled]"

definition UNCONFIRMED_PUBLICATION :: "publication_state option list" where
  "UNCONFIRMED_PUBLICATION =
     [Some P_sending, Some P_pending_observation, Some P_ambiguous, Some P_terminal]"

fun start_statuses :: "reply_command \<Rightarrow> reply_status list" where
  "start_statuses C_save_draft = [S_draft, S_rejected]"
| "start_statuses C_submit = [S_draft]"
| "start_statuses C_approve = [S_pending_approval]"
| "start_statuses C_reject = [S_pending_approval]"
| "start_statuses C_retry_publication = [S_publish_failed]"
| "start_statuses C_edit_published = [S_published]"
| "start_statuses C_delete = [S_draft, S_rejected]"
| "start_statuses C_confirm_published = [S_approved, S_publish_failed]"

fun start_publication_states :: "reply_command \<Rightarrow> publication_state option list" where
  "start_publication_states C_save_draft = NO_OPEN_PUBLICATION"
| "start_publication_states C_submit = NO_OPEN_PUBLICATION"
| "start_publication_states C_approve = NO_OPEN_PUBLICATION"
| "start_publication_states C_reject = NO_OPEN_PUBLICATION"
| "start_publication_states C_retry_publication = [Some P_terminal]"
| "start_publication_states C_edit_published = [Some P_published, None]"
| "start_publication_states C_delete = [None]"
| "start_publication_states C_confirm_published = UNCONFIRMED_PUBLICATION"

definition endedWithoutAnAnswer :: "reply \<Rightarrow> bool" where
  "endedWithoutAnAnswer r =
     (publicationState r = Some P_terminal \<and> publicationLastErrorClass r = Some Ambiguous)"

definition hasPublicationRecord :: "reply \<Rightarrow> bool" where
  "hasPublicationRecord r = (publicationCycle r > 0 \<or> publicationState r \<noteq> None)"

definition isAtCommandStart :: "reply_command \<Rightarrow> reply \<Rightarrow> bool" where
  "isAtCommandStart command r =
     (status r \<in> set (start_statuses command)
      \<and> publicationState r \<in> set (start_publication_states command))"

definition replyCommandMayStart :: "reply_command \<Rightarrow> reply \<Rightarrow> bool" where
  "replyCommandMayStart command r =
     (if \<not> isAtCommandStart command r then False
      else if command = C_retry_publication then \<not> endedWithoutAnAnswer r
      else if command = C_delete then \<not> hasPublicationRecord r
      else True)"

definition mayBeTriedAgainNowOrOnProof :: "reply \<Rightarrow> bool" where
  "mayBeTriedAgainNowOrOnProof r = isAtCommandStart C_retry_publication r"

definition REPLY_KEPT_WITH_ITS_RECORD :: string where
  "REPLY_KEPT_WITH_ITS_RECORD =
     ''This reply was confirmed for publishing before, so RepKey keeps it with its publication record. Edit it and submit it again, or leave it as a draft.''"

fun REPLY_COMMAND_REFUSALS :: "reply_command \<Rightarrow> string" where
  "REPLY_COMMAND_REFUSALS C_save_draft = ''Only a draft or a rejected reply can be edited''"
| "REPLY_COMMAND_REFUSALS C_submit = ''Only a draft can be submitted for approval''"
| "REPLY_COMMAND_REFUSALS C_approve =
     ''Only a reply that is waiting for approval can be confirmed and published''"
| "REPLY_COMMAND_REFUSALS C_reject = ''Only a reply that is waiting for approval can be rejected''"
| "REPLY_COMMAND_REFUSALS C_retry_publication =
     ''Only a reply that failed to publish can be sent again''"
| "REPLY_COMMAND_REFUSALS C_edit_published =
     ''Only a published reply can be edited and republished''"
| "REPLY_COMMAND_REFUSALS C_delete = ''Can only delete draft or rejected replies''"
| "REPLY_COMMAND_REFUSALS C_confirm_published =
     ''Only a reply sent to Google can be recorded as published''"

definition assertReplyCommandMayStart ::
  "reply_command \<Rightarrow> reply \<Rightarrow> (review_error, unit) result" where
  "assertReplyCommandMayStart command r =
     (if replyCommandMayStart command r then ok ()
      else
        let keptForItsRecord =
              command = C_delete \<and> status r \<in> set (start_statuses C_delete)
              \<and> hasPublicationRecord r
        in err (reviewError ''invalid_transition''
                  (if keptForItsRecord then REPLY_KEPT_WITH_ITS_RECORD
                   else REPLY_COMMAND_REFUSALS command) []))"

record cancelled_publication =
  cp_status :: reply_status
  cp_publicationState :: publication_state
  cp_lastErrorClass :: "failure_class option"
  cp_reconcileDueAt :: "date option"

definition cancelledPublication :: "reply \<Rightarrow> cancelled_publication option" where
  "cancelledPublication r =
     (let s = nextPublicationState (publicationState r) E_cancel
      in if s = Some P_cancelled
         then Some \<lparr>cp_status = S_draft, cp_publicationState = P_cancelled,
                    cp_lastErrorClass = None, cp_reconcileDueAt = None\<rparr>
         else None)"

record taken_back =
  tb_status :: reply_status
  tb_publicationState :: "publication_state option"
  tb_supersedesAttempt :: bool

definition takenBackByGuestEdit :: "reply \<Rightarrow> taken_back option" where
  "takenBackByGuestEdit r =
     (if aiGenerated r then None
      else if replyCommandMayStart C_approve r then
        Some \<lparr>tb_status = S_draft,
              tb_publicationState =
                (if publicationState r = None then None else Some P_cancelled),
              tb_supersedesAttempt = False\<rparr>
      else if \<not> mayBeTriedAgainNowOrOnProof r then None
      else Some \<lparr>tb_status = S_draft, tb_publicationState = Some P_cancelled,
                 tb_supersedesAttempt = endedWithoutAnAnswer r\<rparr>)"

datatype ai_text_rule = Needs_current_binding | Ends_adoption | Unaffected

fun aiTextRuleOf :: "reply_command \<Rightarrow> ai_text_rule" where
  "aiTextRuleOf C_save_draft = Ends_adoption"
| "aiTextRuleOf C_submit = Needs_current_binding"
| "aiTextRuleOf C_approve = Needs_current_binding"
| "aiTextRuleOf C_reject = Unaffected"
| "aiTextRuleOf C_retry_publication = Unaffected"
| "aiTextRuleOf C_edit_published = Ends_adoption"
| "aiTextRuleOf C_delete = Unaffected"
| "aiTextRuleOf C_confirm_published = Unaffected"


section \<open>Commands and the status table\<close>

text \<open>The status a command's write leaves; a deletion leaves none.\<close>

fun command_target :: "reply_command \<Rightarrow> reply_status option" where
  "command_target C_save_draft = Some S_draft"
| "command_target C_submit = Some S_pending_approval"
| "command_target C_approve = Some S_approved"
| "command_target C_reject = Some S_rejected"
| "command_target C_retry_publication = Some S_approved"
| "command_target C_edit_published = Some S_approved"
| "command_target C_delete = None"
| "command_target C_confirm_published = Some S_published"

lemmas start_defs = replyCommandMayStart_def isAtCommandStart_def endedWithoutAnAnswer_def
  hasPublicationRecord_def NO_OPEN_PUBLICATION_def UNCONFIRMED_PUBLICATION_def

lemma start_status_allowed:
  "s \<in> set (start_statuses c) \<Longrightarrow> command_target c = Some t \<Longrightarrow> canTransitionReply s t"
  by (cases c) (auto simp: canTransitionReply_def)

text \<open>
  The status table and the command starts describe the same moves: the table allows a move
  exactly when some command starts in the one status and leaves the other, or when it is the one
  move no command makes, an approved reply whose publication failed. So a command that may start
  never fails the table, and the table holds no edge without an owner.
\<close>

theorem status_table_is_the_commands:
  "canTransitionReply s t \<longleftrightarrow>
     (\<exists>c. s \<in> set (start_statuses c) \<and> command_target c = Some t)
     \<or> (s = S_approved \<and> t = S_publish_failed)"
proof
  assume "canTransitionReply s t"
  then have "s = S_draft \<and> t = S_draft \<or> s = S_draft \<and> t = S_pending_approval
    \<or> s = S_pending_approval \<and> t = S_approved \<or> s = S_pending_approval \<and> t = S_rejected
    \<or> s = S_approved \<and> t = S_published \<or> s = S_approved \<and> t = S_publish_failed
    \<or> s = S_published \<and> t = S_approved \<or> s = S_rejected \<and> t = S_draft
    \<or> s = S_publish_failed \<and> t = S_approved \<or> s = S_publish_failed \<and> t = S_published"
    by (cases s) (auto simp: canTransitionReply_def)
  then show "(\<exists>c. s \<in> set (start_statuses c) \<and> command_target c = Some t)
     \<or> (s = S_approved \<and> t = S_publish_failed)"
    by (elim disjE conjE)
       (force intro: exI[of _ C_save_draft] exI[of _ C_submit] exI[of _ C_approve]
          exI[of _ C_reject] exI[of _ C_confirm_published] exI[of _ C_edit_published]
          exI[of _ C_retry_publication])+
next
  assume "(\<exists>c. s \<in> set (start_statuses c) \<and> command_target c = Some t)
     \<or> (s = S_approved \<and> t = S_publish_failed)"
  then show "canTransitionReply s t"
    by (auto dest: start_status_allowed) (simp add: canTransitionReply_def)
qed

lemma transitionReply_ok:
  "canTransitionReply (status r) t \<Longrightarrow>
   \<exists>r'. transitionReply r t now = ok r' \<and> status r' = t \<and> updatedAt r' = now
     \<and> reply_text r' = reply_text r \<and> publicationState r' = publicationState r"
  by (simp add: transitionReply_def)

text \<open>
  C40. The three commands that authorize a publication cycle exclude one another, none of them
  starts from a reply whose last attempt is of unknown outcome, and the publication table grants
  the authorization in every case but one: an edit of a reply in publication state
  \<open>published\<close>, which the table refuses and the command nevertheless makes.
\<close>

theorem authorizing_commands:
  assumes "c \<in> {C_approve, C_retry_publication, C_edit_published}" "replyCommandMayStart c r"
  shows "(c' \<in> {C_approve, C_retry_publication, C_edit_published} \<and> replyCommandMayStart c' r \<longrightarrow> c' = c)
    \<and> \<not> (endedWithoutAnAnswer r \<and> status r = S_publish_failed)
    \<and> publicationState r \<notin> {Some P_sending, Some P_pending_observation, Some P_ambiguous}
    \<and> (nextPublicationState (publicationState r) E_authorize = Some P_authorized
         \<longleftrightarrow> \<not> (c = C_edit_published \<and> publicationState r = Some P_published))"
  using assms by (auto simp: start_defs split: if_splits)

definition sample_reply :: "reply_status \<Rightarrow> publication_state option \<Rightarrow> reply" where
  "sample_reply st ps =
     \<lparr>reply_id = ''r'', reply_reviewId = ''v'', reply_organizationId = ''o'', reply_text = [],
      replyLanguageTag = None, templateId = None, templateVersion = None, templateLayer = None,
      templateRef = None, templateRevision = None, templateWordingKey = None, voiceDigest = None,
      voiceChoices = None, status = st, reply_source = Internal, createdBy = None,
      submittedBy = None, approvedBy = None, rejectedBy = None, rejectionReason = None,
      measurementBaseReplyRevision = None, measurementGenerationId = None, aiGenerated = False,
      stateRevision = 1, submittedAt = None, approvedAt = None, publishedAt = None,
      publicationState = ps, publicationCycle = 1, publicationAttempts = 0,
      publicationLastErrorClass = None, reconcileDueAt = None, createdAt = At 0,
      updatedAt = At 0\<rparr>"

theorem authorizing_commands_witness:
  "nextPublicationState (publicationState (sample_reply S_published (Some P_published))) E_authorize
     \<noteq> Some P_authorized"
  using authorizing_commands
    [of C_edit_published "sample_reply S_published (Some P_published)" C_approve]
  by (simp add: sample_reply_def start_defs)

text \<open>
  A reply that is being published belongs to the publication machine: while its status is
  \<open>approved\<close>, no manager command may start on it, and the only command that may is recording a
  provider confirmation of a write that may have reached Google.
\<close>

theorem approved_reply_is_protected:
  assumes "status r = S_approved"
  shows "replyCommandMayStart c r \<longleftrightarrow>
    c = C_confirm_published \<and> publicationState r \<in> set UNCONFIRMED_PUBLICATION"
  using assms by (cases c) (auto simp: start_defs)

theorem approved_reply_is_protected_witness:
  "\<not> replyCommandMayStart C_save_draft (sample_reply S_approved (Some P_authorized))"
  using approved_reply_is_protected [of "sample_reply S_approved (Some P_authorized)" C_save_draft]
  by (simp add: sample_reply_def)

section \<open>Cancellations and guest edits\<close>

definition apply_cancellation :: "reply \<Rightarrow> cancelled_publication \<Rightarrow> reply" where
  "apply_cancellation r c =
     r\<lparr>status := cp_status c, publicationState := Some (cp_publicationState c),
       publicationLastErrorClass := cp_lastErrorClass c, reconcileDueAt := cp_reconcileDueAt c\<rparr>"

definition apply_taken_back :: "reply \<Rightarrow> taken_back \<Rightarrow> reply" where
  "apply_taken_back r t = r\<lparr>status := tb_status t, publicationState := tb_publicationState t\<rparr>"

text \<open>A reply nothing can publish before it is submitted and approved again.\<close>

definition needs_new_approval :: "reply \<Rightarrow> bool" where
  "needs_new_approval r \<longleftrightarrow>
     (\<forall>c. replyCommandMayStart c r \<longrightarrow> c \<in> {C_save_draft, C_submit, C_delete})"

lemma draft_commands: "S_draft \<in> set (start_statuses c) \<longleftrightarrow> c \<in> {C_save_draft, C_submit, C_delete}"
  by (cases c) auto

lemma draft_needs_new_approval:
  "status r = S_draft \<Longrightarrow> publicationState r \<in> {None, Some P_cancelled} \<Longrightarrow>
   needs_new_approval r \<and> replyCommandMayStart C_save_draft r \<and> replyCommandMayStart C_submit r"
  by (auto simp: needs_new_approval_def start_defs draft_commands split: if_splits)

lemma taken_back_shape:
  "takenBackByGuestEdit r = Some t \<Longrightarrow>
   tb_status t = S_draft \<and> tb_publicationState t \<in> {None, Some P_cancelled}"
  by (auto simp: takenBackByGuestEdit_def split: if_splits)

text \<open>
  A guest edit leaves no reply of a manager one click from Google. A reply it takes back can
  be published only after a new submission and approval, while its text stays; and a reply it
  leaves alone, unless it is unedited AI text, is one neither Confirm & Publish nor a retry, not
  even once an attempt is proved never sent, may start from.
\<close>

theorem guest_edit_takes_back:
  "(\<forall>t. takenBackByGuestEdit r = Some t \<longrightarrow>
        \<not> aiGenerated r \<and> needs_new_approval (apply_taken_back r t)
        \<and> replyCommandMayStart C_submit (apply_taken_back r t)
        \<and> reply_text (apply_taken_back r t) = reply_text r
        \<and> (tb_supersedesAttempt t \<longleftrightarrow> endedWithoutAnAnswer r \<and> status r = S_publish_failed))
   \<and> (takenBackByGuestEdit r = None \<longrightarrow> aiGenerated r
        \<or> \<not> replyCommandMayStart C_approve r \<and> \<not> replyCommandMayStart C_retry_publication r
          \<and> \<not> mayBeTriedAgainNowOrOnProof r)"
proof -
  have "needs_new_approval (apply_taken_back r t) \<and> replyCommandMayStart C_submit (apply_taken_back r t)"
    if "takenBackByGuestEdit r = Some t" for t
    using draft_needs_new_approval[of "apply_taken_back r t"] taken_back_shape[OF that]
    by (simp add: apply_taken_back_def)
  moreover have "\<not> aiGenerated r \<and> reply_text (apply_taken_back r t) = reply_text r
      \<and> (tb_supersedesAttempt t \<longleftrightarrow> endedWithoutAnAnswer r \<and> status r = S_publish_failed)"
    if "takenBackByGuestEdit r = Some t" for t
    using that by (auto simp: takenBackByGuestEdit_def apply_taken_back_def
        mayBeTriedAgainNowOrOnProof_def start_defs split: if_splits)
  moreover have "aiGenerated r
      \<or> \<not> replyCommandMayStart C_approve r \<and> \<not> replyCommandMayStart C_retry_publication r
        \<and> \<not> mayBeTriedAgainNowOrOnProof r" if "takenBackByGuestEdit r = None"
    using that by (auto simp: takenBackByGuestEdit_def mayBeTriedAgainNowOrOnProof_def
        replyCommandMayStart_def split: if_splits)
  ultimately show ?thesis by blast
qed

theorem guest_edit_takes_back_witness:
  "needs_new_approval
     (apply_taken_back (sample_reply S_pending_approval None)
        \<lparr>tb_status = S_draft, tb_publicationState = None, tb_supersedesAttempt = False\<rparr>)"
proof -
  have "takenBackByGuestEdit (sample_reply S_pending_approval None)
      = Some \<lparr>tb_status = S_draft, tb_publicationState = None, tb_supersedesAttempt = False\<rparr>"
    by (simp add: sample_reply_def takenBackByGuestEdit_def start_defs)
  then show ?thesis
    using guest_edit_takes_back by blast
qed

text \<open>
  A cancellation ends exactly the cycles that are open and whose outcome is not already
  uncertain or settled (\<open>requested\<close>, \<open>authorized\<close>, \<open>sending\<close>, \<open>pending_observation\<close>), and leaves a
  draft with no deadline and no error class that nothing can publish before a new approval.
\<close>

theorem cancellation_leaves_a_draft:
  "(cancelledPublication r \<noteq> None \<longleftrightarrow>
      publicationState r \<in> {Some P_requested, Some P_authorized, Some P_sending,
                            Some P_pending_observation})
   \<and> (\<forall>c. cancelledPublication r = Some c \<longrightarrow>
        needs_new_approval (apply_cancellation r c)
        \<and> replyCommandMayStart C_submit (apply_cancellation r c)
        \<and> \<not> replyCommandMayStart C_delete (apply_cancellation r c)
        \<and> reconcileDueAt (apply_cancellation r c) = None
        \<and> publicationLastErrorClass (apply_cancellation r c) = None)"
proof -
  have "cancelledPublication r \<noteq> None \<longleftrightarrow>
      publicationState r \<in> {Some P_requested, Some P_authorized, Some P_sending,
                            Some P_pending_observation}"
    by (cases "publicationState r"; simp add: cancelledPublication_def)
       (rename_tac p, case_tac p; simp)
  moreover have "needs_new_approval (apply_cancellation r c)
        \<and> replyCommandMayStart C_submit (apply_cancellation r c)
        \<and> \<not> replyCommandMayStart C_delete (apply_cancellation r c)
        \<and> reconcileDueAt (apply_cancellation r c) = None
        \<and> publicationLastErrorClass (apply_cancellation r c) = None"
    if "cancelledPublication r = Some c" for c
  proof -
    have c: "status (apply_cancellation r c) = S_draft"
      "publicationState (apply_cancellation r c) = Some P_cancelled"
      "publicationLastErrorClass (apply_cancellation r c) = None"
      "reconcileDueAt (apply_cancellation r c) = None"
      using that by (auto simp: cancelledPublication_def apply_cancellation_def Let_def split: if_splits)
    moreover have "\<not> replyCommandMayStart C_delete (apply_cancellation r c)"
      using c(2) by (simp add: start_defs)
    ultimately show ?thesis
      using draft_needs_new_approval[of "apply_cancellation r c"] by simp
  qed
  ultimately show ?thesis by blast
qed

theorem cancellation_leaves_a_draft_witness:
  "\<exists>c. cancelledPublication (sample_reply S_approved (Some P_sending)) = Some c
     \<and> needs_new_approval (apply_cancellation (sample_reply S_approved (Some P_sending)) c)"
  using cancellation_leaves_a_draft [of "sample_reply S_approved (Some P_sending)"]
  by (auto simp: sample_reply_def)


section \<open>The slot scanner\<close>

lemma dropWhile_slot:
  assumes "\<forall>c \<in> set body. slot_char c"
  shows "dropWhile slot_char (body @ 125 # post) = 125 # post"
  using assms by (simp add: dropWhile_append slot_char_def)

text \<open>A placeholder somewhere in the text.\<close>

definition has_slot :: "js_string \<Rightarrow> bool" where
  "has_slot text \<longleftrightarrow>
     (\<exists>pre body post. text = pre @ 123 # body @ 125 # post \<and> (\<forall>c \<in> set body. slot_char c))"

lemma has_slot_Cons: "has_slot s \<Longrightarrow> has_slot (c # s)"
  unfolding has_slot_def by (metis append_Cons)

lemma has_slot_suffix: "has_slot s \<Longrightarrow> has_slot (p @ s)"
  unfolding has_slot_def by (metis append_assoc)

lemma slot_matches_none_if: "slot_matches t \<noteq> [] \<Longrightarrow> has_slot t"
proof (induction t rule: slot_matches.induct)
  case 1
  then show ?case by simp
next
  case (2 c s)
  show ?case
  proof (cases "c = 123 \<and> (\<exists>rest. dropWhile slot_char s = 125 # rest)")
    case True
    then obtain rest where "c = 123" "dropWhile slot_char s = 125 # rest" by blast
    then have "c # s = [] @ 123 # takeWhile slot_char s @ 125 # rest"
      by (metis append_Nil takeWhile_dropWhile_id)
    then show ?thesis
      unfolding has_slot_def by (metis set_takeWhileD)
  next
    case False
    with "2.prems" have "slot_matches s \<noteq> []"
      by (auto split: if_splits list.splits)
    with False have "has_slot s"
      using "2.IH" by (cases "dropWhile slot_char s") auto
    then show ?thesis by (rule has_slot_Cons)
  qed
qed

lemma slot_matches_some: "has_slot t \<Longrightarrow> slot_matches t \<noteq> []"
proof (induction t rule: slot_matches.induct)
  case 1
  then show ?case by (simp add: has_slot_def)
next
  case (2 c s)
  from "2.prems" obtain pre body post where t: "c # s = pre @ 123 # body @ 125 # post"
      and b: "\<forall>c \<in> set body. slot_char c"
    unfolding has_slot_def by blast
  show ?case
  proof (cases pre)
    case Nil
    with t have "c = 123" "s = body @ 125 # post" by auto
    with dropWhile_slot[OF b] show ?thesis by simp
  next
    case (Cons p ps)
    with t b have "has_slot s"
      unfolding has_slot_def by auto
    then show ?thesis
      using "2.IH" by (auto split: list.split)
  qed
qed

lemma set_unique_in_order [simp]: "set (unique_in_order xs) = set xs"
  by (simp add: unique_in_order_def)

lemma distinct_unique_in_order [simp]: "distinct (unique_in_order xs)"
  by (simp add: unique_in_order_def)

text \<open>
  The publish-side placeholder fence is exact: a reply text passes it when, and only when,
  it contains no brace-delimited placeholder (an opening brace, any characters other than braces
  and line breaks, a closing brace). The placeholders it lists are distinct.
\<close>

theorem slot_fence_exact:
  "(is_ok (assertReplySlotsFilled text) \<longleftrightarrow> \<not> has_slot text)
   \<and> distinct (unfilledReplySlots text)
   \<and> (unfilledReplySlots text = [] \<longleftrightarrow> \<not> has_slot text)"
proof -
  have "slot_matches text = [] \<longleftrightarrow> \<not> has_slot text"
    using slot_matches_none_if slot_matches_some by blast
  moreover have "unfilledReplySlots text = [] \<longleftrightarrow> slot_matches text = []"
    unfolding unfilledReplySlots_def by (metis set_empty set_unique_in_order)
  ultimately show ?thesis
    by (simp add: assertReplySlotsFilled_def unfilledReplySlotsMessage_def unfilledReplySlots_def
        is_ok_def Let_def)
qed

end
