(* ===== verification/ReplyObservation.thy ===== *)
theory ReplyObservation
  imports Sha256 JsDate
begin

text \<open>
  What a read of a reply on Google means
  (src/contexts/review/domain/google-reply-observation.ts and reply-moderation.ts): the replay
  binding of an observation, the comparison of the observed text with the text of the publication
  attempt in flight, the change against the last recorded head, and the decision
  \<open>decideGoogleReplyObservation\<close>. Unicode NFC is the parameter \<open>nfc\<close> throughout.
\<close>

section \<open>The replay binding\<close>

datatype observation_source = Provider_snapshot | Targeted_reconciliation

fun source_name :: "observation_source \<Rightarrow> string" where
  "source_name Provider_snapshot = ''provider_snapshot''"
| "source_name Targeted_reconciliation = ''targeted_reconciliation''"

record publication_target =
  target_replyId :: string
  target_cycle :: int
  target_attempt :: int

record observation_identity =
  oi_organizationId :: string
  oi_propertyId :: string
  oi_reviewId :: string
  oi_sourceEpoch :: int
  oi_materialReviewRevision :: int
  oi_source :: observation_source
  oi_observedText :: "js_string option"
  oi_providerUpdatedAt :: "date option"
  oi_publicationTarget :: "publication_target option"

fun join0 :: "string list \<Rightarrow> string" where
  "join0 [] = []"
| "join0 [x] = x"
| "join0 (x # y # xs) = x @ CHR 0x00 # join0 (y # xs)"

text \<open>The digested text; \<open>None\<close> is the RangeError of printing an invalid date.\<close>

definition observation_preimage :: "normalizer \<Rightarrow> observation_identity \<Rightarrow> string option" where
  "observation_preimage nfc input =
     (case (case oi_providerUpdatedAt input of
              None \<Rightarrow> Some ''provider-time-absent'' | Some d \<Rightarrow> to_iso_string d) of
        None \<Rightarrow> None
      | Some updated \<Rightarrow> Some (join0
          [''google-reply-observation-input-v1'',
           oi_organizationId input, oi_propertyId input, oi_reviewId input,
           show_int (oi_sourceEpoch input),
           show_int (oi_materialReviewRevision input),
           source_name (oi_source input),
           (case oi_observedText input of
              None \<Rightarrow> ''absent'' | Some t \<Rightarrow> ''live:'' @ googleReplyTextDigest nfc t),
           updated,
           (case oi_publicationTarget input of
              None \<Rightarrow> ''target:none''
            | Some t \<Rightarrow> ''target:'' @ target_replyId t @ '':'' @ show_int (target_cycle t)
                @ '':'' @ show_int (target_attempt t))]))"

definition googleReplyObservationInputDigest ::
  "normalizer \<Rightarrow> observation_identity \<Rightarrow> string option" where
  "googleReplyObservationInputDigest nfc input =
     map_option (\<lambda>s. sha256Hex (js s)) (observation_preimage nfc input)"

record text_comparison =
  matches :: bool
  normalizationVersion :: string
  desiredDigest :: string
  observedDigest :: string

definition compareObservedGoogleReply ::
  "normalizer \<Rightarrow> js_string \<Rightarrow> js_string \<Rightarrow> text_comparison" where
  "compareObservedGoogleReply nfc desired observed =
     (let d = googleReplyTextDigest nfc desired; e = googleReplyTextDigest nfc observed
      in \<lparr>matches = (d = e), normalizationVersion = GOOGLE_REPLY_NORMALIZATION_VERSION,
          desiredDigest = d, observedDigest = e\<rparr>)"

section \<open>Heads, attempts and observed text\<close>

datatype observed_state = Live | Absent

record previous_observation =
  prev_state :: observed_state
  prev_normalizedDigest :: "string option"
  prev_sourceEpoch :: int
  prev_materialReviewRevision :: int

datatype attempt_outcome =
    O_sending | O_provider_outcome_pending | O_retryable_failure | O_ambiguous
  | O_terminal_rejection | O_confirmed | O_superseded

record publication_candidate =
  cand_replyId :: string
  cand_publicationCycle :: int
  cand_attemptNumber :: int
  cand_sourceEpoch :: int
  cand_materialReviewRevision :: int
  expectedReplyDigest :: string
  expectedReplyText :: "js_string option"
  earlierConfirmedDigest :: "string option"
  outcome :: attempt_outcome

text \<open>The two fields of the decision input that the code passes on as an observation scope.\<close>

record observation_scope =
  scope_sourceEpoch :: int
  scope_materialReviewRevision :: int

record observation_input = observation_scope +
  observedText :: "js_string option"
  previous :: "previous_observation option"
  candidate :: "publication_candidate option"

definition CONFIRMABLE_ATTEMPT_OUTCOMES :: "attempt_outcome list" where
  "CONFIRMABLE_ATTEMPT_OUTCOMES = [O_sending, O_provider_outcome_pending, O_ambiguous]"

definition isOpenAttemptOutcome :: "attempt_outcome \<Rightarrow> bool" where
  "isOpenAttemptOutcome oc = (oc \<in> set CONFIRMABLE_ATTEMPT_OUTCOMES)"

record observed_reply =
  obs_state :: observed_state
  normalizedText :: "js_string option"
  normalizedDigest :: "string option"

fun describeObservedText :: "normalizer \<Rightarrow> js_string option \<Rightarrow> observed_reply" where
  "describeObservedText nfc None =
     \<lparr>obs_state = Absent, normalizedText = None, normalizedDigest = None\<rparr>"
| "describeObservedText nfc (Some t) =
     \<lparr>obs_state = Live, normalizedText = Some (normalizeGoogleReplyText nfc t),
      normalizedDigest = Some (googleReplyTextDigest nfc t)\<rparr>"

definition isReplyCarriedOverFromEarlierRevision ::
  "observed_reply \<Rightarrow> previous_observation option \<Rightarrow> ('a) observation_scope_scheme \<Rightarrow> bool" where
  "isReplyCarriedOverFromEarlierRevision observed prev scope =
     (case prev of
        None \<Rightarrow> False
      | Some p \<Rightarrow> prev_state p = Live \<and> obs_state observed = Live
          \<and> prev_sourceEpoch p = scope_sourceEpoch scope
          \<and> prev_materialReviewRevision p < scope_materialReviewRevision scope
          \<and> prev_normalizedDigest p = normalizedDigest observed)"

datatype observation_change = Added | Deleted | Edited | Unchanged

definition decideObservationChange ::
  "observed_reply \<Rightarrow> previous_observation option \<Rightarrow> ('a) observation_scope_scheme
     \<Rightarrow> observation_change" where
  "decideObservationChange observed prev scope =
     (if isReplyCarriedOverFromEarlierRevision observed prev scope then Unchanged
      else case prev of
        None \<Rightarrow> if obs_state observed = Live then Added else Unchanged
      | Some p \<Rightarrow>
          if prev_sourceEpoch p \<noteq> scope_sourceEpoch scope
             \<or> prev_materialReviewRevision p \<noteq> scope_materialReviewRevision scope
          then if obs_state observed = Live then Added else Unchanged
          else if prev_state p = Live \<and> obs_state observed = Absent then Deleted
          else if prev_state p = Absent \<and> obs_state observed = Live then Added
          else if obs_state observed = Live \<and> prev_normalizedDigest p \<noteq> normalizedDigest observed
          then Edited
          else Unchanged)"

definition isConfirmableCurrentAttempt ::
  "publication_candidate \<Rightarrow> ('a) observation_scope_scheme \<Rightarrow> bool" where
  "isConfirmableCurrentAttempt c scope =
     (cand_sourceEpoch c = scope_sourceEpoch scope
      \<and> cand_materialReviewRevision c = scope_materialReviewRevision scope
      \<and> outcome c \<in> set CONFIRMABLE_ATTEMPT_OUTCOMES)"

text \<open>\<^verbatim>\<open>replace(/\s+/gu, ' ')\<close>: each maximal run of white space becomes one space.\<close>

fun squeeze_spaces :: "js_string \<Rightarrow> js_string" where
  "squeeze_spaces [] = []"
| "squeeze_spaces [c] = [if is_js_space c then 32 else c]"
| "squeeze_spaces (c # d # s) =
     (if is_js_space c \<and> is_js_space d then squeeze_spaces (d # s)
      else (if is_js_space c then 32 else c) # squeeze_spaces (d # s))"

definition collapseWhitespace :: "normalizer \<Rightarrow> js_string \<Rightarrow> js_string" where
  "collapseWhitespace nfc t = js_trim (squeeze_spaces (normalizeGoogleReplyText nfc t))"

definition isWhitespaceOnlyDifference ::
  "normalizer \<Rightarrow> publication_candidate \<Rightarrow> js_string \<Rightarrow> bool" where
  "isWhitespaceOnlyDifference nfc c observed =
     (case expectedReplyText c of
        None \<Rightarrow> False
      | Some expected \<Rightarrow>
          if googleReplyTextDigest nfc expected \<noteq> expectedReplyDigest c then False
          else collapseWhitespace nfc expected = collapseWhitespace nfc observed)"

definition showsEarlierPublicationUnchanged ::
  "publication_candidate \<Rightarrow> observed_reply \<Rightarrow> previous_observation option
     \<Rightarrow> ('a) observation_scope_scheme \<Rightarrow> bool" where
  "showsEarlierPublicationUnchanged c observed prev scope =
     (earlierConfirmedDigest c \<noteq> None
      \<and> earlierConfirmedDigest c = normalizedDigest observed
      \<and> (case prev of
           None \<Rightarrow> False
         | Some p \<Rightarrow> prev_state p = Live
             \<and> prev_normalizedDigest p = normalizedDigest observed
             \<and> prev_sourceEpoch p = scope_sourceEpoch scope
             \<and> prev_materialReviewRevision p = scope_materialReviewRevision scope))"

section \<open>The decision\<close>

datatype observation_resolution =
    Confirmed_on_google | R_absent | R_unchanged | Earlier_publication_live | Diverged
  | External_current_live

datatype observation_provenance = Repkey_confirmed | No_provenance | External_or_unknown

record observation_decision =
  dec_state :: observed_state
  change :: observation_change
  resolution :: observation_resolution
  provenance :: observation_provenance
  dec_normalizedText :: "js_string option"
  dec_normalizedDigest :: "string option"
  matchedReplyId :: "string option"
  matchedPublicationCycle :: "int option"
  matchedAttemptNumber :: "int option"

text \<open>The five decisions that name no attempt differ in two fields only.\<close>

definition unmatched ::
  "observed_reply \<Rightarrow> observation_change \<Rightarrow> observation_resolution \<Rightarrow> observation_provenance
     \<Rightarrow> observation_decision" where
  "unmatched observed ch res prov =
     \<lparr>dec_state = obs_state observed, change = ch, resolution = res, provenance = prov,
      dec_normalizedText = normalizedText observed,
      dec_normalizedDigest = normalizedDigest observed,
      matchedReplyId = None, matchedPublicationCycle = None, matchedAttemptNumber = None\<rparr>"

text \<open>
  \<open>current\<close> is the attempt when there is one and it is confirmable in the observed scope. The
  tests keep the order of the source.
\<close>

definition current_candidate :: "observation_input \<Rightarrow> publication_candidate option" where
  "current_candidate input =
     (case candidate input of
        None \<Rightarrow> None
      | Some c \<Rightarrow> if isConfirmableCurrentAttempt c input then Some c else None)"

definition exact_candidate ::
  "normalizer \<Rightarrow> observation_input \<Rightarrow> publication_candidate option" where
  "exact_candidate nfc input =
     (let observed = describeObservedText nfc (observedText input) in
      case current_candidate input of
        None \<Rightarrow> None
      | Some c \<Rightarrow>
          if obs_state observed = Live \<and> Some (expectedReplyDigest c) = normalizedDigest observed
          then Some c else None)"

definition decideGoogleReplyObservation ::
  "normalizer \<Rightarrow> observation_input \<Rightarrow> observation_decision" where
  "decideGoogleReplyObservation nfc input =
     (let observed = describeObservedText nfc (observedText input);
          ch = decideObservationChange observed (previous input) input;
          whenUnattributed =
            unmatched observed ch (if ch = Unchanged then R_unchanged else External_current_live)
              External_or_unknown
      in case exact_candidate nfc input of
        Some c \<Rightarrow>
          \<lparr>dec_state = obs_state observed, change = ch, resolution = Confirmed_on_google,
           provenance = Repkey_confirmed,
           dec_normalizedText = normalizedText observed,
           dec_normalizedDigest = normalizedDigest observed,
           matchedReplyId = Some (cand_replyId c),
           matchedPublicationCycle = Some (cand_publicationCycle c),
           matchedAttemptNumber = Some (cand_attemptNumber c)\<rparr>
      | None \<Rightarrow>
        if obs_state observed = Absent then
          unmatched observed ch (if ch = Deleted then R_absent else R_unchanged) No_provenance
        else case current_candidate input of
          None \<Rightarrow> whenUnattributed
        | Some c \<Rightarrow>
            if showsEarlierPublicationUnchanged c observed (previous input) input then
              unmatched observed ch Earlier_publication_live Repkey_confirmed
            else if (case observedText input of
                       None \<Rightarrow> False | Some t \<Rightarrow> isWhitespaceOnlyDifference nfc c t) then
              unmatched observed ch Diverged External_or_unknown
            else unmatched observed ch External_current_live External_or_unknown)"

section \<open>Moderation facts\<close>

datatype moderation_state = M_pending | M_approved | M_rejected | M_unspecified | M_absent

record reply_moderation =
  mod_state :: moderation_state
  policyViolation :: "string option"
  commentPresent :: bool
  commentEmpty :: bool
  updateTimePresent :: bool
  updateTimeEmpty :: bool

definition NO_REPLY_MODERATION :: reply_moderation where
  "NO_REPLY_MODERATION =
     \<lparr>mod_state = M_absent, policyViolation = None, commentPresent = False, commentEmpty = False,
      updateTimePresent = False, updateTimeEmpty = False\<rparr>"

record readback_facts =
  moderationState :: moderation_state
  rf_commentPresent :: bool
  rf_commentEmpty :: bool
  rf_updateTimePresent :: bool
  rf_updateTimeEmpty :: bool
  textMatchedAttempt :: bool
  rf_policyViolation :: "string option"

definition replyReadbackFacts ::
  "normalizer \<Rightarrow> reply_moderation option \<Rightarrow> js_string option \<Rightarrow> js_string \<Rightarrow> readback_facts" where
  "replyReadbackFacts nfc moderation observed attemptText =
     (let m = (case moderation of None \<Rightarrow> NO_REPLY_MODERATION | Some m \<Rightarrow> m) in
      \<lparr>moderationState = mod_state m,
       rf_commentPresent = commentPresent m, rf_commentEmpty = commentEmpty m,
       rf_updateTimePresent = updateTimePresent m, rf_updateTimeEmpty = updateTimeEmpty m,
       textMatchedAttempt =
         (case observed of
            None \<Rightarrow> False | Some t \<Rightarrow> matches (compareObservedGoogleReply nfc attemptText t)),
       rf_policyViolation = (if mod_state m = M_rejected then policyViolation m else None)\<rparr>)"

section \<open>Attribution\<close>

lemma described_live [simp]:
  "obs_state (describeObservedText nfc t) = Live \<longleftrightarrow> t \<noteq> None"
  "obs_state (describeObservedText nfc t) = Absent \<longleftrightarrow> t = None"
  by (cases t; simp)+

lemma described_digest [simp]:
  "normalizedDigest (describeObservedText nfc t) = map_option (googleReplyTextDigest nfc) t"
  by (cases t) simp_all

lemma exact_candidate_iff:
  "exact_candidate nfc input = Some c \<longleftrightarrow>
     (\<exists>t. observedText input = Some t \<and> candidate input = Some c
        \<and> isConfirmableCurrentAttempt c input
        \<and> expectedReplyDigest c = googleReplyTextDigest nfc t)"
  by (cases "observedText input")
     (auto simp: exact_candidate_def current_candidate_def Let_def split: option.splits if_splits)

lemma current_candidate_iff:
  "current_candidate input = Some c \<longleftrightarrow>
     candidate input = Some c \<and> isConfirmableCurrentAttempt c input"
  by (auto simp: current_candidate_def split: option.splits if_splits)

lemmas decide_defs = decideGoogleReplyObservation_def unmatched_def Let_def

lemma decide_exact:
  "exact_candidate nfc input = Some c \<Longrightarrow>
     resolution (decideGoogleReplyObservation nfc input) = Confirmed_on_google
     \<and> matchedReplyId (decideGoogleReplyObservation nfc input) = Some (cand_replyId c)
     \<and> matchedPublicationCycle (decideGoogleReplyObservation nfc input) = Some (cand_publicationCycle c)
     \<and> matchedAttemptNumber (decideGoogleReplyObservation nfc input) = Some (cand_attemptNumber c)"
  by (simp add: decide_defs)

lemma decide_not_exact:
  "exact_candidate nfc input = None \<Longrightarrow>
     resolution (decideGoogleReplyObservation nfc input) \<noteq> Confirmed_on_google
     \<and> matchedReplyId (decideGoogleReplyObservation nfc input) = None
     \<and> matchedPublicationCycle (decideGoogleReplyObservation nfc input) = None
     \<and> matchedAttemptNumber (decideGoogleReplyObservation nfc input) = None"
  by (simp add: decide_defs split: option.split)

text \<open>
  C25. An observation confirms a publication exactly when Google shows live text whose normalized
  digest is the one of the attempt, and the attempt is open (sending, provider outcome pending or
  ambiguous) in the observed source scope; the decision then names that attempt and only then
  names any.
\<close>

theorem observation_confirms_only_our_text:
  "(resolution (decideGoogleReplyObservation nfc input) = Confirmed_on_google \<longleftrightarrow>
      (\<exists>c t. observedText input = Some t \<and> candidate input = Some c
         \<and> cand_sourceEpoch c = scope_sourceEpoch input
         \<and> cand_materialReviewRevision c = scope_materialReviewRevision input
         \<and> outcome c \<in> {O_sending, O_provider_outcome_pending, O_ambiguous}
         \<and> expectedReplyDigest c = googleReplyTextDigest nfc t
         \<and> matchedReplyId (decideGoogleReplyObservation nfc input) = Some (cand_replyId c)
         \<and> matchedPublicationCycle (decideGoogleReplyObservation nfc input)
             = Some (cand_publicationCycle c)
         \<and> matchedAttemptNumber (decideGoogleReplyObservation nfc input)
             = Some (cand_attemptNumber c)))
   \<and> (matchedReplyId (decideGoogleReplyObservation nfc input) \<noteq> None \<longleftrightarrow>
        resolution (decideGoogleReplyObservation nfc input) = Confirmed_on_google)"
proof (cases "exact_candidate nfc input")
  case None
  with decide_not_exact exact_candidate_iff[of nfc input] show ?thesis
    by (auto simp: isConfirmableCurrentAttempt_def CONFIRMABLE_ATTEMPT_OUTCOMES_def)
next
  case (Some c)
  with decide_exact[OF Some] exact_candidate_iff[of nfc input c] show ?thesis
    by (auto simp: isConfirmableCurrentAttempt_def CONFIRMABLE_ATTEMPT_OUTCOMES_def)
qed


section \<open>Reading again\<close>

definition head_of :: "('a) observation_scope_scheme \<Rightarrow> observation_decision \<Rightarrow> previous_observation"
where
  "head_of scope d =
     \<lparr>prev_state = dec_state d, prev_normalizedDigest = dec_normalizedDigest d,
      prev_sourceEpoch = scope_sourceEpoch scope,
      prev_materialReviewRevision = scope_materialReviewRevision scope\<rparr>"

lemma head_of_sel [simp]:
  "prev_state (head_of scope d) = dec_state d"
  "prev_normalizedDigest (head_of scope d) = dec_normalizedDigest d"
  "prev_sourceEpoch (head_of scope d) = scope_sourceEpoch scope"
  "prev_materialReviewRevision (head_of scope d) = scope_materialReviewRevision scope"
  by (simp_all add: head_of_def)

lemma decision_restates_observed:
  "dec_state (decideGoogleReplyObservation nfc input)
     = obs_state (describeObservedText nfc (observedText input))"
  "dec_normalizedDigest (decideGoogleReplyObservation nfc input)
     = normalizedDigest (describeObservedText nfc (observedText input))"
  "change (decideGoogleReplyObservation nfc input)
     = decideObservationChange (describeObservedText nfc (observedText input)) (previous input) input"
  by (simp_all add: decide_defs split: option.split)

lemma same_normal_form_same_digests:
  assumes "map_option (normalizeGoogleReplyText nfc) s = map_option (normalizeGoogleReplyText nfc) t"
  shows "map_option (googleReplyTextDigest nfc) s = map_option (googleReplyTextDigest nfc) t"
  using assms by (cases s; cases t) (auto intro: same_normal_form_same_digest)

lemma no_change_against_own_head:
  assumes "obs_state obs = prev_state p" "normalizedDigest obs = prev_normalizedDigest p"
    and "prev_sourceEpoch p = scope_sourceEpoch scope"
    and "scope_materialReviewRevision scope = prev_materialReviewRevision p
       \<or> prev_materialReviewRevision p < scope_materialReviewRevision scope"
  shows "decideObservationChange obs (Some p) scope = Unchanged"
  using assms
  by (cases "prev_state p")
     (auto simp: decideObservationChange_def isReplyCarriedOverFromEarlierRevision_def)

text \<open>
  Reading Google again changes nothing: against the head a first decision leaves, text with
  the same normal form (or continued absence) in the same source scope is no change and, with no
  open attempt, leaves the resolution \<open>unchanged\<close>. The same holds for live text after a guest
  edit moved the revision on within the source epoch: the carried-over reply is not a current
  reply to the new revision.
\<close>

theorem reading_again_changes_nothing:
  assumes "previous next = Some (head_of input (decideGoogleReplyObservation nfc input))"
    and "map_option (normalizeGoogleReplyText nfc) (observedText next)
       = map_option (normalizeGoogleReplyText nfc) (observedText input)"
    and "scope_sourceEpoch next = scope_sourceEpoch input"
    and "scope_materialReviewRevision next = scope_materialReviewRevision input
       \<or> scope_materialReviewRevision input < scope_materialReviewRevision next"
    and "current_candidate next = None"
  shows "change (decideGoogleReplyObservation nfc next) = Unchanged
     \<and> resolution (decideGoogleReplyObservation nfc next) = R_unchanged
     \<and> matchedReplyId (decideGoogleReplyObservation nfc next) = None"
proof -
  have dig: "map_option (googleReplyTextDigest nfc) (observedText next)
      = map_option (googleReplyTextDigest nfc) (observedText input)"
    by (rule same_normal_form_same_digests) fact
  have live: "observedText next = None \<longleftrightarrow> observedText input = None"
    using assms(2) by (metis map_option_is_None)
  have "obs_state (describeObservedText nfc (observedText next))
      = obs_state (describeObservedText nfc (observedText input))"
    using live by (cases "observedText next"; cases "observedText input") simp_all
  with dig have "obs_state (describeObservedText nfc (observedText next))
        = prev_state (head_of input (decideGoogleReplyObservation nfc input))"
      "normalizedDigest (describeObservedText nfc (observedText next))
        = prev_normalizedDigest (head_of input (decideGoogleReplyObservation nfc input))"
    unfolding head_of_sel decision_restates_observed by simp_all
  then have ch: "decideObservationChange (describeObservedText nfc (observedText next)) (previous next) next
      = Unchanged"
    unfolding assms(1) by (rule no_change_against_own_head) (use assms(3,4) in auto)
  have ex: "exact_candidate nfc next = None"
    using assms(5) by (simp add: exact_candidate_def)
  show ?thesis
    using ex assms(5) ch by (cases "observedText next") (simp_all add: decide_defs)
qed

section \<open>Witnesses\<close>

definition sample_candidate :: "js_string \<Rightarrow> publication_candidate" where
  "sample_candidate t =
     \<lparr>cand_replyId = ''r1'', cand_publicationCycle = 2, cand_attemptNumber = 1,
      cand_sourceEpoch = 0, cand_materialReviewRevision = 3,
      expectedReplyDigest = ''other'', expectedReplyText = Some t,
      earlierConfirmedDigest = None, outcome = O_sending\<rparr>"

definition sample_input :: "js_string option \<Rightarrow> previous_observation option
    \<Rightarrow> publication_candidate option \<Rightarrow> observation_input" where
  "sample_input t p c =
     \<lparr>scope_sourceEpoch = 0, scope_materialReviewRevision = 3,
      observedText = t, previous = p, candidate = c\<rparr>"

lemma digest_ne_short: "googleReplyTextDigest nfc t \<noteq> ''other''" "''other'' \<noteq> googleReplyTextDigest nfc t"
proof -
  have "length (googleReplyTextDigest nfc t) = 64"
    by (simp add: googleReplyTextDigest_def length_sha256Hex)
  moreover have "length ''other'' = 5" by simp
  ultimately show "googleReplyTextDigest nfc t \<noteq> ''other''" "''other'' \<noteq> googleReplyTextDigest nfc t"
    by (metis numeral_eq_iff semiring_norm(85) verit_eq_simplify(10,12) num.distinct)+
qed

theorem observation_confirms_only_our_text_witness:
  "matchedReplyId (decideGoogleReplyObservation id
     (sample_input (Some (js ''Thanks''))  None
        (Some (sample_candidate (js ''Thanks'')\<lparr>expectedReplyDigest :=
            googleReplyTextDigest id (js ''Thanks'')\<rparr>)))) \<noteq> None"
  using observation_confirms_only_our_text [of id "sample_input (Some (js ''Thanks'')) None
        (Some (sample_candidate (js ''Thanks'')\<lparr>expectedReplyDigest :=
            googleReplyTextDigest id (js ''Thanks'')\<rparr>))"]
  by (simp add: decide_defs exact_candidate_def current_candidate_def sample_input_def
      sample_candidate_def isConfirmableCurrentAttempt_def CONFIRMABLE_ATTEMPT_OUTCOMES_def)


theorem reading_again_changes_nothing_witness:
  "change (decideGoogleReplyObservation id
     (sample_input (Some (js ''Hi'')) (Some (head_of (sample_input (Some (js ''Hi'')) None None)
        (decideGoogleReplyObservation id (sample_input (Some (js ''Hi'')) None None)))) None))
   = Unchanged"
  using reading_again_changes_nothing [of "sample_input (Some (js ''Hi'')) (Some (head_of
        (sample_input (Some (js ''Hi'')) None None)
        (decideGoogleReplyObservation id (sample_input (Some (js ''Hi'')) None None)))) None"
      "sample_input (Some (js ''Hi'')) None None" id]
  by (simp add: sample_input_def current_candidate_def)

end
