(* ===== verification/MaterialRevision.thy ===== *)
theory MaterialRevision
  imports Sha256 JsDate
begin

text \<open>
  Material revisions of a guest review (src/contexts/review/domain/material-review-revision.ts):
  the comparison form of the guest's text, the digests of one provider observation, and the
  decision whether an observation is a new material revision (a guest edit), a restatement by
  Google or no change. Unicode NFC is the parameter \<open>nfc\<close>.
\<close>

section \<open>Canonical fields and digests\<close>

definition REVIEW_MATERIAL_NORMALIZATION_VERSION :: string where
  "REVIEW_MATERIAL_NORMALIZATION_VERSION = ''review-material-v1''"

datatype material_comparison =
    Initial_material_revision | Mat_unchanged | Material_change | Normalization_shadow_match
  | Baseline_unavailable

definition isGuestEdit :: "material_comparison \<Rightarrow> bool" where
  "isGuestEdit c = (c = Material_change)"

record material_description =
  md_rating :: int
  originalText :: "js_string option"
  md_normalizedText :: "js_string option"
  md_normalizationVersion :: string
  sourceDigest :: string
  md_normalizedDigest :: string

record previous_material =
  pm_materialRevision :: number
  pm_normalizationVersion :: string
  pm_sourceDigest :: "string option"
  pm_normalizedDigest :: "string option"
  pm_rating :: "int option"
  pm_originalText :: "js_string option"
  pm_rereadOriginalText :: "js_string option"

record provider_update_times =
  ut_stored :: "date option"
  ut_incoming :: "date option"

record material_outcome = material_description +
  comparison :: material_comparison
  materialRevision :: number
  createsMaterialRevision :: bool

record material_result = material_outcome +
  providerRestatement :: bool

definition canonicalField :: "js_string option \<Rightarrow> js_string" where
  "canonicalField v =
     (case v of
        None \<Rightarrow> js ''null''
      | Some t \<Rightarrow> js (''text:'' @ show_nat (length t) @ '':'') @ t)"

text \<open>\<open>None\<close> is the RangeError of an invalid date.\<close>

definition canonicalDate :: "date option \<Rightarrow> js_string option" where
  "canonicalDate v =
     (case v of
        None \<Rightarrow> Some (js ''null'')
      | Some d \<Rightarrow> map_option (\<lambda>s. js (''date:'' @ s)) (to_iso_string d))"

text \<open>Unicode \<^verbatim>\<open>White_Space\<close>: not the set \<^verbatim>\<open>\s\<close> and \<^verbatim>\<open>trim\<close> use (U+0085 is in it, U+FEFF is not).\<close>

definition is_unicode_white_space :: "16 word \<Rightarrow> bool" where
  "is_unicode_white_space w =
     (let c = unat w in
        c \<in> {9, 10, 11, 12, 13, 32, 133, 160, 5760, 8232, 8233, 8239, 8287, 12288}
        \<or> (8192 \<le> c \<and> c \<le> 8202))"

fun squeeze_white_space :: "js_string \<Rightarrow> js_string" where
  "squeeze_white_space [] = []"
| "squeeze_white_space [c] = [if is_unicode_white_space c then 32 else c]"
| "squeeze_white_space (c # d # s) =
     (if is_unicode_white_space c \<and> is_unicode_white_space d then squeeze_white_space (d # s)
      else (if is_unicode_white_space c then 32 else c) # squeeze_white_space (d # s))"

definition normalizeOriginalReviewText :: "normalizer \<Rightarrow> js_string option \<Rightarrow> js_string option" where
  "normalizeOriginalReviewText nfc v =
     (case v of
        None \<Rightarrow> None
      | Some t \<Rightarrow>
          let normalized = js_trim (squeeze_white_space (nfc t))
          in if length normalized = 0 then None else Some normalized)"

definition describeReviewMaterial :: "normalizer \<Rightarrow> int \<Rightarrow> js_string option \<Rightarrow> material_description"
where
  "describeReviewMaterial nfc rating t =
     (let normalized = normalizeOriginalReviewText nfc t in
      \<lparr>md_rating = rating, originalText = t, md_normalizedText = normalized,
       md_normalizationVersion = REVIEW_MATERIAL_NORMALIZATION_VERSION,
       sourceDigest = sha256Hex (js ''repkey-review-material-source-v1'' @ [0]
         @ js (show_int rating) @ [0] @ canonicalField t),
       md_normalizedDigest = sha256Hex (js ''repkey-review-material-normalized-v1'' @ [0]
         @ js (show_int rating) @ [0] @ canonicalField normalized)\<rparr>)"

record source_observation =
  so_rating :: int
  so_text :: "js_string option"
  so_translatedText :: "js_string option"
  so_languageCode :: "js_string option"
  so_reviewerName :: "js_string option"
  so_reviewerProfilePhotoUrl :: "js_string option"
  so_reviewedAt :: date
  so_sourceCreatedAt :: "date option"
  so_sourceUpdatedAt :: "date option"

fun join_nul :: "js_string list \<Rightarrow> js_string" where
  "join_nul [] = []"
| "join_nul [x] = x"
| "join_nul (x # y # xs) = x @ 0 # join_nul (y # xs)"

definition source_observation_preimage :: "source_observation \<Rightarrow> js_string option" where
  "source_observation_preimage i =
     (case (canonicalDate (Some (so_reviewedAt i)), canonicalDate (so_sourceCreatedAt i),
            canonicalDate (so_sourceUpdatedAt i)) of
        (Some reviewed, Some created, Some updated) \<Rightarrow>
          Some (js ''repkey-review-source-observation-v1'' @ [0] @ join_nul
            [js (show_int (so_rating i)),
             canonicalField (so_text i),
             canonicalField (so_translatedText i),
             canonicalField (so_languageCode i),
             canonicalField (so_reviewerName i),
             canonicalField (so_reviewerProfilePhotoUrl i),
             reviewed, created, updated])
      | _ \<Rightarrow> None)"

definition computeReviewSourceObservationDigest :: "source_observation \<Rightarrow> string option" where
  "computeReviewSourceObservationDigest i = map_option sha256Hex (source_observation_preimage i)"

section \<open>The comparison\<close>

definition isPositiveSafeInteger :: "number \<Rightarrow> bool" where
  "isPositiveSafeInteger v = (is_safe_integer v \<and> num_lt (nint 0) v)"

definition matchesRereadBaseline ::
  "normalizer \<Rightarrow> previous_material \<Rightarrow> 'a material_description_scheme \<Rightarrow> bool" where
  "matchesRereadBaseline nfc prev material =
     (case (pm_rereadOriginalText prev, pm_rating prev) of
        (Some reread, Some rating) \<Rightarrow>
          md_normalizedDigest (describeReviewMaterial nfc rating (Some reread))
            = md_normalizedDigest material
      | _ \<Rightarrow> False)"

definition providerUpdateTimeUnmoved :: "provider_update_times option \<Rightarrow> bool" where
  "providerUpdateTimeUnmoved u =
     (case u of
        None \<Rightarrow> False
      | Some ut \<Rightarrow>
          (case (ut_stored ut, ut_incoming ut) of
             (Some s, Some i) \<Rightarrow> num_eq (get_time s) (get_time i)
           | _ \<Rightarrow> False))"

definition outcome_of ::
  "material_description \<Rightarrow> material_comparison \<Rightarrow> number \<Rightarrow> bool \<Rightarrow> material_outcome" where
  "outcome_of m c rv creates =
     material_description.extend m
       \<lparr>comparison = c, materialRevision = rv, createsMaterialRevision = creates\<rparr>"

definition compareMaterial ::
  "normalizer \<Rightarrow> previous_material option \<Rightarrow> int \<Rightarrow> js_string option
     \<Rightarrow> (string, material_outcome) result" where
  "compareMaterial nfc prev rating t =
     (let material = describeReviewMaterial nfc rating t in
      case prev of
        None \<Rightarrow> ok (outcome_of material Initial_material_revision (nint 1) True)
      | Some p \<Rightarrow>
        let rv = pm_materialRevision p in
        if \<not> isPositiveSafeInteger rv then
          err ''Previous material revision must be a positive safe integer''
        else if pm_normalizationVersion p = REVIEW_MATERIAL_NORMALIZATION_VERSION
                \<and> pm_normalizedDigest p \<noteq> None then
          let same = (pm_normalizedDigest p = Some (md_normalizedDigest material)) in
          if \<not> same \<and> matchesRereadBaseline nfc p material then
            ok (outcome_of material Normalization_shadow_match rv False)
          else ok (outcome_of material (if same then Mat_unchanged else Material_change)
                     (if same then rv else num_add rv (nint 1)) (\<not> same))
        else case pm_rating p of
          None \<Rightarrow> ok (outcome_of material Baseline_unavailable rv False)
        | Some prating \<Rightarrow>
            let same = (md_normalizedDigest (describeReviewMaterial nfc prating (pm_originalText p))
                        = md_normalizedDigest material)
            in ok (outcome_of material (if same then Normalization_shadow_match else Material_change)
                     (if same then rv else num_add rv (nint 1)) (\<not> same)))"

definition compareMaterialReviewRevision ::
  "normalizer \<Rightarrow> previous_material option \<Rightarrow> int \<Rightarrow> js_string option
     \<Rightarrow> provider_update_times option \<Rightarrow> (string, material_result) result" where
  "compareMaterialReviewRevision nfc prev rating t ut =
     (case compareMaterial nfc prev rating t of
        Inl e \<Rightarrow> err e
      | Inr oc \<Rightarrow>
          (case prev of
             Some p \<Rightarrow>
               if comparison oc \<noteq> Material_change \<or> \<not> providerUpdateTimeUnmoved ut
               then ok (material_outcome.extend oc \<lparr>providerRestatement = False\<rparr>)
               else ok (material_outcome.extend
                 (oc\<lparr>comparison := Normalization_shadow_match,
                     materialRevision := pm_materialRevision p,
                     createsMaterialRevision := False\<rparr>) \<lparr>providerRestatement = True\<rparr>)
           | None \<Rightarrow> ok (material_outcome.extend oc \<lparr>providerRestatement = False\<rparr>)))"

section \<open>The revision discipline\<close>

lemma outcome_simps [simp]:
  "comparison (outcome_of m c rv creates) = c"
  "materialRevision (outcome_of m c rv creates) = rv"
  "createsMaterialRevision (outcome_of m c rv creates) = creates"
  "md_normalizedDigest (outcome_of m c rv creates) = md_normalizedDigest m"
  "md_normalizationVersion (outcome_of m c rv creates) = md_normalizationVersion m"
  "md_rating (outcome_of m c rv creates) = md_rating m"
  by (simp_all add: outcome_of_def material_description.defs)

lemma describe_simps [simp]:
  "md_normalizationVersion (describeReviewMaterial nfc rating t)
     = REVIEW_MATERIAL_NORMALIZATION_VERSION"
  "md_rating (describeReviewMaterial nfc rating t) = rating"
  by (simp_all add: describeReviewMaterial_def Let_def)

lemma compareMaterial_previous:
  assumes "compareMaterial nfc (Some p) rating t = Inr oc" "pm_materialRevision p = nint k"
  shows "0 < k" "createsMaterialRevision oc \<longleftrightarrow> comparison oc = Material_change"
    "materialRevision oc = nint (if comparison oc = Material_change then k + 1 else k)"
proof -
  have pos: "isPositiveSafeInteger (nint k) \<longleftrightarrow> 0 < k \<and> k \<le> max_safe_integer"
    by (auto simp: isPositiveSafeInteger_def)
  show "0 < k"
    using assms pos by (auto simp: compareMaterial_def Let_def split: if_splits)
  show "createsMaterialRevision oc \<longleftrightarrow> comparison oc = Material_change"
    using assms(1)
    by (simp add: compareMaterial_def Let_def split: if_splits option.splits) auto
  show "materialRevision oc = nint (if comparison oc = Material_change then k + 1 else k)"
    using assms(1)
    by (simp add: compareMaterial_def Let_def assms(2) split: if_splits option.splits) auto
qed

lemma compare_cases:
  assumes "compareMaterialReviewRevision nfc (Some p) rating t ut = Inr r"
  obtains oc where "compareMaterial nfc (Some p) rating t = Inr oc"
    and "r = (if comparison oc \<noteq> Material_change \<or> \<not> providerUpdateTimeUnmoved ut
              then material_outcome.extend oc \<lparr>providerRestatement = False\<rparr>
              else material_outcome.extend
                 (oc\<lparr>comparison := Normalization_shadow_match,
                     materialRevision := pm_materialRevision p,
                     createsMaterialRevision := False\<rparr>) \<lparr>providerRestatement = True\<rparr>)"
  using assms
  by (auto simp: compareMaterialReviewRevision_def split: sum.splits if_splits)


text \<open>The head the writer stores after an observation.\<close>

definition adopted_head :: "material_result \<Rightarrow> previous_material" where
  "adopted_head r =
     \<lparr>pm_materialRevision = materialRevision r,
      pm_normalizationVersion = md_normalizationVersion r,
      pm_sourceDigest = Some (sourceDigest r), pm_normalizedDigest = Some (md_normalizedDigest r),
      pm_rating = Some (md_rating r), pm_originalText = originalText r,
      pm_rereadOriginalText = None\<rparr>"

lemma adopted_digest:
  assumes "compareMaterialReviewRevision nfc prev rating t ut = Inr r"
  shows "md_normalizedDigest r = md_normalizedDigest (describeReviewMaterial nfc rating t)"
    "md_normalizationVersion r = REVIEW_MATERIAL_NORMALIZATION_VERSION"
  using assms
  by (auto simp: compareMaterialReviewRevision_def compareMaterial_def Let_def
      material_outcome.defs split: sum.splits if_splits option.splits)

lemma same_normal_form_same_material:
  "normalizeOriginalReviewText nfc s = normalizeOriginalReviewText nfc t \<Longrightarrow>
   md_normalizedDigest (describeReviewMaterial nfc rating s)
     = md_normalizedDigest (describeReviewMaterial nfc rating t)"
  by (simp add: describeReviewMaterial_def Let_def)

text \<open>
  Replaying a review is idempotent: against the head any accepted observation leaves, an
  observation with the same rating and the same normal form of text is unchanged and keeps the
  revision, whatever update times Google reports.
\<close>

theorem replayed_review_is_unchanged:
  assumes "compareMaterialReviewRevision nfc prev rating t ut = Inr r"
    and "isPositiveSafeInteger (materialRevision r)"
    and "normalizeOriginalReviewText nfc s = normalizeOriginalReviewText nfc t"
  shows "\<exists>q. compareMaterialReviewRevision nfc (Some (adopted_head r)) rating s ut' = Inr q
      \<and> comparison q = Mat_unchanged \<and> materialRevision q = materialRevision r
      \<and> \<not> createsMaterialRevision q \<and> \<not> providerRestatement q"
proof -
  have "compareMaterial nfc (Some (adopted_head r)) rating s
      = Inr (outcome_of (describeReviewMaterial nfc rating s) Mat_unchanged (materialRevision r) False)"
    using assms(2) adopted_digest[OF assms(1)]
      same_normal_form_same_material[OF assms(3), of rating]
    by (simp add: compareMaterial_def adopted_head_def Let_def)
  then show ?thesis
    by (simp add: compareMaterialReviewRevision_def material_outcome.defs)
qed

section \<open>The source observation is readable from its digested text\<close>

lemma unat_js_char: "unat (word_of_nat (of_char c) :: 16 word) = of_char c"
proof -
  have "(of_char c :: nat) < 2 ^ LENGTH(16)"
    by (rule order.strict_trans[of _ 256]) simp_all
  then show ?thesis by (simp add: unat_of_nat)
qed

lemma js_inject [simp]: "js s = js t \<longleftrightarrow> s = t"
proof -
  have "inj (\<lambda>c. word_of_nat (of_char c) :: 16 word)"
    by (rule injI) (metis unat_js_char of_char_eq_iff)
  then show ?thesis by (simp add: js_def inj_map_eq_map)
qed

lemma js_append: "js (s @ t) = js s @ js t"
  by (simp add: js_def)

lemma js_Cons: "js (c # s) = word_of_nat (of_char c) # js s"
  by (simp add: js_def)

definition js_digit :: "16 word \<Rightarrow> bool" where
  "js_digit w = (48 \<le> unat w \<and> unat w \<le> 57)"

lemma js_digits: "\<forall>w \<in> set (js (show_nat n)). js_digit w"
  using show_nat_digits[of n] by (auto simp: js_def js_digit_def is_digit_def unat_js_char)

text \<open>A length-prefixed field is a prefix code: it is read back from any continuation.\<close>

lemma canonicalField_prefix_code:
  assumes "canonicalField a @ x = canonicalField b @ y"
  shows "a = b \<and> x = y"
proof -
  have null: "canonicalField None @ x \<noteq> canonicalField (Some t) @ y" for t x y
    by (simp add: canonicalField_def js_def)
  show ?thesis
  proof (cases a)
    case None
    with assms null show ?thesis by (cases b) auto
  next
    case (Some s)
    with assms null obtain t where t: "b = Some t" by (cases b) metis+
    have colon: "\<not> js_digit 58" by (simp add: js_digit_def)
    have eq: "js (show_nat (length s)) @ 58 # s @ x = js (show_nat (length t)) @ 58 # t @ y"
      using assms by (simp add: Some t canonicalField_def js_append js_Cons) (simp add: js_def)
    have tw: "takeWhile js_digit (js (show_nat n) @ 58 # z) = js (show_nat n)" for n z
      using js_digits[of n] colon by (simp add: takeWhile_append)
    have "length s = length t"
      using arg_cong[OF eq, of "takeWhile js_digit"] by (simp add: tw)
    with eq show ?thesis by (simp add: Some t)
  qed
qed

lemma nul_split:
  fixes xs ys :: js_string
  assumes "xs @ 0 # x = ys @ 0 # y" "0 \<notin> set xs" "0 \<notin> set ys"
  shows "xs = ys \<and> x = y"
  using assms by (induction xs arbitrary: ys) (auto simp: Cons_eq_append_conv append_eq_Cons_conv)

lemma js_no_nul: "CHR 0x00 \<notin> set s \<Longrightarrow> 0 \<notin> set (js s)"
proof
  assume a: "CHR 0x00 \<notin> set s" "0 \<in> set (js s)"
  then obtain c where c: "c \<in> set s" "(word_of_nat (of_char c) :: 16 word) = 0"
    by (auto simp: js_def)
  then have "(of_char c :: nat) = 0"
    by (metis unat_0 unat_js_char)
  moreover have "(of_char (CHR 0x00) :: nat) = 0" by simp
  ultimately have "c = CHR 0x00"
    by (metis of_char_eq_iff)
  with a(1) c(1) show False by blast
qed

lemma canonicalDate_no_nul: "canonicalDate d = Some s \<Longrightarrow> 0 \<notin> set s"
  by (cases d)
     (auto simp: canonicalDate_def js_append split: option.splits
       dest!: iso_string_no_nul js_no_nul, auto simp: js_def)

lemma canonicalDate_inject:
  assumes "canonicalDate d = Some s" "canonicalDate e = Some s"
  shows "d = e"
proof (cases d; cases e)
  fix x y assume "d = Some x" "e = Some y"
  with assms show ?thesis
    by (auto simp: canonicalDate_def js_append split: option.splits dest: to_iso_string_inject)
qed (use assms in \<open>auto simp: canonicalDate_def js_append js_def split: option.splits\<close>)

lemma show_int_no_nul: "CHR 0x00 \<notin> set (show_int n)"
proof -
  have "\<not> is_digit (CHR 0x00)" by (simp add: is_digit_def)
  with show_nat_digits show ?thesis by (auto simp: show_int_def)
qed

lemma show_int_inject: "show_int m = show_int n \<longleftrightarrow> m = n"
proof -
  have "\<not> is_digit (CHR ''-'')" by (simp add: is_digit_def)
  then have "show_nat k \<noteq> CHR ''-'' # s" for k s
    by (metis show_nat_digits list.set_intros(1))
  then have "show_nat k \<noteq> CHR ''-'' # s" "CHR ''-'' # s \<noteq> show_nat k" for k s
    by metis+
  then show ?thesis
    by (auto simp: show_int_def)
qed

text \<open>
  C37. The text digested for a provider observation determines the observation: two observations
  with printable dates have the same digest input only if rating, all five texts and all three
  times agree, whatever characters (NUL, colons, digits) the texts contain.
\<close>

theorem source_observation_is_readable:
  "source_observation_preimage i = source_observation_preimage j
     \<and> source_observation_preimage j \<noteq> None
   \<longleftrightarrow> i = j \<and> source_observation_preimage j \<noteq> None"
proof -
  have "i = j" if i: "source_observation_preimage i = Some s" and j: "source_observation_preimage j = Some s" for s
  proof -
    obtain a b c where d: "canonicalDate (Some (so_reviewedAt i)) = Some a"
        "canonicalDate (so_sourceCreatedAt i) = Some b" "canonicalDate (so_sourceUpdatedAt i) = Some c"
      using i by (auto simp: source_observation_preimage_def split: option.splits)
    obtain x y z where e: "canonicalDate (Some (so_reviewedAt j)) = Some x"
        "canonicalDate (so_sourceCreatedAt j) = Some y" "canonicalDate (so_sourceUpdatedAt j) = Some z"
      using j by (auto simp: source_observation_preimage_def split: option.splits)
    note nn = js_no_nul[OF show_int_no_nul]
    from i j d e have "js (show_int (so_rating i)) @ 0 # canonicalField (so_text i) @ 0 #
        canonicalField (so_translatedText i) @ 0 # canonicalField (so_languageCode i) @ 0 #
        canonicalField (so_reviewerName i) @ 0 # canonicalField (so_reviewerProfilePhotoUrl i) @ 0 #
        a @ 0 # b @ 0 # c
      = js (show_int (so_rating j)) @ 0 # canonicalField (so_text j) @ 0 #
        canonicalField (so_translatedText j) @ 0 # canonicalField (so_languageCode j) @ 0 #
        canonicalField (so_reviewerName j) @ 0 # canonicalField (so_reviewerProfilePhotoUrl j) @ 0 #
        x @ 0 # y @ 0 # z"
      by (auto simp: source_observation_preimage_def)
    then have "so_rating i = so_rating j" and "so_text i = so_text j"
        and "so_translatedText i = so_translatedText j" and "so_languageCode i = so_languageCode j"
        and "so_reviewerName i = so_reviewerName j"
        and "so_reviewerProfilePhotoUrl i = so_reviewerProfilePhotoUrl j"
        and rest: "a @ 0 # b @ 0 # c = x @ 0 # y @ 0 # z"
      using nn by (auto simp: show_int_inject dest!: nul_split canonicalField_prefix_code)
    moreover have "a = x" "b = y" "c = z"
      using rest canonicalDate_no_nul[OF d(1)] canonicalDate_no_nul[OF d(2)]
        canonicalDate_no_nul[OF e(1)] canonicalDate_no_nul[OF e(2)]
      by (auto dest!: nul_split)
    with d e have "so_reviewedAt i = so_reviewedAt j" "so_sourceCreatedAt i = so_sourceCreatedAt j"
        "so_sourceUpdatedAt i = so_sourceUpdatedAt j"
      using canonicalDate_inject by blast+
    ultimately show ?thesis by simp
  qed
  then show ?thesis by auto
qed

section \<open>Witnesses\<close>

definition sample_head :: previous_material where
  "sample_head =
     \<lparr>pm_materialRevision = nint 3, pm_normalizationVersion = REVIEW_MATERIAL_NORMALIZATION_VERSION,
      pm_sourceDigest = None, pm_normalizedDigest = Some ''other'', pm_rating = Some 4,
      pm_originalText = None, pm_rereadOriginalText = None\<rparr>"

lemma digest_not_short: "sha256Hex t \<noteq> ''other''" "''other'' \<noteq> sha256Hex t"
proof -
  have "length (sha256Hex t) \<noteq> length ''other''"
    by (simp add: length_sha256Hex)
  then show "sha256Hex t \<noteq> ''other''" "''other'' \<noteq> sha256Hex t" by metis+
qed


theorem replayed_review_is_unchanged_witness:
  "\<exists>r q. compareMaterialReviewRevision id None 2 (Some (js ''Cold'')) None = Inr r
     \<and> compareMaterialReviewRevision id (Some (adopted_head r)) 2 (Some (js ''Cold'')) None = Inr q
     \<and> comparison q = Mat_unchanged"
proof -
  obtain r where r: "compareMaterialReviewRevision id None 2 (Some (js ''Cold'')) None = Inr r"
      and c: "materialRevision r = nint 1"
    by (simp add: compareMaterialReviewRevision_def compareMaterial_def Let_def material_outcome.defs)
  then show ?thesis
    using replayed_review_is_unchanged [OF r, of "Some (js ''Cold'')" None]
    by (auto simp: isPositiveSafeInteger_def max_safe_integer_def)
qed

end
