(* ===== verification/Discovery.thy ===== *)
theory Discovery
  imports Prelude
begin

text \<open>
  When the discovery sweep looks at a property and how a failed snapshot waits
  (src/contexts/review/domain: discovery-backoff.ts, discovery-spread.ts,
  discovery-reconciliation.ts, snapshot-failure-backoff.ts). Durations are numbers of
  milliseconds; an invalid date gives NaN, which the comparisons treat as the code does.
\<close>

unbundle bit_operations_syntax

section \<open>The backoff ladder\<close>

datatype backoff_tier = Hot | Warm | Cold

record discovery_activity =
  lastNewReviewAt :: "date option"
  lastNotificationAt :: "date option"
  observedSince :: "date option"

fun DISCOVERY_TIER_MULTIPLIER :: "backoff_tier \<Rightarrow> rat" where
  "DISCOVERY_TIER_MULTIPLIER Hot = 1"
| "DISCOVERY_TIER_MULTIPLIER Warm = 4"
| "DISCOVERY_TIER_MULTIPLIER Cold = 24"

definition DISCOVERY_WARM_AFTER_MS :: int where
  "DISCOVERY_WARM_AFTER_MS = 6 * 60 * 60 * 1000"

definition DISCOVERY_COLD_AFTER_MS :: int where
  "DISCOVERY_COLD_AFTER_MS = 3 * 24 * 60 * 60 * 1000"

definition DISCOVERY_MAX_INTERVAL_MS :: int where
  "DISCOVERY_MAX_INTERVAL_MS = 6 * 60 * 60 * 1000"

fun newest_of :: "date option \<Rightarrow> date option list \<Rightarrow> date option" where
  "newest_of newest [] = newest"
| "newest_of newest (None # cs) = newest_of newest cs"
| "newest_of newest (Some c # cs) =
     newest_of (case newest of
                  None \<Rightarrow> Some c
                | Some n \<Rightarrow> if num_lt (get_time n) (get_time c) then Some c else newest) cs"

definition lastDiscoveryActivityAt :: "discovery_activity \<Rightarrow> date option" where
  "lastDiscoveryActivityAt a =
     newest_of None [lastNewReviewAt a, lastNotificationAt a, observedSince a]"

definition discoveryTierFor :: "discovery_activity \<Rightarrow> date \<Rightarrow> backoff_tier" where
  "discoveryTierFor a now =
     (case lastDiscoveryActivityAt a of
        None \<Rightarrow> Cold
      | Some t \<Rightarrow>
          let quietForMs = num_max (nint 0) (num_sub (get_time now) (get_time t)) in
          if num_lt quietForMs (nint DISCOVERY_WARM_AFTER_MS) then Hot
          else if num_lt quietForMs (nint DISCOVERY_COLD_AFTER_MS) then Warm
          else Cold)"

definition discoveryIntervalMs :: "discovery_activity \<Rightarrow> date \<Rightarrow> number \<Rightarrow> number" where
  "discoveryIntervalMs a now base =
     (let scaled = num_scale (DISCOVERY_TIER_MULTIPLIER (discoveryTierFor a now)) base
      in num_max base (num_min scaled (nint DISCOVERY_MAX_INTERVAL_MS)))"

definition nextDiscoveryDueAt :: "discovery_activity \<Rightarrow> date \<Rightarrow> number \<Rightarrow> date" where
  "nextDiscoveryDueAt a now base =
     new_date (num_add (get_time now) (discoveryIntervalMs a now base))"

section \<open>The spread of a sweep\<close>

definition DISCOVERY_SWEEP_CADENCE_MS :: int where
  "DISCOVERY_SWEEP_CADENCE_MS = 15 * 60 * 1000"

definition DISCOVERY_SPREAD_WINDOW_MS :: int where
  "DISCOVERY_SPREAD_WINDOW_MS = 10 * 60 * 1000"

definition discoverySpreadWindowMs :: "number \<Rightarrow> number \<Rightarrow> number" where
  "discoverySpreadWindowMs base requested =
     num_max (nint 0)
       (num_min (num_min requested (nint (DISCOVERY_SWEEP_CADENCE_MS - 1))) (num_sub base (nint 1)))"

definition FNV_OFFSET_BASIS :: "32 word" where "FNV_OFFSET_BASIS = 0x811c9dc5"
definition FNV_PRIME :: "32 word" where "FNV_PRIME = 0x01000193"

text \<open>\<^verbatim>\<open>Math.imul\<close> is multiplication modulo 2^32.\<close>

definition fnv1a32 :: "js_string \<Rightarrow> 32 word" where
  "fnv1a32 t = foldl (\<lambda>h c. (h XOR ucast c) * FNV_PRIME) FNV_OFFSET_BASIS t"

text \<open>\<^verbatim>\<open>fnv1a32(propertyId) % width\<close>, with an infinite width leaving the hash.\<close>

definition discoverySpreadDelayMs :: "js_string \<Rightarrow> number \<Rightarrow> number" where
  "discoverySpreadDelayMs propertyId windowMs =
     (case num_floor windowMs of
        Fin w \<Rightarrow> if 0 < w then nint (uint (fnv1a32 propertyId) mod \<lfloor>w\<rfloor>) else nint 0
      | PosInf \<Rightarrow> nint (uint (fnv1a32 propertyId))
      | _ \<Rightarrow> nint 0)"

section \<open>When a look may skip\<close>

definition DISCOVERY_RECONCILE_WITHIN_MS :: int where
  "DISCOVERY_RECONCILE_WITHIN_MS = 6 * 60 * 60 * 1000"

datatype full_reason = Skip_disabled | Failure_retry | No_reconciliation | Due

datatype discovery_look = Full full_reason | Skip (look_nextDueAt: date) (look_headCheck: bool)

record look_input =
  lastReconciledAt :: "date option"
  hasOutstandingFailure :: bool
  skipEnabled :: bool
  headChecks :: bool
  reconcileWithinMs :: "number option"
  look_now :: date
  look_interval :: number

definition look_deadline :: "look_input \<Rightarrow> date \<Rightarrow> number" where
  "look_deadline i reconciled =
     num_add (get_time reconciled)
       (case reconcileWithinMs i of None \<Rightarrow> nint DISCOVERY_RECONCILE_WITHIN_MS | Some w \<Rightarrow> w)"

definition discoveryLookFor :: "look_input \<Rightarrow> discovery_look" where
  "discoveryLookFor i =
     (if \<not> skipEnabled i then Full Skip_disabled
      else if hasOutstandingFailure i then Full Failure_retry
      else case lastReconciledAt i of
        None \<Rightarrow> Full No_reconciliation
      | Some reconciled \<Rightarrow>
          let deadline = look_deadline i reconciled;
              next_look = num_add (get_time (look_now i)) (look_interval i)
          in if num_le deadline next_look then Full Due
             else if headChecks i then Skip (new_date next_look) True
             else Skip (new_date (num_max next_look (num_sub deadline (look_interval i)))) False)"

section \<open>The wait after a failed snapshot\<close>

definition LOCATION_TOO_LARGE_RETRY_MS :: int where
  "LOCATION_TOO_LARGE_RETRY_MS = 24 * 60 * 60 * 1000"

definition SNAPSHOT_FAILURE_MAX_RETRY_MS :: int where
  "SNAPSHOT_FAILURE_MAX_RETRY_MS = 6 * 60 * 60 * 1000"

definition SNAPSHOT_FAILURE_BACKOFF_FACTOR :: rat where
  "SNAPSHOT_FAILURE_BACKOFF_FACTOR = 4"

record previous_failure =
  errorClass :: "string option"
  failedAt :: "date option"
  retryAt :: "date option"

record failure_retry_input =
  fr_previous :: "previous_failure option"
  fr_now :: date
  baseIntervalMs :: number
  locationTooLarge :: bool

definition previousWaitMs :: "previous_failure \<Rightarrow> number option" where
  "previousWaitMs p =
     (case (failedAt p, retryAt p) of
        (Some f, Some r) \<Rightarrow>
          let waitMs = num_sub (get_time r) (get_time f)
          in if num_lt (nint 0) waitMs then Some waitMs else None
      | _ \<Rightarrow> None)"

definition snapshotFailureRetryMs :: "failure_retry_input \<Rightarrow> number" where
  "snapshotFailureRetryMs i =
     (if locationTooLarge i then nint LOCATION_TOO_LARGE_RETRY_MS
      else case fr_previous i of
        None \<Rightarrow> baseIntervalMs i
      | Some p \<Rightarrow>
          if errorClass p = None then baseIntervalMs i
          else
            let base = baseIntervalMs i;
                waitedMs = num_min
                  (num_max (case previousWaitMs p of None \<Rightarrow> base | Some w \<Rightarrow> w) base)
                  (nint SNAPSHOT_FAILURE_MAX_RETRY_MS);
                queueRetry = (case retryAt p of
                  None \<Rightarrow> False | Some r \<Rightarrow> num_lt (get_time (fr_now i)) (get_time r));
                nextMs = (if queueRetry then waitedMs
                          else num_scale SNAPSHOT_FAILURE_BACKOFF_FACTOR waitedMs)
            in num_max base (num_min nextMs (nint SNAPSHOT_FAILURE_MAX_RETRY_MS)))"

definition recordsFailureOfRun :: "previous_failure option \<Rightarrow> date option \<Rightarrow> bool" where
  "recordsFailureOfRun prev runFailedAt =
     (case prev of
        None \<Rightarrow> False
      | Some p \<Rightarrow>
          (case failedAt p of
             None \<Rightarrow> errorClass p \<noteq> None
           | Some f \<Rightarrow>
               (case runFailedAt of
                  None \<Rightarrow> True
                | Some r \<Rightarrow> num_le (get_time r) (get_time f))))"

lemmas discovery_constants = DISCOVERY_WARM_AFTER_MS_def DISCOVERY_COLD_AFTER_MS_def
  DISCOVERY_MAX_INTERVAL_MS_def DISCOVERY_SWEEP_CADENCE_MS_def DISCOVERY_SPREAD_WINDOW_MS_def
  DISCOVERY_RECONCILE_WITHIN_MS_def LOCATION_TOO_LARGE_RETRY_MS_def
  SNAPSHOT_FAILURE_MAX_RETRY_MS_def SNAPSHOT_FAILURE_BACKOFF_FACTOR_def

section \<open>Cadence properties\<close>

lemma interval_nint:
  "discoveryIntervalMs a now (nint b) =
     nint (max b (min ((case discoveryTierFor a now of Hot \<Rightarrow> 1 | Warm \<Rightarrow> 4 | Cold \<Rightarrow> 24) * b)
                      DISCOVERY_MAX_INTERVAL_MS))"
proof -
  have "num_scale 1 (nint b) = nint b" by (simp add: nint_def)
  then show ?thesis
    by (cases "discoveryTierFor a now") (simp_all add: discoveryIntervalMs_def Let_def)
qed

text \<open>
  The ladder only ever slows polling down, within the cap: for a base interval b the next
  look is between b and max(b, 6 h) after now, quieter tiers never look sooner, and a property
  with activity in the last six hours (or a future activity time) is looked at on the base
  interval.
\<close>

theorem discovery_cadence:
  assumes "0 < b"
  shows "\<exists>k. discoveryIntervalMs a now (nint b) = nint k
      \<and> b \<le> k \<and> k \<le> max b DISCOVERY_MAX_INTERVAL_MS
      \<and> (discoveryTierFor a now = Hot \<longrightarrow> k = b)
      \<and> (\<forall>a' k'. discoveryIntervalMs a' now (nint b) = nint k'
            \<and> discoveryTierFor a now = Cold \<longrightarrow> k' \<le> k)
      \<and> (\<forall>t n. lastDiscoveryActivityAt a = Some (At t) \<and> now = At n \<longrightarrow>
            (discoveryTierFor a now = Hot \<longleftrightarrow> n - t < DISCOVERY_WARM_AFTER_MS)
            \<and> (discoveryTierFor a now = Cold \<longleftrightarrow> DISCOVERY_COLD_AFTER_MS \<le> n - t))"
proof -
  define k where "k = max b (min ((case discoveryTierFor a now of Hot \<Rightarrow> 1 | Warm \<Rightarrow> 4 | Cold \<Rightarrow> 24) * b)
      DISCOVERY_MAX_INTERVAL_MS)"
  have "discoveryIntervalMs a now (nint b) = nint k"
    by (simp add: interval_nint k_def)
  moreover have "b \<le> k" "k \<le> max b DISCOVERY_MAX_INTERVAL_MS"
    by (auto simp: k_def)
  moreover have "discoveryTierFor a now = Hot \<longrightarrow> k = b"
    by (simp add: k_def)
  moreover have "k' \<le> k" if "discoveryIntervalMs a' now (nint b) = nint k'"
      "discoveryTierFor a now = Cold" for a' k'
    using that assms
    by (cases "discoveryTierFor a' now") (auto simp: interval_nint k_def)
  moreover have "(discoveryTierFor a now = Hot \<longleftrightarrow> n - t < DISCOVERY_WARM_AFTER_MS)
      \<and> (discoveryTierFor a now = Cold \<longleftrightarrow> DISCOVERY_COLD_AFTER_MS \<le> n - t)"
    if "lastDiscoveryActivityAt a = Some (At t)" "now = At n" for t n
    using that by (auto simp: discoveryTierFor_def Let_def discovery_constants)
  ultimately show ?thesis by blast
qed

theorem discovery_cadence_witness:
  "\<exists>k. discoveryIntervalMs \<lparr>lastNewReviewAt = Some (At 0), lastNotificationAt = None,
          observedSince = None\<rparr> (At 400000000) (nint 900000) = nint k
     \<and> 900000 \<le> k \<and> k \<le> 21600000"
  using discovery_cadence [of 900000 "\<lparr>lastNewReviewAt = Some (At 0), lastNotificationAt = None,
          observedSince = None\<rparr>" "At 400000000"]
  by (auto simp: discovery_constants)

text \<open>
  Skipping keeps the reconciliation promise. A skipped look is due again before the deadline
  of the last completed reconciliation, no sooner than one interval, and, when it is the only
  wake-up (no head checks), the look at that time runs in full; with head checks every skipped
  look moves time on by one interval. So every chain of skipped looks ends in a full look, started
  no later than the deadline.
\<close>

theorem skipped_look_keeps_deadline:
  assumes "discoveryLookFor i = Skip due hc"
    and "lastReconciledAt i = Some (At r)" "look_now i = At n" "look_interval i = nint k"
    and "reconcileWithinMs i = Some (nint w)" "0 < k"
    and "0 \<le> n" "r + w \<le> max_time_value"
  shows "\<exists>d. due = At d \<and> n + k \<le> d \<and> d < r + w \<and> hc = headChecks i
      \<and> (\<not> hc \<longrightarrow> discoveryLookFor (i\<lparr>look_now := due\<rparr>) = Full Due)
      \<and> (hc \<longrightarrow> d = n + k)"
proof -
  have dl: "look_deadline j (At r) = nint (r + w)" if "reconcileWithinMs j = Some (nint w)" for j
    using that by (simp add: look_deadline_def)
  have nf: "skipEnabled i" "\<not> hasOutstandingFailure i" and late: "n + k < r + w"
    using assms(1-5) by (auto simp: discoveryLookFor_def dl Let_def split: if_splits)
  define d where "d = (if headChecks i then n + k else max (n + k) (r + w - k))"
  have range: "n + k \<le> d" "d < r + w" "\<bar>d\<bar> \<le> max_time_value"
    using late assms(6-8) by (auto simp: d_def)
  have due: "due = At d" "hc = headChecks i"
    using assms(1-5) nf late range(3)
    by (auto simp: discoveryLookFor_def dl Let_def d_def split: if_splits)
  moreover have "discoveryLookFor (i\<lparr>look_now := due\<rparr>) = Full Due" if "\<not> hc"
    using that assms(2-5) nf due
    by (auto simp: discoveryLookFor_def dl Let_def d_def)
  ultimately show ?thesis
    using range by (auto simp: d_def)
qed

definition sample_look :: look_input where
  "sample_look = \<lparr>lastReconciledAt = Some (At 0), hasOutstandingFailure = False,
     skipEnabled = True, headChecks = False, reconcileWithinMs = Some (nint 21600000),
     look_now = At 900000, look_interval = nint 3600000\<rparr>"

theorem skipped_look_keeps_deadline_witness:
  "discoveryLookFor (sample_look\<lparr>look_now := look_nextDueAt (discoveryLookFor sample_look)\<rparr>) = Full Due"
proof -
  have l: "discoveryLookFor sample_look = Skip (At 18000000) False"
    by (simp add: sample_look_def discoveryLookFor_def look_deadline_def Let_def max_time_value_def)
  show ?thesis
    using skipped_look_keeps_deadline [OF l, of 0 900000 3600000 21600000]
    by (simp add: l) (simp add: sample_look_def max_time_value_def)
qed

section \<open>Spread properties\<close>

lemma window_nint:
  "discoverySpreadWindowMs (nint b) (nint q)
     = nint (max 0 (min (min q (DISCOVERY_SWEEP_CADENCE_MS - 1)) (b - 1)))"
  by (simp add: discoverySpreadWindowMs_def)

lemma delay_nint:
  "discoverySpreadDelayMs p (nint w) = nint (if 0 < w then uint (fnv1a32 p) mod w else 0)"
  by (simp add: discoverySpreadDelayMs_def) (simp add: nint_def)

text \<open>
  A job a sweep enqueues always starts before a later sweep could enqueue the same property
  again: whatever window is requested, the start offset is a fixed number of the property, at
  least 0, below the requested window (when that is positive), below the sweep cadence and below
  the base interval.
\<close>

theorem spread_never_overlaps:
  assumes "0 < b"
  shows "\<exists>d. discoverySpreadDelayMs p (discoverySpreadWindowMs (nint b) (nint q)) = nint d
      \<and> 0 \<le> d \<and> d < DISCOVERY_SWEEP_CADENCE_MS \<and> d < b \<and> d \<le> max 0 (q - 1)
      \<and> (q \<le> 0 \<longrightarrow> d = 0)"
proof -
  define w where "w = max 0 (min (min q (DISCOVERY_SWEEP_CADENCE_MS - 1)) (b - 1))"
  define d where "d = (if 0 < w then uint (fnv1a32 p) mod w else 0)"
  have "0 \<le> d" "d \<le> max 0 (w - 1)"
    by (auto simp: d_def)
  moreover have "discoverySpreadDelayMs p (discoverySpreadWindowMs (nint b) (nint q)) = nint d"
    by (simp add: window_nint delay_nint w_def d_def)
  ultimately show ?thesis
    using assms by (intro exI[of _ d]) (auto simp: w_def discovery_constants)
qed

theorem spread_never_overlaps_witness:
  "\<exists>d. discoverySpreadDelayMs (js ''p1'') (discoverySpreadWindowMs (nint 60000) (nint 600000)) = nint d
     \<and> 0 \<le> d \<and> d < 60000"
  using spread_never_overlaps [of 60000 "js ''p1''" 600000] by auto

section \<open>Failure wait properties\<close>

text \<open>
  The wait after a failed snapshot: a first failure waits the base interval; a failure after
  the previous retry came due waits four times the previous wait, and one before it (the queue
  retrying the same job) waits the previous wait again; both within the base below and
  max(base, 6 h) above, so a run is attempted at least that often. A location over the cap waits a
  day.
\<close>

theorem failure_ladder:
  assumes "\<not> locationTooLarge i" "baseIntervalMs i = nint b" "0 < b"
    and "fr_previous i = Some p" "errorClass p = Some e"
    and "failedAt p = Some (At f)" "retryAt p = Some (At (f + w))" "0 < w" "fr_now i = At n"
  shows "snapshotFailureRetryMs i =
        nint (max b (min ((if n < f + w then 1 else 4) * min (max w b) SNAPSHOT_FAILURE_MAX_RETRY_MS)
                         SNAPSHOT_FAILURE_MAX_RETRY_MS))
      \<and> (b \<le> w \<and> 4 * w \<le> SNAPSHOT_FAILURE_MAX_RETRY_MS \<and> f + w \<le> n \<longrightarrow>
           snapshotFailureRetryMs i = nint (4 * w))
      \<and> (\<exists>k. snapshotFailureRetryMs i = nint k \<and> b \<le> k \<and> k \<le> max b SNAPSHOT_FAILURE_MAX_RETRY_MS)
      \<and> snapshotFailureRetryMs (i\<lparr>fr_previous := None\<rparr>) = nint b
      \<and> snapshotFailureRetryMs (i\<lparr>locationTooLarge := True\<rparr>) = nint LOCATION_TOO_LARGE_RETRY_MS"
proof -
  have pw: "previousWaitMs p = Some (nint w)"
    using assms by (simp add: previousWaitMs_def)
  have main: "snapshotFailureRetryMs i =
        nint (max b (min ((if n < f + w then 1 else 4) * min (max w b) SNAPSHOT_FAILURE_MAX_RETRY_MS)
                         SNAPSHOT_FAILURE_MAX_RETRY_MS))"
    using assms pw by (simp add: snapshotFailureRetryMs_def SNAPSHOT_FAILURE_BACKOFF_FACTOR_def Let_def)
  moreover have "b \<le> w \<and> 4 * w \<le> SNAPSHOT_FAILURE_MAX_RETRY_MS \<and> f + w \<le> n \<longrightarrow>
           snapshotFailureRetryMs i = nint (4 * w)"
    using main assms(8) by auto
  moreover have "snapshotFailureRetryMs (i\<lparr>fr_previous := None\<rparr>) = nint b"
    and "snapshotFailureRetryMs (i\<lparr>locationTooLarge := True\<rparr>) = nint LOCATION_TOO_LARGE_RETRY_MS"
    using assms by (simp_all add: snapshotFailureRetryMs_def)
  ultimately show ?thesis by auto
qed

theorem failure_ladder_witness:
  "snapshotFailureRetryMs \<lparr>fr_previous = Some \<lparr>errorClass = Some ''count_gap'',
       failedAt = Some (At 0), retryAt = Some (At 900000)\<rparr>,
     fr_now = At 1000000, baseIntervalMs = nint 900000, locationTooLarge = False\<rparr> = nint 3600000"
  using failure_ladder [of "\<lparr>fr_previous = Some \<lparr>errorClass = Some ''count_gap'',
       failedAt = Some (At 0), retryAt = Some (At 900000)\<rparr>,
     fr_now = At 1000000, baseIntervalMs = nint 900000, locationTooLarge = False\<rparr>"
      900000 "\<lparr>errorClass = Some ''count_gap'',
       failedAt = Some (At 0), retryAt = Some (At 900000)\<rparr>" "''count_gap''" 0 900000 1000000]
  by (simp add: discovery_constants)

end
