(* ===== verification/HeadCheck.thy ===== *)
theory HeadCheck
  imports Prelude
begin

text \<open>
  The check of Google's newest review page against the stored copies and the decision to store
  Google's own total and average (src/contexts/review/domain/head-check.ts and head-persist.ts).
  Averages are exact rationals here; the code's doubles are compared with a tolerance of 1e-9,
  which the model keeps.
\<close>

section \<open>Comparing the head page\<close>

datatype head_checks_mode = Head_off | Head_dark | Head_persist

definition HEAD_LEASE_REFRESH_AFTER_MS :: int where
  "HEAD_LEASE_REFRESH_AFTER_MS = 5 * 24 * 60 * 60 * 1000"

record head_stored_reply =
  reply_live :: bool
  providerUpdatedAt :: "date option"

record head_stored_copy =
  copy_externalId :: string
  copy_sourceEpoch :: int
  copy_sourceUpdatedAt :: "date option"
  lastFetchedAt :: "date option"
  head_reply :: "head_stored_reply option"

record head_google_review =
  externalId :: string
  sourceUpdatedAt :: "date option"
  replyText :: "js_string option"
  replyUpdatedAt :: "date option"
  replyUnreadable :: bool

datatype head_class = New | Changed | Reply_changed | Lease_refresh

text \<open>The part of the input \<open>headReviewsToPersist\<close> and \<open>compareHead\<close> share.\<close>

record head_input =
  head_now :: date
  head_sourceEpoch :: int
  copies :: "head_stored_copy list"
  googleTotal :: number
  googleAverage :: "number option"
  storedLiveCount :: number
  storedAverage :: "number option"
  hasMore :: bool

record head_comparison =
  listed :: nat
  newCount :: nat
  changedCount :: nat
  replyChangedCount :: nat
  leaseRefreshCount :: nat
  wouldPersist :: nat
  hc_googleTotal :: number
  hc_storedLiveCount :: number
  totalDifference :: number
  hc_googleAverage :: "number option"
  hc_storedAverage :: "number option"
  averageDifference :: "number option"
  hc_hasMore :: bool

definition sameSecond :: "date option \<Rightarrow> date option \<Rightarrow> bool" where
  "sameSecond a b =
     (case (a, b) of
        (None, None) \<Rightarrow> True
      | (Some x, Some y) \<Rightarrow>
          num_eq (num_floor (num_scale (1 / 1000) (get_time x)))
                 (num_floor (num_scale (1 / 1000) (get_time y)))
      | _ \<Rightarrow> False)"

definition updatedSince :: "('a) head_google_review_scheme \<Rightarrow> head_stored_copy \<Rightarrow> bool" where
  "updatedSince google copy =
     (case sourceUpdatedAt google of
        None \<Rightarrow> False
      | Some g \<Rightarrow>
          (case copy_sourceUpdatedAt copy of
             None \<Rightarrow> True
           | Some c \<Rightarrow> num_lt (get_time c) (get_time g)))"

definition isChanged :: "('a) head_google_review_scheme \<Rightarrow> head_stored_copy \<Rightarrow> int \<Rightarrow> bool" where
  "isChanged google copy epoch = (copy_sourceEpoch copy \<noteq> epoch \<or> updatedSince google copy)"

definition isReplyChanged :: "('a) head_google_review_scheme \<Rightarrow> head_stored_copy \<Rightarrow> bool" where
  "isReplyChanged google copy =
     (if replyUnreadable google then False
      else
        let googleHasReply = (replyText google \<noteq> None);
            storedHasReply = (case head_reply copy of None \<Rightarrow> False | Some r \<Rightarrow> reply_live r)
        in if googleHasReply \<noteq> storedHasReply then True
           else if \<not> googleHasReply then False
           else \<not> sameSecond (replyUpdatedAt google)
                  (case head_reply copy of None \<Rightarrow> None | Some r \<Rightarrow> providerUpdatedAt r))"

definition needsLeaseRefresh :: "head_stored_copy \<Rightarrow> date \<Rightarrow> bool" where
  "needsLeaseRefresh copy now =
     (case lastFetchedAt copy of
        None \<Rightarrow> True
      | Some t \<Rightarrow> num_le (get_time t) (num_sub (get_time now) (nint HEAD_LEASE_REFRESH_AFTER_MS)))"

definition classifyHeadReview ::
  "('a) head_google_review_scheme \<Rightarrow> head_stored_copy option \<Rightarrow> head_input \<Rightarrow> head_class list" where
  "classifyHeadReview google copy i =
     (case copy of
        None \<Rightarrow> [New]
      | Some c \<Rightarrow>
          (if isChanged google c (head_sourceEpoch i) then [Changed] else [])
          @ (if isReplyChanged google c then [Reply_changed] else [])
          @ (if needsLeaseRefresh c (head_now i) then [Lease_refresh] else []))"

text \<open>\<^verbatim>\<open>Math.round(value * 100) / 100\<close>; a half rounds up.\<close>

definition round2 :: "number \<Rightarrow> number" where
  "round2 v = num_scale (1 / 100) (num_floor (num_add (num_scale 100 v) (Fin (1 / 2))))"

text \<open>A \<^verbatim>\<open>Map\<close> built from pairs keeps the last pair of a key.\<close>

definition by_id :: "head_stored_copy list \<Rightarrow> string \<Rightarrow> head_stored_copy option" where
  "by_id cs = map_of (rev (map (\<lambda>c. (copy_externalId c, c)) cs))"

definition headReviewsToPersist ::
  "head_input \<Rightarrow> ('a) head_google_review_scheme list \<Rightarrow> ('a) head_google_review_scheme list" where
  "headReviewsToPersist i reviews =
     filter (\<lambda>r. 0 < length (classifyHeadReview r (by_id (copies i) (externalId r)) i)) reviews"

definition countOf :: "head_class list list \<Rightarrow> head_class \<Rightarrow> nat" where
  "countOf classes wanted = length (filter (\<lambda>found. wanted \<in> set found) classes)"

definition compareHead :: "head_input \<Rightarrow> ('a) head_google_review_scheme list \<Rightarrow> head_comparison" where
  "compareHead i reviews =
     (let classes = map (\<lambda>r. classifyHeadReview r (by_id (copies i) (externalId r)) i) reviews in
      \<lparr>listed = length reviews,
       newCount = countOf classes New,
       changedCount = countOf classes Changed,
       replyChangedCount = countOf classes Reply_changed,
       leaseRefreshCount = countOf classes Lease_refresh,
       wouldPersist = length (filter (\<lambda>found. 0 < length found) classes),
       hc_googleTotal = googleTotal i,
       hc_storedLiveCount = storedLiveCount i,
       totalDifference = num_sub (googleTotal i) (storedLiveCount i),
       hc_googleAverage = googleAverage i,
       hc_storedAverage = storedAverage i,
       averageDifference =
         (case (googleAverage i, storedAverage i) of
            (Some g, Some s) \<Rightarrow> Some (round2 (num_sub g s)) | _ \<Rightarrow> None),
       hc_hasMore = hasMore i\<rparr>)"

text \<open>
  The bucket of a time; \<open>bucketMs\<close> is the discovery interval, a positive integer. An invalid
  date prints as NaN.
\<close>

definition headCheckJobId :: "string \<Rightarrow> date \<Rightarrow> int \<Rightarrow> string" where
  "headCheckJobId propertyId now bucketMs =
     ''review-head-'' @ propertyId @ ''-'' @
       (case now of InvalidDate \<Rightarrow> ''NaN'' | At t \<Rightarrow> show_int (t div bucketMs))"

section \<open>Storing Google's numbers\<close>

definition HEAD_FACT_HEARTBEAT_MS :: int where
  "HEAD_FACT_HEARTBEAT_MS = 6 * 60 * 60 * 1000"

definition HEAD_FACT_MAX_REVIEW_COUNT :: int where
  "HEAD_FACT_MAX_REVIEW_COUNT = 10000"

record head_fact_newest =
  reviewCount :: number
  averageRating :: "number option"
  observedAt :: date

record head_fact_input =
  readAt :: date
  fact_googleTotal :: number
  fact_googleAverage :: "number option"
  hasCompletedListing :: bool
  newest :: "head_fact_newest option"

datatype head_fact_write_reason = W_changed | W_heartbeat
datatype head_fact_skip_reason = W_unchanged | W_no_completed_listing | W_not_storable

datatype head_fact_decision =
    Write head_fact_write_reason (numbersObservedAt: date)
  | No_write head_fact_skip_reason

definition isStorable :: "number \<Rightarrow> number option \<Rightarrow> bool" where
  "isStorable gtotal average =
     (if \<not> is_integer gtotal \<or> num_lt gtotal (nint 0)
         \<or> num_lt (nint HEAD_FACT_MAX_REVIEW_COUNT) gtotal then False
      else if num_eq gtotal (nint 0) then average = None
      else (case average of
              None \<Rightarrow> False
            | Some a \<Rightarrow> is_finite a \<and> num_le (nint 0) a \<and> num_le a (nint 5)))"

definition sameAverage :: "number option \<Rightarrow> number option \<Rightarrow> bool" where
  "sameAverage a b =
     (case (a, b) of
        (Some x, Some y) \<Rightarrow> num_lt (num_abs (num_sub x y)) (Fin (1 / 10 ^ 9))
      | (None, None) \<Rightarrow> True
      | _ \<Rightarrow> False)"

definition decideHeadFact :: "head_fact_input \<Rightarrow> head_fact_decision" where
  "decideHeadFact i =
     (if \<not> hasCompletedListing i then No_write W_no_completed_listing
      else if \<not> isStorable (fact_googleTotal i) (fact_googleAverage i) then No_write W_not_storable
      else
        let changed = (case newest i of
              None \<Rightarrow> True
            | Some f \<Rightarrow> \<not> num_eq (reviewCount f) (fact_googleTotal i)
                \<or> \<not> sameAverage (averageRating f) (fact_googleAverage i));
            quiet = (case newest i of
              None \<Rightarrow> False
            | Some f \<Rightarrow> num_le (nint HEAD_FACT_HEARTBEAT_MS)
                         (num_sub (get_time (readAt i)) (get_time (observedAt f))))
        in if \<not> changed \<and> \<not> quiet then No_write W_unchanged
           else
             let earliest = (case newest i of
                   None \<Rightarrow> nint 0 | Some f \<Rightarrow> num_add (get_time (observedAt f)) (nint 1))
             in Write (if changed then W_changed else W_heartbeat)
                  (new_date (num_max (get_time (readAt i)) earliest)))"

section \<open>Properties\<close>

text \<open>
  A stored fact of Google's numbers is never ambiguous in time and never out of range: a write
  happens only after a completed listing, with a whole total of 0 to 10,000 that has an average
  exactly when it is positive (0 to 5), and is stamped strictly after the newest fact and no
  earlier than the read. Unchanged numbers are written again exactly from six hours on.
\<close>

theorem head_fact_is_ordered_and_storable:
  assumes "newest i = Some f" "observedAt f = At ot" "readAt i = At rt"
    and "0 \<le> ot" "ot < max_time_value" "\<bar>rt\<bar> \<le> max_time_value"
  shows "(\<forall>reason at_time. decideHeadFact i = Write reason at_time \<longrightarrow>
        hasCompletedListing i
        \<and> (\<exists>n. fact_googleTotal i = nint n \<and> 0 \<le> n \<and> n \<le> 10000
             \<and> (fact_googleAverage i = None \<longleftrightarrow> n = 0))
        \<and> at_time = At (max rt (ot + 1)))
    \<and> (decideHeadFact i = No_write W_unchanged \<longrightarrow>
        rt - ot < HEAD_FACT_HEARTBEAT_MS \<and> sameAverage (averageRating f) (fact_googleAverage i)
        \<and> reviewCount f = fact_googleTotal i)
    \<and> (hasCompletedListing i \<and> isStorable (fact_googleTotal i) (fact_googleAverage i)
        \<and> HEAD_FACT_HEARTBEAT_MS \<le> rt - ot \<longrightarrow> (\<exists>reason at_time. decideHeadFact i = Write reason at_time))"
proof -
  have stamp: "new_date (num_max (get_time (readAt i)) (num_add (get_time (observedAt f)) (nint 1)))
      = At (max rt (ot + 1))"
    using assms by (auto simp: max_def)
  have storable: "\<exists>n. fact_googleTotal i = nint n \<and> 0 \<le> n \<and> n \<le> 10000
      \<and> (fact_googleAverage i = None \<longleftrightarrow> n = 0)"
    if "isStorable (fact_googleTotal i) (fact_googleAverage i)"
  proof -
    from that have "is_integer (fact_googleTotal i)"
      by (auto simp: isStorable_def split: if_splits)
    then obtain n where n: "fact_googleTotal i = nint n" by (rule is_integerE)
    with that show ?thesis
      by (auto simp: isStorable_def HEAD_FACT_MAX_REVIEW_COUNT_def split: if_splits option.splits)
  qed
  show ?thesis
    using storable by (simp add: decideHeadFact_def assms(1) stamp Let_def)
      (auto simp: assms(2,3) num_eq_def)
qed

theorem head_fact_is_ordered_and_storable_witness:
  "decideHeadFact \<lparr>readAt = At 5, fact_googleTotal = nint 7, fact_googleAverage = Some (nint 4),
     hasCompletedListing = True,
     newest = Some \<lparr>reviewCount = nint 6, averageRating = Some (nint 4), observedAt = At 9\<rparr>\<rparr>
   = Write W_changed (At 10)"
proof -
  let ?i = "\<lparr>readAt = At 5, fact_googleTotal = nint 7, fact_googleAverage = Some (nint 4),
     hasCompletedListing = True,
     newest = Some \<lparr>reviewCount = nint 6, averageRating = Some (nint 4), observedAt = At 9\<rparr>\<rparr>"
  have "\<exists>a. decideHeadFact ?i = Write W_changed a"
    by (simp add: decideHeadFact_def isStorable_def HEAD_FACT_MAX_REVIEW_COUNT_def Let_def)
  then show ?thesis
    using head_fact_is_ordered_and_storable [of ?i "\<lparr>reviewCount = nint 6,
        averageRating = Some (nint 4), observedAt = At 9\<rparr>" 9 5]
    by (auto simp: max_time_value_def)
qed

end
