(* ===== verification/ReplyDb.thy ===== *)
theory ReplyDb
  imports ReplyCommands ReplyObservation
begin

text \<open>
  The rows the reply command store reads and writes, and the guarded writes every command goes
  through (src/contexts/review/infrastructure: reply-write-guards.ts, reply-set-clause.ts,
  reply-publication-dispatch-evidence.ts, publication-property-admission.ts).

  A database state \<open>reply_db\<close> holds the rows of one transaction snapshot: replies,
  publication authorizations and attempts, the review rows and observation heads, the
  properties, the execution permits and restores, and the outbox. A transaction is a function
  from a state to an error (the state is then unchanged: a thrown error rolls back) or a result
  and the new state; row locks serialise transactions, so a sequence of commands is a sequence of
  such functions, each called with a reply read at any earlier moment (the snapshot).

  Two answers come from tables of other contexts and are functions of the state record:
  \<open>ai_binding_holds\<close>, whether everything an AI draft was generated from is still current (with or
  without its adoption window), and the actor's authority (an argument of the commands in
  ReplyStore). The measurement rows a submit or a publication carries along are not modelled.
\<close>

section \<open>Rows\<close>

record publication_authorization =
  au_organizationId :: string
  au_propertyId :: string
  au_reviewId :: string
  au_replyId :: string
  au_publicationCycle :: int
  au_sourceEpoch :: int
  au_materialReviewRevision :: int
  au_baseObservationRevision :: int
  au_authorizedByUserId :: string
  au_replyStateRevision :: int
  au_expectedReplyDigest :: string
  au_authorizedAt :: date

record publication_attempt =
  at_organizationId :: string
  at_propertyId :: string
  at_reviewId :: string
  at_replyId :: string
  at_publicationCycle :: int
  at_attemptNumber :: int
  at_providerOperationKey :: string
  at_sourceEpoch :: int
  at_materialReviewRevision :: int
  at_replyStateRevision :: int
  at_baseObservationRevision :: int
  at_expectedReplyDigest :: string
  at_outcome :: attempt_outcome
  at_providerCorrelationId :: "string option"
  at_providerRespondedAt :: "date option"
  at_confirmedObservationRevision :: "int option"
  at_createdAt :: date
  at_updatedAt :: date

record review_scope_row =
  rv_id :: string
  rv_organizationId :: string
  rv_propertyId :: string
  rv_sourceEpoch :: int
  rv_materialReviewRevision :: int
  rv_sourceContentState :: string

text \<open>
  An observation of the reply on Google and, per review, the head that names the newest one.
\<close>

record observation_row =
  ob_id :: string
  ob_organizationId :: string
  ob_propertyId :: string
  ob_reviewId :: string
  ob_observationRevision :: int
  ob_observationKey :: string
  ob_inputDigest :: string
  ob_sourceEpoch :: int
  ob_materialReviewRevision :: int
  ob_readGeneration :: int
  ob_state :: observed_state
  ob_change :: observation_change
  ob_resolution :: observation_resolution
  ob_source :: observation_source
  ob_provenance :: observation_provenance
  ob_normalizedText :: "js_string option"
  ob_normalizedDigest :: "string option"
  ob_matchedReplyId :: "string option"
  ob_matchedPublicationCycle :: "int option"
  ob_matchedAttemptNumber :: "int option"
  ob_providerUpdatedAt :: "date option"
  ob_observedAt :: date
  ob_contentExpiresAt :: date
  ob_contentState :: string
  ob_createdAt :: date
  ob_updatedAt :: date

record observation_head =
  oh_reviewId :: string
  oh_organizationId :: string
  oh_propertyId :: string
  oh_observationId :: string
  oh_observationRevision :: int
  oh_sourceEpoch :: int
  oh_materialReviewRevision :: int
  oh_state :: observed_state
  oh_provenance :: observation_provenance
  oh_createdAt :: date
  oh_updatedAt :: date

record property_row =
  pr_id :: string
  pr_organizationId :: string
  pr_lifecycleState :: string
  pr_sourceEpoch :: int
  pr_deleted :: bool

record permit_row =
  pm_organizationId :: string
  pm_routeKey :: string
  pm_replyId :: string
  pm_publicationCycle :: int
  pm_attemptNumber :: int

section \<open>Facts\<close>

record lifecycle_fact =
  lf_replyId :: string
  lf_reviewId :: string
  lf_organizationId :: string
  lf_propertyId :: string
  lf_userId :: "string option"

record publication_intent =
  in_replyId :: string
  in_reviewId :: string
  in_organizationId :: string
  in_propertyId :: string
  in_userId :: "string option"
  in_publicationCycle :: number
  in_sourceEpoch :: number
  in_materialReviewRevision :: number
  in_baseObservationRevision :: number

datatype cancel_cause = Policy | Ai_draft_withdrawn | Provider_truth | Other_cause string

record observed_fact =
  of_reviewId :: string
  of_propertyId :: string
  of_organizationId :: string
  of_observationRevision :: int
  of_sourceEpoch :: int
  of_materialReviewRevision :: int
  of_change :: observation_change
  of_resolution :: observation_resolution
  of_provenance :: observation_provenance
  of_matchedReplyId :: "string option"
  of_matchedPublicationCycle :: "int option"

datatype domain_fact =
    F_submitted lifecycle_fact
  | F_approved lifecycle_fact
  | F_requested publication_intent
  | F_rejected lifecycle_fact
  | F_updated lifecycle_fact
  | F_published lifecycle_fact
  | F_publish_failed lifecycle_fact
  | F_cancelled lifecycle_fact cancel_cause
  | F_observed observed_fact

text \<open>
  Replies are stored under their unique index (organization, review, source), which never changes
  for a row; a statement that names a reply by its primary key reads the row stored there and
  compares the key.
\<close>

type_synonym reply_key = "string \<times> string \<times> reply_source"

definition reply_key :: "reply \<Rightarrow> reply_key" where
  "reply_key r = (reply_organizationId r, reply_reviewId r, reply_source r)"

record reply_db =
  replies :: "reply_key \<Rightarrow> reply option"
  authorizations :: "publication_authorization list"
  attempts :: "publication_attempt list"
  reviews :: "review_scope_row list"
  observations :: "observation_row list"
  observation_heads :: "string \<Rightarrow> observation_head option"
  db_properties :: "property_row list"
  permits :: "permit_row list"
  restores :: "date list"
  ai_binding_holds :: "string \<Rightarrow> bool \<Rightarrow> bool"
  has_ai_operation :: "string \<Rightarrow> bool"
  outbox :: "domain_fact list"

type_synonym 'a tx = "reply_db \<Rightarrow> (review_error, 'a \<times> reply_db) result"

definition insertOutboxRow :: "domain_fact \<Rightarrow> reply_db \<Rightarrow> reply_db" where
  "insertOutboxRow f db = db\<lparr>outbox := outbox db @ [f]\<rparr>"

text \<open>The row the head of a review points at.\<close>

definition head_observation :: "reply_db \<Rightarrow> observation_head \<Rightarrow> observation_row option" where
  "head_observation db h = find (\<lambda>o'. ob_id o' = oh_observationId h) (observations db)"

section \<open>Row updates\<close>

text \<open>
  A conditional update: an absent field (\<open>None\<close>) is not set. Nullable columns carry an inner
  option.
\<close>

record reply_update =
  u_status :: "reply_status option"
  u_text :: "js_string option"
  u_replyLanguageTag :: "string option option"
  u_templateId :: "string option option"
  u_templateVersion :: "int option option"
  u_templateLayer :: "template_layer option option"
  u_templateRef :: "string option option"
  u_templateRevision :: "int option option"
  u_templateWordingKey :: "string option option"
  u_voiceDigest :: "string option option"
  u_voiceChoices :: "voice_choices option option"
  u_aiGenerated :: "bool option"
  u_submittedAt :: "date option option"
  u_submittedBy :: "string option option"
  u_approvedBy :: "string option option"
  u_approvedAt :: "date option option"
  u_rejectedBy :: "string option option"
  u_rejectionReason :: "js_string option option"
  u_publishedAt :: "date option option"
  u_publicationState :: "publication_state option option"
  u_publicationCycle :: "int option"
  u_publicationAttempts :: "int option"
  u_publicationLastErrorClass :: "failure_class option option"
  u_reconcileDueAt :: "date option option"

definition no_update :: reply_update where
  "no_update = \<lparr>u_status = None, u_text = None, u_replyLanguageTag = None, u_templateId = None,
     u_templateVersion = None, u_templateLayer = None, u_templateRef = None,
     u_templateRevision = None, u_templateWordingKey = None, u_voiceDigest = None,
     u_voiceChoices = None, u_aiGenerated = None, u_submittedAt = None, u_submittedBy = None,
     u_approvedBy = None, u_approvedAt = None, u_rejectedBy = None, u_rejectionReason = None,
     u_publishedAt = None, u_publicationState = None, u_publicationCycle = None,
     u_publicationAttempts = None, u_publicationLastErrorClass = None, u_reconcileDueAt = None\<rparr>"

definition set_or :: "'a option \<Rightarrow> 'a \<Rightarrow> 'a" where
  "set_or u old = (case u of None \<Rightarrow> old | Some v \<Rightarrow> v)"

text \<open>
  The set clause applied to a row. The AI provenance columns it clears with \<open>aiGenerated = false\<close>
  are not columns of the model.
\<close>

definition buildReplySetClause :: "reply_update \<Rightarrow> date \<Rightarrow> reply \<Rightarrow> reply" where
  "buildReplySetClause u now r =
     r\<lparr>updatedAt := now,
       status := set_or (u_status u) (status r),
       reply_text := set_or (u_text u) (reply_text r),
       replyLanguageTag := set_or (u_replyLanguageTag u) (replyLanguageTag r),
       templateId := set_or (u_templateId u) (templateId r),
       templateVersion := set_or (u_templateVersion u) (templateVersion r),
       templateLayer := set_or (u_templateLayer u) (templateLayer r),
       templateRef := set_or (u_templateRef u) (templateRef r),
       templateRevision := set_or (u_templateRevision u) (templateRevision r),
       templateWordingKey := set_or (u_templateWordingKey u) (templateWordingKey r),
       voiceDigest := set_or (u_voiceDigest u) (voiceDigest r),
       voiceChoices := set_or (u_voiceChoices u) (voiceChoices r),
       aiGenerated := set_or (u_aiGenerated u) (aiGenerated r),
       submittedAt := set_or (u_submittedAt u) (submittedAt r),
       submittedBy := set_or (u_submittedBy u) (submittedBy r),
       approvedBy := set_or (u_approvedBy u) (approvedBy r),
       approvedAt := set_or (u_approvedAt u) (approvedAt r),
       rejectedBy := set_or (u_rejectedBy u) (rejectedBy r),
       rejectionReason := set_or (u_rejectionReason u) (rejectionReason r),
       publishedAt := set_or (u_publishedAt u) (publishedAt r),
       publicationState := set_or (u_publicationState u) (publicationState r),
       publicationCycle := set_or (u_publicationCycle u) (publicationCycle r),
       publicationAttempts := set_or (u_publicationAttempts u) (publicationAttempts r),
       publicationLastErrorClass :=
         set_or (u_publicationLastErrorClass u) (publicationLastErrorClass r),
       reconcileDueAt := set_or (u_reconcileDueAt u) (reconcileDueAt r)\<rparr>"

text \<open>
  The database advances the state revision of an internal reply whenever its text, status or
  authorship changes (the trigger \<^verbatim>\<open>increment_reply_state_revision\<close>); no command sets it.
\<close>

definition revision_trigger :: "reply \<Rightarrow> reply \<Rightarrow> reply" where
  "revision_trigger old new =
     (if reply_source new = Internal
         \<and> (reply_text new \<noteq> reply_text old \<or> status new \<noteq> status old
            \<or> aiGenerated new \<noteq> aiGenerated old)
      then new\<lparr>stateRevision := stateRevision old + 1\<rparr> else new)"

text \<open>\<^verbatim>\<open>UPDATE replies SET ... WHERE id = ... AND ... RETURNING *\<close>.\<close>

definition updateReplyWhere ::
  "reply \<Rightarrow> (reply \<Rightarrow> bool) \<Rightarrow> (reply \<Rightarrow> reply) \<Rightarrow> reply_db \<Rightarrow> reply option \<times> reply_db" where
  "updateReplyWhere r cond f db =
     (case replies db (reply_key r) of
        None \<Rightarrow> (None, db)
      | Some row \<Rightarrow>
          if reply_id row = reply_id r \<and> cond row then
            let row' = revision_trigger row (f row)
            in (Some row', db\<lparr>replies := (replies db)(reply_key r := Some row')\<rparr>)
          else (None, db))"

section \<open>AI text\<close>

datatype ai_binding_status = B_current | B_not_ai | B_stale

definition assertCurrentAiDraftBinding :: "reply_db \<Rightarrow> reply \<Rightarrow> ai_binding_status" where
  "assertCurrentAiDraftBinding db r =
     (case replies db (reply_key r) of
        None \<Rightarrow> B_not_ai
      | Some row \<Rightarrow>
          if reply_id row \<noteq> reply_id r \<or> \<not> aiGenerated row \<or> \<not> has_ai_operation db (reply_id r)
          then B_not_ai
          else if ai_binding_holds db (reply_id r) True then B_current else B_stale)"

definition aiDraftInputsAreCurrent :: "reply_db \<Rightarrow> string \<Rightarrow> bool" where
  "aiDraftInputsAreCurrent db i = ai_binding_holds db i False"

definition aiTextMayAdvance :: "reply_db \<Rightarrow> reply \<Rightarrow> bool" where
  "aiTextMayAdvance db r =
     (if \<not> aiGenerated r then True
      else assertCurrentAiDraftBinding db r \<noteq> B_stale)"

definition aiTextMayBeClaimed :: "normalizer \<Rightarrow> reply_db \<Rightarrow> reply \<Rightarrow> bool" where
  "aiTextMayBeClaimed nfc db r =
     (if aiTextMayAdvance db r then True
      else if \<not> aiDraftInputsAreCurrent db (reply_id r) then False
      else (\<exists>a \<in> set (attempts db).
              at_organizationId a = reply_organizationId r \<and> at_replyId a = reply_id r
              \<and> at_expectedReplyDigest a = googleReplyTextDigest nfc (reply_text r)))"

section \<open>Guarded writes\<close>

definition PUTS_TEXT_FORWARD :: "reply_command list" where
  "PUTS_TEXT_FORWARD = [C_submit, C_approve, C_retry_publication, C_edit_published]"

definition sameFailureWhere :: "reply \<Rightarrow> reply \<Rightarrow> bool" where
  "sameFailureWhere r row = (publicationLastErrorClass row = publicationLastErrorClass r)"

definition replySnapshotWhere :: "reply \<Rightarrow> reply_command \<Rightarrow> reply \<Rightarrow> bool" where
  "replySnapshotWhere r command row =
     (reply_organizationId row = reply_organizationId r
      \<and> status row = status r \<and> publicationState row = publicationState r
      \<and> publicationCycle row = publicationCycle r
      \<and> (command \<in> set PUTS_TEXT_FORWARD \<longrightarrow> stateRevision row = stateRevision r)
      \<and> (command = C_retry_publication \<longrightarrow> sameFailureWhere r row))"

definition guardedReplyUpdate ::
  "reply \<Rightarrow> reply_command \<Rightarrow> reply_update \<Rightarrow> date \<Rightarrow> reply_db \<Rightarrow> reply option \<times> reply_db" where
  "guardedReplyUpdate r command updates occurredAt db =
     (if \<not> replyCommandMayStart command r then (None, db)
      else
        let aiText = aiTextRuleOf command in
        if aiText = Needs_current_binding \<and> \<not> aiTextMayAdvance db r then (None, db)
        else updateReplyWhere r (replySnapshotWhere r command)
               (buildReplySetClause
                  (if aiText = Ends_adoption then updates\<lparr>u_aiGenerated := Some False\<rparr> else updates)
                  occurredAt) db)"

definition guardedPublicationUpdate ::
  "reply \<Rightarrow> reply_status \<Rightarrow> publication_state list \<Rightarrow> (reply \<Rightarrow> reply)
     \<Rightarrow> reply_db \<Rightarrow> reply option \<times> reply_db" where
  "guardedPublicationUpdate r expectedStatus allowedStates f db =
     (case publicationState r of
        None \<Rightarrow> (None, db)
      | Some state \<Rightarrow>
          if state \<notin> set allowedStates then (None, db)
          else updateReplyWhere r
                 (\<lambda>row. reply_organizationId row = reply_organizationId r
                    \<and> status row = expectedStatus
                    \<and> stateRevision row = stateRevision r
                    \<and> publicationCycle row = publicationCycle r
                    \<and> publicationState row = Some state
                    \<and> publicationAttempts row = publicationAttempts r) f db)"

definition evidence_missing :: review_error where
  "evidence_missing =
     reviewError ''invalid_transition'' ''Reply publication attempt evidence is missing'' []"

definition current_attempt_where :: "reply \<Rightarrow> attempt_outcome list option \<Rightarrow> publication_attempt \<Rightarrow> bool"
where
  "current_attempt_where r fromOutcomes a =
     (at_replyId a = reply_id r \<and> at_organizationId a = reply_organizationId r
      \<and> at_publicationCycle a = publicationCycle r \<and> at_attemptNumber a = publicationAttempts r
      \<and> (case fromOutcomes of None \<Rightarrow> True | Some os \<Rightarrow> at_outcome a \<in> set os))"

definition updateCurrentAttempt ::
  "reply \<Rightarrow> (publication_attempt \<Rightarrow> publication_attempt) \<Rightarrow> attempt_outcome list option
     \<Rightarrow> reply_db \<Rightarrow> (review_error, reply_db) result" where
  "updateCurrentAttempt r f fromOutcomes db =
     (if \<exists>a \<in> set (attempts db). current_attempt_where r fromOutcomes a
      then ok (db\<lparr>attempts := map (\<lambda>a. if current_attempt_where r fromOutcomes a then f a else a)
                               (attempts db)\<rparr>)
      else err evidence_missing)"

section \<open>Dispatch evidence\<close>

definition REPLY_ROUTE_KEY :: string where "REPLY_ROUTE_KEY = ''reviews.reply''"

record dispatched_attempt =
  da_organizationId :: string
  da_replyId :: string
  da_publicationCycle :: int
  da_attemptNumber :: int
  da_attemptStartedAt :: date

definition attemptMayHaveDispatched :: "reply_db \<Rightarrow> dispatched_attempt \<Rightarrow> bool" where
  "attemptMayHaveDispatched db a =
     ((\<exists>p \<in> set (permits db). pm_organizationId p = da_organizationId a
         \<and> pm_routeKey p = REPLY_ROUTE_KEY
         \<and> pm_replyId p = da_replyId a
         \<and> pm_publicationCycle p = da_publicationCycle a
         \<and> pm_attemptNumber p = da_attemptNumber a)
      \<or> (\<exists>t \<in> set (restores db). num_le (get_time (da_attemptStartedAt a)) (get_time t)))"

definition REPLY_DISPATCH_EVIDENCE_MIN_WINDOW_MS :: int where
  "REPLY_DISPATCH_EVIDENCE_MIN_WINDOW_MS = 5 * 60000"

definition REPLY_DISPATCH_EVIDENCE_WINDOW_MS :: int where
  "REPLY_DISPATCH_EVIDENCE_WINDOW_MS = max REPLY_DISPATCH_EVIDENCE_MIN_WINDOW_MS (15000 + 10000 + 30000)"

datatype dispatch_evidence = Possibly_dispatched | Never_dispatched | Too_recent

definition identifiesOneAttempt :: "number \<Rightarrow> number \<Rightarrow> date \<Rightarrow> date \<Rightarrow> bool" where
  "identifiesOneAttempt cycle attempt startedAt now =
     (is_safe_integer cycle \<and> num_le (nint 1) cycle
      \<and> is_safe_integer attempt \<and> num_le (nint 1) attempt
      \<and> startedAt \<noteq> InvalidDate \<and> now \<noteq> InvalidDate)"

definition findDispatchEvidence :: "reply_db \<Rightarrow> dispatched_attempt \<Rightarrow> date \<Rightarrow> dispatch_evidence" where
  "findDispatchEvidence db a now =
     (if \<not> identifiesOneAttempt (nint (da_publicationCycle a)) (nint (da_attemptNumber a))
             (da_attemptStartedAt a) now then Possibly_dispatched
      else if num_lt (num_sub (get_time now) (get_time (da_attemptStartedAt a)))
                (nint REPLY_DISPATCH_EVIDENCE_WINDOW_MS) then Too_recent
      else if attemptMayHaveDispatched db a then Possibly_dispatched
      else Never_dispatched)"

section \<open>Property admission\<close>

definition lockPublicationProperty :: "reply_db \<Rightarrow> string \<Rightarrow> string \<Rightarrow> property_row option" where
  "lockPublicationProperty db org propertyId =
     find (\<lambda>p. pr_organizationId p = org \<and> pr_id p = propertyId \<and> \<not> pr_deleted p) (db_properties db)"

definition propertyAdmitsCycle :: "property_row option \<Rightarrow> publication_authorization \<Rightarrow> bool" where
  "propertyAdmitsCycle property authorization =
     (case property of
        None \<Rightarrow> False
      | Some p \<Rightarrow> pr_lifecycleState p = ''active'' \<and> pr_sourceEpoch p = au_sourceEpoch authorization)"

section \<open>Guard facts\<close>

lemma buildReplySetClause_simps [simp]:
  "reply_id (buildReplySetClause u now r) = reply_id r"
  "reply_organizationId (buildReplySetClause u now r) = reply_organizationId r"
  "reply_reviewId (buildReplySetClause u now r) = reply_reviewId r"
  "reply_source (buildReplySetClause u now r) = reply_source r"
  "stateRevision (buildReplySetClause u now r) = stateRevision r"
  "status (buildReplySetClause u now r) = set_or (u_status u) (status r)"
  "reply_text (buildReplySetClause u now r) = set_or (u_text u) (reply_text r)"
  "aiGenerated (buildReplySetClause u now r) = set_or (u_aiGenerated u) (aiGenerated r)"
  "publicationState (buildReplySetClause u now r)
     = set_or (u_publicationState u) (publicationState r)"
  "publicationCycle (buildReplySetClause u now r)
     = set_or (u_publicationCycle u) (publicationCycle r)"
  "publicationAttempts (buildReplySetClause u now r)
     = set_or (u_publicationAttempts u) (publicationAttempts r)"
  "publicationLastErrorClass (buildReplySetClause u now r)
     = set_or (u_publicationLastErrorClass u) (publicationLastErrorClass r)"
  by (simp_all add: buildReplySetClause_def)

lemma set_or_simps [simp]: "set_or None x = x" "set_or (Some v) x = v"
  by (simp_all add: set_or_def)

lemma revision_trigger_simps [simp]:
  "reply_id (revision_trigger old new) = reply_id new"
  "reply_organizationId (revision_trigger old new) = reply_organizationId new"
  "reply_reviewId (revision_trigger old new) = reply_reviewId new"
  "reply_source (revision_trigger old new) = reply_source new"
  "status (revision_trigger old new) = status new"
  "reply_text (revision_trigger old new) = reply_text new"
  "aiGenerated (revision_trigger old new) = aiGenerated new"
  "publicationState (revision_trigger old new) = publicationState new"
  "publicationCycle (revision_trigger old new) = publicationCycle new"
  "publicationAttempts (revision_trigger old new) = publicationAttempts new"
  "publicationLastErrorClass (revision_trigger old new) = publicationLastErrorClass new"
  by (simp_all add: revision_trigger_def)

text \<open>A conditional update either wrote the named row or did nothing.\<close>

lemma updateReplyWhere_cases:
  assumes "updateReplyWhere r cond f db = (res, db')"
  obtains (missed) "res = None" "db' = db"
  | (wrote) row where "replies db (reply_key r) = Some row" "reply_id row = reply_id r" "cond row"
      "res = Some (revision_trigger row (f row))"
      "db' = db\<lparr>replies := (replies db)(reply_key r := res)\<rparr>"
  using assms by (auto simp: updateReplyWhere_def Let_def split: option.splits if_splits)

lemma guardedPublicationUpdate_cases:
  assumes "guardedPublicationUpdate r st allowed f db = (res, db')"
  obtains (missed) "res = None" "db' = db"
  | (wrote) row s where "replies db (reply_key r) = Some row" "reply_id row = reply_id r"
      "publicationState r = Some s" "s \<in> set allowed"
      "reply_organizationId row = reply_organizationId r" "status row = st"
      "stateRevision row = stateRevision r" "publicationCycle row = publicationCycle r"
      "publicationState row = Some s" "publicationAttempts row = publicationAttempts r"
      "res = Some (revision_trigger row (f row))"
      "db' = db\<lparr>replies := (replies db)(reply_key r := res)\<rparr>"
proof (cases "\<exists>s. publicationState r = Some s \<and> s \<in> set allowed")
  case False
  with assms have "res = None" "db' = db"
    by (cases "publicationState r"; simp add: guardedPublicationUpdate_def)+
  then show ?thesis by (rule missed)
next
  case True
  then obtain s where s: "publicationState r = Some s" "s \<in> set allowed" by blast
  with assms have "updateReplyWhere r
      (\<lambda>row. reply_organizationId row = reply_organizationId r \<and> status row = st
         \<and> stateRevision row = stateRevision r \<and> publicationCycle row = publicationCycle r
         \<and> publicationState row = Some s \<and> publicationAttempts row = publicationAttempts r)
      f db = (res, db')"
    by (simp add: guardedPublicationUpdate_def)
  then show ?thesis
  proof (cases rule: updateReplyWhere_cases)
    case missed
    then show ?thesis by (rule that(1))
  next
    case (wrote row)
    with s show ?thesis by (intro that(2)[of row s]) simp_all
  qed
qed

lemma guardedReplyUpdate_cases:
  assumes "guardedReplyUpdate r c u now db = (res, db')"
  obtains (missed) "res = None" "db' = db"
  | (wrote) row u' where "replies db (reply_key r) = Some row" "reply_id row = reply_id r" "replySnapshotWhere r c row"
      "replyCommandMayStart c r"
      "aiTextRuleOf c = Needs_current_binding \<longrightarrow> aiTextMayAdvance db r"
      "u' = (if aiTextRuleOf c = Ends_adoption then u\<lparr>u_aiGenerated := Some False\<rparr> else u)"
      "res = Some (revision_trigger row (buildReplySetClause u' now row))"
      "db' = db\<lparr>replies := (replies db)(reply_key r := res)\<rparr>"
proof -
  let ?u = "if aiTextRuleOf c = Ends_adoption then u\<lparr>u_aiGenerated := Some False\<rparr> else u"
  show ?thesis
  proof (cases "replyCommandMayStart c r \<and> (aiTextRuleOf c = Needs_current_binding \<longrightarrow> aiTextMayAdvance db r)")
    case False
    with assms have "res = None" "db' = db"
      by (cases "replyCommandMayStart c r"; simp add: guardedReplyUpdate_def Let_def)+
    then show ?thesis by (rule missed)
  next
    case True
    with assms have "updateReplyWhere r (replySnapshotWhere r c)
        (buildReplySetClause ?u now) db = (res, db')"
      by (auto simp: guardedReplyUpdate_def Let_def)
    then show ?thesis
    proof (cases rule: updateReplyWhere_cases)
      case missed
      then show ?thesis by (rule that(1))
    next
      case (wrote row)
      with True show ?thesis by (intro that(2)[of row ?u]) simp_all
    qed
  qed
qed

end
