(* ===== verification/ReplyStore.thy ===== *)
theory ReplyStore
  imports ReplyDb
begin

text \<open>
  The commands of the atomic reply command store
  (src/contexts/review/infrastructure/reply-command-store.ts, unclaimable-publication.ts) and the
  draft writes of the reply repository (reply.repository.ts), each a transaction over
  \<open>reply_db\<close>. \<open>now\<close> is the time the caller passes or the store's clock; \<open>actor\<close> is the injected
  authority of the named manager, read in the transaction; \<open>nfc\<close> is Unicode NFC.
  Result \<open>ok (None, db)\<close> is the null of a lost compare-and-set.
\<close>

section \<open>Shared runners\<close>

type_synonym actor_authority = "reply_db \<Rightarrow> string \<Rightarrow> string \<Rightarrow> string \<Rightarrow> date \<Rightarrow> bool"

definition nextStateOrNull :: "reply \<Rightarrow> publication_event \<Rightarrow> publication_state option" where
  "nextStateOrNull r e = nextPublicationState (publicationState r) e"

definition record_fact :: "domain_fact option \<Rightarrow> reply_db \<Rightarrow> reply_db" where
  "record_fact f db = (case f of None \<Rightarrow> db | Some x \<Rightarrow> insertOutboxRow x db)"

definition transition ::
  "reply \<Rightarrow> reply_command \<Rightarrow> reply_update \<Rightarrow> domain_fact option \<Rightarrow> date \<Rightarrow> reply option tx" where
  "transition r command updates event now db =
     (case guardedReplyUpdate r command updates now db of
        (None, db') \<Rightarrow> ok (None, db')
      | (Some row, db') \<Rightarrow> ok (Some row, record_fact event db'))"

text \<open>
  A guarded publication transition: \<open>set\<close> is called before the write (it may throw), \<open>afterWrite\<close>
  after it in the same transaction.
\<close>

definition publicationTransition ::
  "reply \<Rightarrow> publication_event \<Rightarrow> publication_state list
     \<Rightarrow> (publication_state \<Rightarrow> date \<Rightarrow> (review_error, reply \<Rightarrow> reply) result)
     \<Rightarrow> domain_fact option \<Rightarrow> date
     \<Rightarrow> (reply \<Rightarrow> date \<Rightarrow> reply_db \<Rightarrow> (review_error, reply_db) result) \<Rightarrow> reply option tx" where
  "publicationTransition r event allowedStates set_clause event_fact now afterWrite db =
     (case nextStateOrNull r event of
        None \<Rightarrow> ok (None, db)
      | Some target \<Rightarrow>
          (case set_clause target now of
             Inl e \<Rightarrow> err e
           | Inr f \<Rightarrow>
               (case guardedPublicationUpdate r (status r) allowedStates f db of
                  (None, db') \<Rightarrow> ok (None, db')
                | (Some row, db') \<Rightarrow>
                    (case afterWrite row now db' of
                       Inl e \<Rightarrow> err e
                     | Inr db'' \<Rightarrow> ok (Some row, record_fact event_fact db'')))))"

definition due_after :: "date \<Rightarrow> int \<Rightarrow> date" where
  "due_after t ms = new_date (num_add (get_time t) (nint ms))"

text \<open>The value of a validated integer number.\<close>

fun num_int :: "number \<Rightarrow> int" where
  "num_int (Fin q) = \<lfloor>q\<rfloor>"
| "num_int n = 0"

section \<open>Authorization\<close>

definition assertPublicationIntentMatchesCycle ::
  "reply \<Rightarrow> publication_intent \<Rightarrow> lifecycle_fact option \<Rightarrow> (review_error, number) result" where
  "assertPublicationIntentMatchesCycle r intent lifecycle =
     (case nextPublicationCycle (nint (publicationCycle r)) of
        Inl e \<Rightarrow> err e
      | Inr nextCycle \<Rightarrow>
          if in_replyId intent \<noteq> reply_id r
             \<or> in_reviewId intent \<noteq> reply_reviewId r
             \<or> in_organizationId intent \<noteq> reply_organizationId r
             \<or> (case in_userId intent of
                  None \<Rightarrow> True | Some u \<Rightarrow> length (js_trim (js u)) = 0)
             \<or> \<not> num_eq (in_publicationCycle intent) nextCycle
             \<or> (case lifecycle of
                  None \<Rightarrow> False
                | Some l \<Rightarrow> lf_replyId l \<noteq> reply_id r
                    \<or> lf_reviewId l \<noteq> reply_reviewId r
                    \<or> lf_organizationId l \<noteq> reply_organizationId r
                    \<or> lf_propertyId l \<noteq> in_propertyId intent
                    \<or> lf_userId l \<noteq> in_userId intent)
             \<or> \<not> is_safe_integer (in_sourceEpoch intent)
             \<or> num_lt (in_sourceEpoch intent) (nint 0)
             \<or> \<not> is_safe_integer (in_materialReviewRevision intent)
             \<or> num_lt (in_materialReviewRevision intent) (nint 1)
             \<or> \<not> is_safe_integer (in_baseObservationRevision intent)
             \<or> num_lt (in_baseObservationRevision intent) (nint 0)
          then err (reviewError ''invalid_transition''
                      ''Reply publication intent does not match the authorized cycle'' [])
          else ok nextCycle)"

record scope_head =
  hd_observationRevision :: int
  hd_sourceEpoch :: int
  hd_materialReviewRevision :: int
  hd_state :: observed_state
  hd_source :: observation_source
  hd_contentState :: string
  hd_observedAt :: date

record truth_scope =
  ts_review :: review_scope_row
  ts_head :: "scope_head option"

definition lockCurrentReplyTruthScope ::
  "reply_db \<Rightarrow> string \<Rightarrow> string \<Rightarrow> string \<Rightarrow> truth_scope option" where
  "lockCurrentReplyTruthScope db org reviewId propertyId =
     (case find (\<lambda>v. rv_id v = reviewId \<and> rv_organizationId v = org \<and> rv_propertyId v = propertyId)
             (reviews db) of
        None \<Rightarrow> None
      | Some v \<Rightarrow> Some \<lparr>ts_review = v,
          ts_head =
            (case observation_heads db reviewId of
               None \<Rightarrow> None
             | Some h \<Rightarrow>
                 if oh_organizationId h \<noteq> org \<or> oh_propertyId h \<noteq> propertyId then None
                 else map_option (\<lambda>o'. \<lparr>hd_observationRevision = oh_observationRevision h,
                        hd_sourceEpoch = oh_sourceEpoch h,
                        hd_materialReviewRevision = oh_materialReviewRevision h,
                        hd_state = oh_state h, hd_source = ob_source o',
                        hd_contentState = ob_contentState o', hd_observedAt = ob_observedAt o'\<rparr>)
                      (head_observation db h))\<rparr>)"

definition authorizationFenceIsCurrent :: "number \<Rightarrow> number \<Rightarrow> number \<Rightarrow> truth_scope \<Rightarrow> bool" where
  "authorizationFenceIsCurrent epoch revision base scope =
     (rv_sourceContentState (ts_review scope) = ''active''
      \<and> nint (rv_sourceEpoch (ts_review scope)) = epoch
      \<and> nint (rv_materialReviewRevision (ts_review scope)) = revision
      \<and> (case ts_head scope of
           None \<Rightarrow> num_eq base (nint 0)
         | Some h \<Rightarrow> nint (hd_observationRevision h) = base
             \<and> nint (hd_sourceEpoch h) = epoch
             \<and> nint (hd_materialReviewRevision h) = revision
             \<and> hd_contentState h = ''active''))"

definition unique_violation :: review_error where
  "unique_violation = reviewError ''unique_violation'' ''duplicate key value'' []"

text \<open>The primary key of an authorization is its reply and cycle.\<close>

definition insertAuthorization ::
  "publication_authorization \<Rightarrow> reply_db \<Rightarrow> (review_error, reply_db) result" where
  "insertAuthorization a db =
     (if \<exists>b \<in> set (authorizations db). au_replyId b = au_replyId a
         \<and> au_publicationCycle b = au_publicationCycle a
      then err unique_violation
      else ok (db\<lparr>authorizations := authorizations db @ [a]\<rparr>))"

definition user_of :: "publication_intent \<Rightarrow> string" where
  "user_of intent = (case in_userId intent of None \<Rightarrow> [] | Some u \<Rightarrow> u)"

definition authorizePublicationCycle ::
  "normalizer \<Rightarrow> actor_authority \<Rightarrow> reply \<Rightarrow> reply_command \<Rightarrow> publication_intent \<Rightarrow> number
     \<Rightarrow> reply_update \<Rightarrow> date \<Rightarrow> reply option tx" where
  "authorizePublicationCycle nfc actor r command intent cycle updates occurredAt db =
     (case lockCurrentReplyTruthScope db (reply_organizationId r) (reply_reviewId r)
             (in_propertyId intent) of
        None \<Rightarrow> ok (None, db)
      | Some scope \<Rightarrow>
          if \<not> authorizationFenceIsCurrent (in_sourceEpoch intent)
                 (in_materialReviewRevision intent) (in_baseObservationRevision intent) scope
          then ok (None, db)
          else if \<not> actor db (reply_organizationId r) (in_propertyId intent) (user_of intent) occurredAt
          then ok (None, db)
          else
            (case guardedReplyUpdate r command
                    (updates\<lparr>u_publicationState := Some (Some P_authorized),
                             u_publicationCycle := Some (num_int cycle),
                             u_publicationAttempts := Some 0,
                             u_publicationLastErrorClass := Some None,
                             u_reconcileDueAt := Some (Some
                               (due_after occurredAt PUBLICATION_RECOVERY_RECONCILE_DELAY_MS))\<rparr>)
                    occurredAt db of
               (None, db') \<Rightarrow> ok (None, db')
             | (Some row, db') \<Rightarrow>
                 (case insertAuthorization
                     \<lparr>au_organizationId = reply_organizationId r,
                      au_propertyId = in_propertyId intent,
                      au_reviewId = reply_reviewId r, au_replyId = reply_id r,
                      au_publicationCycle = num_int cycle,
                      au_sourceEpoch = num_int (in_sourceEpoch intent),
                      au_materialReviewRevision = num_int (in_materialReviewRevision intent),
                      au_baseObservationRevision = num_int (in_baseObservationRevision intent),
                      au_authorizedByUserId = user_of intent,
                      au_replyStateRevision = stateRevision row,
                      au_expectedReplyDigest = googleReplyTextDigest nfc (reply_text row),
                      au_authorizedAt = occurredAt\<rparr> db' of
                    Inl e \<Rightarrow> err e
                  | Inr db'' \<Rightarrow> ok (Some row, db''))))"

definition then_record :: "domain_fact option \<Rightarrow> domain_fact option \<Rightarrow> reply option tx \<Rightarrow> reply option tx"
where
  "then_record f g t db =
     (case t db of
        Inl e \<Rightarrow> err e
      | Inr (None, db') \<Rightarrow> ok (None, db')
      | Inr (Some row, db') \<Rightarrow> ok (Some row, record_fact g (record_fact f db')))"

definition markPublicationAuthorized ::
  "normalizer \<Rightarrow> actor_authority \<Rightarrow> reply \<Rightarrow> reply_update \<Rightarrow> publication_intent
     \<Rightarrow> lifecycle_fact option \<Rightarrow> date \<Rightarrow> reply option tx" where
  "markPublicationAuthorized nfc actor r updates intent lifecycle now db =
     (let command = (if lifecycle \<noteq> None then C_approve else C_retry_publication) in
      if \<not> replyCommandMayStart command r \<or> nextStateOrNull r E_authorize = None then ok (None, db)
      else
        (case assertPublicationIntentMatchesCycle r intent lifecycle of
           Inl e \<Rightarrow> err e
         | Inr cycle \<Rightarrow>
             then_record (map_option F_approved lifecycle) (Some (F_requested intent))
               (authorizePublicationCycle nfc actor r command intent cycle
                  (if command = C_approve
                   then updates\<lparr>u_status := Some S_approved,
                                u_approvedBy := Some (Some (user_of intent)),
                                u_approvedAt := Some (case u_approvedAt updates of
                                    Some (Some t) \<Rightarrow> Some t | _ \<Rightarrow> Some now)\<rparr>
                   else no_update\<lparr>u_status := Some S_approved\<rparr>)
                  now) db))"

definition editPublishedReply ::
  "normalizer \<Rightarrow> actor_authority \<Rightarrow> reply \<Rightarrow> js_string \<Rightarrow> publication_intent
     \<Rightarrow> lifecycle_fact \<Rightarrow> date \<Rightarrow> reply option tx" where
  "editPublishedReply nfc actor r t intent lifecycle now db =
     (if \<not> replyCommandMayStart C_edit_published r then ok (None, db)
      else
        (case assertPublicationIntentMatchesCycle r intent (Some lifecycle) of
           Inl e \<Rightarrow> err e
         | Inr cycle \<Rightarrow>
             then_record (Some (F_updated lifecycle)) (Some (F_requested intent))
               (authorizePublicationCycle nfc actor r C_edit_published intent cycle
                  (no_update\<lparr>u_text := Some t, u_status := Some S_approved\<rparr>) now) db))"

section \<open>The claim\<close>

record attempt_start =
  as_propertyId :: string
  as_sourceEpoch :: number
  as_materialReviewRevision :: number
  as_baseObservationRevision :: number
  as_providerOperationKey :: string

definition readCurrentPublicationAuthorization ::
  "normalizer \<Rightarrow> reply_db \<Rightarrow> reply \<Rightarrow> attempt_start \<Rightarrow> truth_scope \<Rightarrow> publication_authorization option"
where
  "readCurrentPublicationAuthorization nfc db r attempt scope =
     (case find (\<lambda>a. au_organizationId a = reply_organizationId r
                   \<and> au_propertyId a = as_propertyId attempt
                   \<and> au_reviewId a = reply_reviewId r
                   \<and> au_replyId a = reply_id r
                   \<and> au_publicationCycle a = publicationCycle r) (authorizations db) of
        None \<Rightarrow> None
      | Some a \<Rightarrow>
          if nint (au_sourceEpoch a) \<noteq> as_sourceEpoch attempt
             \<or> nint (au_materialReviewRevision a) \<noteq> as_materialReviewRevision attempt
             \<or> nint (au_baseObservationRevision a) \<noteq> as_baseObservationRevision attempt
             \<or> googleReplyTextDigest nfc (reply_text r) \<noteq> au_expectedReplyDigest a
             \<or> rv_sourceContentState (ts_review scope) \<noteq> ''active''
             \<or> rv_sourceEpoch (ts_review scope) \<noteq> au_sourceEpoch a
             \<or> rv_materialReviewRevision (ts_review scope) \<noteq> au_materialReviewRevision a
             \<or> (case ts_head scope of
                  None \<Rightarrow> False
                | Some h \<Rightarrow> hd_sourceEpoch h \<noteq> au_sourceEpoch a
                    \<or> hd_materialReviewRevision h \<noteq> au_materialReviewRevision a
                    \<or> hd_contentState h \<noteq> ''active'')
          then None else Some a)"

definition cancelled_set :: "cancelled_publication \<Rightarrow> date \<Rightarrow> reply \<Rightarrow> reply" where
  "cancelled_set c t row = (apply_cancellation row c)\<lparr>updatedAt := t\<rparr>"

definition supersede :: "date \<Rightarrow> publication_attempt \<Rightarrow> publication_attempt" where
  "supersede t a = a\<lparr>at_outcome := O_superseded, at_confirmedObservationRevision := None,
                      at_updatedAt := t\<rparr>"

definition supersede_current :: "reply \<Rightarrow> date \<Rightarrow> reply_db \<Rightarrow> (review_error, reply_db) result" where
  "supersede_current row t db =
     (if publicationAttempts row > 0 then updateCurrentAttempt row (supersede t) None db else ok db)"

definition replyAuthor :: "reply \<Rightarrow> string option" where
  "replyAuthor r = (case submittedBy r of None \<Rightarrow> createdBy r | Some u \<Rightarrow> Some u)"

definition cancellation_fact :: "reply \<Rightarrow> string \<Rightarrow> cancel_cause \<Rightarrow> domain_fact" where
  "cancellation_fact row propertyId cause =
     F_cancelled \<lparr>lf_replyId = reply_id row, lf_reviewId = reply_reviewId row,
        lf_organizationId = reply_organizationId row, lf_propertyId = propertyId,
        lf_userId = replyAuthor row\<rparr> cause"

text \<open>
  What the AI draft purge does with the draft this claim leaves (a draft after a cancelled cycle):
  an internal AI-assisted reply is emptied in place and becomes human-authored. The purge records
  no second fact for it.
\<close>

definition purgeAiDraftsForReview :: "reply \<Rightarrow> date \<Rightarrow> reply_db \<Rightarrow> reply_db" where
  "purgeAiDraftsForReview r t db =
     snd (updateReplyWhere r
       (\<lambda>row. aiGenerated row \<and> publicationState row = Some P_cancelled
          \<and> status row \<in> {S_draft, S_pending_approval, S_rejected})
       (\<lambda>row. row\<lparr>status := S_draft, publicationState := Some P_cancelled,
                   publicationLastErrorClass := None, reconcileDueAt := None,
                   rejectedBy := None, rejectionReason := None, reply_text := [],
                   aiGenerated := False, updatedAt := t\<rparr>) db)"

definition cancelUnclaimablePublication ::
  "reply \<Rightarrow> string \<Rightarrow> date \<Rightarrow> cancel_cause \<Rightarrow> reply option tx" where
  "cancelUnclaimablePublication r propertyId t cause db =
     (case cancelledPublication r of
        None \<Rightarrow> ok (None, db)
      | Some cancellation \<Rightarrow>
          (case guardedPublicationUpdate r S_approved [P_authorized] (cancelled_set cancellation t) db of
             (None, db') \<Rightarrow> ok (None, db')
           | (Some row, db') \<Rightarrow>
               (case supersede_current row t db' of
                  Inl e \<Rightarrow> err e
                | Inr db'' \<Rightarrow>
                    let db3 = insertOutboxRow (cancellation_fact row propertyId cause) db''
                    in ok (None, if cause = Ai_draft_withdrawn
                                 then purgeAiDraftsForReview row t db3 else db3))))"

text \<open>The unique keys of an attempt: its number in the cycle, and its provider operation key.\<close>

definition insertAttempt :: "publication_attempt \<Rightarrow> reply_db \<Rightarrow> (review_error, reply_db) result" where
  "insertAttempt a db =
     (if \<exists>b \<in> set (attempts db).
            at_replyId b = at_replyId a \<and> at_publicationCycle b = at_publicationCycle a
              \<and> at_attemptNumber b = at_attemptNumber a
          \<or> at_organizationId b = at_organizationId a
              \<and> at_providerOperationKey b = at_providerOperationKey a
      then err unique_violation
      else ok (db\<lparr>attempts := attempts db @ [a]\<rparr>))"

definition attempt_fence_invalid :: "attempt_start \<Rightarrow> bool" where
  "attempt_fence_invalid attempt =
     (length (as_providerOperationKey attempt) < 1
      \<or> length (as_providerOperationKey attempt) > 255
      \<or> num_lt (as_sourceEpoch attempt) (nint 0)
      \<or> \<not> is_safe_integer (as_sourceEpoch attempt)
      \<or> num_lt (as_materialReviewRevision attempt) (nint 1)
      \<or> \<not> is_safe_integer (as_materialReviewRevision attempt)
      \<or> num_lt (as_baseObservationRevision attempt) (nint 0)
      \<or> \<not> is_safe_integer (as_baseObservationRevision attempt))"

definition head_revision :: "truth_scope \<Rightarrow> int" where
  "head_revision scope = (case ts_head scope of None \<Rightarrow> 0 | Some h \<Rightarrow> hd_observationRevision h)"

text \<open>The guarded claim and its attempt row, once every check has passed.\<close>

definition claim_write ::
  "reply \<Rightarrow> attempt_start \<Rightarrow> publication_authorization \<Rightarrow> truth_scope \<Rightarrow> publication_state \<Rightarrow> date
     \<Rightarrow> reply option tx" where
  "claim_write r attempt a scope target now db =
     (case guardedPublicationUpdate r S_approved [P_authorized]
             (\<lambda>row. row\<lparr>publicationState := Some target,
                         publicationAttempts := publicationAttempts row + 1,
                         reconcileDueAt :=
                           Some (due_after now PUBLICATION_RECOVERY_RECONCILE_DELAY_MS),
                         updatedAt := now\<rparr>) db of
        (None, db') \<Rightarrow> ok (None, db')
      | (Some claimed, db') \<Rightarrow>
          (case insertAttempt
              \<lparr>at_organizationId = reply_organizationId r, at_propertyId = as_propertyId attempt,
               at_reviewId = reply_reviewId r, at_replyId = reply_id r,
               at_publicationCycle = publicationCycle r,
               at_attemptNumber = publicationAttempts claimed,
               at_providerOperationKey = as_providerOperationKey attempt,
               at_sourceEpoch = au_sourceEpoch a,
               at_materialReviewRevision = au_materialReviewRevision a,
               at_replyStateRevision = au_replyStateRevision a,
               at_baseObservationRevision = head_revision scope,
               at_expectedReplyDigest = au_expectedReplyDigest a,
               at_outcome = O_sending, at_providerCorrelationId = None,
               at_providerRespondedAt = None, at_confirmedObservationRevision = None,
               at_createdAt = now, at_updatedAt = now\<rparr> db' of
             Inl e \<Rightarrow> err e
           | Inr db'' \<Rightarrow> ok (Some claimed, db'')))"

definition markPublicationSending ::
  "normalizer \<Rightarrow> actor_authority \<Rightarrow> reply \<Rightarrow> attempt_start \<Rightarrow> date \<Rightarrow> reply option tx" where
  "markPublicationSending nfc actor r attempt now db =
     (case nextStateOrNull r E_claim of
        None \<Rightarrow> ok (None, db)
      | Some target \<Rightarrow>
        if attempt_fence_invalid attempt then
          err (reviewError ''invalid_input'' ''Invalid publication attempt fence'' [])
        else
          let property = lockPublicationProperty db (reply_organizationId r) (as_propertyId attempt)
          in case lockCurrentReplyTruthScope db (reply_organizationId r) (reply_reviewId r)
                    (as_propertyId attempt) of
            None \<Rightarrow> ok (None, db)
          | Some scope \<Rightarrow>
            if \<not> aiTextMayBeClaimed nfc db r then
              cancelUnclaimablePublication r (as_propertyId attempt) now Ai_draft_withdrawn db
            else case readCurrentPublicationAuthorization nfc db r attempt scope of
              None \<Rightarrow> ok (None, db)
            | Some a \<Rightarrow>
              if \<not> propertyAdmitsCycle property a then
                cancelUnclaimablePublication r (as_propertyId attempt) now Policy db
              else if \<not> actor db (au_organizationId a) (au_propertyId a)
                           (au_authorizedByUserId a) now then
                cancelUnclaimablePublication r (as_propertyId attempt) now Policy db
              else if \<exists>b \<in> set (attempts db). at_organizationId b = reply_organizationId r
                        \<and> at_providerOperationKey b = as_providerOperationKey attempt then
                ok (None, db)
              else if head_revision scope \<noteq> au_baseObservationRevision a then ok (None, db)
              else claim_write r attempt a scope target now db)"

section \<open>Provider outcomes\<close>

definition markProviderOutcomePendingObservation ::
  "reply \<Rightarrow> string option \<Rightarrow> date \<Rightarrow> date \<Rightarrow> reply option tx" where
  "markProviderOutcomePendingObservation r correlationId respondedAt now =
     publicationTransition r E_provider_accepted [P_sending]
       (\<lambda>target t. ok (\<lambda>row. row\<lparr>publicationState := Some target,
          reconcileDueAt := Some (due_after t PROVIDER_OBSERVATION_RECONCILE_DELAY_MS),
          updatedAt := t\<rparr>))
       None now
       (\<lambda>saved t. updateCurrentAttempt saved
          (\<lambda>a. a\<lparr>at_outcome := O_provider_outcome_pending,
                 at_providerCorrelationId := correlationId,
                 at_providerRespondedAt := Some respondedAt, at_updatedAt := t\<rparr>) None)"

definition deferPendingPublicationObservation :: "reply \<Rightarrow> date \<Rightarrow> reply option tx" where
  "deferPendingPublicationObservation r now db =
     (if publicationState r \<noteq> Some P_pending_observation then ok (None, db)
      else ok (guardedPublicationUpdate r S_approved [P_pending_observation]
             (\<lambda>row. row\<lparr>reconcileDueAt :=
                   Some (due_after now PROVIDER_OBSERVATION_RECONCILE_DELAY_MS),
                 updatedAt := now\<rparr>) db))"

fun outcome_of_class :: "failure_class \<Rightarrow> attempt_outcome" where
  "outcome_of_class Terminal_rejection = O_terminal_rejection"
| "outcome_of_class Retryable = O_retryable_failure"
| "outcome_of_class Ambiguous = O_ambiguous"

definition markPublicationTerminal ::
  "reply \<Rightarrow> failure_class \<Rightarrow> domain_fact option \<Rightarrow> date \<Rightarrow> reply option tx" where
  "markPublicationTerminal r class event now =
     publicationTransition r E_fail_terminal [P_requested, P_authorized, P_sending, P_ambiguous]
       (\<lambda>target t. ok (\<lambda>row. row\<lparr>status := S_publish_failed, publicationState := Some target,
          publicationLastErrorClass := Some class, reconcileDueAt := None, updatedAt := t\<rparr>))
       event now
       (\<lambda>saved t db.
          if publicationAttempts saved < 1 then ok db
          else updateCurrentAttempt saved
                 (\<lambda>a. a\<lparr>at_outcome := outcome_of_class class, at_updatedAt := t\<rparr>) None db)"

definition assertDueAfter :: "date \<Rightarrow> date \<Rightarrow> (review_error, unit) result" where
  "assertDueAfter dueAt now =
     (if \<not> is_finite (get_time dueAt) \<or> \<not> is_finite (get_time now)
         \<or> num_le (get_time dueAt) (get_time now)
      then err (reviewError ''invalid_input'' ''Reply reconciliation must be due after now'' [])
      else ok ())"

definition markPublicationAmbiguous ::
  "reply \<Rightarrow> domain_fact option \<Rightarrow> date \<Rightarrow> date option \<Rightarrow> reply option tx" where
  "markPublicationAmbiguous r event now dueAt =
     publicationTransition r E_fail_ambiguous [P_sending, P_pending_observation]
       (\<lambda>target t.
          (case (case dueAt of None \<Rightarrow> ok () | Some d \<Rightarrow> assertDueAfter d t) of
             Inl e \<Rightarrow> err e
           | Inr _ \<Rightarrow> ok (\<lambda>row. row\<lparr>status := S_publish_failed, publicationState := Some target,
               publicationLastErrorClass := Some Ambiguous,
               reconcileDueAt := Some (case dueAt of
                   None \<Rightarrow> due_after t AMBIGUOUS_RECONCILE_DELAY_MS | Some d \<Rightarrow> d),
               updatedAt := t\<rparr>)))
       event now
       (\<lambda>saved t. updateCurrentAttempt saved
          (\<lambda>a. a\<lparr>at_outcome := O_ambiguous, at_updatedAt := t\<rparr>) None)"

definition markPublicationRetryQueued :: "reply \<Rightarrow> date \<Rightarrow> reply option tx" where
  "markPublicationRetryQueued r now db =
     (case nextStateOrNull r E_requeue of
        None \<Rightarrow> ok (None, db)
      | Some target \<Rightarrow>
          (case guardedPublicationUpdate r S_approved [P_sending]
                 (\<lambda>row. row\<lparr>publicationState := Some target,
                    reconcileDueAt := Some (due_after now PUBLICATION_RECOVERY_RECONCILE_DELAY_MS),
                    updatedAt := now\<rparr>) db of
             (None, db') \<Rightarrow> ok (None, db')
           | (Some saved, db') \<Rightarrow>
               (case updateCurrentAttempt saved
                       (\<lambda>a. a\<lparr>at_outcome := O_retryable_failure, at_updatedAt := now\<rparr>) None db' of
                  Inl e \<Rightarrow> err e
                | Inr db'' \<Rightarrow> ok (Some saved, db''))))"

section \<open>Uncertain attempts\<close>

record uncertain_snapshot =
  us_status :: reply_status
  us_publicationState :: publication_state
  us_lastErrorClass :: "failure_class option"

definition DEFERRABLE_SEND :: "uncertain_snapshot list" where
  "DEFERRABLE_SEND =
     [\<lparr>us_status = S_approved, us_publicationState = P_sending, us_lastErrorClass = None\<rparr>]"

definition LADDER_AMBIGUITY :: "uncertain_snapshot list" where
  "LADDER_AMBIGUITY =
     [\<lparr>us_status = S_publish_failed, us_publicationState = P_ambiguous, us_lastErrorClass = None\<rparr>]"

definition NEVER_DISPATCHED_SETTLEABLE :: "uncertain_snapshot list" where
  "NEVER_DISPATCHED_SETTLEABLE =
     [\<lparr>us_status = S_approved, us_publicationState = P_sending, us_lastErrorClass = None\<rparr>,
      \<lparr>us_status = S_publish_failed, us_publicationState = P_ambiguous, us_lastErrorClass = None\<rparr>,
      \<lparr>us_status = S_publish_failed, us_publicationState = P_terminal,
       us_lastErrorClass = Some Ambiguous\<rparr>]"

definition uncertainSnapshotFor :: "reply \<Rightarrow> uncertain_snapshot list \<Rightarrow> uncertain_snapshot option" where
  "uncertainSnapshotFor r allowed =
     find (\<lambda>s. us_status s = status r \<and> Some (us_publicationState s) = publicationState r
           \<and> (us_lastErrorClass s = None \<or> us_lastErrorClass s = publicationLastErrorClass r)) allowed"

definition uncertainAttemptWhere :: "reply \<Rightarrow> uncertain_snapshot \<Rightarrow> reply \<Rightarrow> bool" where
  "uncertainAttemptWhere r s row =
     (reply_organizationId row = reply_organizationId r
      \<and> status row = us_status s
      \<and> publicationState row = Some (us_publicationState s)
      \<and> publicationCycle row = publicationCycle r
      \<and> publicationAttempts row = publicationAttempts r
      \<and> stateRevision row = stateRevision r
      \<and> (us_lastErrorClass s \<noteq> None \<longrightarrow> publicationLastErrorClass row = us_lastErrorClass s))"

definition casUncertainAttempt ::
  "reply \<Rightarrow> uncertain_snapshot \<Rightarrow> (reply \<Rightarrow> reply) \<Rightarrow> reply_db \<Rightarrow> reply option \<times> reply_db" where
  "casUncertainAttempt r s f db = updateReplyWhere r (uncertainAttemptWhere r s) f db"

definition UNCERTAIN_ATTEMPT_OUTCOMES :: "attempt_outcome list" where
  "UNCERTAIN_ATTEMPT_OUTCOMES = [O_sending, O_ambiguous]"

text \<open>The attempt under its lock: \<open>None\<close> when the snapshot lost.\<close>

definition lockUncertainAttempt ::
  "reply \<Rightarrow> uncertain_snapshot \<Rightarrow> reply_db \<Rightarrow> (review_error, publication_attempt option) result" where
  "lockUncertainAttempt r s db =
     (case replies db (reply_key r) of
        None \<Rightarrow> ok None
      | Some row \<Rightarrow>
          if \<not> (reply_id row = reply_id r \<and> uncertainAttemptWhere r s row) then ok None
          else (case find (current_attempt_where r (Some UNCERTAIN_ATTEMPT_OUTCOMES)) (attempts db) of
                  None \<Rightarrow> err evidence_missing
                | Some a \<Rightarrow> ok (Some a)))"

definition reschedule ::
  "uncertain_snapshot list \<Rightarrow> reply \<Rightarrow> date \<Rightarrow> date \<Rightarrow> reply option tx" where
  "reschedule allowed r dueAt now db =
     (case uncertainSnapshotFor r allowed of
        None \<Rightarrow> ok (None, db)
      | Some s \<Rightarrow>
          (case assertDueAfter dueAt now of
             Inl e \<Rightarrow> err e
           | Inr _ \<Rightarrow> ok (casUncertainAttempt r s
                 (\<lambda>row. row\<lparr>reconcileDueAt := Some dueAt, updatedAt := now\<rparr>) db)))"

definition deferUncertainSend :: "reply \<Rightarrow> date \<Rightarrow> date \<Rightarrow> reply option tx" where
  "deferUncertainSend = reschedule DEFERRABLE_SEND"

definition rescheduleAmbiguousReconciliation :: "reply \<Rightarrow> date \<Rightarrow> date \<Rightarrow> reply option tx" where
  "rescheduleAmbiguousReconciliation = reschedule LADDER_AMBIGUITY"

definition settleNeverDispatchedAttempt ::
  "reply \<Rightarrow> domain_fact option \<Rightarrow> date \<Rightarrow> reply option tx" where
  "settleNeverDispatchedAttempt r event now db =
     (case uncertainSnapshotFor r NEVER_DISPATCHED_SETTLEABLE of
        None \<Rightarrow> ok (None, db)
      | Some s \<Rightarrow>
        if publicationCycle r < 1 \<or> publicationAttempts r < 1 then err evidence_missing
        else (case lockUncertainAttempt r s db of
          Inl e \<Rightarrow> err e
        | Inr None \<Rightarrow> ok (None, db)
        | Inr (Some attempt) \<Rightarrow>
          if attemptMayHaveDispatched db
               \<lparr>da_organizationId = reply_organizationId r, da_replyId = reply_id r,
                da_publicationCycle = publicationCycle r,
                da_attemptNumber = publicationAttempts r,
                da_attemptStartedAt = at_createdAt attempt\<rparr>
          then ok (None, db)
          else (case casUncertainAttempt r s
                    (\<lambda>row. row\<lparr>status := S_publish_failed, publicationState := Some P_terminal,
                       publicationLastErrorClass := Some Retryable, reconcileDueAt := None,
                       updatedAt := now\<rparr>) db of
            (None, db') \<Rightarrow> ok (None, db')
          | (Some saved, db') \<Rightarrow>
              (case updateCurrentAttempt saved
                      (\<lambda>a. a\<lparr>at_outcome := O_retryable_failure, at_updatedAt := now\<rparr>)
                      (Some UNCERTAIN_ATTEMPT_OUTCOMES) db' of
                 Inl e \<Rightarrow> err e
               | Inr db'' \<Rightarrow>
                   ok (Some saved, if us_status s \<noteq> S_publish_failed then record_fact event db''
                                   else db'')))))"

section \<open>Cancellation, mirrors and drafts\<close>

text \<open>The batch is one transaction: an error anywhere rolls every row back.\<close>

fun cancelPublications :: "(reply \<times> domain_fact \<times> date) list \<Rightarrow> nat tx" where
  "cancelPublications [] db = ok (0, db)"
| "cancelPublications ((r, event, now) # cs) db =
     (case cancelledPublication r of
        None \<Rightarrow> cancelPublications cs db
      | Some cancellation \<Rightarrow>
          (case guardedPublicationUpdate r (status r)
                  [P_requested, P_authorized, P_sending, P_pending_observation]
                  (cancelled_set cancellation now) db of
             (None, db') \<Rightarrow> cancelPublications cs db'
           | (Some row, db') \<Rightarrow>
               (case supersede_current row now db' of
                  Inl e \<Rightarrow> err e
                | Inr db'' \<Rightarrow>
                    (case cancelPublications cs (insertOutboxRow event db'') of
                       Inl e \<Rightarrow> err e
                     | Inr (n, db3) \<Rightarrow> ok (Suc n, db3)))))"

text \<open>
  The upsert of a Google mirror. On conflict the publication columns, the template and language
  columns and the author are left alone. The new row's \<open>createdAt\<close> is the insertion time.
\<close>

definition mirrorUpsert :: "reply \<Rightarrow> date \<Rightarrow> reply_db \<Rightarrow> reply \<times> reply_db" where
  "mirrorUpsert r now db =
     (let row' = (case replies db (reply_key r) of
           None \<Rightarrow> r\<lparr>createdAt := now, updatedAt := now\<rparr>
         | Some old \<Rightarrow> old\<lparr>reply_text := reply_text r, status := status r,
               approvedBy := approvedBy r, rejectedBy := rejectedBy r,
               rejectionReason := rejectionReason r, aiGenerated := aiGenerated r,
               stateRevision := stateRevision r, submittedAt := submittedAt r,
               approvedAt := approvedAt r, publishedAt := publishedAt r, updatedAt := now\<rparr>)
      in (row', db\<lparr>replies := (replies db)(reply_key r := Some row')\<rparr>))"

definition mirrorSyncedReply ::
  "reply option \<Rightarrow> string \<Rightarrow> string \<Rightarrow> domain_fact option \<Rightarrow> date \<Rightarrow> reply option tx" where
  "mirrorSyncedReply mirror reviewId org event now db =
     (case mirror of
        None \<Rightarrow> ok (None, db\<lparr>replies := (replies db)((org, reviewId, Google_sync) := None)\<rparr>)
      | Some r \<Rightarrow>
          (let (row, db') = mirrorUpsert r now db in ok (Some row, record_fact event db')))"

definition createDraft :: "reply \<Rightarrow> reply option tx" where
  "createDraft r db =
     (if status r \<noteq> S_draft \<or> hasPublicationRecord r then
        err (reviewError ''invalid_input'' ''A new reply starts as a draft with no publication'' [])
      else case replies db (reply_key r) of
        Some _ \<Rightarrow> ok (None, db)
      | None \<Rightarrow> ok (Some r, db\<lparr>replies := (replies db)(reply_key r := Some r)\<rparr>))"

definition saveDraft :: "reply \<Rightarrow> reply_update \<Rightarrow> date \<Rightarrow> reply option tx" where
  "saveDraft r content now db =
     ok (guardedReplyUpdate r C_save_draft
           (content\<lparr>u_status := Some S_draft, u_rejectedBy := Some None,
                    u_rejectionReason := Some None\<rparr>) now db)"

definition deleteDraft :: "reply \<Rightarrow> bool tx" where
  "deleteDraft r db =
     (if \<not> replyCommandMayStart C_delete r then ok (False, db)
      else case replies db (reply_key r) of
        None \<Rightarrow> ok (False, db)
      | Some row \<Rightarrow>
          if reply_id row = reply_id r \<and> status row = status r \<and> publicationState row = None
             \<and> publicationCycle row = 0
          then ok (True, db\<lparr>replies := (replies db)(reply_key r := None)\<rparr>)
          else ok (False, db))"

section \<open>Simple guarded commands\<close>

definition submitReply :: "reply \<Rightarrow> reply_update \<Rightarrow> domain_fact \<Rightarrow> date \<Rightarrow> reply option tx" where
  "submitReply r updates event now = transition r C_submit updates (Some event) now"

definition rejectReply :: "reply \<Rightarrow> reply_update \<Rightarrow> domain_fact \<Rightarrow> date \<Rightarrow> reply option tx" where
  "rejectReply r updates event now = transition r C_reject updates (Some event) now"

definition markPublished :: "reply \<Rightarrow> reply_update \<Rightarrow> domain_fact \<Rightarrow> date \<Rightarrow> reply option tx" where
  "markPublished r updates event now =
     transition r C_confirm_published
       (updates\<lparr>u_publicationState := Some (Some P_published), u_reconcileDueAt := Some None\<rparr>)
       (Some event) now"

text \<open>The legacy purge always refuses, before any read or write.\<close>

definition denyLegacyReviewDestruction :: "review_error" where
  "denyLegacyReviewDestruction =
     reviewError ''review_destructive_lifecycle_quarantined''
       ''Review destructive lifecycle is quarantined: external Review lifecycle shadow parity and cutover are not approved'' []"

definition purgeExpiredReview :: "string \<Rightarrow> domain_fact \<Rightarrow> unit tx" where
  "purgeExpiredReview reviewId event db = err denyLegacyReviewDestruction"

end
