(* ===== verification/ObservationStore.thy ===== *)
theory ObservationStore
  imports ReplyStore
begin

text \<open>
  The observation authority
  (src/contexts/review/infrastructure/google-reply-observation-store.ts and its
  google-reply-observation-fence, -clock, -result, google-reply-publication-candidate and
  google-reply-superseded-read): one transaction that appends what a read of the reply on Google
  showed, replaces the head of the review, and settles the publication the read proves or
  overtakes. It is the one writer that publishes a reply.

  The identifier of a new observation row is an argument (a database default). An attempt row is
  named by its reply, cycle and number, its unique key. The timestamps of a head and the texts of
  the errors are as in the source; the measurement rows of a confirmation are not modelled.
\<close>

section \<open>The command and its fence\<close>

record target_input =
  ti_replyId :: string
  ti_publicationCycle :: number
  ti_attemptNumber :: number

datatype read_source = From_snapshot | From_target target_input

record observation_record =
  ro_organizationId :: string
  ro_propertyId :: string
  ro_reviewId :: string
  ro_sourceEpoch :: number
  ro_materialReviewRevision :: number
  ro_readGeneration :: number
  ro_observationKey :: string
  ro_source :: read_source
  ro_observedText :: "js_string option"
  ro_providerUpdatedAt :: "date option"
  ro_observedAt :: date
  ro_contentExpiresAt :: date

fun source_of :: "read_source \<Rightarrow> observation_source" where
  "source_of From_snapshot = Provider_snapshot"
| "source_of (From_target t) = Targeted_reconciliation"

text \<open>\<^verbatim>\<open>/^[0-9a-f]{64}$/u\<close>.\<close>

definition is_digest_key :: "string \<Rightarrow> bool" where
  "is_digest_key s = (length s = 64 \<and> (\<forall>c \<in> set s. c \<in> set ''0123456789abcdef''))"

fun target_invalid :: "read_source \<Rightarrow> bool" where
  "target_invalid From_snapshot = False"
| "target_invalid (From_target t) =
     (length (ti_replyId t) = 0
      \<or> num_lt (ti_publicationCycle t) (nint 1) \<or> \<not> is_safe_integer (ti_publicationCycle t)
      \<or> num_lt (ti_attemptNumber t) (nint 1) \<or> \<not> is_safe_integer (ti_attemptNumber t))"

definition assertObservationFence :: "observation_record \<Rightarrow> (review_error, unit) result" where
  "assertObservationFence input =
     (if \<not> is_digest_key (ro_observationKey input)
         \<or> get_time (ro_observedAt input) = NaN
         \<or> get_time (ro_contentExpiresAt input) = NaN
         \<or> (case ro_providerUpdatedAt input of None \<Rightarrow> False | Some d \<Rightarrow> get_time d = NaN)
         \<or> num_le (get_time (ro_contentExpiresAt input)) (get_time (ro_observedAt input))
         \<or> num_lt (ro_materialReviewRevision input) (nint 1)
         \<or> \<not> is_safe_integer (ro_materialReviewRevision input)
         \<or> num_lt (ro_readGeneration input) (nint 1)
         \<or> \<not> is_safe_integer (ro_readGeneration input)
         \<or> num_lt (ro_sourceEpoch input) (nint 0)
         \<or> \<not> is_safe_integer (ro_sourceEpoch input)
         \<or> target_invalid (ro_source input)
      then err (reviewError ''invalid_input'' ''Invalid Google reply observation fence'' [])
      else ok ())"

text \<open>The command with its checked counters as integers.\<close>

definition record_epoch :: "observation_record \<Rightarrow> int" where
  "record_epoch input = num_int (ro_sourceEpoch input)"

definition record_revision :: "observation_record \<Rightarrow> int" where
  "record_revision input = num_int (ro_materialReviewRevision input)"

definition record_generation :: "observation_record \<Rightarrow> int" where
  "record_generation input = num_int (ro_readGeneration input)"

fun record_target :: "read_source \<Rightarrow> publication_target option" where
  "record_target From_snapshot = None"
| "record_target (From_target t) =
     Some \<lparr>target_replyId = ti_replyId t, target_cycle = num_int (ti_publicationCycle t),
           target_attempt = num_int (ti_attemptNumber t)\<rparr>"

definition record_identity :: "observation_record \<Rightarrow> observation_identity" where
  "record_identity input =
     \<lparr>oi_organizationId = ro_organizationId input, oi_propertyId = ro_propertyId input,
      oi_reviewId = ro_reviewId input, oi_sourceEpoch = record_epoch input,
      oi_materialReviewRevision = record_revision input, oi_source = source_of (ro_source input),
      oi_observedText = ro_observedText input, oi_providerUpdatedAt = ro_providerUpdatedAt input,
      oi_publicationTarget = record_target (ro_source input)\<rparr>"

section \<open>Results\<close>

record observation_result =
  res_observationRevision :: int
  res_change :: observation_change
  res_resolution :: observation_resolution
  res_matchedReplyId :: "string option"
  res_matchedPublicationCycle :: "int option"
  duplicate :: bool

definition resultFromRow :: "observation_row \<Rightarrow> bool \<Rightarrow> observation_result" where
  "resultFromRow row dup =
     \<lparr>res_observationRevision = ob_observationRevision row, res_change = ob_change row,
      res_resolution = ob_resolution row, res_matchedReplyId = ob_matchedReplyId row,
      res_matchedPublicationCycle = ob_matchedPublicationCycle row, duplicate = dup\<rparr>"

fun resolveSupersededReplyRead :: "read_source \<Rightarrow> int \<Rightarrow> (review_error, observation_result) result" where
  "resolveSupersededReplyRead (From_target t) revision =
     err (reviewError ''invalid_transition''
            ''Google reply observation was superseded by a newer provider read'' [])"
| "resolveSupersededReplyRead From_snapshot revision =
     ok \<lparr>res_observationRevision = revision, res_change = Unchanged, res_resolution = R_unchanged,
         res_matchedReplyId = None, res_matchedPublicationCycle = None, duplicate = True\<rparr>"

section \<open>Locks and reads\<close>

definition lockObservationSubject ::
  "reply_db \<Rightarrow> observation_record \<Rightarrow> (review_error, review_scope_row) result" where
  "lockObservationSubject db input =
     (case find (\<lambda>v. rv_id v = ro_reviewId input \<and> rv_organizationId v = ro_organizationId input
                   \<and> rv_propertyId v = ro_propertyId input) (reviews db) of
        None \<Rightarrow> err (reviewError ''review_not_found'' ''Review not found'' [])
      | Some v \<Rightarrow> ok v)"

definition findReplayedObservation ::
  "reply_db \<Rightarrow> observation_record \<Rightarrow> string \<Rightarrow> (review_error, observation_row option) result" where
  "findReplayedObservation db input inputDigest =
     (case find (\<lambda>o'. ob_organizationId o' = ro_organizationId input
                    \<and> ob_reviewId o' = ro_reviewId input
                    \<and> ob_observationKey o' = ro_observationKey input) (observations db) of
        None \<Rightarrow> ok None
      | Some replayed \<Rightarrow>
          if ob_propertyId replayed \<noteq> ro_propertyId input \<or> ob_inputDigest replayed \<noteq> inputDigest
          then err (reviewError ''invalid_transition''
                 ''Observation idempotency key was reused for different provider evidence'' [])
          else ok (Some replayed))"

text \<open>The head of the review with the observation it names.\<close>

definition selectCurrentHead ::
  "reply_db \<Rightarrow> observation_record \<Rightarrow> (observation_head \<times> observation_row) option" where
  "selectCurrentHead db input =
     (case observation_heads db (ro_reviewId input) of
        None \<Rightarrow> None
      | Some h \<Rightarrow>
          if oh_organizationId h \<noteq> ro_organizationId input then None
          else map_option (\<lambda>o'. (h, o')) (head_observation db h))"

text \<open>The newest attempt of a list: the largest attempt number.\<close>

fun newest_attempt :: "publication_attempt list \<Rightarrow> publication_attempt option" where
  "newest_attempt [] = None"
| "newest_attempt (a # as) =
     (case newest_attempt as of
        None \<Rightarrow> Some a
      | Some b \<Rightarrow> if at_attemptNumber a < at_attemptNumber b then Some b else Some a)"

definition readAttributableAttempt ::
  "reply_db \<Rightarrow> observation_record \<Rightarrow> reply option \<Rightarrow> publication_target option
     \<Rightarrow> publication_attempt option" where
  "readAttributableAttempt db input internal target =
     (case internal of
        None \<Rightarrow> None
      | Some row \<Rightarrow>
          (case target of
             Some t \<Rightarrow>
               find (\<lambda>a. at_organizationId a = ro_organizationId input
                      \<and> at_propertyId a = ro_propertyId input \<and> at_reviewId a = ro_reviewId input
                      \<and> at_replyId a = target_replyId t
                      \<and> at_publicationCycle a = target_cycle t
                      \<and> at_attemptNumber a = target_attempt t) (attempts db)
           | None \<Rightarrow>
               newest_attempt (filter (\<lambda>a. at_organizationId a = ro_organizationId input
                      \<and> at_propertyId a = ro_propertyId input \<and> at_reviewId a = ro_reviewId input
                      \<and> at_replyId a = reply_id row
                      \<and> at_publicationCycle a = publicationCycle row) (attempts db))))"

definition readZeroAttemptAuthorization ::
  "reply_db \<Rightarrow> observation_record \<Rightarrow> reply option \<Rightarrow> int option" where
  "readZeroAttemptAuthorization db input internal =
     (case internal of
        None \<Rightarrow> None
      | Some row \<Rightarrow>
          if status row \<noteq> S_approved \<or> publicationState row \<noteq> Some P_authorized
             \<or> publicationAttempts row \<noteq> 0 then None
          else map_option au_publicationCycle
                 (find (\<lambda>u. au_organizationId u = ro_organizationId input
                    \<and> au_propertyId u = ro_propertyId input \<and> au_reviewId u = ro_reviewId input
                    \<and> au_replyId u = reply_id row
                    \<and> au_publicationCycle u = publicationCycle row) (authorizations db)))"

record publication_evidence =
  ev_internal :: "reply option"
  ev_attempt :: "publication_attempt option"
  ev_zeroAttempt :: "int option"
  ev_target :: "publication_target option"

definition loadPublicationEvidence ::
  "reply_db \<Rightarrow> observation_record \<Rightarrow> (review_error, publication_evidence) result" where
  "loadPublicationEvidence db input =
     (let internal = replies db (ro_organizationId input, ro_reviewId input, Internal);
          target = record_target (ro_source input) in
      if (case target of
            None \<Rightarrow> False
          | Some t \<Rightarrow>
              (case internal of
                 None \<Rightarrow> True
               | Some row \<Rightarrow> reply_id row \<noteq> target_replyId t
                   \<or> publicationCycle row \<noteq> target_cycle t
                   \<or> publicationAttempts row \<noteq> target_attempt t))
      then err (reviewError ''invalid_transition''
             ''Targeted Google reply observation no longer matches its publication attempt'' [])
      else ok \<lparr>ev_internal = internal,
               ev_attempt = readAttributableAttempt db input internal target,
               ev_zeroAttempt = readZeroAttemptAuthorization db input internal,
               ev_target = target\<rparr>)"

section \<open>The candidate\<close>

text \<open>Confirmed attempts of earlier cycles, the newest cycle and attempt first.\<close>

fun newest_confirmed :: "publication_attempt list \<Rightarrow> publication_attempt option" where
  "newest_confirmed [] = None"
| "newest_confirmed (a # as) =
     (case newest_confirmed as of
        None \<Rightarrow> Some a
      | Some b \<Rightarrow>
          if at_publicationCycle a < at_publicationCycle b
             \<or> at_publicationCycle a = at_publicationCycle b \<and> at_attemptNumber a < at_attemptNumber b
          then Some b else Some a)"

definition readEarlierConfirmedDigest :: "reply_db \<Rightarrow> publication_attempt \<Rightarrow> string option" where
  "readEarlierConfirmedDigest db attempt =
     (if \<not> isOpenAttemptOutcome (at_outcome attempt) then None
      else map_option at_expectedReplyDigest
             (newest_confirmed (filter (\<lambda>a. at_organizationId a = at_organizationId attempt
                 \<and> at_replyId a = at_replyId attempt
                 \<and> at_publicationCycle a < at_publicationCycle attempt
                 \<and> at_outcome a = O_confirmed) (attempts db))))"

definition readPublicationCandidate ::
  "reply_db \<Rightarrow> reply option \<Rightarrow> publication_attempt option \<Rightarrow> publication_candidate option" where
  "readPublicationCandidate db internal attempt =
     (case (internal, attempt) of
        (Some row, Some a) \<Rightarrow>
          Some \<lparr>cand_replyId = reply_id row, cand_publicationCycle = at_publicationCycle a,
             cand_attemptNumber = at_attemptNumber a, cand_sourceEpoch = at_sourceEpoch a,
             cand_materialReviewRevision = at_materialReviewRevision a,
             expectedReplyDigest = at_expectedReplyDigest a, expectedReplyText = Some (reply_text row),
             earlierConfirmedDigest = readEarlierConfirmedDigest db a, outcome = at_outcome a\<rparr>
      | _ \<Rightarrow> None)"

section \<open>What the read decides\<close>

definition supersedesCurrentAttempt ::
  "observation_resolution \<Rightarrow> publication_candidate option \<Rightarrow> observation_record \<Rightarrow> bool" where
  "supersedesCurrentAttempt res c input =
     (res = External_current_live
      \<and> (case c of
           None \<Rightarrow> False
         | Some c \<Rightarrow> cand_sourceEpoch c = record_epoch input
             \<and> cand_materialReviewRevision c = record_revision input
             \<and> outcome c \<in> {O_sending, O_provider_outcome_pending, O_ambiguous}))"

definition settlesLegacyUnattributedAttempt :: "publication_evidence \<Rightarrow> bool" where
  "settlesLegacyUnattributedAttempt ev =
     (ev_target ev \<noteq> None \<and> ev_attempt ev = None
      \<and> (case ev_internal ev of
           None \<Rightarrow> False
         | Some row \<Rightarrow> publicationState row
             \<in> {Some P_sending, Some P_pending_observation, Some P_ambiguous}))"

definition isRestatingResolution :: "observation_decision \<Rightarrow> bool" where
  "isRestatingResolution d =
     (resolution d = R_unchanged \<or> resolution d = Diverged \<and> change d = Unchanged)"

definition restatesCurrentHead ::
  "observation_record \<Rightarrow> observation_decision \<Rightarrow> (observation_head \<times> observation_row) option \<Rightarrow> bool
     \<Rightarrow> publication_evidence \<Rightarrow> bool" where
  "restatesCurrentHead input d head supersedes ev =
     (case head of
        None \<Rightarrow> False
      | Some (h, o') \<Rightarrow>
          if source_of (ro_source input) \<noteq> Provider_snapshot then False
          else if \<not> isRestatingResolution d then False
          else if supersedes \<or> settlesLegacyUnattributedAttempt ev then False
          else oh_state h = dec_state d \<and> ob_normalizedDigest o' = dec_normalizedDigest d
               \<and> oh_sourceEpoch h = record_epoch input
               \<and> oh_materialReviewRevision h = record_revision input)"

text \<open>The content clock of the head's row, moved to this read's expiry, and only forward.\<close>

definition renewHeadContentClock ::
  "observation_record \<Rightarrow> reply_db \<Rightarrow> observation_row option \<times> reply_db" where
  "renewHeadContentClock input db =
     (case selectCurrentHead db input of
        None \<Rightarrow> (None, db)
      | Some (h, current) \<Rightarrow>
          if ob_organizationId current = ro_organizationId input \<and> ob_state current = Live
             \<and> ob_contentState current = ''active''
             \<and> num_lt (get_time (ob_contentExpiresAt current)) (get_time (ro_contentExpiresAt input))
          then
            (let renewed = current\<lparr>ob_contentExpiresAt := ro_contentExpiresAt input,
                                   ob_updatedAt := ro_observedAt input\<rparr>
             in (Some renewed,
                 db\<lparr>observations := map (\<lambda>o'. if ob_id o' = ob_id current then renewed else o')
                                       (observations db)\<rparr>))
          else (Some current, db))"

section \<open>Writes\<close>

text \<open>The unique keys of an observation: its identifier, its revision, and its idempotency key.\<close>

definition insertObservation :: "observation_row \<Rightarrow> reply_db \<Rightarrow> (review_error, reply_db) result" where
  "insertObservation row db =
     (if \<exists>o' \<in> set (observations db). ob_id o' = ob_id row
         \<or> (ob_organizationId o' = ob_organizationId row \<and> ob_propertyId o' = ob_propertyId row
            \<and> ob_reviewId o' = ob_reviewId row
            \<and> ob_observationRevision o' = ob_observationRevision row)
         \<or> (ob_organizationId o' = ob_organizationId row \<and> ob_reviewId o' = ob_reviewId row
            \<and> ob_observationKey o' = ob_observationKey row)
      then err unique_violation
      else ok (db\<lparr>observations := observations db @ [row]\<rparr>))"

definition observation_of ::
  "string \<Rightarrow> observation_record \<Rightarrow> string \<Rightarrow> observation_decision \<Rightarrow> int \<Rightarrow> observation_row" where
  "observation_of newId input inputDigest d revision =
     \<lparr>ob_id = newId, ob_organizationId = ro_organizationId input,
      ob_propertyId = ro_propertyId input, ob_reviewId = ro_reviewId input,
      ob_observationRevision = revision, ob_observationKey = ro_observationKey input,
      ob_inputDigest = inputDigest, ob_sourceEpoch = record_epoch input,
      ob_materialReviewRevision = record_revision input,
      ob_readGeneration = record_generation input, ob_state = dec_state d, ob_change = change d,
      ob_resolution = resolution d, ob_source = source_of (ro_source input),
      ob_provenance = provenance d, ob_normalizedText = dec_normalizedText d,
      ob_normalizedDigest = dec_normalizedDigest d, ob_matchedReplyId = matchedReplyId d,
      ob_matchedPublicationCycle = matchedPublicationCycle d,
      ob_matchedAttemptNumber = matchedAttemptNumber d,
      ob_providerUpdatedAt = ro_providerUpdatedAt input, ob_observedAt = ro_observedAt input,
      ob_contentExpiresAt = ro_contentExpiresAt input, ob_contentState = ''active'',
      ob_createdAt = ro_observedAt input, ob_updatedAt = ro_observedAt input\<rparr>"

text \<open>An existing head keeps its organization, its property and its creation time.\<close>

definition upsertHead :: "observation_record \<Rightarrow> observation_row \<Rightarrow> reply_db \<Rightarrow> reply_db" where
  "upsertHead input row db =
     (let new = \<lparr>oh_reviewId = ro_reviewId input, oh_organizationId = ro_organizationId input,
                 oh_propertyId = ro_propertyId input, oh_observationId = ob_id row,
                 oh_observationRevision = ob_observationRevision row,
                 oh_sourceEpoch = record_epoch input,
                 oh_materialReviewRevision = record_revision input, oh_state = ob_state row,
                 oh_provenance = ob_provenance row, oh_createdAt = ro_observedAt input,
                 oh_updatedAt = ro_observedAt input\<rparr>
      in db\<lparr>observation_heads := (observation_heads db)(ro_reviewId input := Some
          (case observation_heads db (ro_reviewId input) of
             None \<Rightarrow> new
           | Some old \<Rightarrow> new\<lparr>oh_organizationId := oh_organizationId old,
                             oh_propertyId := oh_propertyId old,
                             oh_createdAt := oh_createdAt old\<rparr>))\<rparr>)"

definition persistObservationAndHead ::
  "string \<Rightarrow> observation_record \<Rightarrow> string \<Rightarrow> observation_decision \<Rightarrow> int \<Rightarrow> observation_row tx" where
  "persistObservationAndHead newId input inputDigest d revision db =
     (let row = observation_of newId input inputDigest d revision in
      case insertObservation row db of
        Inl e \<Rightarrow> err e
      | Inr db' \<Rightarrow> ok (row, upsertHead input row db'))"

section \<open>Settling the publication\<close>

definition UNCERTAIN_PUBLICATION_STATES :: "publication_state list" where
  "UNCERTAIN_PUBLICATION_STATES = [P_sending, P_pending_observation, P_ambiguous]"

definition CLAIMABLE_PUBLICATION_STATUSES :: "reply_status list" where
  "CLAIMABLE_PUBLICATION_STATUSES = [S_approved, S_publish_failed]"

definition cancelledReplySet :: "date \<Rightarrow> reply \<Rightarrow> reply" where
  "cancelledReplySet observedAt row =
     row\<lparr>status := S_draft, publicationState := Some P_cancelled,
         publicationLastErrorClass := None, reconcileDueAt := None, updatedAt := observedAt\<rparr>"

definition providerTruthCancellationFact :: "observation_record \<Rightarrow> reply \<Rightarrow> domain_fact" where
  "providerTruthCancellationFact input internal =
     F_cancelled \<lparr>lf_replyId = reply_id internal, lf_reviewId = ro_reviewId input,
        lf_organizationId = ro_organizationId input, lf_propertyId = ro_propertyId input,
        lf_userId = replyAuthor internal\<rparr> Provider_truth"

definition same_attempt :: "publication_attempt \<Rightarrow> publication_attempt \<Rightarrow> bool" where
  "same_attempt a b = (at_replyId a = at_replyId b
     \<and> at_publicationCycle a = at_publicationCycle b \<and> at_attemptNumber a = at_attemptNumber b)"

definition changed_while :: "string \<Rightarrow> review_error" where
  "changed_while m = reviewError ''invalid_transition'' m []"

text \<open>An update of the internal reply that must hit its row.\<close>

definition update_internal ::
  "observation_record \<Rightarrow> reply \<Rightarrow> (reply \<Rightarrow> bool) \<Rightarrow> (reply \<Rightarrow> reply) \<Rightarrow> string
     \<Rightarrow> reply_db \<Rightarrow> (review_error, reply_db) result" where
  "update_internal input internal cond f m db =
     (case updateReplyWhere internal
             (\<lambda>row. reply_organizationId row = ro_organizationId input \<and> cond row) f db of
        (None, _) \<Rightarrow> err (changed_while m)
      | (Some row, db') \<Rightarrow> ok db')"

definition supersedeExternalCurrentAttempt ::
  "observation_record \<Rightarrow> reply \<Rightarrow> publication_attempt \<Rightarrow> domain_fact tx" where
  "supersedeExternalCurrentAttempt input internal attempt db =
     (case update_internal input internal
             (\<lambda>row. publicationCycle row = at_publicationCycle attempt
                \<and> publicationAttempts row = at_attemptNumber attempt
                \<and> status row \<in> set CLAIMABLE_PUBLICATION_STATUSES
                \<and> (publicationState row \<in> Some ` set UNCERTAIN_PUBLICATION_STATES
                   \<or> publicationState row = Some P_terminal
                     \<and> publicationLastErrorClass row = Some Ambiguous))
             (cancelledReplySet (ro_observedAt input))
             ''Reply changed while recording an external current Google reply'' db of
        Inl e \<Rightarrow> err e
      | Inr db' \<Rightarrow>
          if \<exists>a \<in> set (attempts db'). same_attempt a attempt
               \<and> at_outcome a \<in> {O_sending, O_provider_outcome_pending, O_ambiguous}
          then ok (providerTruthCancellationFact input internal,
             db'\<lparr>attempts := map (\<lambda>a. if same_attempt a attempt
                   \<and> at_outcome a \<in> {O_sending, O_provider_outcome_pending, O_ambiguous}
                 then supersede (ro_observedAt input) a else a) (attempts db')\<rparr>)
          else err (changed_while
                 ''Publication attempt changed while recording external provider truth''))"

definition cancelZeroAttemptAuthorization ::
  "observation_record \<Rightarrow> reply \<Rightarrow> int \<Rightarrow> domain_fact tx" where
  "cancelZeroAttemptAuthorization input internal cycle db =
     (case update_internal input internal
             (\<lambda>row. publicationCycle row = cycle \<and> publicationAttempts row = 0
                \<and> stateRevision row = stateRevision internal
                \<and> status row = S_approved \<and> publicationState row = Some P_authorized)
             (cancelledReplySet (ro_observedAt input))
             ''Reply changed while superseding its zero-attempt authorization'' db of
        Inl e \<Rightarrow> err e
      | Inr db' \<Rightarrow> ok (providerTruthCancellationFact input internal, db'))"

definition settleLegacyUnattributedAttempt ::
  "observation_record \<Rightarrow> reply \<Rightarrow> publication_target \<Rightarrow> domain_fact tx" where
  "settleLegacyUnattributedAttempt input internal target db =
     (case update_internal input internal
             (\<lambda>row. publicationCycle row = target_cycle target
                \<and> publicationAttempts row = target_attempt target
                \<and> status row \<in> set CLAIMABLE_PUBLICATION_STATUSES
                \<and> publicationState row \<in> Some ` set UNCERTAIN_PUBLICATION_STATES)
             (cancelledReplySet (ro_observedAt input))
             ''Legacy publication changed while recording provider truth'' db of
        Inl e \<Rightarrow> err e
      | Inr db' \<Rightarrow> ok (providerTruthCancellationFact input internal, db'))"

text \<open>Each of the three rules that applies replaces the fact of the one before.\<close>

definition settle_rule :: "bool \<Rightarrow> domain_fact tx \<Rightarrow> domain_fact option tx \<Rightarrow> domain_fact option tx" where
  "settle_rule applies rule before db =
     (case before db of
        Inl e \<Rightarrow> err e
      | Inr (fo, db') \<Rightarrow>
          if applies then (case rule db' of Inl e \<Rightarrow> err e | Inr (f, db'') \<Rightarrow> ok (Some f, db''))
          else ok (fo, db'))"

definition settleSupersededPublication ::
  "observation_record \<Rightarrow> publication_evidence \<Rightarrow> bool \<Rightarrow> domain_fact option tx" where
  "settleSupersededPublication input ev supersedes =
     settle_rule (settlesLegacyUnattributedAttempt ev)
       (settleLegacyUnattributedAttempt input (the (ev_internal ev)) (the (ev_target ev)))
       (settle_rule (ev_zeroAttempt ev \<noteq> None \<and> ev_internal ev \<noteq> None)
          (cancelZeroAttemptAuthorization input (the (ev_internal ev)) (the (ev_zeroAttempt ev)))
          (settle_rule (supersedes \<and> ev_internal ev \<noteq> None \<and> ev_attempt ev \<noteq> None)
             (supersedeExternalCurrentAttempt input (the (ev_internal ev)) (the (ev_attempt ev)))
             (\<lambda>db. ok (None, db))))"

text \<open>The only path that may publish a local reply.\<close>

definition confirmReplyOnGoogle ::
  "observation_record \<Rightarrow> reply \<Rightarrow> publication_attempt \<Rightarrow> int \<Rightarrow> domain_fact tx" where
  "confirmReplyOnGoogle input internal attempt revision db =
     (case update_internal input internal
             (\<lambda>row. publicationCycle row = at_publicationCycle attempt
                \<and> status row \<in> set CLAIMABLE_PUBLICATION_STATUSES
                \<and> publicationState row
                    \<in> Some ` set (UNCERTAIN_PUBLICATION_STATES @ [P_terminal]))
             (\<lambda>row. row\<lparr>status := S_published, publicationState := Some P_published,
                publishedAt := Some (ro_observedAt input), reconcileDueAt := None,
                updatedAt := ro_observedAt input\<rparr>)
             ''Reply changed while confirming the Google observation'' db of
        Inl e \<Rightarrow> err e
      | Inr db' \<Rightarrow>
          ok (F_published \<lparr>lf_replyId = reply_id internal, lf_reviewId = ro_reviewId input,
                 lf_organizationId = ro_organizationId input,
                 lf_propertyId = ro_propertyId input, lf_userId = None\<rparr>,
              db'\<lparr>attempts := map (\<lambda>a. if same_attempt a attempt
                 then a\<lparr>at_outcome := O_confirmed,
                        at_confirmedObservationRevision := Some revision,
                        at_updatedAt := ro_observedAt input\<rparr> else a) (attempts db')\<rparr>))"

section \<open>Recording an observation\<close>

definition observed_fact_of ::
  "observation_record \<Rightarrow> observation_decision \<Rightarrow> int \<Rightarrow> domain_fact" where
  "observed_fact_of input d revision =
     F_observed \<lparr>of_reviewId = ro_reviewId input, of_propertyId = ro_propertyId input,
       of_organizationId = ro_organizationId input, of_observationRevision = revision,
       of_sourceEpoch = record_epoch input, of_materialReviewRevision = record_revision input,
       of_change = change d, of_resolution = resolution d, of_provenance = provenance d,
       of_matchedReplyId = matchedReplyId d,
       of_matchedPublicationCycle = matchedPublicationCycle d\<rparr>"

definition remove_mirror :: "observation_record \<Rightarrow> reply_db \<Rightarrow> reply_db" where
  "remove_mirror input db =
     db\<lparr>replies := (replies db)((ro_organizationId input, ro_reviewId input, Google_sync) := None)\<rparr>"

text \<open>The facts are inserted last, in this order.\<close>

definition record_facts :: "domain_fact list \<Rightarrow> reply_db \<Rightarrow> reply_db" where
  "record_facts fs db = fold insertOutboxRow fs db"

text \<open>The writing half of \<open>record\<close>: new evidence that says something new.\<close>

definition record_new ::
  "string \<Rightarrow> observation_record \<Rightarrow> string \<Rightarrow> publication_evidence \<Rightarrow> observation_decision \<Rightarrow> bool \<Rightarrow> int
     \<Rightarrow> observation_result tx" where
  "record_new newId input inputDigest ev d supersedes revision db =
     (case persistObservationAndHead newId input inputDigest d revision db of
        Inl e \<Rightarrow> err e
      | Inr (row, db1) \<Rightarrow>
          (case settleSupersededPublication input ev supersedes (remove_mirror input db1) of
             Inl e \<Rightarrow> err e
           | Inr (cancellation, db2) \<Rightarrow>
               (case (if resolution d = Confirmed_on_google \<and> ev_internal ev \<noteq> None
                         \<and> ev_attempt ev \<noteq> None
                      then (case confirmReplyOnGoogle input (the (ev_internal ev))
                                   (the (ev_attempt ev)) revision db2 of
                              Inl e \<Rightarrow> err e | Inr (f, db3) \<Rightarrow> ok ([f], db3))
                      else ok ([], db2)) of
                  Inl e \<Rightarrow> err e
                | Inr (published, db3) \<Rightarrow>
                    ok (resultFromRow row False,
                        record_facts
                          ((case cancellation of None \<Rightarrow> [] | Some f \<Rightarrow> [f]) @ published
                           @ (if resolution d \<noteq> R_unchanged
                              then [observed_fact_of input d revision] else []))
                          db3))))"

definition decision_input ::
  "observation_record \<Rightarrow> (observation_head \<times> observation_row) option \<Rightarrow> publication_candidate option
     \<Rightarrow> observation_input" where
  "decision_input input head c =
     \<lparr>scope_sourceEpoch = record_epoch input, scope_materialReviewRevision = record_revision input,
      observedText = ro_observedText input,
      previous = (case head of
          None \<Rightarrow> None
        | Some (h, o') \<Rightarrow> Some \<lparr>prev_state = oh_state h, prev_normalizedDigest = ob_normalizedDigest o',
             prev_sourceEpoch = oh_sourceEpoch h,
             prev_materialReviewRevision = oh_materialReviewRevision h\<rparr>),
      candidate = c\<rparr>"

definition head_revision_of :: "(observation_head \<times> observation_row) option \<Rightarrow> int" where
  "head_revision_of head = (case head of None \<Rightarrow> 0 | Some (h, o') \<Rightarrow> oh_observationRevision h)"

text \<open>
  The part of \<open>record\<close> below the fences, with the head, the evidence and the decision already read.
\<close>

definition record_decided ::
  "string \<Rightarrow> observation_record \<Rightarrow> string \<Rightarrow> (observation_head \<times> observation_row) option
     \<Rightarrow> publication_evidence \<Rightarrow> publication_candidate option \<Rightarrow> observation_decision
     \<Rightarrow> observation_result tx" where
  "record_decided newId input inputDigest head ev c d db =
     (if resolution d = Earlier_publication_live then
        ok (\<lparr>res_observationRevision = head_revision_of head, res_change = change d,
             res_resolution = resolution d, res_matchedReplyId = None,
             res_matchedPublicationCycle = None, duplicate = True\<rparr>,
            snd (renewHeadContentClock input db))
      else
        let supersedes = supersedesCurrentAttempt (resolution d) c input in
        case (if restatesCurrentHead input d head supersedes ev
              then renewHeadContentClock input db else (None, db)) of
          (Some current, db') \<Rightarrow> ok (resultFromRow current True, db')
        | (None, db') \<Rightarrow>
            let revision = head_revision_of head + 1 in
            if \<not> is_safe_integer (nint revision) then
              err (reviewError ''invalid_transition'' ''Observation revision exhausted'' [])
            else record_new newId input inputDigest ev d supersedes revision db')"

definition recordObservation ::
  "normalizer \<Rightarrow> string \<Rightarrow> observation_record \<Rightarrow> observation_result tx" where
  "recordObservation nfc newId input db =
     (case assertObservationFence input of
        Inl e \<Rightarrow> err e
      | Inr _ \<Rightarrow>
        (case googleReplyObservationInputDigest nfc (record_identity input) of
           None \<Rightarrow> err (reviewError ''range_error'' ''Invalid time value'' [])
         | Some inputDigest \<Rightarrow>
          (case lockObservationSubject db input of
             Inl e \<Rightarrow> err e
           | Inr review \<Rightarrow>
            (case findReplayedObservation db input inputDigest of
               Inl e \<Rightarrow> err e
             | Inr (Some replayed) \<Rightarrow> ok (resultFromRow replayed True, db)
             | Inr None \<Rightarrow>
                 if rv_sourceEpoch review \<noteq> record_epoch input
                    \<or> rv_materialReviewRevision review \<noteq> record_revision input
                 then err (reviewError ''invalid_transition''
                        ''Google reply observation is stale for the current Review source'' [])
                 else
                   let head = selectCurrentHead db input in
                   if (case head of
                         None \<Rightarrow> False
                       | Some (h, o') \<Rightarrow> record_generation input \<le> ob_readGeneration o')
                   then (case resolveSupersededReplyRead (ro_source input) (head_revision_of head) of
                           Inl e \<Rightarrow> err e | Inr r \<Rightarrow> ok (r, db))
                   else
                     (case loadPublicationEvidence db input of
                        Inl e \<Rightarrow> err e
                      | Inr ev \<Rightarrow>
                          let c = readPublicationCandidate db (ev_internal ev) (ev_attempt ev);
                              d = decideGoogleReplyObservation nfc (decision_input input head c)
                          in record_decided newId input inputDigest head ev c d db)))))"

end
