(* ===== verification/ReplyMachine.thy ===== *)
theory ReplyMachine
  imports ObservationStore
begin

text \<open>
  The reply command store as a machine: every command the application issues, each with an
  arbitrary (possibly stale) snapshot of an internal reply, in any order. The updates of submit,
  reject and approve are those of the use cases
  (src/contexts/review/application/use-cases/reply-operations.ts). The invariant \<open>store_inv\<close> relates
  a reply's status, publication state and text to its authorization and attempt rows; the machine
  is an interpretation of \<open>guarded_machine\<close>, so the invariant holds after every run.
\<close>

section \<open>Commands\<close>

datatype store_command =
    Create reply
  | Save reply js_string date
  | Delete reply
  | Submit reply string domain_fact date
  | Reject reply string "js_string option" domain_fact date
  | Approve reply string publication_intent lifecycle_fact date
  | Retry reply publication_intent date
  | Edit reply js_string publication_intent lifecycle_fact date
  | Claim reply attempt_start date
  | Accepted reply "string option" date date
  | Defer_observation reply date
  | Fail_terminal reply failure_class "domain_fact option" date
  | Fail_ambiguous reply "domain_fact option" date "date option"
  | Requeue reply date
  | Defer_send reply date date
  | Reschedule reply date date
  | Settle reply "domain_fact option" date
  | Cancel "(reply \<times> domain_fact \<times> date) list"
  | Observe observation_record string
  | Mirror "reply option" string string "domain_fact option" date
  | Elsewhere reply_db "string list"

fun snapshots :: "store_command \<Rightarrow> reply list" where
  "snapshots (Create r) = [r]"
| "snapshots (Save r t d) = [r]"
| "snapshots (Delete r) = [r]"
| "snapshots (Submit r u f d) = [r]"
| "snapshots (Reject r u t f d) = [r]"
| "snapshots (Approve r u i l d) = [r]"
| "snapshots (Retry r i d) = [r]"
| "snapshots (Edit r t i l d) = [r]"
| "snapshots (Claim r a d) = [r]"
| "snapshots (Accepted r c d e) = [r]"
| "snapshots (Defer_observation r d) = [r]"
| "snapshots (Fail_terminal r c f d) = [r]"
| "snapshots (Fail_ambiguous r f d e) = [r]"
| "snapshots (Requeue r d) = [r]"
| "snapshots (Defer_send r d e) = [r]"
| "snapshots (Reschedule r d e) = [r]"
| "snapshots (Settle r f d) = [r]"
| "snapshots (Cancel cs) = map fst cs"
| "snapshots (Observe i n) = []"
| "snapshots (Mirror m p q f d) = []"
| "snapshots (Elsewhere e ids) = []"

definition void :: "('e, 'a \<times> reply_db) result \<Rightarrow> ('e, reply_db) result" where
  "void r = (case r of Inl e \<Rightarrow> Inl e | Inr x \<Rightarrow> Inr (snd x))"

text \<open>
  A transaction of another component: it leaves the replies, their authorizations and their attempts
  alone, may erase the text of observations (the content lifecycle), and may change everything else
  these commands read.
\<close>

definition erase_content :: "observation_row \<Rightarrow> observation_row" where
  "erase_content o' = o'\<lparr>ob_contentState := ''source_expired'', ob_normalizedText := None,
     ob_normalizedDigest := None\<rparr>"

definition elsewhere :: "reply_db \<Rightarrow> string list \<Rightarrow> reply_db \<Rightarrow> reply_db" where
  "elsewhere e erased db =
     e\<lparr>replies := replies db, authorizations := authorizations db, attempts := attempts db,
       observations := map (\<lambda>o'. if ob_id o' \<in> set erased then erase_content o' else o')
                           (observations db),
       observation_heads := observation_heads db\<rparr>"

fun exec :: "normalizer \<Rightarrow> actor_authority \<Rightarrow> store_command \<Rightarrow> reply_db \<Rightarrow> (review_error, reply_db) result"
where
  "exec nfc actor (Create r) db = void (createDraft r db)"
| "exec nfc actor (Save r t d) db = void (saveDraft r (no_update\<lparr>u_text := Some t\<rparr>) d db)"
| "exec nfc actor (Delete r) db = void (deleteDraft r db)"
| "exec nfc actor (Submit r u f d) db =
     void (submitReply r (no_update\<lparr>u_status := Some S_pending_approval,
             u_submittedAt := Some (Some d), u_submittedBy := Some (Some u)\<rparr>) f d db)"
| "exec nfc actor (Reject r u t f d) db =
     void (rejectReply r (no_update\<lparr>u_status := Some S_rejected,
             u_rejectedBy := Some (Some u), u_rejectionReason := Some t\<rparr>) f d db)"
| "exec nfc actor (Approve r u i l d) db =
     void (markPublicationAuthorized nfc actor r (no_update\<lparr>u_status := Some S_approved,
             u_approvedBy := Some (Some u), u_approvedAt := Some (Some d)\<rparr>) i (Some l) d db)"
| "exec nfc actor (Retry r i d) db =
     void (markPublicationAuthorized nfc actor r (no_update\<lparr>u_status := Some S_approved\<rparr>) i None d db)"
| "exec nfc actor (Edit r t i l d) db = void (editPublishedReply nfc actor r t i l d db)"
| "exec nfc actor (Claim r a d) db = void (markPublicationSending nfc actor r a d db)"
| "exec nfc actor (Accepted r c d e) db = void (markProviderOutcomePendingObservation r c d e db)"
| "exec nfc actor (Defer_observation r d) db = void (deferPendingPublicationObservation r d db)"
| "exec nfc actor (Fail_terminal r c f d) db = void (markPublicationTerminal r c f d db)"
| "exec nfc actor (Fail_ambiguous r f d e) db = void (markPublicationAmbiguous r f d e db)"
| "exec nfc actor (Requeue r d) db = void (markPublicationRetryQueued r d db)"
| "exec nfc actor (Defer_send r d e) db = void (deferUncertainSend r d e db)"
| "exec nfc actor (Reschedule r d e) db = void (rescheduleAmbiguousReconciliation r d e db)"
| "exec nfc actor (Settle r f d) db = void (settleNeverDispatchedAttempt r f d db)"
| "exec nfc actor (Cancel cs) db = void (cancelPublications cs db)"
| "exec nfc actor (Observe i n) db = void (recordObservation nfc n i db)"
| "exec nfc actor (Mirror m v org f d) db = void (mirrorSyncedReply m v org f d db)"
| "exec nfc actor (Elsewhere e ids) db = ok (elsewhere e ids db)"

text \<open>
  The foreign keys to the reviews, whose identifiers are unique: an attempt and an observation
  belong to a review of the same organization and property.
\<close>

definition references_ok :: "review_scope_row list \<Rightarrow> publication_attempt list \<Rightarrow> observation_row list \<Rightarrow> bool"
where
  "references_ok vs as os =
     (distinct (map rv_id vs)
      \<and> (\<forall>a \<in> set as. \<exists>v \<in> set vs. rv_id v = at_reviewId a
            \<and> rv_organizationId v = at_organizationId a \<and> rv_propertyId v = at_propertyId a)
      \<and> (\<forall>o' \<in> set os. \<exists>v \<in> set vs. rv_id v = ob_reviewId o'
            \<and> rv_organizationId v = ob_organizationId o' \<and> rv_propertyId v = ob_propertyId o'))"

text \<open>
  The commands the application can issue: snapshots are internal replies, a mirror is a Google
  mirror, a new draft starts with no attempt and has a primary key no row has, and another component
  keeps the foreign keys.
\<close>

definition admissible :: "store_command \<Rightarrow> reply_db \<Rightarrow> bool" where
  "admissible c db =
     ((\<forall>r \<in> set (snapshots c). reply_source r = Internal)
      \<and> (case c of
           Create r \<Rightarrow> publicationAttempts r = 0 \<and> (\<forall>k row. replies db k = Some row \<longrightarrow> reply_id row \<noteq> reply_id r)
         | Mirror (Some r) v org f d \<Rightarrow> reply_source r = Google_sync
             \<and> (\<forall>k row. k \<noteq> reply_key r \<and> replies db k = Some row \<longrightarrow> reply_id row \<noteq> reply_id r)
         | Elsewhere e ids \<Rightarrow> references_ok (reviews e) (attempts db) (observations db)
         | _ \<Rightarrow> True))"

definition store_step ::
  "normalizer \<Rightarrow> actor_authority \<Rightarrow> reply_db \<Rightarrow> store_command \<Rightarrow> reply_db option" where
  "store_step nfc actor db c =
     (if admissible c db then (case exec nfc actor c db of Inl e \<Rightarrow> Some db | Inr db' \<Rightarrow> Some db')
      else None)"

section \<open>The invariant\<close>

fun pair_ok :: "reply_status \<Rightarrow> publication_state option \<Rightarrow> bool" where
  "pair_ok S_draft p = (p \<in> {None, Some P_cancelled})"
| "pair_ok S_pending_approval p = (p \<in> {None, Some P_cancelled})"
| "pair_ok S_rejected p = (p \<in> {None, Some P_cancelled})"
| "pair_ok S_approved p = (p \<in> {Some P_authorized, Some P_sending, Some P_pending_observation})"
| "pair_ok S_publish_failed p = (p \<in> {Some P_terminal, Some P_ambiguous})"
| "pair_ok S_published p = (p \<in> {Some P_published, None})"

definition own_attempts :: "reply_db \<Rightarrow> string \<Rightarrow> publication_attempt list" where
  "own_attempts db i = filter (\<lambda>a. at_replyId a = i) (attempts db)"

definition own_authorizations :: "reply_db \<Rightarrow> string \<Rightarrow> publication_authorization list" where
  "own_authorizations db i = filter (\<lambda>a. au_replyId a = i) (authorizations db)"

definition attempt_key :: "publication_attempt \<Rightarrow> int \<times> int" where
  "attempt_key a = (at_publicationCycle a, at_attemptNumber a)"

definition current_key :: "reply \<Rightarrow> int \<times> int" where
  "current_key row = (publicationCycle row, publicationAttempts row)"

text \<open>
  A cycle whose outcome is open has started an attempt, and the current attempt of every started
  cycle is a row.
\<close>

definition attempted :: "publication_attempt list \<Rightarrow> reply \<Rightarrow> bool" where
  "attempted as row =
     ((publicationState row \<in> {Some P_sending, Some P_pending_observation, Some P_ambiguous} \<longrightarrow>
        1 \<le> publicationAttempts row)
      \<and> (1 \<le> publicationAttempts row \<longrightarrow> current_key row \<in> attempt_key ` set as))"

text \<open>What the current attempt's outcome is, by the state of its reply.\<close>

fun expected_outcome :: "publication_state option \<Rightarrow> failure_class option \<Rightarrow> attempt_outcome option" where
  "expected_outcome (Some P_authorized) c = Some O_retryable_failure"
| "expected_outcome (Some P_sending) c = Some O_sending"
| "expected_outcome (Some P_pending_observation) c = Some O_provider_outcome_pending"
| "expected_outcome (Some P_published) c = Some O_confirmed"
| "expected_outcome (Some P_terminal) c = map_option outcome_of_class c"
| "expected_outcome (Some P_ambiguous) c = Some O_ambiguous"
| "expected_outcome (Some P_cancelled) c = Some O_superseded"
| "expected_outcome p c = None"

lemma expected_confirmed:
  "expected_outcome p c = Some O_confirmed \<Longrightarrow> p = Some P_published"
  by (cases "(p, c)" rule: expected_outcome.cases)
     (auto elim: outcome_of_class.elims)

abbreviation row_outcome :: "reply \<Rightarrow> attempt_outcome option" where
  "row_outcome row \<equiv> expected_outcome (publicationState row) (publicationLastErrorClass row)"

text \<open>The text of a reply that is being published, or failed to be, is the authorized one.\<close>

definition authorized_text :: "normalizer \<Rightarrow> publication_authorization list \<Rightarrow> reply \<Rightarrow> bool" where
  "authorized_text nfc us row =
     (status row \<in> {S_approved, S_publish_failed} \<longrightarrow>
        (\<exists>u \<in> set us. au_publicationCycle u = publicationCycle row
           \<and> au_expectedReplyDigest u = googleReplyTextDigest nfc (reply_text row)))"

text \<open>
  An attempt belongs to the row, is not ahead of it, and carries the digest of an authorization of
  its cycle. It names the observation that confirmed it exactly when it is confirmed. The current
  attempt has the outcome the row's state says; every other one is closed.
\<close>

definition attempt_ok :: "publication_authorization list \<Rightarrow> reply \<Rightarrow> publication_attempt \<Rightarrow> bool" where
  "attempt_ok us row a =
     (at_organizationId a = reply_organizationId row
      \<and> at_reviewId a = reply_reviewId row
      \<and> 1 \<le> at_attemptNumber a
      \<and> at_publicationCycle a \<le> publicationCycle row
      \<and> (at_publicationCycle a = publicationCycle row \<longrightarrow> at_attemptNumber a \<le> publicationAttempts row)
      \<and> (at_outcome a = O_confirmed \<longleftrightarrow> at_confirmedObservationRevision a \<noteq> None)
      \<and> (if attempt_key a = current_key row then row_outcome row = Some (at_outcome a)
         else \<not> isOpenAttemptOutcome (at_outcome a))
      \<and> (\<exists>u \<in> set us. au_publicationCycle u = at_publicationCycle a
           \<and> au_expectedReplyDigest u = at_expectedReplyDigest a))"

text \<open>The row, its own attempts and its own authorizations agree.\<close>

definition row_ok ::
  "normalizer \<Rightarrow> publication_attempt list \<Rightarrow> publication_authorization list \<Rightarrow> reply \<Rightarrow> bool" where
  "row_ok nfc as us row =
     (pair_ok (status row) (publicationState row)
      \<and> 0 \<le> publicationAttempts row
      \<and> attempted as row
      \<and> authorized_text nfc us row
      \<and> (\<forall>a \<in> set as. attempt_ok us row a)
      \<and> (\<forall>u \<in> set us. 1 \<le> au_publicationCycle u \<and> au_publicationCycle u \<le> publicationCycle row)
      \<and> distinct (map au_publicationCycle us)
      \<and> distinct (map attempt_key as))"

definition rows_inv :: "normalizer \<Rightarrow> reply_db \<Rightarrow> bool" where
  "rows_inv nfc db =
     ((\<forall>k row. replies db k = Some row \<longrightarrow> reply_key row = k)
      \<and> (\<forall>k row l other. replies db k = Some row \<and> replies db l = Some other
            \<and> reply_id row = reply_id other \<longrightarrow> k = l)
      \<and> (\<forall>k row. replies db k = Some row \<and> reply_source row = Internal \<longrightarrow>
            row_ok nfc (own_attempts db (reply_id row)) (own_authorizations db (reply_id row)) row)
      \<and> (\<forall>a \<in> set (attempts db). \<exists>k row. replies db k = Some row
            \<and> reply_source row = Internal \<and> reply_id row = at_replyId a)
      \<and> (\<forall>u \<in> set (authorizations db). \<exists>k row. replies db k = Some row
            \<and> reply_source row = Internal \<and> reply_id row = au_replyId u))"

text \<open>
  A head is stored under its review and names an observation of the same review, revision and
  source. The observations of a review have the revisions 1 to the head's, and none comes from a
  newer provider read than the head's.
\<close>

definition head_names :: "observation_head \<Rightarrow> observation_row \<Rightarrow> bool" where
  "head_names h o' =
     (ob_id o' = oh_observationId h \<and> ob_organizationId o' = oh_organizationId h
      \<and> ob_propertyId o' = oh_propertyId h \<and> ob_reviewId o' = oh_reviewId h
      \<and> ob_observationRevision o' = oh_observationRevision h
      \<and> ob_sourceEpoch o' = oh_sourceEpoch h
      \<and> ob_materialReviewRevision o' = oh_materialReviewRevision h
      \<and> ob_state o' = oh_state h \<and> ob_provenance o' = oh_provenance h)"

definition heads_inv :: "observation_row list \<Rightarrow> (string \<Rightarrow> observation_head option) \<Rightarrow> bool" where
  "heads_inv os hs =
     (distinct (map ob_id os)
      \<and> (\<forall>o' \<in> set os. hs (ob_reviewId o') \<noteq> None)
      \<and> (\<forall>v h. hs v = Some h \<longrightarrow> oh_reviewId h = v \<and> (\<exists>o' \<in> set os. head_names h o')
            \<and> ob_observationRevision ` {o' \<in> set os. ob_reviewId o' = v}
                = {1..oh_observationRevision h}
            \<and> (\<forall>o' \<in> set os. \<forall>p \<in> set os. ob_reviewId o' = v \<longrightarrow> head_names h p \<longrightarrow>
                  ob_readGeneration o' \<le> ob_readGeneration p)))"

definition store_inv :: "normalizer \<Rightarrow> reply_db \<Rightarrow> bool" where
  "store_inv nfc db =
     (rows_inv nfc db \<and> references_ok (reviews db) (attempts db) (observations db)
      \<and> heads_inv (observations db) (observation_heads db))"

section \<open>One row at a time\<close>

text \<open>What the commands on replies leave alone.\<close>

definition same_rest :: "reply_db \<Rightarrow> reply_db \<Rightarrow> bool" where
  "same_rest db db' = (reviews db' = reviews db \<and> observations db' = observations db
     \<and> observation_heads db' = observation_heads db)"

lemma rows_inv_parts:
  assumes "rows_inv nfc db"
  shows "\<And>k row. replies db k = Some row \<Longrightarrow> reply_key row = k"
    and "\<And>k row l other. replies db k = Some row \<Longrightarrow> replies db l = Some other \<Longrightarrow>
      reply_id row = reply_id other \<Longrightarrow> k = l"
    and "\<And>k row. replies db k = Some row \<Longrightarrow> reply_source row = Internal \<Longrightarrow>
      row_ok nfc (own_attempts db (reply_id row)) (own_authorizations db (reply_id row)) row"
    and "\<And>a. a \<in> set (attempts db) \<Longrightarrow> \<exists>k row. replies db k = Some row
      \<and> reply_source row = Internal \<and> reply_id row = at_replyId a"
    and "\<And>u. u \<in> set (authorizations db) \<Longrightarrow> \<exists>k row. replies db k = Some row
      \<and> reply_source row = Internal \<and> reply_id row = au_replyId u"
  using assms unfolding rows_inv_def by blast+

text \<open>
  A transaction that rewrites one internal row and touches only its own attempts and
  authorizations keeps the invariant when the row, with the lists it leaves, does.
\<close>

lemma rows_inv_write:
  assumes inv: "rows_inv nfc db" and row: "replies db k = Some row" "reply_source row = Internal"
    and row': "reply_key row' = k" "reply_id row' = reply_id row"
    and reps: "replies db' = (replies db)(k := Some row')"
    and ats: "\<And>i. i \<noteq> reply_id row \<Longrightarrow> own_attempts db' i = own_attempts db i"
    and aus: "\<And>i. i \<noteq> reply_id row \<Longrightarrow> own_authorizations db' i = own_authorizations db i"
    and ok': "row_ok nfc (own_attempts db' (reply_id row)) (own_authorizations db' (reply_id row)) row'"
  shows "rows_inv nfc db'"
proof -
  note parts = rows_inv_parts[OF inv]
  have src: "reply_source row' = Internal"
    using parts(1)[OF row(1)] row(2) row'(1) by (auto simp: reply_key_def)
  have keep: "\<exists>l r. replies db' l = Some r \<and> reply_source r = Internal \<and> reply_id r = i"
    if ex: "i \<noteq> reply_id row \<Longrightarrow>
      \<exists>l r. replies db l = Some r \<and> reply_source r = Internal \<and> reply_id r = i" for i
  proof (cases "i = reply_id row")
    case True
    with reps row' src show ?thesis by (metis fun_upd_same)
  next
    case False
    then obtain l r where r: "replies db l = Some r" "reply_source r = Internal" "reply_id r = i"
      using ex by blast
    with False row have "l \<noteq> k" by auto
    with r reps show ?thesis by (metis fun_upd_other)
  qed
  have at_rows: "\<exists>l r. replies db' l = Some r \<and> reply_source r = Internal \<and> reply_id r = at_replyId a"
    if a: "a \<in> set (attempts db')" for a
  proof (rule keep)
    assume other: "at_replyId a \<noteq> reply_id row"
    then have "a \<in> set (own_attempts db (at_replyId a))"
      using a unfolding ats[OF other, symmetric] by (simp add: own_attempts_def)
    then show "\<exists>l r. replies db l = Some r \<and> reply_source r = Internal \<and> reply_id r = at_replyId a"
      using parts(4) by (simp add: own_attempts_def)
  qed
  have au_rows: "\<exists>l r. replies db' l = Some r \<and> reply_source r = Internal \<and> reply_id r = au_replyId u"
    if u: "u \<in> set (authorizations db')" for u
  proof (rule keep)
    assume other: "au_replyId u \<noteq> reply_id row"
    then have "u \<in> set (own_authorizations db (au_replyId u))"
      using u unfolding aus[OF other, symmetric] by (simp add: own_authorizations_def)
    then show "\<exists>l r. replies db l = Some r \<and> reply_source r = Internal \<and> reply_id r = au_replyId u"
      using parts(5) by (simp add: own_authorizations_def)
  qed
  have other: "reply_id r \<noteq> reply_id row" if "replies db l = Some r" "l \<noteq> k" for l r
    using parts(2) that row by blast
  show ?thesis
    unfolding rows_inv_def
  proof (intro conjI allI impI ballI)
    fix l r assume "replies db' l = Some r"
    then show "reply_key r = l"
      using reps row' parts(1) by (cases "l = k") auto
  next
    fix l r m s assume "replies db' l = Some r \<and> replies db' m = Some s \<and> reply_id r = reply_id s"
    then show "l = m"
      using reps row'(2) parts(2) other by (metis fun_upd_apply option.inject)
  next
    fix l r assume r: "replies db' l = Some r \<and> reply_source r = Internal"
    show "row_ok nfc (own_attempts db' (reply_id r)) (own_authorizations db' (reply_id r)) r"
    proof (cases "l = k")
      case True
      with r reps row'(2) ok' show ?thesis by simp
    next
      case False
      with r reps have "replies db l = Some r" by simp
      with False r parts(3) ats aus other show ?thesis by simp
    qed
  qed (use at_rows au_rows in blast)+
qed

section \<open>Rows and their attempts\<close>

text \<open>
  An update of an attempt keeps what identifies it; \<open>marks f oc\<close> when it gives an attempt no
  observation confirmed the outcome \<open>oc\<close>.
\<close>

definition settles :: "(publication_attempt \<Rightarrow> publication_attempt) \<Rightarrow> bool" where
  "settles f = (\<forall>a. at_replyId (f a) = at_replyId a \<and> at_organizationId (f a) = at_organizationId a
     \<and> at_propertyId (f a) = at_propertyId a
     \<and> at_reviewId (f a) = at_reviewId a \<and> at_publicationCycle (f a) = at_publicationCycle a
     \<and> at_attemptNumber (f a) = at_attemptNumber a
     \<and> at_expectedReplyDigest (f a) = at_expectedReplyDigest a)"

definition marks :: "(publication_attempt \<Rightarrow> publication_attempt) \<Rightarrow> attempt_outcome \<Rightarrow> bool" where
  "marks f oc = (settles f \<and> (\<forall>a. at_outcome (f a) = oc
     \<and> (at_confirmedObservationRevision a = None \<longrightarrow>
          (at_confirmedObservationRevision (f a) = None) = (oc \<noteq> O_confirmed))))"

lemma marks_settles: "marks f oc \<Longrightarrow> settles f"
  by (simp add: marks_def)

definition map_where :: "('a \<Rightarrow> bool) \<Rightarrow> ('a \<Rightarrow> 'a) \<Rightarrow> 'a list \<Rightarrow> 'a list" where
  "map_where P f xs = map (\<lambda>a. if P a then f a else a) xs"

lemma map_where_False [simp]: "map_where (\<lambda>_. False) f xs = xs"
  by (simp add: map_where_def)

lemma filter_map_where:
  assumes "\<And>a. Q (f a) = Q a"
  shows "filter Q (map_where P f xs) = map_where P f (filter Q xs)"
  using assms by (induction xs) (auto simp: map_where_def)

lemma map_where_idem:
  assumes "\<And>a. a \<in> set xs \<Longrightarrow> \<not> P a"
  shows "map_where P f xs = xs"
  using assms by (simp add: map_where_def cong: map_cong)

text \<open>What a write that keeps the cycle and the attempt count owes the row.\<close>

fun uncertain :: "publication_state option \<Rightarrow> bool" where
  "uncertain p = (p \<in> {Some P_sending, Some P_pending_observation, Some P_ambiguous})"

definition touch :: "reply \<Rightarrow> reply \<Rightarrow> bool" where
  "touch row row' = (reply_id row' = reply_id row \<and> reply_organizationId row' = reply_organizationId row
     \<and> reply_reviewId row' = reply_reviewId row \<and> reply_source row' = reply_source row
     \<and> publicationCycle row' = publicationCycle row
     \<and> publicationAttempts row' = publicationAttempts row)"

definition good :: "reply \<Rightarrow> reply \<Rightarrow> bool" where
  "good row row' = (pair_ok (status row') (publicationState row')
     \<and> (uncertain (publicationState row') \<longrightarrow> uncertain (publicationState row))
     \<and> (status row' \<in> {S_approved, S_publish_failed} \<longrightarrow>
          status row \<in> {S_approved, S_publish_failed} \<and> reply_text row' = reply_text row))"

lemma touch_key: "touch row row' \<Longrightarrow> current_key row' = current_key row"
  by (simp add: touch_def current_key_def)

lemma row_ok_touch:
  assumes ok: "row_ok nfc as us row" and t: "touch row row'" and g: "good row row'"
    and keys: "map attempt_key as' = map attempt_key as"
    and ats: "\<And>a. a \<in> set as' \<Longrightarrow> attempt_ok us row' a"
  shows "row_ok nfc as' us row'"
proof -
  have img: "attempt_key ` set as' = attempt_key ` set as"
    by (metis keys list.set_map)
  have att: "attempted as row" and tx: "authorized_text nfc us row"
    and n: "publicationAttempts row' = publicationAttempts row" "publicationCycle row' = publicationCycle row"
    using ok t by (simp_all add: row_ok_def touch_def)
  have g': "uncertain (publicationState row') \<longrightarrow> uncertain (publicationState row)"
    "status row' \<in> {S_approved, S_publish_failed} \<longrightarrow>
       status row \<in> {S_approved, S_publish_failed} \<and> reply_text row' = reply_text row"
    using g unfolding good_def by blast+
  have "attempted as' row'"
    using att g'(1) unfolding attempted_def img touch_key[OF t] n uncertain.simps by blast
  moreover have "authorized_text nfc us row'"
    unfolding authorized_text_def n
  proof
    assume "status row' \<in> {S_approved, S_publish_failed}"
    with g'(2) have "status row \<in> {S_approved, S_publish_failed}" "reply_text row' = reply_text row"
      by blast+
    with tx show "\<exists>u \<in> set us. au_publicationCycle u = publicationCycle row
        \<and> au_expectedReplyDigest u = googleReplyTextDigest nfc (reply_text row')"
      unfolding authorized_text_def by auto
  qed
  ultimately show ?thesis
    using ok t g keys ats by (simp add: row_ok_def touch_def good_def)
qed

lemma row_ok_plain:
  assumes ok: "row_ok nfc as us row" and t: "touch row row'" and g: "good row row'"
    and out: "publicationAttempts row < 1 \<or> row_outcome row' = row_outcome row"
  shows "row_ok nfc as us row'"
proof (rule row_ok_touch[OF ok t g refl])
  fix a assume "a \<in> set as"
  with ok have a: "attempt_ok us row a" by (simp add: row_ok_def)
  from out show "attempt_ok us row' a"
  proof
    assume "publicationAttempts row < 1"
    with a have "attempt_key a \<noteq> current_key row"
      by (auto simp: attempt_ok_def attempt_key_def current_key_def)
    with a t touch_key[OF t] show ?thesis by (simp add: attempt_ok_def touch_def)
  next
    assume "row_outcome row' = row_outcome row"
    with a t touch_key[OF t] show ?thesis by (simp add: attempt_ok_def touch_def)
  qed
qed

text \<open>A write together with the outcome of the current attempt.\<close>

lemma row_ok_settled:
  assumes ok: "row_ok nfc as us row" and t: "touch row row'" and g: "good row row'"
    and f: "marks f oc" and open': "publicationState row \<noteq> Some P_published"
    and out: "row_outcome row' = Some oc"
    and P: "\<And>a. a \<in> set as \<Longrightarrow> P a = (attempt_key a = current_key row)"
  shows "row_ok nfc (map_where P f as) us row'"
proof (rule row_ok_touch[OF ok t g])
  show "map attempt_key (map_where P f as) = map attempt_key as"
    using f by (auto simp: map_where_def attempt_key_def marks_def settles_def)
next
  fix b assume "b \<in> set (map_where P f as)"
  then obtain a where a: "a \<in> set as" "b = (if P a then f a else a)"
    by (auto simp: map_where_def)
  have ao: "attempt_ok us row a" using ok a(1) by (simp add: row_ok_def)
  show "attempt_ok us row' b"
  proof (cases "P a")
    case False
    with a ao P[OF a(1)] t touch_key[OF t] show ?thesis
      by (simp add: attempt_ok_def touch_def)
  next
    case True
    have k: "attempt_key a = current_key row" using True P[OF a(1)] by simp
    have "at_outcome a \<noteq> O_confirmed"
    proof
      assume "at_outcome a = O_confirmed"
      with ao k have "row_outcome row = Some O_confirmed" by (simp add: attempt_ok_def)
      then show False
        using open' expected_confirmed by blast
    qed
    then have "at_confirmedObservationRevision a = None"
      using ao by (simp add: attempt_ok_def)
    moreover have "b = f a" using True a(2) by simp
    moreover have "attempt_key (f a) = current_key row'"
      using k f touch_key[OF t] by (simp add: attempt_key_def marks_def settles_def)
    ultimately show ?thesis
      using ao k f t out by (simp add: attempt_ok_def marks_def settles_def touch_def)
  qed
qed

text \<open>A write that opens a new cycle under a new authorization.\<close>

lemma row_ok_new_cycle:
  assumes ok: "row_ok nfc as us row"
    and closed: "\<And>oc. row_outcome row = Some oc \<Longrightarrow> \<not> isOpenAttemptOutcome oc"
    and new: "publicationCycle row' = publicationCycle row + 1" "publicationAttempts row' = 0"
      "publicationState row' = Some P_authorized" "status row' = S_approved"
      "reply_organizationId row' = reply_organizationId row" "reply_reviewId row' = reply_reviewId row"
    and u: "au_publicationCycle u = publicationCycle row'" "1 \<le> publicationCycle row'"
      "au_expectedReplyDigest u = googleReplyTextDigest nfc (reply_text row')"
  shows "row_ok nfc as (us @ [u]) row'"
proof -
  have "attempt_ok (us @ [u]) row' a" if "a \<in> set as" for a
  proof -
    have a: "attempt_ok us row a" using that ok by (simp add: row_ok_def)
    then have "attempt_key a \<noteq> current_key row'"
      using new(1) by (auto simp: attempt_ok_def attempt_key_def current_key_def)
    moreover have "\<not> isOpenAttemptOutcome (at_outcome a)"
      using a closed by (auto simp: attempt_ok_def split: if_splits)
    ultimately show ?thesis using a new by (auto simp: attempt_ok_def)
  qed
  moreover have "authorized_text nfc (us @ [u]) row'"
    using u by (simp add: authorized_text_def)
  moreover have "distinct (map au_publicationCycle (us @ [u]))"
    using ok u(1) new(1) by (fastforce simp: row_ok_def)
  ultimately show ?thesis
    using ok new u(1,2) by (auto simp: row_ok_def attempted_def)
qed

text \<open>The claim: one more attempt, under the cycle's authorization.\<close>

lemma row_ok_claim:
  assumes ok: "row_ok nfc as us row" and st: "publicationState row = Some P_authorized"
    and new: "publicationCycle row' = publicationCycle row"
      "publicationAttempts row' = publicationAttempts row + 1"
      "publicationState row' = Some P_sending" "status row' = S_approved" "status row = S_approved"
      "reply_text row' = reply_text row"
      "reply_organizationId row' = reply_organizationId row" "reply_reviewId row' = reply_reviewId row"
    and a: "attempt_key a = (publicationCycle row', publicationAttempts row')"
      "at_organizationId a = reply_organizationId row" "at_reviewId a = reply_reviewId row"
      "at_outcome a = O_sending" "at_confirmedObservationRevision a = None"
    and u: "u \<in> set us" "au_publicationCycle u = publicationCycle row"
      "au_expectedReplyDigest u = at_expectedReplyDigest a"
  shows "row_ok nfc (as @ [a]) us row'"
proof -
  have old: "attempt_ok us row b" if "b \<in> set as" for b
    using that ok by (simp add: row_ok_def)
  have key: "at_publicationCycle a = publicationCycle row" "at_attemptNumber a = publicationAttempts row + 1"
    using a(1) new(1,2) by (simp_all add: attempt_key_def)
  have fresh: "attempt_key b \<noteq> current_key row'" if "b \<in> set as" for b
    using old[OF that] new(1,2) by (auto simp: attempt_key_def attempt_ok_def current_key_def)
  have cur: "attempt_key a = current_key row'" using a(1) by (simp add: current_key_def)
  have "attempt_key a \<notin> attempt_key ` set as" using fresh cur by (metis image_iff)
  moreover have "distinct (map attempt_key as)"
    using ok by (simp add: row_ok_def)
  ultimately have dist: "distinct (map attempt_key (as @ [a]))"
    by simp
  have "attempt_ok us row' a"
    using a(2-5) u new(1,3) key cur ok by (auto simp: attempt_ok_def new(2,7,8) row_ok_def)
  moreover have "attempt_ok us row' b" if "b \<in> set as" for b
  proof -
    have "\<not> isOpenAttemptOutcome (at_outcome b)"
      using old[OF that] st
      by (auto simp: attempt_ok_def isOpenAttemptOutcome_def CONFIRMABLE_ATTEMPT_OUTCOMES_def split: if_splits)
    then show ?thesis
      using old[OF that] fresh[OF that] new(1,2,7,8) unfolding attempt_ok_def by auto
  qed
  moreover have "attempted (as @ [a]) row'"
    using ok new cur by (auto simp: row_ok_def attempted_def)
  moreover have "authorized_text nfc us row'"
    using ok new by (simp add: row_ok_def authorized_text_def)
  ultimately show ?thesis
    using ok new dist by (simp add: row_ok_def)
qed

section \<open>Writes keep the invariant\<close>

lemma store_inv_row:
  assumes "store_inv nfc db" "replies db k = Some row"
  shows "reply_key row = k" and "reply_source row = Internal \<Longrightarrow>
    row_ok nfc (own_attempts db (reply_id row)) (own_authorizations db (reply_id row)) row"
  using assms unfolding store_inv_def rows_inv_def by blast+

lemma store_inv_pair:
  assumes "store_inv nfc db" "replies db (reply_key r) = Some row" "reply_source r = Internal"
  shows "reply_source row = Internal" "pair_ok (status row) (publicationState row)"
proof -
  show i: "reply_source row = Internal"
    using store_inv_row(1)[OF assms(1,2)] assms(3) by (simp add: reply_key_def)
  show "pair_ok (status row) (publicationState row)"
    using store_inv_row(2)[OF assms(1,2) i] by (simp add: row_ok_def)
qed

lemma rows_inv_cong:
  assumes "replies db' = replies db" "attempts db' = attempts db"
    "authorizations db' = authorizations db"
  shows "rows_inv nfc db' = rows_inv nfc db"
  using assms by (simp add: rows_inv_def own_attempts_def own_authorizations_def)

lemma store_inv_cong:
  assumes "replies db' = replies db" "attempts db' = attempts db"
    "authorizations db' = authorizations db" "same_rest db db'"
  shows "store_inv nfc db' = store_inv nfc db"
  using rows_inv_cong[OF assms(1-3)] assms(2,4) by (simp add: store_inv_def same_rest_def)

text \<open>Attempts that are only updated keep their review.\<close>

lemma references_ok_map_where:
  assumes "references_ok vs as os" "settles f"
  shows "references_ok vs (map_where P f as) os"
  using assms by (auto simp: references_ok_def map_where_def settles_def)

lemma own_attempts_map_where:
  assumes "settles f"
  shows "filter (\<lambda>a. at_replyId a = i) (map_where P f as)
    = map_where P f (filter (\<lambda>a. at_replyId a = i) as)"
  using assms by (intro filter_map_where) (simp add: settles_def)

text \<open>A write of one internal row, with its own attempts updated where \<open>P\<close> holds.\<close>

lemma update_rows_inv:
  assumes inv: "rows_inv nfc db"
    and w: "replies db k = Some row" "reply_source row = Internal"
    and t: "touch row row'" and f: "settles f"
    and db': "replies db' = (replies db)(k := Some row')"
      "authorizations db' = authorizations db" "attempts db' = map_where P f (attempts db)"
    and own: "\<And>a. P a \<Longrightarrow> at_replyId a = reply_id row"
    and ok': "row_ok nfc (map_where P f (own_attempts db (reply_id row)))
      (own_authorizations db (reply_id row)) row'"
  shows "rows_inv nfc db'"
proof (rule rows_inv_write[OF inv w])
  show "reply_key row' = k"
    using t rows_inv_parts(1)[OF inv w(1)] by (simp add: touch_def reply_key_def)
  show "reply_id row' = reply_id row" using t by (simp add: touch_def)
  show "replies db' = (replies db)(k := Some row')" by (fact db'(1))
  show "own_attempts db' j = own_attempts db j" if "j \<noteq> reply_id row" for j
  proof -
    have "map_where P f (filter (\<lambda>a. at_replyId a = j) (attempts db))
        = filter (\<lambda>a. at_replyId a = j) (attempts db)"
      by (rule map_where_idem) (use own that in auto)
    then show ?thesis
      by (simp add: own_attempts_def db'(3) own_attempts_map_where[OF f])
  qed
  show "own_authorizations db' j = own_authorizations db j" for j
    by (simp add: own_authorizations_def db'(2))
  show "row_ok nfc (own_attempts db' (reply_id row)) (own_authorizations db' (reply_id row)) row'"
    using ok' by (simp add: own_attempts_def own_authorizations_def db' own_attempts_map_where[OF f])
qed

text \<open>The current attempt is settled with the row.\<close>

lemma settled_rows_inv:
  assumes inv: "rows_inv nfc db"
    and w: "replies db k = Some row" "reply_source row = Internal"
    and t: "touch row row'" and g: "good row row'" and f: "marks f oc"
    and open': "publicationState row \<noteq> Some P_published" and out: "row_outcome row' = Some oc"
    and db': "replies db' = (replies db)(k := Some row')"
      "authorizations db' = authorizations db" "attempts db' = map_where P f (attempts db)"
    and own: "\<And>a. P a \<Longrightarrow> at_replyId a = reply_id row"
    and P: "\<And>a. a \<in> set (own_attempts db (reply_id row)) \<Longrightarrow> P a = (attempt_key a = current_key row)"
  shows "rows_inv nfc db'"
  by (rule update_rows_inv[OF inv w t marks_settles[OF f] db' own])
     (auto intro: row_ok_settled[OF rows_inv_parts(3)[OF inv w] t g f open' out P])

lemma update_inv_plain:
  assumes inv: "store_inv nfc db" and src: "reply_source r = Internal"
    and w: "replies db (reply_key r) = Some row" and t: "touch row row'" and g: "good row row'"
    and db': "replies db' = (replies db)(reply_key r := Some row')"
      "authorizations db' = authorizations db" "attempts db' = attempts db" "same_rest db db'"
    and out: "publicationAttempts row < 1 \<or> row_outcome row' = row_outcome row"
  shows "store_inv nfc db'"
proof -
  have inv': "rows_inv nfc db" using inv by (simp add: store_inv_def)
  note i = store_inv_pair(1)[OF inv w src]
  have "rows_inv nfc db'"
    by (rule update_rows_inv[OF inv' w i t _ db'(1,2), where P = "\<lambda>_. False" and f = id])
       (use row_ok_plain[OF rows_inv_parts(3)[OF inv' w i] t g out] db'(3) in \<open>auto simp: settles_def\<close>)
  with inv db'(3,4) show ?thesis by (simp add: store_inv_def same_rest_def)
qed

lemma touch_trigger [simp]: "touch row (revision_trigger row' row'') = touch row row''"
  by (simp add: touch_def)

lemma good_trigger [simp]: "good row (revision_trigger row' row'') = good row row''"
  by (simp add: good_def)

lemma updateCurrentAttempt_effect:
  assumes "updateCurrentAttempt r f fo db = Inr db'"
  shows "db' = db\<lparr>attempts := map_where (current_attempt_where r fo) f (attempts db)\<rparr>"
    "\<exists>a \<in> set (attempts db). current_attempt_where r fo a"
  using assms by (simp_all add: updateCurrentAttempt_def map_where_def split: if_splits)

text \<open>Keys are unique, so an update that hit a current attempt hit the one there is.\<close>

lemma hit_is_current:
  assumes ok: "row_ok nfc (own_attempts db (reply_id row)) us row" and t: "touch row row'"
    and hit: "\<exists>a \<in> set (attempts db). current_attempt_where row' fo a"
    and a: "a \<in> set (own_attempts db (reply_id row))"
  shows "current_attempt_where row' fo a = (attempt_key a = current_key row)"
proof
  assume "current_attempt_where row' fo a"
  then show "attempt_key a = current_key row"
    using t by (simp add: current_attempt_where_def attempt_key_def current_key_def touch_def)
next
  assume key: "attempt_key a = current_key row"
  obtain b where b: "b \<in> set (attempts db)" "current_attempt_where row' fo b" using hit by blast
  then have "b \<in> set (own_attempts db (reply_id row))" "attempt_key b = current_key row"
    using t by (simp_all add: current_attempt_where_def own_attempts_def attempt_key_def
        current_key_def touch_def)
  moreover have "inj_on attempt_key (set (own_attempts db (reply_id row)))"
    using ok by (simp add: row_ok_def distinct_map)
  ultimately have "a = b" using a key by (metis inj_on_def)
  with b show "current_attempt_where row' fo a" by simp
qed

text \<open>The common shape of the publication writers: a guarded write, then the current attempt.\<close>

lemma cas_attempt_inv:
  assumes inv: "store_inv nfc db" and src: "reply_source r = Internal"
    and w: "replies db (reply_key r) = Some row"
    and t: "touch row row'" and g: "good row row'" and f: "marks f oc"
    and open': "publicationState row \<noteq> Some P_published" and out: "row_outcome row' = Some oc"
    and db1: "db1 = db\<lparr>replies := (replies db)(reply_key r := Some (revision_trigger row row'))\<rparr>"
    and a: "updateCurrentAttempt (revision_trigger row row') f fo db1 = Inr db2"
  shows "store_inv nfc db2"
proof -
  have inv': "rows_inv nfc db" using inv by (simp add: store_inv_def)
  note i = store_inv_pair(1)[OF inv w src]
  let ?row' = "revision_trigger row row'"
  note e = updateCurrentAttempt_effect[OF a]
  have t': "touch row ?row'" and g': "good row ?row'" using t g by simp_all
  have "rows_inv nfc db2"
  proof (rule settled_rows_inv[OF inv' w i t' g' f open'])
    show "row_outcome ?row' = Some oc" using out by simp
    show "attempts db2 = map_where (current_attempt_where ?row' fo) f (attempts db)"
      "replies db2 = (replies db)(reply_key r := Some ?row')" "authorizations db2 = authorizations db"
      using e(1) by (simp_all add: db1)
    show "at_replyId b = reply_id row" if "current_attempt_where ?row' fo b" for b
      using that t' by (simp add: current_attempt_where_def touch_def)
    show "current_attempt_where ?row' fo b = (attempt_key b = current_key row)"
      if "b \<in> set (own_attempts db (reply_id row))" for b
      by (rule hit_is_current[OF rows_inv_parts(3)[OF inv' w i] t' _ that]) (use e(2) db1 in simp)
  qed
  then show ?thesis
    using inv references_ok_map_where[OF _ marks_settles[OF f]] by (simp add: store_inv_def e(1) db1)
qed

lemma same_rest_simps [simp]: "same_rest db db" "same_rest db (db\<lparr>outbox := x\<rparr>)"
  "same_rest db (db\<lparr>replies := y\<rparr>)"
  by (simp_all add: same_rest_def)

lemma store_inv_outbox [simp]: "store_inv nfc (db\<lparr>outbox := x\<rparr>) = store_inv nfc db"
  by (rule store_inv_cong) simp_all

lemma store_inv_fact [simp]: "store_inv nfc (record_fact f db) = store_inv nfc db"
  "store_inv nfc (insertOutboxRow e db) = store_inv nfc db"
  by (cases f) (simp_all add: record_fact_def insertOutboxRow_def)

end
