(* ===== verification/ReplyInvariant.thy ===== *)
theory ReplyInvariant
  imports ReplyMachine
begin

text \<open>
  Every command of the reply command store keeps \<open>store_inv\<close>, whatever snapshot it is called with:
  the publication writers through \<open>publicationTransition\<close> and \<open>guardedPublicationUpdate\<close>, the
  authorizing commands through \<open>guardedReplyUpdate\<close> and the new authorization, the claim with its
  attempt row, the settlements of uncertain attempts, and the confirmation by an observation.
\<close>

section \<open>Publication writers\<close>

lemma publicationTransition_inv:
  assumes inv: "store_inv nfc db" and src: "reply_source r = Internal"
    and res: "publicationTransition r ev allowed sc ef now after db = Inr (x, db')"
    and shape: "\<And>target f row. sc target now = Inr f \<Longrightarrow> nextStateOrNull r ev = Some target \<Longrightarrow>
      publicationState row = publicationState r \<Longrightarrow> publicationState row \<in> Some ` set allowed \<Longrightarrow>
      pair_ok (status row) (publicationState row) \<Longrightarrow>
      touch row (f row) \<and> good row (f row) \<and> row_outcome (f row) = Some oc"
    and closed: "P_published \<notin> set allowed"
    and after: "\<And>saved db1 db2. after saved now db1 = Inr db2 \<Longrightarrow>
      (db2 = db1 \<and> publicationAttempts saved < 1)
      \<or> (\<exists>f. marks f oc \<and> updateCurrentAttempt saved f None db1 = Inr db2)"
  shows "store_inv nfc db'"
proof (cases "nextStateOrNull r ev")
  case None
  with res inv show ?thesis by (simp add: publicationTransition_def)
next
  case (Some target)
  then obtain f where f: "sc target now = Inr f"
    using res by (auto simp: publicationTransition_def split: sum.splits)
  obtain y db1 where gu: "guardedPublicationUpdate r (status r) allowed f db = (y, db1)"
    by fastforce
  then show ?thesis
  proof (cases rule: guardedPublicationUpdate_cases)
    case missed
    with res inv gu f Some show ?thesis by (simp add: publicationTransition_def)
  next
    case (wrote row s)
    have p: "pair_ok (status row) (publicationState row)"
      using store_inv_pair(2)[OF inv _ src] wrote(1) by blast
    have sh: "touch row (f row)" "good row (f row)" "row_outcome (f row) = Some oc"
      using shape[OF f Some _ _ p] wrote by auto
    obtain db2 where a: "after (revision_trigger row (f row)) now db1 = Inr db2"
      and db': "db' = record_fact ef db2"
      using res gu f Some wrote by (auto simp: publicationTransition_def split: sum.splits)
    have db1: "db1 = db\<lparr>replies := (replies db)(reply_key r := Some (revision_trigger row (f row)))\<rparr>"
      using wrote by simp
    from after[OF a] show ?thesis
    proof
      assume plain: "db2 = db1 \<and> publicationAttempts (revision_trigger row (f row)) < 1"
      then have "publicationAttempts row < 1" using sh(1) by (simp add: touch_def)
      then have "store_inv nfc db1"
        by (intro update_inv_plain[OF inv src wrote(1), of "revision_trigger row (f row)"])
           (use sh db1 in auto)
      with plain db' show ?thesis by simp
    next
      assume "\<exists>g. marks g oc \<and> updateCurrentAttempt (revision_trigger row (f row)) g None db1 = Inr db2"
      then obtain g where g: "marks g oc"
        "updateCurrentAttempt (revision_trigger row (f row)) g None db1 = Inr db2" by blast
      have "publicationState row \<noteq> Some P_published" using wrote closed by auto
      then have "store_inv nfc db2"
        by (rule cas_attempt_inv[OF inv src wrote(1) sh(1,2) g(1) _ sh(3) db1 g(2)])
      with db' show ?thesis by simp
    qed
  qed
qed

lemma marks_plain [simp]:
  "oc \<noteq> O_confirmed \<Longrightarrow> marks (\<lambda>a. a\<lparr>at_outcome := oc, at_updatedAt := t\<rparr>) oc"
  "marks (\<lambda>a. a\<lparr>at_outcome := O_provider_outcome_pending, at_providerCorrelationId := c,
     at_providerRespondedAt := d, at_updatedAt := t\<rparr>) O_provider_outcome_pending"
  "marks (supersede t) O_superseded"
  by (simp_all add: marks_def settles_def supersede_def)

lemma outcome_of_class_open [simp]: "outcome_of_class c \<noteq> O_confirmed"
  by (cases c) simp_all

lemma accepted_inv:
  assumes "store_inv nfc db" "reply_source r = Internal"
    and "markProviderOutcomePendingObservation r c d e db = Inr (x, db')"
  shows "store_inv nfc db'"
  using assms(3) unfolding markProviderOutcomePendingObservation_def
proof (rule publicationTransition_inv[OF assms(1,2), where oc = O_provider_outcome_pending], goal_cases)
  case (1 target f row)
  then show ?case
    by (cases "status row") (auto simp: nextStateOrNull_def touch_def good_def)
next
  case (3 saved db1 db2)
  then show ?case
    by (intro disjI2 exI conjI) auto
qed simp

lemma open_status:
  "pair_ok st (Some p) \<Longrightarrow> p \<notin> {P_published, P_cancelled} \<Longrightarrow> st \<in> {S_approved, S_publish_failed}"
  by (cases st) auto

lemma failure_targets:
  "nextStateOrNull r E_fail_terminal = Some t \<Longrightarrow> t = P_terminal"
  "nextStateOrNull r E_fail_ambiguous = Some t
     \<Longrightarrow> t = P_ambiguous \<and> publicationState r \<in> {Some P_sending, Some P_pending_observation}"
  unfolding nextStateOrNull_def
  by (cases "publicationState r"; simp; rename_tac s; case_tac s; simp)+

lemma good_failed:
  assumes "pair_ok (status row) (publicationState row)" "publicationState row = Some p"
    and "p \<notin> {P_published, P_cancelled}"
    and "status row' = S_publish_failed" "reply_text row' = reply_text row"
    and "publicationState row' = Some P_terminal
       \<or> publicationState row' = Some P_ambiguous \<and> p \<in> {P_sending, P_pending_observation}"
  shows "good row row'"
  using open_status[of "status row" p] assms by (auto simp: good_def)

lemma fail_terminal_inv:
  assumes "store_inv nfc db" "reply_source r = Internal"
    and "markPublicationTerminal r c ef d db = Inr (x, db')"
  shows "store_inv nfc db'"
  using assms(3) unfolding markPublicationTerminal_def
proof (rule publicationTransition_inv[OF assms(1,2), where oc = "outcome_of_class c"], goal_cases)
  case (1 target f row)
  have f: "f = (\<lambda>row. row\<lparr>status := S_publish_failed, publicationState := Some P_terminal,
      publicationLastErrorClass := Some c, reconcileDueAt := None, updatedAt := d\<rparr>)"
    using 1(1) failure_targets(1)[OF 1(2)] by simp
  obtain p where "publicationState row = Some p" "p \<notin> {P_published, P_cancelled}"
    using 1(4) by auto
  with 1(5) have "good row (f row)" by (rule good_failed) (simp_all add: f)
  then show ?case by (simp add: f touch_def)
next
  case (3 saved db1 db2)
  then show ?case
    by (cases "publicationAttempts saved < 1")
       (simp, intro disjI2 exI[of _ "\<lambda>a. a\<lparr>at_outcome := outcome_of_class c, at_updatedAt := d\<rparr>"], simp)
qed simp

lemma fail_ambiguous_inv:
  assumes "store_inv nfc db" "reply_source r = Internal"
    and "markPublicationAmbiguous r ef d due db = Inr (x, db')"
  shows "store_inv nfc db'"
  using assms(3) unfolding markPublicationAmbiguous_def
proof (rule publicationTransition_inv[OF assms(1,2), where oc = O_ambiguous], goal_cases)
  case (1 target f row)
  note t = failure_targets(2)[OF 1(2)]
  then obtain p where p: "publicationState row = Some p" "p \<in> {P_sending, P_pending_observation}"
    using 1(3) by auto
  obtain due' where f: "f = (\<lambda>row. row\<lparr>status := S_publish_failed, publicationState := Some P_ambiguous,
      publicationLastErrorClass := Some Ambiguous, reconcileDueAt := due', updatedAt := d\<rparr>)"
    using 1(1) t by (auto split: sum.splits)
  have "good row (f row)"
    by (rule good_failed[OF 1(5) p(1)]) (use p(2) in \<open>auto simp: f\<close>)
  then show ?case by (simp add: f touch_def)
next
  case (3 saved db1 db2)
  then show ?case
    by (intro disjI2 exI conjI) auto
qed simp

lemma defer_observation_inv:
  assumes inv: "store_inv nfc db" and src: "reply_source r = Internal"
    and res: "deferPendingPublicationObservation r d db = Inr (x, db')"
  shows "store_inv nfc db'"
proof (cases "publicationState r = Some P_pending_observation")
  case False
  with res inv show ?thesis by (simp add: deferPendingPublicationObservation_def)
next
  case True
  with res have "guardedPublicationUpdate r S_approved [P_pending_observation]
      (\<lambda>row. row\<lparr>reconcileDueAt := Some (due_after d PROVIDER_OBSERVATION_RECONCILE_DELAY_MS),
        updatedAt := d\<rparr>) db = (x, db')"
    by (simp add: deferPendingPublicationObservation_def)
  then show ?thesis
  proof (cases rule: guardedPublicationUpdate_cases)
    case missed
    with inv show ?thesis by simp
  next
    case (wrote row s)
    show ?thesis
      by (rule update_inv_plain[OF inv src wrote(1)])
         (use wrote in \<open>auto simp: touch_def good_def\<close>)
  qed
qed

lemma requeue_inv:
  assumes inv: "store_inv nfc db" and src: "reply_source r = Internal"
    and res: "markPublicationRetryQueued r d db = Inr (x, db')"
  shows "store_inv nfc db'"
proof (cases "nextStateOrNull r E_requeue")
  case None
  with res inv show ?thesis by (simp add: markPublicationRetryQueued_def)
next
  case (Some target)
  let ?f = "\<lambda>row. row\<lparr>publicationState := Some target,
      reconcileDueAt := Some (due_after d PUBLICATION_RECOVERY_RECONCILE_DELAY_MS), updatedAt := d\<rparr>"
  obtain y db1 where gu: "guardedPublicationUpdate r S_approved [P_sending] ?f db = (y, db1)"
    by fastforce
  then show ?thesis
  proof (cases rule: guardedPublicationUpdate_cases)
    case missed
    with res inv gu Some show ?thesis by (simp add: markPublicationRetryQueued_def)
  next
    case (wrote row s)
    have sh: "touch row (?f row)" "good row (?f row)" "row_outcome (?f row) = Some O_retryable_failure"
      using Some wrote by (auto simp: touch_def good_def nextStateOrNull_def)
    have db1: "db1 = db\<lparr>replies := (replies db)(reply_key r := Some (revision_trigger row (?f row)))\<rparr>"
      using wrote by simp
    have "updateCurrentAttempt (revision_trigger row (?f row))
        (\<lambda>a. a\<lparr>at_outcome := O_retryable_failure, at_updatedAt := d\<rparr>) None db1 = Inr db'"
      using res gu Some wrote(11) by (auto simp: markPublicationRetryQueued_def split: sum.splits)
    then show ?thesis
      by (rule cas_attempt_inv[OF inv src wrote(1) sh(1,2) _ _ sh(3) db1, rotated 2])
         (use wrote in auto)
  qed
qed

lemma reschedule_inv:
  assumes inv: "store_inv nfc db" and src: "reply_source r = Internal"
    and res: "reschedule allowed r due d db = Inr (x, db')"
  shows "store_inv nfc db'"
proof (cases "uncertainSnapshotFor r allowed")
  case None
  with res inv show ?thesis by (simp add: reschedule_def)
next
  case (Some s)
  with res have "updateReplyWhere r (uncertainAttemptWhere r s)
      (\<lambda>row. row\<lparr>reconcileDueAt := Some due, updatedAt := d\<rparr>) db = (x, db')"
    by (auto simp: reschedule_def casUncertainAttempt_def split: sum.splits)
  then show ?thesis
  proof (cases rule: updateReplyWhere_cases)
    case missed
    with inv show ?thesis by simp
  next
    case (wrote row)
    note p = store_inv_pair(2)[OF inv wrote(1) src]
    show ?thesis
      by (rule update_inv_plain[OF inv src wrote(1), of "revision_trigger row (row\<lparr>reconcileDueAt := Some due, updatedAt := d\<rparr>)"])
         (use wrote p in \<open>auto simp: touch_def good_def\<close>)
  qed
qed

lemma settle_inv:
  assumes inv: "store_inv nfc db" and src: "reply_source r = Internal"
    and res: "settleNeverDispatchedAttempt r ev d db = Inr (x, db')"
  shows "store_inv nfc db'"
proof (cases "uncertainSnapshotFor r NEVER_DISPATCHED_SETTLEABLE")
  case None
  with res inv show ?thesis by (simp add: settleNeverDispatchedAttempt_def)
next
  case (Some s)
  then have s: "us_status s \<in> {S_approved, S_publish_failed}"
    by (auto simp: uncertainSnapshotFor_def NEVER_DISPATCHED_SETTLEABLE_def split: if_splits)
  let ?f = "\<lambda>row. row\<lparr>status := S_publish_failed, publicationState := Some P_terminal,
      publicationLastErrorClass := Some Retryable, reconcileDueAt := None, updatedAt := d\<rparr>"
  obtain y db1 where gu: "updateReplyWhere r (uncertainAttemptWhere r s) ?f db = (y, db1)"
    by fastforce
  then show ?thesis
  proof (cases rule: updateReplyWhere_cases)
    case missed
    with res inv gu Some show ?thesis
      by (auto simp: settleNeverDispatchedAttempt_def casUncertainAttempt_def
          split: if_splits sum.splits option.splits)
  next
    case (wrote row)
    have sh: "touch row (?f row)" "good row (?f row)" "row_outcome (?f row) = Some O_retryable_failure"
      using wrote(3) s by (auto simp: touch_def good_def uncertainAttemptWhere_def)
    have np: "publicationState row \<noteq> Some P_published"
      using store_inv_pair(2)[OF inv wrote(1) src] wrote(3) s
      by (auto simp: uncertainAttemptWhere_def)
    have db1: "db1 = db\<lparr>replies := (replies db)(reply_key r := Some (revision_trigger row (?f row)))\<rparr>"
      using wrote by simp
    have "db' = db \<or> (\<exists>db2 f. updateCurrentAttempt (revision_trigger row (?f row))
        (\<lambda>a. a\<lparr>at_outcome := O_retryable_failure, at_updatedAt := d\<rparr>)
        (Some UNCERTAIN_ATTEMPT_OUTCOMES) db1 = Inr db2 \<and> db' = record_fact f db2)"
    proof (cases "db' = db")
      case False
      then obtain db2 where "updateCurrentAttempt (revision_trigger row (?f row))
          (\<lambda>a. a\<lparr>at_outcome := O_retryable_failure, at_updatedAt := d\<rparr>)
          (Some UNCERTAIN_ATTEMPT_OUTCOMES) db1 = Inr db2"
        and "db' = record_fact (if us_status s \<noteq> S_publish_failed then ev else None) db2"
        using res gu Some wrote(4)
        by (auto simp: settleNeverDispatchedAttempt_def casUncertainAttempt_def record_fact_def
            split: if_splits sum.splits option.splits)
      then show ?thesis by blast
    qed simp
    then show ?thesis
    proof
      assume "\<exists>db2 f. updateCurrentAttempt (revision_trigger row (?f row))
        (\<lambda>a. a\<lparr>at_outcome := O_retryable_failure, at_updatedAt := d\<rparr>)
        (Some UNCERTAIN_ATTEMPT_OUTCOMES) db1 = Inr db2 \<and> db' = record_fact f db2"
      then obtain db2 f where a: "updateCurrentAttempt (revision_trigger row (?f row))
        (\<lambda>a. a\<lparr>at_outcome := O_retryable_failure, at_updatedAt := d\<rparr>)
        (Some UNCERTAIN_ATTEMPT_OUTCOMES) db1 = Inr db2" and db': "db' = record_fact f db2"
        by blast
      have "store_inv nfc db2"
        by (rule cas_attempt_inv[OF inv src wrote(1) sh(1,2) _ np sh(3) db1 a]) simp
      with db' show ?thesis by simp
    qed (use inv in simp)
  qed
qed

lemma cancel_write_inv:
  assumes inv: "store_inv nfc db" and src: "reply_source r = Internal"
    and c: "cancelledPublication r = Some c"
    and closed: "P_published \<notin> set allowed"
    and gu: "guardedPublicationUpdate r st allowed (cancelled_set c t) db = (Some row', db1)"
    and s: "supersede_current row' t db1 = Inr db2"
  shows "store_inv nfc db2"
  using gu
proof (cases rule: guardedPublicationUpdate_cases)
  case (wrote row s)
  have sh: "touch row (cancelled_set c t row)" "good row (cancelled_set c t row)"
    "row_outcome (cancelled_set c t row) = Some O_superseded"
    using c by (auto simp: cancelledPublication_def cancelled_set_def apply_cancellation_def
        touch_def good_def Let_def split: if_splits)
  have row': "row' = revision_trigger row (cancelled_set c t row)" using wrote by simp
  have db1: "db1 = db\<lparr>replies := (replies db)(reply_key r := Some (revision_trigger row (cancelled_set c t row)))\<rparr>"
    using wrote by simp
  show ?thesis
  proof (cases "publicationAttempts row' > 0")
    case True
    have np: "publicationState row \<noteq> Some P_published" using wrote closed by auto
    have "updateCurrentAttempt (revision_trigger row (cancelled_set c t row)) (supersede t) None db1 = Inr db2"
      using True s row' by (simp add: supersede_current_def)
    then show ?thesis
      by (rule cas_attempt_inv[OF inv src wrote(1) sh(1,2) marks_plain(3) np sh(3) db1])
  next
    case False
    with row' sh(1) have "publicationAttempts row < 1" by (auto simp: touch_def)
    moreover have "db2 = db1" using False s by (simp add: supersede_current_def)
    ultimately show ?thesis
      by (intro update_inv_plain[OF inv src wrote(1), of "revision_trigger row (cancelled_set c t row)"])
         (use sh db1 in auto)
  qed
qed simp

section \<open>The claim and the cancellations\<close>

lemma purge_inv:
  assumes inv: "store_inv nfc db" and src: "reply_source r = Internal"
  shows "store_inv nfc (purgeAiDraftsForReview r t db)"
proof -
  let ?c = "\<lambda>row. aiGenerated row \<and> publicationState row = Some P_cancelled
      \<and> status row \<in> {S_draft, S_pending_approval, S_rejected}"
  let ?f = "\<lambda>row. row\<lparr>status := S_draft, publicationState := Some P_cancelled,
      publicationLastErrorClass := None, reconcileDueAt := None, rejectedBy := None,
      rejectionReason := None, reply_text := [], aiGenerated := False, updatedAt := t\<rparr>"
  obtain y db1 where u: "updateReplyWhere r ?c ?f db = (y, db1)" by fastforce
  then have db1: "purgeAiDraftsForReview r t db = db1"
    by (simp add: purgeAiDraftsForReview_def)
  from u have "store_inv nfc db1"
  proof (cases rule: updateReplyWhere_cases)
    case missed
    with inv show ?thesis by simp
  next
    case (wrote row)
    show ?thesis
      by (rule update_inv_plain[OF inv src wrote(1), of "revision_trigger row (?f row)"])
         (use wrote in \<open>auto simp: touch_def good_def\<close>)
  qed
  with db1 show ?thesis by simp
qed

lemma reply_key_of:
  assumes "store_inv nfc db" "replies db (reply_key r) = Some row"
  shows "reply_source row = reply_source r" "reply_organizationId row = reply_organizationId r"
    "reply_reviewId row = reply_reviewId r"
  using store_inv_row(1)[OF assms] by (simp_all add: reply_key_def)

lemma cancel_unclaimable_inv:
  assumes inv: "store_inv nfc db" and src: "reply_source r = Internal"
    and res: "cancelUnclaimablePublication r p t cause db = Inr (x, db')"
  shows "store_inv nfc db'"
proof (cases "cancelledPublication r")
  case None
  with res inv show ?thesis by (simp add: cancelUnclaimablePublication_def)
next
  case (Some c)
  obtain y db1 where gu:
    "guardedPublicationUpdate r S_approved [P_authorized] (cancelled_set c t) db = (y, db1)"
    by fastforce
  show ?thesis
  proof (cases y)
    case None
    from gu have "db1 = db" by (cases rule: guardedPublicationUpdate_cases) (use None in auto)
    with res inv gu Some None show ?thesis by (simp add: cancelUnclaimablePublication_def)
  next
    case (Some row')
    with gu have src': "reply_source row' = Internal"
    proof (cases rule: guardedPublicationUpdate_cases)
      case (wrote row s)
      with Some src reply_key_of[OF inv wrote(1)] show ?thesis
        by (auto simp: cancelled_set_def apply_cancellation_def)
    qed simp
    from res gu Some \<open>cancelledPublication r = Some c\<close>
    obtain db2 where s: "supersede_current row' t db1 = Inr db2"
      and db': "db' = (let db3 = insertOutboxRow (cancellation_fact row' p cause) db2 in
          if cause = Ai_draft_withdrawn then purgeAiDraftsForReview row' t db3 else db3)"
      by (auto simp: cancelUnclaimablePublication_def Let_def split: sum.splits)
    have "store_inv nfc db2"
      using cancel_write_inv[OF inv src \<open>cancelledPublication r = Some c\<close> _ _ s, of "[P_authorized]" S_approved]
        gu Some by simp
    with db' purge_inv[OF _ src', of nfc] show ?thesis by (simp add: Let_def)
  qed
qed

lemma cancel_inv:
  assumes "store_inv nfc db" "\<forall>r \<in> set (map fst cs). reply_source r = Internal"
    and "cancelPublications cs db = Inr (n, db')"
  shows "store_inv nfc db'"
  using assms
proof (induction cs db arbitrary: n rule: cancelPublications.induct)
  case (1 db)
  then show ?case by simp
next
  case (2 r event now cs db)
  have src: "reply_source r = Internal" using "2.prems"(2) by simp
  show ?case
  proof (cases "cancelledPublication r")
    case None
    with 2 show ?thesis by simp
  next
    case (Some c)
    obtain y db1 where gu: "guardedPublicationUpdate r (status r)
        [P_requested, P_authorized, P_sending, P_pending_observation] (cancelled_set c now) db = (y, db1)"
      by fastforce
    show ?thesis
    proof (cases y)
      case None
      from gu have db1: "db1 = db" by (cases rule: guardedPublicationUpdate_cases) (use None in auto)
      from "2.prems"(3) Some gu None have "cancelPublications cs db1 = Inr (n, db')" by simp
      with "2.IH"(2)[OF Some gu[symmetric] None] "2.prems"(1,2) db1 show ?thesis by simp
    next
      case (Some row)
      note c = \<open>cancelledPublication r = Some c\<close>
      from "2.prems"(3) c gu Some obtain db2 m where
        s: "supersede_current row now db1 = Inr db2"
        and rest: "cancelPublications cs (insertOutboxRow event db2) = Inr (m, db')"
        by (auto split: sum.splits)
      have "store_inv nfc db2"
        by (rule cancel_write_inv[OF "2.prems"(1) src c _ gu[unfolded Some] s]) simp
      then show ?thesis
        using "2.IH"(3)[OF c gu[symmetric] Some s _ _ rest] "2.prems"(2) by simp
    qed
  qed
qed

lemma truth_scope_review:
  assumes "lockCurrentReplyTruthScope db org v p = Some scope"
  shows "\<exists>w \<in> set (reviews db). rv_id w = v \<and> rv_organizationId w = org \<and> rv_propertyId w = p"
  using assms by (auto simp: lockCurrentReplyTruthScope_def find_Some_iff split: option.splits)

lemma claim_write_inv:
  assumes inv: "store_inv nfc db" and src: "reply_source r = Internal"
    and scope: "lockCurrentReplyTruthScope db (reply_organizationId r) (reply_reviewId r)
      (as_propertyId attempt) = Some scope"
    and a: "readCurrentPublicationAuthorization nfc db r attempt scope = Some a"
    and target: "nextStateOrNull r E_claim = Some target"
    and res: "claim_write r attempt a scope target d db = Inr (x, db')"
  shows "store_inv nfc db'"
proof -
  let ?f = "\<lambda>row. row\<lparr>publicationState := Some target,
      publicationAttempts := publicationAttempts row + 1,
      reconcileDueAt := Some (due_after d PUBLICATION_RECOVERY_RECONCILE_DELAY_MS), updatedAt := d\<rparr>"
  obtain y db1 where gu: "guardedPublicationUpdate r S_approved [P_authorized] ?f db = (y, db1)"
    by fastforce
  then show ?thesis
  proof (cases rule: guardedPublicationUpdate_cases)
    case missed
    with res inv gu show ?thesis by (simp add: claim_write_def)
  next
    case (wrote row s)
    let ?row' = "revision_trigger row (?f row)"
    from res gu wrote(11) obtain b where ins: "insertAttempt b db1 = Inr db'"
      and b: "at_replyId b = reply_id r" "at_organizationId b = reply_organizationId r"
        "at_reviewId b = reply_reviewId r" "at_propertyId b = as_propertyId attempt"
        "at_outcome b = O_sending" "at_confirmedObservationRevision b = None"
        "at_publicationCycle b = publicationCycle r"
        "at_attemptNumber b = publicationAttempts ?row'"
        "at_expectedReplyDigest b = au_expectedReplyDigest a"
      by (auto simp: claim_write_def split: sum.splits)
    then have db': "replies db' = (replies db)(reply_key r := Some ?row')"
      "attempts db' = attempts db @ [b]" "authorizations db' = authorizations db" "same_rest db db'"
      using wrote(11,12) by (auto simp: insertAttempt_def same_rest_def split: if_splits)
    have key: "reply_source row = Internal" "reply_reviewId row = reply_reviewId r"
      using reply_key_of[OF inv wrote(1)] src by simp_all
    have st: "target = P_sending" "publicationState row = Some P_authorized"
      using target wrote by (auto simp: nextStateOrNull_def)
    have au: "a \<in> set (own_authorizations db (reply_id row))" "au_publicationCycle a = publicationCycle row"
      using a wrote by (auto simp: readCurrentPublicationAuthorization_def own_authorizations_def
          find_Some_iff split: option.splits if_splits)
    have inv': "rows_inv nfc db" using inv by (simp add: store_inv_def)
    have "rows_inv nfc db'"
    proof (rule rows_inv_write[OF inv' wrote(1) key(1), of ?row'])
      show "reply_key ?row' = reply_key r"
        using reply_key_of[OF inv wrote(1)] by (simp add: reply_key_def)
      show "own_attempts db' i = own_attempts db i" if "i \<noteq> reply_id row" for i
        using that db' b(1) wrote(2) by (simp add: own_attempts_def)
      have "row_ok nfc (own_attempts db (reply_id row) @ [b]) (own_authorizations db (reply_id row)) ?row'"
        by (rule row_ok_claim[OF store_inv_row(2)[OF inv wrote(1) key(1)] st(2)])
           (use st wrote key b au in \<open>auto simp: attempt_key_def\<close>)
      then show "row_ok nfc (own_attempts db' (reply_id row)) (own_authorizations db' (reply_id row)) ?row'"
        using db' b(1) wrote(2) by (simp add: own_attempts_def own_authorizations_def)
    qed (use db' in \<open>auto simp: own_authorizations_def\<close>)
    moreover have "references_ok (reviews db) (attempts db @ [b]) (observations db)"
      using inv truth_scope_review[OF scope] b unfolding store_inv_def references_ok_def by auto
    ultimately show ?thesis
      using inv db' unfolding store_inv_def same_rest_def by simp
  qed
qed

lemma claim_inv:
  assumes inv: "store_inv nfc db" and src: "reply_source r = Internal"
    and res: "markPublicationSending nfc actor r attempt d db = Inr (x, db')"
  shows "store_inv nfc db'"
proof (cases "nextStateOrNull r E_claim")
  case None
  with res inv show ?thesis by (simp add: markPublicationSending_def)
next
  case (Some target)
  consider "db' = db"
    | p cause where "cancelUnclaimablePublication r p d cause db = Inr (x, db')"
    | scope a where "lockCurrentReplyTruthScope db (reply_organizationId r) (reply_reviewId r)
          (as_propertyId attempt) = Some scope"
        "readCurrentPublicationAuthorization nfc db r attempt scope = Some a"
        "claim_write r attempt a scope target d db = Inr (x, db')"
    using res Some
    by (auto simp: markPublicationSending_def Let_def split: if_splits option.splits)
  then show ?thesis
    by cases (use inv cancel_unclaimable_inv[OF inv src] claim_write_inv[OF inv src _ _ Some] in auto)
qed

section \<open>Authorizing and moving a draft\<close>

lemma nextPublicationCycle_int:
  assumes "nextPublicationCycle (nint n) = Inr c"
  shows "0 \<le> n" "num_int c = n + 1"
  using assms by (auto simp: nextPublicationCycle_def num_int.simps nint_def split: if_splits)

lemma assert_intent_cycle:
  assumes "assertPublicationIntentMatchesCycle r i l = Inr c"
  shows "0 \<le> publicationCycle r" "num_int c = publicationCycle r + 1"
  using assms by (auto simp: assertPublicationIntentMatchesCycle_def nextPublicationCycle_int
      split: sum.splits if_splits)

text \<open>A command that opens a cycle starts where the last attempt's outcome is settled.\<close>

lemma started_closed:
  assumes "replyCommandMayStart c r" "replySnapshotWhere r c row"
    and "c \<in> {C_approve, C_retry_publication, C_edit_published}" "row_outcome row = Some oc"
  shows "\<not> isOpenAttemptOutcome oc"
proof -
  have "isOpenAttemptOutcome (outcome_of_class z) \<Longrightarrow> z = Ambiguous" for z
    by (cases z) (simp_all add: isOpenAttemptOutcome_def CONFIRMABLE_ATTEMPT_OUTCOMES_def)
  moreover have "\<not> isOpenAttemptOutcome O_superseded" "\<not> isOpenAttemptOutcome O_confirmed"
    by (simp_all add: isOpenAttemptOutcome_def CONFIRMABLE_ATTEMPT_OUTCOMES_def)
  ultimately show ?thesis
    using assms
    by (auto simp: replySnapshotWhere_def start_defs NO_OPEN_PUBLICATION_def sameFailureWhere_def
        split: if_splits)
qed

lemma authorize_cycle_inv:
  assumes inv: "store_inv nfc db" and src: "reply_source r = Internal"
    and cmd: "cmd \<in> {C_approve, C_retry_publication, C_edit_published}"
    and st: "u_status u = Some S_approved" and c: "0 \<le> publicationCycle r" "num_int c = publicationCycle r + 1"
    and res: "authorizePublicationCycle nfc actor r cmd i c u d db = Inr (x, db')"
  shows "store_inv nfc db'"
proof (cases "db' = db")
  case True
  with inv show ?thesis by simp
next
  case False
  let ?u = "u\<lparr>u_publicationState := Some (Some P_authorized), u_publicationCycle := Some (num_int c),
      u_publicationAttempts := Some 0, u_publicationLastErrorClass := Some None,
      u_reconcileDueAt := Some (Some (due_after d PUBLICATION_RECOVERY_RECONCILE_DELAY_MS))\<rparr>"
  obtain y db1 where gu: "guardedReplyUpdate r cmd ?u d db = (y, db1)" by fastforce
  then show ?thesis
  proof (cases rule: guardedReplyUpdate_cases)
    case missed
    with res inv gu show ?thesis
      by (auto simp: authorizePublicationCycle_def split: option.splits if_splits)
  next
    case (wrote row u')
    let ?row' = "revision_trigger row (buildReplySetClause u' d row)"
    have u': "u_status u' = Some S_approved" "u_publicationState u' = Some (Some P_authorized)"
      "u_publicationCycle u' = Some (num_int c)" "u_publicationAttempts u' = Some 0"
      using wrote(6) st by simp_all
    from res gu wrote(7) False obtain a where ins: "insertAuthorization a db1 = Inr db'"
      and a: "au_replyId a = reply_id r" "au_publicationCycle a = num_int c"
        "au_expectedReplyDigest a = googleReplyTextDigest nfc (reply_text ?row')"
      by (auto simp: authorizePublicationCycle_def split: option.splits if_splits sum.splits)
    then have db': "replies db' = (replies db)(reply_key r := Some ?row')"
      "attempts db' = attempts db" "authorizations db' = authorizations db @ [a]" "same_rest db db'"
      using wrote(7,8) by (auto simp: insertAuthorization_def same_rest_def split: if_splits)
    have key: "reply_source row = Internal" using reply_key_of[OF inv wrote(1)] src by simp
    have row: "publicationCycle row = publicationCycle r"
      using wrote(3) by (simp add: replySnapshotWhere_def)
    have inv': "rows_inv nfc db" using inv by (simp add: store_inv_def)
    have "rows_inv nfc db'"
    proof (rule rows_inv_write[OF inv' wrote(1) key, of ?row'])
      show "reply_key ?row' = reply_key r"
        using reply_key_of[OF inv wrote(1)] by (simp add: reply_key_def)
      show "own_authorizations db' j = own_authorizations db j" if "j \<noteq> reply_id row" for j
        using that db' a(1) wrote(2) by (simp add: own_authorizations_def)
      have "row_ok nfc (own_attempts db (reply_id row)) (own_authorizations db (reply_id row) @ [a]) ?row'"
        by (rule row_ok_new_cycle[OF store_inv_row(2)[OF inv wrote(1) key]])
           (use row a c u' started_closed[OF wrote(4,3) cmd] in auto)
      then show "row_ok nfc (own_attempts db' (reply_id row)) (own_authorizations db' (reply_id row)) ?row'"
        using db' a(1) wrote(2) by (simp add: own_attempts_def own_authorizations_def)
    qed (use db' in \<open>auto simp: own_attempts_def\<close>)
    with inv db' show ?thesis by (simp add: store_inv_def same_rest_def)
  qed
qed

lemma then_record_ok:
  assumes "then_record f g t db = Inr (x, db')"
  obtains y db1 where "t db = Inr (y, db1)" "db' = db1 \<or> db' = record_fact g (record_fact f db1)"
  using assms by (auto simp: then_record_def split: sum.splits option.splits)

lemma authorized_inv:
  assumes inv: "store_inv nfc db" and src: "reply_source r = Internal"
    and res: "markPublicationAuthorized nfc actor r u i l d db = Inr (x, db')"
  shows "store_inv nfc db'"
proof (cases "db' = db")
  case False
  let ?cmd = "if l \<noteq> None then C_approve else C_retry_publication"
  let ?u = "if ?cmd = C_approve then u\<lparr>u_status := Some S_approved,
      u_approvedBy := Some (Some (user_of i)),
      u_approvedAt := Some (case u_approvedAt u of Some (Some t) \<Rightarrow> Some t | _ \<Rightarrow> Some d)\<rparr>
    else no_update\<lparr>u_status := Some S_approved\<rparr>"
  from res False obtain c where c: "assertPublicationIntentMatchesCycle r i l = Inr c"
    and t: "then_record (map_option F_approved l) (Some (F_requested i))
        (authorizePublicationCycle nfc actor r ?cmd i c ?u d) db = Inr (x, db')"
    by (cases "assertPublicationIntentMatchesCycle r i l")
       (simp_all add: markPublicationAuthorized_def Let_def split: if_splits)
  from t obtain y db1 where "authorizePublicationCycle nfc actor r ?cmd i c ?u d db = Inr (y, db1)"
    and db': "db' = db1 \<or> db' = record_fact (Some (F_requested i)) (record_fact (map_option F_approved l) db1)"
    by (rule then_record_ok)
  then have "store_inv nfc db1"
    by (intro authorize_cycle_inv[OF inv src _ _ assert_intent_cycle[OF c]]) auto
  with db' show ?thesis by auto
qed (use inv in simp)

lemma edit_inv:
  assumes inv: "store_inv nfc db" and src: "reply_source r = Internal"
    and res: "editPublishedReply nfc actor r t i l d db = Inr (x, db')"
  shows "store_inv nfc db'"
proof (cases "db' = db")
  case False
  from res False obtain c where c: "assertPublicationIntentMatchesCycle r i (Some l) = Inr c"
    and t: "then_record (Some (F_updated l)) (Some (F_requested i))
        (authorizePublicationCycle nfc actor r C_edit_published i c
           (no_update\<lparr>u_text := Some t, u_status := Some S_approved\<rparr>) d) db = Inr (x, db')"
    by (cases "assertPublicationIntentMatchesCycle r i (Some l)")
       (simp_all add: editPublishedReply_def split: if_splits)
  from t obtain y db1 where "authorizePublicationCycle nfc actor r C_edit_published i c
      (no_update\<lparr>u_text := Some t, u_status := Some S_approved\<rparr>) d db = Inr (y, db1)"
    and db': "db' = db1 \<or> db' = record_fact (Some (F_requested i)) (record_fact (Some (F_updated l)) db1)"
    by (rule then_record_ok)
  then have "store_inv nfc db1"
    by (intro authorize_cycle_inv[OF inv src _ _ assert_intent_cycle[OF c]]) auto
  with db' show ?thesis by auto
qed (use inv in simp)

text \<open>Submitting, rejecting and saving move a reply between the statuses no publication has.\<close>

lemma idle_update_inv:
  assumes inv: "store_inv nfc db" and src: "reply_source r = Internal"
    and cmd: "cmd \<in> {C_submit, C_reject, C_save_draft}"
    and st: "u_status u \<in> Some ` {S_draft, S_pending_approval, S_rejected}"
    and keep: "u_publicationState u = None" "u_publicationCycle u = None" "u_publicationAttempts u = None"
    and res: "guardedReplyUpdate r cmd u d db = (x, db')"
  shows "store_inv nfc db'"
  using res
proof (cases rule: guardedReplyUpdate_cases)
  case missed
  with inv show ?thesis by simp
next
  case (wrote row u')
  have u': "u_status u' = u_status u" "u_publicationState u' = None" "u_publicationCycle u' = None"
    "u_publicationAttempts u' = None"
    using wrote(6) keep by auto
  have "publicationState row \<in> {None, Some P_cancelled}"
    using wrote(3,4) cmd
    by (auto simp: replySnapshotWhere_def start_defs NO_OPEN_PUBLICATION_def split: if_splits)
  with u' st have "good row (buildReplySetClause u' d row)"
    "touch row (buildReplySetClause u' d row)"
    "row_outcome (buildReplySetClause u' d row) = row_outcome row"
    by (auto simp: good_def touch_def)
  then show ?thesis
    by (intro update_inv_plain[OF inv src wrote(1), of "revision_trigger row (buildReplySetClause u' d row)"])
       (use wrote(7,8) in auto)
qed

lemma transition_inv:
  assumes inv: "store_inv nfc db" and src: "reply_source r = Internal"
    and cmd: "cmd \<in> {C_submit, C_reject, C_save_draft}"
    and st: "u_status u \<in> Some ` {S_draft, S_pending_approval, S_rejected}"
    and keep: "u_publicationState u = None" "u_publicationCycle u = None" "u_publicationAttempts u = None"
    and res: "transition r cmd u f d db = Inr (x, db')"
  shows "store_inv nfc db'"
proof -
  obtain y db1 where g: "guardedReplyUpdate r cmd u d db = (y, db1)" by fastforce
  from idle_update_inv[OF inv src cmd st keep g] res g show ?thesis
    by (auto simp: transition_def split: option.splits)
qed

section \<open>Rows that come and go\<close>

text \<open>
  One entry of the reply map changes, and its new row, if any, has a primary key of its own;
  the internal rows and their evidence stay.
\<close>

lemma rows_inv_entry:
  assumes inv: "rows_inv nfc db"
    and db': "replies db' = (replies db)(k := e)" "attempts db' = attempts db"
      "authorizations db' = authorizations db"
    and e: "\<And>r. e = Some r \<Longrightarrow> reply_key r = k \<and> (\<forall>l row. l \<noteq> k \<longrightarrow> replies db l = Some row \<longrightarrow> reply_id row \<noteq> reply_id r)
       \<and> (reply_source r = Internal \<longrightarrow> row_ok nfc (own_attempts db (reply_id r)) (own_authorizations db (reply_id r)) r)"
    and gone: "\<And>row. replies db k = Some row \<Longrightarrow> reply_source row = Internal \<Longrightarrow>
       own_attempts db (reply_id row) = [] \<and> own_authorizations db (reply_id row) = []"
  shows "rows_inv nfc db'"
proof -
  note parts = rows_inv_parts[OF inv]
  have own: "own_attempts db' = own_attempts db" "own_authorizations db' = own_authorizations db"
    by (simp_all add: fun_eq_iff own_attempts_def own_authorizations_def db'(2,3))
  have keep: "\<exists>l r. replies db' l = Some r \<and> reply_source r = Internal \<and> reply_id r = i"
    if ex: "\<exists>l r. replies db l = Some r \<and> reply_source r = Internal \<and> reply_id r = i"
      and ne: "own_attempts db i \<noteq> [] \<or> own_authorizations db i \<noteq> []" for i
  proof -
    obtain l r where r: "replies db l = Some r" "reply_source r = Internal" "reply_id r = i"
      using ex by blast
    with ne gone have "l \<noteq> k" by blast
    with r db'(1) show ?thesis by (metis fun_upd_other)
  qed
  have ids: "l = m" if "replies db' l = Some r" "replies db' m = Some s" "reply_id r = reply_id s" for l m r s
    using that e parts(2) unfolding db'(1) by (metis fun_upd_apply)
  have rows: "row_ok nfc (own_attempts db (reply_id r)) (own_authorizations db (reply_id r)) r"
    if "replies db' l = Some r" "reply_source r = Internal" for l r
    using that e parts(3) unfolding db'(1) by (metis fun_upd_apply)
  have keys: "reply_key r = l" if "replies db' l = Some r" for l r
    using that e parts(1) unfolding db'(1) by (metis fun_upd_apply)
  have at_rows: "\<exists>l r. replies db' l = Some r \<and> reply_source r = Internal \<and> reply_id r = at_replyId a"
    if a: "a \<in> set (attempts db')" for a
  proof (rule keep)
    have "a \<in> set (own_attempts db (at_replyId a))" using a db'(2) by (simp add: own_attempts_def)
    then show "own_attempts db (at_replyId a) \<noteq> [] \<or> own_authorizations db (at_replyId a) \<noteq> []" by auto
  qed (use parts(4) a db'(2) in simp)
  have au_rows: "\<exists>l r. replies db' l = Some r \<and> reply_source r = Internal \<and> reply_id r = au_replyId u"
    if u: "u \<in> set (authorizations db')" for u
  proof (rule keep)
    have "u \<in> set (own_authorizations db (au_replyId u))" using u db'(3) by (simp add: own_authorizations_def)
    then show "own_attempts db (au_replyId u) \<noteq> [] \<or> own_authorizations db (au_replyId u) \<noteq> []" by auto
  qed (use parts(5) u db'(3) in simp)
  show ?thesis
    unfolding rows_inv_def own
    using keys ids rows at_rows au_rows by blast
qed

text \<open>Such a write leaves the rest of the database alone.\<close>

lemma store_inv_rows: "store_inv nfc db \<Longrightarrow> rows_inv nfc db"
  by (simp add: store_inv_def)

lemma store_inv_entry:
  assumes inv: "store_inv nfc db"
    and db': "replies db' = (replies db)(k := e)" "attempts db' = attempts db"
      "authorizations db' = authorizations db" "same_rest db db'"
    and e: "\<And>r. e = Some r \<Longrightarrow> reply_key r = k \<and> (\<forall>l row. l \<noteq> k \<longrightarrow> replies db l = Some row \<longrightarrow> reply_id row \<noteq> reply_id r)
       \<and> (reply_source r = Internal \<longrightarrow> row_ok nfc (own_attempts db (reply_id r)) (own_authorizations db (reply_id r)) r)"
    and gone: "\<And>row. replies db k = Some row \<Longrightarrow> reply_source row = Internal \<Longrightarrow>
       own_attempts db (reply_id row) = [] \<and> own_authorizations db (reply_id row) = []"
  shows "store_inv nfc db'"
proof -
  have "rows_inv nfc db'"
    by (rule rows_inv_entry[OF store_inv_rows[OF inv] db'(1-3) e gone])
  moreover have "references_ok (reviews db') (attempts db') (observations db')"
    "heads_inv (observations db') (observation_heads db')"
    using inv db'(2,4) by (simp_all add: store_inv_def same_rest_def)
  ultimately show ?thesis by (simp only: store_inv_def simp_thms)
qed

lemma no_row_no_evidence:
  assumes inv: "rows_inv nfc db" and none: "\<And>k row. replies db k = Some row \<Longrightarrow> reply_id row \<noteq> i"
  shows "own_attempts db i = []" "own_authorizations db i = []"
  using rows_inv_parts(4,5)[OF inv] none
  by (auto simp: own_attempts_def own_authorizations_def filter_empty_conv) blast+

lemma create_inv:
  assumes inv: "store_inv nfc db"
    and adm: "publicationAttempts r = 0" "\<And>k row. replies db k = Some row \<Longrightarrow> reply_id row \<noteq> reply_id r"
    and res: "createDraft r db = Inr (x, db')"
  shows "store_inv nfc db'"
proof (cases "db' = db")
  case False
  with res have st: "status r = S_draft" "\<not> hasPublicationRecord r" "replies db (reply_key r) = None"
    and db': "db' = db\<lparr>replies := (replies db)(reply_key r := Some r)\<rparr>"
    by (auto simp: createDraft_def split: if_splits option.splits)
  note none = no_row_no_evidence[OF store_inv_rows[OF inv] adm(2)]
  have ok: "row_ok nfc [] [] r"
    using st adm(1) by (simp add: row_ok_def attempted_def authorized_text_def hasPublicationRecord_def)
  show ?thesis
  proof (rule store_inv_entry[OF inv])
    show "replies db' = (replies db)(reply_key r := Some r)" "attempts db' = attempts db"
      "authorizations db' = authorizations db" "same_rest db db'"
      by (simp_all add: db' same_rest_def)
  qed (use st adm(2) none ok in auto)
qed (use inv in simp)

lemma delete_inv:
  assumes inv: "store_inv nfc db" and src: "reply_source r = Internal"
    and res: "deleteDraft r db = Inr (x, db')"
  shows "store_inv nfc db'"
proof (cases "db' = db")
  case False
  with res obtain row where row: "replies db (reply_key r) = Some row" "publicationCycle row = 0"
    and db': "db' = db\<lparr>replies := (replies db)(reply_key r := None)\<rparr>"
    by (auto simp: deleteDraft_def split: if_splits option.splits)
  have ok: "row_ok nfc (own_attempts db (reply_id row)) (own_authorizations db (reply_id row)) row"
    using store_inv_row(2)[OF inv row(1)] reply_key_of(1)[OF inv row(1)] src by simp
  have us: "own_authorizations db (reply_id row) = []"
  proof (rule ccontr)
    assume "own_authorizations db (reply_id row) \<noteq> []"
    then obtain u where "u \<in> set (own_authorizations db (reply_id row))" by (meson list.set_sel(1))
    with ok have "1 \<le> au_publicationCycle u \<and> au_publicationCycle u \<le> publicationCycle row"
      unfolding row_ok_def by blast
    with row(2) show False by simp
  qed
  then have "own_attempts db (reply_id row) = []"
    using ok unfolding row_ok_def attempt_ok_def by (metis empty_iff list.set(1) list.set_sel(1))
  with us show ?thesis
    by (intro store_inv_entry[OF inv, of _ "reply_key r" None]) (use row db' in \<open>auto simp: same_rest_def\<close>)
qed (use inv in simp)

lemma mirror_inv:
  assumes inv: "store_inv nfc db"
    and adm: "\<And>r. m = Some r \<Longrightarrow> reply_source r = Google_sync
      \<and> (\<forall>k row. k \<noteq> reply_key r \<and> replies db k = Some row \<longrightarrow> reply_id row \<noteq> reply_id r)"
    and res: "mirrorSyncedReply m v org f d db = Inr (x, db')"
  shows "store_inv nfc db'"
proof -
  have google: "reply_source row = Google_sync" if "replies db (p, q, Google_sync) = Some row" for p q row
    using rows_inv_parts(1)[OF store_inv_rows[OF inv] that] by (simp add: reply_key_def)
  show ?thesis
  proof (cases m)
    case None
    with res have db': "db' = db\<lparr>replies := (replies db)((org, v, Google_sync) := None)\<rparr>"
      by (simp add: mirrorSyncedReply_def)
    show ?thesis
      by (rule store_inv_entry[OF inv, of _ "(org, v, Google_sync)" None]) (use db' google in \<open>auto simp: same_rest_def\<close>)
  next
    case (Some r)
    obtain row db1 where u: "mirrorUpsert r d db = (row, db1)" by fastforce
    with res Some have db': "db' = record_fact f db1" by (simp add: mirrorSyncedReply_def)
    have k: "reply_key r = (reply_organizationId r, reply_reviewId r, Google_sync)"
      using adm[OF Some] by (simp add: reply_key_def)
    have "store_inv nfc db1"
    proof (rule store_inv_entry[OF inv])
      show "replies db1 = (replies db)(reply_key r := Some row)" "attempts db1 = attempts db"
        "authorizations db1 = authorizations db" "same_rest db db1"
        using u by (auto simp: mirrorUpsert_def Let_def same_rest_def)
      show "own_attempts db (reply_id q) = [] \<and> own_authorizations db (reply_id q) = []"
        if "replies db (reply_key r) = Some q" "reply_source q = Internal" for q
        using that google k by auto
      show "reply_key q = reply_key r
          \<and> (\<forall>l o'. l \<noteq> reply_key r \<longrightarrow> replies db l = Some o' \<longrightarrow> reply_id o' \<noteq> reply_id q)
          \<and> (reply_source q = Internal \<longrightarrow>
               row_ok nfc (own_attempts db (reply_id q)) (own_authorizations db (reply_id q)) q)"
        if "Some row = Some q" for q
      proof (cases "replies db (reply_key r)")
        case None
        with u that have "reply_key q = reply_key r" "reply_id q = reply_id r" "reply_source q = Google_sync"
          using adm[OF Some] by (auto simp: mirrorUpsert_def Let_def reply_key_def)
        with adm[OF Some] show ?thesis by simp
      next
        case (Some old)
        with u that have q: "reply_key q = reply_key old" "reply_id q = reply_id old"
          "reply_source q = reply_source old"
          by (auto simp: mirrorUpsert_def Let_def reply_key_def)
        have "reply_id o' \<noteq> reply_id old" if "l \<noteq> reply_key r" "replies db l = Some o'" for l o'
          using rows_inv_parts(2)[OF store_inv_rows[OF inv] that(2) Some] that(1) by auto
        with q rows_inv_parts(1)[OF store_inv_rows[OF inv] Some] google Some k show ?thesis by auto
      qed
    qed
    with db' show ?thesis by simp
  qed
qed

end
