(* ===== verification/ObservationInvariant.thy ===== *)
theory ObservationInvariant
  imports ReplyInvariant
begin

text \<open>
  Recording an observation keeps \<open>store_inv\<close>: the head of a review always names its newest
  observation, the observations of a review have consecutive revisions, and the attempt a read is
  attributed to is the current one of its reply. With the commands on replies, every command of the
  machine keeps the invariant.
\<close>

section \<open>Heads and observations\<close>

lemma lockObservationSubject_review:
  assumes "lockObservationSubject db input = Inr v"
  shows "v \<in> set (reviews db)" "rv_id v = ro_reviewId input"
    "rv_organizationId v = ro_organizationId input" "rv_propertyId v = ro_propertyId input"
  using assms by (auto simp: lockObservationSubject_def find_Some_iff split: option.splits)

text \<open>Review identifiers are unique, so the review of an observation is the locked one.\<close>

lemma references_unique:
  assumes ref: "references_ok vs as os" and v: "v \<in> set vs"
  shows "\<And>a. a \<in> set as \<Longrightarrow> at_reviewId a = rv_id v \<Longrightarrow>
      at_organizationId a = rv_organizationId v \<and> at_propertyId a = rv_propertyId v"
    and "\<And>o'. o' \<in> set os \<Longrightarrow> ob_reviewId o' = rv_id v \<Longrightarrow>
      ob_organizationId o' = rv_organizationId v \<and> ob_propertyId o' = rv_propertyId v"
proof -
  have same: "w = v" if "w \<in> set vs" "rv_id w = rv_id v" for w
    using ref v that by (auto simp: references_ok_def distinct_map inj_on_def)
  show "at_organizationId a = rv_organizationId v \<and> at_propertyId a = rv_propertyId v"
    if "a \<in> set as" "at_reviewId a = rv_id v" for a
    using ref that same unfolding references_ok_def by metis
  show "ob_organizationId o' = rv_organizationId v \<and> ob_propertyId o' = rv_propertyId v"
    if "o' \<in> set os" "ob_reviewId o' = rv_id v" for o'
    using ref that same unfolding references_ok_def by metis
qed

lemma heads_inv_parts:
  assumes "heads_inv os hs"
  shows "distinct (map ob_id os)" "\<And>o'. o' \<in> set os \<Longrightarrow> hs (ob_reviewId o') \<noteq> None"
    and "\<And>v h. hs v = Some h \<Longrightarrow> oh_reviewId h = v" "\<And>v h. hs v = Some h \<Longrightarrow> \<exists>o' \<in> set os. head_names h o'"
    and "\<And>v h. hs v = Some h \<Longrightarrow>
      ob_observationRevision ` {o' \<in> set os. ob_reviewId o' = v} = {1..oh_observationRevision h}"
    and "\<And>v h o' p. hs v = Some h \<Longrightarrow> o' \<in> set os \<Longrightarrow> p \<in> set os \<Longrightarrow> ob_reviewId o' = v \<Longrightarrow>
      head_names h p \<Longrightarrow> ob_readGeneration o' \<le> ob_readGeneration p"
  using assms unfolding heads_inv_def by blast+

lemma find_distinct:
  assumes "distinct (map f xs)" "x \<in> set xs"
  shows "find (\<lambda>y. f y = f x) xs = Some x"
  using assms by (induction xs) auto

text \<open>A head stands for the observation it names.\<close>

lemma head_observation_named:
  assumes inv: "heads_inv (observations db) (observation_heads db)"
    and h: "observation_heads db v = Some h"
  obtains o' where "head_observation db h = Some o'" "o' \<in> set (observations db)" "head_names h o'"
    "\<And>p. p \<in> set (observations db) \<Longrightarrow> ob_reviewId p = v \<Longrightarrow> ob_readGeneration p \<le> ob_readGeneration o'"
proof -
  obtain o' where o': "o' \<in> set (observations db)" "head_names h o'"
    using heads_inv_parts(4)[OF inv h] by blast
  have "head_observation db h = Some o'"
    using find_distinct[OF heads_inv_parts(1)[OF inv] o'(1)] o'(2)
    by (simp add: head_observation_def head_names_def)
  moreover have "ob_readGeneration p \<le> ob_readGeneration o'"
    if "p \<in> set (observations db)" "ob_reviewId p = v" for p
    by (rule heads_inv_parts(6)[OF inv h that(1) o'(1) that(2) o'(2)])
  ultimately show ?thesis using that o' by blast
qed

lemma selectCurrentHead_some:
  assumes inv: "store_inv nfc db" and v: "lockObservationSubject db input = Inr v"
    and h: "observation_heads db (ro_reviewId input) = Some h"
  obtains o' where "selectCurrentHead db input = Some (h, o')" "o' \<in> set (observations db)"
    "head_names h o'" "oh_organizationId h = ro_organizationId input"
    "oh_propertyId h = ro_propertyId input" "oh_reviewId h = ro_reviewId input"
    "\<And>p. p \<in> set (observations db) \<Longrightarrow> ob_reviewId p = ro_reviewId input \<Longrightarrow>
      ob_readGeneration p \<le> ob_readGeneration o'"
proof -
  have ho: "heads_inv (observations db) (observation_heads db)"
    and ref: "references_ok (reviews db) (attempts db) (observations db)"
    using inv by (simp_all add: store_inv_def)
  note lv = lockObservationSubject_review[OF v]
  from head_observation_named[OF ho h] obtain o' where o': "head_observation db h = Some o'"
    "o' \<in> set (observations db)" "head_names h o'"
    "\<And>p. p \<in> set (observations db) \<Longrightarrow> ob_reviewId p = ro_reviewId input \<Longrightarrow>
      ob_readGeneration p \<le> ob_readGeneration o'" by blast
  have r: "oh_reviewId h = ro_reviewId input" by (rule heads_inv_parts(3)[OF ho h])
  then have "ob_reviewId o' = rv_id v" using o'(3) lv(2) by (simp add: head_names_def)
  then have "oh_organizationId h = ro_organizationId input" "oh_propertyId h = ro_propertyId input"
    using references_unique(2)[OF ref lv(1) o'(2)] o'(3) lv(3,4) by (simp_all add: head_names_def)
  with that o' r h show ?thesis by (simp add: selectCurrentHead_def)
qed

lemma selectCurrentHead_iff:
  assumes inv: "store_inv nfc db" and v: "lockObservationSubject db input = Inr v"
  shows "selectCurrentHead db input = None \<longleftrightarrow> observation_heads db (ro_reviewId input) = None"
proof (cases "observation_heads db (ro_reviewId input)")
  case (Some h)
  obtain o' where "selectCurrentHead db input = Some (h, o')"
    using selectCurrentHead_some[OF assms Some] by blast
  with Some show ?thesis by simp
qed (simp add: selectCurrentHead_def)

text \<open>A rewrite of observations that keeps what a head and a revision need.\<close>

definition keeps_place :: "(observation_row \<Rightarrow> observation_row) \<Rightarrow> bool" where
  "keeps_place f = (\<forall>o'. ob_id (f o') = ob_id o' \<and> ob_organizationId (f o') = ob_organizationId o'
     \<and> ob_propertyId (f o') = ob_propertyId o' \<and> ob_reviewId (f o') = ob_reviewId o'
     \<and> ob_observationRevision (f o') = ob_observationRevision o'
     \<and> ob_sourceEpoch (f o') = ob_sourceEpoch o'
     \<and> ob_materialReviewRevision (f o') = ob_materialReviewRevision o'
     \<and> ob_readGeneration (f o') = ob_readGeneration o'
     \<and> ob_state (f o') = ob_state o' \<and> ob_provenance (f o') = ob_provenance o')"

lemma heads_inv_map:
  assumes inv: "heads_inv os hs" and f: "keeps_place f"
  shows "heads_inv (map f os) hs"
proof -
  have names: "head_names h (f o') = head_names h o'" for h o'
    using f by (simp add: head_names_def keeps_place_def)
  have "ob_id \<circ> f = ob_id" using f by (simp add: keeps_place_def fun_eq_iff)
  moreover have "ob_observationRevision ` {o' \<in> set (map f os). ob_reviewId o' = v}
      = ob_observationRevision ` {o' \<in> set os. ob_reviewId o' = v}" for v
  proof -
    have "{o' \<in> set (map f os). ob_reviewId o' = v} = f ` {o' \<in> set os. ob_reviewId o' = v}"
      using f by (auto simp: keeps_place_def)
    then show ?thesis using f by (simp only: image_image keeps_place_def)
  qed
  ultimately show ?thesis
    using inv f names unfolding heads_inv_def by (simp add: keeps_place_def)
qed

lemma references_ok_map:
  assumes "references_ok vs as os" "keeps_place f"
  shows "references_ok vs as (map f os)"
  using assms by (simp add: references_ok_def keeps_place_def)

lemma observations_map_inv:
  assumes "store_inv nfc db" "keeps_place f"
  shows "store_inv nfc (db\<lparr>observations := map f (observations db)\<rparr>)"
  using assms heads_inv_map references_ok_map rows_inv_cong[of "db\<lparr>observations := map f (observations db)\<rparr>" db nfc]
  by (simp add: store_inv_def)

lemma renew_map:
  assumes "distinct (map ob_id os)" "c \<in> set os"
  shows "map (\<lambda>o'. if ob_id o' = ob_id c then f c else o') os
    = map (\<lambda>o'. if ob_id o' = ob_id c then f o' else o') os"
  using assms by (auto simp: distinct_map inj_on_def)

lemma renew_inv:
  assumes inv: "store_inv nfc db"
  shows "store_inv nfc (snd (renewHeadContentClock input db))"
proof (cases "snd (renewHeadContentClock input db) = db")
  case False
  let ?f = "\<lambda>o'. o'\<lparr>ob_contentExpiresAt := ro_contentExpiresAt input, ob_updatedAt := ro_observedAt input\<rparr>"
  from False obtain h c where "selectCurrentHead db input = Some (h, c)"
    and db': "snd (renewHeadContentClock input db)
      = db\<lparr>observations := map (\<lambda>o'. if ob_id o' = ob_id c then ?f c else o') (observations db)\<rparr>"
    by (auto simp: renewHeadContentClock_def Let_def split: option.splits if_splits)
  then have "c \<in> set (observations db)"
    by (auto simp: selectCurrentHead_def head_observation_def find_Some_iff split: option.splits if_splits)
  moreover have "distinct (map ob_id (observations db))"
    using inv by (simp add: store_inv_def heads_inv_def)
  ultimately have "snd (renewHeadContentClock input db)
      = db\<lparr>observations := map (\<lambda>o'. if ob_id o' = ob_id c then ?f o' else o') (observations db)\<rparr>"
    unfolding db' by (subst renew_map[where f = ?f]) simp_all
  moreover have "keeps_place (\<lambda>o'. if ob_id o' = ob_id c then ?f o' else o')"
    by (simp add: keeps_place_def)
  ultimately show ?thesis using observations_map_inv[OF inv] by simp
qed (use inv in simp)

section \<open>A new observation and its head\<close>

definition newer_than_head :: "observation_record \<Rightarrow> (observation_head \<times> observation_row) option \<Rightarrow> bool" where
  "newer_than_head input head =
     (case head of None \<Rightarrow> True | Some (h, o') \<Rightarrow> ob_readGeneration o' < record_generation input)"

lemma observation_of_sel [simp]:
  "ob_id (observation_of n input g d rv') = n"
  "ob_organizationId (observation_of n input g d rv') = ro_organizationId input"
  "ob_propertyId (observation_of n input g d rv') = ro_propertyId input"
  "ob_reviewId (observation_of n input g d rv') = ro_reviewId input"
  "ob_observationRevision (observation_of n input g d rv') = rv'"
  "ob_readGeneration (observation_of n input g d rv') = record_generation input"
  by (simp_all add: observation_of_def)

lemma upsertHead_sel [simp]:
  "replies (upsertHead input row db) = replies db" "attempts (upsertHead input row db) = attempts db"
  "authorizations (upsertHead input row db) = authorizations db"
  "reviews (upsertHead input row db) = reviews db"
  "observations (upsertHead input row db) = observations db"
  "outbox (upsertHead input row db) = outbox db"
  by (simp_all add: upsertHead_def Let_def)

lemma persist_effect:
  assumes "persistObservationAndHead n input g d rv' db = Inr (row, db')"
  shows "row = observation_of n input g d rv'"
    "db' = upsertHead input row (db\<lparr>observations := observations db @ [row]\<rparr>)"
    "n \<notin> ob_id ` set (observations db)"
  using assms
  by (auto simp: persistObservationAndHead_def Let_def insertObservation_def split: sum.splits if_splits)

lemma head_revision_nonneg:
  assumes inv: "store_inv nfc db" and v: "lockObservationSubject db input = Inr v"
  shows "0 \<le> head_revision_of (selectCurrentHead db input)"
proof (cases "observation_heads db (ro_reviewId input)")
  case None
  then show ?thesis by (simp add: selectCurrentHead_def head_revision_of_def)
next
  case (Some h)
  have ho: "heads_inv (observations db) (observation_heads db)" using inv by (simp add: store_inv_def)
  obtain o' where o': "selectCurrentHead db input = Some (h, o')" "o' \<in> set (observations db)"
    "head_names h o'" "oh_reviewId h = ro_reviewId input"
    using selectCurrentHead_some[OF inv v Some] by blast
  then have "ob_observationRevision o' \<in> ob_observationRevision `
      {o' \<in> set (observations db). ob_reviewId o' = ro_reviewId input}"
    by (intro imageI) (simp add: head_names_def)
  then have "ob_observationRevision o' \<in> {1..oh_observationRevision h}"
    unfolding heads_inv_parts(5)[OF ho Some] .
  then show ?thesis using o'(1,3) by (simp add: head_revision_of_def head_names_def)
qed

text \<open>The revisions of a review run from 1 to the head's.\<close>

lemma review_revisions:
  assumes inv: "store_inv nfc db" and v: "lockObservationSubject db input = Inr v"
  shows "ob_observationRevision ` {o' \<in> set (observations db). ob_reviewId o' = ro_reviewId input}
    = {1..head_revision_of (selectCurrentHead db input)}"
proof -
  have ho: "heads_inv (observations db) (observation_heads db)"
    using inv by (simp add: store_inv_def)
  show ?thesis
  proof (cases "observation_heads db (ro_reviewId input)")
    case None
    then have "{o' \<in> set (observations db). ob_reviewId o' = ro_reviewId input} = {}"
      using heads_inv_parts(2)[OF ho] by force
    moreover have "selectCurrentHead db input = None" using None by (simp add: selectCurrentHead_def)
    ultimately show ?thesis by (simp add: head_revision_of_def)
  next
    case (Some h)
    then obtain o' where "selectCurrentHead db input = Some (h, o')"
      using selectCurrentHead_some[OF inv v] by blast
    then show ?thesis using heads_inv_parts(5)[OF ho Some] by (simp add: head_revision_of_def)
  qed
qed

lemma persist_inv:
  assumes inv: "store_inv nfc db" and v: "lockObservationSubject db input = Inr v"
    and newer: "newer_than_head input (selectCurrentHead db input)"
    and res: "persistObservationAndHead n input g d (head_revision_of (selectCurrentHead db input) + 1) db
      = Inr (row, db')"
  shows "store_inv nfc db'"
proof -
  let ?rid = "ro_reviewId input" and ?os = "observations db" and ?hs = "observation_heads db"
  let ?head = "selectCurrentHead db input"
  have ho: "heads_inv ?os ?hs" and ref: "references_ok (reviews db) (attempts db) ?os"
    using inv by (simp_all add: store_inv_def)
  note e = persist_effect[OF res] and lv = lockObservationSubject_review[OF v]
  have row: "ob_id row = n" "ob_organizationId row = ro_organizationId input"
    "ob_propertyId row = ro_propertyId input" "ob_reviewId row = ?rid"
    "ob_observationRevision row = head_revision_of ?head + 1"
    "ob_readGeneration row = record_generation input"
    unfolding e(1) by simp_all
  define k where "k = the (observation_heads db' ?rid)"
  have hs': "observation_heads db' = ?hs(?rid := Some k)"
    by (simp add: k_def e upsertHead_def Let_def)
  have k: "head_names k row" "oh_reviewId k = ?rid" "oh_observationRevision k = head_revision_of ?head + 1"
  proof -
    have "oh_organizationId h = ro_organizationId input \<and> oh_propertyId h = ro_propertyId input"
      if "?hs ?rid = Some h" for h
      using selectCurrentHead_some[OF inv v that] by blast
    then show "head_names k row" "oh_reviewId k = ?rid"
      "oh_observationRevision k = head_revision_of ?head + 1"
      by (cases "?hs ?rid"; simp add: k_def e upsertHead_def Let_def head_names_def observation_of_def)+
  qed
  have os': "observations db' = ?os @ [row]"
    by (simp add: e(2))
  note revs = review_revisions[OF inv v]
  have gens: "ob_readGeneration p \<le> ob_readGeneration row"
    if p: "p \<in> set ?os" "ob_reviewId p = ?rid" for p
  proof -
    obtain h where h: "?hs ?rid = Some h" using heads_inv_parts(2)[OF ho p(1)] p(2) by auto
    then obtain o' where "?head = Some (h, o')" "ob_readGeneration p \<le> ob_readGeneration o'"
      using selectCurrentHead_some[OF inv v] p by blast
    with newer row(6) show ?thesis by (simp add: newer_than_head_def)
  qed
  have fresh: "ob_id p \<noteq> n" if "p \<in> set ?os" for p using e(3) that by blast
  have "heads_inv (?os @ [row]) (?hs(?rid := Some k))"
    unfolding heads_inv_def
  proof (intro conjI allI ballI impI)
    show "distinct (map ob_id (?os @ [row]))"
      using heads_inv_parts(1)[OF ho] e(3) row(1) by simp
  next
    fix o' assume "o' \<in> set (?os @ [row])"
    then show "(?hs(?rid := Some k)) (ob_reviewId o') \<noteq> None"
      using heads_inv_parts(2)[OF ho] row(4) by auto
  next
    fix v' h assume "(?hs(?rid := Some k)) v' = Some h"
    then show "oh_reviewId h = v'"
      using k(2) heads_inv_parts(3)[OF ho] by (cases "v' = ?rid") auto
  next
    fix v' h assume "(?hs(?rid := Some k)) v' = Some h"
    then show "\<exists>o' \<in> set (?os @ [row]). head_names h o'"
      using k(1) heads_inv_parts(4)[OF ho] by (cases "v' = ?rid") auto
  next
    fix v' h assume h: "(?hs(?rid := Some k)) v' = Some h"
    show "ob_observationRevision ` {o' \<in> set (?os @ [row]). ob_reviewId o' = v'} = {1..oh_observationRevision h}"
    proof (cases "v' = ?rid")
      case True
      have "0 \<le> head_revision_of ?head" by (rule head_revision_nonneg[OF inv v])
      have "{o' \<in> set (?os @ [row]). ob_reviewId o' = v'} = insert row {o' \<in> set ?os. ob_reviewId o' = ?rid}"
        using True row(4) by auto
      then show ?thesis using h True revs k(3) row(5) \<open>0 \<le> head_revision_of ?head\<close> by auto
    next
      case False
      then have "{o' \<in> set (?os @ [row]). ob_reviewId o' = v'} = {o' \<in> set ?os. ob_reviewId o' = v'}"
        using row(4) by auto
      with False h heads_inv_parts(5)[OF ho] show ?thesis by simp
    qed
  next
    fix v' h o' p
    assume h: "(?hs(?rid := Some k)) v' = Some h" and o': "o' \<in> set (?os @ [row])"
      and p: "p \<in> set (?os @ [row])" and r: "ob_reviewId o' = v'" and n: "head_names h p"
    show "ob_readGeneration o' \<le> ob_readGeneration p"
    proof (cases "v' = ?rid")
      case True
      with h have "h = k" by simp
      with n k(1) row(1) have "ob_id p = n" by (simp add: head_names_def)
      with p fresh have "p = row" by auto
      with o' r True gens show ?thesis by auto
    next
      case False
      with r o' row(4) have o2: "o' \<in> set ?os" by auto
      from False h have h2: "?hs v' = Some h" by simp
      then have "ob_reviewId p = v'" using n heads_inv_parts(3)[OF ho h2] by (simp add: head_names_def)
      with False p row(4) have "p \<in> set ?os" by auto
      then show ?thesis by (rule heads_inv_parts(6)[OF ho h2 o2 _ r n])
    qed
  qed
  moreover have "references_ok (reviews db) (attempts db) (?os @ [row])"
    using ref lv row unfolding references_ok_def by auto
  moreover have "reviews db' = reviews db" "attempts db' = attempts db" "replies db' = replies db"
    "authorizations db' = authorizations db"
    by (simp_all add: e(2))
  ultimately show ?thesis
    using inv rows_inv_cong[of db' db nfc] hs' os' by (simp add: store_inv_def)
qed

section \<open>The attempt a read is attributed to\<close>

lemma newest_attempt_max:
  assumes "newest_attempt as = Some a"
  shows "a \<in> set as \<and> (\<forall>b \<in> set as. at_attemptNumber b \<le> at_attemptNumber a)"
  using assms
proof (induction as arbitrary: a)
  case (Cons x as)
  show ?case
  proof (cases "newest_attempt as")
    case None
    then have "as = []" by (cases as) (auto split: option.splits if_splits)
    with Cons.prems show ?thesis by simp
  next
    case (Some b)
    with Cons.IH[OF Some] Cons.prems show ?thesis by (auto split: if_splits)
  qed
qed simp

lemma newest_attempt_none: "newest_attempt as = None \<longleftrightarrow> as = []"
  by (cases as) (auto split: option.splits)

definition target_matches :: "publication_target option \<Rightarrow> reply \<Rightarrow> bool" where
  "target_matches target row = (\<forall>t. target = Some t \<longrightarrow> target_replyId t = reply_id row
     \<and> target_cycle t = publicationCycle row \<and> target_attempt t = publicationAttempts row)"

lemma own_attempt_place:
  assumes inv: "store_inv nfc db" and v: "lockObservationSubject db input = Inr v"
    and row: "replies db (ro_organizationId input, ro_reviewId input, Internal) = Some row"
    and a: "a \<in> set (own_attempts db (reply_id row))"
  shows "at_replyId a = reply_id row" "at_organizationId a = ro_organizationId input"
    "at_propertyId a = ro_propertyId input" "at_reviewId a = ro_reviewId input"
proof -
  have k: "reply_key row = (ro_organizationId input, ro_reviewId input, Internal)"
    by (rule store_inv_row(1)[OF inv row])
  then have "attempt_ok (own_authorizations db (reply_id row)) row a"
    using store_inv_row(2)[OF inv row] a by (simp add: reply_key_def row_ok_def)
  then show o': "at_replyId a = reply_id row" "at_organizationId a = ro_organizationId input"
    and r: "at_reviewId a = ro_reviewId input"
    using k a by (simp_all add: attempt_ok_def reply_key_def own_attempts_def)
  note lv = lockObservationSubject_review[OF v]
  have "references_ok (reviews db) (attempts db) (observations db)" using inv by (simp add: store_inv_def)
  from references_unique(1)[OF this lv(1), of a] a r lv show "at_propertyId a = ro_propertyId input"
    by (simp add: own_attempts_def)
qed

lemma internal_row_ok:
  assumes "store_inv nfc db"
    and "replies db (org, v, Internal) = Some row"
  shows "row_ok nfc (own_attempts db (reply_id row)) (own_authorizations db (reply_id row)) row"
    "reply_key row = (org, v, Internal)" "reply_source row = Internal"
  using store_inv_row[OF assms] by (simp_all add: reply_key_def)

text \<open>A read is attributed to the current attempt of the reply, and finds it when there is one.\<close>

lemma attributable_is_current:
  assumes inv: "store_inv nfc db" and v: "lockObservationSubject db input = Inr v"
    and row: "replies db (ro_organizationId input, ro_reviewId input, Internal) = Some row"
    and t: "target_matches target row"
    and a: "readAttributableAttempt db input (Some row) target = Some a"
  shows "a \<in> set (own_attempts db (reply_id row))" "attempt_key a = current_key row"
proof -
  note ok = internal_row_ok[OF inv row] and place = own_attempt_place[OF inv v row]
  have "a \<in> set (own_attempts db (reply_id row)) \<and> attempt_key a = current_key row"
  proof (cases target)
    case (Some t')
    with a t show ?thesis
      by (auto simp: readAttributableAttempt_def find_Some_iff target_matches_def own_attempts_def
          attempt_key_def current_key_def)
  next
    case None
    let ?as = "filter (\<lambda>a. at_organizationId a = ro_organizationId input
        \<and> at_propertyId a = ro_propertyId input \<and> at_reviewId a = ro_reviewId input
        \<and> at_replyId a = reply_id row
        \<and> at_publicationCycle a = publicationCycle row) (attempts db)"
    have mx: "a \<in> set ?as" "\<And>b. b \<in> set ?as \<Longrightarrow> at_attemptNumber b \<le> at_attemptNumber a"
      using newest_attempt_max[of ?as a] a None by (auto simp: readAttributableAttempt_def)
    then have own: "a \<in> set (own_attempts db (reply_id row))" "at_publicationCycle a = publicationCycle row"
      by (auto simp: own_attempts_def)
    then have n: "1 \<le> at_attemptNumber a" "at_attemptNumber a \<le> publicationAttempts row"
      using ok(1) by (auto simp: row_ok_def attempt_ok_def)
    then have "current_key row \<in> attempt_key ` set (own_attempts db (reply_id row))"
      using ok(1) by (simp add: row_ok_def attempted_def)
    then obtain b where b: "b \<in> set (own_attempts db (reply_id row))" "attempt_key b = current_key row"
      by (metis imageE)
    with place[OF b(1)] have "b \<in> set ?as"
      by (simp add: own_attempts_def attempt_key_def current_key_def)
    with mx(2) b(2) n(2) own show ?thesis by (fastforce simp: attempt_key_def current_key_def)
  qed
  then show "a \<in> set (own_attempts db (reply_id row))" "attempt_key a = current_key row" by simp_all
qed

lemma attributable_exists:
  assumes inv: "store_inv nfc db" and v: "lockObservationSubject db input = Inr v"
    and row: "replies db (ro_organizationId input, ro_reviewId input, Internal) = Some row"
    and t: "target_matches target row" and n: "1 \<le> publicationAttempts row"
  shows "readAttributableAttempt db input (Some row) target \<noteq> None"
proof -
  note ok = internal_row_ok[OF inv row]
  obtain b where b: "b \<in> set (own_attempts db (reply_id row))" "attempt_key b = current_key row"
    using ok(1) n by (auto simp: row_ok_def attempted_def)
  note place = own_attempt_place[OF inv v row b(1)]
  show ?thesis
  proof (cases target)
    case (Some t')
    have "\<exists>a \<in> set (attempts db). at_organizationId a = ro_organizationId input
        \<and> at_propertyId a = ro_propertyId input \<and> at_reviewId a = ro_reviewId input
        \<and> at_replyId a = target_replyId t' \<and> at_publicationCycle a = target_cycle t'
        \<and> at_attemptNumber a = target_attempt t'"
      using b place t Some
      by (intro bexI[of _ b]) (simp_all add: own_attempts_def target_matches_def attempt_key_def current_key_def)
    then show ?thesis using Some by (auto simp: readAttributableAttempt_def find_None_iff)
  next
    case None
    from b place show ?thesis
      by (auto simp: readAttributableAttempt_def newest_attempt_none None filter_empty_conv
          own_attempts_def attempt_key_def current_key_def)
  qed
qed

lemma loadPublicationEvidence_ok:
  assumes "loadPublicationEvidence db input = Inr ev"
  shows "ev_internal ev = replies db (ro_organizationId input, ro_reviewId input, Internal)"
    "ev_target ev = record_target (ro_source input)"
    "ev_attempt ev = readAttributableAttempt db input (ev_internal ev) (ev_target ev)"
    "ev_zeroAttempt ev = readZeroAttemptAuthorization db input (ev_internal ev)"
    "\<And>row. ev_internal ev = Some row \<Longrightarrow> target_matches (ev_target ev) row"
    "ev_internal ev = None \<Longrightarrow> ev_target ev = None"
proof -
  let ?i = "replies db (ro_organizationId input, ro_reviewId input, Internal)"
  let ?t = "record_target (ro_source input)"
  have ok: "(case ?t of None \<Rightarrow> False | Some t \<Rightarrow> (case ?i of None \<Rightarrow> True
      | Some row \<Rightarrow> reply_id row \<noteq> target_replyId t \<or> publicationCycle row \<noteq> target_cycle t
          \<or> publicationAttempts row \<noteq> target_attempt t)) = False"
    and ev: "ev = \<lparr>ev_internal = ?i, ev_attempt = readAttributableAttempt db input ?i ?t,
               ev_zeroAttempt = readZeroAttemptAuthorization db input ?i, ev_target = ?t\<rparr>"
    using assms by (simp_all add: loadPublicationEvidence_def Let_def split: if_splits)
  show "ev_internal ev = ?i" "ev_target ev = ?t"
    "ev_attempt ev = readAttributableAttempt db input (ev_internal ev) (ev_target ev)"
    "ev_zeroAttempt ev = readZeroAttemptAuthorization db input (ev_internal ev)"
    by (simp_all add: ev)
  show "target_matches (ev_target ev) row" if "ev_internal ev = Some row" for row
    using ok that by (auto simp: ev target_matches_def)
  show "ev_target ev = None" if "ev_internal ev = None"
    using ok that by (cases ?t) (simp_all add: ev)
qed

section \<open>Settling and confirming\<close>

lemma settled_store_inv:
  assumes inv: "store_inv nfc db"
    and w: "replies db k = Some row" "reply_source row = Internal"
    and t: "touch row row'" and g: "good row row'" and f: "marks f oc"
    and open': "publicationState row \<noteq> Some P_published" and out: "row_outcome row' = Some oc"
    and db': "replies db' = (replies db)(k := Some row')"
      "authorizations db' = authorizations db" "attempts db' = map_where P f (attempts db)"
      "same_rest db db'"
    and own: "\<And>a. P a \<Longrightarrow> at_replyId a = reply_id row"
    and P: "\<And>a. a \<in> set (own_attempts db (reply_id row)) \<Longrightarrow> P a = (attempt_key a = current_key row)"
  shows "store_inv nfc db'"
proof -
  have "rows_inv nfc db'"
    by (rule settled_rows_inv[OF store_inv_rows[OF inv] w t g f open' out db'(1-3) own P])
  moreover have "references_ok (reviews db) (map_where P f (attempts db)) (observations db)"
    using inv by (intro references_ok_map_where[OF _ marks_settles[OF f]]) (simp add: store_inv_def)
  ultimately show ?thesis
    using inv db'(3,4) by (simp add: store_inv_def same_rest_def)
qed

lemma update_internal_ok:
  assumes "update_internal input internal cond f m db = Inr db'"
  obtains row where "replies db (reply_key internal) = Some row" "reply_id row = reply_id internal"
    "cond row"
    "db' = db\<lparr>replies := (replies db)(reply_key internal := Some (revision_trigger row (f row)))\<rparr>"
proof -
  obtain y db1 where u: "updateReplyWhere internal
      (\<lambda>row. reply_organizationId row = ro_organizationId input \<and> cond row) f db = (y, db1)" by fastforce
  then show ?thesis
  proof (cases rule: updateReplyWhere_cases)
    case missed
    with assms u show ?thesis by (simp add: update_internal_def)
  next
    case (wrote row)
    with assms u that[of row] show ?thesis by (simp add: update_internal_def)
  qed
qed

lemma cancelledReplySet_shape:
  "touch row (cancelledReplySet t row)" "good row (cancelledReplySet t row)"
  "row_outcome (cancelledReplySet t row) = Some O_superseded"
  by (simp_all add: cancelledReplySet_def touch_def good_def)

lemma supersede_external_inv:
  assumes inv: "store_inv nfc db" and src: "reply_source internal = Internal"
    and at: "at_replyId attempt = reply_id internal"
    and res: "supersedeExternalCurrentAttempt input internal attempt db = Inr (e, db')"
  shows "store_inv nfc db'"
proof -
  let ?t = "ro_observedAt input"
  let ?P = "\<lambda>a. same_attempt a attempt \<and> at_outcome a \<in> {O_sending, O_provider_outcome_pending, O_ambiguous}"
  from res obtain db1 where u: "update_internal input internal
      (\<lambda>row. publicationCycle row = at_publicationCycle attempt
         \<and> publicationAttempts row = at_attemptNumber attempt
         \<and> status row \<in> set CLAIMABLE_PUBLICATION_STATUSES
         \<and> (publicationState row \<in> Some ` set UNCERTAIN_PUBLICATION_STATES
            \<or> publicationState row = Some P_terminal \<and> publicationLastErrorClass row = Some Ambiguous))
      (cancelledReplySet ?t) ''Reply changed while recording an external current Google reply'' db = Inr db1"
    and hit: "\<exists>a \<in> set (attempts db1). ?P a"
    and db': "db' = db1\<lparr>attempts := map_where ?P (supersede ?t) (attempts db1)\<rparr>"
    by (auto simp: supersedeExternalCurrentAttempt_def map_where_def split: sum.splits if_splits)
  from u obtain row where row: "replies db (reply_key internal) = Some row" "reply_id row = reply_id internal"
      "publicationCycle row = at_publicationCycle attempt" "publicationAttempts row = at_attemptNumber attempt"
      "publicationState row \<noteq> Some P_published"
    and db1: "db1 = db\<lparr>replies := (replies db)(reply_key internal :=
        Some (revision_trigger row (cancelledReplySet ?t row)))\<rparr>"
    by (rule update_internal_ok) (auto simp: UNCERTAIN_PUBLICATION_STATES_def)
  note i = store_inv_pair(1)[OF inv row(1) src]
  have ok: "row_ok nfc (own_attempts db (reply_id row)) (own_authorizations db (reply_id row)) row"
    by (rule store_inv_row(2)[OF inv row(1) i])
  have key: "?P b \<Longrightarrow> at_replyId b = reply_id row \<and> attempt_key b = current_key row" for b
    using row at by (simp add: same_attempt_def attempt_key_def current_key_def)
  obtain b where b: "b \<in> set (attempts db)" "?P b" using hit db1 by auto
  have "?P a = (attempt_key a = current_key row)" if a: "a \<in> set (own_attempts db (reply_id row))" for a
  proof
    assume "attempt_key a = current_key row"
    moreover have "inj_on attempt_key (set (own_attempts db (reply_id row)))"
      using ok by (simp add: row_ok_def distinct_map)
    moreover have "b \<in> set (own_attempts db (reply_id row))" using b(1) key[OF b(2)] by (simp add: own_attempts_def)
    ultimately have "a = b" using a key[OF b(2)] by (metis inj_on_def)
    with b(2) show "?P a" by simp
  qed (use key in blast)
  note P = this
  show ?thesis
  proof (rule settled_store_inv[OF inv row(1) i _ _ marks_plain(3) row(5)])
    show "touch row (revision_trigger row (cancelledReplySet ?t row))"
      "good row (revision_trigger row (cancelledReplySet ?t row))"
      "row_outcome (revision_trigger row (cancelledReplySet ?t row)) = Some O_superseded"
      using cancelledReplySet_shape by simp_all
    show "attempts db' = map_where ?P (supersede ?t) (attempts db)"
      "replies db' = (replies db)(reply_key internal := Some (revision_trigger row (cancelledReplySet ?t row)))"
      "authorizations db' = authorizations db" "same_rest db db'"
      by (simp_all add: db' db1 same_rest_def)
    show "at_replyId a = reply_id row" if "?P a" for a using key[OF that] by simp
    show "?P a = (attempt_key a = current_key row)"
      if "a \<in> set (own_attempts db (reply_id row))" for a by (rule P[OF that])
  qed
qed

lemma cancel_zero_inv:
  assumes inv: "store_inv nfc db" and src: "reply_source internal = Internal"
    and res: "cancelZeroAttemptAuthorization input internal cycle db = Inr (e, db')"
  shows "store_inv nfc db'"
proof -
  from res obtain row where row: "replies db (reply_key internal) = Some row" "publicationAttempts row = 0"
    and db': "db' = db\<lparr>replies := (replies db)(reply_key internal :=
        Some (revision_trigger row (cancelledReplySet (ro_observedAt input) row)))\<rparr>"
    by (auto simp: cancelZeroAttemptAuthorization_def split: sum.splits elim!: update_internal_ok)
  show ?thesis
    by (rule update_inv_plain[OF inv src row(1),
          of "revision_trigger row (cancelledReplySet (ro_observedAt input) row)"])
       (use row(2) db' cancelledReplySet_shape in \<open>simp_all\<close>)
qed

lemma marks_confirmed:
  "marks (\<lambda>a. a\<lparr>at_outcome := O_confirmed, at_confirmedObservationRevision := Some n, at_updatedAt := t\<rparr>)
     O_confirmed"
  by (simp add: marks_def settles_def)

lemma confirm_inv:
  assumes inv: "store_inv nfc db" and src: "reply_source internal = Internal"
    and at: "at_replyId attempt = reply_id internal"
      "\<And>row. replies db (reply_key internal) = Some row \<Longrightarrow> attempt_key attempt = current_key row"
    and res: "confirmReplyOnGoogle input internal attempt revision db = Inr (e, db')"
  shows "store_inv nfc db'"
proof -
  let ?t = "ro_observedAt input"
  let ?f = "\<lambda>row. row\<lparr>status := S_published, publicationState := Some P_published,
      publishedAt := Some ?t, reconcileDueAt := None, updatedAt := ?t\<rparr>"
  let ?g = "\<lambda>a. a\<lparr>at_outcome := O_confirmed, at_confirmedObservationRevision := Some revision,
      at_updatedAt := ?t\<rparr>"
  from res obtain row where row: "replies db (reply_key internal) = Some row" "reply_id row = reply_id internal"
      "publicationState row \<noteq> Some P_published"
    and db': "attempts db' = map_where (\<lambda>a. same_attempt a attempt) ?g (attempts db)"
      "replies db' = (replies db)(reply_key internal := Some (revision_trigger row (?f row)))"
      "authorizations db' = authorizations db" "same_rest db db'"
    by (auto simp: confirmReplyOnGoogle_def map_where_def same_rest_def UNCERTAIN_PUBLICATION_STATES_def
        split: sum.splits elim!: update_internal_ok)
  note i = store_inv_pair(1)[OF inv row(1) src]
  show ?thesis
  proof (rule settled_store_inv[OF inv row(1) i _ _ marks_confirmed row(3) _ db'(2,3,1,4)])
    show "touch row (revision_trigger row (?f row))" "good row (revision_trigger row (?f row))"
      "row_outcome (revision_trigger row (?f row)) = Some O_confirmed"
      by (simp_all add: touch_def good_def)
    show "at_replyId a = reply_id row" if "same_attempt a attempt" for a
      using that at(1) row(2) by (simp add: same_attempt_def)
    show "same_attempt a attempt = (attempt_key a = current_key row)"
      if "a \<in> set (own_attempts db (reply_id row))" for a
      using that at(1) at(2)[OF row(1)] row(2)
      by (auto simp: same_attempt_def attempt_key_def own_attempts_def current_key_def)
  qed
qed

section \<open>Recording\<close>

text \<open>Under the invariant a legacy attempt without a row does not exist.\<close>

lemma evidence_facts:
  assumes inv: "store_inv nfc db" and v: "lockObservationSubject db input = Inr v"
    and ev: "loadPublicationEvidence db input = Inr ev"
  shows "\<not> settlesLegacyUnattributedAttempt ev" "ev_zeroAttempt ev \<noteq> None \<Longrightarrow> ev_attempt ev = None"
    and "\<And>row a. ev_internal ev = Some row \<Longrightarrow> ev_attempt ev = Some a \<Longrightarrow>
      at_replyId a = reply_id row \<and> attempt_key a = current_key row
        \<and> a \<in> set (own_attempts db (reply_id row))"
    and "\<And>row. ev_internal ev = Some row \<Longrightarrow>
      replies db (ro_organizationId input, ro_reviewId input, Internal) = Some row
        \<and> reply_key row = (ro_organizationId input, ro_reviewId input, Internal)
        \<and> reply_source row = Internal"
proof -
  note e = loadPublicationEvidence_ok[OF ev]
  show row: "replies db (ro_organizationId input, ro_reviewId input, Internal) = Some row
        \<and> reply_key row = (ro_organizationId input, ro_reviewId input, Internal)
        \<and> reply_source row = Internal" if "ev_internal ev = Some row" for row
    using that e(1) internal_row_ok(2,3)[OF inv] by metis
  show at: "at_replyId a = reply_id row \<and> attempt_key a = current_key row
      \<and> a \<in> set (own_attempts db (reply_id row))"
    if i: "ev_internal ev = Some row" and a: "ev_attempt ev = Some a" for row a
  proof -
    have "readAttributableAttempt db input (Some row) (ev_target ev) = Some a"
      using a i e(3) by simp
    from attributable_is_current[OF inv v _ e(5)[OF i] this] row[OF i]
    show ?thesis by (simp add: own_attempts_def)
  qed
  show "\<not> settlesLegacyUnattributedAttempt ev"
  proof
    assume l: "settlesLegacyUnattributedAttempt ev"
    then obtain row where i: "ev_internal ev = Some row" and none: "ev_attempt ev = None"
      and st: "publicationState row \<in> {Some P_sending, Some P_pending_observation, Some P_ambiguous}"
      by (auto simp: settlesLegacyUnattributedAttempt_def split: option.splits)
    have r: "replies db (ro_organizationId input, ro_reviewId input, Internal) = Some row"
      using row[OF i] by simp
    have "attempted (own_attempts db (reply_id row)) row"
      using internal_row_ok(1)[OF inv r] by (simp add: row_ok_def)
    with st have "1 \<le> publicationAttempts row" unfolding attempted_def by blast
    from attributable_exists[OF inv v r e(5)[OF i] this] none e(3) i show False by simp
  qed
  show "ev_attempt ev = None" if "ev_zeroAttempt ev \<noteq> None"
  proof (rule ccontr)
    assume "ev_attempt ev \<noteq> None"
    then obtain a where a: "ev_attempt ev = Some a" by blast
    from that e(4) obtain row where i: "ev_internal ev = Some row" "publicationAttempts row = 0"
      by (auto simp: readZeroAttemptAuthorization_def split: option.splits if_splits)
    have r: "replies db (ro_organizationId input, ro_reviewId input, Internal) = Some row"
      using row[OF i(1)] by simp
    have "attempt_ok (own_authorizations db (reply_id row)) row a"
      using internal_row_ok(1)[OF inv r] at[OF i(1) a] by (simp add: row_ok_def)
    then show False using at[OF i(1) a] i(2) by (simp add: attempt_ok_def attempt_key_def current_key_def)
  qed
qed

lemma settleSuperseded_cases:
  assumes res: "settleSupersededPublication input ev s db = Inr (fo, db')"
    and ev: "\<not> settlesLegacyUnattributedAttempt ev" "ev_zeroAttempt ev \<noteq> None \<Longrightarrow> ev_attempt ev = None"
  obtains (none) "fo = None" "db' = db"
  | (external) internal a e where "s" "ev_internal ev = Some internal" "ev_attempt ev = Some a" "fo = Some e"
      "supersedeExternalCurrentAttempt input internal a db = Inr (e, db')"
  | (zero) internal c e where "ev_internal ev = Some internal" "ev_zeroAttempt ev = Some c" "ev_attempt ev = None"
      "fo = Some e" "cancelZeroAttemptAuthorization input internal c db = Inr (e, db')"
proof (cases "ev_internal ev \<noteq> None \<and> ev_zeroAttempt ev \<noteq> None")
  case True
  with ev(2) have at: "ev_attempt ev = None" by blast
  from True obtain internal c where i: "ev_internal ev = Some internal" "ev_zeroAttempt ev = Some c" by blast
  from res i ev(1) at obtain e where "fo = Some e"
    "cancelZeroAttemptAuthorization input internal c db = Inr (e, db')"
    by (auto simp: settleSupersededPublication_def settle_rule_def split: sum.splits)
  with i at show ?thesis by (rule zero)
next
  case no_zero: False
  show ?thesis
  proof (cases "s \<and> ev_internal ev \<noteq> None \<and> ev_attempt ev \<noteq> None")
    case True
    then obtain internal a where i: "s" "ev_internal ev = Some internal" "ev_attempt ev = Some a" by blast
    from res i ev(1) no_zero obtain e where "fo = Some e"
      "supersedeExternalCurrentAttempt input internal a db = Inr (e, db')"
      by (auto simp: settleSupersededPublication_def settle_rule_def split: sum.splits)
    with i show ?thesis by (rule external)
  next
    case False
    have "settle_rule (s \<and> ev_internal ev \<noteq> None \<and> ev_attempt ev \<noteq> None)
        (supersedeExternalCurrentAttempt input (the (ev_internal ev)) (the (ev_attempt ev)))
        (\<lambda>db. ok (None, db)) db = ok (None, db)"
      unfolding settle_rule_def using False by auto
    with res ev(1) no_zero have "fo = None \<and> db' = db"
      unfolding settleSupersededPublication_def settle_rule_def[of "ev_zeroAttempt ev \<noteq> None \<and> _"]
        settle_rule_def[of "settlesLegacyUnattributedAttempt ev"]
      by auto
    then show ?thesis by (auto intro: none)
  qed
qed

text \<open>What a recorded read was decided on.\<close>

definition recorded_decision :: "normalizer \<Rightarrow> observation_record \<Rightarrow> reply_db \<Rightarrow> publication_evidence
    \<Rightarrow> observation_decision \<Rightarrow> bool" where
  "recorded_decision nfc input db ev d =
     (loadPublicationEvidence db input = Inr ev
      \<and> (\<exists>v. lockObservationSubject db input = Inr v \<and> rv_sourceEpoch v = record_epoch input
            \<and> rv_materialReviewRevision v = record_revision input)
      \<and> newer_than_head input (selectCurrentHead db input)
      \<and> d = decideGoogleReplyObservation nfc (decision_input input (selectCurrentHead db input)
                (readPublicationCandidate db (ev_internal ev) (ev_attempt ev)))
      \<and> resolution d \<noteq> Earlier_publication_live)"

lemma renew_none:
  assumes "renewHeadContentClock input db = (None, db')"
  shows "db' = db"
  using assms by (auto simp: renewHeadContentClock_def Let_def split: option.splits if_splits)

lemma recordObservation_cases:
  assumes res: "recordObservation nfc n input db = Inr (x, db')"
  obtains (unchanged) "db' = db" "duplicate x"
  | (renewed) "db' = snd (renewHeadContentClock input db)" "duplicate x"
  | (recorded) g ev d where "recorded_decision nfc input db ev d"
      "record_new n input g ev d
         (supersedesCurrentAttempt (resolution d)
            (readPublicationCandidate db (ev_internal ev) (ev_attempt ev)) input)
         (head_revision_of (selectCurrentHead db input) + 1) db = Inr (x, db')"
      "googleReplyObservationInputDigest nfc (record_identity input) = Some g"
      "findReplayedObservation db input g = Inr None" "assertObservationFence input = Inr ()"
      "is_safe_integer (nint (head_revision_of (selectCurrentHead db input) + 1))"
proof -
  let ?head = "selectCurrentHead db input"
  obtain g v where fence: "assertObservationFence input = Inr ()"
    and v: "lockObservationSubject db input = Inr v"
    and g: "googleReplyObservationInputDigest nfc (record_identity input) = Some g"
    using res by (auto simp: recordObservation_def split: sum.splits option.splits)
  from res fence v g obtain ro where r: "findReplayedObservation db input g = Inr ro"
    by (cases "findReplayedObservation db input g") (auto simp: recordObservation_def)
  show ?thesis
  proof (cases "ro = None \<and> newer_than_head input ?head")
    case False
    with res fence v g r have "db' = db \<and> duplicate x"
      by (auto simp: recordObservation_def Let_def newer_than_head_def not_le resultFromRow_def
          elim!: resolveSupersededReplyRead.elims split: sum.splits option.splits if_splits)
    with unchanged show ?thesis by blast
  next
    case True
    then have ro: "ro = None" and newer: "newer_than_head input ?head" by simp_all
    then have le: "(case ?head of None \<Rightarrow> False | Some (h, o') \<Rightarrow> record_generation input \<le> ob_readGeneration o') = False"
      by (auto simp: newer_than_head_def split: option.splits)
    have scope: "rv_sourceEpoch v = record_epoch input" "rv_materialReviewRevision v = record_revision input"
      using res fence v g r ro by (auto simp: recordObservation_def split: if_splits)
    from res fence v g r ro le obtain ev where ev: "loadPublicationEvidence db input = Inr ev"
      and d: "record_decided n input g ?head ev (readPublicationCandidate db (ev_internal ev) (ev_attempt ev))
        (decideGoogleReplyObservation nfc (decision_input input ?head
           (readPublicationCandidate db (ev_internal ev) (ev_attempt ev)))) db = Inr (x, db')"
      by (cases "loadPublicationEvidence db input")
         (auto simp: recordObservation_def Let_def split: if_splits)
    let ?c = "readPublicationCandidate db (ev_internal ev) (ev_attempt ev)"
    define d where "d = decideGoogleReplyObservation nfc (decision_input input ?head ?c)"
    let ?s = "supersedesCurrentAttempt (resolution d) ?c input"
    have rd: "record_decided n input g ?head ev ?c d db = Inr (x, db')" using d(1) by (simp add: d_def)
    show ?thesis
    proof (cases "resolution d = Earlier_publication_live")
      case True
      with rd have "db' = snd (renewHeadContentClock input db)" "duplicate x"
        by (auto simp: record_decided_def)
      then show ?thesis by (rule renewed)
    next
      case live: False
      obtain o' db1 where rs: "(if restatesCurrentHead input d ?head ?s ev
              then renewHeadContentClock input db else (None, db)) = (o', db1)" by fastforce
      show ?thesis
      proof (cases o')
        case (Some w)
        with rs have w: "renewHeadContentClock input db = (Some w, db1)" by (simp split: if_splits)
        have "db' = db1 \<and> duplicate x"
          using rd live rs Some by (auto simp: record_decided_def Let_def resultFromRow_def)
        with w renewed show ?thesis by simp
      next
        case None
        then have db1: "db1 = db" using rs renew_none by (auto split: if_splits)
        have "record_new n input g ev d ?s (head_revision_of ?head + 1) db = Inr (x, db')"
          "is_safe_integer (nint (head_revision_of ?head + 1))"
          using rd live rs None db1 by (simp_all add: record_decided_def Let_def split: if_splits)
        moreover have "recorded_decision nfc input db ev d"
          using ev v scope newer live by (simp add: recorded_decision_def d_def)
        ultimately show ?thesis using recorded g r ro fence by blast
      qed
    qed
  qed
qed

lemma settling_facts:
  "supersedeExternalCurrentAttempt input i a db = Inr (e, db') \<Longrightarrow> e = providerTruthCancellationFact input i"
  "cancelZeroAttemptAuthorization input i c db = Inr (e, db') \<Longrightarrow> e = providerTruthCancellationFact input i"
  "confirmReplyOnGoogle input i a k db = Inr (e, db') \<Longrightarrow> \<exists>l. e = F_published l"
  by (auto simp: supersedeExternalCurrentAttempt_def cancelZeroAttemptAuthorization_def
      confirmReplyOnGoogle_def split: sum.splits if_splits)

lemma record_new_cases:
  assumes res: "record_new n input g ev d s k db = Inr (x, db')"
    and ev: "\<not> settlesLegacyUnattributedAttempt ev" "ev_zeroAttempt ev \<noteq> None \<Longrightarrow> ev_attempt ev = None"
    and s: "s \<Longrightarrow> resolution d = External_current_live"
  obtains row db1 db2 fs where "persistObservationAndHead n input g d k db = Inr (row, db1)"
    "x = resultFromRow row False"
    "db' = record_facts (fs @ (if resolution d \<noteq> R_unchanged then [observed_fact_of input d k] else [])) db2"
    "\<And>f. F_observed f \<notin> set fs"
    "db2 = remove_mirror input db1 \<and> \<not> (resolution d = Confirmed_on_google \<and> ev_internal ev \<noteq> None \<and> ev_attempt ev \<noteq> None)
     \<or> (\<exists>i a e. resolution d = External_current_live \<and> ev_internal ev = Some i \<and> ev_attempt ev = Some a
          \<and> supersedeExternalCurrentAttempt input i a (remove_mirror input db1) = Inr (e, db2))
     \<or> (\<exists>i c e. ev_internal ev = Some i \<and> ev_zeroAttempt ev = Some c
          \<and> cancelZeroAttemptAuthorization input i c (remove_mirror input db1) = Inr (e, db2))
     \<or> (\<exists>i a e. resolution d = Confirmed_on_google \<and> ev_internal ev = Some i \<and> ev_attempt ev = Some a
          \<and> confirmReplyOnGoogle input i a k (remove_mirror input db1) = Inr (e, db2))"
proof -
  from res obtain row db1 where p: "persistObservationAndHead n input g d k db = Inr (row, db1)"
    by (auto simp: record_new_def split: sum.splits)
  let ?dm = "remove_mirror input db1"
  from res p obtain fo db2 where st: "settleSupersededPublication input ev s ?dm = Inr (fo, db2)"
    by (auto simp: record_new_def split: sum.splits)
  let ?c = "resolution d = Confirmed_on_google \<and> ev_internal ev \<noteq> None \<and> ev_attempt ev \<noteq> None"
  show ?thesis
  proof (cases ?c)
    case False
    then have "x = resultFromRow row False"
      "db' = record_facts ((case fo of None \<Rightarrow> [] | Some f \<Rightarrow> [f])
         @ (if resolution d \<noteq> R_unchanged then [observed_fact_of input d k] else [])) db2"
      using res p st by (auto simp: record_new_def)
    moreover have "F_observed f \<notin> set (case fo of None \<Rightarrow> [] | Some f \<Rightarrow> [f])" for f
      using st ev by (cases rule: settleSuperseded_cases)
        (auto simp: providerTruthCancellationFact_def dest!: settling_facts)
    ultimately have *: "x = resultFromRow row False"
      "db' = record_facts ((case fo of None \<Rightarrow> [] | Some f \<Rightarrow> [f])
         @ (if resolution d \<noteq> R_unchanged then [observed_fact_of input d k] else [])) db2"
      "\<And>f. F_observed f \<notin> set (case fo of None \<Rightarrow> [] | Some f \<Rightarrow> [f])" by blast+
    from st ev that[OF p *] False s show ?thesis
      by (cases rule: settleSuperseded_cases) auto
  next
    case True
    then obtain i a where i: "ev_internal ev = Some i" "ev_attempt ev = Some a" by blast
    have "\<not> s" using s True by auto
    with st ev i have db2: "db2 = ?dm" "fo = None" by (cases rule: settleSuperseded_cases; auto)+
    from res p st True i db2 obtain e db3 where c: "confirmReplyOnGoogle input i a k ?dm = Inr (e, db3)"
      by (auto simp: record_new_def split: sum.splits)
    with res p st True i db2 have "x = resultFromRow row False"
      "db' = record_facts ([e] @ (if resolution d \<noteq> R_unchanged then [observed_fact_of input d k] else [])) db3"
      by (simp_all add: record_new_def)
    moreover have "F_observed f \<notin> set [e]" for f using settling_facts(3)[OF c] by auto
    ultimately have *: "x = resultFromRow row False"
      "db' = record_facts ([e] @ (if resolution d \<noteq> R_unchanged then [observed_fact_of input d k] else [])) db3"
      "\<And>f. F_observed f \<notin> set [e]" by blast+
    from that[OF p *] c True i show ?thesis by blast
  qed
qed

lemma record_facts_sel [simp]:
  "replies (record_facts fs db) = replies db" "attempts (record_facts fs db) = attempts db"
  "authorizations (record_facts fs db) = authorizations db"
  "same_rest (record_facts fs db) = same_rest db"
  by (induction fs arbitrary: db; simp add: record_facts_def insertOutboxRow_def same_rest_def fun_eq_iff)+

lemma record_facts_inv [simp]: "store_inv nfc (record_facts fs db) = store_inv nfc db"
  by (induction fs arbitrary: db) (simp_all add: record_facts_def)

lemma remove_mirror_inv:
  assumes inv: "store_inv nfc db"
  shows "store_inv nfc (remove_mirror input db)"
proof (rule store_inv_entry[OF inv, where e = None])
  show "own_attempts db (reply_id row) = [] \<and> own_authorizations db (reply_id row) = []"
    if "replies db (ro_organizationId input, ro_reviewId input, Google_sync) = Some row"
      "reply_source row = Internal" for row
    using rows_inv_parts(1)[OF store_inv_rows[OF inv] that(1)] that(2) by (simp add: reply_key_def)
qed (simp_all add: remove_mirror_def)

lemma record_inv:
  assumes inv: "store_inv nfc db" and res: "recordObservation nfc n input db = Inr (x, db')"
  shows "store_inv nfc db'"
  using res
proof (cases rule: recordObservation_cases)
  case (recorded g ev d)
  from recorded(1) obtain v where ev: "loadPublicationEvidence db input = Inr ev"
    and v: "lockObservationSubject db input = Inr v"
    and newer: "newer_than_head input (selectCurrentHead db input)"
    by (auto simp: recorded_decision_def)
  note ef = evidence_facts[OF inv v ev]
  have s: "resolution d = External_current_live"
    if "supersedesCurrentAttempt (resolution d) (readPublicationCandidate db (ev_internal ev) (ev_attempt ev)) input"
    using that by (simp add: supersedesCurrentAttempt_def)
  show ?thesis
  proof (rule record_new_cases[OF recorded(2) ef(1,2) s])
  fix row db1 db2 fs
  assume p: "persistObservationAndHead n input g d (head_revision_of (selectCurrentHead db input) + 1) db = Inr (row, db1)"
    and db': "db' = record_facts (fs @ (if resolution d \<noteq> R_unchanged
        then [observed_fact_of input d (head_revision_of (selectCurrentHead db input) + 1)] else [])) db2"
    and cases: "db2 = remove_mirror input db1 \<and> \<not> (resolution d = Confirmed_on_google \<and> ev_internal ev \<noteq> None \<and> ev_attempt ev \<noteq> None)
     \<or> (\<exists>i a e. resolution d = External_current_live \<and> ev_internal ev = Some i \<and> ev_attempt ev = Some a
          \<and> supersedeExternalCurrentAttempt input i a (remove_mirror input db1) = Inr (e, db2))
     \<or> (\<exists>i c e. ev_internal ev = Some i \<and> ev_zeroAttempt ev = Some c
          \<and> cancelZeroAttemptAuthorization input i c (remove_mirror input db1) = Inr (e, db2))
     \<or> (\<exists>i a e. resolution d = Confirmed_on_google \<and> ev_internal ev = Some i \<and> ev_attempt ev = Some a
          \<and> confirmReplyOnGoogle input i a (head_revision_of (selectCurrentHead db input) + 1)
               (remove_mirror input db1) = Inr (e, db2))"
  have inv1: "store_inv nfc (remove_mirror input db1)"
    by (rule remove_mirror_inv[OF persist_inv[OF inv v newer p]])
  have same: "replies (remove_mirror input db1) (reply_key i) = Some i"
    if "ev_internal ev = Some i" for i
    using ef(4)[OF that] persist_effect(2)[OF p] by (simp add: remove_mirror_def)
  have "store_inv nfc db2"
    using cases
  proof (elim disjE exE conjE)
    assume "db2 = remove_mirror input db1"
    with inv1 show ?thesis by simp
  next
    fix i a e assume i: "ev_internal ev = Some i" and a: "ev_attempt ev = Some a"
      and r: "supersedeExternalCurrentAttempt input i a (remove_mirror input db1) = Inr (e, db2)"
    show ?thesis
      by (rule supersede_external_inv[OF inv1 _ _ r]) (use ef(3)[OF i a] ef(4)[OF i] in simp_all)
  next
    fix i c e assume i: "ev_internal ev = Some i"
      and r: "cancelZeroAttemptAuthorization input i c (remove_mirror input db1) = Inr (e, db2)"
    show ?thesis by (rule cancel_zero_inv[OF inv1 _ r]) (use ef(4)[OF i] in simp)
  next
    fix i a e assume i: "ev_internal ev = Some i" and a: "ev_attempt ev = Some a"
      and r: "confirmReplyOnGoogle input i a (head_revision_of (selectCurrentHead db input) + 1)
        (remove_mirror input db1) = Inr (e, db2)"
    show ?thesis
      by (rule confirm_inv[OF inv1 _ _ _ r]) (use ef(3)[OF i a] ef(4)[OF i] same[OF i] in simp_all)
  qed
  with db' show ?thesis by simp
  qed
qed (use inv renew_inv in auto)

text \<open>Erasing the text of observations, and changing what is not theirs.\<close>

lemma elsewhere_inv:
  assumes inv: "store_inv nfc db"
    and ref: "references_ok (reviews e) (attempts db) (observations db)"
  shows "store_inv nfc (elsewhere e ids db)"
proof -
  let ?f = "\<lambda>o'. if ob_id o' \<in> set ids then erase_content o' else o'"
  have f: "keeps_place ?f" by (simp add: keeps_place_def erase_content_def)
  have "rows_inv nfc (elsewhere e ids db) = rows_inv nfc db"
    by (rule rows_inv_cong) (simp_all add: elsewhere_def)
  then show ?thesis
    using inv heads_inv_map[OF _ f] references_ok_map[OF ref f]
    by (simp add: store_inv_def elsewhere_def)
qed

section \<open>The machine\<close>

lemma void_ok: "void t = Inr db' \<longleftrightarrow> (\<exists>x. t = Inr (x, db'))"
  by (auto simp: void_def split: sum.splits)

lemma exec_inv:
  assumes inv: "store_inv nfc db" and adm: "admissible c db" and res: "exec nfc actor c db = Inr db'"
  shows "store_inv nfc db'"
proof -
  have src: "\<forall>r \<in> set (snapshots c). reply_source r = Internal"
    using adm by (simp add: admissible_def)
  note rules = defer_observation_inv[OF inv] requeue_inv[OF inv] reschedule_inv[OF inv]
    settle_inv[OF inv] accepted_inv[OF inv] fail_terminal_inv[OF inv] fail_ambiguous_inv[OF inv]
    claim_inv[OF inv] authorized_inv[OF inv] edit_inv[OF inv] delete_inv[OF inv]
  show ?thesis
  proof (cases c)
    case (Create r)
    with res adm create_inv[OF inv] show ?thesis by (auto simp: void_ok admissible_def)
  next
    case (Save r t d)
    with res obtain x where "guardedReplyUpdate r C_save_draft (no_update\<lparr>u_text := Some t,
        u_status := Some S_draft, u_rejectedBy := Some None, u_rejectionReason := Some None\<rparr>) d db
        = (x, db')"
      by (auto simp: void_ok saveDraft_def)
    with Save src show ?thesis
      by (intro idle_update_inv[OF inv, of r C_save_draft]) (auto simp: no_update_def)
  next
    case (Submit r u f d)
    with res obtain x where "transition r C_submit (no_update\<lparr>u_status := Some S_pending_approval,
        u_submittedAt := Some (Some d), u_submittedBy := Some (Some u)\<rparr>) (Some f) d db = Inr (x, db')"
      by (auto simp: void_ok submitReply_def)
    with Submit src show ?thesis
      by (intro transition_inv[OF inv, of r C_submit]) (auto simp: no_update_def)
  next
    case (Reject r u t f d)
    with res obtain x where "transition r C_reject (no_update\<lparr>u_status := Some S_rejected,
        u_rejectedBy := Some (Some u), u_rejectionReason := Some t\<rparr>) (Some f) d db = Inr (x, db')"
      by (auto simp: void_ok rejectReply_def)
    with Reject src show ?thesis
      by (intro transition_inv[OF inv, of r C_reject]) (auto simp: no_update_def)
  next
    case (Defer_send r d e)
    with res src rules show ?thesis by (auto simp: void_ok deferUncertainSend_def)
  next
    case (Reschedule r d e)
    with res src rules show ?thesis by (auto simp: void_ok rescheduleAmbiguousReconciliation_def)
  next
    case (Cancel cs)
    with res src cancel_inv[OF inv] show ?thesis by (auto simp: void_ok)
  next
    case (Observe i n)
    with res record_inv[OF inv] show ?thesis by (auto simp: void_ok)
  next
    case (Mirror m v org f d)
    then have adm': "reply_source r = Google_sync
      \<and> (\<forall>k row. k \<noteq> reply_key r \<and> replies db k = Some row \<longrightarrow> reply_id row \<noteq> reply_id r)"
      if "m = Some r" for r
      using adm that by (simp add: admissible_def)
    from Mirror res obtain x where "mirrorSyncedReply m v org f d db = Inr (x, db')"
      by (auto simp: void_ok)
    then show ?thesis by (rule mirror_inv[OF inv, rotated]) (rule adm')
  next
    case (Elsewhere e ids)
    with res have db': "db' = elsewhere e ids db" by simp
    have ref: "references_ok (reviews e) (attempts db) (observations db)"
      using adm Elsewhere by (simp add: admissible_def)
    show ?thesis unfolding db' by (rule elsewhere_inv[OF inv ref])
  qed (use res src rules in \<open>auto simp: void_ok\<close>)
qed

lemma store_step_inv:
  assumes "store_inv nfc db" "store_step nfc actor db c = Some db'"
  shows "store_inv nfc db'"
  using assms exec_inv by (auto simp: store_step_def split: if_splits sum.splits)

interpretation store: guarded_machine "store_step nfc actor" "store_inv nfc"
  by unfold_locales (rule store_step_inv)

end
