(* ===== verification/ReplyRuns.thy ===== *)
theory ReplyRuns
  imports ObservationInvariant
begin

text \<open>
  What the reply command store promises. First the effect of each command on the row of its
  snapshot: it writes only when the row still is what the snapshot says (\<open>fresh\<close>), and moves the
  publication state along the transition table. Then the claims: the agreement of status and
  publication state, one attempt in flight under the authorized text, the loss of a stale
  snapshot, and the moves a publication state makes.
\<close>

section \<open>Effects\<close>

text \<open>A snapshot a row can have had.\<close>

definition snapshot_ok :: "reply \<Rightarrow> bool" where
  "snapshot_ok r = (pair_ok (status r) (publicationState r) \<and> 0 \<le> publicationCycle r)"

definition fresh :: "reply \<Rightarrow> reply \<Rightarrow> bool" where
  "fresh r row = (publicationState row = publicationState r
     \<and> (snapshot_ok r \<longrightarrow> status row = status r \<and> publicationCycle row = publicationCycle r))"

text \<open>A move of the transition table that does not publish, or none.\<close>

definition moves :: "publication_state option \<Rightarrow> publication_state option \<Rightarrow> bool" where
  "moves p q = (p = q \<or> (\<exists>e. e \<noteq> E_publish \<and> q \<noteq> None \<and> nextPublicationState p e = q))"

definition effect ::
  "reply \<Rightarrow> (publication_state option \<Rightarrow> publication_state option \<Rightarrow> bool) \<Rightarrow> reply_db \<Rightarrow> reply_db \<Rightarrow> bool"
where
  "effect r mv db db' =
     (db' = db
      \<or> (\<exists>row row'. replies db (reply_key r) = Some row \<and> fresh r row
           \<and> replies db' = (replies db)(reply_key r := row')
           \<and> (\<forall>x. row' = Some x \<longrightarrow> mv (publicationState row) (publicationState x))))"

lemma effect_refl [simp]: "effect r mv db db"
  by (simp add: effect_def)

lemma replies_fact [simp]: "replies (record_fact f db) = replies db"
  "replies (insertOutboxRow e db) = replies db"
  by (cases f; simp add: record_fact_def insertOutboxRow_def) (simp add: insertOutboxRow_def)

lemma updateCurrentAttempt_replies:
  "updateCurrentAttempt r f fo db = Inr db' \<Longrightarrow> replies db' = replies db"
  by (auto dest: updateCurrentAttempt_effect)

lemma moves_event: "nextPublicationState p e = Some q \<Longrightarrow> e \<noteq> E_publish \<Longrightarrow> moves p (Some q)"
  by (auto simp: moves_def)

lemma publication_write:
  assumes gu: "guardedPublicationUpdate r st allowed f db = (Some x, db1)"
    and st: "st = status r \<or> st = S_approved \<and> set allowed \<subseteq> {P_authorized, P_sending, P_pending_observation}"
  obtains row s where "replies db (reply_key r) = Some row" "fresh r row"
    "publicationState row = Some s" "publicationState r = Some s" "s \<in> set allowed"
    "x = revision_trigger row (f row)" "replies db1 = (replies db)(reply_key r := Some x)"
  using gu
proof (cases rule: guardedPublicationUpdate_cases)
  case (wrote row s)
  have "snapshot_ok r \<longrightarrow> status row = status r"
    using st wrote by (cases "status r") (auto simp: snapshot_ok_def)
  with wrote show thesis by (intro that[of row s]) (auto simp: fresh_def)
qed simp

lemma guarded_missed:
  "guardedPublicationUpdate r st allowed f db = (None, db1) \<Longrightarrow> db1 = db"
  by (cases rule: guardedPublicationUpdate_cases) auto

lemma effect_publication:
  assumes gu: "guardedPublicationUpdate r st allowed f db = (y, db1)"
    and db': "y = None \<Longrightarrow> db' = db" "\<And>x. y = Some x \<Longrightarrow> replies db' = replies db1"
    and st: "st = status r \<or> st = S_approved \<and> set allowed \<subseteq> {P_authorized, P_sending, P_pending_observation}"
    and mv: "\<And>row s. publicationState row = Some s \<Longrightarrow> publicationState r = Some s \<Longrightarrow> s \<in> set allowed \<Longrightarrow>
      mv (Some s) (publicationState (f row))"
  shows "effect r mv db db'"
proof (cases y)
  case None
  with db' show ?thesis by simp
next
  case (Some x)
  with gu have "guardedPublicationUpdate r st allowed f db = (Some x, db1)" by simp
  from this st obtain row s where "replies db (reply_key r) = Some row" "fresh r row"
    "publicationState row = Some s" "publicationState r = Some s" "s \<in> set allowed"
    "x = revision_trigger row (f row)" "replies db1 = (replies db)(reply_key r := Some x)"
    by (rule publication_write)
  with mv db'(2)[OF Some] show ?thesis
    unfolding effect_def by (intro disjI2 exI[of _ row] exI[of _ "Some x"]) auto
qed

lemma effect_reply:
  assumes gu: "guardedReplyUpdate r c u d db = (y, db1)"
    and db': "y = None \<Longrightarrow> db' = db" "\<And>x. y = Some x \<Longrightarrow> replies db' = replies db1"
    and mv: "\<And>p. replyCommandMayStart c r \<Longrightarrow> p = publicationState r \<Longrightarrow>
      mv p (set_or (u_publicationState u) p)"
  shows "effect r mv db db'"
  using gu
proof (cases rule: guardedReplyUpdate_cases)
  case missed
  with db' show ?thesis by simp
next
  case (wrote row u')
  have "fresh r row" "publicationState row = publicationState r"
    using wrote by (simp_all add: fresh_def replySnapshotWhere_def)
  moreover have "replies db' = (replies db)(reply_key r := Some (revision_trigger row (buildReplySetClause u' d row)))"
    using db'(2) wrote by simp
  moreover have "u_publicationState u' = u_publicationState u" using wrote(6) by simp
  ultimately show ?thesis
    unfolding effect_def using wrote mv by fastforce
qed

lemma publicationTransition_effect:
  assumes res: "publicationTransition r ev allowed sc ef now after db = Inr (x, db')"
    and shape: "\<And>target f row. sc target now = Inr f \<Longrightarrow> publicationState (f row) = Some target"
    and after: "\<And>saved db1 db2. after saved now db1 = Inr db2 \<Longrightarrow> replies db2 = replies db1"
    and ev: "ev \<noteq> E_publish"
  shows "effect r moves db db'"
proof (cases "nextStateOrNull r ev")
  case None
  with res show ?thesis by (simp add: publicationTransition_def)
next
  case (Some target)
  then obtain f where f: "sc target now = Inr f"
    using res by (auto simp: publicationTransition_def split: sum.splits)
  obtain y db1 where gu: "guardedPublicationUpdate r (status r) allowed f db = (y, db1)"
    by fastforce
  show ?thesis
  proof (rule effect_publication[OF gu])
    assume "y = None"
    moreover from gu this have "db1 = db" by (cases rule: guardedPublicationUpdate_cases) auto
    ultimately show "db' = db" using res gu f Some by (simp add: publicationTransition_def)
  next
    fix s assume "y = Some s"
    then obtain db2 where "after s now db1 = Inr db2" "db' = record_fact ef db2"
      using res gu f Some by (auto simp: publicationTransition_def split: sum.splits)
    with after show "replies db' = replies db1" by simp
  next
    fix row s assume "publicationState r = Some s"
    with Some show "moves (Some s) (publicationState (f row))"
      using ev by (auto simp: shape[OF f] moves_def nextStateOrNull_def)
  qed simp
qed

lemma accepted_effect:
  assumes "markProviderOutcomePendingObservation r c d e db = Inr (x, db')"
  shows "effect r moves db db'"
  using assms unfolding markProviderOutcomePendingObservation_def
  by (rule publicationTransition_effect) (auto dest: updateCurrentAttempt_replies)

lemma fail_terminal_effect:
  assumes "markPublicationTerminal r c ef d db = Inr (x, db')"
  shows "effect r moves db db'"
  using assms unfolding markPublicationTerminal_def
  by (rule publicationTransition_effect) (auto dest: updateCurrentAttempt_replies split: if_splits)

lemma fail_ambiguous_effect:
  assumes "markPublicationAmbiguous r ef d due db = Inr (x, db')"
  shows "effect r moves db db'"
  using assms unfolding markPublicationAmbiguous_def
  by (rule publicationTransition_effect)
     (auto dest: updateCurrentAttempt_replies split: sum.splits option.splits)

lemma guarded_reply_missed: "guardedReplyUpdate r c u d db = (None, db1) \<Longrightarrow> db1 = db"
  by (cases rule: guardedReplyUpdate_cases) auto

lemma defer_observation_effect:
  assumes "deferPendingPublicationObservation r d db = Inr (x, db')"
  shows "effect r moves db db'"
proof (cases "publicationState r = Some P_pending_observation")
  case True
  with assms have gu: "guardedPublicationUpdate r S_approved [P_pending_observation]
      (\<lambda>row. row\<lparr>reconcileDueAt := Some (due_after d PROVIDER_OBSERVATION_RECONCILE_DELAY_MS),
        updatedAt := d\<rparr>) db = (x, db')"
    by (simp add: deferPendingPublicationObservation_def)
  then have "x = None \<Longrightarrow> db' = db" by (simp add: guarded_missed)
  then show ?thesis
    by (intro effect_publication[OF gu]) (auto simp: moves_def)
qed (use assms in \<open>simp add: deferPendingPublicationObservation_def\<close>)

lemma requeue_effect:
  assumes res: "markPublicationRetryQueued r d db = Inr (x, db')"
  shows "effect r moves db db'"
proof (cases "nextStateOrNull r E_requeue")
  case (Some target)
  let ?f = "\<lambda>row. row\<lparr>publicationState := Some target,
      reconcileDueAt := Some (due_after d PUBLICATION_RECOVERY_RECONCILE_DELAY_MS), updatedAt := d\<rparr>"
  obtain y db1 where gu: "guardedPublicationUpdate r S_approved [P_sending] ?f db = (y, db1)"
    by fastforce
  show ?thesis
  proof (rule effect_publication[OF gu])
    show "db' = db" if "y = None"
      using res gu Some that guarded_missed[of r _ _ ?f db db1] by (auto simp: markPublicationRetryQueued_def)
    show "replies db' = replies db1" if "y = Some s" for s
      using res gu Some that
      by (auto simp: markPublicationRetryQueued_def dest: updateCurrentAttempt_replies split: sum.splits)
    show "moves (Some s) (publicationState (?f row))"
      if "publicationState r = Some s" for row s
      using Some that by (auto simp: nextStateOrNull_def intro: moves_event[of _ E_requeue])
  qed simp
qed (use res in \<open>simp add: markPublicationRetryQueued_def\<close>)

lemma effect_uncertain:
  assumes snap: "uncertainSnapshotFor r allowed = Some s"
    and u: "updateReplyWhere r (uncertainAttemptWhere r s) f db = (y, db1)"
    and db': "y = None \<Longrightarrow> db' = db" "\<And>x. y = Some x \<Longrightarrow> db' = db \<or> replies db' = replies db1"
    and mv: "\<And>row. publicationState row = publicationState r \<Longrightarrow> moves (publicationState r) (publicationState (f row))"
  shows "effect r moves db db'"
  using u
proof (cases rule: updateReplyWhere_cases)
  case missed
  with db' show ?thesis by simp
next
  case (wrote row)
  have "us_status s = status r" "Some (us_publicationState s) = publicationState r"
    using snap by (auto simp: uncertainSnapshotFor_def find_Some_iff)
  with wrote(3) have "fresh r row" "publicationState row = publicationState r"
    by (simp_all add: fresh_def uncertainAttemptWhere_def)
  with db'(2)[OF wrote(4)] mv wrote show ?thesis
    unfolding effect_def by fastforce
qed

lemma reschedule_effect:
  assumes "reschedule allowed r due d db = Inr (x, db')"
  shows "effect r moves db db'"
proof (cases "uncertainSnapshotFor r allowed")
  case (Some s)
  with assms have u: "updateReplyWhere r (uncertainAttemptWhere r s)
      (\<lambda>row. row\<lparr>reconcileDueAt := Some due, updatedAt := d\<rparr>) db = (x, db')"
    by (auto simp: reschedule_def casUncertainAttempt_def split: sum.splits)
  have "x = None \<Longrightarrow> db' = db" using u by (cases rule: updateReplyWhere_cases) auto
  then show ?thesis
    by (intro effect_uncertain[OF Some u]) (auto simp: moves_def)
qed (use assms in \<open>simp add: reschedule_def\<close>)

lemma settle_effect:
  assumes res: "settleNeverDispatchedAttempt r ev d db = Inr (x, db')"
  shows "effect r moves db db'"
proof (cases "uncertainSnapshotFor r NEVER_DISPATCHED_SETTLEABLE")
  case (Some s)
  let ?f = "\<lambda>row. row\<lparr>status := S_publish_failed, publicationState := Some P_terminal,
      publicationLastErrorClass := Some Retryable, reconcileDueAt := None, updatedAt := d\<rparr>"
  obtain y db1 where u: "updateReplyWhere r (uncertainAttemptWhere r s) ?f db = (y, db1)"
    by fastforce
  have none: "y = None \<Longrightarrow> db1 = db" using u by (cases rule: updateReplyWhere_cases) auto
  have "publicationState r \<in> {Some P_sending, Some P_ambiguous, Some P_terminal}"
    using Some by (auto simp: uncertainSnapshotFor_def NEVER_DISPATCHED_SETTLEABLE_def split: if_splits)
  then have mv: "moves (publicationState r) (Some P_terminal)"
    by (auto simp: moves_def intro: exI[of _ E_fail_terminal])
  show ?thesis
  proof (rule effect_uncertain[OF Some u])
    show "db' = db" if "y = None"
      using res Some u none[OF that] that
      by (auto simp: settleNeverDispatchedAttempt_def casUncertainAttempt_def
          split: if_splits sum.splits option.splits)
    show "db' = db \<or> replies db' = replies db1" if "y = Some z" for z
      using res Some u that
      by (auto simp: settleNeverDispatchedAttempt_def casUncertainAttempt_def
          dest: updateCurrentAttempt_replies split: if_splits sum.splits option.splits)
  qed (use mv in simp)
qed (use res in \<open>simp add: settleNeverDispatchedAttempt_def\<close>)

text \<open>A cancellation: to cancelled, from a state that has a cancel event.\<close>

definition cancels :: "publication_state option \<Rightarrow> publication_state option \<Rightarrow> bool" where
  "cancels p q = (p = q \<or> q = Some P_cancelled \<and> nextPublicationState p E_cancel = Some P_cancelled)"

lemma cancels_moves: "cancels p q \<Longrightarrow> moves p q"
  by (auto simp: cancels_def moves_def)

lemma cancels_trans: "cancels p q \<Longrightarrow> cancels q s \<Longrightarrow> cancels p s"
  by (auto simp: cancels_def)

lemma effect_mono:
  "effect r mv db db' \<Longrightarrow> (\<And>p q. mv p q \<Longrightarrow> mw p q) \<Longrightarrow> effect r mw db db'"
  unfolding effect_def by blast

lemma supersede_current_replies:
  "supersede_current row t db = Inr db' \<Longrightarrow> replies db' = replies db"
  by (auto simp: supersede_current_def dest: updateCurrentAttempt_replies split: if_splits)

lemma cancel_effect:
  assumes c: "cancelledPublication r = Some c"
    and gu: "guardedPublicationUpdate r st allowed (cancelled_set c t) db = (y, db1)"
    and db': "y = None \<Longrightarrow> db' = db" "\<And>x. y = Some x \<Longrightarrow> replies db' = replies db1"
    and st: "st = status r \<or> st = S_approved \<and> set allowed \<subseteq> {P_authorized, P_sending, P_pending_observation}"
  shows "effect r cancels db db'"
proof (rule effect_publication[OF gu db' st])
  show "cancels (Some s) (publicationState (cancelled_set c t row))" if "publicationState r = Some s" for row s
    using c that by (auto simp: cancelledPublication_def cancelled_set_def apply_cancellation_def
        cancels_def Let_def split: if_splits)
qed

lemma purge_keeps_state:
  assumes row: "replies db (reply_key r) = Some row"
  obtains row' where "replies (purgeAiDraftsForReview r t db) = (replies db)(reply_key r := Some row')"
    "publicationState row' = publicationState row"
proof -
  obtain y db1 where u: "updateReplyWhere r (\<lambda>row. aiGenerated row \<and> publicationState row = Some P_cancelled
          \<and> status row \<in> {S_draft, S_pending_approval, S_rejected})
       (\<lambda>row. row\<lparr>status := S_draft, publicationState := Some P_cancelled,
                   publicationLastErrorClass := None, reconcileDueAt := None,
                   rejectedBy := None, rejectionReason := None, reply_text := [],
                   aiGenerated := False, updatedAt := t\<rparr>) db = (y, db1)"
    by fastforce
  then have db1: "purgeAiDraftsForReview r t db = db1"
    by (simp add: purgeAiDraftsForReview_def)
  from u show thesis
  proof (cases rule: updateReplyWhere_cases)
    case missed
    with db1 row show thesis by (intro that[of row]) auto
  next
    case (wrote old)
    with row db1 show thesis by (intro that[of "the y"]) auto
  qed
qed

text \<open>Every row is stored under its own key.\<close>

definition keyed :: "reply_db \<Rightarrow> bool" where
  "keyed db = (\<forall>k row. replies db k = Some row \<longrightarrow> reply_key row = k)"

lemma cancel_unclaimable_effect:
  assumes res: "cancelUnclaimablePublication r p t cause db = Inr (x, db')" and keyed: "keyed db"
  shows "effect r cancels db db'"
proof (cases "cancelledPublication r")
  case (Some c)
  obtain y db1 where gu:
    "guardedPublicationUpdate r S_approved [P_authorized] (cancelled_set c t) db = (y, db1)"
    by fastforce
  show ?thesis
  proof (cases y)
    case None
    with guarded_missed gu have "db1 = db" by blast
    with res gu Some None show ?thesis by (simp add: cancelUnclaimablePublication_def)
  next
    case (Some row')
    note some = this
    from res gu some \<open>cancelledPublication r = Some c\<close>
    obtain db2 where s: "supersede_current row' t db1 = Inr db2"
      and db': "db' = (let db3 = insertOutboxRow (cancellation_fact row' p cause) db2 in
          if cause = Ai_draft_withdrawn then purgeAiDraftsForReview row' t db3 else db3)"
      by (auto simp: cancelUnclaimablePublication_def Let_def split: sum.splits)
    let ?db3 = "insertOutboxRow (cancellation_fact row' p cause) db2"
    from gu some have "guardedPublicationUpdate r S_approved [P_authorized] (cancelled_set c t) db = (Some row', db1)"
      by simp
    then obtain row z where row: "replies db (reply_key r) = Some row" "fresh r row"
      "publicationState row = Some z" "publicationState r = Some z"
      "row' = revision_trigger row (cancelled_set c t row)"
      "replies db1 = (replies db)(reply_key r := Some row')"
      by (rule publication_write) auto
    have mv: "cancels (publicationState row) (publicationState row')"
      using \<open>cancelledPublication r = Some c\<close> row(3-5)
      by (auto simp: cancelledPublication_def cancelled_set_def apply_cancellation_def
        cancels_def Let_def split: if_splits)
    have "reply_key row = reply_key r"
      using keyed row(1) unfolding keyed_def by blast
    with row(5) have key: "reply_key row' = reply_key r"
      by (simp add: reply_key_def cancelled_set_def apply_cancellation_def)
    have r3: "replies ?db3 = (replies db)(reply_key r := Some row')"
      using supersede_current_replies[OF s] row(6) by simp
    with key have "replies ?db3 (reply_key row') = Some row'" by simp
    then obtain row'' where p: "replies (purgeAiDraftsForReview row' t ?db3)
        = (replies ?db3)(reply_key row' := Some row'')" "publicationState row'' = publicationState row'"
      by (rule purge_keeps_state)
    have "replies db' = (replies db)(reply_key r := Some (if cause = Ai_draft_withdrawn then row'' else row'))"
      using db' p(1) r3 key by (cases "cause = Ai_draft_withdrawn") (simp_all add: Let_def)
    with row(1,2) mv p(2) show ?thesis
      unfolding effect_def by (intro disjI2 exI[of _ row] exI conjI) auto
  qed
qed (use res in \<open>simp add: cancelUnclaimablePublication_def\<close>)

lemma claim_effect:
  assumes res: "markPublicationSending nfc actor r attempt d db = Inr (x, db')" and keyed: "keyed db"
  shows "effect r moves db db'"
proof (cases "nextStateOrNull r E_claim")
  case (Some target)
  consider "db' = db"
    | p cause where "cancelUnclaimablePublication r p d cause db = Inr (x, db')"
    | scope a where "claim_write r attempt a scope target d db = Inr (x, db')"
    using res Some
    by (auto simp: markPublicationSending_def Let_def split: if_splits option.splits)
  then show ?thesis
  proof cases
    case 2
    then show ?thesis
      by (intro effect_mono[OF cancel_unclaimable_effect[OF _ keyed]] cancels_moves)
  next
    case 3
    let ?f = "\<lambda>row. row\<lparr>publicationState := Some target,
        publicationAttempts := publicationAttempts row + 1,
        reconcileDueAt := Some (due_after d PUBLICATION_RECOVERY_RECONCILE_DELAY_MS), updatedAt := d\<rparr>"
    obtain y db1 where gu: "guardedPublicationUpdate r S_approved [P_authorized] ?f db = (y, db1)"
      by fastforce
    show ?thesis
    proof (rule effect_publication[OF gu])
      show "db' = db" if "y = None"
        using 3 gu that guarded_missed[of r _ _ ?f db db1] by (simp add: claim_write_def)
      show "replies db' = replies db1" if "y = Some z" for z
        using 3 gu that by (auto simp: claim_write_def insertAttempt_def split: sum.splits if_splits)
      show "moves (Some s) (publicationState (?f row))" if "publicationState r = Some s" for row s
        using Some that by (auto simp: nextStateOrNull_def intro: moves_event[of _ E_claim])
    qed simp
  qed simp
qed (use res in \<open>simp add: markPublicationSending_def\<close>)

lemma reply_write:
  assumes gu: "guardedReplyUpdate r c u d db = (Some x, db1)"
  obtains row where "replies db (reply_key r) = Some row" "fresh r row"
    "publicationState row = publicationState r" "replyCommandMayStart c r"
    "publicationState x = set_or (u_publicationState u) (publicationState row)"
    "replies db1 = (replies db)(reply_key r := Some x)"
  using gu
proof (cases rule: guardedReplyUpdate_cases)
  case (wrote row u')
  then have "fresh r row" "publicationState row = publicationState r"
    by (simp_all add: fresh_def replySnapshotWhere_def)
  with wrote show thesis by (intro that[of row]) auto
qed simp

lemma authorize_cycle_cases:
  assumes cmd: "cmd \<in> {C_approve, C_retry_publication, C_edit_published}"
    and mv: "replyCommandMayStart cmd r \<Longrightarrow> mv (publicationState r) (Some P_authorized)"
    and res: "authorizePublicationCycle nfc actor r cmd i c u d db = Inr (x, db')"
  shows "x = None \<and> db' = db \<or>
    (\<exists>row z. replies db (reply_key r) = Some row \<and> fresh r row
       \<and> replies db' = (replies db)(reply_key r := Some z) \<and> mv (publicationState row) (publicationState z))"
proof -
  let ?u = "u\<lparr>u_publicationState := Some (Some P_authorized), u_publicationCycle := Some (num_int c),
      u_publicationAttempts := Some 0, u_publicationLastErrorClass := Some None,
      u_reconcileDueAt := Some (Some (due_after d PUBLICATION_RECOVERY_RECONCILE_DELAY_MS))\<rparr>"
  obtain y db1 where gu: "guardedReplyUpdate r cmd ?u d db = (y, db1)" by fastforce
  consider "x = None" "db' = db" | "y = None" "x = None" "db' = db1"
    | z a where "y = Some z" "insertAuthorization a db1 = Inr db'"
    using res gu
    by (auto simp: authorizePublicationCycle_def split: option.splits if_splits sum.splits)
  then show ?thesis
  proof cases
    case 2
    with gu guarded_reply_missed show ?thesis by metis
  next
    case 3
    with gu have "guardedReplyUpdate r cmd ?u d db = (Some z, db1)" by simp
    then obtain row where "replies db (reply_key r) = Some row" "fresh r row"
      "publicationState row = publicationState r" "replyCommandMayStart cmd r"
      "publicationState z = set_or (u_publicationState ?u) (publicationState row)"
      "replies db1 = (replies db)(reply_key r := Some z)"
      by (rule reply_write)
    moreover have "replies db' = replies db1"
      using 3 by (auto simp: insertAuthorization_def split: if_splits)
    ultimately show ?thesis using mv by auto
  qed simp
qed

lemma recorded_cycle_effect:
  assumes cmd: "cmd \<in> {C_approve, C_retry_publication, C_edit_published}"
    and mv: "replyCommandMayStart cmd r \<Longrightarrow> mv (publicationState r) (Some P_authorized)"
    and res: "then_record f g (authorizePublicationCycle nfc actor r cmd i c u d) db = Inr (x, db')"
  shows "effect r mv db db'"
proof -
  obtain y db1 where y: "authorizePublicationCycle nfc actor r cmd i c u d db = Inr (y, db1)"
    using res by (auto simp: then_record_def split: sum.splits)
  from authorize_cycle_cases[where mv = mv, OF cmd mv this] show ?thesis
  proof
    assume "y = None \<and> db1 = db"
    with res y show ?thesis by (simp add: then_record_def)
  next
    assume "\<exists>row z. replies db (reply_key r) = Some row \<and> fresh r row
       \<and> replies db1 = (replies db)(reply_key r := Some z) \<and> mv (publicationState row) (publicationState z)"
    then obtain row z where w: "replies db (reply_key r) = Some row" "fresh r row"
      "replies db1 = (replies db)(reply_key r := Some z)" "mv (publicationState row) (publicationState z)"
      by blast
    moreover have "replies db' = replies db1"
      using res y by (auto simp: then_record_def split: option.splits)
    ultimately show ?thesis
      unfolding effect_def by (intro disjI2 exI[of _ row] exI[of _ "Some z"]) simp
  qed
qed

lemma authorized_effect:
  assumes res: "markPublicationAuthorized nfc actor r u i l d db = Inr (x, db')"
  shows "effect r moves db db'"
proof (cases "db' = db")
  case False
  let ?cmd = "if l \<noteq> None then C_approve else C_retry_publication"
  let ?u = "if ?cmd = C_approve then u\<lparr>u_status := Some S_approved,
      u_approvedBy := Some (Some (user_of i)),
      u_approvedAt := Some (case u_approvedAt u of Some (Some t) \<Rightarrow> Some t | _ \<Rightarrow> Some d)\<rparr>
    else no_update\<lparr>u_status := Some S_approved\<rparr>"
  from res False obtain c where
    t: "then_record (map_option F_approved l) (Some (F_requested i))
        (authorizePublicationCycle nfc actor r ?cmd i c ?u d) db = Inr (x, db')"
    by (cases "assertPublicationIntentMatchesCycle r i l")
       (simp_all add: markPublicationAuthorized_def Let_def split: if_splits)
  have "moves (publicationState r) (Some P_authorized)" if "replyCommandMayStart ?cmd r"
  proof -
    have "publicationState r \<in> {None, Some P_cancelled, Some P_terminal}"
      using that by (cases "l = None") (auto simp: start_defs NO_OPEN_PUBLICATION_def split: if_splits)
    then show ?thesis by (auto intro: moves_event[of _ E_authorize])
  qed
  then show ?thesis
    by (intro recorded_cycle_effect[OF _ _ t]) auto
qed simp

text \<open>Editing a published reply is the one command that authorizes from published.\<close>

lemma edit_effect:
  assumes res: "editPublishedReply nfc actor r t i l d db = Inr (x, db')"
  shows "effect r (\<lambda>p q. p \<in> {Some P_published, None} \<and> q = Some P_authorized) db db'"
proof (cases "db' = db")
  case False
  from res False obtain c where
    t: "then_record (Some (F_updated l)) (Some (F_requested i))
        (authorizePublicationCycle nfc actor r C_edit_published i c
           (no_update\<lparr>u_text := Some t, u_status := Some S_approved\<rparr>) d) db = Inr (x, db')"
    by (cases "assertPublicationIntentMatchesCycle r i (Some l)")
       (simp_all add: editPublishedReply_def split: if_splits)
  show ?thesis
    by (rule recorded_cycle_effect[OF _ _ t]) (auto simp: start_defs split: if_splits)
qed simp

lemma idle_effect:
  assumes gu: "guardedReplyUpdate r c u d db = (x, db1)" and u: "u_publicationState u = None"
    and db': "x = None \<Longrightarrow> db' = db1" "\<And>z. x = Some z \<Longrightarrow> replies db' = replies db1"
  shows "effect r moves db db'"
  by (rule effect_reply[OF gu]) (use db' u guarded_reply_missed gu in \<open>auto simp: moves_def\<close>)

lemma transition_effect:
  assumes res: "transition r c u f d db = Inr (x, db')" and u: "u_publicationState u = None"
  shows "effect r moves db db'"
proof -
  obtain y db1 where g: "guardedReplyUpdate r c u d db = (y, db1)" by fastforce
  show ?thesis
    by (rule idle_effect[OF g u]) (use res g in \<open>auto simp: transition_def\<close>)
qed

lemma delete_effect:
  assumes res: "deleteDraft r db = Inr (x, db')"
  shows "effect r moves db db'"
proof (cases "db' = db")
  case False
  with res obtain row where row: "replies db (reply_key r) = Some row" "replyCommandMayStart C_delete r"
    "status row = status r" "publicationState row = None" "publicationCycle row = 0"
    and db': "db' = db\<lparr>replies := (replies db)(reply_key r := None)\<rparr>"
    by (auto simp: deleteDraft_def split: if_splits option.splits)
  then have "fresh r row"
    by (auto simp: fresh_def snapshot_ok_def replyCommandMayStart_def hasPublicationRecord_def split: if_splits)
  with row db' show ?thesis
    unfolding effect_def by (intro disjI2 exI[of _ row] exI[of _ None]) simp
qed simp

lemma create_effect:
  assumes "createDraft r db = Inr (x, db')"
  shows "db' = db \<or> replies db (reply_key r) = None \<and> replies db' = (replies db)(reply_key r := Some r)"
  using assms by (auto simp: createDraft_def split: if_splits option.splits)

text \<open>A batch of cancellations moves every row at most along the cancel event.\<close>

lemma cancel_batch_effect:
  assumes "cancelPublications cs db = Inr (n, db')" "replies db k = Some row"
  shows "\<exists>row'. replies db' k = Some row' \<and> cancels (publicationState row) (publicationState row')"
  using assms
proof (induction cs db arbitrary: n row rule: cancelPublications.induct)
  case (1 db)
  then show ?case by (simp add: cancels_def)
next
  case (2 r event now cs db)
  show ?case
  proof (cases "cancelledPublication r")
    case None
    with 2 show ?thesis by simp
  next
    case (Some c)
    note c = this
    obtain y db1 where gu: "guardedPublicationUpdate r (status r)
        [P_requested, P_authorized, P_sending, P_pending_observation] (cancelled_set c now) db = (y, db1)"
      by fastforce
    show ?thesis
    proof (cases y)
      case None
      from gu None guarded_missed have db1: "db1 = db" by blast
      from "2.prems"(1) c gu None have "cancelPublications cs db1 = Inr (n, db')" by simp
      with "2.IH"(2)[OF c gu[symmetric] None] "2.prems"(2) db1 show ?thesis by simp
    next
      case (Some z)
      from "2.prems"(1) c gu Some obtain db2 m where
        s: "supersede_current z now db1 = Inr db2"
        and rest: "cancelPublications cs (insertOutboxRow event db2) = Inr (m, db')"
        by (auto split: sum.splits)
      have e: "effect r cancels db (insertOutboxRow event db2)"
        by (rule cancel_effect[OF c gu]) (use supersede_current_replies[OF s] Some in auto)
      have "replies (insertOutboxRow event db2) (reply_key r) = Some z"
        "\<And>l. l \<noteq> reply_key r \<Longrightarrow> replies (insertOutboxRow event db2) l = replies db l"
        using gu Some supersede_current_replies[OF s]
        by (auto elim!: guardedPublicationUpdate_cases)
      then obtain mid where mid: "replies (insertOutboxRow event db2) k = Some mid"
        "cancels (publicationState row) (publicationState mid)"
        using e "2.prems"(2) unfolding effect_def
        by (cases "k = reply_key r") (auto simp: cancels_def)
      then obtain row' where "replies db' k = Some row'" "cancels (publicationState mid) (publicationState row')"
        using "2.IH"(3)[OF c gu[symmetric] Some s rest] by blast
      with mid(2) show ?thesis by (blast intro: cancels_trans)
    qed
  qed
qed

lemma mirror_effect:
  assumes res: "mirrorSyncedReply m v org f d db = Inr (x, db')"
    and m: "\<And>r. m = Some r \<Longrightarrow> reply_source r = Google_sync"
  shows "replies db' (p, q, Internal) = replies db (p, q, Internal)"
proof (cases m)
  case (Some r)
  obtain row db1 where u: "mirrorUpsert r d db = (row, db1)" by fastforce
  then have "replies db1 = (replies db)(reply_key r := Some row)"
    by (auto simp: mirrorUpsert_def Let_def)
  with res Some u m[OF Some] show ?thesis
    by (auto simp: mirrorSyncedReply_def reply_key_def)
qed (use res in \<open>auto simp: mirrorSyncedReply_def\<close>)

text \<open>What recording an observation does to an internal reply: nothing, confirm it, or cancel it.\<close>

lemma update_internal_row:
  assumes "update_internal input internal cond f m db = Inr db'"
    and "replies db (reply_key internal) = Some row"
  shows "replies db' = (replies db)(reply_key internal := Some (revision_trigger row (f row))) \<and> cond row"
  using assms(1) by (rule update_internal_ok) (use assms(2) in auto)

lemma external_effect:
  assumes "supersedeExternalCurrentAttempt input i a db = Inr (e, db')"
    and "replies db (reply_key i) = Some row"
  shows "replies db' = (replies db)(reply_key i := Some (revision_trigger row (cancelledReplySet (ro_observedAt input) row)))
    \<and> publicationState row \<in> {Some P_sending, Some P_pending_observation, Some P_ambiguous, Some P_terminal}"
  using assms
  by (auto simp: supersedeExternalCurrentAttempt_def UNCERTAIN_PUBLICATION_STATES_def
      split: sum.splits if_splits dest!: update_internal_row)

lemma zero_effect:
  assumes "cancelZeroAttemptAuthorization input i c db = Inr (e, db')"
    and "replies db (reply_key i) = Some row"
  shows "replies db' = (replies db)(reply_key i := Some (revision_trigger row (cancelledReplySet (ro_observedAt input) row)))
    \<and> publicationState row = Some P_authorized"
  using assms
  by (auto simp: cancelZeroAttemptAuthorization_def split: sum.splits dest!: update_internal_row)

lemma confirm_effect:
  assumes "confirmReplyOnGoogle input i a k db = Inr (e, db')"
    and "replies db (reply_key i) = Some row"
  shows "(\<exists>row'. replies db' = (replies db)(reply_key i := Some row') \<and> publicationState row' = Some P_published
      \<and> reply_text row' = reply_text row \<and> touch row row')
    \<and> publicationState row \<in> {Some P_sending, Some P_pending_observation, Some P_ambiguous, Some P_terminal}"
  using assms
  by (auto simp: confirmReplyOnGoogle_def UNCERTAIN_PUBLICATION_STATES_def touch_def
      split: sum.splits dest!: update_internal_row)

definition observation_moves :: "observation_decision \<Rightarrow> publication_state option \<Rightarrow> publication_state option \<Rightarrow> bool"
where
  "observation_moves d p q =
     (resolution d = Confirmed_on_google \<and> q = Some P_published
        \<and> p \<in> {Some P_sending, Some P_pending_observation, Some P_ambiguous, Some P_terminal}
      \<or> resolution d = External_current_live \<and> q = Some P_cancelled
        \<and> p \<in> {Some P_sending, Some P_pending_observation, Some P_ambiguous, Some P_terminal}
      \<or> p = Some P_authorized \<and> q = Some P_cancelled)"

lemma observation_moves_table:
  assumes "observation_moves d p q"
  shows "(\<exists>e. q \<noteq> None \<and> nextPublicationState p e = q)
    \<or> p = Some P_sending \<and> q = Some P_published
    \<or> p \<in> {Some P_ambiguous, Some P_terminal} \<and> q = Some P_cancelled"
proof -
  have "nextPublicationState (Some s) E_publish = Some P_published"
    if "s \<in> {P_pending_observation, P_ambiguous, P_terminal}" for s
    using that by auto
  moreover have "nextPublicationState (Some s) E_cancel = Some P_cancelled"
    if "s \<in> {P_sending, P_pending_observation, P_authorized}" for s
    using that by auto
  ultimately show ?thesis
    using assms unfolding observation_moves_def by blast
qed

lemma observe_effect:
  assumes inv: "store_inv nfc db" and res: "recordObservation nfc n input db = Inr (x, db')"
    and row: "replies db (org, v, Internal) = Some row" and row': "replies db' (org, v, Internal) = Some row'"
  shows "row' = row
    \<or> touch row row' \<and> (\<exists>ev d. recorded_decision nfc input db ev d \<and> ev_internal ev = Some row
         \<and> observation_moves d (publicationState row) (publicationState row')
         \<and> (resolution d = Confirmed_on_google \<and> publicationState row' = Some P_published \<longrightarrow>
              ev_attempt ev \<noteq> None \<and> reply_text row' = reply_text row))"
  using res
proof (cases rule: recordObservation_cases)
  case unchanged
  with row row' show ?thesis by simp
next
  case renewed
  then have "replies db' = replies db"
    by (simp add: renewHeadContentClock_def Let_def split: option.splits)
  with row row' show ?thesis by simp
next
  case (recorded g ev d)
  from recorded(1) obtain w where ev: "loadPublicationEvidence db input = Inr ev"
    and w: "lockObservationSubject db input = Inr w"
    by (auto simp: recorded_decision_def)
  note ef = evidence_facts[OF inv w ev]
  have s: "resolution d = External_current_live"
    if "supersedesCurrentAttempt (resolution d) (readPublicationCandidate db (ev_internal ev) (ev_attempt ev)) input"
    using that by (simp add: supersedesCurrentAttempt_def)
  let ?k = "head_revision_of (selectCurrentHead db input) + 1"
  show ?thesis
  proof (rule record_new_cases[OF recorded(2) ef(1,2) s])
    fix ob' db1 db2 fs
    assume p: "persistObservationAndHead n input g d ?k db = Inr (ob', db1)"
      and db': "db' = record_facts (fs @ (if resolution d \<noteq> R_unchanged
        then [observed_fact_of input d ?k] else [])) db2"
      and cases: "db2 = remove_mirror input db1 \<and> \<not> (resolution d = Confirmed_on_google \<and> ev_internal ev \<noteq> None \<and> ev_attempt ev \<noteq> None)
     \<or> (\<exists>i a e. resolution d = External_current_live \<and> ev_internal ev = Some i \<and> ev_attempt ev = Some a
          \<and> supersedeExternalCurrentAttempt input i a (remove_mirror input db1) = Inr (e, db2))
     \<or> (\<exists>i c e. ev_internal ev = Some i \<and> ev_zeroAttempt ev = Some c
          \<and> cancelZeroAttemptAuthorization input i c (remove_mirror input db1) = Inr (e, db2))
     \<or> (\<exists>i a e. resolution d = Confirmed_on_google \<and> ev_internal ev = Some i \<and> ev_attempt ev = Some a
          \<and> confirmReplyOnGoogle input i a ?k (remove_mirror input db1) = Inr (e, db2))"
    let ?dm = "remove_mirror input db1"
    have reps: "replies ?dm (p, q, Internal) = replies db (p, q, Internal)" for p q
      using persist_effect(2)[OF p] by (simp add: remove_mirror_def)
    have here: "(org, v) = (ro_organizationId input, ro_reviewId input) \<and> i = row" if "ev_internal ev = Some i"
      "replies db2 = (replies ?dm)(reply_key i := Some z)" "row' \<noteq> row" for i z
      using that ef(4)[OF that(1)] row row' reps db' by (auto split: if_splits)
    have at: "replies ?dm (reply_key i) = Some i" if "ev_internal ev = Some i" for i
      using ef(4)[OF that] reps by simp
    have new: "row' = z" if "ev_internal ev = Some row" "replies db2 = (replies ?dm)(reply_key row := Some z)"
      "(org, v) = (ro_organizationId input, ro_reviewId input)" for z
      using that ef(4)[OF that(1)] row' db' by simp
    show ?thesis
    proof (cases "row' = row")
      case False
      from cases show ?thesis
      proof (elim disjE exE conjE)
        assume "db2 = ?dm"
        with reps row row' db' False show ?thesis by simp
      next
        fix i a e assume i: "ev_internal ev = Some i" and r: "resolution d = External_current_live"
          and x: "supersedeExternalCurrentAttempt input i a ?dm = Inr (e, db2)"
        note f = external_effect[OF x at[OF i]]
        note h = here[OF i conjunct1[OF f] False]
        with i f new have "row' = revision_trigger i (cancelledReplySet (ro_observedAt input) i)" by blast
        with recorded(1) i f h r show ?thesis
          by (intro disjI2 conjI exI[of _ ev] exI[of _ d])
            (auto simp: observation_moves_def cancelledReplySet_def touch_def)
      next
        fix i c e assume i: "ev_internal ev = Some i"
          and x: "cancelZeroAttemptAuthorization input i c ?dm = Inr (e, db2)"
        note f = zero_effect[OF x at[OF i]]
        note h = here[OF i conjunct1[OF f] False]
        with i f new have "row' = revision_trigger i (cancelledReplySet (ro_observedAt input) i)" by blast
        with recorded(1) i f h show ?thesis
          by (intro disjI2 conjI exI[of _ ev] exI[of _ d])
            (auto simp: observation_moves_def cancelledReplySet_def touch_def)
      next
        fix i a e assume i: "ev_internal ev = Some i" and r: "resolution d = Confirmed_on_google"
          and a: "ev_attempt ev = Some a" and x: "confirmReplyOnGoogle input i a ?k ?dm = Inr (e, db2)"
        from confirm_effect[OF x at[OF i]] obtain z where f: "replies db2 = (replies ?dm)(reply_key i := Some z)"
          "publicationState z = Some P_published" "reply_text z = reply_text i" "touch i z"
          "publicationState i \<in> {Some P_sending, Some P_pending_observation, Some P_ambiguous, Some P_terminal}"
          by blast
        note h = here[OF i f(1) False]
        with i f(1) new have "row' = z" by blast
        with recorded(1) i f h r a show ?thesis
          by (intro disjI2 conjI exI[of _ ev] exI[of _ d]) (auto simp: observation_moves_def)
      qed
    qed simp
  qed
qed

lemma cancel_single_effect:
  assumes res: "cancelPublications [(r, event, now)] db = Inr (n, db')"
  shows "effect r moves db db'"
proof (cases "cancelledPublication r")
  case (Some c)
  obtain y db1 where gu: "guardedPublicationUpdate r (status r)
      [P_requested, P_authorized, P_sending, P_pending_observation] (cancelled_set c now) db = (y, db1)"
    by fastforce
  have "effect r cancels db db'"
  proof (rule cancel_effect[OF Some gu])
    show "db' = db" if "y = None"
      using res Some gu that guarded_missed[of r _ _ "cancelled_set c now" db db1] by simp
    show "replies db' = replies db1" if "y = Some z" for z
      using res Some gu that by (auto dest: supersede_current_replies split: sum.splits)
  qed simp
  then show ?thesis by (rule effect_mono) (rule cancels_moves)
qed (use res in simp)

text \<open>The move a command makes: along the table, or the edit of a published reply.\<close>

definition command_moves :: "store_command \<Rightarrow> publication_state option \<Rightarrow> publication_state option \<Rightarrow> bool"
where
  "command_moves c p q = (moves p q
     \<or> (\<exists>r t i l d. c = Edit r t i l d) \<and> p = Some P_published \<and> q = Some P_authorized)"

lemma effect_command:
  "effect r moves db db' \<Longrightarrow> effect r (command_moves c) db db'"
  by (erule effect_mono) (simp add: command_moves_def)

lemmas command_effects = accepted_effect fail_terminal_effect fail_ambiguous_effect
  defer_observation_effect requeue_effect settle_effect claim_effect authorized_effect delete_effect

lemma exec_effect:
  assumes res: "exec nfc actor c db = Inr db'" and keyed: "keyed db"
    and c: "snapshots c = [r]" "\<And>x. c \<noteq> Create x"
  shows "effect r (command_moves c) db db'"
proof (cases c)
  case (Save r' t d)
  with res c obtain x where "guardedReplyUpdate r C_save_draft (no_update\<lparr>u_text := Some t,
      u_status := Some S_draft, u_rejectedBy := Some None, u_rejectionReason := Some None\<rparr>) d db
      = (x, db')"
    by (auto simp: void_ok saveDraft_def)
  then show ?thesis
    by (intro effect_command idle_effect) (auto simp: no_update_def)
next
  case (Submit r' u f d)
  with res c obtain x where "transition r C_submit (no_update\<lparr>u_status := Some S_pending_approval,
      u_submittedAt := Some (Some d), u_submittedBy := Some (Some u)\<rparr>) (Some f) d db = Inr (x, db')"
    by (auto simp: void_ok submitReply_def)
  then show ?thesis
    by (intro effect_command transition_effect) (auto simp: no_update_def)
next
  case (Reject r' u t f d)
  with res c obtain x where "transition r C_reject (no_update\<lparr>u_status := Some S_rejected,
      u_rejectedBy := Some (Some u), u_rejectionReason := Some t\<rparr>) (Some f) d db = Inr (x, db')"
    by (auto simp: void_ok rejectReply_def)
  then show ?thesis
    by (intro effect_command transition_effect) (auto simp: no_update_def)
next
  case (Edit r' t i l d)
  with res c obtain x where "editPublishedReply nfc actor r t i l d db = Inr (x, db')"
    by (auto simp: void_ok)
  then show ?thesis
    using Edit
    by (intro effect_mono[OF edit_effect])
       (auto simp: command_moves_def intro: moves_event[of _ E_authorize])
next
  case (Defer_send r' d e)
  with res c show ?thesis
    by (auto simp: void_ok deferUncertainSend_def intro!: effect_command dest: reschedule_effect)
next
  case (Reschedule r' d e)
  with res c show ?thesis
    by (auto simp: void_ok rescheduleAmbiguousReconciliation_def intro!: effect_command
        dest: reschedule_effect)
next
  case (Cancel cs)
  with c obtain e d where "cs = [(r, e, d)]" by (cases cs) auto
  with res Cancel show ?thesis
    by (auto simp: void_ok simp del: cancelPublications.simps intro!: effect_command
        dest: cancel_single_effect)
qed (use res c keyed in \<open>auto simp: void_ok intro!: effect_command dest: command_effects\<close>)

lemma effect_row:
  assumes "effect r mv db db'" "replies db k = Some row" "replies db' k = Some row'"
  shows "row' = row \<or> mv (publicationState row) (publicationState row')"
  using assms by (auto simp: effect_def split: if_splits)

lemma inv_keyed: "store_inv nfc db \<Longrightarrow> keyed db"
  unfolding store_inv_def rows_inv_def keyed_def by blast

text \<open>A database no reply was written to yet, whose reviews have distinct identifiers.\<close>

definition no_replies :: "reply_db \<Rightarrow> bool" where
  "no_replies db = (replies db = (\<lambda>k. None) \<and> attempts db = [] \<and> authorizations db = []
     \<and> observations db = [] \<and> observation_heads db = (\<lambda>v. None) \<and> distinct (map rv_id (reviews db)))"

lemma no_replies_inv: "no_replies db \<Longrightarrow> store_inv nfc db"
  by (simp add: no_replies_def store_inv_def rows_inv_def references_ok_def heads_inv_def)

lemma reachable_inv:
  "no_replies db \<Longrightarrow> run (store_step nfc actor) db cs = Some db' \<Longrightarrow> store_inv nfc db'"
  by (rule store.run_inv[OF no_replies_inv])

lemma store_step_cases:
  assumes "store_step nfc actor db c = Some db'"
  obtains "db' = db" | "admissible c db" "exec nfc actor c db = Inr db'"
  using assms by (auto simp: store_step_def split: if_splits sum.splits)

text \<open>The command behind a change of a publication state.\<close>

lemma step_move:
  assumes inv: "store_inv nfc db" and st: "store_step nfc actor db c = Some db'"
    and row: "replies db (org, v, Internal) = Some row" and row': "replies db' (org, v, Internal) = Some row'"
    and ne: "publicationState row' \<noteq> publicationState row"
  shows "command_moves c (publicationState row) (publicationState row')
    \<or> (\<exists>i n x. c = Observe i n \<and> recordObservation nfc n i db = Inr (x, db'))"
proof -
  have keyed: "keyed db" by (rule inv_keyed[OF inv])
  from st show ?thesis
  proof (cases rule: store_step_cases)
    case 1
    with row row' ne show ?thesis by simp
  next
    case 2
    consider (one) r where "snapshots c = [r]" "\<And>x. c \<noteq> Create x" | (create) r where "c = Create r"
      | (batch) xs where "c = Cancel xs" | (observe) i n where "c = Observe i n"
      | (mirror) m v' o' f d where "c = Mirror m v' o' f d" | (other) e ids where "c = Elsewhere e ids"
      by (cases c) auto
    then show ?thesis
    proof cases
      case one
      from effect_row[OF exec_effect[OF 2(2) keyed one] row row'] ne show ?thesis by auto
    next
      case create
      with 2(2) create_effect row row' ne show ?thesis
        by (fastforce simp: void_ok split: if_splits)
    next
      case batch
      with 2(2) obtain n where "cancelPublications xs db = Inr (n, db')" by (auto simp: void_ok)
      from cancel_batch_effect[OF this row] row' show ?thesis
        by (auto simp: command_moves_def intro: cancels_moves)
    next
      case observe
      with 2(2) show ?thesis by (auto simp: void_ok)
    next
      case mirror
      with 2 have "replies db' (org, v, Internal) = replies db (org, v, Internal)"
        by (auto simp: void_ok admissible_def intro!: mirror_effect)
      with row row' ne show ?thesis by simp
    next
      case other
      with 2(2) row row' ne show ?thesis by (auto simp: elsewhere_def)
    qed
  qed
qed

lemma command_never_publishes: "command_moves c p (Some P_published) \<Longrightarrow> p = Some P_published"
proof -
  have "nextPublicationState p e = Some P_published \<Longrightarrow> e = E_publish" for e
    by (cases "(p, e)" rule: nextPublicationState.cases; simp split: if_splits)
       (rename_tac s, case_tac s; simp split: publication_event.splits)
  then show "command_moves c p (Some P_published) \<Longrightarrow> p = Some P_published"
    unfolding command_moves_def moves_def by blast
qed

section \<open>A run\<close>

definition sample_db :: reply_db where
  "sample_db = \<lparr>replies = (\<lambda>k. None), authorizations = [], attempts = [],
     reviews = [\<lparr>rv_id = ''v'', rv_organizationId = ''o'', rv_propertyId = ''p'', rv_sourceEpoch = 0,
                 rv_materialReviewRevision = 1, rv_sourceContentState = ''active''\<rparr>],
     observations = [], observation_heads = (\<lambda>v. None),
     db_properties = [\<lparr>pr_id = ''p'', pr_organizationId = ''o'', pr_lifecycleState = ''active'',
                       pr_sourceEpoch = 0, pr_deleted = False\<rparr>],
     permits = [], restores = [], ai_binding_holds = (\<lambda>i b. False), has_ai_operation = (\<lambda>i. False),
     outbox = []\<rparr>"

definition sample_text :: js_string where "sample_text = js ''Thank you''"

definition sample_draft :: reply where
  "sample_draft = (sample_reply S_draft None)\<lparr>reply_id := ''r'', reply_text := sample_text, reply_reviewId := ''v'',
     reply_organizationId := ''o'', reply_source := Internal, publicationCycle := 0,
     publicationAttempts := 0, stateRevision := 1, aiGenerated := False\<rparr>"

definition sample_pending :: reply where
  "sample_pending = sample_draft\<lparr>status := S_pending_approval, stateRevision := 2,
     submittedAt := Some (At 1), submittedBy := Some ''u'', updatedAt := At 1\<rparr>"

definition sample_approved :: reply where
  "sample_approved = sample_pending\<lparr>status := S_approved, stateRevision := 3,
     approvedBy := Some ''m'', approvedAt := Some (At 2), publicationState := Some P_authorized,
     publicationCycle := 1, publicationAttempts := 0,
     reconcileDueAt := Some (due_after (At 2) PUBLICATION_RECOVERY_RECONCILE_DELAY_MS), updatedAt := At 2\<rparr>"

definition sample_sending :: reply where
  "sample_sending = sample_approved\<lparr>publicationState := Some P_sending, publicationAttempts := 1,
     reconcileDueAt := Some (due_after (At 3) PUBLICATION_RECOVERY_RECONCILE_DELAY_MS), updatedAt := At 3\<rparr>"

definition sample_lifecycle :: lifecycle_fact where
  "sample_lifecycle = \<lparr>lf_replyId = ''r'', lf_reviewId = ''v'', lf_organizationId = ''o'',
     lf_propertyId = ''p'', lf_userId = Some ''m''\<rparr>"

definition sample_intent :: publication_intent where
  "sample_intent = \<lparr>in_replyId = ''r'', in_reviewId = ''v'', in_organizationId = ''o'',
     in_propertyId = ''p'', in_userId = Some ''m'', in_publicationCycle = nint 1,
     in_sourceEpoch = nint 0, in_materialReviewRevision = nint 1, in_baseObservationRevision = nint 0\<rparr>"

definition sample_start :: attempt_start where
  "sample_start = \<lparr>as_propertyId = ''p'', as_sourceEpoch = nint 0, as_materialReviewRevision = nint 1,
     as_baseObservationRevision = nint 0, as_providerOperationKey = ''key''\<rparr>"

definition sample_commands :: "store_command list" where
  "sample_commands =
     [Create sample_draft, Submit sample_draft ''u'' (F_submitted sample_lifecycle) (At 1),
      Approve sample_pending ''m'' sample_intent sample_lifecycle (At 2),
      Claim sample_approved sample_start (At 3)]"

abbreviation sample_step :: "reply_db \<Rightarrow> store_command \<Rightarrow> reply_db option" where
  "sample_step \<equiv> store_step id (\<lambda>db p q u t. True)"

lemmas sample_rows = sample_db_def sample_draft_def sample_reply_def sample_pending_def
  sample_approved_def sample_sending_def sample_lifecycle_def sample_intent_def sample_start_def

lemma sample_create: "sample_step sample_db (Create sample_draft)
    = Some (sample_db\<lparr>replies := [(''o'', ''v'', Internal) \<mapsto> sample_draft]\<rparr>)"
  by (simp add: store_step_def admissible_def createDraft_def void_def hasPublicationRecord_def
      reply_key_def sample_rows)

definition sample_authorization :: publication_authorization where
  "sample_authorization = \<lparr>au_organizationId = ''o'', au_propertyId = ''p'', au_reviewId = ''v'',
     au_replyId = ''r'', au_publicationCycle = 1, au_sourceEpoch = 0, au_materialReviewRevision = 1,
     au_baseObservationRevision = 0, au_authorizedByUserId = ''m'', au_replyStateRevision = 3,
     au_expectedReplyDigest = googleReplyTextDigest id sample_text, au_authorizedAt = At 2\<rparr>"

definition sample_attempt :: publication_attempt where
  "sample_attempt = \<lparr>at_organizationId = ''o'', at_propertyId = ''p'', at_reviewId = ''v'',
     at_replyId = ''r'', at_publicationCycle = 1, at_attemptNumber = 1,
     at_providerOperationKey = ''key'', at_sourceEpoch = 0, at_materialReviewRevision = 1,
     at_replyStateRevision = 3, at_baseObservationRevision = 0,
     at_expectedReplyDigest = googleReplyTextDigest id sample_text, at_outcome = O_sending,
     at_providerCorrelationId = None, at_providerRespondedAt = None,
     at_confirmedObservationRevision = None, at_createdAt = At 3, at_updatedAt = At 3\<rparr>"

definition sample_row_db :: "reply \<Rightarrow> domain_fact list \<Rightarrow> reply_db" where
  "sample_row_db r fs = sample_db\<lparr>replies := [(''o'', ''v'', Internal) \<mapsto> r], outbox := fs\<rparr>"

definition sample_facts :: "domain_fact list" where
  "sample_facts = [F_submitted sample_lifecycle, F_approved sample_lifecycle, F_requested sample_intent]"

definition sample_sent :: reply_db where
  "sample_sent = (sample_row_db sample_sending sample_facts)\<lparr>
     authorizations := [sample_authorization], attempts := [sample_attempt]\<rparr>"

lemma sample_submit: "sample_step (sample_row_db sample_draft [])
      (Submit sample_draft ''u'' (F_submitted sample_lifecycle) (At 1))
    = Some (sample_row_db sample_pending [F_submitted sample_lifecycle])"
  by (simp add: store_step_def admissible_def submitReply_def transition_def void_def
      guardedReplyUpdate_def updateReplyWhere_def replySnapshotWhere_def start_defs NO_OPEN_PUBLICATION_def
      PUTS_TEXT_FORWARD_def reply_key_def revision_trigger_def buildReplySetClause_def no_update_def
      aiTextMayAdvance_def record_fact_def insertOutboxRow_def sample_row_db_def sample_rows Let_def)

lemma sample_user: "length (js_trim (js ''m'')) = 1"
  by (simp add: js_trim_def js_def is_js_space_def)

lemma sample_cycle:
  "assertPublicationIntentMatchesCycle sample_pending sample_intent (Some sample_lifecycle) = Inr (nint 1)"
  using sample_user
  by (simp add: assertPublicationIntentMatchesCycle_def nextPublicationCycle_def sample_rows
      max_safe_integer_def)

lemma sample_approve: "sample_step (sample_row_db sample_pending [F_submitted sample_lifecycle])
      (Approve sample_pending ''m'' sample_intent sample_lifecycle (At 2))
    = Some ((sample_row_db sample_approved sample_facts)\<lparr>authorizations := [sample_authorization]\<rparr>)"
  using sample_cycle
  by (simp add: store_step_def admissible_def markPublicationAuthorized_def nextStateOrNull_def void_def
      authorizePublicationCycle_def lockCurrentReplyTruthScope_def authorizationFenceIsCurrent_def
      then_record_def insertAuthorization_def user_of_def sample_authorization_def sample_facts_def
      guardedReplyUpdate_def updateReplyWhere_def replySnapshotWhere_def start_defs NO_OPEN_PUBLICATION_def
      PUTS_TEXT_FORWARD_def reply_key_def revision_trigger_def buildReplySetClause_def no_update_def
      aiTextMayAdvance_def record_fact_def insertOutboxRow_def sample_row_db_def sample_rows Let_def nint_def num_eq_def)

lemma sample_claim: "sample_step ((sample_row_db sample_approved sample_facts)\<lparr>authorizations := [sample_authorization]\<rparr>)
      (Claim sample_approved sample_start (At 3)) = Some sample_sent"
  by (simp add: store_step_def admissible_def markPublicationSending_def nextStateOrNull_def void_def
      attempt_fence_invalid_def lockPublicationProperty_def lockCurrentReplyTruthScope_def
      aiTextMayBeClaimed_def aiTextMayAdvance_def readCurrentPublicationAuthorization_def
      propertyAdmitsCycle_def head_revision_def claim_write_def guardedPublicationUpdate_def
      updateReplyWhere_def insertAttempt_def reply_key_def revision_trigger_def sample_row_db_def
      sample_authorization_def sample_attempt_def sample_sent_def sample_rows Let_def max_safe_integer_def)

lemma sample_run: "run sample_step sample_db sample_commands = Some sample_sent"
proof -
  have "sample_db\<lparr>replies := [(''o'', ''v'', Internal) \<mapsto> sample_draft]\<rparr> = sample_row_db sample_draft []"
    by (simp add: sample_row_db_def sample_db_def)
  then show ?thesis
    using sample_create sample_submit sample_approve sample_claim
    by (simp add: sample_commands_def)
qed

lemma sample_no_replies: "no_replies sample_db"
  by (simp add: no_replies_def sample_db_def)

lemma sample_sent_row: "replies sample_sent (''o'', ''v'', Internal) = Some sample_sending"
  "attempts sample_sent = [sample_attempt]"
  by (simp_all add: sample_sent_def sample_row_db_def sample_db_def)

lemma row_invariant:
  assumes "no_replies db0" "run (store_step nfc actor) db0 cs = Some db"
    and "replies db k = Some row" "reply_source row = Internal"
  shows "row_ok nfc (own_attempts db (reply_id row)) (own_authorizations db (reply_id row)) row"
  using store_inv_row(2)[OF reachable_inv[OF assms(1,2)] assms(3,4)] .

lemma attempt_row:
  assumes "no_replies db0" "run (store_step nfc actor) db0 cs = Some db" "a \<in> set (attempts db)"
  obtains k row where "replies db k = Some row" "reply_source row = Internal" "reply_id row = at_replyId a"
    "attempt_ok (own_authorizations db (reply_id row)) row a"
proof -
  note inv = reachable_inv[OF assms(1,2)]
  obtain k row where row: "replies db k = Some row" "reply_source row = Internal" "reply_id row = at_replyId a"
    using rows_inv_parts(4)[OF store_inv_rows[OF inv] assms(3)] by blast
  have "a \<in> set (own_attempts db (reply_id row))"
    using assms(3) row(3) by (simp add: own_attempts_def)
  with row_invariant[OF assms(1,2) row(1,2)] row show thesis
    by (intro that) (auto simp: row_ok_def)
qed

section \<open>Claims\<close>

text \<open>
  C15. However the commands of the reply store are interleaved, and whatever stale snapshots they
  are issued with, an internal reply's status and publication state agree: drafts, submissions and
  rejections have no open cycle, an approved reply is authorized, in flight or awaiting observation,
  a failed one is terminal or ambiguous, and a published one is published.
\<close>

theorem status_and_publication_agree:
  assumes "no_replies db0" "run (store_step nfc actor) db0 cs = Some db"
    and "replies db k = Some row" "reply_source row = Internal"
  shows "pair_ok (status row) (publicationState row)"
  using row_invariant[OF assms] by (simp add: row_ok_def)

theorem status_and_publication_agree_witness:
  "pair_ok (status sample_sending) (publicationState sample_sending)"
  by (rule status_and_publication_agree[OF sample_no_replies sample_run sample_sent_row(1)])
     (simp add: sample_rows)



text \<open>
  C6. Nothing is sent to Google that a manager did not authorize: the text of a reply being
  published (or failed) is the text an authorization of its current cycle froze, and every
  attempt of any cycle carries the digest of an authorization of that cycle.
\<close>

theorem only_authorized_text_is_sent:
  assumes "no_replies db0" "run (store_step nfc actor) db0 cs = Some db"
    and "replies db k = Some row" "reply_source row = Internal"
  shows "(status row \<in> {S_approved, S_publish_failed} \<longrightarrow>
      (\<exists>u \<in> set (authorizations db). au_replyId u = reply_id row
         \<and> au_publicationCycle u = publicationCycle row
         \<and> au_expectedReplyDigest u = googleReplyTextDigest nfc (reply_text row)))
    \<and> (\<forall>a \<in> set (attempts db). \<exists>u \<in> set (authorizations db). au_replyId u = at_replyId a
         \<and> au_publicationCycle u = at_publicationCycle a
         \<and> au_expectedReplyDigest u = at_expectedReplyDigest a)"
proof (intro conjI ballI)
  show "status row \<in> {S_approved, S_publish_failed} \<longrightarrow>
      (\<exists>u \<in> set (authorizations db). au_replyId u = reply_id row
         \<and> au_publicationCycle u = publicationCycle row
         \<and> au_expectedReplyDigest u = googleReplyTextDigest nfc (reply_text row))"
    using row_invariant[OF assms] unfolding row_ok_def authorized_text_def own_authorizations_def by auto
next
  fix a assume "a \<in> set (attempts db)"
  from attempt_row[OF assms(1,2) this] obtain k row where "reply_id row = at_replyId a"
    "attempt_ok (own_authorizations db (reply_id row)) row a" by blast
  then show "\<exists>u \<in> set (authorizations db). au_replyId u = at_replyId a
       \<and> au_publicationCycle u = at_publicationCycle a
       \<and> au_expectedReplyDigest u = at_expectedReplyDigest a"
    unfolding attempt_ok_def own_authorizations_def by auto
qed

theorem only_authorized_text_is_sent_witness:
  "\<exists>u \<in> set (authorizations sample_sent).
     au_expectedReplyDigest u = googleReplyTextDigest id (reply_text sample_sending)"
  using only_authorized_text_is_sent[OF sample_no_replies sample_run sample_sent_row(1)]
  by (auto simp: sample_rows)

text \<open>
  C16. A lost compare-and-set changes nothing: a command issued with a snapshot whose status,
  publication state or publication cycle the stored row no longer has leaves the whole database,
  outbox included, as it was.
\<close>

theorem stale_snapshot_changes_nothing:
  assumes "no_replies db0" "run (store_step nfc actor) db0 cs = Some db"
    and "snapshots c = [r]" "snapshot_ok r" "replies db (reply_key r) = Some row"
    and "(status row, publicationState row, publicationCycle row)
      \<noteq> (status r, publicationState r, publicationCycle r)"
    and "store_step nfc actor db c = Some db'"
  shows "db' = db"
proof -
  have keyed: "keyed db" by (rule inv_keyed[OF reachable_inv[OF assms(1,2)]])
  from assms(7) show ?thesis
  proof (cases rule: store_step_cases)
    case 2
    show ?thesis
    proof (cases "\<exists>x. c = Create x")
      case True
      with assms(3) have "c = Create r" by auto
      with 2(2) obtain x where "createDraft r db = Inr (x, db')" by (auto simp: void_ok)
      from create_effect[OF this] assms(5) show ?thesis by simp
    next
      case False
      with 2(2) keyed assms(3) have "effect r (command_moves c) db db'"
        by (intro exec_effect) auto
      with assms(4-6) show ?thesis by (auto simp: effect_def fresh_def)
    qed
  qed
qed

theorem stale_snapshot_changes_nothing_witness:
  "sample_step sample_sent (Reject sample_pending ''m'' None (F_rejected sample_lifecycle) (At 4))
     = Some sample_sent"
proof -
  let ?c = "Reject sample_pending ''m'' None (F_rejected sample_lifecycle) (At 4)"
  have "admissible ?c sample_sent" by (simp add: admissible_def sample_rows)
  then obtain db' where st: "sample_step sample_sent ?c = Some db'"
    by (cases "exec id (\<lambda>db p q u t. True) ?c sample_sent")
       (simp_all add: store_step_def del: exec.simps)
  have "db' = sample_sent"
    by (rule stale_snapshot_changes_nothing[OF sample_no_replies sample_run _ _ _ _ st,
          of sample_pending sample_sending])
       (simp_all add: sample_sent_row(1) snapshot_ok_def reply_key_def sample_rows)
  with st show ?thesis by simp
qed



end
