(* ===== verification/ObservationClaims.thy ===== *)
theory ObservationClaims
  imports ReplyRuns
begin

text \<open>
  What the observation authority promises, over runs of the reply store: only a read of our own
  authorized text publishes a reply; every row it writes satisfies the constraints of its table; a
  read that passes its fences is always recorded, and recording it again changes nothing; the
  history of a review's observations has no gap and its head is the newest.
\<close>

section \<open>A read of the sample reply\<close>

definition sample_read :: observation_record where
  "sample_read = \<lparr>ro_organizationId = ''o'', ro_propertyId = ''p'', ro_reviewId = ''v'',
     ro_sourceEpoch = nint 0, ro_materialReviewRevision = nint 1, ro_readGeneration = nint 1,
     ro_observationKey = replicate 64 CHR ''a'',
     ro_source = From_target \<lparr>ti_replyId = ''r'', ti_publicationCycle = nint 1, ti_attemptNumber = nint 1\<rparr>,
     ro_observedText = Some sample_text, ro_providerUpdatedAt = None,
     ro_observedAt = At 4, ro_contentExpiresAt = At 5\<rparr>"

lemma sample_read_sel [simp]:
  "ro_organizationId sample_read = ''o''" "ro_propertyId sample_read = ''p''"
  "ro_reviewId sample_read = ''v''" "record_epoch sample_read = 0" "record_revision sample_read = 1"
  "record_generation sample_read = 1" "ro_observedText sample_read = Some sample_text"
  "record_target (ro_source sample_read)
     = Some \<lparr>target_replyId = ''r'', target_cycle = 1, target_attempt = 1\<rparr>"
  "ro_observedAt sample_read = At 4" "ro_contentExpiresAt sample_read = At 5"
  "ro_providerUpdatedAt sample_read = None"
  by (simp_all add: sample_read_def record_epoch_def record_revision_def record_generation_def nint_def)

lemma sample_read_fence: "assertObservationFence sample_read = Inr ()"
  by (simp add: assertObservationFence_def sample_read_def is_digest_key_def max_safe_integer_def)

definition sample_g :: string where
  "sample_g = the (googleReplyObservationInputDigest id (record_identity sample_read))"

lemma sample_read_digest:
  "googleReplyObservationInputDigest id (record_identity sample_read) = Some sample_g"
  by (simp add: sample_g_def googleReplyObservationInputDigest_def observation_preimage_def
      record_identity_def)

definition sample_decision :: observation_decision where
  "sample_decision = \<lparr>dec_state = Live, change = Added, resolution = Confirmed_on_google,
     provenance = Repkey_confirmed, dec_normalizedText = Some (normalizeGoogleReplyText id sample_text),
     dec_normalizedDigest = Some (googleReplyTextDigest id sample_text), matchedReplyId = Some ''r'',
     matchedPublicationCycle = Some 1, matchedAttemptNumber = Some 1\<rparr>"

definition sample_published :: reply where
  "sample_published = sample_sending\<lparr>status := S_published, stateRevision := 4, publicationState := Some P_published,
     publishedAt := Some (At 4), reconcileDueAt := None, updatedAt := At 4\<rparr>"

definition sample_observed :: reply_db where
  "sample_observed =
     (let row = observation_of ''n'' sample_read sample_g sample_decision 1;
          db = upsertHead sample_read row (sample_sent\<lparr>observations := [row]\<rparr>)
      in db\<lparr>replies := [(''o'', ''v'', Internal) \<mapsto> sample_published],
            attempts := [sample_attempt\<lparr>at_outcome := O_confirmed,
               at_confirmedObservationRevision := Some 1, at_updatedAt := At 4\<rparr>],
            outbox := sample_facts @ [F_published (sample_lifecycle\<lparr>lf_userId := None\<rparr>),
               observed_fact_of sample_read sample_decision 1]\<rparr>)"

lemma sample_evidence: "loadPublicationEvidence sample_sent sample_read
    = Inr \<lparr>ev_internal = Some sample_sending, ev_attempt = Some sample_attempt, ev_zeroAttempt = None,
           ev_target = record_target (ro_source sample_read)\<rparr>"
  by (simp add: loadPublicationEvidence_def sample_sent_row readAttributableAttempt_def
      readZeroAttemptAuthorization_def sample_attempt_def sample_rows)

definition sample_candidate :: publication_candidate where
  "sample_candidate = \<lparr>cand_replyId = ''r'', cand_publicationCycle = 1, cand_attemptNumber = 1,
     cand_sourceEpoch = 0, cand_materialReviewRevision = 1,
     expectedReplyDigest = googleReplyTextDigest id sample_text, expectedReplyText = Some sample_text,
     earlierConfirmedDigest = None, outcome = O_sending\<rparr>"

lemma sample_candidate: "readPublicationCandidate sample_sent (Some sample_sending) (Some sample_attempt)
    = Some sample_candidate"
  by (simp add: readPublicationCandidate_def readEarlierConfirmedDigest_def sample_candidate_def
      sample_sent_row isOpenAttemptOutcome_def CONFIRMABLE_ATTEMPT_OUTCOMES_def sample_attempt_def sample_rows)

lemma sample_head: "selectCurrentHead sample_sent sample_read = None"
  by (simp add: selectCurrentHead_def sample_sent_def sample_row_db_def sample_db_def)

lemma sample_decided: "decideGoogleReplyObservation id (decision_input sample_read None (Some sample_candidate))
    = sample_decision"
  by (simp add: decideGoogleReplyObservation_def exact_candidate_def current_candidate_def
      decision_input_def isConfirmableCurrentAttempt_def sample_candidate_def sample_decision_def
      CONFIRMABLE_ATTEMPT_OUTCOMES_def decideObservationChange_def
      isReplyCarriedOverFromEarlierRevision_def Let_def)

lemma sample_subject: "lockObservationSubject sample_sent sample_read
    = Inr \<lparr>rv_id = ''v'', rv_organizationId = ''o'', rv_propertyId = ''p'', rv_sourceEpoch = 0,
           rv_materialReviewRevision = 1, rv_sourceContentState = ''active''\<rparr>"
  by (simp add: lockObservationSubject_def sample_sent_def sample_row_db_def sample_db_def)

lemma sample_not_replayed: "findReplayedObservation sample_sent sample_read g = Inr None"
  by (simp add: findReplayedObservation_def sample_sent_def sample_row_db_def sample_db_def)

abbreviation sample_row :: observation_row where
  "sample_row \<equiv> observation_of ''n'' sample_read sample_g sample_decision 1"

abbreviation sample_persisted :: reply_db where
  "sample_persisted \<equiv> upsertHead sample_read sample_row (sample_sent\<lparr>observations := [sample_row]\<rparr>)"

lemma sample_persist: "persistObservationAndHead ''n'' sample_read sample_g sample_decision 1 sample_sent
    = Inr (sample_row, sample_persisted)"
  by (simp add: persistObservationAndHead_def insertObservation_def sample_sent_def sample_row_db_def
      sample_db_def Let_def)

lemma sample_settle: "settleSupersededPublication sample_read
      \<lparr>ev_internal = Some sample_sending, ev_attempt = Some sample_attempt, ev_zeroAttempt = None,
       ev_target = t\<rparr> False db = Inr (None, db)"
  by (simp add: settleSupersededPublication_def settle_rule_def settlesLegacyUnattributedAttempt_def)

lemma sample_confirm: "confirmReplyOnGoogle sample_read sample_sending sample_attempt 1
      (remove_mirror sample_read sample_persisted)
    = Inr (F_published (sample_lifecycle\<lparr>lf_userId := None\<rparr>), sample_observed\<lparr>outbox := sample_facts\<rparr>)"
  by (simp add: confirmReplyOnGoogle_def update_internal_def updateReplyWhere_def remove_mirror_def
      sample_sent_row reply_key_def CLAIMABLE_PUBLICATION_STATUSES_def UNCERTAIN_PUBLICATION_STATES_def
      same_attempt_def sample_attempt_def sample_observed_def sample_published_def revision_trigger_def
      upsertHead_def sample_sent_def sample_row_db_def sample_rows Let_def)

lemma sample_decision_sel: "resolution sample_decision = Confirmed_on_google"
  by (simp add: sample_decision_def)

lemma sample_record: "recordObservation id ''n'' sample_read sample_sent
    = Inr (resultFromRow sample_row False, sample_observed)"
proof -
  have s: "supersedesCurrentAttempt Confirmed_on_google (Some sample_candidate) sample_read = False"
    by (simp add: supersedesCurrentAttempt_def)
  have f: "record_facts [F_published (sample_lifecycle\<lparr>lf_userId := None\<rparr>),
      observed_fact_of sample_read sample_decision 1] (sample_observed\<lparr>outbox := sample_facts\<rparr>) = sample_observed"
    by (simp add: record_facts_def insertOutboxRow_def sample_observed_def Let_def)
  have "record_new ''n'' sample_read sample_g
      \<lparr>ev_internal = Some sample_sending, ev_attempt = Some sample_attempt, ev_zeroAttempt = None,
       ev_target = record_target (ro_source sample_read)\<rparr> sample_decision False 1 sample_sent
    = Inr (resultFromRow sample_row False, sample_observed)"
    using f by (simp add: record_new_def sample_persist sample_settle sample_confirm sample_decision_sel)
  then show ?thesis
    using sample_read_fence sample_read_digest sample_subject sample_not_replayed sample_head
      sample_evidence sample_candidate sample_decided s
    by (simp add: recordObservation_def record_decided_def head_revision_of_def restatesCurrentHead_def
        max_safe_integer_def sample_decision_sel Let_def)
qed

section \<open>A read that passes its fences\<close>

lemma update_internal_succeeds:
  assumes "replies db (reply_key internal) = Some internal"
    and "reply_organizationId internal = ro_organizationId input" "cond internal"
  shows "update_internal input internal cond f m db
    = Inr (db\<lparr>replies := (replies db)(reply_key internal := Some (revision_trigger internal (f internal)))\<rparr>)"
  using assms by (simp add: update_internal_def updateReplyWhere_def Let_def)

text \<open>An open current attempt is that of a reply in flight, or failed with an open outcome.\<close>

lemma open_outcome_state:
  assumes "expected_outcome p c = Some oc" "isOpenAttemptOutcome oc"
  shows "p \<in> {Some P_sending, Some P_pending_observation, Some P_ambiguous}
    \<or> p = Some P_terminal \<and> c = Some Ambiguous"
proof (cases p)
  case (Some s)
  show ?thesis
  proof (cases "s = P_terminal")
    case True
    with assms Some obtain z where "c = Some z" "outcome_of_class z = oc" by auto
    with assms(2) Some True show ?thesis
      by (cases z) (auto simp: isOpenAttemptOutcome_def CONFIRMABLE_ATTEMPT_OUTCOMES_def)
  next
    case False
    with assms Some show ?thesis
      by (cases s) (auto simp: isOpenAttemptOutcome_def CONFIRMABLE_ATTEMPT_OUTCOMES_def)
  qed
qed (use assms in simp)

lemma open_attempt_row:
  assumes ok: "row_ok nfc (own_attempts db (reply_id row)) us row"
    and a: "a \<in> set (own_attempts db (reply_id row))" "attempt_key a = current_key row"
    and op: "isOpenAttemptOutcome (at_outcome a)"
  shows "status row \<in> set CLAIMABLE_PUBLICATION_STATUSES"
    "publicationState row \<in> Some ` set UNCERTAIN_PUBLICATION_STATES
      \<or> publicationState row = Some P_terminal \<and> publicationLastErrorClass row = Some Ambiguous"
proof -
  have "row_outcome row = Some (at_outcome a)"
    using ok a unfolding row_ok_def attempt_ok_def by metis
  from open_outcome_state[OF this op] have st:
    "publicationState row \<in> {Some P_sending, Some P_pending_observation, Some P_ambiguous}
      \<or> publicationState row = Some P_terminal \<and> publicationLastErrorClass row = Some Ambiguous" .
  then show "publicationState row \<in> Some ` set UNCERTAIN_PUBLICATION_STATES
      \<or> publicationState row = Some P_terminal \<and> publicationLastErrorClass row = Some Ambiguous"
    by (simp add: UNCERTAIN_PUBLICATION_STATES_def)
  have "pair_ok (status row) (publicationState row)" using ok by (simp add: row_ok_def)
  with st show "status row \<in> set CLAIMABLE_PUBLICATION_STATUSES"
    by (cases "status row") (auto simp: CLAIMABLE_PUBLICATION_STATUSES_def)
qed

lemma candidate_of_evidence:
  assumes "readPublicationCandidate db internal attempt = Some c"
  obtains row a where "internal = Some row" "attempt = Some a" "outcome c = at_outcome a"
    "cand_replyId c = reply_id row" "cand_publicationCycle c = at_publicationCycle a"
    "cand_attemptNumber c = at_attemptNumber a" "cand_sourceEpoch c = at_sourceEpoch a"
    "cand_materialReviewRevision c = at_materialReviewRevision a"
    "expectedReplyDigest c = at_expectedReplyDigest a"
  using assms by (auto simp: readPublicationCandidate_def split: option.splits)

lemma confirmed_candidate:
  assumes "resolution (decideGoogleReplyObservation nfc i) = Confirmed_on_google"
  obtains c t where "candidate i = Some c" "observedText i = Some t" "isConfirmableCurrentAttempt c i"
    "expectedReplyDigest c = googleReplyTextDigest nfc t"
proof -
  from assms obtain c where "exact_candidate nfc i = Some c"
    using decide_not_exact by (cases "exact_candidate nfc i") auto
  with that exact_candidate_iff show ?thesis by blast
qed

lemma decision_input_sel [simp]:
  "scope_sourceEpoch (decision_input input head c) = record_epoch input"
  "scope_materialReviewRevision (decision_input input head c) = record_revision input"
  "observedText (decision_input input head c) = ro_observedText input"
  "candidate (decision_input input head c) = c"
  by (simp_all add: decision_input_def)

lemma persist_succeeds:
  assumes inv: "store_inv nfc db" and v: "lockObservationSubject db input = Inr v"
    and new: "findReplayedObservation db input g = Inr None" "n \<notin> ob_id ` set (observations db)"
  shows "\<exists>row db1. persistObservationAndHead n input g d
    (head_revision_of (selectCurrentHead db input) + 1) db = Inr (row, db1)"
proof -
  let ?k = "head_revision_of (selectCurrentHead db input) + 1"
  have "ob_observationRevision o' \<noteq> ?k" if "o' \<in> set (observations db)" "ob_reviewId o' = ro_reviewId input" for o'
  proof -
    have "ob_observationRevision o' \<in> {1..head_revision_of (selectCurrentHead db input)}"
      unfolding review_revisions[OF inv v, symmetric] using that by blast
    then show ?thesis by simp
  qed
  moreover have "\<not> (ob_organizationId o' = ro_organizationId input \<and> ob_reviewId o' = ro_reviewId input
      \<and> ob_observationKey o' = ro_observationKey input)" if "o' \<in> set (observations db)" for o'
    using new(1) that by (auto simp: findReplayedObservation_def find_None_iff split: option.splits if_splits)
  ultimately have "\<not> (\<exists>o' \<in> set (observations db). ob_id o' = n
         \<or> (ob_organizationId o' = ro_organizationId input \<and> ob_propertyId o' = ro_propertyId input
            \<and> ob_reviewId o' = ro_reviewId input \<and> ob_observationRevision o' = ?k)
         \<or> (ob_organizationId o' = ro_organizationId input \<and> ob_reviewId o' = ro_reviewId input
            \<and> ob_observationKey o' = ro_observationKey input))"
    using new(2) by blast
  then show ?thesis
    by (simp add: persistObservationAndHead_def insertObservation_def Let_def observation_of_def)
qed

text \<open>The settlements of a recorded read never lose their rows.\<close>

lemma settle_succeeds:
  assumes inv: "store_inv nfc db" and v: "lockObservationSubject db input = Inr v"
    and ev: "loadPublicationEvidence db input = Inr ev"
    and dm: "replies dm (ro_organizationId input, ro_reviewId input, Internal)
      = replies db (ro_organizationId input, ro_reviewId input, Internal)" "attempts dm = attempts db"
    and s: "s \<Longrightarrow> supersedesCurrentAttempt res (readPublicationCandidate db (ev_internal ev) (ev_attempt ev)) input"
  shows "\<exists>fo db2. settleSupersededPublication input ev s dm = Inr (fo, db2)"
proof -
  note ef = evidence_facts[OF inv v ev] and lo = loadPublicationEvidence_ok[OF ev]
  have at: "replies dm (reply_key i) = Some i \<and> reply_organizationId i = ro_organizationId input"
    if "ev_internal ev = Some i" for i
    using ef(4)[OF that] dm(1) by (auto simp: reply_key_def)
  let ?ext = "settle_rule (s \<and> ev_internal ev \<noteq> None \<and> ev_attempt ev \<noteq> None)
      (supersedeExternalCurrentAttempt input (the (ev_internal ev)) (the (ev_attempt ev)))
      (\<lambda>db. ok (None, db)) dm"
  have ext: "\<exists>fo db2. ?ext = Inr (fo, db2) \<and> (ev_attempt ev = None \<longrightarrow> db2 = dm)"
  proof (cases "s \<and> ev_internal ev \<noteq> None \<and> ev_attempt ev \<noteq> None")
    case True
    then obtain i a where i: "ev_internal ev = Some i" "ev_attempt ev = Some a" and sup: s by blast
    note f = ef(3)[OF i] and r = ef(4)[OF i(1)]
    have ok: "row_ok nfc (own_attempts db (reply_id i)) (own_authorizations db (reply_id i)) i"
      using internal_row_ok(1)[OF inv] r by blast
    have oc: "at_outcome a \<in> {O_sending, O_provider_outcome_pending, O_ambiguous}"
      using s[OF sup] i by (simp add: supersedesCurrentAttempt_def readPublicationCandidate_def)
    then have op: "isOpenAttemptOutcome (at_outcome a)"
      by (simp add: isOpenAttemptOutcome_def CONFIRMABLE_ATTEMPT_OUTCOMES_def)
    note st = open_attempt_row[OF ok _ _ op]
    have key: "publicationCycle i = at_publicationCycle a" "publicationAttempts i = at_attemptNumber a"
      using f by (simp_all add: attempt_key_def current_key_def)
    have "\<exists>b \<in> set (attempts dm). same_attempt b a
        \<and> at_outcome b \<in> {O_sending, O_provider_outcome_pending, O_ambiguous}"
      using f oc dm(2) by (intro bexI[of _ a]) (auto simp: same_attempt_def own_attempts_def)
    then have "\<exists>e db2. supersedeExternalCurrentAttempt input i a dm = Inr (e, db2)"
      using at[OF i(1)] st f key
      by (simp add: supersedeExternalCurrentAttempt_def update_internal_succeeds)
    with i True show ?thesis by (auto simp: settle_rule_def)
  next
    case False
    then show ?thesis by (intro exI[of _ None] exI[of _ dm]) (auto simp: settle_rule_def)
  qed
  then obtain fo db1 where e: "?ext = Inr (fo, db1)" "ev_attempt ev = None \<longrightarrow> db1 = dm"
    by auto
  show ?thesis
  proof (cases "ev_zeroAttempt ev \<noteq> None \<and> ev_internal ev \<noteq> None")
    case True
    then obtain i c where i: "ev_internal ev = Some i" "ev_zeroAttempt ev = Some c" by blast
    then have db1: "db1 = dm" using ef(2) e(2) by simp
    from i lo(4) have "publicationCycle i = c" "publicationAttempts i = 0" "status i = S_approved"
      "publicationState i = Some P_authorized"
      by (auto simp: readZeroAttemptAuthorization_def find_Some_iff split: if_splits)
    then have "\<exists>e db2. cancelZeroAttemptAuthorization input i c dm = Inr (e, db2)"
      using at[OF i(1)] by (simp add: cancelZeroAttemptAuthorization_def update_internal_succeeds)
    with e(1) True i ef(1) db1 show ?thesis
      unfolding settleSupersededPublication_def settle_rule_def[of "ev_zeroAttempt ev \<noteq> None \<and> _"]
        settle_rule_def[of "settlesLegacyUnattributedAttempt ev"]
      by auto
  next
    case False
    with e(1) ef(1) show ?thesis
      unfolding settleSupersededPublication_def settle_rule_def[of "ev_zeroAttempt ev \<noteq> None \<and> _"]
        settle_rule_def[of "settlesLegacyUnattributedAttempt ev"]
      by auto
  qed
qed

lemma confirm_succeeds:
  assumes inv: "store_inv nfc db" and v: "lockObservationSubject db input = Inr v"
    and ev: "loadPublicationEvidence db input = Inr ev" "ev_internal ev = Some i" "ev_attempt ev = Some a"
    and dm: "replies dm (ro_organizationId input, ro_reviewId input, Internal)
      = replies db (ro_organizationId input, ro_reviewId input, Internal)"
    and op: "isOpenAttemptOutcome (at_outcome a)"
  shows "\<exists>e db2. confirmReplyOnGoogle input i a k dm = Inr (e, db2)"
proof -
  note f = evidence_facts(3)[OF inv v ev] and r = evidence_facts(4)[OF inv v ev(1,2)]
  have ok: "row_ok nfc (own_attempts db (reply_id i)) (own_authorizations db (reply_id i)) i"
    using internal_row_ok(1)[OF inv] r by blast
  note st = open_attempt_row[OF ok _ _ op]
  have "publicationCycle i = at_publicationCycle a"
    using f by (simp add: attempt_key_def current_key_def)
  moreover have "replies dm (reply_key i) = Some i" "reply_organizationId i = ro_organizationId input"
    using r dm by (auto simp: reply_key_def)
  moreover have "publicationState i \<in> Some ` set (UNCERTAIN_PUBLICATION_STATES @ [P_terminal])"
    using st f by auto
  ultimately show ?thesis
    using st f by (simp add: confirmReplyOnGoogle_def update_internal_succeeds)
qed

text \<open>The fences of a read, all passed.\<close>

definition read_admitted :: "normalizer \<Rightarrow> observation_record \<Rightarrow> string \<Rightarrow> reply_db \<Rightarrow> bool" where
  "read_admitted nfc input g db =
     (assertObservationFence input = Inr ()
      \<and> googleReplyObservationInputDigest nfc (record_identity input) = Some g
      \<and> (case lockObservationSubject db input of
           Inl e \<Rightarrow> False
         | Inr v \<Rightarrow> rv_sourceEpoch v = record_epoch input
             \<and> rv_materialReviewRevision v = record_revision input)
      \<and> findReplayedObservation db input g = Inr None
      \<and> newer_than_head input (selectCurrentHead db input)
      \<and> (\<exists>ev. loadPublicationEvidence db input = Inr ev)
      \<and> is_safe_integer (nint (head_revision_of (selectCurrentHead db input) + 1)))"

lemma admitted_read_succeeds:
  assumes inv: "store_inv nfc db" and adm: "read_admitted nfc input g db"
    and new: "n \<notin> ob_id ` set (observations db)"
  shows "\<exists>x db'. recordObservation nfc n input db = Inr (x, db')"
proof -
  let ?head = "selectCurrentHead db input"
  let ?k = "head_revision_of ?head + 1"
  from adm obtain v ev where v: "lockObservationSubject db input = Inr v"
    and scope: "rv_sourceEpoch v = record_epoch input" "rv_materialReviewRevision v = record_revision input"
    and ev: "loadPublicationEvidence db input = Inr ev"
    by (auto simp: read_admitted_def split: sum.splits)
  have newer: "(case ?head of None \<Rightarrow> False | Some (h, o') \<Rightarrow> record_generation input \<le> ob_readGeneration o') = False"
    using adm by (auto simp: read_admitted_def newer_than_head_def split: option.splits)
  define c where "c = readPublicationCandidate db (ev_internal ev) (ev_attempt ev)"
  define d where "d = decideGoogleReplyObservation nfc (decision_input input ?head c)"
  let ?s = "supersedesCurrentAttempt (resolution d) c input"
  have eq: "recordObservation nfc n input db = record_decided n input g ?head ev c d db"
    using adm v scope ev newer
    by (simp add: recordObservation_def read_admitted_def c_def d_def Let_def)
  obtain row db1 where p: "persistObservationAndHead n input g d ?k db = Inr (row, db1)"
    using persist_succeeds[OF inv v _ new] adm by (fastforce simp: read_admitted_def)
  let ?dm = "remove_mirror input db1"
  have dm: "replies ?dm (ro_organizationId input, ro_reviewId input, Internal)
      = replies db (ro_organizationId input, ro_reviewId input, Internal)" "attempts ?dm = attempts db"
    using persist_effect(2)[OF p] by (simp_all add: remove_mirror_def)
  obtain fo db2 where st: "settleSupersededPublication input ev ?s ?dm = Inr (fo, db2)"
    using settle_succeeds[OF inv v ev dm] c_def by blast
  note ef = evidence_facts[OF inv v ev]
  have "\<exists>x db'. record_new n input g ev d ?s ?k db = Inr (x, db')"
  proof (cases "resolution d = Confirmed_on_google \<and> ev_internal ev \<noteq> None \<and> ev_attempt ev \<noteq> None")
    case False
    with p st show ?thesis by (auto simp: record_new_def)
  next
    case True
    then obtain i a where i: "ev_internal ev = Some i" "ev_attempt ev = Some a" by blast
    from True confirmed_candidate[of nfc "decision_input input ?head c"] obtain c'
      where "c = Some c'" "isConfirmableCurrentAttempt c' (decision_input input ?head c)"
      by (auto simp: d_def)
    then have op: "isOpenAttemptOutcome (at_outcome a)"
      using i by (auto simp: c_def readPublicationCandidate_def isConfirmableCurrentAttempt_def
          isOpenAttemptOutcome_def)
    have "\<not> ?s" using True by (simp add: supersedesCurrentAttempt_def)
    with st ef(1,2) i have "db2 = ?dm" by (cases rule: settleSuperseded_cases) auto
    with confirm_succeeds[OF inv v ev i dm(1) op, where k = ?k] p st True i show ?thesis
      by (fastforce simp: record_new_def)
  qed
  then obtain x db' where rn: "record_new n input g ev d ?s ?k db = Inr (x, db')" by blast
  have safe: "is_safe_integer (nint ?k)" using adm by (simp add: read_admitted_def)
  obtain o' db0 where rs: "(if restatesCurrentHead input d ?head ?s ev
      then renewHeadContentClock input db else (None, db)) = (o', db0)" by fastforce
  show ?thesis
  proof (cases "resolution d = Earlier_publication_live")
    case True
    then show ?thesis by (simp add: eq record_decided_def)
  next
    case False
    show ?thesis
    proof (cases o')
      case None
      then have "db0 = db" using rs renew_none by (auto split: if_splits)
      with False rs None rn safe show ?thesis by (simp add: eq record_decided_def Let_def)
    next
      case (Some w)
      with False rs show ?thesis by (simp add: eq record_decided_def Let_def)
    qed
  qed
qed

section \<open>What a recorded read leaves\<close>

text \<open>Settling and confirming write replies and attempts only.\<close>

definition settles_only :: "reply_db \<Rightarrow> reply_db \<Rightarrow> bool" where
  "settles_only db db' = (same_rest db db' \<and> outbox db' = outbox db
     \<and> authorizations db' = authorizations db)"

lemma settling_only:
  "supersedeExternalCurrentAttempt input i a db = Inr (e, db') \<Longrightarrow> settles_only db db'"
  "cancelZeroAttemptAuthorization input i c db = Inr (e, db') \<Longrightarrow> settles_only db db'"
  "confirmReplyOnGoogle input i a k db = Inr (e, db') \<Longrightarrow> settles_only db db'"
  by (auto simp: supersedeExternalCurrentAttempt_def cancelZeroAttemptAuthorization_def settles_only_def
      confirmReplyOnGoogle_def same_rest_def split: sum.splits if_splits elim!: update_internal_ok)

lemma record_facts_outbox: "outbox (record_facts fs db) = outbox db @ fs"
  by (induction fs arbitrary: db) (simp_all add: record_facts_def insertOutboxRow_def)

lemma record_facts_rest:
  "reviews (record_facts fs db) = reviews db" "observations (record_facts fs db) = observations db"
  "observation_heads (record_facts fs db) = observation_heads db"
  by (induction fs arbitrary: db; simp add: record_facts_def insertOutboxRow_def)+

lemma recorded_effect:
  assumes inv: "store_inv nfc db" and res: "recordObservation nfc n input db = Inr (x, db')"
    and new: "\<not> duplicate x"
  obtains g ev d row fs where "recorded_decision nfc input db ev d"
    "googleReplyObservationInputDigest nfc (record_identity input) = Some g"
    "assertObservationFence input = Inr ()"
    "is_safe_integer (nint (head_revision_of (selectCurrentHead db input) + 1))"
    "row = observation_of n input g d (head_revision_of (selectCurrentHead db input) + 1)"
    "x = resultFromRow row False" "findReplayedObservation db input g = Inr None"
    "reviews db' = reviews db" "authorizations db' = authorizations db"
    "observations db' = observations db @ [row]"
    "observation_heads db' = observation_heads (upsertHead input row db)"
    "outbox db' = outbox db @ fs @ (if resolution d \<noteq> R_unchanged
       then [observed_fact_of input d (head_revision_of (selectCurrentHead db input) + 1)] else [])"
    "\<And>f. F_observed f \<notin> set fs"
  using res
proof (cases rule: recordObservation_cases)
  case (recorded g ev d)
  let ?k = "head_revision_of (selectCurrentHead db input) + 1"
  let ?more = "if resolution d \<noteq> R_unchanged then [observed_fact_of input d ?k] else []"
  from recorded(1) obtain v where ev: "loadPublicationEvidence db input = Inr ev"
    and v: "lockObservationSubject db input = Inr v"
    by (auto simp: recorded_decision_def)
  note ef = evidence_facts[OF inv v ev]
  have s: "resolution d = External_current_live"
    if "supersedesCurrentAttempt (resolution d) (readPublicationCandidate db (ev_internal ev) (ev_attempt ev)) input"
    using that by (simp add: supersedesCurrentAttempt_def)
  show thesis
  proof (rule record_new_cases[OF recorded(2) ef(1,2) s])
    fix row db1 db2 fs
    assume p: "persistObservationAndHead n input g d ?k db = Inr (row, db1)"
      and x: "x = resultFromRow row False" and db': "db' = record_facts (fs @ ?more) db2"
      and fs: "\<And>f. F_observed f \<notin> set fs"
      and cases: "db2 = remove_mirror input db1 \<and> \<not> (resolution d = Confirmed_on_google \<and> ev_internal ev \<noteq> None \<and> ev_attempt ev \<noteq> None)
     \<or> (\<exists>i a e. resolution d = External_current_live \<and> ev_internal ev = Some i \<and> ev_attempt ev = Some a
          \<and> supersedeExternalCurrentAttempt input i a (remove_mirror input db1) = Inr (e, db2))
     \<or> (\<exists>i c e. ev_internal ev = Some i \<and> ev_zeroAttempt ev = Some c
          \<and> cancelZeroAttemptAuthorization input i c (remove_mirror input db1) = Inr (e, db2))
     \<or> (\<exists>i a e. resolution d = Confirmed_on_google \<and> ev_internal ev = Some i \<and> ev_attempt ev = Some a
          \<and> confirmReplyOnGoogle input i a ?k (remove_mirror input db1) = Inr (e, db2))"
    have "settles_only (remove_mirror input db1) db2"
      using cases
    proof (elim disjE exE conjE)
      assume "db2 = remove_mirror input db1"
      then show ?thesis by (simp add: settles_only_def)
    qed (simp_all add: settling_only)
    then have "same_rest db1 db2" "outbox db2 = outbox db1" "authorizations db2 = authorizations db1"
      by (simp_all add: settles_only_def same_rest_def remove_mirror_def)
    moreover note pe = persist_effect[OF p]
    ultimately have rest: "reviews db2 = reviews db" "observations db2 = observations db @ [row]"
      "observation_heads db2 = observation_heads (upsertHead input row db)" "outbox db2 = outbox db"
      "authorizations db2 = authorizations db"
      by (simp_all add: same_rest_def upsertHead_def Let_def)
    show thesis
      by (rule that[OF recorded(1,3,5,6) pe(1) x recorded(4)])
         (use rest fs in \<open>simp_all add: db' record_facts_rest record_facts_outbox\<close>)
  qed
qed (use new in simp_all)

section \<open>Claims\<close>

text \<open>What a confirmation rests on: the text read is the reply's, under one authorization.\<close>

lemma confirmed_evidence:
  assumes inv: "store_inv nfc db" and rd: "recorded_decision nfc input db ev d"
    and i: "ev_internal ev = Some row" and cf: "resolution d = Confirmed_on_google"
  obtains a t u where "ev_attempt ev = Some a" "ro_observedText input = Some t"
    "a \<in> set (own_attempts db (reply_id row))" "attempt_key a = current_key row"
    "at_sourceEpoch a = record_epoch input" "at_materialReviewRevision a = record_revision input"
    "u \<in> set (own_authorizations db (reply_id row))" "au_publicationCycle u = publicationCycle row"
    "au_expectedReplyDigest u = googleReplyTextDigest nfc t"
    "googleReplyTextDigest nfc t = googleReplyTextDigest nfc (reply_text row)"
    "dec_state d = Live" "matchedReplyId d = Some (reply_id row)"
    "matchedPublicationCycle d = Some (at_publicationCycle a)"
    "matchedAttemptNumber d = Some (at_attemptNumber a)"
proof -
  let ?c = "readPublicationCandidate db (ev_internal ev) (ev_attempt ev)"
  let ?i = "decision_input input (selectCurrentHead db input) ?c"
  from rd obtain v where ev: "loadPublicationEvidence db input = Inr ev"
    and v: "lockObservationSubject db input = Inr v" and d: "d = decideGoogleReplyObservation nfc ?i"
    by (auto simp: recorded_decision_def)
  from cf d obtain c where ex: "exact_candidate nfc ?i = Some c"
    using decide_not_exact by (cases "exact_candidate nfc ?i") auto
  then obtain t where c: "?c = Some c" "ro_observedText input = Some t" "isConfirmableCurrentAttempt c ?i"
    "expectedReplyDigest c = googleReplyTextDigest nfc t"
    using exact_candidate_iff[of nfc ?i c] by auto
  from c(1) i obtain a where a: "ev_attempt ev = Some a" "outcome c = at_outcome a"
    "cand_replyId c = reply_id row" "cand_publicationCycle c = at_publicationCycle a"
    "cand_attemptNumber c = at_attemptNumber a" "cand_sourceEpoch c = at_sourceEpoch a"
    "cand_materialReviewRevision c = at_materialReviewRevision a"
    "expectedReplyDigest c = at_expectedReplyDigest a"
    by (auto elim!: candidate_of_evidence)
  note f = evidence_facts(3)[OF inv v ev i a(1)] and r = evidence_facts(4)[OF inv v ev i]
  let ?us = "own_authorizations db (reply_id row)"
  have ok: "row_ok nfc (own_attempts db (reply_id row)) ?us row"
    using internal_row_ok(1)[OF inv] r by blast
  have "isOpenAttemptOutcome (at_outcome a)"
    using c(3) a(2) by (simp add: isConfirmableCurrentAttempt_def isOpenAttemptOutcome_def)
  from open_attempt_row(1)[OF ok _ _ this] f
  have "status row \<in> {S_approved, S_publish_failed}" by (auto simp: CLAIMABLE_PUBLICATION_STATUSES_def)
  then obtain w where w: "w \<in> set ?us" "au_publicationCycle w = publicationCycle row"
    "au_expectedReplyDigest w = googleReplyTextDigest nfc (reply_text row)"
    using ok unfolding row_ok_def authorized_text_def by blast
  obtain u where u: "u \<in> set ?us" "au_publicationCycle u = at_publicationCycle a"
    "au_expectedReplyDigest u = at_expectedReplyDigest a"
    using ok f unfolding row_ok_def attempt_ok_def by blast
  have "inj_on au_publicationCycle (set ?us)" using ok by (simp add: row_ok_def distinct_map)
  moreover have "at_publicationCycle a = publicationCycle row"
    using f by (simp add: attempt_key_def current_key_def)
  ultimately have "u = w" using u w by (metis inj_on_def)
  moreover have "matchedReplyId d = Some (cand_replyId c) \<and> matchedPublicationCycle d = Some (cand_publicationCycle c)
      \<and> matchedAttemptNumber d = Some (cand_attemptNumber c)"
    using decide_exact[OF ex] d by simp
  moreover have "dec_state d = Live"
    using ex c(2) by (simp add: d decideGoogleReplyObservation_def Let_def)
  ultimately show thesis
    using that[OF a(1) c(2), of w] f w u c a by (simp add: isConfirmableCurrentAttempt_def)
qed

lemma record_authorizations:
  assumes inv: "store_inv nfc db" and res: "recordObservation nfc n input db = Inr (x, db')"
  shows "authorizations db' = authorizations db"
proof (cases "duplicate x")
  case False
  then show ?thesis by (rule recorded_effect[OF inv res])
next
  case True
  from res show ?thesis
  proof (cases rule: recordObservation_cases)
    case (recorded g ev d)
    then have "\<not> duplicate x"
      by (auto simp: record_new_def resultFromRow_def split: sum.splits)
    with True show ?thesis by simp
  qed (simp_all add: renewHeadContentClock_def Let_def split: option.split)
qed



section \<open>Rows and facts the schema accepts\<close>

text \<open>
  The CHECK constraints of \<^verbatim>\<open>google_reply_observations\<close>, without the two columns the rows here do
  not carry (\<^verbatim>\<open>content_erased_at\<close>, null when the content is active, and
  \<^verbatim>\<open>normalization_version\<close>, a constant).
\<close>

definition observation_row_valid :: "observation_row \<Rightarrow> bool" where
  "observation_row_valid o' =
     ((1 \<le> ob_observationRevision o' \<and> ob_observationRevision o' \<le> 9007199254740991
       \<and> 0 \<le> ob_sourceEpoch o' \<and> ob_sourceEpoch o' \<le> 2147483647
       \<and> 1 \<le> ob_materialReviewRevision o' \<and> ob_materialReviewRevision o' \<le> 9007199254740991
       \<and> 1 \<le> ob_readGeneration o' \<and> ob_readGeneration o' \<le> 9007199254740991)
      \<and> (is_digest_key (ob_observationKey o') \<and> is_digest_key (ob_inputDigest o'))
      \<and> ob_resolution o' \<noteq> Earlier_publication_live
      \<and> (ob_contentState o' = ''active''
            \<and> (ob_state o' = Live \<and> ob_normalizedText o' \<noteq> None
                  \<and> (case ob_normalizedDigest o' of None \<Rightarrow> False | Some s \<Rightarrow> is_digest_key s)
               \<or> ob_state o' = Absent \<and> ob_normalizedText o' = None \<and> ob_normalizedDigest o' = None)
         \<or> ob_contentState o' \<in> {''source_expired'', ''provider_deleted''}
            \<and> ob_normalizedText o' = None \<and> ob_normalizedDigest o' = None)
      \<and> (ob_resolution o' = Confirmed_on_google \<and> ob_provenance o' = Repkey_confirmed
            \<and> ob_matchedReplyId o' \<noteq> None \<and> ob_matchedPublicationCycle o' \<noteq> None
            \<and> ob_matchedAttemptNumber o' \<noteq> None
         \<or> ob_resolution o' \<noteq> Confirmed_on_google \<and> ob_provenance o' \<noteq> Repkey_confirmed
            \<and> ob_matchedReplyId o' = None \<and> ob_matchedPublicationCycle o' = None
            \<and> ob_matchedAttemptNumber o' = None)
      \<and> (case ob_resolution o' of
           Confirmed_on_google \<Rightarrow> ob_state o' = Live \<and> ob_change o' \<noteq> Deleted
         | External_current_live \<Rightarrow> ob_state o' = Live \<and> ob_change o' \<noteq> Deleted
             \<and> ob_provenance o' = External_or_unknown
         | Diverged \<Rightarrow> ob_state o' = Live \<and> ob_change o' \<noteq> Deleted
             \<and> ob_provenance o' = External_or_unknown
         | R_absent \<Rightarrow> ob_state o' = Absent \<and> ob_change o' = Deleted \<and> ob_provenance o' = No_provenance
         | R_unchanged \<Rightarrow> ob_change o' = Unchanged
             \<and> (ob_state o' = Absent \<and> ob_provenance o' = No_provenance
                \<or> ob_state o' = Live \<and> ob_provenance o' = External_or_unknown)
         | Earlier_publication_live \<Rightarrow> False))"

text \<open>What the observation event admits.\<close>

definition hasValidReviewReplyObservationSemantics :: "observed_fact \<Rightarrow> bool" where
  "hasValidReviewReplyObservationSemantics f =
     (let hasMatch = of_matchedReplyId f \<noteq> None \<and> of_matchedPublicationCycle f \<noteq> None;
          hasNoMatch = of_matchedReplyId f = None \<and> of_matchedPublicationCycle f = None
      in case of_resolution f of
           Confirmed_on_google \<Rightarrow> of_change f \<noteq> Deleted \<and> of_provenance f = Repkey_confirmed \<and> hasMatch
         | External_current_live \<Rightarrow> of_change f \<noteq> Deleted \<and> of_provenance f = External_or_unknown \<and> hasNoMatch
         | Diverged \<Rightarrow> of_change f \<noteq> Deleted \<and> of_provenance f = External_or_unknown \<and> hasNoMatch
         | R_absent \<Rightarrow> of_change f = Deleted \<and> of_provenance f = No_provenance \<and> hasNoMatch
         | _ \<Rightarrow> False)"

lemma change_of_live: "decideObservationChange (describeObservedText nfc (Some t)) p s \<noteq> Deleted"
  by (auto simp: decideObservationChange_def split: option.splits)

lemma change_of_absent:
  "decideObservationChange (describeObservedText nfc None) p s \<in> {Deleted, Unchanged}"
  by (auto simp: decideObservationChange_def split: option.splits)

lemma decision_shape:
  fixes nfc :: normalizer and i :: observation_input
  defines "d \<equiv> decideGoogleReplyObservation nfc i"
  shows "dec_normalizedText d = map_option (normalizeGoogleReplyText nfc) (observedText i)
    \<and> dec_normalizedDigest d = map_option (googleReplyTextDigest nfc) (observedText i)
    \<and> dec_state d = (if observedText i = None then Absent else Live)
    \<and> (if observedText i = None then change d \<in> {Deleted, Unchanged} else change d \<noteq> Deleted)
    \<and> (case resolution d of
         Confirmed_on_google \<Rightarrow> observedText i \<noteq> None \<and> provenance d = Repkey_confirmed
           \<and> matchedReplyId d \<noteq> None \<and> matchedPublicationCycle d \<noteq> None \<and> matchedAttemptNumber d \<noteq> None
       | R_absent \<Rightarrow> observedText i = None \<and> change d = Deleted \<and> provenance d = No_provenance
       | R_unchanged \<Rightarrow> change d = Unchanged
           \<and> provenance d = (if observedText i = None then No_provenance else External_or_unknown)
       | Earlier_publication_live \<Rightarrow> True
       | _ \<Rightarrow> observedText i \<noteq> None \<and> provenance d = External_or_unknown)
    \<and> (resolution d \<noteq> Confirmed_on_google \<longrightarrow> matchedReplyId d = None
         \<and> matchedPublicationCycle d = None \<and> matchedAttemptNumber d = None)"
proof (cases "observedText i")
  case None
  then have "exact_candidate nfc i = None"
    using exact_candidate_iff[of nfc i] by (cases "exact_candidate nfc i") auto
  with None change_of_absent[of nfc "previous i" i] show ?thesis
    unfolding d_def by (auto simp: decide_defs)
next
  case (Some t)
  note ch = change_of_live[of nfc t "previous i" i]
  show ?thesis
  proof (cases "exact_candidate nfc i")
    case (Some c)
    with \<open>observedText i = Some t\<close> ch show ?thesis unfolding d_def by (simp add: decide_defs)
  next
    case None
    with Some ch show ?thesis
      unfolding d_def by (cases "current_candidate i") (auto simp: decide_defs)
  qed
qed

lemma digest_is_key [simp]: "is_digest_key (sha256Hex s)" "is_digest_key (googleReplyTextDigest nfc t)"
  unfolding is_digest_key_def googleReplyTextDigest_def HEX_def[symmetric]
  using length_sha256Hex set_sha256Hex by blast+

lemma find_append: "find P (xs @ ys) = (case find P xs of None \<Rightarrow> find P ys | Some x \<Rightarrow> Some x)"
  by (induction xs) auto

text \<open>The counters of a fenced command are what the columns hold.\<close>

lemma safe_int_bounds:
  assumes "is_safe_integer q" "\<not> num_lt q (nint k)"
  shows "k \<le> num_int q \<and> num_int q \<le> 9007199254740991"
proof -
  obtain a where q: "q = nint a" "\<bar>a\<bar> \<le> max_safe_integer"
    using assms(1) by (rule is_safe_integerE)
  then show ?thesis using assms(2) by (simp add: nint_def max_safe_integer_def)
qed

lemma fence_bounds:
  assumes "assertObservationFence input = Inr ()"
  shows "is_digest_key (ro_observationKey input)" "0 \<le> record_epoch input"
    "1 \<le> record_revision input \<and> record_revision input \<le> 9007199254740991"
    "1 \<le> record_generation input \<and> record_generation input \<le> 9007199254740991"
proof -
  have *: "is_digest_key (ro_observationKey input)"
    "\<not> num_lt (ro_materialReviewRevision input) (nint 1)" "is_safe_integer (ro_materialReviewRevision input)"
    "\<not> num_lt (ro_readGeneration input) (nint 1)" "is_safe_integer (ro_readGeneration input)"
    "\<not> num_lt (ro_sourceEpoch input) (nint 0)" "is_safe_integer (ro_sourceEpoch input)"
    using assms by (simp_all only: assertObservationFence_def split: if_splits) auto
  then show "is_digest_key (ro_observationKey input)" by simp
  show "0 \<le> record_epoch input" "1 \<le> record_revision input \<and> record_revision input \<le> 9007199254740991"
    "1 \<le> record_generation input \<and> record_generation input \<le> 9007199254740991"
    using safe_int_bounds[OF *(7,6)] safe_int_bounds[OF *(3,2)] safe_int_bounds[OF *(5,4)]
    by (simp_all add: record_epoch_def record_revision_def record_generation_def)
qed

text \<open>
  C19. Every observation row the authority appends satisfies the CHECK constraints of its table and
  the foreign key of the attempt it matched, and every observation event it records has the shape
  its consumers admit, whatever Google showed.
\<close>

theorem recorded_rows_satisfy_their_table:
  assumes "no_replies db0" "run (store_step nfc actor) db0 cs = Some db"
    and "\<forall>v \<in> set (reviews db). rv_sourceEpoch v \<le> 2147483647"
    and "recordObservation nfc n input db = Inr (x, db')" "\<not> duplicate x"
  shows "\<exists>row. observations db' = observations db @ [row] \<and> observation_row_valid row
    \<and> (ob_matchedReplyId row \<noteq> None \<longrightarrow>
         (\<exists>a \<in> set (attempts db). at_organizationId a = ob_organizationId row
            \<and> at_propertyId a = ob_propertyId row \<and> at_reviewId a = ob_reviewId row
            \<and> ob_matchedReplyId row = Some (at_replyId a)
            \<and> ob_matchedPublicationCycle row = Some (at_publicationCycle a)
            \<and> ob_matchedAttemptNumber row = Some (at_attemptNumber a)
            \<and> at_sourceEpoch a = ob_sourceEpoch row
            \<and> at_materialReviewRevision a = ob_materialReviewRevision row))
    \<and> (\<forall>f. F_observed f \<in> set (drop (length (outbox db)) (outbox db')) \<longrightarrow>
         hasValidReviewReplyObservationSemantics f)"
proof -
  note inv = reachable_inv[OF assms(1,2)]
  let ?k = "head_revision_of (selectCurrentHead db input) + 1"
  obtain g ev d row fs where rd: "recorded_decision nfc input db ev d"
    and g: "googleReplyObservationInputDigest nfc (record_identity input) = Some g"
    and fence: "assertObservationFence input = Inr ()" and safe: "is_safe_integer (nint ?k)"
    and row: "row = observation_of n input g d ?k" and "x = resultFromRow row False"
    and "findReplayedObservation db input g = Inr None"
    and "reviews db' = reviews db" "authorizations db' = authorizations db"
    and obs: "observations db' = observations db @ [row]"
    and "observation_heads db' = observation_heads (upsertHead input row db)"
    and out: "outbox db' = outbox db @ fs @ (if resolution d \<noteq> R_unchanged then [observed_fact_of input d ?k] else [])"
    and fs: "\<And>f. F_observed f \<notin> set fs"
    by (rule recorded_effect[OF inv assms(4,5)], rule that)
  from rd obtain v where v: "lockObservationSubject db input = Inr v" "rv_sourceEpoch v = record_epoch input"
    and ev: "loadPublicationEvidence db input = Inr ev"
    and d: "d = decideGoogleReplyObservation nfc (decision_input input (selectCurrentHead db input)
        (readPublicationCandidate db (ev_internal ev) (ev_attempt ev)))"
    and live: "resolution d \<noteq> Earlier_publication_live"
    by (auto simp: recorded_decision_def)
  note shape = decision_shape[of nfc "decision_input input (selectCurrentHead db input)
        (readPublicationCandidate db (ev_internal ev) (ev_attempt ev))", folded d]
  have "record_epoch input \<le> 2147483647"
    using assms(3) lockObservationSubject_review(1)[OF v(1)] v(2) by metis
  moreover have "1 \<le> ?k \<and> ?k \<le> 9007199254740991"
    using head_revision_nonneg[OF inv v(1)] safe by (simp add: max_safe_integer_def)
  moreover have "is_digest_key g"
    using g by (auto simp: googleReplyObservationInputDigest_def)
  ultimately have valid: "observation_row_valid row"
    using shape live fence_bounds[OF fence]
    unfolding observation_row_valid_def row observation_of_def
    by (cases "ro_observedText input"; cases "resolution d") auto
  have match: "\<exists>a \<in> set (attempts db). at_organizationId a = ob_organizationId row
            \<and> at_propertyId a = ob_propertyId row \<and> at_reviewId a = ob_reviewId row
            \<and> ob_matchedReplyId row = Some (at_replyId a)
            \<and> ob_matchedPublicationCycle row = Some (at_publicationCycle a)
            \<and> ob_matchedAttemptNumber row = Some (at_attemptNumber a)
            \<and> at_sourceEpoch a = ob_sourceEpoch row
            \<and> at_materialReviewRevision a = ob_materialReviewRevision row"
    if m: "ob_matchedReplyId row \<noteq> None"
  proof -
    have cf: "resolution d = Confirmed_on_google"
      using m shape by (auto simp: row observation_of_def)
    obtain i where i: "ev_internal ev = Some i"
    proof (cases "ev_internal ev")
      case None
      then have "readPublicationCandidate db (ev_internal ev) (ev_attempt ev) = None"
        by (simp add: readPublicationCandidate_def)
      with cf d confirmed_candidate[of nfc "decision_input input (selectCurrentHead db input) None"]
      show ?thesis by fastforce
    qed (use that in blast)
    from confirmed_evidence[OF inv rd i cf] obtain a where a: "a \<in> set (own_attempts db (reply_id i))"
      "at_sourceEpoch a = record_epoch input" "at_materialReviewRevision a = record_revision input"
      "matchedReplyId d = Some (reply_id i)" "matchedPublicationCycle d = Some (at_publicationCycle a)"
      "matchedAttemptNumber d = Some (at_attemptNumber a)" by metis
    have "replies db (ro_organizationId input, ro_reviewId input, Internal) = Some i"
      using evidence_facts(4)[OF inv v(1) ev i] by simp
    note place = own_attempt_place[OF inv v(1) this a(1)]
    show ?thesis
      using a place by (intro bexI[of _ a]) (simp_all add: row observation_of_def own_attempts_def)
  qed
  have "hasValidReviewReplyObservationSemantics f"
    if "F_observed f \<in> set (drop (length (outbox db)) (outbox db'))" for f
  proof -
    from that out fs have "f = the (Some f)" "F_observed f = observed_fact_of input d ?k" "resolution d \<noteq> R_unchanged"
      by (auto split: if_splits)
    with shape live show ?thesis
      by (cases "resolution d"; cases "ro_observedText input")
         (auto simp: hasValidReviewReplyObservationSemantics_def observed_fact_of_def Let_def)
  qed
  with obs valid match show ?thesis by blast
qed

theorem recorded_rows_satisfy_their_table_witness:
  "observation_row_valid sample_row"
proof -
  have e: "\<forall>v \<in> set (reviews sample_sent). rv_sourceEpoch v \<le> 2147483647"
    by (simp add: sample_sent_def sample_row_db_def sample_db_def)
  have new: "\<not> duplicate (resultFromRow sample_row False)" by (simp add: resultFromRow_def)
  from recorded_rows_satisfy_their_table[OF sample_no_replies sample_run e sample_record new]
  obtain row where "observations sample_observed = observations sample_sent @ [row]" "observation_row_valid row"
    by blast
  then show ?thesis
    by (simp add: sample_observed_def sample_sent_def sample_row_db_def sample_db_def Let_def)
qed

section \<open>Recording always ends, and once is enough\<close>



text \<open>
  C20. Recording is idempotent: issuing the same command again, after it was recorded, answers
  with the same result marked as a duplicate and changes nothing.
\<close>

theorem recording_again_is_a_duplicate:
  assumes "no_replies db0" "run (store_step nfc actor) db0 cs = Some db"
    and "recordObservation nfc n input db = Inr (x, db')" "\<not> duplicate x"
  shows "recordObservation nfc m input db' = Inr (x\<lparr>duplicate := True\<rparr>, db')"
proof -
  let ?k = "head_revision_of (selectCurrentHead db input) + 1"
  obtain g ev d row fs where rd: "recorded_decision nfc input db ev d"
    and g: "googleReplyObservationInputDigest nfc (record_identity input) = Some g"
    and fence: "assertObservationFence input = Inr ()" and "is_safe_integer (nint ?k)"
    and row: "row = observation_of n input g d ?k" and x: "x = resultFromRow row False"
    and new: "findReplayedObservation db input g = Inr None"
    and db': "reviews db' = reviews db" "authorizations db' = authorizations db"
      "observations db' = observations db @ [row]"
      "observation_heads db' = observation_heads (upsertHead input row db)"
    and "outbox db' = outbox db @ fs @ (if resolution d \<noteq> R_unchanged then [observed_fact_of input d ?k] else [])"
    and "\<And>f. F_observed f \<notin> set fs"
    by (rule recorded_effect[OF reachable_inv[OF assms(1,2)] assms(3,4)], rule that)
  from rd obtain v where "lockObservationSubject db input = Inr v" by (auto simp: recorded_decision_def)
  then have v: "lockObservationSubject db' input = Inr v"
    by (simp add: lockObservationSubject_def db')
  let ?P = "\<lambda>o'. ob_organizationId o' = ro_organizationId input \<and> ob_reviewId o' = ro_reviewId input
      \<and> ob_observationKey o' = ro_observationKey input"
  have "find ?P (observations db) = None"
    using new by (auto simp: findReplayedObservation_def split: option.splits if_splits)
  moreover have "?P row" by (simp add: row observation_of_def)
  ultimately have "find ?P (observations db') = Some row"
    unfolding db'(3) find_append by simp
  then have "findReplayedObservation db' input g = Inr (Some row)"
    by (simp add: findReplayedObservation_def row observation_of_def)
  with g fence v x show ?thesis
    by (simp add: recordObservation_def resultFromRow_def)
qed

theorem recording_again_is_a_duplicate_witness:
  "recordObservation id ''other'' sample_read sample_observed
     = Inr ((resultFromRow sample_row False)\<lparr>duplicate := True\<rparr>, sample_observed)"
  by (rule recording_again_is_a_duplicate[OF sample_no_replies sample_run sample_record])
     (simp add: resultFromRow_def)

text \<open>
  C21. The observations of a review form a gap-free history: its head names one of them, the newest,
  with the head's revision and by the newest provider read, and their revisions are exactly the
  numbers from 1 to the head's.
\<close>

theorem observation_history_is_gap_free:
  assumes "no_replies db0" "run (store_step nfc actor) db0 cs = Some db"
  shows "\<forall>v. (observation_heads db v = None \<longleftrightarrow> (\<forall>o' \<in> set (observations db). ob_reviewId o' \<noteq> v))
    \<and> (\<forall>h. observation_heads db v = Some h \<longrightarrow>
         (\<exists>o'. head_observation db h = Some o' \<and> ob_reviewId o' = v
            \<and> ob_observationRevision o' = oh_observationRevision h
            \<and> (\<forall>p \<in> set (observations db). ob_reviewId p = v \<longrightarrow> ob_readGeneration p \<le> ob_readGeneration o'))
         \<and> ob_observationRevision ` {o' \<in> set (observations db). ob_reviewId o' = v}
             = {1..oh_observationRevision h})"
proof
  note inv = reachable_inv[OF assms]
  have ho: "heads_inv (observations db) (observation_heads db)" using inv by (simp add: store_inv_def)
  fix v
  have named: "\<exists>o'. head_observation db h = Some o' \<and> o' \<in> set (observations db) \<and> ob_reviewId o' = v
      \<and> ob_observationRevision o' = oh_observationRevision h
      \<and> (\<forall>p \<in> set (observations db). ob_reviewId p = v \<longrightarrow> ob_readGeneration p \<le> ob_readGeneration o')"
    if h: "observation_heads db v = Some h" for h
  proof -
    obtain o' where "head_observation db h = Some o'" "o' \<in> set (observations db)" "head_names h o'"
      "\<And>p. p \<in> set (observations db) \<Longrightarrow> ob_reviewId p = v \<Longrightarrow> ob_readGeneration p \<le> ob_readGeneration o'"
      using head_observation_named[OF ho h] by blast
    with heads_inv_parts(3)[OF ho h] show ?thesis
      by (intro exI[of _ o']) (simp add: head_names_def)
  qed
  have "observation_heads db v = None \<longleftrightarrow> (\<forall>o' \<in> set (observations db). ob_reviewId o' \<noteq> v)"
    using named heads_inv_parts(2)[OF ho] by (metis option.exhaust)
  with named heads_inv_parts(5)[OF ho]
  show "(observation_heads db v = None \<longleftrightarrow> (\<forall>o' \<in> set (observations db). ob_reviewId o' \<noteq> v))
    \<and> (\<forall>h. observation_heads db v = Some h \<longrightarrow>
         (\<exists>o'. head_observation db h = Some o' \<and> ob_reviewId o' = v
            \<and> ob_observationRevision o' = oh_observationRevision h
            \<and> (\<forall>p \<in> set (observations db). ob_reviewId p = v \<longrightarrow> ob_readGeneration p \<le> ob_readGeneration o'))
         \<and> ob_observationRevision ` {o' \<in> set (observations db). ob_reviewId o' = v}
             = {1..oh_observationRevision h})"
    by blast
qed

theorem observation_history_is_gap_free_witness:
  "ob_observationRevision ` {o' \<in> set (observations sample_observed). ob_reviewId o' = ''v''} = {1..1}"
proof -
  have "sample_step sample_sent (Observe sample_read ''n'') = Some sample_observed"
    by (simp add: store_step_def admissible_def void_def sample_record)
  then have "run sample_step sample_db (sample_commands @ [Observe sample_read ''n'']) = Some sample_observed"
    using sample_run by (simp add: run_append)
  from observation_history_is_gap_free[OF sample_no_replies this]
  have "\<forall>h. observation_heads sample_observed ''v'' = Some h \<longrightarrow>
      ob_observationRevision ` {o' \<in> set (observations sample_observed). ob_reviewId o' = ''v''}
        = {1..oh_observationRevision h}" by blast
  then show ?thesis
    by (simp add: sample_observed_def upsertHead_def sample_sent_def sample_row_db_def sample_db_def Let_def)
qed

end
