(* ===== verification/InboxTypes.thy ===== *)
theory InboxTypes
  imports Prelude
begin

text \<open>
  The vocabulary of the Inbox context: \<^verbatim>\<open>src/src/contexts/inbox/domain/types.ts\<close>, its errors
  (\<^verbatim>\<open>errors.ts\<close>), the status table and the reading of Google's reply (\<^verbatim>\<open>rules.ts\<close>), the manager
  priority (\<^verbatim>\<open>priority.ts\<close>) and the constructors of items and notes (\<^verbatim>\<open>constructors.ts\<close>).

  The cycle, the head and the transition of a source share their identifying columns, which the
  code spreads from one \<^verbatim>\<open>scope\<close> object: they are extensions of the record \<open>cycle_scope\<close>.
  Revisions that come from a caller are JavaScript numbers, since the code checks that they are
  positive safe integers. The reasons of a transition, one union of three literal types in the
  source, are the tagged union \<open>transition_reason\<close>; \<open>reason_text\<close> gives the literal back.
\<close>

section \<open>Literal types\<close>

datatype inbox_status = Open | Closed

datatype source_type = Src_review | Src_feedback

datatype open_reason =
    OR_legacy_backfill
  | OR_review_observed
  | OR_feedback_submitted
  | OR_material_revision_changed
  | OR_manual_reopen
  | OR_provider_reply_deleted
  | OR_provider_reply_diverged

datatype close_reason =
    CR_confirmed_on_google
  | CR_external_reply_observed
  | CR_guest_withdrawn
  | CR_private_feedback_handled
  | CR_source_ineligible
  | CR_superseded_by_source_revision

datatype transition_kind = TK_opened | TK_closed | TK_reopened

datatype actor_type = Actor_user | Actor_guest | Actor_provider | Actor_system

datatype manual_reason =
    MR_guest_follow_up_still_needed
  | MR_internal_follow_up_still_needed
  | MR_new_information
  | MR_correcting_handling_status
  | MR_other

datatype transition_reason =
    Opened_for open_reason
  | Closed_for close_reason
  | Reopened_for manual_reason

fun close_reason_text :: "close_reason \<Rightarrow> string" where
  "close_reason_text CR_confirmed_on_google = ''confirmed_on_google''"
| "close_reason_text CR_external_reply_observed = ''external_reply_observed''"
| "close_reason_text CR_guest_withdrawn = ''guest_withdrawn''"
| "close_reason_text CR_private_feedback_handled = ''private_feedback_handled''"
| "close_reason_text CR_source_ineligible = ''source_ineligible''"
| "close_reason_text CR_superseded_by_source_revision = ''superseded_by_source_revision''"

fun open_reason_text :: "open_reason \<Rightarrow> string" where
  "open_reason_text OR_legacy_backfill = ''legacy_backfill''"
| "open_reason_text OR_review_observed = ''review_observed''"
| "open_reason_text OR_feedback_submitted = ''feedback_submitted''"
| "open_reason_text OR_material_revision_changed = ''material_revision_changed''"
| "open_reason_text OR_manual_reopen = ''manual_reopen''"
| "open_reason_text OR_provider_reply_deleted = ''provider_reply_deleted''"
| "open_reason_text OR_provider_reply_diverged = ''provider_reply_diverged''"

fun manual_reason_text :: "manual_reason \<Rightarrow> string" where
  "manual_reason_text MR_guest_follow_up_still_needed = ''guest_follow_up_still_needed''"
| "manual_reason_text MR_internal_follow_up_still_needed = ''internal_follow_up_still_needed''"
| "manual_reason_text MR_new_information = ''new_information''"
| "manual_reason_text MR_correcting_handling_status = ''correcting_handling_status''"
| "manual_reason_text MR_other = ''other''"

fun reason_text :: "transition_reason \<Rightarrow> string" where
  "reason_text (Opened_for r) = open_reason_text r"
| "reason_text (Closed_for r) = close_reason_text r"
| "reason_text (Reopened_for r) = manual_reason_text r"

lemma reason_text_inject: "reason_text a = reason_text b \<longleftrightarrow> a = b"
  by (cases a rule: reason_text.cases; cases b rule: reason_text.cases; simp;
      (rename_tac x y; case_tac x; case_tac y; simp)?)

section \<open>Cycles, heads and transitions\<close>

record cycle_scope =
  inboxItemId :: string
  organizationId :: string
  propertyId :: string
  sourceType :: source_type
  sourceId :: string

record handling_cycle = cycle_scope +
  cycleNumber :: number
  sourceRevision :: number
  openedReason :: open_reason
  manualReopenReason :: "manual_reason option"
  manualReopenExplanation :: "js_string option"
  supersedesCycleNumber :: "number option"
  openedBy :: "string option"
  openedAt :: date

record handling_head = cycle_scope +
  currentCycleNumber :: number
  currentSourceRevision :: number
  stateRevision :: number
  head_status :: inbox_status

record handling_transition = cycle_scope +
  tr_cycleNumber :: number
  tr_stateRevision :: number
  tr_sourceRevision :: number
  tr_kind :: transition_kind
  transitionReason :: transition_reason
  actorType :: actor_type
  actorUserId :: "string option"
  triggerEventId :: "string option"
  transitionedAt :: date

text \<open>
  The compatibility views of the Review-only call sites: the same rows under their older names.
\<close>

record review_cycle = handling_cycle +
  reviewId :: string
  materialReviewRevision :: number

record review_head = handling_head +
  head_reviewId :: string
  currentMaterialReviewRevision :: number

text \<open>The scope of any of these records, and the record a scope is spread into.\<close>

definition scope_of :: "('a) cycle_scope_scheme \<Rightarrow> cycle_scope" where
  "scope_of r = cycle_scope.truncate r"

lemma scope_of_eq_iff:
  "scope_of a = scope_of b \<longleftrightarrow>
     inboxItemId a = inboxItemId b \<and> organizationId a = organizationId b
     \<and> propertyId a = propertyId b \<and> sourceType a = sourceType b \<and> sourceId a = sourceId b"
  by (simp add: scope_of_def cycle_scope.defs)

lemma scope_of_sel [simp]:
  "inboxItemId (scope_of r) = inboxItemId r"
  "organizationId (scope_of r) = organizationId r"
  "propertyId (scope_of r) = propertyId r"
  "sourceType (scope_of r) = sourceType r"
  "sourceId (scope_of r) = sourceId r"
  by (simp_all add: scope_of_def cycle_scope.defs)

section \<open>Errors\<close>

datatype inbox_error_code =
    IE_invalid_transition
  | IE_invalid_input
  | IE_forbidden
  | IE_not_found
  | IE_assignment_not_allowed
  | IE_already_exists
  | IE_revision_conflict
  | IE_priority_changed
  | IE_bulk_partial_failure

record inbox_error =
  ie_code :: inbox_error_code
  ie_message :: string
  ie_context :: "(string \<times> jsval) list"

definition inboxError ::
  "inbox_error_code \<Rightarrow> string \<Rightarrow> (string \<times> jsval) list \<Rightarrow> inbox_error" where
  "inboxError code message context =
     \<lparr>ie_code = code, ie_message = message, ie_context = context\<rparr>"

record revision_conflict_result =
  rcr_currentCommandRevision :: number
  rcr_currentStatus :: inbox_status

fun status_text :: "inbox_status \<Rightarrow> string" where
  "status_text Open = ''open''"
| "status_text Closed = ''closed''"

text \<open>\<open>isInboxStatus\<close> with the value it admits.\<close>

definition isInboxStatus :: "jsval \<Rightarrow> inbox_status option" where
  "isInboxStatus v =
     (if v = JStr ''open'' then Some Open else if v = JStr ''closed'' then Some Closed else None)"

definition conflict_object :: "revision_conflict_result \<Rightarrow> jsval" where
  "conflict_object r =
     JObj [(''ok'', JBool False), (''code'', JStr ''revision_conflict''),
           (''currentCommandRevision'', JNum (rcr_currentCommandRevision r)),
           (''currentStatus'', JStr (status_text (rcr_currentStatus r)))]"

definition isInboxRevisionConflictResult :: "jsval \<Rightarrow> bool" where
  "isInboxRevisionConflictResult v =
     (is_object v
      \<and> prop_of v ''ok'' = JBool False
      \<and> prop_of v ''code'' = JStr ''revision_conflict''
      \<and> (case prop_of v ''currentCommandRevision'' of JNum n \<Rightarrow> True | _ \<Rightarrow> False)
      \<and> isInboxStatus (prop_of v ''currentStatus'') \<noteq> None)"

definition toInboxRevisionConflictResult :: "inbox_error \<Rightarrow> revision_conflict_result option" where
  "toInboxRevisionConflictResult e =
     (if ie_code e \<noteq> IE_revision_conflict then None
      else case (prop_of (JObj (ie_context e)) ''currentCommandRevision'',
                 isInboxStatus (prop_of (JObj (ie_context e)) ''currentStatus'')) of
             (JNum n, Some s) \<Rightarrow>
               Some \<lparr>rcr_currentCommandRevision = n, rcr_currentStatus = s\<rparr>
           | _ \<Rightarrow> None)"

lemma status_text_isInboxStatus [simp]: "isInboxStatus (JStr (status_text s)) = Some s"
  by (cases s) (simp_all add: isInboxStatus_def)

lemma conflict_object_recognised: "isInboxRevisionConflictResult (conflict_object r)"
  by (simp add: isInboxRevisionConflictResult_def conflict_object_def)

section \<open>Status transitions\<close>

fun VALID_TRANSITIONS :: "inbox_status \<Rightarrow> inbox_status list" where
  "VALID_TRANSITIONS Open = [Closed]"
| "VALID_TRANSITIONS Closed = [Open]"

definition canTransition :: "inbox_status \<Rightarrow> inbox_status \<Rightarrow> bool" where
  "canTransition a b = (if a = b then False else b \<in> set (VALID_TRANSITIONS a))"

definition validateTransition ::
  "inbox_status \<Rightarrow> inbox_status \<Rightarrow> (inbox_error, inbox_status) result" where
  "validateTransition a b =
     (if \<not> canTransition a b
      then err (inboxError IE_invalid_transition
             (''Cannot transition from '' @ [CHR 0x27] @ status_text a @ [CHR 0x27] @ '' to ''
                @ [CHR 0x27] @ status_text b @ [CHR 0x27])
             [(''from'', JStr (status_text a)), (''to'', JStr (status_text b))])
      else ok b)"

text \<open>\<open>timestampFieldsForStatus\<close>: the \<^verbatim>\<open>closedAt\<close> an item gets when it enters a status.\<close>

definition timestampFieldsForStatus :: "inbox_status \<Rightarrow> date \<Rightarrow> date option" where
  "timestampFieldsForStatus s now = (if s = Closed then Some now else None)"

lemma canTransition_iff: "canTransition a b \<longleftrightarrow> a \<noteq> b"
  by (cases a; cases b) (simp_all add: canTransition_def)

section \<open>What Google shows for a review\<close>

datatype reading_state = RS_live | RS_absent

datatype reading_resolution =
  RR_confirmed_on_google | RR_external_current_live | RR_diverged | RR_absent | RR_unchanged

record google_reply_reading =
  reading_state :: reading_state
  reading_resolution :: reading_resolution

definition isAnsweringGoogleReply :: "('a) google_reply_reading_scheme \<Rightarrow> bool" where
  "isAnsweringGoogleReply reading =
     (reading_state reading = RS_live
      \<and> (reading_resolution reading = RR_confirmed_on_google
         \<or> reading_resolution reading = RR_external_current_live))"

section \<open>Manager priority\<close>

datatype inbox_priority = Urgent | High | Medium | Low

definition INBOX_PRIORITY_LEVELS :: "inbox_priority list" where
  "INBOX_PRIORITY_LEVELS = [Urgent, High, Medium, Low]"

datatype priority_source = PS_set | PS_suggested

record effective_priority =
  level :: inbox_priority
  priority_source :: priority_source

definition effectiveInboxPriority ::
  "inbox_priority option \<Rightarrow> inbox_priority option \<Rightarrow> effective_priority option" where
  "effectiveInboxPriority managerPriority suggestion =
     (case managerPriority of
        Some p \<Rightarrow> Some \<lparr>level = p, priority_source = PS_set\<rparr>
      | None \<Rightarrow> (case suggestion of
            Some p \<Rightarrow> Some \<lparr>level = p, priority_source = PS_suggested\<rparr>
          | None \<Rightarrow> None))"

section \<open>Items and notes\<close>

record inbox_item =
  item_id :: string
  item_organizationId :: string
  item_propertyId :: string
  item_sourceType :: source_type
  item_sourceId :: string
  item_status :: inbox_status
  isEscalated :: bool
  escalatedAt :: "date option"
  escalatedBy :: "string option"
  escalationResolvedAt :: "date option"
  escalationResolvedBy :: "string option"
  item_rating :: "number option"
  sourceDate :: date
  platform :: "string option"
  snippet :: "js_string option"
  assignedTo :: "string option"
  reviewerName :: "js_string option"
  propertyName :: "js_string option"
  closedAt :: "date option"
  firstReplySubmittedAt :: "date option"
  firstReplyPublishedAt :: "date option"
  commandRevision :: number
  managerPriority :: "inbox_priority option"
  managerPrioritySetBy :: "string option"
  managerPrioritySetAt :: "date option"
  item_createdAt :: date
  item_updatedAt :: date

record create_item_input =
  ci_id :: string
  ci_organizationId :: string
  ci_propertyId :: string
  ci_sourceType :: source_type
  ci_sourceId :: string
  ci_sourceDate :: date
  ci_platform :: "string option"
  ci_assignedTo :: "string option"
  ci_clock :: date

definition new_item :: "create_item_input \<Rightarrow> inbox_item" where
  "new_item input =
     \<lparr>item_id = ci_id input, item_organizationId = ci_organizationId input,
      item_propertyId = ci_propertyId input, item_sourceType = ci_sourceType input,
      item_sourceId = ci_sourceId input, item_status = Open, isEscalated = False,
      escalatedAt = None, escalatedBy = None, escalationResolvedAt = None,
      escalationResolvedBy = None, item_rating = None, sourceDate = ci_sourceDate input,
      platform = ci_platform input, snippet = None, assignedTo = ci_assignedTo input,
      reviewerName = None, propertyName = None, closedAt = None, firstReplySubmittedAt = None,
      firstReplyPublishedAt = None, commandRevision = nint 1, managerPriority = None,
      managerPrioritySetBy = None, managerPrioritySetAt = None, item_createdAt = ci_clock input,
      item_updatedAt = ci_clock input\<rparr>"

definition createInboxItem :: "create_item_input \<Rightarrow> (inbox_error, inbox_item) result" where
  "createInboxItem input =
     (case ci_platform input of
        None \<Rightarrow> ok (new_item input)
      | Some p \<Rightarrow>
          if length p > 50
          then err (inboxError IE_invalid_input ''Platform exceeds 50 characters''
                 [(''platform'', JStr p)])
          else ok (new_item input))"

record inbox_note =
  note_id :: string
  note_inboxItemId :: string
  note_organizationId :: string
  note_userId :: string
  note_text :: js_string
  note_createdAt :: date

record create_note_input =
  cn_id :: string
  cn_inboxItemId :: string
  cn_organizationId :: string
  cn_userId :: string
  cn_text :: js_string
  cn_clock :: date

definition createInboxNote :: "create_note_input \<Rightarrow> (inbox_error, inbox_note) result" where
  "createInboxNote input =
     (let trimmed = js_trim (cn_text input)
      in if length trimmed = 0
         then err (inboxError IE_invalid_input ''Note text cannot be empty'' [])
         else ok \<lparr>note_id = cn_id input, note_inboxItemId = cn_inboxItemId input,
                 note_organizationId = cn_organizationId input, note_userId = cn_userId input,
                 note_text = trimmed, note_createdAt = cn_clock input\<rparr>)"

end
