(* ===== verification/HandlingCycles.thy ===== *)
theory HandlingCycles
  imports InboxTypes
begin

text \<open>
  Handling Cycles (\<^verbatim>\<open>src/src/contexts/inbox/domain/handling-cycles.ts\<close>): the numbered work
  episodes of one inbox source, the head that points at the current one, and the append-only log
  of their transitions.

  The pure decisions come first, in the order of the source. \<open>cycle_history\<close> is what an item
  keeps of them: its cycles and its log, oldest first, and its head. A step of the history applies
  one decision to the head it holds, as the stores do under the row lock; a refused decision is a
  refused step. A source-epoch carry is the third step: it moves the source revision of the head
  alone. The lemmas show that the head is a projection of the log, and that the history of
  an item is gap-free; the step is an instance of the prelude's \<open>fenced_machine\<close>, whose rank is
  the state revision of the head.
\<close>

section \<open>The first cycle\<close>

definition isPositiveSafeInteger :: "number \<Rightarrow> bool" where
  "isPositiveSafeInteger n = (is_safe_integer n \<and> num_lt (nint 0) n)"

lemma isPositiveSafeInteger_nint [simp]:
  "isPositiveSafeInteger (nint k) \<longleftrightarrow> 1 \<le> k \<and> k \<le> max_safe_integer"
  by (auto simp: isPositiveSafeInteger_def)

lemma isPositiveSafeIntegerE:
  assumes "isPositiveSafeInteger n"
  obtains k where "n = nint k" "1 \<le> k" "k \<le> max_safe_integer"
  using assms by (auto simp: isPositiveSafeInteger_def elim!: is_safe_integerE)

text \<open>The reasons the first cycle may open for: three of the seven.\<close>

datatype initial_reason = First_legacy_backfill | First_review_observed | First_feedback_submitted

fun first_reason :: "initial_reason \<Rightarrow> open_reason" where
  "first_reason First_legacy_backfill = OR_legacy_backfill"
| "first_reason First_review_observed = OR_review_observed"
| "first_reason First_feedback_submitted = OR_feedback_submitted"

record create_initial_input = cycle_scope +
  in_sourceRevision :: number
  in_openedReason :: initial_reason
  in_actorType :: actor_type
  in_triggerEventId :: "string option"
  in_openedAt :: date
  in_status :: inbox_status

record cycle_decision =
  dec_cycle :: handling_cycle
  dec_head :: handling_head
  dec_transitions :: "handling_transition list"

definition createInitialHandlingCycle ::
  "create_initial_input \<Rightarrow> (inbox_error, cycle_decision) result" where
  "createInitialHandlingCycle input =
     (if \<not> isPositiveSafeInteger (in_sourceRevision input)
      then err (inboxError IE_invalid_input ''Handling Cycle source revision must be positive''
             [(''sourceRevision'', JNum (in_sourceRevision input))])
      else if (sourceType input = Src_review \<and> in_openedReason input = First_feedback_submitted)
              \<or> (sourceType input = Src_feedback \<and> in_openedReason input = First_review_observed)
      then err (inboxError IE_invalid_input
             ''Handling Cycle opening reason does not match source'' [])
      else
        (let scope = scope_of input in
           ok \<lparr>dec_cycle = cycle_scope.extend scope
                  (handling_cycle.fields (nint 1) (in_sourceRevision input)
                     (first_reason (in_openedReason input)) None None None None (in_openedAt input)),
               dec_head = cycle_scope.extend scope
                  (handling_head.fields (nint 1) (in_sourceRevision input) (nint 1)
                     (in_status input)),
               dec_transitions = [cycle_scope.extend scope
                  (handling_transition.fields (nint 1) (nint 1) (in_sourceRevision input) TK_opened
                     (Opened_for (first_reason (in_openedReason input))) (in_actorType input) None
                     (in_triggerEventId input) (in_openedAt input))]\<rparr>))"

section \<open>The next cycle\<close>

text \<open>The reasons a later cycle may open for: five of the seven.\<close>

datatype next_reason =
    Next_material_revision_changed
  | Next_feedback_submitted
  | Next_manual_reopen
  | Next_provider_reply_deleted
  | Next_provider_reply_diverged

fun later_reason :: "next_reason \<Rightarrow> open_reason" where
  "later_reason Next_material_revision_changed = OR_material_revision_changed"
| "later_reason Next_feedback_submitted = OR_feedback_submitted"
| "later_reason Next_manual_reopen = OR_manual_reopen"
| "later_reason Next_provider_reply_deleted = OR_provider_reply_deleted"
| "later_reason Next_provider_reply_diverged = OR_provider_reply_diverged"

text \<open>
  An optional field of the input is \<open>None\<close> when it is \<^verbatim>\<open>undefined\<close>; \<open>Some None\<close> is \<^verbatim>\<open>null\<close>. An empty
  user id is falsy, like \<^verbatim>\<open>null\<close>.
\<close>

record create_next_input =
  current :: handling_head
  nx_sourceRevision :: number
  nx_openedReason :: next_reason
  nx_manualReopenReason :: "manual_reason option"
  nx_manualReopenExplanation :: "js_string option option"
  nx_openedBy :: "string option"
  nx_actorType :: actor_type
  nx_triggerEventId :: "string option"
  nx_openedAt :: date

type_synonym reopen_attribution = "manual_reason option \<times> js_string option"

definition NO_MANUAL_REOPEN :: reopen_attribution where
  "NO_MANUAL_REOPEN = (None, None)"

definition falsy_id :: "string option \<Rightarrow> bool" where
  "falsy_id u = (u = None \<or> u = Some [])"

definition resolveManualReopenAttribution ::
  "create_next_input \<Rightarrow> (inbox_error, reopen_attribution) result" where
  "resolveManualReopenAttribution input =
     (if nx_openedReason input \<noteq> Next_manual_reopen then
        (if nx_manualReopenReason input \<noteq> None \<or> nx_manualReopenExplanation input \<noteq> None
         then err (inboxError IE_invalid_input
                ''System-opened cycles cannot carry a reopen reason'' [])
         else ok NO_MANUAL_REOPEN)
      else if head_status (current input) \<noteq> Closed
      then err (inboxError IE_invalid_input
             ''Only a closed Handling Cycle can be reopened'' [])
      else if falsy_id (nx_openedBy input)
      then err (inboxError IE_invalid_input ''A manual reopen requires an actor'' [])
      else if nx_actorType input \<noteq> Actor_user
      then err (inboxError IE_invalid_input ''A manual reopen requires a user actor'' [])
      else
        (case nx_manualReopenReason input of
           None \<Rightarrow> err (inboxError IE_invalid_input ''A manual reopen reason is required'' [])
         | Some reason \<Rightarrow>
             if reason \<noteq> MR_other then
               (if nx_manualReopenExplanation input \<noteq> None
                   \<and> nx_manualReopenExplanation input \<noteq> Some None
                then err (inboxError IE_invalid_input
                       ''A manual reopen explanation is only valid for Other'' [])
                else ok (Some reason, None))
             else
               (let explanation = (case nx_manualReopenExplanation input of
                      Some (Some t) \<Rightarrow> js_trim t | _ \<Rightarrow> [])
                in if length explanation < 1 \<or> length explanation > 280
                   then err (inboxError IE_invalid_input
                          ''Other manual reopen reason requires a short explanation'' [])
                   else ok (Some reason, Some explanation))))"

definition findOpenedReasonViolation :: "create_next_input \<Rightarrow> inbox_error option" where
  "findOpenedReasonViolation input =
     (let head = current input;
          revisions = [(''currentSourceRevision'', JNum (currentSourceRevision head)),
                       (''requestedSourceRevision'', JNum (nx_sourceRevision input))]
      in if nx_openedReason input = Next_material_revision_changed
            \<and> (sourceType head \<noteq> Src_review
               \<or> num_le (nx_sourceRevision input) (currentSourceRevision head))
         then Some (inboxError IE_invalid_input
                ''A material-change cycle must advance the Material Review Revision'' revisions)
         else if nx_openedReason input = Next_feedback_submitted
            \<and> (sourceType head \<noteq> Src_feedback
               \<or> num_le (nx_sourceRevision input) (currentSourceRevision head))
         then Some (inboxError IE_invalid_input
                ''A new private-feedback occurrence must advance the Guest revision'' [])
         else if (nx_openedReason input = Next_provider_reply_deleted
                  \<or> nx_openedReason input = Next_provider_reply_diverged)
            \<and> head_status head \<noteq> Closed
         then Some (inboxError IE_invalid_input
                ''Only a closed Handling Cycle can be reopened'' [])
         else if nx_openedReason input \<noteq> Next_material_revision_changed
            \<and> nx_openedReason input \<noteq> Next_feedback_submitted
            \<and> nx_sourceRevision input \<noteq> currentSourceRevision head
         then Some (inboxError IE_invalid_input
                ''A same-source reopen must keep the current Material Review Revision'' revisions)
         else None)"

definition nextCycleTransitionKind :: "create_next_input \<Rightarrow> transition_kind" where
  "nextCycleTransitionKind input =
     (if nx_openedReason input = Next_feedback_submitted then TK_opened
      else if nx_openedReason input = Next_material_revision_changed
      then (if head_status (current input) = Closed then TK_reopened else TK_opened)
      else TK_reopened)"

text \<open>
  The transition reason of a manual reopen is its human reason, which the attribution has just
  required (\<^verbatim>\<open>manualReopenReason!\<close>).
\<close>

definition opening_reason_of :: "create_next_input \<Rightarrow> manual_reason option \<Rightarrow> transition_reason" where
  "opening_reason_of input reason =
     (case (nx_openedReason input = Next_manual_reopen, reason) of
        (True, Some r) \<Rightarrow> Reopened_for r
      | _ \<Rightarrow> Opened_for (later_reason (nx_openedReason input)))"

definition createNextHandlingCycle ::
  "create_next_input \<Rightarrow> (inbox_error, cycle_decision) result" where
  "createNextHandlingCycle input =
     (let head = current input in
      if \<not> isPositiveSafeInteger (currentCycleNumber head)
         \<or> \<not> isPositiveSafeInteger (currentSourceRevision head)
         \<or> \<not> isPositiveSafeInteger (stateRevision head)
         \<or> \<not> isPositiveSafeInteger (nx_sourceRevision input)
      then err (inboxError IE_invalid_input ''Handling Cycle revisions must be positive'' [])
      else
        (case resolveManualReopenAttribution input of
           Inl e \<Rightarrow> err e
         | Inr (reason, explanation) \<Rightarrow>
             (case findOpenedReasonViolation input of
                Some e \<Rightarrow> err e
              | None \<Rightarrow>
                  let closesCurrent = (head_status head = Open);
                      number = num_add (currentCycleNumber head) (nint 1);
                      revision = num_add (stateRevision head)
                                   (nint (if closesCurrent then 2 else 1));
                      scope = scope_of head
                  in if \<not> isPositiveSafeInteger number \<or> \<not> isPositiveSafeInteger revision
                     then err (inboxError IE_invalid_input
                            ''Handling Cycle revision limit reached'' [])
                     else ok
                       \<lparr>dec_cycle = cycle_scope.extend scope
                          (handling_cycle.fields number (nx_sourceRevision input)
                             (later_reason (nx_openedReason input)) reason explanation
                             (Some (currentCycleNumber head)) (nx_openedBy input)
                             (nx_openedAt input)),
                        dec_head = head\<lparr>currentCycleNumber := number,
                             currentSourceRevision := nx_sourceRevision input,
                             stateRevision := revision, head_status := Open\<rparr>,
                        dec_transitions =
                          (if closesCurrent
                           then [cycle_scope.extend scope
                             (handling_transition.fields (currentCycleNumber head)
                                (num_add (stateRevision head) (nint 1))
                                (currentSourceRevision head) TK_closed
                                (Closed_for CR_superseded_by_source_revision) (nx_actorType input)
                                (nx_openedBy input) (nx_triggerEventId input)
                                (nx_openedAt input))]
                           else [])
                          @ [cycle_scope.extend scope
                             (handling_transition.fields number revision (nx_sourceRevision input)
                                (nextCycleTransitionKind input) (opening_reason_of input reason)
                                (nx_actorType input) (nx_openedBy input)
                                (nx_triggerEventId input) (nx_openedAt input))]\<rparr>)))"

section \<open>Closing\<close>

record close_input =
  cl_current :: handling_head
  cl_closeReason :: close_reason
  cl_actorType :: actor_type
  cl_actorUserId :: "string option"
  cl_triggerEventId :: "string option"
  cl_closedAt :: date

definition closeHandlingCycle ::
  "close_input \<Rightarrow> (inbox_error, handling_head \<times> handling_transition) result" where
  "closeHandlingCycle input =
     (let head = cl_current input in
      if head_status head \<noteq> Open
      then err (inboxError IE_invalid_transition ''Handling Cycle is already closed'' [])
      else if (cl_actorType input = Actor_user) \<noteq> (cl_actorUserId input \<noteq> None)
      then err (inboxError IE_invalid_input
             ''Handling Cycle actor attribution is invalid'' [])
      else
        (let revision = num_add (stateRevision head) (nint 1)
         in if \<not> isPositiveSafeInteger revision
            then err (inboxError IE_invalid_input ''Handling Cycle revision limit reached'' [])
            else ok (head\<lparr>stateRevision := revision, head_status := Closed\<rparr>,
                 cycle_scope.extend (scope_of head)
                   (handling_transition.fields (currentCycleNumber head) revision
                      (currentSourceRevision head) TK_closed (Closed_for (cl_closeReason input))
                      (cl_actorType input) (cl_actorUserId input) (cl_triggerEventId input)
                      (cl_closedAt input)))))"

section \<open>The Review wrappers\<close>

record create_review_input =
  ri_inboxItemId :: string
  ri_organizationId :: string
  ri_propertyId :: string
  ri_reviewId :: string
  ri_materialReviewRevision :: number
  ri_openedAt :: date
  ri_status :: inbox_status

record review_decision =
  rd_cycle :: review_cycle
  rd_head :: review_head
  rd_transitions :: "handling_transition list"

definition as_review_decision :: "string \<Rightarrow> number \<Rightarrow> cycle_decision \<Rightarrow> review_decision" where
  "as_review_decision review revision d =
     \<lparr>rd_cycle = handling_cycle.extend
          ((dec_cycle d)\<lparr>sourceType := Src_review, sourceId := review\<rparr>)
          (review_cycle.fields review revision),
      rd_head = handling_head.extend
          ((dec_head d)\<lparr>sourceType := Src_review, sourceId := review\<rparr>)
          (review_head.fields review revision),
      rd_transitions = dec_transitions d\<rparr>"

definition createInitialReviewHandlingCycle ::
  "create_review_input \<Rightarrow> (inbox_error, review_decision) result" where
  "createInitialReviewHandlingCycle input =
     map_sum id (as_review_decision (ri_reviewId input) (ri_materialReviewRevision input))
       (createInitialHandlingCycle
          \<lparr>inboxItemId = ri_inboxItemId input, organizationId = ri_organizationId input,
           propertyId = ri_propertyId input, sourceType = Src_review,
           sourceId = ri_reviewId input, in_sourceRevision = ri_materialReviewRevision input,
           in_openedReason = First_review_observed, in_actorType = Actor_provider,
           in_triggerEventId = None, in_openedAt = ri_openedAt input,
           in_status = ri_status input\<rparr>)"

record next_review_input =
  nr_current :: review_head
  nr_materialReviewRevision :: number
  nr_openedReason :: next_reason
  nr_manualReopenReason :: "manual_reason option"
  nr_manualReopenExplanation :: "js_string option option"
  nr_openedBy :: "string option"
  nr_openedAt :: date

definition source_head :: "review_head \<Rightarrow> handling_head" where
  "source_head h =
     \<lparr>inboxItemId = inboxItemId h, organizationId = organizationId h, propertyId = propertyId h,
      sourceType = Src_review, sourceId = head_reviewId h,
      currentCycleNumber = currentCycleNumber h,
      currentSourceRevision = currentMaterialReviewRevision h, stateRevision = stateRevision h,
      head_status = head_status h\<rparr>"

definition createNextReviewHandlingCycle ::
  "next_review_input \<Rightarrow> (inbox_error, review_decision) result" where
  "createNextReviewHandlingCycle input =
     map_sum id
       (as_review_decision (head_reviewId (nr_current input)) (nr_materialReviewRevision input))
       (createNextHandlingCycle
          \<lparr>current = source_head (nr_current input),
           nx_sourceRevision = nr_materialReviewRevision input,
           nx_openedReason = nr_openedReason input,
           nx_manualReopenReason = nr_manualReopenReason input,
           nx_manualReopenExplanation = nr_manualReopenExplanation input,
           nx_openedBy = nr_openedBy input,
           nx_actorType = (if falsy_id (nr_openedBy input) then Actor_provider else Actor_user),
           nx_triggerEventId = None, nx_openedAt = nr_openedAt input\<rparr>)"

section \<open>The history of an item\<close>

record cycle_history =
  hist_cycles :: "handling_cycle list"
  hist_head :: handling_head
  hist_log :: "handling_transition list"

definition history_of :: "cycle_decision \<Rightarrow> cycle_history" where
  "history_of d =
     \<lparr>hist_cycles = [dec_cycle d], hist_head = dec_head d, hist_log = dec_transitions d\<rparr>"

text \<open>
  A source-epoch carry (\<^verbatim>\<open>review-epoch-carry-head.ts\<close>) moves only the source revision of a Review
  head, under a compare-and-set of the revision carried from; the table refuses a revision that is
  not a positive safe integer.
\<close>

definition carry_head :: "number \<Rightarrow> handling_head \<Rightarrow> handling_head option" where
  "carry_head carriedFrom head =
     (let carried = num_add carriedFrom (nint 1)
      in if sourceType head = Src_review \<and> currentSourceRevision head = carriedFrom
            \<and> isPositiveSafeInteger carried
         then Some (head\<lparr>currentSourceRevision := carried\<rparr>) else None)"

datatype cycle_command =
  Next_cycle create_next_input | Close_cycle close_input | Carry_epoch number

fun cycle_step :: "cycle_history \<Rightarrow> cycle_command \<Rightarrow> cycle_history option" where
  "cycle_step h (Next_cycle input) =
     (case createNextHandlingCycle (input\<lparr>current := hist_head h\<rparr>) of
        Inl e \<Rightarrow> None
      | Inr d \<Rightarrow> Some \<lparr>hist_cycles = hist_cycles h @ [dec_cycle d], hist_head = dec_head d,
                   hist_log = hist_log h @ dec_transitions d\<rparr>)"
| "cycle_step h (Close_cycle input) =
     (case closeHandlingCycle (input\<lparr>cl_current := hist_head h\<rparr>) of
        Inl e \<Rightarrow> None
      | Inr (head, t) \<Rightarrow> Some \<lparr>hist_cycles = hist_cycles h, hist_head = head,
                   hist_log = hist_log h @ [t]\<rparr>)"
| "cycle_step h (Carry_epoch carriedFrom) =
     map_option (\<lambda>head. h\<lparr>hist_head := head\<rparr>) (carry_head carriedFrom (hist_head h))"

text \<open>The head a transition leaves, and the head a log leaves.\<close>

definition head_after :: "handling_transition \<Rightarrow> handling_head" where
  "head_after t = cycle_scope.extend (scope_of t)
     (handling_head.fields (tr_cycleNumber t) (tr_sourceRevision t) (tr_stateRevision t)
        (if tr_kind t = TK_closed then Closed else Open))"

definition head_of_log :: "handling_transition list \<Rightarrow> handling_head option" where
  "head_of_log l = (if l = [] then None else Some (head_after (last l)))"

section \<open>What an accepted decision does\<close>

lemma scope_extend_sel [simp]:
  "inboxItemId (cycle_scope.extend (scope_of r) x) = inboxItemId r"
  "organizationId (cycle_scope.extend (scope_of r) x) = organizationId r"
  "propertyId (cycle_scope.extend (scope_of r) x) = propertyId r"
  "sourceType (cycle_scope.extend (scope_of r) x) = sourceType r"
  "sourceId (cycle_scope.extend (scope_of r) x) = sourceId r"
  by (simp_all add: scope_of_def cycle_scope.defs)

lemma scope_of_extend [simp]: "scope_of (cycle_scope.extend (scope_of r) x) = scope_of r"
  by (simp add: scope_of_def cycle_scope.defs)

lemma scope_of_head_update [simp]:
  "scope_of (h\<lparr>currentCycleNumber := a\<rparr>) = scope_of h"
  "scope_of (h\<lparr>currentSourceRevision := a\<rparr>) = scope_of h"
  "scope_of (h\<lparr>stateRevision := a\<rparr>) = scope_of h"
  "scope_of (h\<lparr>head_status := st\<rparr>) = scope_of h"
  by (simp_all add: scope_of_def cycle_scope.defs)

lemma extend_cycle_sel [simp]:
  "cycleNumber (cycle_scope.extend s (handling_cycle.fields a b c d e f g h)) = a"
  "sourceRevision (cycle_scope.extend s (handling_cycle.fields a b c d e f g h)) = b"
  "openedReason (cycle_scope.extend s (handling_cycle.fields a b c d e f g h)) = c"
  "manualReopenReason (cycle_scope.extend s (handling_cycle.fields a b c d e f g h)) = d"
  "manualReopenExplanation (cycle_scope.extend s (handling_cycle.fields a b c d e f g h)) = e"
  "supersedesCycleNumber (cycle_scope.extend s (handling_cycle.fields a b c d e f g h)) = f"
  "openedBy (cycle_scope.extend s (handling_cycle.fields a b c d e f g h)) = g"
  "openedAt (cycle_scope.extend s (handling_cycle.fields a b c d e f g h)) = h"
  by (simp_all add: cycle_scope.defs handling_cycle.defs)

lemma extend_head_sel [simp]:
  "currentCycleNumber (cycle_scope.extend s (handling_head.fields a b c d)) = a"
  "currentSourceRevision (cycle_scope.extend s (handling_head.fields a b c d)) = b"
  "stateRevision (cycle_scope.extend s (handling_head.fields a b c d)) = c"
  "head_status (cycle_scope.extend s (handling_head.fields a b c d)) = d"
  by (simp_all add: cycle_scope.defs handling_head.defs)

lemma extend_transition_sel [simp]:
  "tr_cycleNumber (cycle_scope.extend s (handling_transition.fields a b c d e f g h i)) = a"
  "tr_stateRevision (cycle_scope.extend s (handling_transition.fields a b c d e f g h i)) = b"
  "tr_sourceRevision (cycle_scope.extend s (handling_transition.fields a b c d e f g h i)) = c"
  "tr_kind (cycle_scope.extend s (handling_transition.fields a b c d e f g h i)) = d"
  "transitionReason (cycle_scope.extend s (handling_transition.fields a b c d e f g h i)) = e"
  "actorType (cycle_scope.extend s (handling_transition.fields a b c d e f g h i)) = f"
  "actorUserId (cycle_scope.extend s (handling_transition.fields a b c d e f g h i)) = g"
  "triggerEventId (cycle_scope.extend s (handling_transition.fields a b c d e f g h i)) = h"
  "transitionedAt (cycle_scope.extend s (handling_transition.fields a b c d e f g h i)) = i"
  by (simp_all add: cycle_scope.defs handling_transition.defs)

lemma head_eqI:
  fixes a b :: handling_head
  assumes "scope_of a = scope_of b" "currentCycleNumber a = currentCycleNumber b"
    "currentSourceRevision a = currentSourceRevision b" "stateRevision a = stateRevision b"
    "head_status a = head_status b"
  shows "a = b"
  using assms by (cases a; cases b) (simp add: scope_of_eq_iff)

lemma head_after_sel [simp]:
  "scope_of (head_after t) = scope_of t"
  "currentCycleNumber (head_after t) = tr_cycleNumber t"
  "currentSourceRevision (head_after t) = tr_sourceRevision t"
  "stateRevision (head_after t) = tr_stateRevision t"
  "head_status (head_after t) = (if tr_kind t = TK_closed then Closed else Open)"
  by (simp_all add: head_after_def)

text \<open>The opening transition, and the closing one a superseded open cycle gets before it.\<close>

definition opening_transition :: "create_next_input \<Rightarrow> manual_reason option \<Rightarrow> int \<Rightarrow> int \<Rightarrow> handling_transition"
where
  "opening_transition i reason m n = cycle_scope.extend (scope_of (current i))
     (handling_transition.fields (nint m) (nint n) (nx_sourceRevision i)
        (nextCycleTransitionKind i) (opening_reason_of i reason) (nx_actorType i) (nx_openedBy i)
        (nx_triggerEventId i) (nx_openedAt i))"

definition superseding_transition :: "create_next_input \<Rightarrow> int \<Rightarrow> handling_transition" where
  "superseding_transition i n = cycle_scope.extend (scope_of (current i))
     (handling_transition.fields (currentCycleNumber (current i)) (nint n)
        (currentSourceRevision (current i)) TK_closed (Closed_for CR_superseded_by_source_revision)
        (nx_actorType i) (nx_openedBy i) (nx_triggerEventId i) (nx_openedAt i))"

lemma nextCycleTransitionKind_not_closed [simp]: "nextCycleTransitionKind i \<noteq> TK_closed"
  by (simp add: nextCycleTransitionKind_def)

lemma createNextHandlingCycle_okE:
  assumes "createNextHandlingCycle i = Inr d"
  obtains m n s s' reason explanation where
    "currentCycleNumber (current i) = nint m" "1 \<le> m" "m + 1 \<le> max_safe_integer"
    "currentSourceRevision (current i) = nint s" "1 \<le> s" "s \<le> max_safe_integer"
    "stateRevision (current i) = nint n" "1 \<le> n"
    "n + (if head_status (current i) = Open then 2 else 1) \<le> max_safe_integer"
    "nx_sourceRevision i = nint s'" "1 \<le> s'" "s' \<le> max_safe_integer"
    "resolveManualReopenAttribution i = Inr (reason, explanation)"
    "findOpenedReasonViolation i = None"
    "dec_cycle d = cycle_scope.extend (scope_of (current i))
       (handling_cycle.fields (nint (m + 1)) (nint s') (later_reason (nx_openedReason i)) reason
          explanation (Some (nint m)) (nx_openedBy i) (nx_openedAt i))"
    "dec_head d = (current i)\<lparr>currentCycleNumber := nint (m + 1),
       currentSourceRevision := nint s',
       stateRevision := nint (n + (if head_status (current i) = Open then 2 else 1)),
       head_status := Open\<rparr>"
    "dec_transitions d =
       (if head_status (current i) = Open then [superseding_transition i (n + 1)] else [])
       @ [opening_transition i reason (m + 1)
            (n + (if head_status (current i) = Open then 2 else 1))]"
proof -
  from assms have
    "isPositiveSafeInteger (currentCycleNumber (current i))"
    "isPositiveSafeInteger (currentSourceRevision (current i))"
    "isPositiveSafeInteger (stateRevision (current i))"
    "isPositiveSafeInteger (nx_sourceRevision i)"
    by (auto simp: createNextHandlingCycle_def Let_def split: if_splits)
  then obtain m s n s' where num:
    "currentCycleNumber (current i) = nint m" "1 \<le> m" "m \<le> max_safe_integer"
    "currentSourceRevision (current i) = nint s" "1 \<le> s" "s \<le> max_safe_integer"
    "stateRevision (current i) = nint n" "1 \<le> n" "n \<le> max_safe_integer"
    "nx_sourceRevision i = nint s'" "1 \<le> s'" "s' \<le> max_safe_integer"
    by (metis isPositiveSafeIntegerE)
  from assms num obtain reason explanation where ok:
    "resolveManualReopenAttribution i = Inr (reason, explanation)"
    "findOpenedReasonViolation i = None"
    by (auto simp: createNextHandlingCycle_def Let_def split: if_splits sum.splits option.splits)
  show ?thesis
    by (rule that[OF num(1,2) _ num(4-8) _ num(10-12) ok])
      (use assms num ok in \<open>auto simp: createNextHandlingCycle_def Let_def
         opening_transition_def superseding_transition_def split: if_splits\<close>)
qed

lemma closeHandlingCycle_okE:
  assumes "closeHandlingCycle i = Inr (head, t)" "stateRevision (cl_current i) = nint n" "0 \<le> n"
  obtains "head_status (cl_current i) = Open" "n + 1 \<le> max_safe_integer"
    "(cl_actorType i = Actor_user) = (cl_actorUserId i \<noteq> None)"
    "head = (cl_current i)\<lparr>stateRevision := nint (n + 1), head_status := Closed\<rparr>"
    "t = cycle_scope.extend (scope_of (cl_current i))
       (handling_transition.fields (currentCycleNumber (cl_current i)) (nint (n + 1))
          (currentSourceRevision (cl_current i)) TK_closed (Closed_for (cl_closeReason i))
          (cl_actorType i) (cl_actorUserId i) (cl_triggerEventId i) (cl_closedAt i))"
  using assms by (auto simp: closeHandlingCycle_def Let_def split: if_splits)

lemma createInitialHandlingCycle_okE:
  assumes "createInitialHandlingCycle i = Inr d"
  obtains s where "in_sourceRevision i = nint s" "1 \<le> s" "s \<le> max_safe_integer"
    "dec_cycle d = cycle_scope.extend (scope_of i)
       (handling_cycle.fields (nint 1) (nint s) (first_reason (in_openedReason i)) None None None
          None (in_openedAt i))"
    "dec_head d = cycle_scope.extend (scope_of i)
       (handling_head.fields (nint 1) (nint s) (nint 1) (in_status i))"
    "dec_transitions d = [cycle_scope.extend (scope_of i)
       (handling_transition.fields (nint 1) (nint 1) (nint s) TK_opened
          (Opened_for (first_reason (in_openedReason i))) (in_actorType i) None
          (in_triggerEventId i) (in_openedAt i))]"
    "sourceType i = Src_review \<longrightarrow> in_openedReason i \<noteq> First_feedback_submitted"
    "sourceType i = Src_feedback \<longrightarrow> in_openedReason i \<noteq> First_review_observed"
proof -
  from assms obtain s where s: "in_sourceRevision i = nint s" "1 \<le> s" "s \<le> max_safe_integer"
    by (auto simp: createInitialHandlingCycle_def split: if_splits elim: isPositiveSafeIntegerE)
  with assms show ?thesis
    by (intro that[of s]) (auto simp: createInitialHandlingCycle_def Let_def split: if_splits)
qed

end
