(* ===== verification/HandlingLog.thy ===== *)
theory HandlingLog
  imports HandlingCycles
begin

text \<open>
  The contract of the Handling Cycle module: the transition log of an item is the truth, its head
  a projection of it, and its cycles are a gap-free chain.

  \<open>cycle_log\<close> is the grammar of the logs: a cycle opens, closes at most once and never opens
  again; the next cycle opens after the last one closed. \<open>history_ok\<close> ties the log to the head
  and the cycles an item keeps. Both are preserved by every accepted decision, so the step of a
  history is an instance of \<open>fenced_machine\<close>. The CHECK constraints of the three tables the rows
  go to (\<^verbatim>\<open>src/src/shared/db/schema/inbox.schema.ts\<close>) are stated as predicates and shown to hold
  of every row an accepted decision appends.
\<close>

section \<open>The grammar of a log\<close>

inductive cycle_log :: "handling_transition list \<Rightarrow> int \<Rightarrow> inbox_status \<Rightarrow> bool" where
  first_open: "tr_kind t = TK_opened \<Longrightarrow> tr_cycleNumber t = nint 1 \<Longrightarrow> cycle_log [t] 1 Open"
| then_close: "cycle_log l m Open \<Longrightarrow> tr_kind t = TK_closed \<Longrightarrow> tr_cycleNumber t = nint m
     \<Longrightarrow> cycle_log (l @ [t]) m Closed"
| then_open: "cycle_log l m Closed \<Longrightarrow> tr_kind t \<noteq> TK_closed \<Longrightarrow> tr_cycleNumber t = nint (m + 1)
     \<Longrightarrow> cycle_log (l @ [t]) (m + 1) Open"

inductive_cases cycle_log_openE: "cycle_log l m Open"
inductive_cases cycle_log_closedE: "cycle_log l m Closed"
inductive_simps cycle_log_single: "cycle_log [t] m st"

lemma cycle_log_not_Nil: "cycle_log l m st \<Longrightarrow> l \<noteq> []"
  by (induction rule: cycle_log.induct) auto

lemma cycle_log_pos: "cycle_log l m st \<Longrightarrow> 1 \<le> m"
  by (induction rule: cycle_log.induct) auto

text \<open>How often a log opens and closes a cycle.\<close>

definition openings :: "handling_transition list \<Rightarrow> int \<Rightarrow> nat" where
  "openings l k = length (filter (\<lambda>t. tr_kind t \<noteq> TK_closed \<and> tr_cycleNumber t = nint k) l)"

definition closings :: "handling_transition list \<Rightarrow> int \<Rightarrow> nat" where
  "closings l k = length (filter (\<lambda>t. tr_kind t = TK_closed \<and> tr_cycleNumber t = nint k) l)"

lemma cycle_log_openings:
  "cycle_log l m st \<Longrightarrow> openings l k = (if 1 \<le> k \<and> k \<le> m then 1 else 0)"
  by (induction rule: cycle_log.induct) (auto simp: openings_def dest: cycle_log_pos)

lemma cycle_log_closings:
  "cycle_log l m st \<Longrightarrow>
     closings l k = (if 1 \<le> k \<and> (k < m \<or> k = m \<and> st = Closed) then 1 else 0)"
  by (induction rule: cycle_log.induct) (auto simp: closings_def dest: cycle_log_pos)

section \<open>The invariant of a history\<close>

definition revisions_ok :: "handling_transition list \<Rightarrow> bool" where
  "revisions_ok l = (map tr_stateRevision l = map nint [1..int (length l)])"

definition chain_ok :: "handling_cycle list \<Rightarrow> bool" where
  "chain_ok cs =
     (map cycleNumber cs = map nint [1..int (length cs)]
      \<and> map supersedesCycleNumber cs
          = map (\<lambda>k. if k = 1 then None else Some (nint (k - 1))) [1..int (length cs)])"

definition advancing :: "handling_cycle list \<Rightarrow> bool" where
  "advancing cs = sorted_wrt (\<lambda>a b. num_le (sourceRevision a) (sourceRevision b)) cs"

definition history_ok :: "cycle_history \<Rightarrow> bool" where
  "history_ok h =
     (hist_cycles h \<noteq> [] \<and> hist_log h \<noteq> []
      \<and> head_of_log (hist_log h)
          = Some ((hist_head h)\<lparr>currentSourceRevision := tr_sourceRevision (last (hist_log h))\<rparr>)
      \<and> num_le (tr_sourceRevision (last (hist_log h))) (currentSourceRevision (hist_head h))
      \<and> (\<forall>c \<in> set (hist_cycles h). scope_of c = scope_of (hist_head h))
      \<and> (\<forall>t \<in> set (hist_log h). scope_of t = scope_of (hist_head h))
      \<and> cycle_log (hist_log h) (int (length (hist_cycles h))) (head_status (hist_head h))
      \<and> currentCycleNumber (hist_head h) = nint (int (length (hist_cycles h)))
      \<and> num_le (sourceRevision (last (hist_cycles h))) (currentSourceRevision (hist_head h))
      \<and> isPositiveSafeInteger (currentSourceRevision (hist_head h))
      \<and> revisions_ok (hist_log h) \<and> chain_ok (hist_cycles h) \<and> advancing (hist_cycles h))"

lemma upto_snoc: "[1..1 + int n] = [1..int n] @ [1 + int n]"
  by (simp add: upto_rec2)

lemma revisions_ok_snoc:
  "revisions_ok (l @ [t]) \<longleftrightarrow> revisions_ok l \<and> tr_stateRevision t = nint (int (length l) + 1)"
  by (simp add: revisions_ok_def upto_snoc add.commute)

lemma chain_ok_snoc:
  "chain_ok (cs @ [c]) \<longleftrightarrow> chain_ok cs \<and> cycleNumber c = nint (int (length cs) + 1)
     \<and> supersedesCycleNumber c = (if cs = [] then None else Some (nint (int (length cs))))"
  by (auto simp: chain_ok_def upto_snoc add.commute)

lemma num_le_trans: "num_le a b \<Longrightarrow> num_le b c \<Longrightarrow> num_le a c"
  by (cases a; cases b; cases c) (auto simp: num_le_def num_eq_def)

lemma advancing_snoc:
  assumes "advancing cs" "cs \<noteq> []" "num_le (sourceRevision (last cs)) (sourceRevision c)"
  shows "advancing (cs @ [c])"
proof -
  have "num_le (sourceRevision a) (sourceRevision c)" if "a \<in> set cs" for a
  proof (cases "a = last cs")
    case True
    then show ?thesis using assms by simp
  next
    case False
    from \<open>cs \<noteq> []\<close> have "cs = butlast cs @ [last cs]" by simp
    with assms(1) have "sorted_wrt (\<lambda>a b. num_le (sourceRevision a) (sourceRevision b))
        (butlast cs @ [last cs])" by (simp add: advancing_def)
    moreover from that False \<open>cs = butlast cs @ [last cs]\<close> have "a \<in> set (butlast cs)"
      by (metis Un_iff empty_iff insert_iff list.set(1) list.simps(15) set_append)
    ultimately have "num_le (sourceRevision a) (sourceRevision (last cs))"
      by (auto simp: sorted_wrt_append)
    then show ?thesis using assms(3) by (rule num_le_trans)
  qed
  then show ?thesis using assms(1) by (simp add: advancing_def sorted_wrt_append)
qed

lemma head_of_log_snoc [simp]: "head_of_log (l @ [t]) = Some (head_after t)"
  by (simp add: head_of_log_def)

lemma stateRevision_is_length:
  assumes "history_ok h"
  shows "stateRevision (hist_head h) = nint (int (length (hist_log h)))" "hist_log h \<noteq> []"
proof -
  from assms have ne: "hist_log h \<noteq> []" and r: "revisions_ok (hist_log h)"
    and "head_of_log (hist_log h)
      = Some ((hist_head h)\<lparr>currentSourceRevision := tr_sourceRevision (last (hist_log h))\<rparr>)"
    by (auto simp: history_ok_def)
  then have "stateRevision (hist_head h) = stateRevision (head_after (last (hist_log h)))"
    by (simp add: head_of_log_def)
  moreover have "tr_stateRevision (last (hist_log h)) = nint (int (length (hist_log h)))"
    using r ne by (cases "hist_log h" rule: rev_cases) (auto simp: revisions_ok_snoc add.commute)
  ultimately show "stateRevision (hist_head h) = nint (int (length (hist_log h)))" "hist_log h \<noteq> []"
    using ne by simp_all
qed

text \<open>A source-advancing reason advances the revision, every other keeps it.\<close>

lemma source_revision_advances:
  assumes "findOpenedReasonViolation i = None"
    "currentSourceRevision (current i) = nint s" "nx_sourceRevision i = nint s'"
  shows "s \<le> s'"
  using assms by (cases "nx_openedReason i")
    (auto simp: findOpenedReasonViolation_def Let_def split: if_splits)

lemma history_ok_initial:
  assumes "createInitialHandlingCycle i = Inr d" "in_status i = Open"
  shows "history_ok (history_of d)"
  using assms(1)
proof (rule createInitialHandlingCycle_okE)
  fix s assume "in_sourceRevision i = nint s" and s: "1 \<le> s" "s \<le> max_safe_integer"
    and d: "dec_cycle d = cycle_scope.extend (scope_of i)
       (handling_cycle.fields (nint 1) (nint s) (first_reason (in_openedReason i)) None None None
          None (in_openedAt i))"
      "dec_head d = cycle_scope.extend (scope_of i)
       (handling_head.fields (nint 1) (nint s) (nint 1) (in_status i))"
      "dec_transitions d = [cycle_scope.extend (scope_of i)
       (handling_transition.fields (nint 1) (nint 1) (nint s) TK_opened
          (Opened_for (first_reason (in_openedReason i))) (in_actorType i) None
          (in_triggerEventId i) (in_openedAt i))]"
  show ?thesis
    by (auto simp: history_ok_def history_of_def d assms(2) s head_of_log_def revisions_ok_def
        chain_ok_def advancing_def cycle_log_single intro: head_eqI)
qed

section \<open>The step of a history\<close>

fun number_floor :: "number \<Rightarrow> int" where
  "number_floor (Fin q) = \<lfloor>q\<rfloor>"
| "number_floor _ = 0"

lemma number_floor_nint [simp]: "number_floor (nint k) = k"
  by (simp add: nint_def)

lemma history_ok_close:
  assumes h: "history_ok h" and step: "closeHandlingCycle (i\<lparr>cl_current := hist_head h\<rparr>) = Inr (head, t)"
  shows "history_ok \<lparr>hist_cycles = hist_cycles h, hist_head = head, hist_log = hist_log h @ [t]\<rparr>"
    and "stateRevision head = nint (int (length (hist_log h)) + 1)"
    and "currentSourceRevision head = currentSourceRevision (hist_head h)"
proof -
  note n = stateRevision_is_length[OF h]
  have "stateRevision (cl_current (i\<lparr>cl_current := hist_head h\<rparr>)) = nint (int (length (hist_log h)))"
    using n by simp
  then have e: "head_status (hist_head h) = Open"
    "head = (hist_head h)\<lparr>stateRevision := nint (int (length (hist_log h)) + 1), head_status := Closed\<rparr>"
    "t = cycle_scope.extend (scope_of (hist_head h))
       (handling_transition.fields (currentCycleNumber (hist_head h))
          (nint (int (length (hist_log h)) + 1)) (currentSourceRevision (hist_head h)) TK_closed
          (Closed_for (cl_closeReason i)) (cl_actorType i) (cl_actorUserId i)
          (cl_triggerEventId i) (cl_closedAt i))"
    by (rule closeHandlingCycle_okE[OF step]; simp)+
  show "stateRevision head = nint (int (length (hist_log h)) + 1)"
    "currentSourceRevision head = currentSourceRevision (hist_head h)"
    using e(2) by simp_all
  have "head\<lparr>currentSourceRevision := tr_sourceRevision t\<rparr> = head_after t"
    by (rule head_eqI) (simp_all add: e(2,3))
  moreover from h have "num_le (tr_sourceRevision t) (currentSourceRevision head)"
    by (auto simp: history_ok_def e(2,3) elim!: isPositiveSafeIntegerE)
  moreover have "cycle_log (hist_log h @ [t]) (int (length (hist_cycles h))) Closed"
    by (rule then_close) (use h e(1) in \<open>simp_all add: history_ok_def e(3)\<close>)
  ultimately show "history_ok \<lparr>hist_cycles = hist_cycles h, hist_head = head,
      hist_log = hist_log h @ [t]\<rparr>"
    using h by (auto simp: history_ok_def revisions_ok_snoc e(2,3))
qed

lemma history_ok_next:
  assumes h: "history_ok h" and step: "createNextHandlingCycle (i\<lparr>current := hist_head h\<rparr>) = Inr d"
  shows "history_ok \<lparr>hist_cycles = hist_cycles h @ [dec_cycle d], hist_head = dec_head d,
           hist_log = hist_log h @ dec_transitions d\<rparr>"
    and "num_lt (stateRevision (hist_head h)) (stateRevision (dec_head d))"
    and "number_floor (currentSourceRevision (hist_head h))
      \<le> number_floor (currentSourceRevision (dec_head d))"
proof -
  let ?i = "i\<lparr>current := hist_head h\<rparr>" and ?m = "int (length (hist_cycles h))"
    and ?n = "int (length (hist_log h))" and ?st = "head_status (hist_head h)"
  note n = stateRevision_is_length[OF h]
  have m: "currentCycleNumber (hist_head h) = nint ?m" "cycle_log (hist_log h) ?m ?st"
    using h by (simp_all add: history_ok_def)
  obtain m' n' s s' reason explanation where r:
    "currentCycleNumber (current ?i) = nint m'" "stateRevision (current ?i) = nint n'"
    "currentSourceRevision (current ?i) = nint s" "nx_sourceRevision ?i = nint s'"
    "1 \<le> s'" "s' \<le> max_safe_integer" "findOpenedReasonViolation ?i = None"
    "dec_cycle d = cycle_scope.extend (scope_of (current ?i))
       (handling_cycle.fields (nint (m' + 1)) (nint s') (later_reason (nx_openedReason ?i)) reason
          explanation (Some (nint m')) (nx_openedBy ?i) (nx_openedAt ?i))"
    "dec_head d = (current ?i)\<lparr>currentCycleNumber := nint (m' + 1),
       currentSourceRevision := nint s',
       stateRevision := nint (n' + (if head_status (current ?i) = Open then 2 else 1)),
       head_status := Open\<rparr>"
    "dec_transitions d =
       (if head_status (current ?i) = Open then [superseding_transition ?i (n' + 1)] else [])
       @ [opening_transition ?i reason (m' + 1)
            (n' + (if head_status (current ?i) = Open then 2 else 1))]"
    by (rule createNextHandlingCycle_okE[OF step]) (rule that; assumption)
  have "m' = ?m" "n' = ?n" using r(1,2) m(1) n(1) by simp_all
  with r have e:
    "currentSourceRevision (hist_head h) = nint s" "nx_sourceRevision i = nint s'"
    "1 \<le> s'" "s' \<le> max_safe_integer" "findOpenedReasonViolation ?i = None"
    "dec_cycle d = cycle_scope.extend (scope_of (hist_head h))
       (handling_cycle.fields (nint (?m + 1)) (nint s') (later_reason (nx_openedReason i)) reason
          explanation (Some (nint ?m)) (nx_openedBy i) (nx_openedAt i))"
    "dec_head d = (hist_head h)\<lparr>currentCycleNumber := nint (?m + 1),
       currentSourceRevision := nint s',
       stateRevision := nint (?n + (if ?st = Open then 2 else 1)), head_status := Open\<rparr>"
    "dec_transitions d =
       (if ?st = Open then [superseding_transition ?i (?n + 1)] else [])
       @ [opening_transition ?i reason (?m + 1) (?n + (if ?st = Open then 2 else 1))]"
    by simp_all
  have le: "s \<le> s'"
    using source_revision_advances[OF e(5)] e(1,2) by simp
  show "num_lt (stateRevision (hist_head h)) (stateRevision (dec_head d))"
    using n(1) e(7) by simp
  show "number_floor (currentSourceRevision (hist_head h))
      \<le> number_floor (currentSourceRevision (dec_head d))"
    using le e(1,7) by simp
  let ?t = "opening_transition ?i reason (?m + 1) (?n + (if ?st = Open then 2 else 1))"
  have "(dec_head d)\<lparr>currentSourceRevision := tr_sourceRevision ?t\<rparr> = head_after ?t"
    by (rule head_eqI) (simp_all add: e(2,7) opening_transition_def)
  moreover have "last (hist_log h @ dec_transitions d) = ?t" "tr_sourceRevision ?t = nint s'"
    by (simp_all add: e(2,8) opening_transition_def)
  moreover have "cycle_log (hist_log h @ dec_transitions d) (?m + 1) Open"
  proof (cases ?st)
    case Open
    have "cycle_log (hist_log h @ [superseding_transition ?i (?n + 1)]) ?m Closed"
      by (rule then_close) (use m Open in \<open>simp_all add: superseding_transition_def\<close>)
    from then_open[OF this, of ?t] show ?thesis
      using Open by (simp add: e(8) opening_transition_def)
  next
    case Closed
    then show ?thesis
      using then_open[of "hist_log h" ?m ?t] m by (simp add: e(8) opening_transition_def)
  qed
  moreover have "revisions_ok (hist_log h @ dec_transitions d)"
    using h e(8) n(2)
    by (cases ?st) (simp_all add: history_ok_def revisions_ok_snoc opening_transition_def
        superseding_transition_def flip: append_assoc append.simps)
  moreover have "advancing (hist_cycles h @ [dec_cycle d])"
  proof (rule advancing_snoc)
    from h e(1) have "num_le (sourceRevision (last (hist_cycles h))) (nint s)"
      by (simp add: history_ok_def)
    moreover have "num_le (nint s) (sourceRevision (dec_cycle d))" using le e(6) by simp
    ultimately show "num_le (sourceRevision (last (hist_cycles h))) (sourceRevision (dec_cycle d))"
      by (rule num_le_trans)
  qed (use h in \<open>simp_all add: history_ok_def\<close>)
  moreover have "chain_ok (hist_cycles h @ [dec_cycle d])"
    using h e(6) by (simp add: history_ok_def chain_ok_snoc)
  moreover have "\<forall>t \<in> set (dec_transitions d). scope_of t = scope_of (hist_head h)"
    by (simp add: e(8) opening_transition_def superseding_transition_def)
  moreover have "head_of_log (hist_log h @ dec_transitions d) = Some (head_after ?t)"
    by (simp add: e(8) head_of_log_def)
  moreover have "scope_of (dec_head d) = scope_of (hist_head h)"
    "currentCycleNumber (dec_head d) = nint (?m + 1)" "currentSourceRevision (dec_head d) = nint s'"
    "head_status (dec_head d) = Open"
    by (simp_all add: e(7))
  moreover have "scope_of (dec_cycle d) = scope_of (hist_head h)" "sourceRevision (dec_cycle d) = nint s'"
    by (simp_all add: e(6))
  moreover have "dec_transitions d \<noteq> []"
    by (simp add: e(8))
  ultimately show "history_ok \<lparr>hist_cycles = hist_cycles h @ [dec_cycle d], hist_head = dec_head d,
           hist_log = hist_log h @ dec_transitions d\<rparr>"
    using h e(3,4) unfolding history_ok_def
    by (simp add: ball_Un add.commute)
qed

lemma carry_head_okE:
  assumes "carry_head c head = Some head'"
  obtains k where "c = nint k" "currentSourceRevision head = nint k" "k + 1 \<le> max_safe_integer"
    "sourceType head = Src_review" "0 \<le> k" "head' = head\<lparr>currentSourceRevision := nint (k + 1)\<rparr>"
proof -
  from assms have "isPositiveSafeInteger (num_add c (nint 1))"
    by (auto simp: carry_head_def Let_def split: if_splits)
  then obtain j where j: "num_add c (nint 1) = nint j" "1 \<le> j" "j \<le> max_safe_integer"
    by (rule isPositiveSafeIntegerE)
  then have "c = nint (j - 1)"
    by (cases c) (auto simp: nint_def algebra_simps)
  with assms j show ?thesis
    by (intro that[of "j - 1"]) (auto simp: carry_head_def Let_def split: if_splits)
qed

lemma history_ok_carry:
  assumes h: "history_ok h" and step: "carry_head c (hist_head h) = Some head"
  shows "history_ok (h\<lparr>hist_head := head\<rparr>)"
proof -
  from step obtain k where k: "currentSourceRevision (hist_head h) = nint k"
    "k + 1 \<le> max_safe_integer" "0 \<le> k"
    "head = (hist_head h)\<lparr>currentSourceRevision := nint (k + 1)\<rparr>"
    by (rule carry_head_okE)
  have le: "num_le a (nint (k + 1))" if "num_le a (nint k)" for a
    using that by (rule num_le_trans) simp
  show ?thesis
    using h k(1-3) le by (simp add: history_ok_def k(4))
qed

text \<open>The rank grows with every step: a transition, or a carried revision.\<close>

definition history_rank :: "cycle_history \<Rightarrow> int" where
  "history_rank h = int (length (hist_log h)) + number_floor (currentSourceRevision (hist_head h))"

lemma cycle_step_history_ok:
  assumes "history_ok h" "cycle_step h c = Some h'"
  shows "history_ok h' \<and> history_rank h < history_rank h'"
proof (cases c)
  case (Next_cycle i)
  with assms(2) obtain d where d: "createNextHandlingCycle (i\<lparr>current := hist_head h\<rparr>) = Inr d"
    "h' = \<lparr>hist_cycles = hist_cycles h @ [dec_cycle d], hist_head = dec_head d,
           hist_log = hist_log h @ dec_transitions d\<rparr>"
    by (auto split: sum.splits)
  have "1 \<le> int (length (dec_transitions d))"
    using d(1) by (rule createNextHandlingCycle_okE) simp
  then show ?thesis
    using history_ok_next[OF assms(1) d(1)] d(2) by (simp add: history_rank_def)
next
  case (Close_cycle i)
  with assms(2) obtain head t where d:
    "closeHandlingCycle (i\<lparr>cl_current := hist_head h\<rparr>) = Inr (head, t)"
    "h' = \<lparr>hist_cycles = hist_cycles h, hist_head = head, hist_log = hist_log h @ [t]\<rparr>"
    by (auto split: sum.splits)
  then show ?thesis
    using history_ok_close[OF assms(1) d(1)] by (simp add: history_rank_def)
next
  case (Carry_epoch c)
  with assms(2) obtain head where d: "carry_head c (hist_head h) = Some head"
    "h' = h\<lparr>hist_head := head\<rparr>"
    by auto
  from d(1) have "number_floor (currentSourceRevision (hist_head h))
      < number_floor (currentSourceRevision head)"
    by (rule carry_head_okE) simp
  then show ?thesis
    using history_ok_carry[OF assms(1) d(1)] d(2) by (simp add: history_rank_def)
qed

interpretation handling: fenced_machine cycle_step history_ok history_rank
  by unfold_locales (blast dest: cycle_step_history_ok)+

section \<open>The tables\<close>

text \<open>
  \<open>inbox_handling_cycles_sequence_safe\<close>, \<open>_source_anchor_valid\<close> and \<open>_manual_reopen_valid\<close>; the
  reason is an enumeration here, so \<open>_reason_valid\<close> is its type. PostgreSQL's \<^verbatim>\<open>btrim\<close> strips
  spaces only. Lengths are counted in UTF-16 code units, which is never less than the database's
  count of characters, and zero exactly when that is.
\<close>

definition btrim :: "js_string \<Rightarrow> js_string" where
  "btrim s = rev (dropWhile (\<lambda>w. w = 32) (rev (dropWhile (\<lambda>w. w = 32) s)))"

text \<open>A CHECK refuses what is false; over a column that is \<^verbatim>\<open>NULL\<close> a comparison is not.\<close>

definition not_false :: "('a \<Rightarrow> bool) \<Rightarrow> 'a option \<Rightarrow> bool" where
  "not_false p x = (case x of None \<Rightarrow> True | Some v \<Rightarrow> p v)"

lemma not_false_simps [simp]: "not_false p None" "not_false p (Some v) = p v"
  by (simp_all add: not_false_def)

definition manual_reopen_valid :: "handling_cycle \<Rightarrow> bool" where
  "manual_reopen_valid c =
     (if openedReason c \<noteq> OR_manual_reopen
      then manualReopenReason c = None \<and> manualReopenExplanation c = None
      else (case manualReopenReason c of
              None \<Rightarrow> False
            | Some reason \<Rightarrow>
                (case manualReopenExplanation c of
                   None \<Rightarrow> reason \<noteq> MR_other
                 | Some e \<Rightarrow> reason = MR_other \<and> 1 \<le> length (btrim e) \<and> length (btrim e) \<le> 280)))"

definition cycle_row_valid :: "handling_cycle \<Rightarrow> bool" where
  "cycle_row_valid c =
     (isPositiveSafeInteger (cycleNumber c) \<and> isPositiveSafeInteger (sourceRevision c)
      \<and> (if cycleNumber c = nint 1 then supersedesCycleNumber c = None
          else not_false (\<lambda>n. n = num_sub (cycleNumber c) (nint 1)) (supersedesCycleNumber c))
      \<and> (if sourceType c = Src_review then openedReason c \<noteq> OR_feedback_submitted
          else openedReason c \<in> {OR_legacy_backfill, OR_feedback_submitted, OR_manual_reopen})
      \<and> manual_reopen_valid c)"

definition head_row_valid :: "handling_head \<Rightarrow> bool" where
  "head_row_valid h =
     (isPositiveSafeInteger (currentCycleNumber h)
      \<and> isPositiveSafeInteger (currentSourceRevision h) \<and> isPositiveSafeInteger (stateRevision h))"

definition transition_row_valid :: "handling_transition \<Rightarrow> bool" where
  "transition_row_valid t =
     (isPositiveSafeInteger (tr_cycleNumber t) \<and> isPositiveSafeInteger (tr_stateRevision t)
      \<and> isPositiveSafeInteger (tr_sourceRevision t)
      \<and> (actorType t = Actor_user) = (actorUserId t \<noteq> None))"

lemma js_trim_ends:
  assumes "js_trim s = w # ws"
  shows "\<not> is_js_space w" "\<not> is_js_space (last (w # ws))"
proof -
  have "dropWhile is_js_space (rev (dropWhile is_js_space s)) \<noteq> []"
    using assms by (auto simp: js_trim_def)
  then have "\<not> is_js_space (hd (dropWhile is_js_space (rev (dropWhile is_js_space s))))"
    by (rule hd_dropWhile)
  moreover have "last (js_trim s) = hd (dropWhile is_js_space (rev (dropWhile is_js_space s)))"
    by (simp add: js_trim_def last_rev)
  ultimately show "\<not> is_js_space (last (w # ws))" using assms by simp
  have "js_trim s = [] \<or> \<not> is_js_space (hd (js_trim s))"
    unfolding js_trim_def
    by (rule dropWhile_rev_dropWhile) (use hd_dropWhile in blast)
  then show "\<not> is_js_space w" using assms by simp
qed

lemma is_js_space_32: "is_js_space 32"
  by (simp add: is_js_space_def)

lemma btrim_js_trim [simp]: "btrim (js_trim s) = js_trim s"
proof (cases "js_trim s")
  case Nil
  then show ?thesis by (simp add: btrim_def)
next
  case (Cons w ws)
  then have w: "w \<noteq> 32" "last (w # ws) \<noteq> 32"
    using js_trim_ends[OF Cons] is_js_space_32 by auto
  then obtain us u where u: "w # ws = us @ [u]" "u \<noteq> 32"
    by (metis append_butlast_last_id list.distinct(1))
  have "rev (dropWhile (\<lambda>x. x = 32) (rev (w # ws))) = w # ws"
    unfolding u(1) using u(2) by simp
  then show ?thesis
    unfolding btrim_def Cons using w(1) by simp
qed

text \<open>What a manual reopen must carry.\<close>

definition reopen_fields_ok :: "create_next_input \<Rightarrow> bool" where
  "reopen_fields_ok i =
     (if nx_openedReason i \<noteq> Next_manual_reopen
      then nx_manualReopenReason i = None \<and> nx_manualReopenExplanation i = None
      else head_status (current i) = Closed \<and> \<not> falsy_id (nx_openedBy i)
        \<and> nx_actorType i = Actor_user
        \<and> (case nx_manualReopenReason i of
              None \<Rightarrow> False
            | Some MR_other \<Rightarrow> (\<exists>e. nx_manualReopenExplanation i = Some (Some e)
                 \<and> js_trim e \<noteq> [] \<and> length (js_trim e) \<le> 280)
            | Some _ \<Rightarrow> nx_manualReopenExplanation i \<in> {None, Some None}))"

lemma resolveManualReopenAttribution_ok_iff:
  "(\<exists>r. resolveManualReopenAttribution i = Inr r) \<longleftrightarrow> reopen_fields_ok i"
proof (cases "nx_openedReason i = Next_manual_reopen")
  case False
  then show ?thesis
    by (simp add: resolveManualReopenAttribution_def reopen_fields_ok_def)
next
  case True
  show ?thesis
  proof (cases "nx_manualReopenReason i")
    case None
    with True show ?thesis
      by (simp add: resolveManualReopenAttribution_def reopen_fields_ok_def)
  next
    case (Some r)
    show ?thesis
    proof (cases "r = MR_other")
      case r: True
      obtain e where e: "(case nx_manualReopenExplanation i of Some (Some t) \<Rightarrow> js_trim t | _ \<Rightarrow> []) = e"
        by blast
      have "(e \<noteq> [] \<and> length e \<le> 280) \<longleftrightarrow> (\<exists>t. nx_manualReopenExplanation i = Some (Some t)
          \<and> js_trim t \<noteq> [] \<and> length (js_trim t) \<le> 280)"
        using e by (auto split: option.splits)
      then show ?thesis
        using True Some r
        by (cases "e \<noteq> [] \<and> length e \<le> 280")
          (auto simp: resolveManualReopenAttribution_def reopen_fields_ok_def e not_less Suc_le_eq)
    next
      case r: False
      then have "(case r of MR_other \<Rightarrow> A | _ \<Rightarrow> B) = B" for A B :: bool
        by (cases r) simp_all
      with True Some r show ?thesis
        by (auto simp: resolveManualReopenAttribution_def reopen_fields_ok_def)
    qed
  qed
qed

lemma manual_reopen_valid_of:
  assumes "resolveManualReopenAttribution i = Inr (reason, explanation)"
    "openedReason c = later_reason (nx_openedReason i)"
    "manualReopenReason c = reason" "manualReopenExplanation c = explanation"
  shows "manual_reopen_valid c"
  using assms
proof (cases "nx_openedReason i = Next_manual_reopen")
  case False
  then show ?thesis
    using assms by (cases "nx_openedReason i")
      (auto simp: resolveManualReopenAttribution_def manual_reopen_valid_def NO_MANUAL_REOPEN_def
        split: if_splits)
next
  case True
  with assms obtain r where r: "nx_manualReopenReason i = Some r"
    by (auto simp: resolveManualReopenAttribution_def split: if_splits option.splits)
  show ?thesis
  proof (cases "r = MR_other")
    case other: True
    let ?e = "case nx_manualReopenExplanation i of Some (Some t) \<Rightarrow> js_trim t | _ \<Rightarrow> []"
    have "btrim ?e = ?e"
      by (simp add: btrim_def split: option.split) (simp flip: btrim_def)
    then obtain e where e: "?e = e" and b: "btrim e = e" by blast
    from assms(1) True r other e have "reason = Some MR_other" "explanation = Some e"
      "e \<noteq> []" "length e \<le> 280"
      by (auto simp: resolveManualReopenAttribution_def Let_def split: if_splits)
    then show ?thesis
      using assms(2-4) True b by (simp add: manual_reopen_valid_def Suc_le_eq)
  next
    case False
    with assms(1) True r have "reason = Some r" "explanation = None"
      by (auto simp: resolveManualReopenAttribution_def split: if_splits)
    with assms(2-4) True False show ?thesis by (simp add: manual_reopen_valid_def)
  qed
qed

section \<open>Properties\<close>

text \<open>
  C22. However an item's Handling Cycles are opened, superseded, closed, reopened and carried into
  a newer source epoch, its history stays complete: the head is the projection of the last
  transition of the log, but for a source revision that a carry moved on, never back; the state
  revisions of the log count from 1 without a gap, so two histories of one revision have equally
  long logs; the cycles are numbered from 1 and each supersedes the one before it, never on an
  older source revision; every cycle was opened exactly once, and closed exactly once unless it
  is the current one of an open head.
\<close>

theorem handling_history_is_gap_free:
  assumes "createInitialHandlingCycle i = Inr d" "in_status i = Open"
    and "run cycle_step (history_of d) cs = Some h"
  shows "(\<exists>s. head_of_log (hist_log h) = Some ((hist_head h)\<lparr>currentSourceRevision := s\<rparr>)
        \<and> num_le s (currentSourceRevision (hist_head h)))
    \<and> map tr_stateRevision (hist_log h) = map nint [1..int (length (hist_log h))]
    \<and> stateRevision (hist_head h) = nint (int (length (hist_log h)))
    \<and> map cycleNumber (hist_cycles h) = map nint [1..int (length (hist_cycles h))]
    \<and> map supersedesCycleNumber (hist_cycles h)
        = map (\<lambda>k. if k = 1 then None else Some (nint (k - 1))) [1..int (length (hist_cycles h))]
    \<and> sorted_wrt (\<lambda>a b. num_le (sourceRevision a) (sourceRevision b)) (hist_cycles h)
    \<and> (\<forall>k. openings (hist_log h) k = (if 1 \<le> k \<and> k \<le> int (length (hist_cycles h)) then 1 else 0))
    \<and> (\<forall>k. closings (hist_log h) k =
          (if 1 \<le> k \<and> (k < int (length (hist_cycles h))
             \<or> k = int (length (hist_cycles h)) \<and> head_status (hist_head h) = Closed)
           then 1 else 0))"
proof -
  note start = history_ok_initial[OF assms(1,2)]
  from handling.run_inv[OF start assms(3)] have h: "history_ok h" .
  note stateRevision_is_length[OF h]
  moreover from h have "cycle_log (hist_log h) (int (length (hist_cycles h))) (head_status (hist_head h))"
    by (simp add: history_ok_def)
  note cycle_log_openings[OF this] cycle_log_closings[OF this]
  ultimately show ?thesis
    using h by (auto simp: history_ok_def revisions_ok_def chain_ok_def advancing_def)
qed

definition sample_scope :: cycle_scope where
  "sample_scope = \<lparr>inboxItemId = ''item'', organizationId = ''org'', propertyId = ''prop'',
     sourceType = Src_review, sourceId = ''review''\<rparr>"

definition sample_initial :: create_initial_input where
  "sample_initial = cycle_scope.extend sample_scope
     (create_initial_input.fields (nint 1) First_review_observed Actor_provider None (At 0) Open)"

definition sample_next :: "next_reason \<Rightarrow> int \<Rightarrow> create_next_input" where
  "sample_next reason revision =
     \<lparr>current = cycle_scope.extend sample_scope (handling_head.fields (nint 1) (nint 1) (nint 1) Open),
      nx_sourceRevision = nint revision, nx_openedReason = reason, nx_manualReopenReason = None,
      nx_manualReopenExplanation = None, nx_openedBy = None, nx_actorType = Actor_provider,
      nx_triggerEventId = None, nx_openedAt = At 5\<rparr>"

definition sample_close :: close_input where
  "sample_close =
     \<lparr>cl_current = cycle_scope.extend sample_scope (handling_head.fields (nint 1) (nint 1) (nint 1) Open),
      cl_closeReason = CR_confirmed_on_google, cl_actorType = Actor_provider,
      cl_actorUserId = None, cl_triggerEventId = None, cl_closedAt = At 7\<rparr>"

definition sample_reopen :: create_next_input where
  "sample_reopen = (sample_next Next_manual_reopen 2)\<lparr>nx_openedBy := Some ''anna'',
     nx_actorType := Actor_user, nx_manualReopenReason := Some MR_new_information\<rparr>"

lemmas sample_cycle_simps = sample_scope_def sample_initial_def sample_next_def sample_close_def
  sample_reopen_def createInitialHandlingCycle_def createNextHandlingCycle_def
  closeHandlingCycle_def history_of_def resolveManualReopenAttribution_def NO_MANUAL_REOPEN_def
  findOpenedReasonViolation_def nextCycleTransitionKind_def opening_reason_of_def falsy_id_def
  carry_head_def
  cycle_scope.defs handling_head.defs handling_cycle.defs handling_transition.defs
  create_initial_input.defs scope_of_def max_safe_integer_def Let_def

lemma handling_history_is_gap_free_witness:
  "\<exists>d h. createInitialHandlingCycle sample_initial = Inr d
     \<and> run cycle_step (history_of d)
         [Next_cycle (sample_next Next_material_revision_changed 2), Carry_epoch (nint 2),
          Close_cycle sample_close, Next_cycle (sample_reopen\<lparr>nx_sourceRevision := nint 3\<rparr>)] = Some h
     \<and> map tr_stateRevision (hist_log h) = map nint [1..5] \<and> length (hist_cycles h) = 3
     \<and> closings (hist_log h) 2 = 1 \<and> closings (hist_log h) 3 = 0"
proof -
  obtain d where d: "createInitialHandlingCycle sample_initial = Inr d"
    by (simp add: sample_cycle_simps)
  obtain h where h: "run cycle_step (history_of d)
      [Next_cycle (sample_next Next_material_revision_changed 2), Carry_epoch (nint 2),
       Close_cycle sample_close, Next_cycle (sample_reopen\<lparr>nx_sourceRevision := nint 3\<rparr>)] = Some h"
      "length (hist_log h) = 5" "length (hist_cycles h) = 3"
      "head_status (hist_head h) = Open"
    using d by (auto simp: sample_cycle_simps)
  have "in_status sample_initial = Open" by (simp add: sample_cycle_simps)
  from handling_history_is_gap_free[OF d this h(1)] h d show ?thesis by auto
qed



end
