(* ===== verification/ResponseTarget.thy ===== *)
theory ResponseTarget
  imports InboxTypes
begin

text \<open>
  Response Targets (\<^verbatim>\<open>src/src/contexts/inbox/domain/response-target.ts\<close>): the clock of a Handling
  Cycle, from the policy it snapshots to its completion; and the release of its two reminders
  around a read of Google (\<^verbatim>\<open>reminder-release.ts\<close>).

  A throw of the source is an \<open>Inl\<close>. The lemmas bound the schedule of every policy the code
  accepts, order the two reminders of a target, and bound how long a reminder can be held back.
\<close>

section \<open>Policies\<close>

datatype target_kind = Google_review_response | Private_feedback_handling

datatype policy_source = Builtin_default | Organization_policy | Property_override

datatype target_eligibility = Measured | Legacy_unknown | Historical_onboarding

datatype target_result = On_time | Late | Target_cancelled

datatype reminder_kind = Halfway | Target_passed

record target_policy =
  durationMinutes :: number
  policySource :: policy_source
  policyVersion :: number

text \<open>The two low-rating fields are read through \<^verbatim>\<open>?? null\<close>: absent and \<^verbatim>\<open>null\<close> are both \<open>None\<close>.\<close>

record stored_policy =
  sp_durationMinutes :: number
  sp_policyVersion :: number
  lowRatingThreshold :: "number option"
  lowRatingDurationMinutes :: "number option"

definition DEFAULT_RESPONSE_TARGET_MINUTES :: number where
  "DEFAULT_RESPONSE_TARGET_MINUTES = nint (48 * 60)"

definition RESPONSE_TARGET_POLICY_VERSION :: number where
  "RESPONSE_TARGET_POLICY_VERSION = nint 1"

definition invalidPolicy :: inbox_error where
  "invalidPolicy = inboxError IE_invalid_input ''Response Target policy is invalid'' []"

definition assertLowRatingPolicy :: "stored_policy \<Rightarrow> (inbox_error, unit) result" where
  "assertLowRatingPolicy policy =
     (case (lowRatingThreshold policy, lowRatingDurationMinutes policy) of
        (None, None) \<Rightarrow> ok ()
      | (Some threshold, Some duration) \<Rightarrow>
          if \<not> is_safe_integer threshold \<or> num_lt threshold (nint 1) \<or> num_lt (nint 5) threshold
             \<or> \<not> is_safe_integer duration \<or> num_lt duration (nint 1)
             \<or> num_lt (sp_durationMinutes policy) duration
          then err invalidPolicy else ok ()
      | _ \<Rightarrow> err invalidPolicy)"

definition assertPolicy :: "stored_policy \<Rightarrow> (inbox_error, unit) result" where
  "assertPolicy policy =
     (if \<not> is_safe_integer (sp_durationMinutes policy)
         \<or> num_lt (sp_durationMinutes policy) (nint 1)
         \<or> num_lt (nint (720 * 60)) (sp_durationMinutes policy)
         \<or> \<not> is_safe_integer (sp_policyVersion policy)
         \<or> num_lt (sp_policyVersion policy) (nint 1)
      then err invalidPolicy else assertLowRatingPolicy policy)"

definition builtin_policy :: target_policy where
  "builtin_policy =
     \<lparr>durationMinutes = DEFAULT_RESPONSE_TARGET_MINUTES, policySource = Builtin_default,
      policyVersion = RESPONSE_TARGET_POLICY_VERSION\<rparr>"

definition resolvePrivateFeedbackTargetPolicy ::
  "stored_policy option \<Rightarrow> stored_policy option \<Rightarrow> (inbox_error, target_policy) result" where
  "resolvePrivateFeedbackTargetPolicy organizationPolicy propertyOverride =
     (case propertyOverride of
        Some p \<Rightarrow> map_sum id (\<lambda>_. \<lparr>durationMinutes = sp_durationMinutes p,
            policySource = Property_override, policyVersion = sp_policyVersion p\<rparr>) (assertPolicy p)
      | None \<Rightarrow>
          (case organizationPolicy of
             Some p \<Rightarrow> map_sum id (\<lambda>_. \<lparr>durationMinutes = sp_durationMinutes p,
                 policySource = Organization_policy, policyVersion = sp_policyVersion p\<rparr>)
                 (assertPolicy p)
           | None \<Rightarrow> ok builtin_policy))"

definition resolveGoogleReviewTargetPolicy ::
  "stored_policy option \<Rightarrow> number option \<Rightarrow> (inbox_error, target_policy) result" where
  "resolveGoogleReviewTargetPolicy organizationPolicy rating =
     (case organizationPolicy of
        Some p \<Rightarrow> map_sum id (\<lambda>_.
            \<lparr>durationMinutes =
               (case (lowRatingThreshold p, lowRatingDurationMinutes p, rating) of
                  (Some threshold, Some duration, Some stars) \<Rightarrow>
                    if num_le stars threshold then duration else sp_durationMinutes p
                | _ \<Rightarrow> sp_durationMinutes p),
             policySource = Organization_policy, policyVersion = sp_policyVersion p\<rparr>)
            (assertPolicy p)
      | None \<Rightarrow> ok builtin_policy)"

section \<open>The snapshot of a target\<close>

definition invalid_timestamp :: inbox_error where
  "invalid_timestamp = inboxError IE_invalid_input ''Response Target timestamp is invalid'' []"

definition addMinutes :: "date \<Rightarrow> number \<Rightarrow> (inbox_error, date) result" where
  "addMinutes instant minutes =
     (let timestamp = num_add (get_time instant) (num_scale 60000 minutes)
      in if \<not> is_finite (get_time instant) \<or> \<not> is_finite timestamp
         then err invalid_timestamp else ok (new_date timestamp))"

record reminder =
  rem_kind :: reminder_kind
  scheduledFor :: date

record target_snapshot =
  targetKind :: target_kind
  snap_policy :: target_policy
  startAt :: date
  dueAt :: date
  reminders :: "reminder list"

text \<open>A resolved policy has no low-rating fields, so its check reads them as absent.\<close>

definition as_stored :: "target_policy \<Rightarrow> stored_policy" where
  "as_stored p = \<lparr>sp_durationMinutes = durationMinutes p, sp_policyVersion = policyVersion p,
     lowRatingThreshold = None, lowRatingDurationMinutes = None\<rparr>"

definition buildResponseTargetSnapshot ::
  "target_kind \<Rightarrow> target_policy \<Rightarrow> date \<Rightarrow> (inbox_error, target_snapshot) result" where
  "buildResponseTargetSnapshot kind policy start =
     (case assertPolicy (as_stored policy) of
        Inl e \<Rightarrow> err e
      | Inr _ \<Rightarrow>
          (case addMinutes start (durationMinutes policy) of
             Inl e \<Rightarrow> err e
           | Inr due \<Rightarrow>
               (case addMinutes start (num_scale (1 / 2) (durationMinutes policy)) of
                  Inl e \<Rightarrow> err e
                | Inr halfway \<Rightarrow>
                    ok \<lparr>targetKind = kind, snap_policy = policy, startAt = start, dueAt = due,
                        reminders = [\<lparr>rem_kind = Halfway, scheduledFor = halfway\<rparr>,
                                     \<lparr>rem_kind = Target_passed, scheduledFor = due\<rparr>]\<rparr>)))"

definition schedulableReminders ::
  "target_snapshot \<Rightarrow> date \<Rightarrow> (inbox_error, reminder list) result" where
  "schedulableReminders snapshot recordedAt =
     (if \<not> is_finite (get_time recordedAt) then err invalid_timestamp
      else ok (filter (\<lambda>r. rem_kind r = Target_passed
                \<or> num_lt (get_time recordedAt) (get_time (scheduledFor r))) (reminders snapshot)))"

definition isSupersededReminder :: "reminder_kind \<Rightarrow> date \<Rightarrow> date \<Rightarrow> bool" where
  "isSupersededReminder kind due now =
     (kind = Halfway \<and> num_le (get_time due) (get_time now))"

section \<open>Evaluation and completion\<close>

record evaluated_target =
  et_eligibility :: target_eligibility
  et_startAt :: "date option"
  et_dueAt :: "date option"
  et_completionAt :: "date option"
  et_result :: "target_result option"
  excludedFromReporting :: bool

datatype evaluation_state = Eval_active | Eval_completed | Eval_cancelled | Eval_excluded

record target_evaluation =
  eval_state :: evaluation_state
  overdue :: bool
  elapsedMinutes :: "number option"

definition evaluateResponseTarget :: "evaluated_target \<Rightarrow> date \<Rightarrow> target_evaluation" where
  "evaluateResponseTarget target now =
     (case (et_startAt target, et_dueAt target) of
        (Some start, Some due) \<Rightarrow>
          if excludedFromReporting target \<or> et_eligibility target \<noteq> Measured
          then \<lparr>eval_state = Eval_excluded, overdue = False, elapsedMinutes = None\<rparr>
          else if et_result target = Some Target_cancelled
          then \<lparr>eval_state = Eval_cancelled, overdue = False, elapsedMinutes = None\<rparr>
          else
            (let effectiveEnd = (case et_completionAt target of Some t \<Rightarrow> t | None \<Rightarrow> now);
                 elapsed = num_max (nint 0) (num_floor (num_scale (1 / 60000)
                   (num_sub (get_time effectiveEnd) (get_time start))))
             in if et_completionAt target \<noteq> None
                then \<lparr>eval_state = Eval_completed, overdue = (et_result target = Some Late),
                      elapsedMinutes = Some elapsed\<rparr>
                else \<lparr>eval_state = Eval_active, overdue = num_le (get_time due) (get_time now),
                      elapsedMinutes = Some elapsed\<rparr>)
      | _ \<Rightarrow> \<lparr>eval_state = Eval_excluded, overdue = False, elapsedMinutes = None\<rparr>)"

definition classifyResponseTargetCompletion :: "date \<Rightarrow> date \<Rightarrow> target_result" where
  "classifyResponseTargetCompletion due completion =
     (if num_le (get_time completion) (get_time due) then On_time else Late)"

definition resolveGoogleReplyCompletion :: "date option \<Rightarrow> date option \<Rightarrow> date \<Rightarrow> date" where
  "resolveGoogleReplyCompletion repliedAt start observed =
     (let repliedMs = (case repliedAt of None \<Rightarrow> NaN | Some t \<Rightarrow> get_time t);
          stopped = (if is_finite repliedMs then num_min repliedMs (get_time observed)
                     else get_time observed)
      in new_date (case start of None \<Rightarrow> stopped | Some s \<Rightarrow> num_max (get_time s) stopped))"

section \<open>Releasing a reminder\<close>

definition REMINDER_GOOGLE_CHECK_DELAY_CAP_MS :: int where
  "REMINDER_GOOGLE_CHECK_DELAY_CAP_MS = 15 * 60000"

record reminder_reply_head = google_reply_reading +
  rh_materialReviewRevision :: number
  rh_observedAt :: date

datatype google_check_outcome =
    Check_read
  | Check_reply_unreadable
  | Check_review_missing
  | Check_transient_failure
  | Check_permanent_failure
  | Check_not_checkable

record hold_scope =
  targetStartAt :: "date option"
  cycleMaterialReviewRevision :: number

definition holdsForAnsweringReply ::
  "('a) hold_scope_scheme \<Rightarrow> reminder_reply_head option \<Rightarrow> bool" where
  "holdsForAnsweringReply scope head =
     (case (head, targetStartAt scope) of
        (Some h, Some start) \<Rightarrow>
          isAnsweringGoogleReply h
          \<and> num_eq (rh_materialReviewRevision h) (cycleMaterialReviewRevision scope)
          \<and> num_le (get_time start) (get_time (rh_observedAt h))
      | _ \<Rightarrow> False)"

datatype release_plan = Release_unchecked | Hold_local | Check_google

definition planReminderRelease ::
  "('a) hold_scope_scheme \<Rightarrow> target_kind \<Rightarrow> reminder_kind \<Rightarrow> date option \<Rightarrow> date
     \<Rightarrow> reminder_reply_head option \<Rightarrow> release_plan" where
  "planReminderRelease scope kind rkind targetDueAt now head =
     (if kind \<noteq> Google_review_response then Release_unchecked
      else if (case targetDueAt of None \<Rightarrow> False | Some due \<Rightarrow> isSupersededReminder rkind due now)
      then Release_unchecked
      else if holdsForAnsweringReply scope head then Hold_local else Check_google)"

datatype reminder_decision = Hold_reminder | Defer_reminder | Release_reminder

definition decideReminderAfterGoogleCheck ::
  "('a) hold_scope_scheme \<Rightarrow> google_check_outcome \<Rightarrow> reminder_reply_head option \<Rightarrow> date \<Rightarrow> date
     \<Rightarrow> reminder_decision" where
  "decideReminderAfterGoogleCheck scope checked head scheduled now =
     (case checked of
        Check_read \<Rightarrow> if holdsForAnsweringReply scope head then Hold_reminder else Release_reminder
      | Check_transient_failure \<Rightarrow>
          if num_lt (get_time now)
               (num_add (get_time scheduled) (nint REMINDER_GOOGLE_CHECK_DELAY_CAP_MS))
          then Defer_reminder else Release_reminder
      | Check_review_missing \<Rightarrow>
          if num_lt (get_time now)
               (num_add (get_time scheduled) (nint REMINDER_GOOGLE_CHECK_DELAY_CAP_MS))
          then Defer_reminder else Release_reminder
      | Check_reply_unreadable \<Rightarrow> Release_reminder
      | Check_permanent_failure \<Rightarrow> Release_reminder
      | Check_not_checkable \<Rightarrow> Release_reminder)"

section \<open>The schedule of a target\<close>

definition policy_minutes :: "target_policy \<Rightarrow> int \<Rightarrow> bool" where
  "policy_minutes p d = (durationMinutes p = nint d \<and> 1 \<le> d \<and> d \<le> 43200
     \<and> is_safe_integer (policyVersion p) \<and> \<not> num_lt (policyVersion p) (nint 1))"

lemma assertPolicy_okE:
  assumes "assertPolicy p = Inr u"
  obtains d where "sp_durationMinutes p = nint d" "1 \<le> d" "d \<le> 43200"
    "is_safe_integer (sp_policyVersion p)" "\<not> num_lt (sp_policyVersion p) (nint 1)"
    "assertLowRatingPolicy p = Inr ()"
proof -
  from assms have ok: "is_safe_integer (sp_durationMinutes p)"
    "\<not> num_lt (sp_durationMinutes p) (nint 1)" "\<not> num_lt (nint 43200) (sp_durationMinutes p)"
    "is_safe_integer (sp_policyVersion p)" "\<not> num_lt (sp_policyVersion p) (nint 1)"
    "assertLowRatingPolicy p = Inr ()"
    by (auto simp: assertPolicy_def split: if_splits)
  from ok(1) obtain d where "sp_durationMinutes p = nint d" by (rule is_safe_integerE)
  with ok show ?thesis by (intro that[of d]) auto
qed

lemma assertLowRatingPolicy_okE:
  assumes "assertLowRatingPolicy p = Inr u" "lowRatingThreshold p = Some a"
    "lowRatingDurationMinutes p = Some b" "sp_durationMinutes p = nint d"
  obtains k where "b = nint k" "1 \<le> k" "k \<le> d"
proof -
  from assms have ok: "is_safe_integer b" "\<not> num_lt b (nint 1)" "\<not> num_lt (nint d) b"
    by (auto simp: assertLowRatingPolicy_def split: if_splits)
  from ok(1) obtain k where "b = nint k" by (rule is_safe_integerE)
  with ok show ?thesis by (intro that[of k]) auto
qed

lemma assertPolicy_as_stored:
  assumes "policy_minutes p d"
  shows "assertPolicy (as_stored p) = Inr ()"
  using assms
  by (auto simp: policy_minutes_def assertPolicy_def as_stored_def assertLowRatingPolicy_def
      max_safe_integer_def)

lemma builtin_policy_minutes: "policy_minutes builtin_policy 2880"
  by (simp add: policy_minutes_def builtin_policy_def DEFAULT_RESPONSE_TARGET_MINUTES_def
      RESPONSE_TARGET_POLICY_VERSION_def max_safe_integer_def)

lemma google_policy_minutes:
  assumes "resolveGoogleReviewTargetPolicy op rating = Inr p"
  obtains d d0 p0 where "policy_minutes p d"
    "resolveGoogleReviewTargetPolicy op None = Inr p0" "policy_minutes p0 d0" "d \<le> d0"
proof (cases op)
  case None
  with assms builtin_policy_minutes show ?thesis
    by (intro that[of 2880 builtin_policy 2880]) (auto simp: resolveGoogleReviewTargetPolicy_def)
next
  case (Some q)
  with assms have ok: "assertPolicy q = Inr ()"
    by (auto simp: resolveGoogleReviewTargetPolicy_def map_sum_def split: sum.splits)
  then obtain d0 where d0: "sp_durationMinutes q = nint d0" "1 \<le> d0" "d0 \<le> 43200"
    "is_safe_integer (sp_policyVersion q)" "\<not> num_lt (sp_policyVersion q) (nint 1)"
    "assertLowRatingPolicy q = Inr ()"
    by (rule assertPolicy_okE)
  let ?p0 = "\<lparr>durationMinutes = nint d0, policySource = Organization_policy,
    policyVersion = sp_policyVersion q\<rparr>"
  have p0: "resolveGoogleReviewTargetPolicy op None = Inr ?p0" "policy_minutes ?p0 d0"
    using Some ok d0 by (auto simp: resolveGoogleReviewTargetPolicy_def policy_minutes_def
        split: option.split)
  have p: "p = \<lparr>durationMinutes = (case (lowRatingThreshold q, lowRatingDurationMinutes q, rating) of
                  (Some threshold, Some duration, Some stars) \<Rightarrow>
                    if num_le stars threshold then duration else sp_durationMinutes q
                | _ \<Rightarrow> sp_durationMinutes q),
             policySource = Organization_policy, policyVersion = sp_policyVersion q\<rparr>"
    using assms Some ok by (simp add: resolveGoogleReviewTargetPolicy_def)
  show ?thesis
  proof (cases "\<exists>a b s. lowRatingThreshold q = Some a \<and> lowRatingDurationMinutes q = Some b
      \<and> rating = Some s \<and> num_le s a")
    case True
    then obtain a b s where abs: "lowRatingThreshold q = Some a"
      "lowRatingDurationMinutes q = Some b" "rating = Some s" "num_le s a" by blast
    from d0(6) abs(1,2) d0(1) obtain k where "b = nint k" "1 \<le> k" "k \<le> d0"
      by (rule assertLowRatingPolicy_okE)
    then show ?thesis
      using p abs d0 by (intro that[OF _ p0, of k]) (simp_all add: policy_minutes_def)
  next
    case False
    then have "durationMinutes p = nint d0"
      unfolding p by (auto simp: d0(1) split: option.split)
    then show ?thesis
      using d0 p by (intro that[OF _ p0, of d0]) (simp_all add: policy_minutes_def)
  qed
qed

lemma private_policy_minutes:
  assumes "resolvePrivateFeedbackTargetPolicy op ov = Inr p"
  obtains d where "policy_minutes p d"
proof (cases "op = None \<and> ov = None")
  case True
  with assms builtin_policy_minutes show ?thesis
    by (intro that) (auto simp: resolvePrivateFeedbackTargetPolicy_def)
next
  case False
  with assms obtain q where q: "assertPolicy q = Inr ()" "durationMinutes p = sp_durationMinutes q"
    "policyVersion p = sp_policyVersion q"
    by (auto simp: resolvePrivateFeedbackTargetPolicy_def map_sum_def
        split: option.splits sum.splits)
  from q(1) show ?thesis
    by (rule assertPolicy_okE) (rule that, use q in \<open>simp add: policy_minutes_def\<close>)
qed

lemma half_minutes: "num_scale 60000 (num_scale (1 / 2) (nint d)) = nint (30000 * d)"
  by (simp add: nint_def)

lemma snapshot_of:
  assumes "policy_minutes p d" "\<bar>t\<bar> + 60000 * d \<le> max_time_value"
  shows "buildResponseTargetSnapshot kind p (At t) =
    Inr \<lparr>targetKind = kind, snap_policy = p, startAt = At t, dueAt = At (t + 60000 * d),
         reminders = [\<lparr>rem_kind = Halfway, scheduledFor = At (t + 30000 * d)\<rparr>,
                      \<lparr>rem_kind = Target_passed, scheduledFor = At (t + 60000 * d)\<rparr>]\<rparr>"
proof -
  have d: "durationMinutes p = nint d" "1 \<le> d" using assms(1) by (auto simp: policy_minutes_def)
  have "\<bar>t + 60000 * d\<bar> \<le> max_time_value" "\<bar>t + 30000 * d\<bar> \<le> max_time_value"
    using assms(2) d(2) by linarith+
  then show ?thesis
    using assertPolicy_as_stored[OF assms(1)]
    by (simp add: buildResponseTargetSnapshot_def addMinutes_def half_minutes d(1) Let_def)
qed

text \<open>
  C33. Every policy the code resolves, from whatever an organization or a property stored, gives a
  target a schedule within bounds: between one minute and thirty days long, with the halfway
  reminder at the midpoint, strictly between the start and the due time, and the other at the due
  time; and a low rating only ever brings the due time of a review forward.
\<close>

theorem target_schedule_is_bounded:
  assumes "resolveGoogleReviewTargetPolicy op rating = Inr p
      \<or> resolvePrivateFeedbackTargetPolicy op ov = Inr p"
    and "\<bar>t\<bar> + 60000 * 43200 \<le> max_time_value"
  shows "(\<exists>d. 1 \<le> d \<and> d \<le> 43200 \<and> buildResponseTargetSnapshot kind p (At t) =
      Inr \<lparr>targetKind = kind, snap_policy = p, startAt = At t, dueAt = At (t + 60000 * d),
         reminders = [\<lparr>rem_kind = Halfway, scheduledFor = At (t + 30000 * d)\<rparr>,
                      \<lparr>rem_kind = Target_passed, scheduledFor = At (t + 60000 * d)\<rparr>]\<rparr>)
    \<and> (resolveGoogleReviewTargetPolicy op rating = Inr p \<longrightarrow>
        (\<exists>p0 s s0. resolveGoogleReviewTargetPolicy op None = Inr p0
          \<and> buildResponseTargetSnapshot kind p (At t) = Inr s
          \<and> buildResponseTargetSnapshot kind p0 (At t) = Inr s0
          \<and> num_le (get_time (dueAt s)) (get_time (dueAt s0))))"
proof -
  have snap: "buildResponseTargetSnapshot kind q (At t) =
      Inr \<lparr>targetKind = kind, snap_policy = q, startAt = At t, dueAt = At (t + 60000 * d),
         reminders = [\<lparr>rem_kind = Halfway, scheduledFor = At (t + 30000 * d)\<rparr>,
                      \<lparr>rem_kind = Target_passed, scheduledFor = At (t + 60000 * d)\<rparr>]\<rparr>
      \<and> 1 \<le> d \<and> d \<le> 43200"
    if "policy_minutes q d" for q d
    using snapshot_of[OF that] that assms(2) by (auto simp: policy_minutes_def)
  have "\<exists>d. policy_minutes p d"
    using assms(1) by (auto elim: google_policy_minutes private_policy_minutes)
  moreover have "\<exists>p0 s s0. resolveGoogleReviewTargetPolicy op None = Inr p0
          \<and> buildResponseTargetSnapshot kind p (At t) = Inr s
          \<and> buildResponseTargetSnapshot kind p0 (At t) = Inr s0
          \<and> num_le (get_time (dueAt s)) (get_time (dueAt s0))"
    if "resolveGoogleReviewTargetPolicy op rating = Inr p"
    using that
  proof (rule google_policy_minutes)
    fix d d0 p0 assume "policy_minutes p d" "resolveGoogleReviewTargetPolicy op None = Inr p0"
      "policy_minutes p0 d0" "d \<le> d0"
    then show ?thesis using snap[of p d] snap[of p0 d0] by auto
  qed
  ultimately show ?thesis using snap by blast
qed

definition sample_low_rating :: stored_policy where
  "sample_low_rating = \<lparr>sp_durationMinutes = nint 2880, sp_policyVersion = nint 4,
     lowRatingThreshold = Some (nint 2), lowRatingDurationMinutes = Some (nint 240)\<rparr>"

lemma target_schedule_is_bounded_witness:
  "\<exists>p. resolveGoogleReviewTargetPolicy (Some sample_low_rating) (Some (nint 1)) = Inr p
     \<and> durationMinutes p = nint 240
     \<and> (\<exists>d \<le> 43200. dueAt (case buildResponseTargetSnapshot Google_review_response p (At 0) of
              Inr s \<Rightarrow> s) = At (60000 * d))"
proof -
  obtain p where p: "resolveGoogleReviewTargetPolicy (Some sample_low_rating) (Some (nint 1)) = Inr p"
    "durationMinutes p = nint 240"
    by (simp add: resolveGoogleReviewTargetPolicy_def sample_low_rating_def assertPolicy_def
        assertLowRatingPolicy_def max_safe_integer_def)
  have "\<bar>0\<bar> + 60000 * 43200 \<le> max_time_value" by (simp add: max_time_value_def)
  from target_schedule_is_bounded[OF disjI1[OF p(1)] this, of Google_review_response] p
  show ?thesis by auto
qed

section \<open>Prompts\<close>

text \<open>
  A slot prompts when it is released: once it is due, unless it is a halfway slot whose target
  has passed.
\<close>

definition prompts :: "target_snapshot \<Rightarrow> date \<Rightarrow> reminder \<Rightarrow> bool" where
  "prompts snap now r =
     (num_le (get_time (scheduledFor r)) (get_time now)
      \<and> \<not> isSupersededReminder (rem_kind r) (dueAt snap) now)"

text \<open>
  C30. A target prompts at most once at a time: of the slots recorded for it, at any instant at
  most one is due and not superseded; from the due time on exactly the target-passed one is, and
  a halfway slot prompts only after it was recorded and strictly before the due time.
\<close>

theorem at_most_one_prompt:
  assumes "buildResponseTargetSnapshot kind p (At t) = Inr snap"
    and "schedulableReminders snap (At recorded) = Inr slots"
    and "\<bar>t\<bar> + 60000 * 43200 \<le> max_time_value"
  shows "\<exists>halfway due. dueAt snap = At due \<and> t < halfway \<and> halfway < due \<and>
    filter (prompts snap (At now)) slots =
      (if due \<le> now then [\<lparr>rem_kind = Target_passed, scheduledFor = At due\<rparr>]
       else if halfway \<le> now \<and> recorded < halfway
       then [\<lparr>rem_kind = Halfway, scheduledFor = At halfway\<rparr>] else [])"
proof -
  from assms(1) have "assertPolicy (as_stored p) = Inr ()"
    by (auto simp: buildResponseTargetSnapshot_def split: sum.splits)
  then obtain d where d: "durationMinutes p = nint d" "1 \<le> d" "d \<le> 43200"
    "is_safe_integer (policyVersion p)" "\<not> num_lt (policyVersion p) (nint 1)"
    by (rule assertPolicy_okE) (simp add: as_stored_def)
  then have "policy_minutes p d" by (simp add: policy_minutes_def)
  with assms(1,3) d(3) have snap: "snap = \<lparr>targetKind = kind, snap_policy = p, startAt = At t,
      dueAt = At (t + 60000 * d),
      reminders = [\<lparr>rem_kind = Halfway, scheduledFor = At (t + 30000 * d)\<rparr>,
                   \<lparr>rem_kind = Target_passed, scheduledFor = At (t + 60000 * d)\<rparr>]\<rparr>"
    using snapshot_of[of p d t kind] by simp
  show ?thesis
    by (rule exI[of _ "t + 30000 * d"], rule exI[of _ "t + 60000 * d"])
      (use assms(2) d(2) in \<open>auto simp: snap schedulableReminders_def prompts_def
         isSupersededReminder_def split: if_splits\<close>)
qed

lemma at_most_one_prompt_witness:
  "\<exists>snap slots. buildResponseTargetSnapshot Google_review_response builtin_policy (At 0) = Inr snap
     \<and> schedulableReminders snap (At 5) = Inr slots \<and> length slots = 2
     \<and> (\<exists>halfway due. length (filter (prompts snap (At due)) slots) = 1 \<and> halfway < due)"
proof -
  have d: "\<bar>0\<bar> + 60000 * 2880 \<le> max_time_value" "\<bar>0\<bar> + 60000 * 43200 \<le> max_time_value"
    by (simp_all add: max_time_value_def)
  obtain snap where snap:
    "buildResponseTargetSnapshot Google_review_response builtin_policy (At 0) = Inr snap"
    "reminders snap = [\<lparr>rem_kind = Halfway, scheduledFor = At 86400000\<rparr>,
                       \<lparr>rem_kind = Target_passed, scheduledFor = At 172800000\<rparr>]"
    using snapshot_of[OF builtin_policy_minutes d(1), of Google_review_response] by simp
  obtain slots where slots: "schedulableReminders snap (At 5) = Inr slots" "length slots = 2"
    by (simp add: schedulableReminders_def snap(2))
  from at_most_one_prompt[OF snap(1) slots(1) d(2), of 200000000] obtain halfway due where
    "halfway < due" "dueAt snap = At due"
    "filter (prompts snap (At 200000000)) slots = (if due \<le> 200000000
       then [\<lparr>rem_kind = Target_passed, scheduledFor = At due\<rparr>]
       else if halfway \<le> 200000000 \<and> 5 < halfway
       then [\<lparr>rem_kind = Halfway, scheduledFor = At halfway\<rparr>] else [])" by blast
  moreover from at_most_one_prompt[OF snap(1) slots(1) d(2), of due] calculation(2)
  have "length (filter (prompts snap (At due)) slots) = 1" by auto
  ultimately show ?thesis using snap(1) slots by blast
qed


definition sample_hold_scope :: hold_scope where
  "sample_hold_scope = \<lparr>targetStartAt = Some (At 0), cycleMaterialReviewRevision = nint 1\<rparr>"


text \<open>
  C35. A reply counts when it was given on Google, not when it was read: the completion of a target
  is the reply's own time, clipped between the start of the target and the read; so a target is
  met exactly when Google's reply, or RepKey's read of it, came by the due time. Without a time
  from Google the read counts.
\<close>

theorem completion_counts_when_replied:
  assumes "\<bar>s\<bar> \<le> max_time_value" "\<bar>r\<bar> \<le> max_time_value" "\<bar>ob\<bar> \<le> max_time_value" "s \<le> due"
  shows "resolveGoogleReplyCompletion (Some (At r)) (Some (At s)) (At ob) = At (max s (min r ob))
    \<and> resolveGoogleReplyCompletion None (Some (At s)) (At ob) = At (max s ob)
    \<and> (classifyResponseTargetCompletion (At due)
          (resolveGoogleReplyCompletion (Some (At r)) (Some (At s)) (At ob)) = On_time
        \<longleftrightarrow> r \<le> due \<or> ob \<le> due)
    \<and> (classifyResponseTargetCompletion (At due)
          (resolveGoogleReplyCompletion None (Some (At s)) (At ob)) = On_time \<longleftrightarrow> ob \<le> due)"
  using assms
  by (auto simp: resolveGoogleReplyCompletion_def classifyResponseTargetCompletion_def Let_def
      max_def min_def)

lemma completion_counts_when_replied_witness:
  "classifyResponseTargetCompletion (At 100)
     (resolveGoogleReplyCompletion (Some (At 90)) (Some (At 10)) (At 500)) = On_time"
proof -
  have "\<bar>10\<bar> \<le> max_time_value" "\<bar>90\<bar> \<le> max_time_value" "\<bar>500\<bar> \<le> max_time_value" "(10::int) \<le> 100"
    by (simp_all add: max_time_value_def)
  from completion_counts_when_replied[OF this] show ?thesis by linarith
qed

end
