(* ===== verification/FeedbackHandling.thy ===== *)
theory FeedbackHandling
  imports HandlingCycles
begin

text \<open>
  The manager outcome of private feedback: the pure rules that record and correct it
  (\<^verbatim>\<open>src/src/contexts/inbox/domain/feedback-handling.ts\<close>), and the rule who may author a closure at
  all (\<^verbatim>\<open>handling-outcome-authority.ts\<close>).

  An outcome, which a request carries as text, is checked against the five literals by
  \<open>isOutcome\<close>, so the fact keeps it as text too. Close reasons are the texts of the transition
  log, read back by the store.
\<close>

section \<open>Outcomes\<close>

definition PRIVATE_FEEDBACK_HANDLING_OUTCOMES :: "string list" where
  "PRIVATE_FEEDBACK_HANDLING_OUTCOMES =
     [''follow_up_completed'', ''follow_up_attempted'', ''handled_with_team'',
      ''reviewed_no_additional_step'', ''content_concern_reviewed'']"

datatype deadline_result = Deadline_on_time | Deadline_late | Deadline_not_measured

record outcome_fact =
  out_id :: string
  out_inboxItemId :: string
  out_organizationId :: string
  out_propertyId :: string
  out_feedbackId :: string
  out_cycleNumber :: number
  out_sourceRevision :: number
  outcomeRevision :: number
  out_outcome :: string
  internalNote :: "js_string option"
  recordedBy :: string
  recordedAt :: date
  completionAt :: date
  deadlineResult :: deadline_result
  supersedesOutcomeId :: "string option"

record record_outcome_input =
  ro_id :: string
  ro_current :: handling_head
  ro_outcome :: string
  ro_internalNote :: "js_string option"
  ro_recordedBy :: string
  ro_recordedAt :: date
  ro_deadlineResult :: deadline_result

record correct_outcome_input =
  co_id :: string
  co_current :: handling_head
  co_previous :: outcome_fact
  co_outcome :: string
  co_internalNote :: "js_string option"
  co_recordedBy :: string
  co_recordedAt :: date

definition isOutcome :: "string \<Rightarrow> bool" where
  "isOutcome v = (v \<in> set PRIVATE_FEEDBACK_HANDLING_OUTCOMES)"

definition normalizeInternalNote ::
  "js_string option \<Rightarrow> (inbox_error, js_string option) result" where
  "normalizeInternalNote note =
     (let normalized = (case note of Some t \<Rightarrow> js_trim t | None \<Rightarrow> [])
      in if length normalized > 2000
         then err (inboxError IE_invalid_input ''Internal handling note is too long'' [])
         else ok (if length normalized = 0 then None else Some normalized))"

definition assertFeedbackCycle ::
  "handling_head \<Rightarrow> inbox_status \<Rightarrow> (inbox_error, unit) result" where
  "assertFeedbackCycle head expectedStatus =
     (if sourceType head \<noteq> Src_feedback
      then err (inboxError IE_invalid_input
             ''Only a private-feedback Handling Cycle accepts a manager outcome'' [])
      else if head_status head \<noteq> expectedStatus
      then err (inboxError IE_invalid_transition
             (if expectedStatus = Open then ''Private feedback is not open for handling''
              else ''Only completed private feedback accepts an outcome correction'') [])
      else ok ())"

definition recordFeedbackHandlingOutcome ::
  "record_outcome_input \<Rightarrow> (inbox_error, outcome_fact) result" where
  "recordFeedbackHandlingOutcome input =
     (let head = ro_current input in
      case assertFeedbackCycle head Open of
        Inl e \<Rightarrow> err e
      | Inr _ \<Rightarrow>
          if \<not> isOutcome (ro_outcome input)
          then err (inboxError IE_invalid_input ''Choose one approved handling outcome'' [])
          else
            (case normalizeInternalNote (ro_internalNote input) of
               Inl e \<Rightarrow> err e
             | Inr note \<Rightarrow> ok
                 \<lparr>out_id = ro_id input, out_inboxItemId = inboxItemId head,
                  out_organizationId = organizationId head, out_propertyId = propertyId head,
                  out_feedbackId = sourceId head, out_cycleNumber = currentCycleNumber head,
                  out_sourceRevision = currentSourceRevision head, outcomeRevision = nint 1,
                  out_outcome = ro_outcome input, internalNote = note,
                  recordedBy = ro_recordedBy input, recordedAt = ro_recordedAt input,
                  completionAt = ro_recordedAt input, deadlineResult = ro_deadlineResult input,
                  supersedesOutcomeId = None\<rparr>))"

definition correctFeedbackHandlingOutcomeFact ::
  "correct_outcome_input \<Rightarrow> (inbox_error, outcome_fact) result" where
  "correctFeedbackHandlingOutcomeFact input =
     (let head = co_current input; previous = co_previous input in
      case assertFeedbackCycle head Closed of
        Inl e \<Rightarrow> err e
      | Inr _ \<Rightarrow>
          if out_inboxItemId previous \<noteq> inboxItemId head
             \<or> out_organizationId previous \<noteq> organizationId head
             \<or> out_feedbackId previous \<noteq> sourceId head
             \<or> out_cycleNumber previous \<noteq> currentCycleNumber head
             \<or> out_sourceRevision previous \<noteq> currentSourceRevision head
          then err (inboxError IE_revision_conflict
                 ''Handling outcome is not current for this cycle'' [])
          else if \<not> isOutcome (co_outcome input)
          then err (inboxError IE_invalid_input ''Choose one approved handling outcome'' [])
          else
            (case normalizeInternalNote (co_internalNote input) of
               Inl e \<Rightarrow> err e
             | Inr note \<Rightarrow>
                 (let revision = num_add (outcomeRevision previous) (nint 1) in
                  if \<not> is_safe_integer revision
                  then err (inboxError IE_revision_conflict
                         ''Handling outcome revision is exhausted'' [])
                  else ok (previous\<lparr>out_id := co_id input, outcomeRevision := revision,
                         out_outcome := co_outcome input, internalNote := note,
                         recordedBy := co_recordedBy input, recordedAt := co_recordedAt input,
                         completionAt := completionAt previous,
                         deadlineResult := deadlineResult previous,
                         supersedesOutcomeId := Some (out_id previous)\<rparr>))))"

section \<open>Who may author a closure\<close>

definition SOURCE_UNAVAILABLE_CLOSE_REASONS :: "string list" where
  "SOURCE_UNAVAILABLE_CLOSE_REASONS = [''guest_withdrawn'', ''source_ineligible'']"

definition isSourceUnavailableCloseReason :: "string \<Rightarrow> bool" where
  "isSourceUnavailableCloseReason v = (v \<in> set SOURCE_UNAVAILABLE_CLOSE_REASONS)"

definition MANAGER_HANDLING_CLOSE_REASON :: close_reason where
  "MANAGER_HANDLING_CLOSE_REASON = CR_private_feedback_handled"

definition KNOWN_CLOSE_REASONS :: "close_reason list" where
  "KNOWN_CLOSE_REASONS =
     [CR_confirmed_on_google, CR_external_reply_observed, CR_guest_withdrawn,
      CR_private_feedback_handled, CR_source_ineligible, CR_superseded_by_source_revision]"

datatype handling_attribution = Manager_handling | Not_manager_handling | Unattributable

definition managerHandlingAttributionFor :: "string \<Rightarrow> handling_attribution" where
  "managerHandlingAttributionFor reason =
     (if reason = close_reason_text MANAGER_HANDLING_CLOSE_REASON then Manager_handling
      else if reason \<in> close_reason_text ` set KNOWN_CLOSE_REASONS then Not_manager_handling
      else Unattributable)"

definition unavailable_context :: "handling_head \<Rightarrow> string list \<Rightarrow> (string \<times> jsval) list" where
  "unavailable_context head reasons =
     [(''inboxItemId'', JStr (inboxItemId head)), (''cycleNumber'', JNum (currentCycleNumber head)),
      (''unavailableCloseReasons'',
        JObj (map (\<lambda>(i, r). (show_nat i, JStr r)) (enumerate 0 reasons)))]"

definition assertManagerHandlingPermitted ::
  "handling_head \<Rightarrow> string list \<Rightarrow> (inbox_error, unit) result" where
  "assertManagerHandlingPermitted head recordedCloseReasons =
     (if sourceType head \<noteq> Src_feedback
      then err (inboxError IE_invalid_input
             ''Only a private-feedback Handling Cycle accepts a manager outcome'' [])
      else
        (let reasons = filter (\<lambda>r. r \<in> set recordedCloseReasons) SOURCE_UNAVAILABLE_CLOSE_REASONS
         in if length reasons > 0
            then err (inboxError IE_invalid_transition
                   ''Withdrawn, purged or unavailable private feedback can never record a manager handling outcome''
                   (unavailable_context head reasons))
            else ok ()))"

definition assertManualReopenPermitted ::
  "handling_head \<Rightarrow> string list \<Rightarrow> (inbox_error, unit) result" where
  "assertManualReopenPermitted head recordedCloseReasons =
     (if sourceType head \<noteq> Src_feedback then ok ()
      else
        (let reasons = filter (\<lambda>r. r \<in> set recordedCloseReasons) SOURCE_UNAVAILABLE_CLOSE_REASONS
         in if length reasons > 0
            then err (inboxError IE_invalid_transition
                   ''Withdrawn, purged or unavailable private feedback cannot be reopened: no manager outcome could ever close it''
                   (unavailable_context head reasons))
            else ok ()))"

section \<open>What the rules give\<close>

lemma assertManagerHandlingPermitted_ok:
  "assertManagerHandlingPermitted head rs = Inr u \<longleftrightarrow>
     sourceType head = Src_feedback \<and> ''guest_withdrawn'' \<notin> set rs \<and> ''source_ineligible'' \<notin> set rs"
  by (auto simp: assertManagerHandlingPermitted_def SOURCE_UNAVAILABLE_CLOSE_REASONS_def Let_def)

lemma assertManualReopenPermitted_ok:
  "assertManualReopenPermitted head rs = Inr u \<longleftrightarrow>
     (sourceType head = Src_feedback \<longrightarrow>
        ''guest_withdrawn'' \<notin> set rs \<and> ''source_ineligible'' \<notin> set rs)"
  by (auto simp: assertManualReopenPermitted_def SOURCE_UNAVAILABLE_CLOSE_REASONS_def Let_def)

lemma managerHandlingAttributionFor_iff:
  "managerHandlingAttributionFor (close_reason_text r) = Manager_handling
     \<longleftrightarrow> r = CR_private_feedback_handled"
  by (cases r) (simp_all add: managerHandlingAttributionFor_def MANAGER_HANDLING_CLOSE_REASON_def
      KNOWN_CLOSE_REASONS_def)

definition note_ok :: "js_string option \<Rightarrow> bool" where
  "note_ok n = (case n of None \<Rightarrow> True | Some t \<Rightarrow> t \<noteq> [] \<and> length t \<le> 2000 \<and> js_trim t = t)"

lemma normalizeInternalNote_ok:
  assumes "normalizeInternalNote n = Inr m"
  shows "note_ok m"
  using assms js_trim_idem
  by (auto simp: normalizeInternalNote_def note_ok_def Let_def split: if_splits option.splits)

lemma recordFeedbackHandlingOutcome_ok:
  "recordFeedbackHandlingOutcome i = Inr out \<longleftrightarrow>
     sourceType (ro_current i) = Src_feedback \<and> head_status (ro_current i) = Open
     \<and> isOutcome (ro_outcome i)
     \<and> (\<exists>note. normalizeInternalNote (ro_internalNote i) = Inr note \<and>
         out = \<lparr>out_id = ro_id i, out_inboxItemId = inboxItemId (ro_current i),
            out_organizationId = organizationId (ro_current i),
            out_propertyId = propertyId (ro_current i), out_feedbackId = sourceId (ro_current i),
            out_cycleNumber = currentCycleNumber (ro_current i),
            out_sourceRevision = currentSourceRevision (ro_current i), outcomeRevision = nint 1,
            out_outcome = ro_outcome i, internalNote = note, recordedBy = ro_recordedBy i,
            recordedAt = ro_recordedAt i, completionAt = ro_recordedAt i,
            deadlineResult = ro_deadlineResult i, supersedesOutcomeId = None\<rparr>)"
  by (auto simp: recordFeedbackHandlingOutcome_def assertFeedbackCycle_def Let_def
      split: sum.splits)

lemma correctFeedbackHandlingOutcomeFact_ok:
  "correctFeedbackHandlingOutcomeFact i = Inr out \<longleftrightarrow>
     sourceType (co_current i) = Src_feedback \<and> head_status (co_current i) = Closed
     \<and> out_inboxItemId (co_previous i) = inboxItemId (co_current i)
     \<and> out_organizationId (co_previous i) = organizationId (co_current i)
     \<and> out_feedbackId (co_previous i) = sourceId (co_current i)
     \<and> out_cycleNumber (co_previous i) = currentCycleNumber (co_current i)
     \<and> out_sourceRevision (co_previous i) = currentSourceRevision (co_current i)
     \<and> isOutcome (co_outcome i)
     \<and> is_safe_integer (num_add (outcomeRevision (co_previous i)) (nint 1))
     \<and> (\<exists>note. normalizeInternalNote (co_internalNote i) = Inr note \<and>
         out = (co_previous i)\<lparr>out_id := co_id i,
            outcomeRevision := num_add (outcomeRevision (co_previous i)) (nint 1),
            out_outcome := co_outcome i, internalNote := note, recordedBy := co_recordedBy i,
            recordedAt := co_recordedAt i, supersedesOutcomeId := Some (out_id (co_previous i))\<rparr>)"
  by (auto simp: correctFeedbackHandlingOutcomeFact_def assertFeedbackCycle_def Let_def
      split: sum.splits if_splits)

end
