(* ===== verification/Transactions.thy ===== *)
theory Transactions
  imports Prelude
begin

text \<open>
  Transactions of a store: a function of the state that either refuses, and then nothing of it is
  kept, or answers with a value and the state it leaves. \<open>seq\<close> is \<^verbatim>\<open>await\<close>: it runs what follows on
  the state left so far and stops at the first refusal, as a throw inside \<^verbatim>\<open>db.transaction\<close> does.

  \<open>keeps\<close> is partial correctness of a transaction for an invariant and \<open>guarantees\<close> for a relation
  between the state before and after; the rules collected in \<open>keeps_rules\<close> split a transaction
  into its parts. The collection \<open>txn_simps\<close> turns a successful run into the facts about its parts.
\<close>

type_synonym ('s, 'e, 'a) txn = "'s \<Rightarrow> ('e, 'a \<times> 's) result"

definition ret :: "'a \<Rightarrow> ('s, 'e, 'a) txn" where
  "ret x s = ok (x, s)"

definition seq :: "('s, 'e, 'a) txn \<Rightarrow> ('a \<Rightarrow> ('s, 'e, 'b) txn) \<Rightarrow> ('s, 'e, 'b) txn" where
  "seq t f s = (case t s of Inl e \<Rightarrow> err e | Inr (x, s') \<Rightarrow> f x s')"

definition refuse :: "'e \<Rightarrow> ('s, 'e, 'a) txn" where
  "refuse e s = err e"

definition require :: "bool \<Rightarrow> 'e \<Rightarrow> ('s, 'e, unit) txn" where
  "require b e s = (if b then ok ((), s) else err e)"

definition inspect :: "('s \<Rightarrow> 'a) \<Rightarrow> ('s, 'e, 'a) txn" where
  "inspect f s = ok (f s, s)"

definition modify :: "('s \<Rightarrow> 's) \<Rightarrow> ('s, 'e, unit) txn" where
  "modify f s = ok ((), f s)"

definition present :: "'a option \<Rightarrow> 'e \<Rightarrow> ('s, 'e, 'a) txn" where
  "present v e s = (case v of None \<Rightarrow> err e | Some x \<Rightarrow> ok (x, s))"

text \<open>A decision of the domain layer, whose error is thrown.\<close>

definition decide :: "('f \<Rightarrow> 'e) \<Rightarrow> ('f, 'a) result \<Rightarrow> ('s, 'e, 'a) txn" where
  "decide g r s = (case r of Inl e \<Rightarrow> err (g e) | Inr x \<Rightarrow> ok (x, s))"

text \<open>A loop over the elements of a list, in order.\<close>

fun for_each :: "('a \<Rightarrow> ('s, 'e, unit) txn) \<Rightarrow> 'a list \<Rightarrow> ('s, 'e, unit) txn" where
  "for_each f [] = ret ()"
| "for_each f (x # xs) = seq (f x) (\<lambda>_. for_each f xs)"

text \<open>The state after a transaction: what it leaves when it commits, the old one otherwise.\<close>

definition after :: "('s, 'e, 'a) txn \<Rightarrow> 's \<Rightarrow> 's" where
  "after t s = (case t s of Inl e \<Rightarrow> s | Inr (x, s') \<Rightarrow> s')"

named_theorems txn_simps

lemma ret_ok [txn_simps]: "ret x s = Inr (y, s') \<longleftrightarrow> y = x \<and> s' = s"
  by (auto simp: ret_def)

lemma seq_ok [txn_simps]:
  "seq t f s = Inr (y, s') \<longleftrightarrow> (\<exists>x u. t s = Inr (x, u) \<and> f x u = Inr (y, s'))"
  by (auto simp: seq_def split: sum.splits)

lemma refuse_ok [txn_simps]: "refuse e s \<noteq> Inr r"
  by (simp add: refuse_def)

lemma require_ok [txn_simps]: "require b e s = Inr (u, s') \<longleftrightarrow> b \<and> s' = s"
  by (auto simp: require_def)

lemma inspect_ok [txn_simps]: "inspect f s = Inr (x, s') \<longleftrightarrow> x = f s \<and> s' = s"
  by (auto simp: inspect_def)

lemma modify_ok [txn_simps]: "modify f s = Inr (u, s') \<longleftrightarrow> s' = f s"
  by (auto simp: modify_def)

lemma present_ok [txn_simps]: "present v e s = Inr (x, s') \<longleftrightarrow> v = Some x \<and> s' = s"
  by (auto simp: present_def split: option.splits)

lemma decide_ok [txn_simps]: "decide g r s = Inr (x, s') \<longleftrightarrow> r = Inr x \<and> s' = s"
  by (auto simp: decide_def split: sum.splits)

lemma if_ok: "(if b then t else u) s = Inr r \<longleftrightarrow> (if b then t s = Inr r else u s = Inr r)"
  by simp

definition keeps :: "('s \<Rightarrow> bool) \<Rightarrow> ('s, 'e, 'a) txn \<Rightarrow> bool" where
  "keeps P t = (\<forall>s x s'. P s \<longrightarrow> t s = Inr (x, s') \<longrightarrow> P s')"

definition guarantees :: "('s \<Rightarrow> 's \<Rightarrow> bool) \<Rightarrow> ('s, 'e, 'a) txn \<Rightarrow> bool" where
  "guarantees R t = (\<forall>s x s'. t s = Inr (x, s') \<longrightarrow> R s s')"

named_theorems keeps_rules

lemma keepsI: "(\<And>s x s'. P s \<Longrightarrow> t s = Inr (x, s') \<Longrightarrow> P s') \<Longrightarrow> keeps P t"
  by (auto simp: keeps_def)

lemma keepsD: "keeps P t \<Longrightarrow> P s \<Longrightarrow> t s = Inr (x, s') \<Longrightarrow> P s'"
  by (auto simp: keeps_def)

lemma keeps_after: "keeps P t \<Longrightarrow> P s \<Longrightarrow> P (after t s)"
  by (auto simp: keeps_def after_def split: sum.splits)

lemma keeps_seq [keeps_rules]: "keeps P t \<Longrightarrow> (\<And>x. keeps P (f x)) \<Longrightarrow> keeps P (seq t f)"
  by (rule keepsI) (auto simp: seq_ok dest: keepsD)

lemma keeps_pure [keeps_rules]:
  "keeps P (ret x)" "keeps P (refuse e)" "keeps P (require b e)" "keeps P (inspect f)"
  "keeps P (present v e)" "keeps P (decide g r)"
  by (simp_all add: keeps_def txn_simps)

lemma keeps_if [keeps_rules]:
  "(b \<Longrightarrow> keeps P t) \<Longrightarrow> (\<not> b \<Longrightarrow> keeps P u) \<Longrightarrow> keeps P (if b then t else u)"
  by simp

lemma keeps_option [keeps_rules]:
  "(v = None \<Longrightarrow> keeps P t) \<Longrightarrow> (\<And>x. v = Some x \<Longrightarrow> keeps P (f x))
     \<Longrightarrow> keeps P (case v of None \<Rightarrow> t | Some x \<Rightarrow> f x)"
  by (cases v) simp_all

lemma keeps_for_each [keeps_rules]: "(\<And>x. keeps P (f x)) \<Longrightarrow> keeps P (for_each f xs)"
  by (induction xs) (auto intro: keeps_rules)

lemma guarantees_after: "guarantees R t \<Longrightarrow> R s s \<Longrightarrow> R s (after t s)"
  by (auto simp: guarantees_def after_def split: sum.splits)

end
