(* ===== verification/InboxRows.thy ===== *)
theory InboxRows
  imports HandlingLog ResponseTarget FeedbackHandling Transactions
begin

text \<open>
  The rows the Inbox stores keep (\<^verbatim>\<open>src/src/shared/db/schema/inbox.schema.ts\<close>), the facts they put in
  the outbox (\<^verbatim>\<open>src/src/contexts/inbox/domain/events.ts\<close>), and the statements the stores issue.

  Every table but the policies is keyed by the Inbox item, so the state is cut by item: \<open>item_rows\<close>
  holds the rows of one item, oldest first where a table is append-only. The rows of the head and
  the cycle repeat the anchor of a Review in two more columns that always equal the source columns;
  they and the write stamps \<^verbatim>\<open>created_at\<close> and \<^verbatim>\<open>updated_at\<close> of the side tables are not kept. A
  statement that breaks a key or a CHECK constraint fails with \<open>Constraint\<close>, a fact whose constructor
  refuses it with \<open>Assertion\<close>; every other refusal is an
  \<open>inbox_error\<close>. Transactions run one at a time: each locks the head and the item it writes.
\<close>

section \<open>Rows\<close>

datatype stop_reason =
    Stop_private_feedback_handled
  | Stop_guest_withdrawn
  | Stop_confirmed_on_google
  | Stop_superseded_by_source_revision
  | Stop_source_ineligible

record target_row = cycle_scope +
  tg_cycleNumber :: number
  tg_sourceRevision :: number
  tg_kind :: target_kind
  performanceEligibility :: target_eligibility
  tg_durationMinutes :: "number option"
  tg_policySource :: "policy_source option"
  tg_policyVersion :: "number option"
  tg_startAt :: "date option"
  tg_dueAt :: "date option"
  tg_completionAt :: "date option"
  tg_result :: "target_result option"
  stopReason :: "stop_reason option"

record reminder_row =
  rm_cycleNumber :: number
  rm_organizationId :: string
  rm_propertyId :: string
  rm_targetKind :: target_kind
  rm_kind :: reminder_kind
  rm_scheduledFor :: date
  deliveredAt :: "date option"
  cancelledAt :: "date option"

record outcome_row = outcome_fact +
  completionStateRevision :: number
  resultingCommandRevision :: number
  supersedesOutcomeRevision :: "number option"

datatype assignment_reason = AR_claim | AR_assign | AR_release | AR_reassign | AR_eligibility_lost

record assignment_row =
  as_commandRevision :: number
  as_organizationId :: string
  as_propertyId :: string
  handlingCycleNumber :: "number option"
  previousAssignee :: "string option"
  nextAssignee :: "string option"
  as_reason :: assignment_reason
  as_actorUserId :: "string option"
  as_bulkId :: "string option"
  as_occurredAt :: date

datatype escalation_kind = Escalated | Resolved

record triage_row =
  tr_commandRevision :: number
  tr_organizationId :: string
  tr_propertyId :: string
  tr_handlingCycleNumber :: "number option"
  tr_actorUserId :: string
  tr_occurredAt :: date

record escalation_row = triage_row +
  es_kind :: escalation_kind

record priority_row = triage_row +
  pr_priority :: "inbox_priority option"
  pr_previousPriority :: "inbox_priority option"

section \<open>Facts\<close>

text \<open>
  The payload of a fact. Its event id and correlation id are minted by the constructor and read by
  nothing here, except the id of a fact that a command brings, which the command keeps beside it.
\<close>

datatype fact_source = From_web | From_import

record created_fact =
  cf_inboxItemId :: string
  cf_organizationId :: string
  cf_propertyId :: "string option"
  cf_sourceType :: source_type
  cf_sourceId :: string
  cf_userId :: "string option"
  cf_source :: fact_source
  cf_occurredAt :: date

record item_fact =
  if_inboxItemId :: string
  if_organizationId :: string
  if_propertyId :: "string option"
  if_userId :: "string option"
  if_source :: fact_source
  if_occurredAt :: date

record status_fact = item_fact +
  oldStatus :: inbox_status
  newStatus :: inbox_status

record bulk_status_fact = status_fact +
  sf_bulkId :: string

record lifecycle_fact = cycle_scope +
  lf_cycleNumber :: number
  lf_stateRevision :: number
  lf_sourceRevision :: number
  lf_actorType :: actor_type
  lf_userId :: "string option"
  lf_triggerEventId :: "string option"
  lf_occurredAt :: date

record assignment_fact = item_fact +
  af_assignedTo :: "string option"
  af_previousAssignee :: "string option"
  af_bulkId :: "string option"
  af_commandRevision :: "number option"

record priority_fact = item_fact +
  pf_priority :: "inbox_priority option"
  pf_previousPriority :: "inbox_priority option"

record reminder_due_fact =
  rf_inboxItemId :: string
  rf_cycleNumber :: number
  rf_organizationId :: string
  rf_propertyId :: string
  rf_targetKind :: target_kind
  rf_reminderKind :: reminder_kind
  rf_scheduledFor :: date
  rf_occurredAt :: date

datatype inbox_fact =
    Item_created created_fact
  | Status_changed status_fact
  | Bulk_status_changed bulk_status_fact
  | Cycle_opened lifecycle_fact transition_reason bool
  | Cycle_closed lifecycle_fact transition_reason fact_source
  | Cycle_reopened lifecycle_fact transition_reason "string option" fact_source
  | Item_assigned assignment_fact
  | Item_unassigned assignment_fact
  | Item_escalated item_fact
  | Escalation_resolved item_fact
  | Priority_changed priority_fact
  | Note_added item_fact string
  | Reminder_due reminder_due_fact

record fact_marks =
  mark_bulkId :: "string option"
  openedWithItem :: bool

definition no_marks :: fact_marks where
  "no_marks = \<lparr>mark_bulkId = None, openedWithItem = False\<rparr>"

definition lifecycleFactFor :: "handling_transition \<Rightarrow> fact_marks \<Rightarrow> inbox_fact" where
  "lifecycleFactFor t marks =
     (let scope = cycle_scope.extend (scope_of t)
            (lifecycle_fact.fields (tr_cycleNumber t) (tr_stateRevision t) (tr_sourceRevision t)
               (actorType t) (actorUserId t) (triggerEventId t) (transitionedAt t));
          source = (if actorType t = Actor_user then From_web else From_import)
      in case tr_kind t of
           TK_closed \<Rightarrow> Cycle_closed scope (transitionReason t) source
         | TK_reopened \<Rightarrow> Cycle_reopened scope (transitionReason t) (mark_bulkId marks) source
         | TK_opened \<Rightarrow> Cycle_opened scope (transitionReason t) (openedWithItem marks))"

section \<open>The rows of an item\<close>

record item_rows =
  row_item :: "inbox_item option"
  row_head :: "handling_head option"
  row_cycles :: "handling_cycle list"
  row_log :: "handling_transition list"
  row_targets :: "target_row list"
  row_reminders :: "reminder_row list"
  row_exclusions :: "number list"
  row_outcomes :: "outcome_row list"
  row_assignments :: "assignment_row list"
  row_escalations :: "escalation_row list"
  row_priorities :: "priority_row list"
  row_notes :: "inbox_note list"
  row_facts :: "inbox_fact list"

definition no_rows :: item_rows where
  "no_rows = \<lparr>row_item = None, row_head = None, row_cycles = [], row_log = [], row_targets = [],
     row_reminders = [], row_exclusions = [], row_outcomes = [], row_assignments = [], row_escalations = [],
     row_priorities = [], row_notes = [], row_facts = []\<rparr>"

datatype store_error = Refused inbox_error | Constraint string | Assertion string

type_synonym 'a item_txn = "(item_rows, store_error, 'a) txn"

definition refused :: "inbox_error_code \<Rightarrow> string \<Rightarrow> store_error" where
  "refused code message = Refused (inboxError code message [])"

section \<open>Constraints\<close>

definition within_revisions :: "number \<Rightarrow> bool" where
  "within_revisions n = isPositiveSafeInteger n"

definition item_row_valid :: "inbox_item \<Rightarrow> bool" where
  "item_row_valid i =
     (within_revisions (commandRevision i)
      \<and> (item_sourceType i = Src_review
           \<longrightarrow> item_rating i = None \<and> snippet i = None \<and> reviewerName i = None)
      \<and> (managerPriority i = None) = (managerPrioritySetBy i = None)
      \<and> (managerPriority i = None) = (managerPrioritySetAt i = None))"

definition minutes_after :: "date \<Rightarrow> number \<Rightarrow> date \<Rightarrow> bool" where
  "minutes_after due minutes start =
     (get_time due = num_add (get_time start) (num_scale 60000 minutes) \<and> is_finite (get_time due))"

definition target_measure_valid :: "target_row \<Rightarrow> bool" where
  "target_measure_valid t =
     (if performanceEligibility t = Measured
      then not_false (\<lambda>d. num_le (nint 1) d \<and> num_le d (nint 43200)) (tg_durationMinutes t)
           \<and> (tg_kind t = Private_feedback_handling
              \<or> not_false (\<lambda>src. src \<noteq> Property_override) (tg_policySource t))
           \<and> not_false within_revisions (tg_policyVersion t)
           \<and> (case tg_startAt t of None \<Rightarrow> False
                | Some start \<Rightarrow>
                    not_false (\<lambda>due. not_false (\<lambda>d. minutes_after due d start) (tg_durationMinutes t))
                      (tg_dueAt t))
      else tg_durationMinutes t = None \<and> tg_policySource t = None \<and> tg_policyVersion t = None
           \<and> tg_startAt t = None \<and> tg_dueAt t = None)"

definition target_timing_valid :: "target_result \<Rightarrow> target_row \<Rightarrow> bool" where
  "target_timing_valid res t =
     not_false (\<lambda>done. not_false (\<lambda>due.
         (res = On_time) = num_le (get_time done) (get_time due)
         \<and> (res = Late) = num_lt (get_time due) (get_time done)) (tg_dueAt t))
       (tg_completionAt t)"

definition target_stop_valid :: "target_row \<Rightarrow> bool" where
  "target_stop_valid t =
     (let stopped_by = (\<lambda>reasons. not_false (\<lambda>why. why \<in> reasons) (stopReason t));
          replied = {Stop_private_feedback_handled, Stop_confirmed_on_google};
          cancelled = {Stop_guest_withdrawn, Stop_superseded_by_source_revision, Stop_source_ineligible};
          after_start = not_false (\<lambda>done. not_false (\<lambda>start.
            num_le (get_time start) (get_time done)) (tg_startAt t)) (tg_completionAt t)
      in (tg_completionAt t = None \<and> tg_result t = None \<and> stopReason t = None
          \<or> performanceEligibility t = Measured
             \<and> (case tg_result t of
                   None \<Rightarrow> after_start \<and> stopped_by replied \<or> stopped_by cancelled
                 | Some res \<Rightarrow>
                     if res = Target_cancelled then stopped_by cancelled
                     else after_start \<and> stopped_by replied \<and> target_timing_valid res t))
         \<and> (if tg_kind t = Private_feedback_handling
            then not_false (\<lambda>why. why \<in> {Stop_private_feedback_handled, Stop_guest_withdrawn,
                   Stop_superseded_by_source_revision}) (stopReason t)
            else not_false (\<lambda>why. why \<in> {Stop_confirmed_on_google,
                   Stop_superseded_by_source_revision, Stop_source_ineligible}) (stopReason t)))"

definition target_row_valid :: "target_row \<Rightarrow> bool" where
  "target_row_valid t =
     (within_revisions (tg_cycleNumber t) \<and> within_revisions (tg_sourceRevision t)
      \<and> (tg_kind t = Google_review_response) = (sourceType t = Src_review)
      \<and> target_measure_valid t \<and> target_stop_valid t)"

definition reminder_row_valid :: "reminder_row \<Rightarrow> bool" where
  "reminder_row_valid m =
     (within_revisions (rm_cycleNumber m)
      \<and> \<not> (deliveredAt m \<noteq> None \<and> cancelledAt m \<noteq> None)
      \<and> (case deliveredAt m of None \<Rightarrow> True
           | Some t \<Rightarrow> num_le (get_time (rm_scheduledFor m)) (get_time t)))"

definition outcome_row_valid :: "outcome_row \<Rightarrow> bool" where
  "outcome_row_valid x =
     (within_revisions (out_cycleNumber x) \<and> within_revisions (out_sourceRevision x)
      \<and> within_revisions (outcomeRevision x)
      \<and> within_revisions (completionStateRevision x) \<and> completionStateRevision x \<noteq> nint 1
      \<and> within_revisions (resultingCommandRevision x) \<and> resultingCommandRevision x \<noteq> nint 1
      \<and> isOutcome (out_outcome x)
      \<and> (case internalNote x of None \<Rightarrow> True
           | Some n \<Rightarrow> 1 \<le> length (btrim n) \<and> length (btrim n) \<le> 2000)
      \<and> num_le (get_time (completionAt x)) (get_time (recordedAt x))
      \<and> (if outcomeRevision x = nint 1
         then supersedesOutcomeId x = None \<and> supersedesOutcomeRevision x = None
         else supersedesOutcomeId x \<noteq> None
              \<and> not_false (\<lambda>n. n = num_sub (outcomeRevision x) (nint 1))
                   (supersedesOutcomeRevision x)))"

section \<open>Reads\<close>

definition chosen :: "('a \<Rightarrow> bool) \<Rightarrow> 'a option \<Rightarrow> 'a option" where
  "chosen p x = (case x of None \<Rightarrow> None | Some y \<Rightarrow> if p y then Some y else None)"

lemma chosen_eq_Some [simp]: "chosen p x = Some y \<longleftrightarrow> x = Some y \<and> p y"
  by (auto simp: chosen_def split: option.splits)

lemma chosen_None: "chosen p x = None \<longleftrightarrow> (\<forall>y. x = Some y \<longrightarrow> \<not> p y)"
  by (auto simp: chosen_def split: option.splits)

text \<open>The \<^verbatim>\<open>where\<close> clauses that bind a head or an item row to the item a command names.\<close>

definition head_of_item :: "inbox_item \<Rightarrow> handling_head \<Rightarrow> bool" where
  "head_of_item item h =
     (organizationId h = item_organizationId item \<and> sourceType h = item_sourceType item
      \<and> sourceId h = item_sourceId item)"

definition row_of_item :: "inbox_item \<Rightarrow> inbox_item \<Rightarrow> bool" where
  "row_of_item item i =
     (item_organizationId i = item_organizationId item \<and> item_sourceType i = item_sourceType item
      \<and> item_sourceId i = item_sourceId item)"

section \<open>Writes\<close>

definition must :: "'a option item_txn \<Rightarrow> store_error \<Rightarrow> 'a item_txn" where
  "must t e = seq t (\<lambda>v. present v e)"

definition insert_cycle :: "handling_cycle \<Rightarrow> unit item_txn" where
  "insert_cycle c =
     seq (require (cycle_row_valid c) (Constraint ''inbox_handling_cycles''))
       (\<lambda>_. seq (inspect (\<lambda>r. cycleNumber c \<notin> cycleNumber ` set (row_cycles r)))
         (\<lambda>fresh. seq (require fresh (Constraint ''inbox_handling_cycles_pk''))
           (\<lambda>_. modify (\<lambda>r. r\<lparr>row_cycles := row_cycles r @ [c]\<rparr>))))"

definition insert_transition :: "handling_transition \<Rightarrow> unit item_txn" where
  "insert_transition t =
     seq (require (transition_row_valid t)
           (Constraint ''inbox_handling_cycle_transitions_values_valid''))
       (\<lambda>_. seq (inspect (\<lambda>r. tr_stateRevision t \<notin> tr_stateRevision ` set (row_log r)))
         (\<lambda>fresh. seq (require fresh (Constraint ''inbox_handling_cycle_transitions_pk''))
           (\<lambda>_. modify (\<lambda>r. r\<lparr>row_log := row_log r @ [t]\<rparr>))))"

definition insert_head :: "handling_head \<Rightarrow> unit item_txn" where
  "insert_head h =
     seq (require (head_row_valid h) (Constraint ''inbox_handling_cycle_heads_revisions_safe''))
       (\<lambda>_. seq (inspect (\<lambda>r. row_head r = None))
         (\<lambda>fresh. seq (require fresh (Constraint ''inbox_handling_cycle_heads_pkey''))
           (\<lambda>_. modify (\<lambda>r. r\<lparr>row_head := Some h\<rparr>))))"

text \<open>A guarded update answers with the row it wrote, or \<open>None\<close> when no row matched.\<close>

definition update_head ::
  "(handling_head \<Rightarrow> bool) \<Rightarrow> (handling_head \<Rightarrow> handling_head) \<Rightarrow> handling_head option item_txn" where
  "update_head p f =
     seq (inspect (\<lambda>r. chosen p (row_head r)))
       (\<lambda>found. case found of
          None \<Rightarrow> ret None
        | Some h \<Rightarrow>
            seq (require (head_row_valid (f h))
                  (Constraint ''inbox_handling_cycle_heads_revisions_safe''))
              (\<lambda>_. seq (modify (\<lambda>r. r\<lparr>row_head := Some (f h)\<rparr>)) (\<lambda>_. ret (Some (f h)))))"

definition update_item ::
  "(inbox_item \<Rightarrow> bool) \<Rightarrow> (inbox_item \<Rightarrow> inbox_item) \<Rightarrow> inbox_item option item_txn" where
  "update_item p f =
     seq (inspect (\<lambda>r. chosen p (row_item r)))
       (\<lambda>found. case found of
          None \<Rightarrow> ret None
        | Some i \<Rightarrow>
            seq (require (item_row_valid (f i)) (Constraint ''inbox_items''))
              (\<lambda>_. seq (modify (\<lambda>r. r\<lparr>row_item := Some (f i)\<rparr>)) (\<lambda>_. ret (Some (f i)))))"

definition insertOutboxRow :: "inbox_fact \<Rightarrow> unit item_txn" where
  "insertOutboxRow f = modify (\<lambda>r. r\<lparr>row_facts := row_facts r @ [f]\<rparr>)"

definition insert_facts :: "inbox_fact list \<Rightarrow> unit item_txn" where
  "insert_facts fs = for_each insertOutboxRow fs"

definition insert_target :: "target_row \<Rightarrow> unit item_txn" where
  "insert_target t =
     seq (require (target_row_valid t)
           (Constraint ''inbox_handling_cycle_response_targets_values_valid''))
       (\<lambda>_. seq (inspect (\<lambda>r. tg_cycleNumber t \<notin> tg_cycleNumber ` set (row_targets r)))
         (\<lambda>fresh. seq (require fresh (Constraint ''inbox_handling_cycle_response_targets_pk''))
           (\<lambda>_. modify (\<lambda>r. r\<lparr>row_targets := row_targets r @ [t]\<rparr>))))"

definition reminder_key :: "reminder_row \<Rightarrow> number \<times> reminder_kind" where
  "reminder_key m = (rm_cycleNumber m, rm_kind m)"

definition insert_reminder :: "reminder_row \<Rightarrow> unit item_txn" where
  "insert_reminder m =
     seq (require (reminder_row_valid m) (Constraint ''inbox_response_target_reminders_values_valid''))
       (\<lambda>_. seq (inspect (\<lambda>r. reminder_key m \<notin> reminder_key ` set (row_reminders r)))
         (\<lambda>fresh. seq (require fresh (Constraint ''inbox_response_target_reminders_pk''))
           (\<lambda>_. modify (\<lambda>r. r\<lparr>row_reminders := row_reminders r @ [m]\<rparr>))))"

definition insert_outcome :: "outcome_row \<Rightarrow> unit item_txn" where
  "insert_outcome x =
     seq (require (outcome_row_valid x) (Constraint ''inbox_feedback_handling_outcomes_values_valid''))
       (\<lambda>_. seq (inspect (\<lambda>r.
              out_id x \<notin> out_id ` set (row_outcomes r)
              \<and> (out_cycleNumber x, outcomeRevision x)
                  \<notin> (\<lambda>y. (out_cycleNumber y, outcomeRevision y)) ` set (row_outcomes r)
              \<and> resultingCommandRevision x \<notin> resultingCommandRevision ` set (row_outcomes r)))
         (\<lambda>fresh. seq (require fresh (Constraint ''inbox_feedback_handling_outcomes''))
           (\<lambda>_. modify (\<lambda>r. r\<lparr>row_outcomes := row_outcomes r @ [x]\<rparr>))))"

text \<open>The three decision logs are keyed by the command revision that the decision produced.\<close>

definition decision_revision_valid :: "number \<Rightarrow> number option \<Rightarrow> bool" where
  "decision_revision_valid revision cycle =
     (within_revisions revision \<and> revision \<noteq> nint 1
      \<and> (case cycle of None \<Rightarrow> True | Some c \<Rightarrow> within_revisions c))"

definition insert_assignment :: "assignment_row \<Rightarrow> unit item_txn" where
  "insert_assignment a =
     seq (require (decision_revision_valid (as_commandRevision a) (handlingCycleNumber a)
                   \<and> previousAssignee a \<noteq> nextAssignee a)
           (Constraint ''inbox_assignment_history''))
       (\<lambda>_. seq (inspect (\<lambda>r. as_commandRevision a \<notin> as_commandRevision ` set (row_assignments r)))
         (\<lambda>fresh. seq (require fresh (Constraint ''inbox_assignment_history_pk''))
           (\<lambda>_. modify (\<lambda>r. r\<lparr>row_assignments := row_assignments r @ [a]\<rparr>))))"

definition insert_escalation :: "escalation_row \<Rightarrow> unit item_txn" where
  "insert_escalation e =
     seq (require (decision_revision_valid (tr_commandRevision e) (tr_handlingCycleNumber e))
           (Constraint ''inbox_escalation_history_revision_safe''))
       (\<lambda>_. seq (inspect (\<lambda>r. tr_commandRevision e \<notin> tr_commandRevision ` set (row_escalations r)))
         (\<lambda>fresh. seq (require fresh (Constraint ''inbox_escalation_history_pk''))
           (\<lambda>_. modify (\<lambda>r. r\<lparr>row_escalations := row_escalations r @ [e]\<rparr>))))"

definition insert_priority :: "priority_row \<Rightarrow> unit item_txn" where
  "insert_priority p =
     seq (require (decision_revision_valid (tr_commandRevision p) (tr_handlingCycleNumber p)
                   \<and> pr_priority p \<noteq> pr_previousPriority p)
           (Constraint ''inbox_priority_history''))
       (\<lambda>_. seq (inspect (\<lambda>r. tr_commandRevision p \<notin> tr_commandRevision ` set (row_priorities r)))
         (\<lambda>fresh. seq (require fresh (Constraint ''inbox_priority_history_pk''))
           (\<lambda>_. modify (\<lambda>r. r\<lparr>row_priorities := row_priorities r @ [p]\<rparr>))))"

end
