(* ===== verification/TargetStore.thy ===== *)
theory TargetStore
  imports InboxRows
begin

text \<open>
  The Response Target of a Handling Cycle as the stores write it:
  \<^verbatim>\<open>src/src/contexts/inbox/infrastructure/response-target.store.ts\<close> (the permit of Review, the
  snapshot with its reminder slots, the two ways a target stops without a reply) and
  \<^verbatim>\<open>google-review-target-completion.ts\<close> (the stop by a reply Google shows).

  The policies an organization and a property keep are read from \<open>target_policies\<close>; they are tables of
  their own, and a cycle that has snapshotted its target reads them no more. Of an anchor that a
  command leaves out, passes or suppresses with \<^verbatim>\<open>null\<close> only the last writes no target.
\<close>

section \<open>Review's permits\<close>

datatype review_authority_kind = Auth_current_target | Auth_projection_revision

record review_authority =
  ra_authority :: review_authority_kind
  ra_organizationId :: string
  ra_propertyId :: string
  ra_reviewId :: string
  ra_sourceEpoch :: number
  ra_materialReviewRevision :: number
  ra_eligibility :: target_eligibility
  ra_responseTargetStartAt :: "date option"
  ra_rating :: "number option"

record projection_revision = review_authority +
  observedAt :: date
  sourceEpochCarry :: bool

datatype target_start = Review_provenance | Operational_reopen date

record target_anchor =
  reviewAuthority :: review_authority
  targetStart :: target_start

datatype target_choice = Suppressed | Anchored "target_anchor option"

definition assertReviewAuthorityMatchesCycle ::
  "handling_cycle \<Rightarrow> review_authority \<Rightarrow> (inbox_error, unit) result" where
  "assertReviewAuthorityMatchesCycle cycle a =
     (if ra_organizationId a \<noteq> organizationId cycle \<or> ra_propertyId a \<noteq> propertyId cycle
         \<or> ra_reviewId a \<noteq> sourceId cycle
         \<or> \<not> num_eq (ra_materialReviewRevision a) (sourceRevision cycle)
      then err (inboxError IE_invalid_input
             ''Review Response Target authority does not match the Handling Cycle'' [])
      else if ra_authority a = Auth_projection_revision \<and> openedReason cycle \<noteq> OR_review_observed
              \<and> openedReason cycle \<noteq> OR_material_revision_changed
      then err (inboxError IE_invalid_input
             ''Historical Review authority is limited to source-event projection cycles'' [])
      else ok ())"

definition assertOperationalTargetStart ::
  "handling_cycle \<Rightarrow> target_anchor option \<Rightarrow> (inbox_error, unit) result" where
  "assertOperationalTargetStart cycle anchor =
     (case anchor of
        None \<Rightarrow> ok ()
      | Some a \<Rightarrow>
          (case targetStart a of
             Review_provenance \<Rightarrow> ok ()
           | Operational_reopen instant \<Rightarrow>
               if ra_authority (reviewAuthority a) \<noteq> Auth_current_target
               then err (inboxError IE_invalid_input
                      ''Operational target timing requires current Review authority'' [])
               else if openedReason cycle \<noteq> OR_manual_reopen
                       \<and> openedReason cycle \<noteq> OR_provider_reply_deleted
               then err (inboxError IE_invalid_input
                      ''Operational target timing requires an operational Review reopen'' [])
               else if \<not> is_finite (get_time instant)
                       \<or> \<not> num_eq (get_time instant) (get_time (openedAt cycle))
               then err (inboxError IE_invalid_input
                      ''Operational target timing must start with its Handling Cycle'' [])
               else ok ()))"

definition assertReviewResponseTargetAuthorityMatchesCycle ::
  "handling_cycle \<Rightarrow> target_anchor option \<Rightarrow> (inbox_error, unit) result" where
  "assertReviewResponseTargetAuthorityMatchesCycle cycle anchor =
     (if sourceType cycle \<noteq> Src_review
      then (if anchor \<noteq> None
            then err (inboxError IE_invalid_input
                   ''Review Response Target authority cannot open a Feedback Handling Cycle'' [])
            else ok ())
      else
        (case (case anchor of None \<Rightarrow> ok ()
               | Some a \<Rightarrow> assertReviewAuthorityMatchesCycle cycle (reviewAuthority a)) of
           Inl e \<Rightarrow> err e
         | Inr _ \<Rightarrow>
             (let eligibility = (case anchor of None \<Rightarrow> Legacy_unknown
                    | Some a \<Rightarrow> ra_eligibility (reviewAuthority a));
                  startAt = (case anchor of None \<Rightarrow> None
                    | Some a \<Rightarrow> ra_responseTargetStartAt (reviewAuthority a))
              in if (eligibility = Measured) \<noteq> (startAt \<noteq> None)
                 then err (inboxError IE_invalid_input
                        ''Review Response Target provenance is invalid'' [])
                 else assertOperationalTargetStart cycle anchor)))"

definition resolveReviewCycleTargetProvenance ::
  "handling_cycle \<Rightarrow> target_anchor option \<Rightarrow> (inbox_error, target_eligibility \<times> date option) result"
where
  "resolveReviewCycleTargetProvenance cycle anchor =
     (case assertReviewResponseTargetAuthorityMatchesCycle cycle anchor of
        Inl e \<Rightarrow> err e
      | Inr _ \<Rightarrow>
          (case anchor of
             None \<Rightarrow> ok (Legacy_unknown, None)
           | Some a \<Rightarrow>
               (case targetStart a of
                  Operational_reopen instant \<Rightarrow> ok (Measured, Some instant)
                | Review_provenance \<Rightarrow>
                    ok (ra_eligibility (reviewAuthority a),
                        ra_responseTargetStartAt (reviewAuthority a)))))"

section \<open>Policies\<close>

text \<open>An override that is not enabled, or has no duration, does not count.\<close>

record property_override =
  ov_enabled :: bool
  ov_durationMinutes :: "number option"
  ov_policyVersion :: number

record target_policies =
  organization_policy :: "string \<Rightarrow> target_kind \<Rightarrow> stored_policy option"
  property_override_row :: "string \<Rightarrow> string \<Rightarrow> property_override option"

definition effective_override :: "property_override option \<Rightarrow> stored_policy option" where
  "effective_override ov =
     (case chosen ov_enabled ov of
        None \<Rightarrow> None
      | Some p \<Rightarrow>
          (case ov_durationMinutes p of
             None \<Rightarrow> None
           | Some d \<Rightarrow> Some \<lparr>sp_durationMinutes = d, sp_policyVersion = ov_policyVersion p,
                 lowRatingThreshold = None, lowRatingDurationMinutes = None\<rparr>))"

text \<open>The private-feedback read of an organization policy selects no low-rating columns.\<close>

definition without_low_rating :: "stored_policy \<Rightarrow> stored_policy" where
  "without_low_rating p = p\<lparr>lowRatingThreshold := None, lowRatingDurationMinutes := None\<rparr>"

section \<open>Inserting a target\<close>

definition reminder_of :: "handling_cycle \<Rightarrow> target_kind \<Rightarrow> reminder \<Rightarrow> reminder_row" where
  "reminder_of cycle kind rem =
     \<lparr>rm_cycleNumber = cycleNumber cycle, rm_organizationId = organizationId cycle,
      rm_propertyId = propertyId cycle, rm_targetKind = kind, rm_kind = rem_kind rem,
      rm_scheduledFor = scheduledFor rem, deliveredAt = None, cancelledAt = None\<rparr>"

definition insertSchedulableReminders ::
  "handling_cycle \<Rightarrow> target_snapshot \<Rightarrow> date \<Rightarrow> unit item_txn" where
  "insertSchedulableReminders cycle snapshot createdAt =
     seq (decide Refused (schedulableReminders snapshot createdAt))
       (\<lambda>rems. for_each (\<lambda>rem. insert_reminder (reminder_of cycle (targetKind snapshot) rem)) rems)"

definition unmeasured_target :: "handling_cycle \<Rightarrow> target_kind \<Rightarrow> target_eligibility \<Rightarrow> target_row" where
  "unmeasured_target cycle kind eligibility = cycle_scope.extend (scope_of cycle)
     (target_row.fields (cycleNumber cycle) (sourceRevision cycle) kind eligibility None None None
        None None None None None)"

definition measured_target :: "handling_cycle \<Rightarrow> target_snapshot \<Rightarrow> target_row" where
  "measured_target cycle s = cycle_scope.extend (scope_of cycle)
     (target_row.fields (cycleNumber cycle) (sourceRevision cycle) (targetKind s) Measured
        (Some (durationMinutes (snap_policy s))) (Some (policySource (snap_policy s)))
        (Some (policyVersion (snap_policy s))) (Some (startAt s)) (Some (dueAt s)) None None None)"

definition insertMeasuredTarget ::
  "handling_cycle \<Rightarrow> target_snapshot \<Rightarrow> date \<Rightarrow> unit item_txn" where
  "insertMeasuredTarget cycle snapshot createdAt =
     seq (insert_target (measured_target cycle snapshot))
       (\<lambda>_. insertSchedulableReminders cycle snapshot createdAt)"

definition private_feedback_policy ::
  "target_policies \<Rightarrow> handling_cycle \<Rightarrow> (inbox_error, target_policy) result" where
  "private_feedback_policy env cycle =
     resolvePrivateFeedbackTargetPolicy
       (map_option without_low_rating
          (organization_policy env (organizationId cycle) Private_feedback_handling))
       (effective_override (property_override_row env (organizationId cycle) (propertyId cycle)))"

definition insertResponseTargetForHandlingCycle ::
  "target_policies \<Rightarrow> handling_cycle \<Rightarrow> date \<Rightarrow> target_anchor option \<Rightarrow> unit item_txn" where
  "insertResponseTargetForHandlingCycle env cycle createdAt anchor =
     seq (decide Refused (assertReviewResponseTargetAuthorityMatchesCycle cycle anchor))
       (\<lambda>_. if sourceType cycle = Src_review
        then seq (decide Refused (resolveReviewCycleTargetProvenance cycle anchor))
          (\<lambda>(eligibility, startAt).
             if eligibility \<noteq> Measured
             then insert_target (unmeasured_target cycle Google_review_response eligibility)
             else seq (present startAt
                        (refused IE_invalid_input ''Measured Review Response Target has no start''))
               (\<lambda>start.
                seq (decide Refused (resolveGoogleReviewTargetPolicy
                       (organization_policy env (organizationId cycle) Google_review_response)
                       (case anchor of None \<Rightarrow> None | Some a \<Rightarrow> ra_rating (reviewAuthority a))))
                  (\<lambda>policy.
                   seq (decide Refused
                         (buildResponseTargetSnapshot Google_review_response policy start))
                     (\<lambda>snapshot. insertMeasuredTarget cycle snapshot createdAt))))
        else
          seq (decide Refused (private_feedback_policy env cycle))
            (\<lambda>policy.
             seq (decide Refused
                   (buildResponseTargetSnapshot Private_feedback_handling policy (openedAt cycle)))
               (\<lambda>snapshot. insertMeasuredTarget cycle snapshot createdAt)))"

section \<open>Stopping a target\<close>

text \<open>
  The two statements every stop issues: the guarded update of the unfinished target of a cycle,
  and the cancellation of the slots of the cycle that are still pending.
\<close>

definition unfinished :: "(target_row \<Rightarrow> bool) \<Rightarrow> number \<Rightarrow> target_row \<Rightarrow> bool" where
  "unfinished p n t = (tg_cycleNumber t = n \<and> tg_completionAt t = None \<and> p t)"

definition stop_target ::
  "(target_row \<Rightarrow> bool) \<Rightarrow> number \<Rightarrow> date \<Rightarrow> target_result \<Rightarrow> stop_reason \<Rightarrow> bool item_txn" where
  "stop_target p n completion res reason =
     (let f = (\<lambda>t. t\<lparr>tg_completionAt := Some completion, tg_result := Some res,
                    stopReason := Some reason\<rparr>)
      in seq (inspect (\<lambda>r. filter (unfinished p n) (row_targets r)))
           (\<lambda>hit. seq (require (\<forall>t \<in> set hit. target_row_valid (f t))
                   (Constraint ''inbox_handling_cycle_response_targets_values_valid''))
             (\<lambda>_. seq (modify (\<lambda>r. r\<lparr>row_targets :=
                     map (\<lambda>t. if unfinished p n t then f t else t) (row_targets r)\<rparr>))
               (\<lambda>_. ret (hit \<noteq> [])))))"

definition pending :: "reminder_row \<Rightarrow> bool" where
  "pending m = (deliveredAt m = None \<and> cancelledAt m = None)"

definition cancel_reminders :: "(reminder_row \<Rightarrow> bool) \<Rightarrow> number \<Rightarrow> date \<Rightarrow> unit item_txn" where
  "cancel_reminders p n cancelled =
     modify (\<lambda>r. r\<lparr>row_reminders :=
       map (\<lambda>m. if rm_cycleNumber m = n \<and> pending m \<and> p m
                then m\<lparr>cancelledAt := Some cancelled\<rparr> else m) (row_reminders r)\<rparr>)"

definition target_of :: "handling_head \<Rightarrow> target_kind \<Rightarrow> target_row \<Rightarrow> bool" where
  "target_of head kind t =
     (tg_cycleNumber t = currentCycleNumber head \<and> organizationId t = organizationId head
      \<and> tg_kind t = kind)"

datatype feedback_stop = Stop_handled | Stop_withdrawn

definition stopPrivateFeedbackTarget ::
  "handling_head \<Rightarrow> date \<Rightarrow> feedback_stop \<Rightarrow> target_result option item_txn" where
  "stopPrivateFeedbackTarget head completedAt stop =
     seq (require (sourceType head = Src_feedback)
           (refused IE_invalid_input ''Private Feedback Target requires feedback''))
       (\<lambda>_. seq (inspect (\<lambda>r. List.find (target_of head Private_feedback_handling) (row_targets r)))
         (\<lambda>target. case target of
            None \<Rightarrow> ret None
          | Some t \<Rightarrow>
              if performanceEligibility t \<noteq> Measured then ret None
              else
                seq (require (tg_completionAt t = None \<and> tg_dueAt t \<noteq> None)
                      (refused IE_revision_conflict ''Private Feedback Target already stopped''))
                  (\<lambda>_. seq (present (tg_dueAt t)
                        (refused IE_revision_conflict ''Private Feedback Target already stopped''))
                    (\<lambda>due.
                       let res = (if stop = Stop_withdrawn then Target_cancelled
                                  else classifyResponseTargetCompletion due completedAt);
                           reason = (if stop = Stop_withdrawn then Stop_guest_withdrawn
                                     else Stop_private_feedback_handled)
                       in seq (stop_target (\<lambda>_. True) (currentCycleNumber head) completedAt res reason)
                         (\<lambda>saved. seq (require saved
                               (refused IE_revision_conflict ''Private Feedback Target changed''))
                           (\<lambda>_. seq (cancel_reminders (\<lambda>_. True) (currentCycleNumber head) completedAt)
                             (\<lambda>_. ret (Some res))))))))"

definition deadline_of :: "target_result option \<Rightarrow> deadline_result" where
  "deadline_of res = (case res of
     Some On_time \<Rightarrow> Deadline_on_time | Some Late \<Rightarrow> Deadline_late | _ \<Rightarrow> Deadline_not_measured)"

definition completePrivateFeedbackTarget :: "handling_head \<Rightarrow> date \<Rightarrow> deadline_result item_txn" where
  "completePrivateFeedbackTarget head completedAt =
     seq (stopPrivateFeedbackTarget head completedAt Stop_handled) (\<lambda>res. ret (deadline_of res))"

definition cancelPrivateFeedbackTarget :: "handling_head \<Rightarrow> date \<Rightarrow> unit item_txn" where
  "cancelPrivateFeedbackTarget head cancelled =
     seq (stopPrivateFeedbackTarget head cancelled Stop_withdrawn) (\<lambda>_. ret ())"

datatype target_cancellation = Cancel_superseded | Cancel_source_ineligible

fun cancellation_stop :: "target_cancellation \<Rightarrow> stop_reason" where
  "cancellation_stop Cancel_superseded = Stop_superseded_by_source_revision"
| "cancellation_stop Cancel_source_ineligible = Stop_source_ineligible"

definition cancelResponseTargetForCycle ::
  "number \<Rightarrow> string \<Rightarrow> date \<Rightarrow> target_cancellation \<Rightarrow> bool item_txn" where
  "cancelResponseTargetForCycle n org cancelled reason =
     seq (inspect (\<lambda>r. List.find (\<lambda>t. tg_cycleNumber t = n \<and> organizationId t = org) (row_targets r)))
       (\<lambda>target. case target of
          None \<Rightarrow> ret False
        | Some t \<Rightarrow>
            if performanceEligibility t \<noteq> Measured \<or> tg_completionAt t \<noteq> None then ret False
            else
              seq (stop_target (\<lambda>_. True) n cancelled Target_cancelled (cancellation_stop reason))
                (\<lambda>saved. if \<not> saved then ret False
                 else seq (cancel_reminders (\<lambda>_. True) n cancelled) (\<lambda>_. ret True)))"

definition completeGoogleReviewTarget ::
  "handling_head \<Rightarrow> date \<Rightarrow> date option \<Rightarrow> (target_result option \<times> date) item_txn" where
  "completeGoogleReviewTarget head observed repliedAt =
     seq (require (sourceType head = Src_review)
           (refused IE_invalid_input ''Google Review Response Target requires review''))
       (\<lambda>_. seq (inspect (\<lambda>r. List.find (target_of head Google_review_response) (row_targets r)))
         (\<lambda>target. case chosen (\<lambda>t. performanceEligibility t = Measured) target of
            None \<Rightarrow> ret (None, resolveGoogleReplyCompletion repliedAt None observed)
          | Some t \<Rightarrow>
              seq (require (tg_completionAt t = None)
                    (refused IE_revision_conflict ''Google Review Response Target already stopped''))
                (\<lambda>_. seq (present (tg_dueAt t)
                      (refused IE_revision_conflict ''Google Review Response Target already stopped''))
                  (\<lambda>due. seq (present (tg_startAt t)
                        (refused IE_revision_conflict ''Google Review Response Target has no start''))
                    (\<lambda>start.
                       let completed = resolveGoogleReplyCompletion repliedAt (Some start) observed;
                           res = classifyResponseTargetCompletion due completed
                       in seq (stop_target (\<lambda>t. organizationId t = organizationId head)
                                (currentCycleNumber head) completed res Stop_confirmed_on_google)
                         (\<lambda>saved. seq (require saved
                               (refused IE_revision_conflict ''Google Review Response Target changed''))
                           (\<lambda>_. seq (cancel_reminders
                                 (\<lambda>m. rm_organizationId m = organizationId head)
                                 (currentCycleNumber head) observed)
                             (\<lambda>_. ret (Some res, completed)))))))))"

end
