(* ===== verification/CycleStore.thy ===== *)
theory CycleStore
  imports TargetStore
begin

text \<open>
  The Handling Cycle of an item as the stores write it:
  \<^verbatim>\<open>src/src/contexts/inbox/infrastructure/review-handling-cycle.store.ts\<close> (the first cycle, and the
  next cycle of a Review), the reads of the transition log
  (\<^verbatim>\<open>handling-cycle-transitions.read.ts\<close>), the carry across a source epoch
  (\<^verbatim>\<open>review-epoch-carry-head.ts\<close>), and the next-cycle writer of the command store
  (\<^verbatim>\<open>insertNextHandlingCycleDecision\<close> of \<^verbatim>\<open>inbox-command-store.ts\<close>).

  The context of an error is kept where something reads it: the current command revision and
  status of a conflict. \<open>next_cycle_input\<close> builds the argument a store passes to
  \<open>createNextHandlingCycle\<close>.
\<close>

section \<open>Reads of the log\<close>

text \<open>The row a descending order puts first.\<close>

fun newest_by :: "('a \<Rightarrow> number) \<Rightarrow> 'a list \<Rightarrow> 'a option" where
  "newest_by key [] = None"
| "newest_by key (x # xs) =
     (case newest_by key xs of
        None \<Rightarrow> Some x
      | Some y \<Rightarrow> if num_lt (key y) (key x) then Some x else Some y)"

definition selectCycleCloseReason :: "string \<Rightarrow> number \<Rightarrow> item_rows \<Rightarrow> transition_reason option" where
  "selectCycleCloseReason org n r =
     map_option transitionReason (newest_by tr_stateRevision
       (filter (\<lambda>t. organizationId t = org \<and> tr_cycleNumber t = n \<and> tr_kind t = TK_closed)
          (row_log r)))"

definition selectSourceUnavailableCloseReasons :: "string \<Rightarrow> item_rows \<Rightarrow> string list" where
  "selectSourceUnavailableCloseReasons org r =
     remdups (map (\<lambda>t. reason_text (transitionReason t))
       (filter (\<lambda>t. organizationId t = org \<and> tr_kind t = TK_closed
            \<and> reason_text (transitionReason t) \<in> set SOURCE_UNAVAILABLE_CLOSE_REASONS) (row_log r)))"

section \<open>The first cycle\<close>

record creation_anchor =
  an_sourceRevision :: number
  an_openedReason :: initial_reason
  an_actorType :: actor_type
  an_triggerEventId :: "string option"
  an_openedAt :: "date option"
  an_responseTarget :: target_choice

definition initial_input :: "inbox_item \<Rightarrow> creation_anchor \<Rightarrow> date \<Rightarrow> create_initial_input" where
  "initial_input item anchor opened =
     \<lparr>inboxItemId = item_id item, organizationId = item_organizationId item,
      propertyId = item_propertyId item, sourceType = item_sourceType item,
      sourceId = item_sourceId item, in_sourceRevision = an_sourceRevision anchor,
      in_openedReason = an_openedReason anchor, in_actorType = an_actorType anchor,
      in_triggerEventId = an_triggerEventId anchor, in_openedAt = opened,
      in_status = item_status item\<rparr>"

definition insert_chosen_target ::
  "target_policies \<Rightarrow> handling_cycle \<Rightarrow> date \<Rightarrow> target_choice \<Rightarrow> unit item_txn" where
  "insert_chosen_target env cycle createdAt choice =
     (case choice of
        Suppressed \<Rightarrow> ret ()
      | Anchored anchor \<Rightarrow> insertResponseTargetForHandlingCycle env cycle createdAt anchor)"

definition insertInitialHandlingCycle ::
  "target_policies \<Rightarrow> inbox_item \<Rightarrow> creation_anchor \<Rightarrow> cycle_decision item_txn" where
  "insertInitialHandlingCycle env item anchor =
     (let recorded = (case an_openedAt anchor of Some t \<Rightarrow> t | None \<Rightarrow> item_createdAt item)
      in seq (decide Refused (createInitialHandlingCycle (initial_input item anchor recorded)))
        (\<lambda>d. seq (decide Refused (case an_responseTarget anchor of
                Suppressed \<Rightarrow> ok ()
              | Anchored a \<Rightarrow> assertReviewResponseTargetAuthorityMatchesCycle (dec_cycle d) a))
          (\<lambda>_. seq (insert_cycle (dec_cycle d))
            (\<lambda>_. seq (insert_chosen_target env (dec_cycle d) recorded (an_responseTarget anchor))
              (\<lambda>_. seq (insert_head (dec_head d))
                (\<lambda>_. seq (for_each insert_transition (dec_transitions d))
                  (\<lambda>_. ret d)))))))"

section \<open>The next cycle\<close>

text \<open>
  A superseded cycle is found among the transitions of the decision, and its target cancelled,
  before the next cycle is written.
\<close>

definition superseded_transition :: "cycle_decision \<Rightarrow> handling_transition option" where
  "superseded_transition d =
     List.find (\<lambda>t. tr_kind t = TK_closed
        \<and> transitionReason t = Closed_for CR_superseded_by_source_revision) (dec_transitions d)"

definition insertNextHandlingCycleDecision ::
  "target_policies \<Rightarrow> cycle_decision \<Rightarrow> date \<Rightarrow> target_choice \<Rightarrow> fact_marks \<Rightarrow> inbox_fact list item_txn"
where
  "insertNextHandlingCycleDecision env d createdAt choice marks =
     seq (case superseded_transition d of
            None \<Rightarrow> ret ()
          | Some t \<Rightarrow> seq (cancelResponseTargetForCycle (tr_cycleNumber t) (organizationId t)
                createdAt Cancel_superseded) (\<lambda>_. ret ()))
       (\<lambda>_. seq (insert_cycle (dec_cycle d))
         (\<lambda>_. seq (insert_chosen_target env (dec_cycle d) createdAt choice)
           (\<lambda>_. seq (for_each insert_transition (dec_transitions d))
             (\<lambda>_. ret (map (\<lambda>t. lifecycleFactFor t marks) (dec_transitions d))))))"

definition next_cycle_input ::
  "handling_head \<Rightarrow> number \<Rightarrow> next_reason \<Rightarrow> manual_reason option \<Rightarrow> js_string option option
     \<Rightarrow> string option \<Rightarrow> actor_type \<Rightarrow> string option \<Rightarrow> date \<Rightarrow> create_next_input" where
  "next_cycle_input head revision reason manual explanation who actor trigger opened =
     \<lparr>current = head, nx_sourceRevision = revision, nx_openedReason = reason,
      nx_manualReopenReason = manual, nx_manualReopenExplanation = explanation,
      nx_openedBy = who, nx_actorType = actor, nx_triggerEventId = trigger,
      nx_openedAt = opened\<rparr>"

text \<open>The columns of the head that a next cycle or a close writes.\<close>

definition advance_head :: "handling_head \<Rightarrow> handling_head \<Rightarrow> handling_head" where
  "advance_head new h = h\<lparr>currentCycleNumber := currentCycleNumber new,
     currentSourceRevision := currentSourceRevision new, stateRevision := stateRevision new,
     head_status := Open\<rparr>"

definition settle_head :: "handling_head \<Rightarrow> handling_head \<Rightarrow> handling_head" where
  "settle_head new h = h\<lparr>stateRevision := stateRevision new, head_status := Closed\<rparr>"

definition close_of ::
  "handling_head \<Rightarrow> close_reason \<Rightarrow> actor_type \<Rightarrow> string option \<Rightarrow> string option \<Rightarrow> date \<Rightarrow> close_input"
where
  "close_of head reason actor user trigger instant =
     \<lparr>cl_current = head, cl_closeReason = reason, cl_actorType = actor, cl_actorUserId = user,
      cl_triggerEventId = trigger, cl_closedAt = instant\<rparr>"

section \<open>The carry\<close>

definition advanceHeadAcrossSourceEpochCarry ::
  "inbox_item \<Rightarrow> handling_head \<Rightarrow> number \<Rightarrow> handling_head option item_txn" where
  "advanceHeadAcrossSourceEpochCarry item head carriedFrom =
     update_head
       (\<lambda>h. organizationId h = item_organizationId item \<and> propertyId h = item_propertyId item
            \<and> sourceType h = Src_review \<and> sourceId h = item_sourceId item
            \<and> currentCycleNumber h = currentCycleNumber head
            \<and> currentSourceRevision h = carriedFrom
            \<and> stateRevision h = stateRevision head \<and> head_status h = head_status head)
       (\<lambda>h. h\<lparr>currentSourceRevision := num_add carriedFrom (nint 1)\<rparr>)"

section \<open>The next cycle of a Review\<close>

record review_expectation =
  ex_cycleNumber :: number
  ex_sourceRevision :: number
  ex_stateRevision :: number

record start_next_command =
  sn_inboxItemId :: string
  sn_organizationId :: string
  sn_expected :: review_expectation
  sn_materialReviewRevision :: number
  sn_openedReason :: next_reason
  sn_manualReopenReason :: "manual_reason option"
  sn_manualReopenExplanation :: "js_string option option"
  sn_openedBy :: "string option"
  sn_openedAt :: date
  sn_responseTarget :: "target_anchor option"

definition review_head_of :: "handling_head \<Rightarrow> (inbox_error, review_head) result" where
  "review_head_of h =
     (if sourceType h \<noteq> Src_review
      then err (inboxError IE_invalid_input ''Stored Review Handling Cycle head is invalid'' [])
      else ok (handling_head.extend h (review_head.fields (sourceId h) (currentSourceRevision h))))"

definition expectedMatches :: "review_head \<Rightarrow> review_expectation \<Rightarrow> bool" where
  "expectedMatches h e =
     (num_eq (currentCycleNumber h) (ex_cycleNumber e)
      \<and> num_eq (currentMaterialReviewRevision h) (ex_sourceRevision e)
      \<and> num_eq (stateRevision h) (ex_stateRevision e))"

definition next_review_of :: "start_next_command \<Rightarrow> review_head \<Rightarrow> next_review_input" where
  "next_review_of c head =
     \<lparr>nr_current = head, nr_materialReviewRevision = sn_materialReviewRevision c,
      nr_openedReason = sn_openedReason c, nr_manualReopenReason = sn_manualReopenReason c,
      nr_manualReopenExplanation = sn_manualReopenExplanation c, nr_openedBy = sn_openedBy c,
      nr_openedAt = sn_openedAt c\<rparr>"

definition cycle_changed :: store_error where
  "cycle_changed = refused IE_revision_conflict ''Inbox Handling Cycle changed; reload and retry''"

definition startNext :: "target_policies \<Rightarrow> start_next_command \<Rightarrow> review_decision item_txn" where
  "startNext env c =
     seq (must (inspect (\<lambda>r. chosen (\<lambda>h. organizationId h = sn_organizationId c) (row_head r)))
           (refused IE_not_found ''Inbox Handling Cycle head not found''))
       (\<lambda>row. seq (decide Refused (review_head_of row))
         (\<lambda>head. seq (require (expectedMatches head (sn_expected c)) cycle_changed)
           (\<lambda>_. seq (decide Refused (createNextReviewHandlingCycle (next_review_of c head)))
             (\<lambda>d.
              let cycle = handling_cycle.truncate (rd_cycle d) in
              seq (decide Refused
                    (assertReviewResponseTargetAuthorityMatchesCycle cycle (sn_responseTarget c)))
                (\<lambda>_. seq (if head_status head = Open
                      then seq (cancelResponseTargetForCycle (currentCycleNumber head)
                             (organizationId head) (sn_openedAt c) Cancel_superseded) (\<lambda>_. ret ())
                      else ret ())
                  (\<lambda>_. seq (insert_cycle cycle)
                    (\<lambda>_. seq (for_each insert_transition (rd_transitions d))
                      (\<lambda>_. seq (insertResponseTargetForHandlingCycle env cycle (sn_openedAt c)
                              (sn_responseTarget c))
                        (\<lambda>_. seq (must (update_head
                                (\<lambda>h. organizationId h = sn_organizationId c
                                   \<and> currentCycleNumber h = ex_cycleNumber (sn_expected c)
                                   \<and> currentSourceRevision h = ex_sourceRevision (sn_expected c)
                                   \<and> stateRevision h = ex_stateRevision (sn_expected c))
                                (advance_head (handling_head.truncate (rd_head d)))) cycle_changed)
                          (\<lambda>_. seq (must (update_item
                                  (\<lambda>i. item_organizationId i = sn_organizationId c
                                     \<and> item_sourceType i = Src_review
                                     \<and> item_sourceId i = head_reviewId head)
                                  (\<lambda>i. i\<lparr>item_status := Open, closedAt := None,
                                     commandRevision := num_add (commandRevision i) (nint 1),
                                     item_updatedAt := sn_openedAt c\<rparr>))
                                (refused IE_not_found ''Review Inbox item not found for cycle head''))
                            (\<lambda>_. ret d)))))))))))"

end
