(* ===== verification/InboxGuards.thy ===== *)
theory InboxGuards
  imports CycleStore
begin

text \<open>
  The guards, row mappers and fact builders of the Inbox command store
  (\<^verbatim>\<open>src/src/contexts/inbox/infrastructure/inbox-command-guards.ts\<close>), the authority it asks
  (\<^verbatim>\<open>inbox-command-authority.ts\<close>) and the row mapper (\<^verbatim>\<open>mappers/inbox.mapper.ts\<close>).

  Whether a user may act is decided outside the context: \<open>authority\<close> is a parameter of every command
  that asks it. Review's permits for a projection and for an observation of Google's reply are
  values of the records below; literal authority tags that have one value carry no information
  and are left out.
\<close>

section \<open>Authority\<close>

datatype purpose = For_actor | For_assignee

record authority_principal =
  au_userId :: string
  au_permissions :: "string list"
  au_purpose :: purpose

record authority_requirement = authority_principal +
  au_propertyId :: string

datatype authority_decision = Allowed | Denied string

type_synonym authority =
  "string \<Rightarrow> date \<Rightarrow> authority_requirement list \<Rightarrow> authority_decision"

definition sourceCommandPermission :: "source_type \<Rightarrow> string" where
  "sourceCommandPermission s = (if s = Src_review then ''review.read'' else ''feedback.handle'')"

definition webActorId :: "('a) item_fact_scheme option \<Rightarrow> string option" where
  "webActorId event =
     (case event of
        None \<Rightarrow> None
      | Some f \<Rightarrow> if if_source f \<noteq> From_web then None else if_userId f)"

definition contains :: "string \<Rightarrow> string \<Rightarrow> bool" where
  "contains part s = (\<exists>n \<in> {0..length s}. take (length part) (drop n s) = part)"

definition authority_contract_changed :: "string \<Rightarrow> bool" where
  "authority_contract_changed reason =
     (contains ''authority_changed'' reason \<or> contains ''contract_mismatch'' reason)"

section \<open>Rows and items\<close>

definition nonempty :: "string option \<Rightarrow> string option" where
  "nonempty u = (if falsy_id u then None else u)"

definition itemFromRow :: "inbox_item \<Rightarrow> inbox_item" where
  "itemFromRow row = row\<lparr>item_rating := None, snippet := None, reviewerName := None,
     propertyName := None, escalatedBy := nonempty (escalatedBy row),
     escalationResolvedBy := nonempty (escalationResolvedBy row),
     assignedTo := nonempty (assignedTo row),
     managerPrioritySetBy := nonempty (managerPrioritySetBy row)\<rparr>"

text \<open>An insert leaves the copies of provider content and the priority out, and the database dates it.\<close>

definition inboxItemToInsertRow :: "date \<Rightarrow> inbox_item \<Rightarrow> inbox_item" where
  "inboxItemToInsertRow dbNow item = item\<lparr>item_rating := None, snippet := None,
     reviewerName := None, propertyName := None, escalatedBy := nonempty (escalatedBy item),
     escalationResolvedBy := nonempty (escalationResolvedBy item),
     assignedTo := nonempty (assignedTo item), managerPriority := None,
     managerPrioritySetBy := None, managerPrioritySetAt := None,
     item_createdAt := dbNow, item_updatedAt := dbNow\<rparr>"

datatype cycle_anchor = Canonical creation_anchor | Review_anchor number

definition normalizeCreationAnchor :: "inbox_item \<Rightarrow> cycle_anchor \<Rightarrow> creation_anchor" where
  "normalizeCreationAnchor item anchor =
     (case anchor of
        Canonical a \<Rightarrow> a
      | Review_anchor revision \<Rightarrow>
          \<lparr>an_sourceRevision = revision,
           an_openedReason = (if item_sourceType item = Src_review then First_review_observed
                              else First_legacy_backfill),
           an_actorType = Actor_provider, an_triggerEventId = None,
           an_openedAt = Some (item_createdAt item), an_responseTarget = Anchored None\<rparr>)"

section \<open>The projection of a Review\<close>

datatype source_content_state = Sc_active | Sc_source_expired | Sc_provider_deleted

record inbox_projection =
  ip_organizationId :: string
  ip_propertyId :: string
  ip_reviewId :: string
  ip_sourceEpoch :: number
  ip_platform :: string
  ip_sourceDate :: date
  sourceContentState :: source_content_state
  sourceContentErasedAt :: "date option"
  currentMaterialReviewRevision' :: number
  revisions :: "projection_revision list"

definition projectionTargetAnchor :: "projection_revision \<Rightarrow> target_anchor" where
  "projectionTargetAnchor revision =
     \<lparr>reviewAuthority = review_authority.truncate revision, targetStart = Review_provenance\<rparr>"

definition matchesReviewProjectionAuthority :: "inbox_item \<Rightarrow> inbox_projection \<Rightarrow> bool" where
  "matchesReviewProjectionAuthority item p =
     (ip_organizationId p = item_organizationId item
      \<and> ip_propertyId p = item_propertyId item \<and> ip_reviewId p = item_sourceId item
      \<and> ip_platform p = ''google'' \<and> platform item = Some (ip_platform p)
      \<and> num_eq (get_time (sourceDate item)) (get_time (ip_sourceDate p))
      \<and> is_safe_integer (ip_sourceEpoch p) \<and> num_le (nint 0) (ip_sourceEpoch p)
      \<and> is_safe_integer (currentMaterialReviewRevision' p)
      \<and> num_le (nint 1) (currentMaterialReviewRevision' p))"

definition matchesProjectionCreationFact :: "created_fact \<Rightarrow> inbox_item \<Rightarrow> bool" where
  "matchesProjectionCreationFact f item =
     (cf_inboxItemId f = item_id item \<and> cf_organizationId f = item_organizationId item
      \<and> cf_propertyId f = Some (item_propertyId item) \<and> cf_sourceType f = Src_review
      \<and> cf_sourceId f = item_sourceId item
      \<and> num_eq (get_time (cf_occurredAt f)) (get_time (item_createdAt item)))"

definition isContentFreeUnhandledReviewItem :: "inbox_item \<Rightarrow> bool" where
  "isContentFreeUnhandledReviewItem item =
     (item_sourceType item = Src_review \<and> item_status item = Open \<and> item_rating item = None
      \<and> snippet item = None \<and> reviewerName item = None \<and> assignedTo item = None)"

definition hasConsistentProjectionSourceState :: "inbox_projection \<Rightarrow> bool" where
  "hasConsistentProjectionSourceState p =
     (let active = (sourceContentState p = Sc_active)
      in if active \<and> sourceContentErasedAt p \<noteq> None then False
         else if \<not> active \<and> sourceContentErasedAt p = None then False
         else if (case sourceContentErasedAt p of None \<Rightarrow> False | Some t \<Rightarrow> \<not> is_finite (get_time t))
         then False
         else is_finite (get_time (ip_sourceDate p)) \<and> length (revisions p) > 0)"

definition isValidProjectionRevision ::
  "projection_revision \<Rightarrow> inbox_item \<Rightarrow> inbox_projection \<Rightarrow> nat \<Rightarrow> projection_revision option \<Rightarrow> bool"
where
  "isValidProjectionRevision rv item p index previous =
     (ra_authority rv = Auth_projection_revision
      \<and> ra_organizationId rv = item_organizationId item
      \<and> ra_propertyId rv = item_propertyId item \<and> ra_reviewId rv = item_sourceId item
      \<and> num_le (ra_sourceEpoch rv) (ip_sourceEpoch p)
      \<and> num_eq (ra_materialReviewRevision rv) (nint (int index + 1))
      \<and> is_finite (get_time (observedAt rv))
      \<and> (case previous of None \<Rightarrow> True
           | Some q \<Rightarrow> num_le (get_time (observedAt q)) (get_time (observedAt rv))
                \<and> num_le (ra_sourceEpoch q) (ra_sourceEpoch rv))
      \<and> (sourceEpochCarry rv \<longrightarrow>
           (case previous of None \<Rightarrow> False
              | Some q \<Rightarrow> num_lt (ra_sourceEpoch q) (ra_sourceEpoch rv)))
      \<and> (ra_eligibility rv = Measured) = (ra_responseTargetStartAt rv \<noteq> None)
      \<and> (case ra_responseTargetStartAt rv of None \<Rightarrow> True | Some t \<Rightarrow> is_finite (get_time t)))"

fun valid_revisions ::
  "inbox_item \<Rightarrow> inbox_projection \<Rightarrow> nat \<Rightarrow> projection_revision option \<Rightarrow> projection_revision list \<Rightarrow> bool"
where
  "valid_revisions item p index previous [] = True"
| "valid_revisions item p index previous (rv # rvs) =
     (isValidProjectionRevision rv item p index previous
      \<and> valid_revisions item p (Suc index) (Some rv) rvs)"

datatype projection_kind = Projection_created | Projection_updated

record projection_command =
  pc_eventId :: string
  pc_consumerName :: string
  eventKind :: projection_kind
  pc_item :: inbox_item
  pc_fact :: created_fact
  projection :: inbox_projection
  pc_now :: date

definition projection_head_matches :: "inbox_item \<Rightarrow> inbox_projection \<Rightarrow> bool" where
  "projection_head_matches item p =
     (let latest = last (revisions p)
      in num_eq (ra_materialReviewRevision latest) (currentMaterialReviewRevision' p)
         \<and> num_eq (ra_sourceEpoch latest) (ip_sourceEpoch p)
         \<and> num_eq (get_time (item_createdAt item)) (get_time (observedAt (hd (revisions p))))
         \<and> (case sourceContentErasedAt p of None \<Rightarrow> True
              | Some t \<Rightarrow> \<not> num_lt (get_time t) (get_time (observedAt latest))))"

definition assertReviewProjectionCommand :: "projection_command \<Rightarrow> (inbox_error, unit) result" where
  "assertReviewProjectionCommand c =
     (let item = pc_item c; p = projection c
      in if \<not> isContentFreeUnhandledReviewItem item \<or> \<not> matchesReviewProjectionAuthority item p
            \<or> \<not> matchesProjectionCreationFact (pc_fact c) item
            \<or> \<not> is_finite (get_time (pc_now c))
         then err (inboxError IE_invalid_input
                ''Review Inbox projection authority does not match the projection command'' [])
         else if \<not> hasConsistentProjectionSourceState p
         then err (inboxError IE_invalid_input
                ''Review Inbox projection source state is invalid'' [])
         else if \<not> valid_revisions item p 0 None (revisions p)
         then err (inboxError IE_invalid_input
                ''Review Inbox projection revision history is invalid'' [])
         else if \<not> projection_head_matches item p
         then err (inboxError IE_invalid_input
                ''Review Inbox projection head does not match its revision history'' [])
         else ok ())"

section \<open>An observation of Google's reply\<close>

datatype reply_change = Change_added | Change_edited | Change_deleted | Change_unchanged

record reply_observation = google_reply_reading +
  ro_organizationId :: string
  ro_propertyId :: string
  ro_reviewId :: string
  ro_sourceEpoch :: number
  ro_materialReviewRevision :: number
  sourceEpochCarryFrom :: "number option"
  change :: reply_change
  ro_observedAt :: date
  providerReplyUpdatedAt :: "date option"
  reviewSourceContentState :: source_content_state
  responseTargetEligibility :: target_eligibility
  responseTargetStartAt :: "date option"
  ro_rating :: "number option"

definition assertObservationMatchesItem ::
  "reply_observation \<Rightarrow> inbox_item \<Rightarrow> (inbox_error, unit) result" where
  "assertObservationMatchesItem ob item =
     (if ro_organizationId ob \<noteq> item_organizationId item \<or> ro_propertyId ob \<noteq> item_propertyId item
         \<or> ro_reviewId ob \<noteq> item_sourceId item
      then err (inboxError IE_invalid_input
             ''Review observation permit does not match the Inbox item'' [])
      else ok ())"

section \<open>Bulk commands\<close>

definition same_scope :: "inbox_item \<Rightarrow> inbox_item \<Rightarrow> handling_head \<Rightarrow> bool" where
  "same_scope item row head =
     (item_organizationId row = item_organizationId item
      \<and> item_propertyId row = item_propertyId item \<and> item_sourceType row = item_sourceType item
      \<and> item_sourceId row = item_sourceId item
      \<and> organizationId head = item_organizationId item \<and> propertyId head = item_propertyId item
      \<and> sourceType head = item_sourceType item \<and> sourceId head = item_sourceId item)"

definition matchesLockedBulkAssignState ::
  "inbox_item \<Rightarrow> inbox_item option \<Rightarrow> handling_head option \<Rightarrow> bool" where
  "matchesLockedBulkAssignState item row head =
     (case (row, head) of
        (Some i, Some h) \<Rightarrow>
          same_scope item i h \<and> item_status i = item_status item
          \<and> assignedTo i = assignedTo item
          \<and> num_eq (commandRevision i) (commandRevision item) \<and> head_status h = item_status item
      | _ \<Rightarrow> False)"

definition matchesLockedBulkReopenState :: "inbox_item \<Rightarrow> inbox_item \<Rightarrow> handling_head \<Rightarrow> bool" where
  "matchesLockedBulkReopenState item row head =
     (same_scope item row head \<and> num_eq (commandRevision row) (commandRevision item)
      \<and> item_status row = Closed \<and> head_status head = Closed
      \<and> item_status row = head_status head)"

definition bulkAssignmentReason ::
  "string option \<Rightarrow> string option \<Rightarrow> string \<Rightarrow> assignment_reason" where
  "bulkAssignmentReason assignee previous actor =
     (if assignee = None then AR_release
      else if previous \<noteq> None then AR_reassign
      else if assignee = Some actor then AR_claim else AR_assign)"

end
