(* ===== verification/FeedbackStore.thy ===== *)
theory FeedbackStore
  imports InboxGuards
begin

text \<open>
  Marking private feedback handled and correcting the outcome, as
  \<^verbatim>\<open>src/src/contexts/inbox/infrastructure/feedback-handling.store.ts\<close> does it: one transaction under
  the locks of the head and the item, which re-checks what the manager saw, the authority of the
  manager and that the source was never withdrawn, and writes the outcome, the closed cycle, its
  stopped target, the item and the two facts together.
\<close>

section \<open>What a command expects\<close>

record feedback_expectation =
  fe_commandRevision :: number
  fe_cycleNumber :: number
  fe_sourceRevision :: number
  fe_stateRevision :: number

record correction_expectation = feedback_expectation +
  fe_outcomeId :: string
  fe_outcomeRevision :: number

record feedback_command =
  fc_item :: inbox_item
  fc_outcomeId :: string
  fc_outcome :: string
  fc_internalNote :: "js_string option"
  fc_actorUserId :: string
  fc_recordedAt :: date

record feedback_state =
  fs_cycleNumber :: number
  fs_sourceRevision :: number
  fs_stateRevision :: number
  fs_status :: inbox_status
  closeReason :: "transition_reason option"
  currentOutcome :: "outcome_fact option"
  fs_history :: "outcome_fact list"

definition toState ::
  "handling_head \<Rightarrow> outcome_fact list \<Rightarrow> transition_reason option \<Rightarrow> feedback_state" where
  "toState head history reason =
     \<lparr>fs_cycleNumber = currentCycleNumber head, fs_sourceRevision = currentSourceRevision head,
      fs_stateRevision = stateRevision head, fs_status = head_status head, closeReason = reason,
      currentOutcome = (if history = [] then None else Some (last history)),
      fs_history = history\<rparr>"

text \<open>The outcomes of a cycle, in the order of their revisions.\<close>

fun insert_by_revision :: "outcome_row \<Rightarrow> outcome_row list \<Rightarrow> outcome_row list" where
  "insert_by_revision x [] = [x]"
| "insert_by_revision x (y # ys) =
     (if num_lt (outcomeRevision y) (outcomeRevision x) then y # insert_by_revision x ys
      else x # y # ys)"

definition outcomeFromRow :: "outcome_row \<Rightarrow> outcome_fact" where
  "outcomeFromRow row = outcome_fact.truncate row"

definition historyFor :: "number \<Rightarrow> string \<Rightarrow> item_rows \<Rightarrow> outcome_fact list" where
  "historyFor n org r =
     map outcomeFromRow (foldr insert_by_revision
       (filter (\<lambda>x. out_organizationId x = org \<and> out_cycleNumber x = n) (row_outcomes r)) [])"

definition getState :: "string \<Rightarrow> item_rows \<Rightarrow> feedback_state option" where
  "getState org r =
     map_option (\<lambda>head. toState head (historyFor (currentCycleNumber head) org r)
         (selectCycleCloseReason org (currentCycleNumber head) r))
       (chosen (\<lambda>h. organizationId h = org \<and> sourceType h = Src_feedback) (row_head r))"

section \<open>The checks under the lock\<close>

definition matchesExpected ::
  "inbox_item \<Rightarrow> handling_head \<Rightarrow> ('a) feedback_expectation_scheme \<Rightarrow> bool" where
  "matchesExpected item head e =
     (num_eq (commandRevision item) (fe_commandRevision e)
      \<and> num_eq (currentCycleNumber head) (fe_cycleNumber e)
      \<and> num_eq (currentSourceRevision head) (fe_sourceRevision e)
      \<and> num_eq (stateRevision head) (fe_stateRevision e)
      \<and> item_status item = head_status head)"

definition conflict :: "inbox_item \<Rightarrow> handling_head \<Rightarrow> store_error" where
  "conflict item head = Refused (inboxError IE_revision_conflict
     ''Private-feedback handling changed; reload''
     [(''currentCommandRevision'', JNum (commandRevision item)),
      (''currentCycleNumber'', JNum (currentCycleNumber head)),
      (''currentSourceRevision'', JNum (currentSourceRevision head)),
      (''currentStateRevision'', JNum (stateRevision head)),
      (''currentStatus'', JStr (status_text (head_status head)))])"

definition lockCurrent :: "inbox_item \<Rightarrow> (inbox_item \<times> handling_head) item_txn" where
  "lockCurrent item =
     seq (inspect (\<lambda>r. chosen (\<lambda>h. organizationId h = item_organizationId item
            \<and> sourceType h = Src_feedback \<and> sourceId h = item_sourceId item) (row_head r)))
       (\<lambda>head. seq (inspect (\<lambda>r. chosen (\<lambda>i. item_organizationId i = item_organizationId item
              \<and> item_sourceType i = Src_feedback \<and> item_sourceId i = item_sourceId item) (row_item r)))
         (\<lambda>row. seq (require (head \<noteq> None \<and> row \<noteq> None)
               (refused IE_not_found ''Private-feedback Handling Cycle not found''))
           (\<lambda>_. seq (present head (refused IE_not_found ''Private-feedback Handling Cycle not found''))
             (\<lambda>h. seq (present row (refused IE_not_found ''Private-feedback Handling Cycle not found''))
               (\<lambda>i. seq (require (propertyId h = item_propertyId i)
                     (refused IE_revision_conflict ''Private-feedback cycle scope changed''))
                 (\<lambda>_. ret (i, h)))))))"

definition assertManagerHandlingStillHonest :: "handling_head \<Rightarrow> unit item_txn" where
  "assertManagerHandlingStillHonest head =
     seq (inspect (selectSourceUnavailableCloseReasons (organizationId head)))
       (\<lambda>reasons. decide Refused (assertManagerHandlingPermitted head reasons))"

definition assertCurrentAuthority ::
  "authority \<Rightarrow> inbox_item \<Rightarrow> string \<Rightarrow> date \<Rightarrow> unit item_txn" where
  "assertCurrentAuthority authorize item actor recorded =
     (case authorize (item_organizationId item) recorded
             [\<lparr>au_userId = actor, au_permissions = [''inbox.write'', ''feedback.handle''],
               au_purpose = For_actor, au_propertyId = item_propertyId item\<rparr>] of
        Allowed \<Rightarrow> ret ()
      | Denied reason \<Rightarrow> refuse (Refused (inboxError IE_forbidden
            ''Private-feedback handling authority changed'' [(''authorityReason'', JStr reason)])))"

section \<open>Writing\<close>

definition outcomeInsert :: "outcome_fact \<Rightarrow> number \<Rightarrow> number \<Rightarrow> outcome_row" where
  "outcomeInsert f completion command =
     outcome_fact.extend f
       (outcome_row.fields completion command
          (if outcomeRevision f = nint 1 then None
           else Some (num_sub (outcomeRevision f) (nint 1))))"

definition handled_status_fact :: "inbox_item \<Rightarrow> feedback_command \<Rightarrow> status_fact" where
  "handled_status_fact item c =
     \<lparr>if_inboxItemId = item_id (fc_item c), if_organizationId = item_organizationId (fc_item c),
      if_propertyId = Some (item_propertyId (fc_item c)), if_userId = Some (fc_actorUserId c),
      if_source = From_web, if_occurredAt = fc_recordedAt c, oldStatus = Open, newStatus = Closed\<rparr>"

definition handled_item :: "feedback_command \<Rightarrow> inbox_item \<Rightarrow> inbox_item" where
  "handled_item c i = i\<lparr>item_status := Closed, closedAt := Some (fc_recordedAt c),
     commandRevision := num_add (commandRevision i) (nint 1), item_updatedAt := fc_recordedAt c\<rparr>"

definition markHandled ::
  "authority \<Rightarrow> feedback_command \<Rightarrow> feedback_expectation \<Rightarrow> (inbox_item \<times> feedback_state) item_txn"
where
  "markHandled authorize c expected =
     seq (lockCurrent (fc_item c))
       (\<lambda>(item, head). seq (require (matchesExpected item head expected) (conflict item head))
         (\<lambda>_. seq (inspect (historyFor (currentCycleNumber head) (item_organizationId item)))
           (\<lambda>history. seq (require (item_status item = Open \<and> head_status head = Open \<and> history = [])
                 (conflict item head))
             (\<lambda>_. seq (assertCurrentAuthority authorize item (fc_actorUserId c) (fc_recordedAt c))
               (\<lambda>_. seq (assertManagerHandlingStillHonest head)
                 (\<lambda>_. seq (completePrivateFeedbackTarget head (fc_recordedAt c))
                   (\<lambda>deadline. seq (decide Refused (recordFeedbackHandlingOutcome
                         \<lparr>ro_id = fc_outcomeId c, ro_current = head, ro_outcome = fc_outcome c,
                          ro_internalNote = fc_internalNote c, ro_recordedBy = fc_actorUserId c,
                          ro_recordedAt = fc_recordedAt c, ro_deadlineResult = deadline\<rparr>))
                     (\<lambda>outcome. seq (decide Refused (closeHandlingCycle
                           (close_of head CR_private_feedback_handled Actor_user
                              (Some (fc_actorUserId c)) (Some (out_id outcome)) (fc_recordedAt c))))
                       (\<lambda>(closed_head, t). seq (insert_transition t)
                         (\<lambda>_. seq (must (update_head
                               (\<lambda>h. stateRevision h = stateRevision head \<and> head_status h = Open)
                               (settle_head closed_head)) (conflict item head))
                           (\<lambda>_. seq (must (update_item
                                 (\<lambda>i. item_organizationId i = item_organizationId item
                                    \<and> commandRevision i = commandRevision item
                                    \<and> item_status i = Open)
                                 (handled_item c)) (conflict item head))
                             (\<lambda>saved. seq (insert_outcome (outcomeInsert outcome
                                   (stateRevision closed_head)
                                   (num_add (commandRevision item) (nint 1))))
                               (\<lambda>_. seq (insertOutboxRow (Status_changed (handled_status_fact item c)))
                                 (\<lambda>_. seq (insertOutboxRow (lifecycleFactFor t no_marks))
                                   (\<lambda>_. ret (itemFromRow saved, toState closed_head [outcome]
                                     (Some (Closed_for CR_private_feedback_handled))))))))))))))))))"

definition latest_outcome :: "number \<Rightarrow> item_rows \<Rightarrow> outcome_row option" where
  "latest_outcome n r = newest_by outcomeRevision (filter (\<lambda>x. out_cycleNumber x = n) (row_outcomes r))"

definition correctOutcome ::
  "authority \<Rightarrow> feedback_command \<Rightarrow> correction_expectation \<Rightarrow> (inbox_item \<times> feedback_state) item_txn"
where
  "correctOutcome authorize c expected =
     seq (lockCurrent (fc_item c))
       (\<lambda>(item, head). seq (require (matchesExpected item head expected) (conflict item head))
         (\<lambda>_. seq (must (inspect (\<lambda>r. chosen
                 (\<lambda>x. item_status item = Closed \<and> head_status head = Closed
                      \<and> out_id x = fe_outcomeId expected
                      \<and> num_eq (outcomeRevision x) (fe_outcomeRevision expected))
                 (latest_outcome (currentCycleNumber head) r))) (conflict item head))
           (\<lambda>latest. seq (assertCurrentAuthority authorize item (fc_actorUserId c) (fc_recordedAt c))
             (\<lambda>_. seq (assertManagerHandlingStillHonest head)
               (\<lambda>_. seq (decide Refused (correctFeedbackHandlingOutcomeFact
                     \<lparr>co_id = fc_outcomeId c, co_current = head,
                      co_previous = outcomeFromRow latest, co_outcome = fc_outcome c,
                      co_internalNote = fc_internalNote c, co_recordedBy = fc_actorUserId c,
                      co_recordedAt = fc_recordedAt c\<rparr>))
                 (\<lambda>corrected. seq (must (update_item
                       (\<lambda>i. item_organizationId i = item_organizationId item
                          \<and> commandRevision i = commandRevision item \<and> item_status i = Closed)
                       (\<lambda>i. i\<lparr>commandRevision := num_add (commandRevision i) (nint 1),
                              item_updatedAt := fc_recordedAt c\<rparr>)) (conflict item head))
                   (\<lambda>saved. seq (insert_outcome (outcomeInsert corrected
                         (completionStateRevision latest)
                         (num_add (commandRevision item) (nint 1))))
                     (\<lambda>_. seq (inspect (historyFor (currentCycleNumber head)
                           (item_organizationId item)))
                       (\<lambda>history. ret (itemFromRow saved, toState head history
                         (Some (Closed_for CR_private_feedback_handled))))))))))))"

end
