(* ===== verification/InboxCommands.thy ===== *)
theory InboxCommands
  imports InboxGuards
begin

text \<open>
  The commands of people on one item, from
  \<^verbatim>\<open>src/src/contexts/inbox/infrastructure/inbox-command-store.ts\<close>: assignment, escalation, priority,
  notes and the manual reopen, with the decision logs they append to
  (\<^verbatim>\<open>inbox-escalation-history.ts\<close>, \<^verbatim>\<open>inbox-priority-history.ts\<close>, \<^verbatim>\<open>inbox-assignment-facts.ts\<close>,
  \<^verbatim>\<open>inbox-bulk-reopen-assignee.ts\<close>).

  Every command is fenced by the command revision its caller read: \<open>tryUpdateItemRow\<close> matches no row
  when the item has moved on, and \<open>updateItemRow\<close> turns that into a conflict that reports the
  current row. A fact that a command brings along is its argument, without its id; the id of the
  fact of a reopen is \<open>rc_factEventId\<close>, the trigger of the transition. Messages are cut at the dash that is
  not ASCII.
\<close>

section \<open>Fences\<close>

definition assertManualReopenHonest :: "handling_head \<Rightarrow> unit item_txn" where
  "assertManualReopenHonest head =
     (if sourceType head \<noteq> Src_feedback then ret ()
      else seq (inspect (selectSourceUnavailableCloseReasons (organizationId head)))
        (\<lambda>reasons. decide Refused (assertManualReopenPermitted head reasons)))"

definition tryUpdateItemRow :: "inbox_item \<Rightarrow> (inbox_item \<Rightarrow> inbox_item) \<Rightarrow> inbox_item option item_txn" where
  "tryUpdateItemRow item f =
     seq (require (isPositiveSafeInteger (commandRevision item))
           (refused IE_revision_conflict ''Inbox command revision is invalid''))
       (\<lambda>_. let nextCommandRevision = num_add (commandRevision item) (nint 1) in
        seq (require (is_safe_integer nextCommandRevision)
              (refused IE_revision_conflict ''Inbox command revision is exhausted''))
          (\<lambda>_. seq (update_item
                 (\<lambda>i. item_organizationId i = item_organizationId item
                    \<and> commandRevision i = commandRevision item)
                 (\<lambda>i. (f i)\<lparr>commandRevision := nextCommandRevision\<rparr>))
            (\<lambda>saved. ret (map_option itemFromRow saved))))"

definition item_changed :: "inbox_item \<Rightarrow> inbox_item \<Rightarrow> store_error" where
  "item_changed item row = Refused (inboxError IE_revision_conflict
     ''Inbox item changed; reload current state''
     [(''expectedCommandRevision'', JNum (commandRevision item)),
      (''currentCommandRevision'', JNum (commandRevision row)),
      (''currentStatus'', JStr (status_text (item_status row))),
      (''currentAssignedTo'', (case assignedTo row of None \<Rightarrow> JNull | Some u \<Rightarrow> JStr u)),
      (''currentEscalated'', JBool (isEscalated row \<and> escalationResolvedAt row = None))])"

definition updateItemRow ::
  "inbox_item \<Rightarrow> (inbox_item \<Rightarrow> inbox_item) \<Rightarrow> string \<Rightarrow> inbox_item item_txn" where
  "updateItemRow item f notFoundMessage =
     seq (tryUpdateItemRow item f)
       (\<lambda>updated. case updated of
          Some row \<Rightarrow> ret row
        | None \<Rightarrow>
            seq (inspect (\<lambda>r. chosen (\<lambda>i. item_organizationId i = item_organizationId item) (row_item r)))
              (\<lambda>found. case found of
                 Some row \<Rightarrow> refuse (item_changed item row)
               | None \<Rightarrow> refuse (refused IE_not_found notFoundMessage)))"

definition assertCommandAuthority ::
  "authority \<Rightarrow> string \<Rightarrow> date \<Rightarrow> authority_requirement list \<Rightarrow> ('s, store_error, unit) txn" where
  "assertCommandAuthority authorize org instant requirements =
     (if requirements = [] then ret ()
      else case authorize org instant requirements of
          Allowed \<Rightarrow> ret ()
        | Denied reason \<Rightarrow> refuse (Refused (inboxError IE_forbidden
              ''Inbox command authority is no longer current'' [(''authorityReason'', JStr reason)])))"

definition authorityRequirements ::
  "inbox_item \<Rightarrow> authority_principal list \<Rightarrow> authority_requirement list" where
  "authorityRequirements item principals =
     map (\<lambda>p. authority_principal.extend p (authority_requirement.fields (item_propertyId item)))
       principals"

definition actorPrincipals ::
  "inbox_item \<Rightarrow> ('a) item_fact_scheme option \<Rightarrow> string list \<Rightarrow> authority_principal list" where
  "actorPrincipals item event extraPermissions =
     (case webActorId event of
        None \<Rightarrow> []
      | Some actor \<Rightarrow>
          [\<lparr>au_userId = actor,
            au_permissions = [''inbox.write'', sourceCommandPermission (item_sourceType item)]
              @ extraPermissions,
            au_purpose = For_actor\<rparr>])"

section \<open>Decision logs\<close>

definition readCurrentCycleNumber :: "inbox_item \<Rightarrow> item_rows \<Rightarrow> number option" where
  "readCurrentCycleNumber item r =
     chosen (\<lambda>n. is_safe_integer n \<and> num_le (nint 1) n)
       (map_option currentCycleNumber
          (chosen (\<lambda>h. organizationId h = item_organizationId item
                \<and> propertyId h = item_propertyId item \<and> sourceType h = item_sourceType item
                \<and> sourceId h = item_sourceId item) (row_head r)))"

definition triage_key :: "inbox_item \<Rightarrow> inbox_item \<Rightarrow> number option \<Rightarrow> string \<Rightarrow> date \<Rightarrow> triage_row" where
  "triage_key item row cycle actor occurred =
     \<lparr>tr_commandRevision = commandRevision row, tr_organizationId = item_organizationId item,
      tr_propertyId = item_propertyId item, tr_handlingCycleNumber = cycle,
      tr_actorUserId = actor, tr_occurredAt = occurred\<rparr>"

definition appendEscalationHistory ::
  "inbox_item \<Rightarrow> inbox_item \<Rightarrow> escalation_kind \<Rightarrow> string \<Rightarrow> date \<Rightarrow> unit item_txn" where
  "appendEscalationHistory item row kind actor occurred =
     seq (inspect (readCurrentCycleNumber item))
       (\<lambda>cycle. insert_escalation
          (triage_row.extend (triage_key item row cycle actor occurred) (escalation_row.fields kind)))"

definition appendPriorityHistory ::
  "inbox_item \<Rightarrow> inbox_item \<Rightarrow> inbox_priority option \<Rightarrow> string \<Rightarrow> date \<Rightarrow> unit item_txn" where
  "appendPriorityHistory item row priority actor occurred =
     seq (inspect (readCurrentCycleNumber item))
       (\<lambda>cycle. insert_priority
          (triage_row.extend (triage_key item row cycle actor occurred)
             (priority_row.fields priority (managerPriority item))))"

datatype assignment_event = Assigned assignment_fact | Unassigned assignment_fact

fun assignment_fact_of :: "assignment_event \<Rightarrow> assignment_fact" where
  "assignment_fact_of (Assigned f) = f"
| "assignment_fact_of (Unassigned f) = f"

definition insertAssignmentFact :: "assignment_event \<Rightarrow> number \<Rightarrow> unit item_txn" where
  "insertAssignmentFact event revision =
     insertOutboxRow (case event of
        Assigned f \<Rightarrow> Item_assigned (f\<lparr>af_commandRevision := Some revision\<rparr>)
      | Unassigned f \<Rightarrow> Item_unassigned (f\<lparr>af_commandRevision := Some revision\<rparr>))"

definition currentAssignmentCycleNumber :: "inbox_item \<Rightarrow> number item_txn" where
  "currentAssignmentCycleNumber item =
     must (inspect (readCurrentCycleNumber item))
       (refused IE_not_found ''Inbox item has no current Handling Cycle for assignment'')"

section \<open>Triage commands\<close>

definition transition ::
  "authority \<Rightarrow> inbox_item \<Rightarrow> (inbox_item \<Rightarrow> inbox_item) \<Rightarrow> string \<Rightarrow> ('a) item_fact_scheme option
     \<Rightarrow> date \<Rightarrow> (inbox_item \<Rightarrow> unit item_txn) \<Rightarrow> unit item_txn \<Rightarrow> inbox_item item_txn" where
  "transition authorize item f notFoundMessage event stamp appendHistory insertFact =
     seq (assertCommandAuthority authorize (item_organizationId item)
           (case event of None \<Rightarrow> stamp | Some e \<Rightarrow> if_occurredAt e)
           (authorityRequirements item (actorPrincipals item event [])))
       (\<lambda>_. seq (updateItemRow item f notFoundMessage)
         (\<lambda>row. seq (appendHistory row)
           (\<lambda>_. seq insertFact (\<lambda>_. ret row))))"

definition escalate ::
  "authority \<Rightarrow> inbox_item \<Rightarrow> string \<Rightarrow> item_fact \<Rightarrow> date \<Rightarrow> inbox_item item_txn" where
  "escalate authorize item by' event stamp =
     transition authorize item
       (\<lambda>i. i\<lparr>isEscalated := True, escalatedAt := Some stamp, escalatedBy := Some by',
              escalationResolvedAt := None, escalationResolvedBy := None, item_updatedAt := stamp\<rparr>)
       ''Inbox item escalation update failed'' (Some event) stamp
       (\<lambda>row. appendEscalationHistory item row Escalated by' stamp)
       (insertOutboxRow (Item_escalated event))"

definition resolveEscalation ::
  "authority \<Rightarrow> inbox_item \<Rightarrow> string \<Rightarrow> item_fact \<Rightarrow> date \<Rightarrow> inbox_item item_txn" where
  "resolveEscalation authorize item by' event stamp =
     transition authorize item
       (\<lambda>i. i\<lparr>isEscalated := False, escalationResolvedAt := Some stamp,
              escalationResolvedBy := Some by', item_updatedAt := stamp\<rparr>)
       ''Inbox item resolve-escalation failed'' (Some event) stamp
       (\<lambda>row. appendEscalationHistory item row Resolved by' stamp)
       (insertOutboxRow (Escalation_resolved event))"

definition managerPriorityColumns ::
  "inbox_priority option \<Rightarrow> string \<Rightarrow> date \<Rightarrow> inbox_item \<Rightarrow> inbox_item" where
  "managerPriorityColumns priority setBy instant i =
     (case priority of
        None \<Rightarrow> i\<lparr>managerPriority := None, managerPrioritySetBy := None,
            managerPrioritySetAt := None, item_updatedAt := instant\<rparr>
      | Some p \<Rightarrow> i\<lparr>managerPriority := Some p, managerPrioritySetBy := Some setBy,
            managerPrioritySetAt := Some instant, item_updatedAt := instant\<rparr>)"

definition guardPriorityCommand ::
  "inbox_item \<Rightarrow> inbox_priority option \<Rightarrow> string \<Rightarrow> priority_fact \<Rightarrow> (inbox_error, unit) result" where
  "guardPriorityCommand item priority setBy event =
     (if webActorId (Some event) \<noteq> Some setBy
      then err (inboxError IE_forbidden ''A priority is set only by a signed-in manager'' [])
      else if if_inboxItemId event \<noteq> item_id item \<or> pf_priority event \<noteq> priority
              \<or> pf_previousPriority event \<noteq> managerPriority item
      then err (inboxError IE_invalid_input ''The priority fact does not match the command'' [])
      else ok ())"

definition setPriority ::
  "authority \<Rightarrow> inbox_item \<Rightarrow> inbox_priority option \<Rightarrow> string \<Rightarrow> priority_fact \<Rightarrow> date \<Rightarrow> inbox_item item_txn"
where
  "setPriority authorize item priority setBy event stamp =
     seq (decide Refused (guardPriorityCommand item priority setBy event))
       (\<lambda>_. transition authorize item (managerPriorityColumns priority setBy stamp)
          ''Inbox item priority update failed'' (Some event) stamp
          (\<lambda>row. appendPriorityHistory item row priority setBy stamp)
          (insertOutboxRow (Priority_changed event)))"

text \<open>The row of a note is dated by the database.\<close>

definition addNote ::
  "authority \<Rightarrow> date \<Rightarrow> inbox_item \<Rightarrow> inbox_note \<Rightarrow> item_fact \<Rightarrow> inbox_note item_txn" where
  "addNote authorize dbNow item note event =
     seq (assertCommandAuthority authorize (item_organizationId item) (note_createdAt note)
           (authorityRequirements item (actorPrincipals item (Some event) [])))
       (\<lambda>_. seq (updateItemRow item (\<lambda>i. i\<lparr>item_updatedAt := note_createdAt note\<rparr>)
             ''Inbox item note update failed'')
         (\<lambda>_. let stored = note\<lparr>note_createdAt := dbNow\<rparr> in
           seq (modify (\<lambda>r. r\<lparr>row_notes := row_notes r @ [stored]\<rparr>))
             (\<lambda>_. seq (insertOutboxRow (Note_added event (note_id note))) (\<lambda>_. ret stored))))"

section \<open>Assignment\<close>

definition assignment_reason_of ::
  "inbox_item \<Rightarrow> string option \<Rightarrow> assignment_fact \<Rightarrow> assignment_reason" where
  "assignment_reason_of item assignee event =
     (if assignedTo item = None
      then (if assignee = if_userId event then AR_claim else AR_assign)
      else if assignee = None then AR_release else AR_reassign)"

definition assign ::
  "authority \<Rightarrow> inbox_item \<Rightarrow> string option \<Rightarrow> assignment_event option \<Rightarrow> date \<Rightarrow> inbox_item item_txn"
where
  "assign authorize item assignee event stamp =
     (let ev = map_option assignment_fact_of event;
          actor = webActorId ev;
          touchesAnother = (actor \<noteq> None
            \<and> (assignee \<noteq> None \<and> assignee \<noteq> actor
               \<or> assignedTo item \<noteq> None \<and> assignedTo item \<noteq> actor));
          principals = actorPrincipals item ev (if touchesAnother then [''inbox.manage''] else [])
            @ (case assignee of None \<Rightarrow> []
               | Some u \<Rightarrow> [\<lparr>au_userId = u,
                    au_permissions = [''inbox.write'', sourceCommandPermission (item_sourceType item)],
                    au_purpose = For_assignee\<rparr>])
      in seq (assertCommandAuthority authorize (item_organizationId item) stamp
               (authorityRequirements item principals))
        (\<lambda>_. seq (case event of None \<Rightarrow> ret None
               | Some _ \<Rightarrow> seq (currentAssignmentCycleNumber item) (\<lambda>n. ret (Some n)))
          (\<lambda>cycle. seq (updateItemRow item
                (\<lambda>i. i\<lparr>assignedTo := assignee, item_updatedAt := stamp\<rparr>)
                ''Inbox item assignment update failed'')
            (\<lambda>row. case event of
               None \<Rightarrow> ret row
             | Some e \<Rightarrow>
                 seq (insert_assignment
                       \<lparr>as_commandRevision = commandRevision row,
                        as_organizationId = item_organizationId item,
                        as_propertyId = item_propertyId item, handlingCycleNumber = cycle,
                        previousAssignee = assignedTo item, nextAssignee = assignee,
                        as_reason = assignment_reason_of item assignee (assignment_fact_of e),
                        as_actorUserId = if_userId (assignment_fact_of e), as_bulkId = None,
                        as_occurredAt = stamp\<rparr>)
                   (\<lambda>_. seq (insertAssignmentFact e (commandRevision row)) (\<lambda>_. ret row))))))"

text \<open>The fact of an assignment a command takes away, or makes.\<close>

definition assignment_fact_for ::
  "inbox_item \<Rightarrow> string option \<Rightarrow> string option \<Rightarrow> string option \<Rightarrow> string option \<Rightarrow> date \<Rightarrow> assignment_fact"
where
  "assignment_fact_for item actor assignee previous bulk occurred =
     \<lparr>if_inboxItemId = item_id item, if_organizationId = item_organizationId item,
      if_propertyId = Some (item_propertyId item), if_userId = actor, if_source = From_web,
      if_occurredAt = occurred, af_assignedTo = assignee, af_previousAssignee = previous,
      af_bulkId = bulk, af_commandRevision = None\<rparr>"

datatype bulk_assignment = Bulk_unchanged | Bulk_moved assignment_reason "string option"

definition applyBulkAssignmentToItem ::
  "inbox_item \<Rightarrow> inbox_item \<Rightarrow> handling_head option \<Rightarrow> string option \<Rightarrow> string \<Rightarrow> string \<Rightarrow> date
     \<Rightarrow> bulk_assignment item_txn" where
  "applyBulkAssignmentToItem item currentRow headRow assignee actor bulk occurred =
     (let previous = nonempty (assignedTo currentRow) in
      if previous = assignee then ret Bulk_unchanged
      else seq (must (tryUpdateItemRow (itemFromRow currentRow)
                  (\<lambda>i. i\<lparr>assignedTo := assignee, item_updatedAt := occurred\<rparr>))
                (refused IE_revision_conflict
                   ''Inbox item changed while its bulk assignment lock was held''))
        (\<lambda>row. let f = assignment_fact_for item (Some actor) assignee previous (Some bulk) occurred in
           seq (insert_assignment
                 \<lparr>as_commandRevision = commandRevision row,
                  as_organizationId = item_organizationId item,
                  as_propertyId = item_propertyId item,
                  handlingCycleNumber = map_option currentCycleNumber headRow,
                  previousAssignee = previous, nextAssignee = assignee,
                  as_reason = bulkAssignmentReason assignee previous actor,
                  as_actorUserId = Some actor, as_bulkId = Some bulk, as_occurredAt = occurred\<rparr>)
             (\<lambda>_. seq (insertAssignmentFact
                    (if falsy_id assignee then Unassigned f else Assigned f) (commandRevision row))
               (\<lambda>_. ret (Bulk_moved
                    (if assignee = None then AR_release
                     else if previous = None then AR_assign else AR_reassign) previous)))))"

section \<open>Reopening by hand\<close>

text \<open>An assignee who may no longer handle the item is dropped; a changed contract is a conflict.\<close>

definition resolveReopenAssignee ::
  "authority \<Rightarrow> string \<Rightarrow> inbox_item \<Rightarrow> inbox_item \<Rightarrow> string \<Rightarrow> date
     \<Rightarrow> (string option \<times> assignment_event option) item_txn" where
  "resolveReopenAssignee authorize message item itemRow actor instant =
     (case assignedTo itemRow of
        None \<Rightarrow> ret (None, None)
      | Some assignee \<Rightarrow>
          (case authorize (item_organizationId itemRow) instant
                  [\<lparr>au_userId = assignee,
                    au_permissions = [''inbox.write'', sourceCommandPermission (item_sourceType itemRow)],
                    au_purpose = For_assignee, au_propertyId = item_propertyId itemRow\<rparr>] of
             Allowed \<Rightarrow> ret (Some assignee, None)
           | Denied reason \<Rightarrow>
               if authority_contract_changed reason
               then refuse (Refused (inboxError IE_revision_conflict message
                      [(''authorityReason'', JStr reason)]))
               else ret (None, Some (Unassigned
                      (assignment_fact_for item (Some actor) None (Some assignee) None instant)))))"

definition dropped_assignment ::
  "inbox_item \<Rightarrow> inbox_item \<Rightarrow> number \<Rightarrow> number \<Rightarrow> string \<Rightarrow> string option \<Rightarrow> date \<Rightarrow> assignment_row" where
  "dropped_assignment item itemRow revision cycle actor bulk occurred =
     \<lparr>as_commandRevision = revision, as_organizationId = item_organizationId item,
      as_propertyId = item_propertyId item, handlingCycleNumber = Some cycle,
      previousAssignee = assignedTo itemRow, nextAssignee = None, as_reason = AR_eligibility_lost,
      as_actorUserId = Some actor, as_bulkId = bulk, as_occurredAt = occurred\<rparr>"

record reopen_command =
  rc_item :: inbox_item
  rc_expected :: review_expectation
  rc_reason :: manual_reason
  rc_explanation :: "js_string option"
  rc_fact :: status_fact
  rc_factEventId :: string
  rc_now :: date
  rc_responseTarget :: "target_anchor option"

definition reopen_fact_matches :: "reopen_command \<Rightarrow> bool" where
  "reopen_fact_matches c =
     (webActorId (Some (rc_fact c)) \<noteq> None
      \<and> if_inboxItemId (rc_fact c) = item_id (rc_item c)
      \<and> if_organizationId (rc_fact c) = item_organizationId (rc_item c)
      \<and> if_propertyId (rc_fact c) = Some (item_propertyId (rc_item c))
      \<and> oldStatus (rc_fact c) = Closed \<and> newStatus (rc_fact c) = Open
      \<and> num_eq (get_time (if_occurredAt (rc_fact c))) (get_time (rc_now c)))"

definition reopen_mismatch :: store_error where
  "reopen_mismatch = refused IE_invalid_input ''Manual reopen fact does not match the Inbox command''"

definition reopen_conflict :: store_error where
  "reopen_conflict =
     refused IE_revision_conflict ''Inbox Handling Cycle changed; reload current state''"

definition lock_item_and_head :: "inbox_item \<Rightarrow> string \<Rightarrow> (inbox_item \<times> handling_head) item_txn" where
  "lock_item_and_head item message =
     seq (inspect (\<lambda>r. (chosen (row_of_item item) (row_item r), chosen (head_of_item item) (row_head r))))
       (\<lambda>found. case found of
          (Some i, Some h) \<Rightarrow> ret (i, h)
        | _ \<Rightarrow> refuse (refused IE_not_found message))"

definition reopened_item :: "number \<Rightarrow> string option \<Rightarrow> date \<Rightarrow> inbox_item \<Rightarrow> inbox_item" where
  "reopened_item revision assignee instant i = i\<lparr>item_status := Open, closedAt := None,
     assignedTo := assignee, commandRevision := revision, item_updatedAt := instant\<rparr>"

definition manual_reopen_input ::
  "handling_head \<Rightarrow> manual_reason \<Rightarrow> js_string option \<Rightarrow> string \<Rightarrow> string \<Rightarrow> date \<Rightarrow> create_next_input" where
  "manual_reopen_input head reason explanation actor trigger instant =
     next_cycle_input head (currentSourceRevision head) Next_manual_reopen (Some reason)
       (Some explanation) (Some actor) Actor_user (Some trigger) instant"

definition reopenReviewCycle ::
  "target_policies \<Rightarrow> authority \<Rightarrow> reopen_command \<Rightarrow> inbox_item item_txn" where
  "reopenReviewCycle env authorize c =
     (let item = rc_item c; instant = rc_now c; e = rc_expected c in
      seq (require (reopen_fact_matches c) reopen_mismatch)
        (\<lambda>_. seq (present (webActorId (Some (rc_fact c))) reopen_mismatch)
          (\<lambda>actor. seq (lock_item_and_head item ''Inbox item or current Handling Cycle was not found'')
            (\<lambda>(itemRow, headRow). seq (require
                  (num_eq (currentCycleNumber headRow) (ex_cycleNumber e)
                   \<and> num_eq (currentSourceRevision headRow) (ex_sourceRevision e)
                   \<and> num_eq (stateRevision headRow) (ex_stateRevision e)
                   \<and> head_status headRow = Closed \<and> item_status itemRow = head_status headRow
                   \<and> num_eq (commandRevision itemRow) (commandRevision item)) reopen_conflict)
              (\<lambda>_. seq (assertCommandAuthority authorize (item_organizationId itemRow) instant
                    (authorityRequirements (itemFromRow itemRow)
                       (actorPrincipals (itemFromRow itemRow) (Some (rc_fact c)) [])))
                (\<lambda>_. seq (assertManualReopenHonest headRow)
                  (\<lambda>_. seq (decide Refused (createNextHandlingCycle
                        (manual_reopen_input headRow (rc_reason c) (rc_explanation c) actor
                           (rc_factEventId c) instant)))
                    (\<lambda>d. seq (resolveReopenAssignee authorize
                          ''Inbox assignment authority changed during reopen'' item itemRow actor instant)
                      (\<lambda>(assignee, unassigned). seq (insertNextHandlingCycleDecision env d instant
                            (Anchored (rc_responseTarget c)) no_marks)
                        (\<lambda>facts. seq (must (update_head
                              (\<lambda>h. organizationId h = item_organizationId item
                                 \<and> currentCycleNumber h = ex_cycleNumber e
                                 \<and> currentSourceRevision h = ex_sourceRevision e
                                 \<and> stateRevision h = ex_stateRevision e \<and> head_status h = Closed)
                              (advance_head (dec_head d)))
                              (refused IE_revision_conflict
                                 ''Inbox Handling Cycle changed during reopen''))
                          (\<lambda>_. seq (must (update_item
                                (\<lambda>i. item_organizationId i = item_organizationId item
                                   \<and> commandRevision i = commandRevision item
                                   \<and> item_status i = Closed)
                                (reopened_item (num_add (commandRevision item) (nint 1)) assignee instant))
                                (refused IE_revision_conflict ''Inbox item changed during reopen''))
                            (\<lambda>saved. seq (case unassigned of None \<Rightarrow> ret ()
                                 | Some _ \<Rightarrow> insert_assignment (dropped_assignment item itemRow
                                     (commandRevision saved) (currentCycleNumber (dec_head d)) actor
                                     None instant))
                              (\<lambda>_. seq (insertOutboxRow (Status_changed (rc_fact c)))
                                (\<lambda>_. seq (insert_facts facts)
                                  (\<lambda>_. seq (case unassigned of None \<Rightarrow> ret ()
                                       | Some u \<Rightarrow> insertAssignmentFact u (commandRevision saved))
                                    (\<lambda>_. ret (itemFromRow saved)))))))))))))))))"

record reopened_cycle =
  rp_inboxItemId :: string
  rp_propertyId :: string
  rp_sourceType :: source_type
  rp_sourceId :: string
  rp_cycleNumber :: number
  rp_sourceRevision :: number
  rp_stateRevision :: number

definition reopenLockedBulkItem ::
  "target_policies \<Rightarrow> authority \<Rightarrow> inbox_item \<Rightarrow> bulk_status_fact \<Rightarrow> string \<Rightarrow> inbox_item \<Rightarrow> handling_head
     \<Rightarrow> manual_reason \<Rightarrow> js_string option \<Rightarrow> string \<Rightarrow> target_anchor option \<Rightarrow> date \<Rightarrow> reopened_cycle item_txn"
where
  "reopenLockedBulkItem env authorize item event eventId itemRow headRow reason explanation bulk
       responseTarget instant =
     seq (present (webActorId (Some event))
           (refused IE_invalid_input ''Inbox bulk reopen requires an authenticated web actor''))
       (\<lambda>actor. seq (resolveReopenAssignee authorize
             ''Inbox assignment authority changed during bulk reopen'' item itemRow actor instant)
         (\<lambda>(assignee, unassigned). seq (assertManualReopenHonest headRow)
           (\<lambda>_. seq (decide Refused (createNextHandlingCycle
                 (manual_reopen_input headRow reason explanation actor eventId instant)))
             (\<lambda>d. seq (insertNextHandlingCycleDecision env d instant (Anchored responseTarget)
                   \<lparr>mark_bulkId = Some bulk, openedWithItem = False\<rparr>)
               (\<lambda>facts. seq (must (update_head
                     (\<lambda>h. organizationId h = item_organizationId item
                        \<and> currentCycleNumber h = currentCycleNumber headRow
                        \<and> stateRevision h = stateRevision headRow \<and> head_status h = Closed)
                     (advance_head (dec_head d)))
                     (refused IE_revision_conflict ''Inbox Handling Cycle changed during bulk reopen''))
                 (\<lambda>_. seq (must (tryUpdateItemRow (itemFromRow itemRow)
                       (\<lambda>i. i\<lparr>item_status := Open, closedAt := None, assignedTo := assignee,
                              item_updatedAt := instant\<rparr>))
                       (refused IE_revision_conflict
                          ''Inbox item changed while its bulk reopen lock was held''))
                   (\<lambda>row. seq (case unassigned of None \<Rightarrow> ret ()
                        | Some _ \<Rightarrow> insert_assignment (dropped_assignment item itemRow
                            (commandRevision row) (currentCycleNumber (dec_head d)) actor (Some bulk)
                            instant))
                     (\<lambda>_. seq (insert_facts facts)
                       (\<lambda>_. seq (case unassigned of None \<Rightarrow> ret ()
                            | Some u \<Rightarrow> insertAssignmentFact u (commandRevision row))
                         (\<lambda>_. seq (insertOutboxRow (Bulk_status_changed event))
                           (\<lambda>_. ret \<lparr>rp_inboxItemId = item_id item,
                              rp_propertyId = item_propertyId item,
                              rp_sourceType = item_sourceType item,
                              rp_sourceId = item_sourceId item,
                              rp_cycleNumber = currentCycleNumber (dec_head d),
                              rp_sourceRevision = currentSourceRevision (dec_head d),
                              rp_stateRevision = stateRevision (dec_head d)\<rparr>)))))))))))"

end
