(* ===== verification/ReviewStore.thy ===== *)
theory ReviewStore
  imports InboxCommands
begin

text \<open>
  What the events of the other contexts do to one item, from
  \<^verbatim>\<open>src/src/contexts/inbox/infrastructure/inbox-command-store.ts\<close>: the projection of a Review with its
  catch-up over attested revisions, the end of a source, the reply that Google shows or has lost
  (\<^verbatim>\<open>review-reply-close.ts\<close>), and the submission and withdrawal of private feedback.

  Each definition is the body of a consumer's transaction after its receipt is reserved, for an
  item that exists; the answers say what becomes of the receipt. The source side has been decided
  by Review or Guest, whose permits are arguments.
\<close>

section \<open>Catching up with a Review\<close>

definition lockReviewProjectionRows :: "inbox_item \<Rightarrow> (inbox_item \<times> handling_head) item_txn" where
  "lockReviewProjectionRows item =
     seq (inspect (\<lambda>r.
           (chosen (\<lambda>i. item_organizationId i = item_organizationId item
                 \<and> item_propertyId i = item_propertyId item \<and> item_sourceType i = Src_review
                 \<and> item_sourceId i = item_sourceId item) (row_item r),
            chosen (\<lambda>h. organizationId h = item_organizationId item \<and> sourceType h = Src_review
                 \<and> sourceId h = item_sourceId item) (row_head r))))
       (\<lambda>found. case found of
          (Some i, Some h) \<Rightarrow> ret (i, h)
        | _ \<Rightarrow> refuse (refused IE_not_found
              ''Review Inbox projection is waiting for its item and Handling Cycle''))"

definition projection_conflict :: "string \<Rightarrow> store_error" where
  "projection_conflict message = refused IE_revision_conflict message"

definition catch_up_one ::
  "target_policies \<Rightarrow> inbox_item \<Rightarrow> projection_revision \<Rightarrow> bool \<Rightarrow> handling_head \<Rightarrow> bool
     \<Rightarrow> handling_head item_txn" where
  "catch_up_one env item rv active head withItemCreation =
     (if sourceEpochCarry rv
      then must (advanceHeadAcrossSourceEpochCarry item head (currentSourceRevision head))
             (projection_conflict ''Inbox Review projection changed during source-epoch carry'')
      else
        seq (decide Refused (createNextHandlingCycle
              (next_cycle_input head (ra_materialReviewRevision rv) Next_material_revision_changed
                 None None None Actor_provider None (observedAt rv))))
          (\<lambda>d. seq (insertNextHandlingCycleDecision env d (observedAt rv)
                (if active then Anchored (Some (projectionTargetAnchor rv)) else Suppressed)
                \<lparr>mark_bulkId = None, openedWithItem = withItemCreation\<rparr>)
            (\<lambda>facts. seq (must (update_head
                  (\<lambda>h. organizationId h = item_organizationId item
                     \<and> stateRevision h = stateRevision head
                     \<and> currentSourceRevision h = currentSourceRevision head)
                  (advance_head (dec_head d)))
                  (projection_conflict ''Inbox Review projection changed during history catch-up''))
              (\<lambda>_. seq (insert_facts facts) (\<lambda>_. ret (dec_head d))))))"

fun catchUpProjectionRevisions ::
  "target_policies \<Rightarrow> inbox_item \<Rightarrow> projection_revision list \<Rightarrow> bool \<Rightarrow> handling_head \<Rightarrow> bool
     \<Rightarrow> (handling_head \<times> bool) item_txn" where
  "catchUpProjectionRevisions env item [] active head withItemCreation = ret (head, False)"
| "catchUpProjectionRevisions env item (rv # rvs) active head withItemCreation =
     (if num_le (ra_materialReviewRevision rv) (currentSourceRevision head)
      then catchUpProjectionRevisions env item rvs active head withItemCreation
      else if \<not> num_eq (ra_materialReviewRevision rv) (num_add (currentSourceRevision head) (nint 1))
      then refuse (projection_conflict ''Inbox Review projection has a Material Revision gap'')
      else seq (catch_up_one env item rv active head withItemCreation)
        (\<lambda>head'. seq (catchUpProjectionRevisions env item rvs active head' withItemCreation)
          (\<lambda>(final, _). ret (final, True))))"

definition closeCycleForErasedSource ::
  "inbox_item \<Rightarrow> handling_head \<Rightarrow> date \<Rightarrow> handling_head item_txn" where
  "closeCycleForErasedSource item head erasedAt =
     seq (cancelResponseTargetForCycle (currentCycleNumber head) (organizationId head) erasedAt
           Cancel_source_ineligible)
       (\<lambda>_. seq (decide Refused (closeHandlingCycle
             (close_of head CR_source_ineligible Actor_provider None None erasedAt)))
         (\<lambda>(closed_head, t). seq (insert_transition t)
           (\<lambda>_. seq (must (update_head
                 (\<lambda>h. organizationId h = item_organizationId item
                    \<and> stateRevision h = stateRevision head \<and> head_status h = Open)
                 (settle_head closed_head))
                 (projection_conflict ''Inbox Review projection changed during inactive-source close''))
             (\<lambda>_. seq (insertOutboxRow (lifecycleFactFor t no_marks)) (\<lambda>_. ret closed_head)))))"

definition capped_revision :: "number \<Rightarrow> number" where
  "capped_revision n =
     (let next = num_add n (nint 1)
      in if num_lt (nint max_safe_integer) next then nint max_safe_integer else next)"

definition converged_item ::
  "inbox_projection \<Rightarrow> inbox_status \<Rightarrow> date option \<Rightarrow> date \<Rightarrow> inbox_item \<Rightarrow> inbox_item" where
  "converged_item p finalStatus closing instant i =
     (let changed = (sourceDate i \<noteq> ip_sourceDate p \<or> platform i \<noteq> Some (ip_platform p)
            \<or> item_status i \<noteq> finalStatus \<or> closedAt i \<noteq> closing \<or> item_rating i \<noteq> None
            \<or> snippet i \<noteq> None \<or> reviewerName i \<noteq> None)
      in i\<lparr>sourceDate := ip_sourceDate p, platform := Some (ip_platform p), item_rating := None,
           snippet := None, reviewerName := None, item_status := finalStatus, closedAt := closing,
           commandRevision := (if changed then capped_revision (commandRevision i)
                               else commandRevision i),
           item_updatedAt := (if changed then instant else item_updatedAt i)\<rparr>)"

definition convergeProjectedItemRow ::
  "inbox_item \<Rightarrow> inbox_item \<Rightarrow> inbox_projection \<Rightarrow> inbox_status \<Rightarrow> date \<Rightarrow> unit item_txn" where
  "convergeProjectedItemRow item itemRow p finalStatus instant =
     (let closing = (if finalStatus = Closed
            then (if sourceContentState p = Sc_active then closedAt itemRow
                  else sourceContentErasedAt p) else None)
      in seq (must (update_item
               (\<lambda>i. item_organizationId i = item_organizationId item
                  \<and> item_propertyId i = item_propertyId item \<and> item_sourceType i = Src_review
                  \<and> item_sourceId i = item_sourceId item)
               (converged_item p finalStatus closing instant))
               (refused IE_not_found ''Review Inbox item vanished during projection convergence''))
           (\<lambda>_. ret ()))"

definition erased_status_fact :: "inbox_item \<Rightarrow> date \<Rightarrow> status_fact" where
  "erased_status_fact item erasedAt =
     \<lparr>if_inboxItemId = item_id item, if_organizationId = item_organizationId item,
      if_propertyId = Some (item_propertyId item), if_userId = None, if_source = From_web,
      if_occurredAt = erasedAt, oldStatus = Open, newStatus = Closed\<rparr>"

text \<open>The projection of a Review onto an item that is there; \<open>created\<close> says it was just inserted.\<close>

definition project_review ::
  "target_policies \<Rightarrow> projection_command \<Rightarrow> inbox_item \<Rightarrow> bool \<Rightarrow> bool item_txn" where
  "project_review env c item created =
     (let p = projection c; active = (sourceContentState p = Sc_active) in
      seq (lockReviewProjectionRows item)
        (\<lambda>(itemRow, headRow). seq (require
              (\<not> num_lt (currentMaterialReviewRevision' p) (currentSourceRevision headRow))
              (projection_conflict ''Inbox Review projection is ahead of Review authority''))
          (\<lambda>_. seq (catchUpProjectionRevisions env item (revisions p) active headRow created)
            (\<lambda>(head, advanced).
             let erased = (if active then None else sourceContentErasedAt p) in
             seq (case (head_status head, erased) of
                    (Open, Some t) \<Rightarrow> seq (closeCycleForErasedSource item head t)
                       (\<lambda>h. ret (h, True))
                  | _ \<Rightarrow> ret (head, False))
               (\<lambda>(final, ended). seq (case (item_status itemRow, erased) of
                      (Open, Some t) \<Rightarrow>
                        insertOutboxRow (Status_changed (erased_status_fact item t))
                    | _ \<Rightarrow> ret ())
                 (\<lambda>_. seq (convergeProjectedItemRow item itemRow p (head_status final) (pc_now c))
                   (\<lambda>_. ret (created \<or> advanced \<or> ended))))))))"

section \<open>The end of a source\<close>

record source_transition_command =
  st_eventId :: string
  st_consumerName :: string
  st_item :: inbox_item
  transitionedAt' :: date
  closeIfOpen :: bool
  st_closeReason :: "close_reason option"
  st_closeFact :: status_fact

definition closing_fact_matches :: "status_fact \<Rightarrow> inbox_item \<Rightarrow> date \<Rightarrow> bool" where
  "closing_fact_matches f item instant =
     (if_inboxItemId f = item_id item \<and> if_organizationId f = item_organizationId item
      \<and> if_propertyId f = Some (item_propertyId item) \<and> oldStatus f = Open \<and> newStatus f = Closed
      \<and> num_eq (get_time (if_occurredAt f)) (get_time instant))"

definition closeCycleForSourceTransition ::
  "source_transition_command \<Rightarrow> handling_head \<Rightarrow> inbox_fact item_txn" where
  "closeCycleForSourceTransition c head =
     seq (cancelResponseTargetForCycle (currentCycleNumber head) (organizationId head)
           (transitionedAt' c) Cancel_source_ineligible)
       (\<lambda>_. seq (decide Refused (closeHandlingCycle
             (close_of head (case st_closeReason c of Some r \<Rightarrow> r | None \<Rightarrow> CR_source_ineligible)
                Actor_provider None (Some (st_eventId c)) (transitionedAt' c))))
         (\<lambda>(closed_head, t). seq (insert_transition t)
           (\<lambda>_. seq (must (update_head
                 (\<lambda>h. organizationId h = item_organizationId (st_item c)
                    \<and> stateRevision h = stateRevision head \<and> head_status h = Open)
                 (settle_head closed_head))
                 (refused IE_revision_conflict
                    ''Review Handling Cycle changed during source transition''))
             (\<lambda>_. ret (lifecycleFactFor t no_marks)))))"

definition scrubbed_item :: "bool \<Rightarrow> date \<Rightarrow> inbox_item \<Rightarrow> inbox_item" where
  "scrubbed_item closeItem instant i =
     (if closeItem then i\<lparr>item_status := Closed, closedAt := Some instant\<rparr> else i)
       \<lparr>item_rating := None, snippet := None, reviewerName := None,
        commandRevision := capped_revision (commandRevision i), item_updatedAt := instant\<rparr>"

definition scrubTransitionedItemRow ::
  "source_transition_command \<Rightarrow> inbox_item \<Rightarrow> bool \<Rightarrow> unit item_txn" where
  "scrubTransitionedItemRow c row closeItem =
     seq (must (update_item
           (\<lambda>i. item_organizationId i = item_organizationId row \<and> item_sourceType i = Src_review)
           (scrubbed_item closeItem (transitionedAt' c)))
           (refused IE_not_found ''Review Inbox item vanished during source transition''))
       (\<lambda>_. ret ())"

definition end_review_source :: "source_transition_command \<Rightarrow> unit item_txn" where
  "end_review_source c =
     (let item = st_item c in
      seq (inspect (\<lambda>r. chosen (\<lambda>h. organizationId h = item_organizationId item
             \<and> sourceType h = Src_review \<and> sourceId h = item_sourceId item) (row_head r)))
        (\<lambda>head. seq (require (closeIfOpen c \<longrightarrow> head \<noteq> None)
              (refused IE_not_found ''Review source transition is waiting for its Handling Cycle''))
          (\<lambda>_. seq (inspect (\<lambda>r. chosen (\<lambda>i. item_organizationId i = item_organizationId item
                 \<and> item_propertyId i = item_propertyId item \<and> item_sourceType i = Src_review
                 \<and> item_sourceId i = item_sourceId item) (row_item r)))
            (\<lambda>row. case row of
               None \<Rightarrow> ret ()
             | Some i \<Rightarrow>
                 let shouldCloseItem = (closeIfOpen c \<and> item_status i = Open);
                     openHead = (if closeIfOpen c then chosen (\<lambda>h. head_status h = Open) head
                                 else None);
                     needsScrub = (item_rating i \<noteq> None \<or> snippet i \<noteq> None \<or> reviewerName i \<noteq> None)
                 in if \<not> shouldCloseItem \<and> openHead = None \<and> \<not> needsScrub then ret ()
                    else
                      seq (case openHead of None \<Rightarrow> ret None
                           | Some h \<Rightarrow> seq (closeCycleForSourceTransition c h) (\<lambda>f. ret (Some f)))
                        (\<lambda>cycleFact. seq (scrubTransitionedItemRow c i shouldCloseItem)
                          (\<lambda>_. seq (if shouldCloseItem
                                then insertOutboxRow (Status_changed (st_closeFact c)) else ret ())
                            (\<lambda>_. case cycleFact of None \<Rightarrow> ret () | Some f \<Rightarrow> insertOutboxRow f)))))))"

section \<open>The reply Google shows\<close>

definition observation_conflict :: store_error where
  "observation_conflict = refused IE_revision_conflict
     ''Review Inbox Handling Cycle is not current for this observation''"

definition lockReviewRowsForObservation ::
  "inbox_item \<Rightarrow> reply_observation \<Rightarrow> (inbox_item \<times> handling_head) item_txn" where
  "lockReviewRowsForObservation item ob =
     seq (inspect (\<lambda>r.
           (chosen (\<lambda>i. item_organizationId i = item_organizationId item
                 \<and> item_propertyId i = ro_propertyId ob \<and> item_sourceType i = Src_review
                 \<and> item_sourceId i = ro_reviewId ob) (row_item r),
            chosen (\<lambda>h. organizationId h = item_organizationId item \<and> sourceType h = Src_review
                 \<and> sourceId h = ro_reviewId ob) (row_head r))))
       (\<lambda>found. case found of
          (Some i, Some h) \<Rightarrow>
            seq (require (item_status i = head_status h) observation_conflict)
              (\<lambda>_. if num_eq (currentSourceRevision h) (ro_materialReviewRevision ob) then ret (i, h)
               else seq (must (inspect (\<lambda>_. chosen (\<lambda>k. num_eq (currentSourceRevision h) k
                        \<and> num_eq (ro_materialReviewRevision ob) (num_add k (nint 1)))
                        (sourceEpochCarryFrom ob))) observation_conflict)
                 (\<lambda>carriedFrom. seq (must (advanceHeadAcrossSourceEpochCarry item h carriedFrom)
                       (refused IE_revision_conflict
                          ''Review Inbox Handling Cycle changed during source-epoch carry''))
                   (\<lambda>h'. ret (i, h'))))
        | _ \<Rightarrow> refuse (refused IE_not_found ''Review Inbox item or Handling Cycle head not found''))"

definition answered_item :: "reply_observation \<Rightarrow> bool \<Rightarrow> date \<Rightarrow> date \<Rightarrow> inbox_item \<Rightarrow> inbox_item" where
  "answered_item ob first replied recorded i =
     (if first then i\<lparr>firstReplyPublishedAt := Some replied\<rparr> else i)
       \<lparr>item_status := Closed, closedAt := Some (ro_observedAt ob),
        commandRevision := num_add (commandRevision i) (nint 1), item_updatedAt := recorded\<rparr>"

definition reply_close_reason :: "reply_observation \<Rightarrow> close_reason" where
  "reply_close_reason ob =
     (if reading_resolution ob = RR_confirmed_on_google then CR_confirmed_on_google
      else CR_external_reply_observed)"

definition closeReviewCycleOnGoogleReply ::
  "inbox_item \<Rightarrow> inbox_item \<Rightarrow> handling_head \<Rightarrow> reply_observation \<Rightarrow> string option \<Rightarrow> date
     \<Rightarrow> (inbox_item \<times> inbox_fact) item_txn" where
  "closeReviewCycleOnGoogleReply item itemRow head ob trigger recorded =
     seq (completeGoogleReviewTarget head (ro_observedAt ob) (providerReplyUpdatedAt ob))
       (\<lambda>(_, replied). seq (decide Refused (closeHandlingCycle
             (close_of head (reply_close_reason ob) Actor_provider None trigger (ro_observedAt ob))))
         (\<lambda>(closed_head, t). seq (insert_transition t)
           (\<lambda>_. seq (must (update_head
                 (\<lambda>h. organizationId h = item_organizationId item
                    \<and> stateRevision h = stateRevision head \<and> head_status h = Open)
                 (settle_head closed_head))
                 (refused IE_revision_conflict ''Review Handling Cycle changed during reply close''))
             (\<lambda>_. seq (must (update_item
                   (\<lambda>i. item_organizationId i = item_organizationId item \<and> item_status i = Open)
                   (answered_item ob (firstReplyPublishedAt itemRow = None) replied recorded))
                   (refused IE_revision_conflict ''Inbox item changed during reply close''))
               (\<lambda>saved. ret (itemFromRow saved, lifecycleFactFor t no_marks))))))"

record reply_observed_command =
  ob_eventId :: string
  ob_consumerName :: string
  ob_item :: inbox_item
  currentObservation :: reply_observation
  ob_closeFact :: status_fact
  ob_reopenFact :: status_fact

definition closeCycleOnObservedReply ::
  "reply_observed_command \<Rightarrow> inbox_item \<Rightarrow> handling_head \<Rightarrow> unit item_txn" where
  "closeCycleOnObservedReply c itemRow head =
     seq (closeReviewCycleOnGoogleReply (ob_item c) itemRow head (currentObservation c)
           (Some (ob_eventId c)) (ro_observedAt (currentObservation c)))
       (\<lambda>(_, cycleFact). seq (insertOutboxRow (Status_changed (ob_closeFact c)))
         (\<lambda>_. insertOutboxRow cycleFact))"

definition operational_anchor :: "reply_observation \<Rightarrow> target_anchor" where
  "operational_anchor ob =
     \<lparr>reviewAuthority = \<lparr>ra_authority = Auth_current_target,
        ra_organizationId = ro_organizationId ob, ra_propertyId = ro_propertyId ob,
        ra_reviewId = ro_reviewId ob, ra_sourceEpoch = ro_sourceEpoch ob,
        ra_materialReviewRevision = ro_materialReviewRevision ob,
        ra_eligibility = responseTargetEligibility ob,
        ra_responseTargetStartAt = responseTargetStartAt ob, ra_rating = ro_rating ob\<rparr>,
      targetStart = Operational_reopen (ro_observedAt ob)\<rparr>"

definition reopenCycleOnDeletedReply ::
  "target_policies \<Rightarrow> reply_observed_command \<Rightarrow> handling_head \<Rightarrow> unit item_txn" where
  "reopenCycleOnDeletedReply env c head =
     (let ob = currentObservation c; item = ob_item c in
      seq (decide Refused (createNextHandlingCycle
            (next_cycle_input head (ro_materialReviewRevision ob) Next_provider_reply_deleted None
               None None Actor_provider (Some (ob_eventId c)) (ro_observedAt ob))))
        (\<lambda>d. seq (insertNextHandlingCycleDecision env d (ro_observedAt ob)
              (Anchored (Some (operational_anchor ob))) no_marks)
          (\<lambda>facts. seq (must (update_head
                (\<lambda>h. stateRevision h = stateRevision head \<and> head_status h = Closed)
                (advance_head (dec_head d)))
                (refused IE_revision_conflict
                   ''Review Handling Cycle changed during provider reopen''))
            (\<lambda>_. seq (must (update_item
                  (\<lambda>i. item_organizationId i = item_organizationId item \<and> item_status i = Closed)
                  (\<lambda>i. i\<lparr>item_status := Open, closedAt := None,
                         commandRevision := num_add (commandRevision i) (nint 1),
                         item_updatedAt := ro_observedAt ob\<rparr>))
                  (refused IE_revision_conflict ''Inbox item changed during provider reopen''))
              (\<lambda>_. seq (insertOutboxRow (Status_changed (ob_reopenFact c)))
                (\<lambda>_. insert_facts facts))))))"

definition reply_lost :: "reply_observation \<Rightarrow> bool" where
  "reply_lost ob =
     (reviewSourceContentState ob = Sc_active \<and> reading_state ob = RS_absent
      \<and> change ob = Change_deleted \<and> reading_resolution ob = RR_absent)"

definition observe_reply :: "target_policies \<Rightarrow> reply_observed_command \<Rightarrow> unit item_txn" where
  "observe_reply env c =
     (let ob = currentObservation c in
      seq (decide Refused (assertObservationMatchesItem ob (ob_item c)))
        (\<lambda>_. seq (lockReviewRowsForObservation (ob_item c) ob)
          (\<lambda>(itemRow, head).
             if isAnsweringGoogleReply ob \<and> item_status itemRow = Open
             then closeCycleOnObservedReply c itemRow head
             else if reply_lost ob \<and> item_status itemRow = Closed
             then reopenCycleOnDeletedReply env c head
             else ret ())))"

section \<open>Private feedback\<close>

record source_created_command =
  sc_eventId :: string
  sc_consumerName :: string
  sc_item :: inbox_item
  sc_fact :: created_fact
  sc_cycleAnchor :: "creation_anchor option"

text \<open>\<open>None\<close> when the stored head is already at or past the submitted revision.\<close>

definition openNextFeedbackCycleOnResubmission ::
  "target_policies \<Rightarrow> source_created_command \<Rightarrow> creation_anchor \<Rightarrow> date \<Rightarrow> inbox_item
     \<Rightarrow> inbox_fact list option item_txn" where
  "openNextFeedbackCycleOnResubmission env c anchor opened item =
     seq (inspect (\<lambda>r. chosen (\<lambda>h. organizationId h = item_organizationId item
            \<and> sourceType h = Src_feedback \<and> sourceId h = item_sourceId item) (row_head r)))
       (\<lambda>found. case chosen (\<lambda>h. \<not> num_le (an_sourceRevision anchor) (currentSourceRevision h)) found of
          None \<Rightarrow> ret None
        | Some head \<Rightarrow>
            seq (decide Refused (createNextHandlingCycle
                  (next_cycle_input head (an_sourceRevision anchor) Next_feedback_submitted None None
                     None Actor_guest (Some (sc_eventId c)) opened)))
              (\<lambda>d. seq (insertNextHandlingCycleDecision env d opened (Anchored None) no_marks)
                (\<lambda>facts. seq (must (update_head
                      (\<lambda>h. stateRevision h = stateRevision head
                         \<and> currentSourceRevision h = currentSourceRevision head)
                      (advance_head (dec_head d)))
                      (refused IE_revision_conflict
                         ''Guest Handling Cycle changed during feedback submission''))
                  (\<lambda>_. seq (update_item
                        (\<lambda>i. item_organizationId i = item_organizationId item
                           \<and> item_sourceType i = Src_feedback \<and> item_sourceId i = item_sourceId item)
                        (\<lambda>i. i\<lparr>item_status := Open, closedAt := None,
                               sourceDate := sourceDate (sc_item c),
                               commandRevision := num_add (commandRevision i) (nint 1),
                               item_updatedAt := item_updatedAt (sc_item c)\<rparr>))
                    (\<lambda>_. seq (insert_facts facts) (\<lambda>_. ret (Some facts)))))))"

record source_withdrawn_command =
  sw_eventId :: string
  sw_consumerName :: string
  sw_item :: inbox_item
  sw_sourceRevision :: "number option"
  sw_now :: date
  sw_fact :: status_fact

text \<open>What a withdrawal comes to: an obsolete one restates its receipt only for a revision that moved.\<close>

datatype withdrawal_answer = Withdrawal_applied | Withdrawal_no_head | Withdrawal_other_revision

definition withdraw_source :: "source_withdrawn_command \<Rightarrow> withdrawal_answer item_txn" where
  "withdraw_source c =
     (let item = sw_item c; instant = sw_now c in
      seq (inspect (\<lambda>r. chosen (head_of_item item) (row_head r)))
        (\<lambda>found. case found of
           None \<Rightarrow> ret Withdrawal_no_head
         | Some head \<Rightarrow>
             if (case sw_sourceRevision c of None \<Rightarrow> False
                 | Some n \<Rightarrow> \<not> num_eq (currentSourceRevision head) n)
             then ret Withdrawal_other_revision
             else if head_status head = Closed then ret Withdrawal_applied
             else
               seq (decide Refused (closeHandlingCycle
                     (close_of head CR_guest_withdrawn Actor_guest None (Some (sw_eventId c)) instant)))
                 (\<lambda>(closed_head, t). seq (if sourceType head = Src_feedback
                       then cancelPrivateFeedbackTarget head instant else ret ())
                   (\<lambda>_. seq (insert_transition t)
                     (\<lambda>_. seq (must (update_head
                           (\<lambda>h. organizationId h = item_organizationId item
                              \<and> stateRevision h = stateRevision head \<and> head_status h = Open)
                           (settle_head closed_head))
                           (refused IE_revision_conflict ''Handling Cycle changed during withdrawal''))
                       (\<lambda>_. seq (must (update_item (row_of_item item)
                             (\<lambda>i. i\<lparr>item_status := Closed, closedAt := Some instant,
                                    commandRevision := num_add (commandRevision i) (nint 1),
                                    item_updatedAt := instant\<rparr>))
                             (refused IE_revision_conflict ''Inbox item changed during withdrawal''))
                         (\<lambda>_. seq (insertOutboxRow (Status_changed (sw_fact c)))
                           (\<lambda>_. seq (insertOutboxRow (lifecycleFactFor t no_marks))
                             (\<lambda>_. ret Withdrawal_applied)))))))))"

end
