(* ===== verification/ReminderStore.thy ===== *)
theory ReminderStore
  imports TargetStore
begin

text \<open>
  The reminder slots of an item: which are due, and how one is delivered
  (\<^verbatim>\<open>src/src/contexts/inbox/infrastructure/response-target-reminder-release.store.ts\<close>), and how a cycle
  that a restated revision opened is taken out of reporting
  (\<^verbatim>\<open>restated-revision-target-exclusion.store.ts\<close>).

  A due slot is a reminder joined with its target and the head, as the query joins them. The join
  is taken within one item; the pass over all items is in \<open>InboxStore\<close>.
\<close>

definition MAX_REMINDER_BATCH :: int where
  "MAX_REMINDER_BATCH = 100"

definition assertBatchLimit :: "number \<Rightarrow> (inbox_error, unit) result" where
  "assertBatchLimit limit =
     (if \<not> is_safe_integer limit \<or> num_lt limit (nint 1) \<or> num_lt (nint MAX_REMINDER_BATCH) limit
      then err (inboxError IE_invalid_input ''Reminder batch limit must be 1-100'' [])
      else ok ())"

record slot_key =
  sk_cycleNumber :: number
  sk_reminderKind :: reminder_kind

type_synonym due_slot = "reminder_row \<times> target_row"

definition due_join ::
  "date \<Rightarrow> item_rows \<Rightarrow> handling_head \<Rightarrow> reminder_row \<Rightarrow> target_row \<Rightarrow> bool" where
  "due_join now r head m t =
     (num_le (get_time (rm_scheduledFor m)) (get_time now) \<and> pending m
      \<and> rm_cycleNumber m \<notin> set (row_exclusions r)
      \<and> tg_cycleNumber t = rm_cycleNumber m \<and> tg_completionAt t = None
      \<and> performanceEligibility t = Measured
      \<and> currentCycleNumber head = rm_cycleNumber m \<and> head_status head = Open)"

definition selectDueSlots :: "date \<Rightarrow> (reminder_row \<Rightarrow> bool) \<Rightarrow> item_rows \<Rightarrow> due_slot list" where
  "selectDueSlots now key r =
     (case row_head r of
        None \<Rightarrow> []
      | Some head \<Rightarrow>
          [(m, t). m \<leftarrow> row_reminders r, key m, t \<leftarrow> row_targets r, due_join now r head m t])"

definition matches_key :: "slot_key \<Rightarrow> reminder_row \<Rightarrow> bool" where
  "matches_key k m = (rm_cycleNumber m = sk_cycleNumber k \<and> rm_kind m = sk_reminderKind k)"

datatype slot_release = Slot_skipped | Slot_cancelled_superseded | Slot_released

definition due_fact :: "string \<Rightarrow> reminder_row \<Rightarrow> date \<Rightarrow> reminder_due_fact" where
  "due_fact item m now =
     \<lparr>rf_inboxItemId = item, rf_cycleNumber = rm_cycleNumber m,
      rf_organizationId = rm_organizationId m, rf_propertyId = rm_propertyId m,
      rf_targetKind = rm_targetKind m, rf_reminderKind = rm_kind m,
      rf_scheduledFor = rm_scheduledFor m, rf_occurredAt = now\<rparr>"

definition settled_slot :: "bool \<Rightarrow> date \<Rightarrow> reminder_row \<Rightarrow> reminder_row" where
  "settled_slot superseded now m =
     (if superseded then m\<lparr>cancelledAt := Some now\<rparr> else m\<lparr>deliveredAt := Some now\<rparr>)"

definition settleLockedSlot :: "string \<Rightarrow> due_slot \<Rightarrow> date \<Rightarrow> slot_release item_txn" where
  "settleLockedSlot item slot now =
     (let (m, t) = slot;
          superseded = (case tg_dueAt t of None \<Rightarrow> False
             | Some due \<Rightarrow> isSupersededReminder (rm_kind m) due now);
          hit = (\<lambda>x. reminder_key x = reminder_key m \<and> pending x)
      in seq (inspect (\<lambda>r. filter hit (row_reminders r)))
        (\<lambda>saved. if saved = [] then ret Slot_skipped
         else seq (require (\<forall>x \<in> set saved. reminder_row_valid (settled_slot superseded now x))
               (Constraint ''inbox_response_target_reminders_values_valid''))
           (\<lambda>_. seq (modify (\<lambda>r. r\<lparr>row_reminders :=
                 map (\<lambda>x. if hit x then settled_slot superseded now x else x) (row_reminders r)\<rparr>))
             (\<lambda>_. if superseded then ret Slot_cancelled_superseded
              else seq (insertOutboxRow (Reminder_due (due_fact item m now)))
                (\<lambda>_. ret Slot_released)))))"

definition releaseReminderSlot :: "string \<Rightarrow> slot_key \<Rightarrow> date \<Rightarrow> slot_release item_txn" where
  "releaseReminderSlot item key now =
     seq (inspect (selectDueSlots now (matches_key key)))
       (\<lambda>due. case due of [] \<Rightarrow> ret Slot_skipped | slot # _ \<Rightarrow> settleLockedSlot item slot now)"

section \<open>Taking a cycle out of reporting\<close>

record exclusion_candidate =
  xc_organizationId :: string
  xc_propertyId :: string
  xc_cycleNumber :: number
  xc_reviewId :: string
  xc_revision :: number

datatype exclusion_verdict =
  Refused_cycle_changed | Refused_target_not_measured | Already_excluded nat | Excluded_now nat

definition lockHeadThenItem :: "exclusion_candidate \<Rightarrow> item_rows \<Rightarrow> bool" where
  "lockHeadThenItem c r =
     (chosen (\<lambda>h. organizationId h = xc_organizationId c \<and> propertyId h = xc_propertyId c
         \<and> sourceType h = Src_review \<and> sourceId h = xc_reviewId c) (row_head r) \<noteq> None
      \<and> chosen (\<lambda>i. item_organizationId i = xc_organizationId c \<and> item_sourceType i = Src_review
         \<and> item_sourceId i = xc_reviewId c) (row_item r) \<noteq> None)"

definition cycleStillRecorded :: "exclusion_candidate \<Rightarrow> item_rows \<Rightarrow> bool" where
  "cycleStillRecorded c r =
     (case List.find (\<lambda>x. cycleNumber x = xc_cycleNumber c \<and> organizationId x = xc_organizationId c
           \<and> propertyId x = xc_propertyId c \<and> sourceType x = Src_review
           \<and> sourceId x = xc_reviewId c \<and> sourceRevision x = xc_revision c) (row_cycles r) of
        None \<Rightarrow> False
      | Some x \<Rightarrow> openedReason x = OR_material_revision_changed)"

definition lockMeasuredGoogleTarget :: "exclusion_candidate \<Rightarrow> item_rows \<Rightarrow> bool" where
  "lockMeasuredGoogleTarget c r =
     (case List.find (\<lambda>t. tg_cycleNumber t = xc_cycleNumber c
           \<and> organizationId t = xc_organizationId c \<and> propertyId t = xc_propertyId c
           \<and> tg_kind t = Google_review_response) (row_targets r) of
        None \<Rightarrow> False
      | Some t \<Rightarrow> performanceEligibility t = Measured)"

definition pending_slots :: "exclusion_candidate \<Rightarrow> item_rows \<Rightarrow> nat" where
  "pending_slots c r = length (filter (\<lambda>m. rm_cycleNumber m = xc_cycleNumber c
     \<and> rm_organizationId m = xc_organizationId c \<and> pending m) (row_reminders r))"

definition excludeOne :: "exclusion_candidate \<Rightarrow> date \<Rightarrow> exclusion_verdict item_txn" where
  "excludeOne c instant =
     seq (inspect (\<lambda>r. lockHeadThenItem c r \<and> cycleStillRecorded c r))
       (\<lambda>recorded. if \<not> recorded then ret Refused_cycle_changed
        else seq (inspect (lockMeasuredGoogleTarget c))
          (\<lambda>measured. if \<not> measured then ret Refused_target_not_measured
           else seq (inspect (\<lambda>r. (xc_cycleNumber c \<notin> set (row_exclusions r), pending_slots c r)))
             (\<lambda>(inserted, slots). seq (if inserted
                   then modify (\<lambda>r. r\<lparr>row_exclusions := row_exclusions r @ [xc_cycleNumber c]\<rparr>)
                   else ret ())
               (\<lambda>_. seq (cancel_reminders (\<lambda>m. rm_organizationId m = xc_organizationId c)
                     (xc_cycleNumber c) instant)
                 (\<lambda>_. ret (if inserted then Excluded_now slots else Already_excluded slots))))))"

end
