(* ===== verification/InboxStore.thy ===== *)
theory InboxStore
  imports FeedbackStore ReviewStore ReminderStore
    "HOL-Library.List_Lexorder" "HOL-Library.Char_ord" "HOL-Library.Product_Lexorder"
begin

text \<open>
  The Inbox as a whole: the items by id, the receipts that make a delivery apply once
  (\<^verbatim>\<open>src/src/contexts/inbox/infrastructure/consumer-receipt-rows.ts\<close>), the inserts and the commands
  over several items (\<^verbatim>\<open>inbox-command-store.ts\<close>), and the two passes over all reminder slots.

  A transaction of one item runs \<open>on_item\<close>. Identifiers order as the text of a UUID does.
  A bulk command reads all its rows before it writes the first, so its loop works on the snapshot it
  has locked. The clock of the database dates an insert.
\<close>

section \<open>State\<close>

datatype receipt_status = Receipt_applied | Receipt_duplicate | Receipt_obsolete

record released_property =
  rl_propertyId :: string
  rl_anchorInboxItemId :: string
  rl_count :: nat

record assignment_transition =
  at_inboxItemId :: string
  at_propertyId :: string
  at_previousAssignee :: "string option"
  at_nextAssignee :: "string option"

datatype release_reason = Member_offboarded | Member_became_ineligible

text \<open>The facts of a command over several items; the count each carries is the length of its list.\<close>

datatype org_fact =
    Bulk_reopen_completed string string string "reopened_cycle list" date
  | Bulk_assignment_completed string string string "assignment_transition list" date
  | Assignments_released string "string option" string release_reason "released_property list" date

record inbox_db =
  db_rows :: "string \<Rightarrow> item_rows"
  db_items :: "string list"
  db_receipts :: "string \<times> string \<Rightarrow> receipt_status option"
  db_events :: "string \<Rightarrow> string option"
  db_facts :: "org_fact list"
  db_policies :: target_policies

type_synonym 'a inbox_txn = "(inbox_db, store_error, 'a) txn"

definition on_item :: "string \<Rightarrow> 'a item_txn \<Rightarrow> 'a inbox_txn" where
  "on_item item t db =
     (case t (db_rows db item) of
        Inl e \<Rightarrow> err e
      | Inr (x, r) \<Rightarrow> ok (x, db\<lparr>db_rows := (db_rows db)(item := r)\<rparr>))"

section \<open>Receipts\<close>

definition insertReceiptRow :: "string \<Rightarrow> string \<Rightarrow> receipt_status \<Rightarrow> bool inbox_txn" where
  "insertReceiptRow event consumer status =
     seq (inspect (\<lambda>db. (db_receipts db (event, consumer), db_events db event)))
       (\<lambda>(receipt, stored). if receipt \<noteq> None then ret False
        else seq (require (stored \<noteq> None) (Constraint ''event_consumer_receipts_event_id_fk''))
          (\<lambda>_. seq (modify (\<lambda>db. db\<lparr>db_receipts := (db_receipts db)((event, consumer) \<mapsto> status)\<rparr>))
            (\<lambda>_. ret True)))"

definition reserveReceiptRow :: "string \<Rightarrow> string \<Rightarrow> bool inbox_txn" where
  "reserveReceiptRow event consumer = insertReceiptRow event consumer Receipt_applied"

definition restateReceiptRow :: "string \<Rightarrow> string \<Rightarrow> receipt_status \<Rightarrow> unit inbox_txn" where
  "restateReceiptRow event consumer status =
     modify (\<lambda>db. if db_receipts db (event, consumer) = None then db
        else db\<lparr>db_receipts := (db_receipts db)((event, consumer) \<mapsto> status)\<rparr>)"

definition recordReceipt :: "string \<Rightarrow> string \<Rightarrow> receipt_status \<Rightarrow> unit inbox_txn" where
  "recordReceipt event consumer status =
     seq (insertReceiptRow event consumer status) (\<lambda>_. ret ())"

definition settleSupersededDeliveryRow :: "string \<Rightarrow> string \<Rightarrow> string \<Rightarrow> unit inbox_txn" where
  "settleSupersededDeliveryRow event consumer org =
     modify (\<lambda>db. if db_events db event = Some org \<and> db_receipts db (event, consumer) = None
        then db\<lparr>db_receipts := (db_receipts db)((event, consumer) \<mapsto> Receipt_obsolete)\<rparr> else db)"

section \<open>Creating items\<close>

definition find_by_source :: "inbox_item \<Rightarrow> inbox_db \<Rightarrow> inbox_item option" where
  "find_by_source item db =
     (case List.find (\<lambda>k. chosen (row_of_item item) (row_item (db_rows db k)) \<noteq> None) (db_items db) of
        None \<Rightarrow> None
      | Some k \<Rightarrow> row_item (db_rows db k))"

definition insert_item_row :: "inbox_item \<Rightarrow> unit inbox_txn" where
  "insert_item_row row =
     seq (require (item_row_valid row) (Constraint ''inbox_items''))
       (\<lambda>_. seq (inspect (\<lambda>db. row_item (db_rows db (item_id row)) = None))
         (\<lambda>fresh. seq (require fresh (Constraint ''inbox_items_pkey''))
           (\<lambda>_. modify (\<lambda>db. db\<lparr>db_items := db_items db @ [item_id row],
                 db_rows := (db_rows db)(item_id row := no_rows\<lparr>row_item := Some row\<rparr>)\<rparr>))))"

text \<open>Only private feedback announces its opened cycle; a Review is announced by its item.\<close>

definition opening_facts :: "inbox_item \<Rightarrow> cycle_decision \<Rightarrow> inbox_fact list" where
  "opening_facts item d =
     (if item_sourceType item = Src_feedback
      then map (\<lambda>t. lifecycleFactFor t no_marks) (dec_transitions d) else [])"

record inserted_item =
  ins_item :: inbox_item
  created :: bool
  openingFacts :: "inbox_fact list"

definition insertItemIdempotent ::
  "date \<Rightarrow> inbox_item \<Rightarrow> cycle_anchor option \<Rightarrow> inserted_item inbox_txn" where
  "insertItemIdempotent dbNow item anchor =
     seq (inspect (find_by_source item))
       (\<lambda>found. case found of
          Some row \<Rightarrow> ret \<lparr>ins_item = itemFromRow row, created = False, openingFacts = []\<rparr>
        | None \<Rightarrow>
            let row = inboxItemToInsertRow dbNow item; inserted = itemFromRow row in
            seq (insert_item_row row)
              (\<lambda>_. seq (inspect db_policies)
                (\<lambda>env. seq (case anchor of
                       None \<Rightarrow> ret []
                     | Some a \<Rightarrow> seq (on_item (item_id item) (insertInitialHandlingCycle env inserted
                           (normalizeCreationAnchor inserted a)))
                         (\<lambda>d. ret (opening_facts inserted d)))
                  (\<lambda>fs. ret \<lparr>ins_item = inserted, created = True, openingFacts = fs\<rparr>))))"

definition createItem ::
  "date \<Rightarrow> inbox_item \<Rightarrow> created_fact option \<Rightarrow> cycle_anchor option \<Rightarrow> inserted_item inbox_txn" where
  "createItem dbNow item event anchor =
     seq (insertItemIdempotent dbNow item anchor)
       (\<lambda>ins. seq (case event of
              None \<Rightarrow> ret ()
            | Some f \<Rightarrow> if created ins
                then on_item (item_id (ins_item ins)) (insert_facts (Item_created f # openingFacts ins))
                else ret ())
         (\<lambda>_. ret ins))"

definition assertPermitAnswersNewItem ::
  "reply_observation \<Rightarrow> inbox_item \<Rightarrow> number \<Rightarrow> (inbox_error, unit) result" where
  "assertPermitAnswersNewItem ob item revision =
     (case assertObservationMatchesItem ob item of
        Inl e \<Rightarrow> err e
      | Inr _ \<Rightarrow>
          if item_sourceType item \<noteq> Src_review \<or> \<not> isAnsweringGoogleReply ob
             \<or> \<not> num_eq (ro_materialReviewRevision ob) revision
          then err (inboxError IE_invalid_input
                 ''Review observation permit does not answer the revision this item opens on'' [])
          else ok ())"

definition earlier :: "date \<Rightarrow> date \<Rightarrow> date" where
  "earlier a b = (if num_lt (get_time a) (get_time b) then a else b)"

definition later :: "date \<Rightarrow> date \<Rightarrow> date" where
  "later a b = (if num_lt (get_time b) (get_time a) then a else b)"

definition createReviewItemAnsweredOnGoogle ::
  "date \<Rightarrow> inbox_item \<Rightarrow> number \<Rightarrow> reply_observation \<Rightarrow> date \<Rightarrow> inserted_item inbox_txn" where
  "createReviewItemAnsweredOnGoogle dbNow item revision ob now =
     seq (decide Refused (assertPermitAnswersNewItem ob item revision))
       (\<lambda>_. seq (insertItemIdempotent dbNow item (Some (Canonical
             \<lparr>an_sourceRevision = revision, an_openedReason = First_review_observed,
              an_actorType = Actor_provider, an_triggerEventId = None,
              an_openedAt = Some (earlier (ro_observedAt ob) now), an_responseTarget = Anchored None\<rparr>)))
         (\<lambda>ins. if \<not> created ins then ret ins
          else seq (on_item (item_id (ins_item ins))
                 (seq (lockReviewRowsForObservation (ins_item ins) ob)
                   (\<lambda>(row, head). closeReviewCycleOnGoogleReply (ins_item ins) row head ob None
                      (later (ro_observedAt ob) now))))
            (\<lambda>(item', _). ret \<lparr>ins_item = item', created = True, openingFacts = []\<rparr>)))"

section \<open>Deliveries\<close>

datatype delivery = Delivered | Duplicate | Obsolete

definition default_anchor :: "source_created_command \<Rightarrow> creation_anchor" where
  "default_anchor c =
     (case sc_cycleAnchor c of
        Some a \<Rightarrow> a
      | None \<Rightarrow>
          (let review = (item_sourceType (sc_item c) = Src_review) in
           \<lparr>an_sourceRevision = nint 1,
            an_openedReason = (if review then First_review_observed else First_feedback_submitted),
            an_actorType = (if review then Actor_provider else Actor_guest),
            an_triggerEventId = Some (sc_eventId c),
            an_openedAt = Some (item_createdAt (sc_item c)), an_responseTarget = Anchored None\<rparr>))"

definition opened_instant :: "creation_anchor \<Rightarrow> inbox_item \<Rightarrow> date" where
  "opened_instant anchor item =
     (case an_openedAt anchor of Some t \<Rightarrow> t | None \<Rightarrow> item_createdAt item)"

definition applySourceCreatedOnce :: "date \<Rightarrow> source_created_command \<Rightarrow> delivery inbox_txn" where
  "applySourceCreatedOnce dbNow c =
     seq (reserveReceiptRow (sc_eventId c) (sc_consumerName c))
       (\<lambda>reserved. if \<not> reserved then ret Duplicate
        else
          let anchor = default_anchor c in
          seq (insertItemIdempotent dbNow (sc_item c) (Some (Canonical anchor)))
            (\<lambda>ins. let item = ins_item ins in
             if created ins
             then seq (on_item (item_id item) (insert_facts (Item_created (sc_fact c) # openingFacts ins)))
               (\<lambda>_. ret Delivered)
             else seq (inspect db_policies)
               (\<lambda>env. seq (if item_sourceType (sc_item c) = Src_feedback
                        \<and> an_openedReason anchor = First_feedback_submitted
                     then on_item (item_id item) (openNextFeedbackCycleOnResubmission env c anchor
                            (opened_instant anchor (sc_item c)) item)
                     else ret None)
                 (\<lambda>resubmitted. if resubmitted \<noteq> None then ret Delivered
                  else seq (restateReceiptRow (sc_eventId c) (sc_consumerName c) Receipt_duplicate)
                    (\<lambda>_. ret Duplicate)))))"

definition applyReviewProjectionOnce :: "date \<Rightarrow> projection_command \<Rightarrow> delivery inbox_txn" where
  "applyReviewProjectionOnce dbNow c =
     seq (decide Refused (assertReviewProjectionCommand c))
       (\<lambda>_. seq (reserveReceiptRow (pc_eventId c) (pc_consumerName c))
         (\<lambda>reserved. if \<not> reserved then ret Duplicate
          else
            let p = projection c; first = hd (revisions p) in
            seq (insertItemIdempotent dbNow (pc_item c) (Some (Canonical
                  \<lparr>an_sourceRevision = ra_materialReviewRevision first,
                   an_openedReason = First_review_observed, an_actorType = Actor_provider,
                   an_triggerEventId = None, an_openedAt = Some (observedAt first),
                   an_responseTarget = (if sourceContentState p = Sc_active
                      then Anchored (Some (projectionTargetAnchor first)) else Suppressed)\<rparr>)))
              (\<lambda>ins. seq (if created ins
                    then on_item (item_id (ins_item ins))
                           (insert_facts (Item_created (pc_fact c) # openingFacts ins))
                    else ret ())
                (\<lambda>_. seq (inspect db_policies)
                  (\<lambda>env. seq (on_item (item_id (ins_item ins))
                        (project_review env c (ins_item ins) (created ins)))
                    (\<lambda>changed. if eventKind c = Projection_created \<and> \<not> changed
                     then seq (restateReceiptRow (pc_eventId c) (pc_consumerName c) Receipt_duplicate)
                            (\<lambda>_. ret Duplicate)
                     else ret Delivered))))))"

definition applySourceWithdrawnOnce :: "source_withdrawn_command \<Rightarrow> delivery inbox_txn" where
  "applySourceWithdrawnOnce c =
     seq (require (closing_fact_matches (sw_fact c) (sw_item c) (sw_now c))
           (refused IE_invalid_input ''Source withdrawal fact does not match the Inbox command''))
       (\<lambda>_. seq (reserveReceiptRow (sw_eventId c) (sw_consumerName c))
         (\<lambda>reserved. if \<not> reserved then ret Delivered
          else seq (on_item (item_id (sw_item c)) (withdraw_source c))
            (\<lambda>answer. case answer of
               Withdrawal_applied \<Rightarrow> ret Delivered
             | Withdrawal_no_head \<Rightarrow> ret Obsolete
             | Withdrawal_other_revision \<Rightarrow>
                 seq (restateReceiptRow (sw_eventId c) (sw_consumerName c) Receipt_obsolete)
                   (\<lambda>_. ret Obsolete))))"

definition applyReviewSourceTransitionedOnce :: "source_transition_command \<Rightarrow> unit inbox_txn" where
  "applyReviewSourceTransitionedOnce c =
     seq (require (item_sourceType (st_item c) = Src_review
             \<and> closing_fact_matches (st_closeFact c) (st_item c) (transitionedAt' c))
           (refused IE_invalid_input ''Review source transition fact does not match the Inbox item''))
       (\<lambda>_. seq (reserveReceiptRow (st_eventId c) (st_consumerName c))
         (\<lambda>reserved. if \<not> reserved then ret ()
          else on_item (item_id (st_item c)) (end_review_source c)))"

definition applyReplyObservedOnce :: "reply_observed_command \<Rightarrow> unit inbox_txn" where
  "applyReplyObservedOnce c =
     seq (reserveReceiptRow (ob_eventId c) (ob_consumerName c))
       (\<lambda>reserved. if \<not> reserved then ret ()
        else seq (inspect db_policies)
          (\<lambda>env. on_item (item_id (ob_item c)) (observe_reply env c)))"

section \<open>Reopening several items\<close>

record bulk_entry =
  be_item :: inbox_item
  be_event :: bulk_status_fact
  be_eventId :: string

definition trimmed_explanation :: "js_string option \<Rightarrow> js_string option" where
  "trimmed_explanation e =
     (case e of None \<Rightarrow> None | Some t \<Rightarrow> if js_trim t = [] then None else Some (js_trim t))"

definition bulk_fact_matches :: "bulk_status_fact \<Rightarrow> bulk_entry \<Rightarrow> bool" where
  "bulk_fact_matches first b =
     (let f = be_event b; item = be_item b
      in if_inboxItemId f = item_id item \<and> if_organizationId f = item_organizationId item
         \<and> if_propertyId f = Some (item_propertyId item) \<and> oldStatus f = item_status item
         \<and> newStatus f = newStatus first \<and> sf_bulkId f = sf_bulkId first
         \<and> if_userId f = if_userId first
         \<and> num_eq (get_time (if_occurredAt f)) (get_time (if_occurredAt first)))"

datatype bulk_outcome = Reopened | Revision_conflict

definition assertBulkReopenCompleted :: "string \<Rightarrow> reopened_cycle list \<Rightarrow> bool" where
  "assertBulkReopenCompleted bulk reopened =
     (bulk \<noteq> [] \<and> reopened \<noteq> [] \<and> length reopened \<le> 100
      \<and> distinct (map rp_inboxItemId reopened)
      \<and> (\<forall>c \<in> set reopened. isPositiveSafeInteger (rp_cycleNumber c)
            \<and> isPositiveSafeInteger (rp_sourceRevision c) \<and> isPositiveSafeInteger (rp_stateRevision c)))"

definition insert_org_fact :: "org_fact \<Rightarrow> unit inbox_txn" where
  "insert_org_fact f = modify (\<lambda>db. db\<lparr>db_facts := db_facts db @ [f]\<rparr>)"

record bulk_reopen_command =
  br_entries :: "bulk_entry list"
  br_reason :: manual_reason
  br_explanation :: "js_string option"
  br_responseTargets :: "string \<Rightarrow> target_anchor option"

fun reopen_entries ::
  "authority \<Rightarrow> inbox_db \<Rightarrow> bulk_reopen_command \<Rightarrow> string \<Rightarrow> date \<Rightarrow> (nat \<times> bulk_entry) list
     \<Rightarrow> ((nat \<times> string \<times> bulk_outcome) list \<times> reopened_cycle list) inbox_txn" where
  "reopen_entries authorize locked c bulk now [] = ret ([], [])"
| "reopen_entries authorize locked c bulk now ((n, b) # bs) =
     (let item = be_item b; r = db_rows locked (item_id item);
          row = chosen (\<lambda>i. item_organizationId i = item_organizationId item) (row_item r);
          head = chosen (\<lambda>h. organizationId h = item_organizationId item) (row_head r);
          exact = (case (row, head) of
             (Some i, Some h) \<Rightarrow>
               if matchesLockedBulkReopenState item i h then Some (i, h) else None
           | _ \<Rightarrow> None)
      in case exact of
           None \<Rightarrow>
             seq (reopen_entries authorize locked c bulk now bs)
               (\<lambda>(results, reopened). ret ((n, item_id item, Revision_conflict) # results, reopened))
         | Some (i, h) \<Rightarrow>
             seq (on_item (item_id item) (reopenLockedBulkItem (db_policies locked) authorize item
                   (be_event b) (be_eventId b) i h (br_reason c)
                   (trimmed_explanation (br_explanation c)) bulk (br_responseTargets c (item_id item))
                   now))
               (\<lambda>cycle. seq (reopen_entries authorize locked c bulk now bs)
                 (\<lambda>(results, reopened). ret ((n, item_id item, Reopened) # results, cycle # reopened))))"

definition entry_requirements :: "bulk_entry \<Rightarrow> authority_requirement list" where
  "entry_requirements b =
     authorityRequirements (be_item b) (actorPrincipals (be_item b) (Some (be_event b)) [])"

definition bulkUpdateStatus ::
  "authority \<Rightarrow> bulk_reopen_command \<Rightarrow> (string \<times> bulk_outcome) list inbox_txn" where
  "bulkUpdateStatus authorize c =
     (case br_entries c of
        [] \<Rightarrow> ret []
      | b # _ \<Rightarrow>
          let first = be_event b; bulk = sf_bulkId first; now = if_occurredAt first;
              explanation = trimmed_explanation (br_explanation c);
              org = item_organizationId (be_item b);
              ordered = sort_key (\<lambda>(n, e). item_id (be_item e)) (enumerate 0 (br_entries c))
          in seq (require (newStatus first = Open)
                (refused IE_invalid_input ''Inbox bulk close is unavailable''))
            (\<lambda>_. seq (require ((br_reason c = MR_other) = (explanation \<noteq> None))
                  (refused IE_invalid_input
                     ''Inbox bulk reopen reason and explanation are inconsistent''))
              (\<lambda>_. seq (require (\<forall>e \<in> set (br_entries c). bulk_fact_matches first e)
                    (refused IE_invalid_input
                       ''Inbox bulk status facts do not match their command items''))
                (\<lambda>_. seq (present (webActorId (Some first))
                      (refused IE_invalid_input
                         ''Inbox bulk reopen requires an authenticated web actor''))
                  (\<lambda>actor. seq (require (\<forall>e \<in> set (br_entries c). item_organizationId (be_item e) = org)
                        (refused IE_invalid_input
                           ''Inbox bulk status command must target one Organization''))
                    (\<lambda>_. seq (assertCommandAuthority authorize org now
                          (concat (map entry_requirements (br_entries c))))
                      (\<lambda>_. seq (inspect id)
                        (\<lambda>locked. seq (reopen_entries authorize locked c bulk now ordered)
                          (\<lambda>(results, reopened). seq (if reopened = [] then ret ()
                                else seq (require (assertBulkReopenCompleted bulk reopened)
                                      (Assertion ''bulk reopen completed''))
                                  (\<lambda>_. insert_org_fact (Bulk_reopen_completed org actor bulk
                                     (sort_key rp_inboxItemId reopened) now)))
                            (\<lambda>_. ret (map snd (sort_key fst results))))))))))))"

section \<open>Assigning several items\<close>

definition is_hex :: "char \<Rightarrow> bool" where
  "is_hex ch = (ch \<in> set ''0123456789abcdefABCDEF'')"

fun uuid_groups :: "nat list \<Rightarrow> string \<Rightarrow> bool" where
  "uuid_groups [] s = False"
| "uuid_groups [n] s = (length s = n \<and> (\<forall>ch \<in> set s. is_hex ch))"
| "uuid_groups (n # ns) s =
     (n < length s \<and> (\<forall>ch \<in> set (take n s). is_hex ch) \<and> s ! n = CHR ''-''
      \<and> uuid_groups ns (drop (n + 1) s))"

definition UUID_TEXT :: "string \<Rightarrow> bool" where
  "UUID_TEXT s = uuid_groups [8, 4, 4, 4, 12] s"

record bulk_assign_command =
  ba_items :: "inbox_item list"
  ba_assignedTo :: "string option"
  ba_actorId :: string
  ba_bulkId :: string
  ba_occurredAt :: date

datatype assign_outcome =
  Assign_conflict | Assign_unchanged | Assign_moved assignment_reason

definition bulk_assign_requirements ::
  "bulk_assign_command \<Rightarrow> inbox_item \<Rightarrow> authority_requirement list" where
  "bulk_assign_requirements c item =
     (let source = sourceCommandPermission (item_sourceType item) in
      authorityRequirements item
        (\<lparr>au_userId = ba_actorId c, au_permissions = [''inbox.write'', source, ''inbox.manage''],
          au_purpose = For_actor\<rparr>
         # (case ba_assignedTo c of None \<Rightarrow> []
              | Some u \<Rightarrow> [\<lparr>au_userId = u, au_permissions = [''inbox.write'', source],
                   au_purpose = For_assignee\<rparr>])))"

fun assign_items ::
  "inbox_db \<Rightarrow> bulk_assign_command \<Rightarrow> inbox_item list
     \<Rightarrow> ((string \<times> assign_outcome) list \<times> assignment_transition list) inbox_txn" where
  "assign_items locked c [] = ret ([], [])"
| "assign_items locked c (item # items) =
     (let r = db_rows locked (item_id item) in
      case row_item r of
        None \<Rightarrow> ret ([], [])
      | Some i \<Rightarrow>
          seq (on_item (item_id item) (applyBulkAssignmentToItem item i (row_head r)
                (ba_assignedTo c) (ba_actorId c) (ba_bulkId c) (ba_occurredAt c)))
            (\<lambda>applied. seq (assign_items locked c items)
              (\<lambda>(outcomes, moves). case applied of
                 Bulk_unchanged \<Rightarrow> ret ((item_id item, Assign_unchanged) # outcomes, moves)
               | Bulk_moved outcome previous \<Rightarrow>
                   ret ((item_id item, Assign_moved outcome) # outcomes,
                        \<lparr>at_inboxItemId = item_id item, at_propertyId = item_propertyId item,
                         at_previousAssignee = previous, at_nextAssignee = ba_assignedTo c\<rparr> # moves))))"

definition locked_row :: "inbox_db \<Rightarrow> string \<Rightarrow> inbox_item \<Rightarrow> inbox_item option" where
  "locked_row db org item =
     chosen (\<lambda>i. item_organizationId i = org) (row_item (db_rows db (item_id item)))"

definition locked_head :: "inbox_db \<Rightarrow> string \<Rightarrow> inbox_item \<Rightarrow> handling_head option" where
  "locked_head db org item =
     chosen (\<lambda>h. organizationId h = org) (row_head (db_rows db (item_id item)))"

definition bulkAssign :: "authority \<Rightarrow> bulk_assign_command \<Rightarrow> (string \<times> assign_outcome) list inbox_txn"
where
  "bulkAssign authorize c =
     (let items = ba_items c; ordered = sort_key item_id items;
          org = (case items of [] \<Rightarrow> [] | i # _ \<Rightarrow> item_organizationId i)
      in seq (require (items \<noteq> [] \<and> length items \<le> 100 \<and> distinct (map item_id items)
               \<and> (\<forall>i \<in> set items. item_organizationId i = org) \<and> UUID_TEXT (ba_bulkId c))
             (refused IE_invalid_input ''Inbox bulk assignment command is invalid''))
        (\<lambda>_. seq (inspect id)
          (\<lambda>locked. if \<not> (\<forall>i \<in> set items. matchesLockedBulkAssignState i (locked_row locked org i)
                  (locked_head locked org i))
           then ret (map (\<lambda>i. (item_id i, Assign_conflict)) items)
           else seq (assertCommandAuthority authorize org (ba_occurredAt c)
                 (concat (map (bulk_assign_requirements c) ordered)))
             (\<lambda>_. seq (assign_items locked c ordered)
               (\<lambda>(outcomes, moves). seq (if moves = [] then ret ()
                     else seq (require (ba_bulkId c \<noteq> [] \<and> length moves \<le> 100
                             \<and> distinct (map at_inboxItemId moves)
                             \<and> (\<forall>m \<in> set moves. at_previousAssignee m \<noteq> at_nextAssignee m))
                           (Assertion ''bulk assignment completed''))
                       (\<lambda>_. insert_org_fact (Bulk_assignment_completed org (ba_actorId c) (ba_bulkId c)
                          (sort_key at_inboxItemId moves) (ba_occurredAt c))))
                 (\<lambda>_. ret (map (\<lambda>i. (item_id i, the (map_of outcomes (item_id i)))) items)))))))"

end
