(* ===== verification/InboxPasses.thy ===== *)
theory InboxPasses
  imports InboxStore
begin

text \<open>
  The commands that go over all items: taking a person's assignments away
  (\<^verbatim>\<open>releaseAssignmentsForUser\<close>, \<^verbatim>\<open>releaseIneligibleAssignmentsForUser\<close> of
  \<^verbatim>\<open>src/src/contexts/inbox/infrastructure/inbox-command-store.ts\<close>), delivering the reminders that are
  due (\<^verbatim>\<open>response-target-reminder-release.store.ts\<close>) and cancelling those of an archived property
  (\<^verbatim>\<open>cancelArchivedPropertyRemindersOnce\<close> of \<^verbatim>\<open>response-target.store.ts\<close>).
\<close>

section \<open>Releasing assignments\<close>

record release_input =
  re_organizationId :: string
  re_userId :: string
  re_actorId :: "string option"
  re_reason :: release_reason
  re_instant :: date

definition held_by :: "release_input \<Rightarrow> inbox_item \<Rightarrow> bool" where
  "held_by input i =
     (item_organizationId i = re_organizationId input \<and> assignedTo i = Some (re_userId input))"

text \<open>The items a person holds, by id.\<close>

definition held_items :: "release_input \<Rightarrow> inbox_db \<Rightarrow> inbox_item list" where
  "held_items input db =
     sort_key item_id (List.map_filter (\<lambda>k. chosen (held_by input) (row_item (db_rows db k)))
       (db_items db))"

definition cycle_of_row :: "inbox_item \<Rightarrow> item_rows \<Rightarrow> number option" where
  "cycle_of_row i r =
     map_option currentCycleNumber
       (chosen (\<lambda>h. organizationId h = item_organizationId i \<and> propertyId h = item_propertyId i
          \<and> sourceType h = item_sourceType i \<and> sourceId h = item_sourceId i) (row_head r))"

text \<open>Clears one locked row; the answer is the row, or \<open>None\<close> when another release was first.\<close>

definition release_row :: "release_input \<Rightarrow> number option \<Rightarrow> inbox_item option item_txn" where
  "release_row input cycle =
     seq (update_item (held_by input)
           (\<lambda>i. i\<lparr>assignedTo := None, commandRevision := num_add (commandRevision i) (nint 1),
                  item_updatedAt := re_instant input\<rparr>))
       (\<lambda>saved. case saved of
          None \<Rightarrow> ret None
        | Some row \<Rightarrow>
            seq (insert_assignment
                  \<lparr>as_commandRevision = commandRevision row,
                   as_organizationId = item_organizationId row,
                   as_propertyId = item_propertyId row, handlingCycleNumber = cycle,
                   previousAssignee = Some (re_userId input), nextAssignee = None,
                   as_reason = AR_eligibility_lost, as_actorUserId = re_actorId input,
                   as_bulkId = None, as_occurredAt = re_instant input\<rparr>)
              (\<lambda>_. seq (insertAssignmentFact
                    (Unassigned (assignment_fact_for row (re_actorId input) None
                       (Some (re_userId input)) None (re_instant input))) (commandRevision row))
                (\<lambda>_. ret (Some row))))"

fun release_rows :: "release_input \<Rightarrow> inbox_db \<Rightarrow> inbox_item list \<Rightarrow> inbox_item list inbox_txn" where
  "release_rows input locked [] = ret []"
| "release_rows input locked (i # is) =
     seq (on_item (item_id i) (release_row input (cycle_of_row i (db_rows locked (item_id i)))))
       (\<lambda>saved. seq (release_rows input locked is)
         (\<lambda>rows. ret (case saved of None \<Rightarrow> rows | Some row \<Rightarrow> row # rows)))"

text \<open>Only released items that are still open leave a gap; they are grouped by property.\<close>

fun add_release :: "inbox_item \<Rightarrow> released_property list \<Rightarrow> released_property list" where
  "add_release i [] =
     [\<lparr>rl_propertyId = item_propertyId i, rl_anchorInboxItemId = item_id i, rl_count = 1\<rparr>]"
| "add_release i (g # gs) =
     (if rl_propertyId g = item_propertyId i then g\<lparr>rl_count := rl_count g + 1\<rparr> # gs
      else g # add_release i gs)"

definition group_releases :: "inbox_item list \<Rightarrow> released_property list" where
  "group_releases rows = foldl (\<lambda>gs i. add_release i gs) [] (filter (\<lambda>i. item_status i = Open) rows)"

definition releaseAssignmentRows :: "release_input \<Rightarrow> string list \<Rightarrow> nat inbox_txn" where
  "releaseAssignmentRows input candidates =
     seq (inspect id)
       (\<lambda>locked. seq (release_rows input locked
             (filter (\<lambda>i. item_id i \<in> set candidates) (held_items input locked)))
         (\<lambda>rows. let groups = group_releases rows in
          seq (if groups = [] then ret ()
               else insert_org_fact (Assignments_released (re_organizationId input)
                      (re_actorId input) (re_userId input) (re_reason input)
                      (sort_key rl_propertyId groups) (re_instant input)))
            (\<lambda>_. ret (length rows))))"

definition releaseAssignmentsForUser :: "release_input \<Rightarrow> nat inbox_txn" where
  "releaseAssignmentsForUser input =
     seq (inspect (held_items input))
       (\<lambda>held. releaseAssignmentRows (input\<lparr>re_reason := Member_offboarded\<rparr>) (map item_id held))"

fun source_text :: "source_type \<Rightarrow> string" where
  "source_text Src_review = ''review''"
| "source_text Src_feedback = ''feedback''"

definition release_key :: "inbox_item \<Rightarrow> string \<times> string" where
  "release_key i = (item_propertyId i, source_text (item_sourceType i))"

text \<open>What is to be asked once: every property and source the person holds an item of.\<close>

definition release_requirements :: "inbox_item list \<Rightarrow> inbox_item list" where
  "release_requirements held =
     sort_key release_key (List.map_filter (\<lambda>k. List.find (\<lambda>i. release_key i = k) held)
       (remdups (map release_key held)))"

fun denied_keys ::
  "authority \<Rightarrow> release_input \<Rightarrow> inbox_item list \<Rightarrow> (string \<times> string) list inbox_txn" where
  "denied_keys authorize input [] = ret []"
| "denied_keys authorize input (i # is) =
     seq (if \<not> UUID_TEXT (item_propertyId i) then ret [release_key i]
          else
            case authorize (re_organizationId input) (re_instant input)
                   [\<lparr>au_userId = re_userId input,
                     au_permissions = [''inbox.write'', sourceCommandPermission (item_sourceType i)],
                     au_purpose = For_assignee, au_propertyId = item_propertyId i\<rparr>] of
              Allowed \<Rightarrow> ret []
            | Denied reason \<Rightarrow>
                if authority_contract_changed reason
                then refuse (Refused (inboxError IE_revision_conflict
                       ''Inbox assignment authority changed during reconciliation''
                       [(''authorityReason'', JStr reason)]))
                else ret [release_key i])
       (\<lambda>here. seq (denied_keys authorize input is) (\<lambda>rest. ret (here @ rest)))"

definition releaseIneligibleAssignmentsForUser :: "authority \<Rightarrow> release_input \<Rightarrow> nat inbox_txn" where
  "releaseIneligibleAssignmentsForUser authorize input =
     seq (inspect (held_items input))
       (\<lambda>held. seq (denied_keys authorize input (release_requirements held))
         (\<lambda>denied. releaseAssignmentRows (input\<lparr>re_reason := Member_became_ineligible\<rparr>)
            (map item_id (filter (\<lambda>i. release_key i \<in> set denied) held))))"

section \<open>Delivering reminders\<close>

definition instant_of :: "date \<Rightarrow> int" where
  "instant_of d = (case d of At t \<Rightarrow> t | InvalidDate \<Rightarrow> 0)"

fun reminder_text :: "reminder_kind \<Rightarrow> string" where
  "reminder_text Halfway = ''halfway''"
| "reminder_text Target_passed = ''target_passed''"

definition all_due_slots :: "date \<Rightarrow> inbox_db \<Rightarrow> (string \<times> due_slot) list" where
  "all_due_slots now db =
     sort_key (\<lambda>(k, m, t). (instant_of (rm_scheduledFor m), k, reminder_text (rm_kind m)))
       [(k, slot). k \<leftarrow> db_items db, slot \<leftarrow> selectDueSlots now (\<lambda>_. True) (db_rows db k)]"

fun settle_slots :: "date \<Rightarrow> (string \<times> due_slot) list \<Rightarrow> nat inbox_txn" where
  "settle_slots now [] = ret 0"
| "settle_slots now ((k, slot) # slots) =
     seq (on_item k (settleLockedSlot k slot now))
       (\<lambda>result. seq (settle_slots now slots)
         (\<lambda>n. ret (if result = Slot_released then n + 1 else n)))"

definition limit_nat :: "number \<Rightarrow> nat" where
  "limit_nat n = nat (number_floor n)"

definition releaseDueReminders :: "date \<Rightarrow> number \<Rightarrow> nat inbox_txn" where
  "releaseDueReminders now limit =
     seq (decide Refused (assertBatchLimit limit))
       (\<lambda>_. seq (inspect (\<lambda>db. take (limit_nat limit) (all_due_slots now db)))
         (\<lambda>slots. settle_slots now slots))"

definition listDueReminderCandidates :: "date \<Rightarrow> number \<Rightarrow> (string \<times> due_slot) list inbox_txn" where
  "listDueReminderCandidates now limit =
     seq (decide Refused (assertBatchLimit limit))
       (\<lambda>_. inspect (\<lambda>db. take (limit_nat limit) (all_due_slots now db)))"

text \<open>
  The reminders of an archived property. The lifecycle of the property is Property's: \<open>None\<close> when
  there is no such property, \<open>Some True\<close> when it is active.
\<close>

definition cancelArchivedPropertyRemindersOnce ::
  "bool option \<Rightarrow> string \<Rightarrow> string \<Rightarrow> string \<Rightarrow> string \<Rightarrow> date \<Rightarrow> delivery inbox_txn" where
  "cancelArchivedPropertyRemindersOnce active event consumer org property instant =
     (let status = (if active = Some False then Receipt_applied else Receipt_obsolete) in
      seq (insertReceiptRow event consumer status)
        (\<lambda>reserved. if \<not> reserved then ret Duplicate
         else if status = Receipt_obsolete then ret Obsolete
         else seq (modify (\<lambda>db. db\<lparr>db_rows := (\<lambda>k. (db_rows db k)\<lparr>row_reminders :=
                map (\<lambda>m. if rm_organizationId m = org \<and> rm_propertyId m = property \<and> pending m
                         then m\<lparr>cancelledAt := Some instant\<rparr> else m)
                  (row_reminders (db_rows db k))\<rparr>)\<rparr>))
           (\<lambda>_. ret Delivered)))"

end
