(* ===== verification/InboxWork.thy ===== *)
theory InboxWork
  imports TargetStore
begin

text \<open>
  What the Inbox promises about the work on one item, without its columns and guards: \<open>work\<close> is
  the history of the item's Handling Cycles with the Response Targets, the reminder slots and the
  outcomes that hang on them, and \<open>work_step\<close> is everything that may happen to it. A cycle closes
  together with its target and its pending slots; a manager's outcome closes a cycle of private
  feedback; the next cycle brings its own target; a carry moves the source revision only.

  \<open>work_ok\<close> is the invariant of the machine. The stores implement the machine: \<open>InboxRefine\<close> shows
  that every transaction that commits is a sequence of its steps.
\<close>

section \<open>The machine\<close>

record work =
  wk_history :: cycle_history
  wk_targets :: "target_row list"
  wk_reminders :: "reminder_row list"
  wk_outcomes :: "outcome_row list"

abbreviation wk_head :: "work \<Rightarrow> handling_head" where
  "wk_head w \<equiv> hist_head (wk_history w)"

abbreviation wk_log :: "work \<Rightarrow> handling_transition list" where
  "wk_log w \<equiv> hist_log (wk_history w)"

abbreviation wk_cycles :: "work \<Rightarrow> handling_cycle list" where
  "wk_cycles w \<equiv> hist_cycles (wk_history w)"

text \<open>Why a target stops when its cycle closes.\<close>

fun stop_of :: "close_reason \<Rightarrow> stop_reason" where
  "stop_of CR_confirmed_on_google = Stop_confirmed_on_google"
| "stop_of CR_external_reply_observed = Stop_confirmed_on_google"
| "stop_of CR_guest_withdrawn = Stop_guest_withdrawn"
| "stop_of CR_private_feedback_handled = Stop_private_feedback_handled"
| "stop_of CR_source_ineligible = Stop_source_ineligible"
| "stop_of CR_superseded_by_source_revision = Stop_superseded_by_source_revision"

definition target_stops :: "number \<Rightarrow> stop_reason \<Rightarrow> target_row \<Rightarrow> target_row \<Rightarrow> bool" where
  "target_stops n why t t' =
     (tg_cycleNumber t = n \<and> performanceEligibility t = Measured \<and> tg_completionAt t = None
      \<and> target_row_valid t'
      \<and> (\<exists>done res. t' = t\<lparr>tg_completionAt := Some done, tg_result := Some res, stopReason := Some why\<rparr>))"

definition targets_stopped ::
  "number \<Rightarrow> stop_reason \<Rightarrow> target_row list \<Rightarrow> target_row list \<Rightarrow> bool" where
  "targets_stopped n why ts ts' =
     (list_all2 (\<lambda>t t'. t' = t \<or> target_stops n why t t') ts ts'
      \<and> (\<forall>t \<in> set ts'. tg_cycleNumber t = n \<and> performanceEligibility t = Measured
           \<longrightarrow> tg_completionAt t \<noteq> None))"

definition slot_settles :: "reminder_row \<Rightarrow> reminder_row \<Rightarrow> bool" where
  "slot_settles m m' =
     (pending m \<and> reminder_row_valid m'
      \<and> (\<exists>d. m' = m\<lparr>cancelledAt := Some d\<rparr> \<or> m' = m\<lparr>deliveredAt := Some d\<rparr>))"

definition slots_settled :: "reminder_row list \<Rightarrow> reminder_row list \<Rightarrow> bool" where
  "slots_settled ms ms' = list_all2 (\<lambda>m m'. m' = m \<or> slot_settles m m') ms ms'"

definition slots_stopped :: "number \<Rightarrow> reminder_row list \<Rightarrow> reminder_row list \<Rightarrow> bool" where
  "slots_stopped n ms ms' = (slots_settled ms ms' \<and> (\<forall>m \<in> set ms'. rm_cycleNumber m = n \<longrightarrow> \<not> pending m))"

text \<open>The target a new cycle may bring, with its slots.\<close>

definition new_target :: "handling_cycle \<Rightarrow> target_row \<Rightarrow> bool" where
  "new_target c t =
     (scope_of t = scope_of c \<and> tg_cycleNumber t = cycleNumber c
      \<and> tg_sourceRevision t = sourceRevision c \<and> target_row_valid t \<and> tg_completionAt t = None
      \<and> tg_result t = None \<and> stopReason t = None
      \<and> (performanceEligibility t = Measured \<longrightarrow> tg_startAt t \<noteq> None \<and> tg_dueAt t \<noteq> None))"

definition slot_of_target :: "target_row \<Rightarrow> reminder_row \<Rightarrow> bool" where
  "slot_of_target t m =
     (performanceEligibility t = Measured \<and> rm_cycleNumber m = tg_cycleNumber t
      \<and> rm_organizationId m = organizationId t \<and> rm_propertyId m = propertyId t
      \<and> rm_targetKind m = tg_kind t)"

definition cycle_targets :: "handling_cycle \<Rightarrow> target_row list \<Rightarrow> reminder_row list \<Rightarrow> bool" where
  "cycle_targets c ts ms =
     (length ts \<le> 1 \<and> (\<forall>t \<in> set ts. new_target c t) \<and> distinct (map reminder_key ms)
      \<and> (\<forall>m \<in> set ms. reminder_row_valid m \<and> (\<exists>t \<in> set ts. slot_of_target t m)))"

text \<open>A source that is gone, and the moves only a manager makes.\<close>

definition unavailable_close :: "handling_transition \<Rightarrow> bool" where
  "unavailable_close t =
     (tr_kind t = TK_closed
      \<and> transitionReason t \<in> {Closed_for CR_guest_withdrawn, Closed_for CR_source_ineligible})"

definition handled_close :: "handling_transition \<Rightarrow> bool" where
  "handled_close t =
     (tr_kind t = TK_closed \<and> transitionReason t = Closed_for CR_private_feedback_handled)"

definition manager_move :: "handling_transition \<Rightarrow> bool" where
  "manager_move t = (handled_close t \<or> (\<exists>m. transitionReason t = Reopened_for m))"

definition source_available :: "handling_transition list \<Rightarrow> bool" where
  "source_available l = (\<forall>t \<in> set l. \<not> unavailable_close t)"

definition closed_work :: "work \<Rightarrow> handling_head \<Rightarrow> handling_transition \<Rightarrow> target_row list \<Rightarrow> reminder_row list \<Rightarrow> work"
where
  "closed_work w h t ts ms = w\<lparr>wk_history := \<lparr>hist_cycles = wk_cycles w, hist_head = h,
     hist_log = wk_log w @ [t]\<rparr>, wk_targets := ts, wk_reminders := ms\<rparr>"

definition next_work :: "work \<Rightarrow> cycle_decision \<Rightarrow> target_row list \<Rightarrow> reminder_row list \<Rightarrow> work" where
  "next_work w d ts ms = w\<lparr>wk_history := \<lparr>hist_cycles = wk_cycles w @ [dec_cycle d],
     hist_head = dec_head d, hist_log = wk_log w @ dec_transitions d\<rparr>,
     wk_targets := ts, wk_reminders := ms\<rparr>"

text \<open>The outcome of a handled cycle, and the one that corrects another.\<close>

definition outcome_scope :: "handling_head \<Rightarrow> outcome_row \<Rightarrow> bool" where
  "outcome_scope h x =
     (sourceType h = Src_feedback \<and> out_inboxItemId x = inboxItemId h
      \<and> out_organizationId x = organizationId h \<and> out_propertyId x = propertyId h
      \<and> out_feedbackId x = sourceId h)"

definition outcome_deadline :: "target_row list \<Rightarrow> outcome_row \<Rightarrow> bool" where
  "outcome_deadline ts x =
     ((\<forall>t \<in> set ts. tg_cycleNumber t = out_cycleNumber x \<longrightarrow> deadlineResult x = deadline_of (tg_result t))
      \<and> ((\<forall>t \<in> set ts. tg_cycleNumber t \<noteq> out_cycleNumber x) \<longrightarrow> deadlineResult x = Deadline_not_measured))"

definition completes :: "handling_transition \<Rightarrow> outcome_row \<Rightarrow> bool" where
  "completes t x =
     (handled_close t \<and> tr_cycleNumber t = out_cycleNumber x
      \<and> tr_stateRevision t = completionStateRevision x \<and> transitionedAt t = completionAt x)"

definition corrects :: "outcome_row \<Rightarrow> outcome_row \<Rightarrow> bool" where
  "corrects x y =
     (outcomeRevision y = num_add (outcomeRevision x) (nint 1)
      \<and> supersedesOutcomeId y = Some (out_id x) \<and> completionAt y = completionAt x
      \<and> completionStateRevision y = completionStateRevision x
      \<and> deadlineResult y = deadlineResult x \<and> out_sourceRevision y = out_sourceRevision x
      \<and> out_cycleNumber y = out_cycleNumber x)"

definition outcomes_of :: "number \<Rightarrow> outcome_row list \<Rightarrow> outcome_row list" where
  "outcomes_of n xs = filter (\<lambda>x. out_cycleNumber x = n) xs"

inductive work_step :: "work \<Rightarrow> work \<Rightarrow> bool" where
  step_close:
    "closeHandlingCycle (i\<lparr>cl_current := wk_head w\<rparr>) = Inr (h, t)
     \<Longrightarrow> cl_closeReason i \<noteq> CR_private_feedback_handled
     \<Longrightarrow> targets_stopped (currentCycleNumber (wk_head w)) (stop_of (cl_closeReason i)) (wk_targets w) ts
     \<Longrightarrow> slots_stopped (currentCycleNumber (wk_head w)) (wk_reminders w) ms
     \<Longrightarrow> work_step w (closed_work w h t ts ms)"
| step_handle:
    "closeHandlingCycle (i\<lparr>cl_current := wk_head w\<rparr>) = Inr (h, t)
     \<Longrightarrow> cl_closeReason i = CR_private_feedback_handled
     \<Longrightarrow> targets_stopped (currentCycleNumber (wk_head w)) Stop_private_feedback_handled (wk_targets w) ts
     \<Longrightarrow> slots_stopped (currentCycleNumber (wk_head w)) (wk_reminders w) ms
     \<Longrightarrow> source_available (wk_log w)
     \<Longrightarrow> outcomes_of (currentCycleNumber (wk_head w)) (wk_outcomes w) = []
     \<Longrightarrow> outcome_row_valid x \<Longrightarrow> outcomeRevision x = nint 1 \<Longrightarrow> supersedesOutcomeId x = None
     \<Longrightarrow> outcome_scope h x \<Longrightarrow> completes t x \<Longrightarrow> outcome_deadline ts x
     \<Longrightarrow> work_step w ((closed_work w h t ts ms)\<lparr>wk_outcomes := wk_outcomes w @ [x]\<rparr>)"
| step_next:
    "createNextHandlingCycle (i\<lparr>current := wk_head w\<rparr>) = Inr d
     \<Longrightarrow> (nx_openedReason i = Next_manual_reopen \<and> sourceType (wk_head w) = Src_feedback
            \<longrightarrow> source_available (wk_log w))
     \<Longrightarrow> (if head_status (wk_head w) = Open
          then targets_stopped (currentCycleNumber (wk_head w)) Stop_superseded_by_source_revision
                 (wk_targets w) ts
               \<and> slots_stopped (currentCycleNumber (wk_head w)) (wk_reminders w) ms
          else ts = wk_targets w \<and> ms = wk_reminders w)
     \<Longrightarrow> cycle_targets (dec_cycle d) ts' ms'
     \<Longrightarrow> work_step w (next_work w d (ts @ ts') (ms @ ms'))"
| step_carry:
    "carry_head n (wk_head w) = Some h
     \<Longrightarrow> work_step w (w\<lparr>wk_history := (wk_history w)\<lparr>hist_head := h\<rparr>\<rparr>)"
| step_correct:
    "head_status (wk_head w) = Closed
     \<Longrightarrow> outcomes_of (currentCycleNumber (wk_head w)) (wk_outcomes w) = xs @ [x]
     \<Longrightarrow> source_available (wk_log w) \<Longrightarrow> outcome_row_valid y \<Longrightarrow> outcome_scope (wk_head w) y
     \<Longrightarrow> corrects x y
     \<Longrightarrow> work_step w (w\<lparr>wk_outcomes := wk_outcomes w @ [y]\<rparr>)"
| step_settle:
    "slots_settled (wk_reminders w) ms \<Longrightarrow> work_step w (w\<lparr>wk_reminders := ms\<rparr>)"

section \<open>The invariant\<close>

definition target_ok :: "work \<Rightarrow> target_row \<Rightarrow> bool" where
  "target_ok w t =
     (scope_of t = scope_of (wk_head w) \<and> target_row_valid t
      \<and> (\<exists>c \<in> set (wk_cycles w). cycleNumber c = tg_cycleNumber t \<and> sourceRevision c = tg_sourceRevision t)
      \<and> (performanceEligibility t = Measured \<longrightarrow>
           tg_startAt t \<noteq> None \<and> tg_dueAt t \<noteq> None
           \<and> (tg_completionAt t = None)
               = (tg_cycleNumber t = currentCycleNumber (wk_head w) \<and> head_status (wk_head w) = Open)
           \<and> (if tg_completionAt t = None then tg_result t = None \<and> stopReason t = None
              else tg_result t \<noteq> None
                \<and> (\<exists>x \<in> set (wk_log w). tr_kind x = TK_closed \<and> tr_cycleNumber x = tg_cycleNumber t
                   \<and> (\<exists>why. transitionReason x = Closed_for why \<and> stopReason t = Some (stop_of why))))))"

definition targets_ok :: "work \<Rightarrow> bool" where
  "targets_ok w =
     ((\<forall>t \<in> set (wk_targets w). target_ok w t) \<and> distinct (map tg_cycleNumber (wk_targets w)))"

definition reminders_ok :: "work \<Rightarrow> bool" where
  "reminders_ok w =
     ((\<forall>m \<in> set (wk_reminders w). reminder_row_valid m
         \<and> (\<exists>t \<in> set (wk_targets w). slot_of_target t m)
         \<and> (pending m \<longrightarrow> rm_cycleNumber m = currentCycleNumber (wk_head w)
               \<and> head_status (wk_head w) = Open))
      \<and> distinct (map reminder_key (wk_reminders w)))"

definition correction_chain :: "outcome_row list \<Rightarrow> bool" where
  "correction_chain xs =
     ((xs \<noteq> [] \<longrightarrow> outcomeRevision (hd xs) = nint 1 \<and> supersedesOutcomeId (hd xs) = None)
      \<and> successively corrects xs)"

definition outcomes_ok :: "work \<Rightarrow> bool" where
  "outcomes_ok w =
     ((\<forall>x \<in> set (wk_outcomes w). outcome_row_valid x \<and> outcome_scope (wk_head w) x
         \<and> outcome_deadline (wk_targets w) x \<and> (\<exists>t \<in> set (wk_log w). completes t x))
      \<and> (\<forall>t \<in> set (wk_log w). handled_close t
           \<longrightarrow> outcomes_of (tr_cycleNumber t) (wk_outcomes w) \<noteq> [])
      \<and> (\<forall>n. correction_chain (outcomes_of n (wk_outcomes w))))"

text \<open>After the source of private feedback has gone, no manager handles or reopens it.\<close>

definition honest :: "handling_transition list \<Rightarrow> bool" where
  "honest l = sorted_wrt (\<lambda>a b. unavailable_close a \<longrightarrow> \<not> manager_move b) l"

definition work_ok :: "work \<Rightarrow> bool" where
  "work_ok w =
     (history_ok (wk_history w) \<and> targets_ok w \<and> reminders_ok w \<and> outcomes_ok w
      \<and> (sourceType (wk_head w) = Src_feedback \<longrightarrow> honest (wk_log w)))"

section \<open>What a step of the history does\<close>

lemma cycle_log_numbers:
  "cycle_log l m st \<Longrightarrow> t \<in> set l \<Longrightarrow> \<exists>k. 1 \<le> k \<and> k \<le> m \<and> tr_cycleNumber t = nint k"
proof (induction rule: cycle_log.induct)
  case (then_close l m x)
  then show ?case using cycle_log_pos[OF then_close.hyps(1)] by auto
next
  case (then_open l m x)
  show ?case
  proof (cases "t = x")
    case False
    with then_open.prems have "t \<in> set l" by simp
    with then_open.IH obtain k where "1 \<le> k" "k \<le> m" "tr_cycleNumber t = nint k" by blast
    then show ?thesis by (intro exI[of _ k]) simp
  qed (use then_open cycle_log_pos[OF then_open.hyps(1)] in auto)
qed auto

lemma open_cycle_not_closed:
  assumes "cycle_log l m Open" "t \<in> set l" "tr_kind t = TK_closed"
  shows "tr_cycleNumber t \<noteq> nint m"
proof
  assume "tr_cycleNumber t = nint m"
  with assms(2,3) have "t \<in> set (filter (\<lambda>t. tr_kind t = TK_closed \<and> tr_cycleNumber t = nint m) l)"
    by simp
  then have "closings l m \<noteq> 0"
    unfolding closings_def length_0_conv by (metis empty_iff list.set(1))
  with cycle_log_closings[OF assms(1), of m] show False by simp
qed

lemma closeHandlingCycle_shape:
  assumes "closeHandlingCycle i = Inr (h, t)"
  shows "head_status (cl_current i) = Open" "head_status h = Closed"
    "currentCycleNumber h = currentCycleNumber (cl_current i)" "scope_of h = scope_of (cl_current i)"
    "tr_kind t = TK_closed" "transitionReason t = Closed_for (cl_closeReason i)"
    "tr_cycleNumber t = currentCycleNumber (cl_current i)" "scope_of t = scope_of (cl_current i)"
    "tr_stateRevision t = stateRevision h" "transitionedAt t = cl_closedAt i"
    "actorType t = cl_actorType i" "actorUserId t = cl_actorUserId i"
    "currentSourceRevision h = currentSourceRevision (cl_current i)"
  using assms by (auto simp: closeHandlingCycle_def Let_def split: if_splits)

lemma opening_reason_of_cases:
  "opening_reason_of i r \<noteq> Closed_for why"
  "opening_reason_of i r = Reopened_for m \<Longrightarrow> nx_openedReason i = Next_manual_reopen"
  by (auto simp: opening_reason_of_def split: bool.splits option.splits if_splits)

lemma createNextHandlingCycle_shape:
  assumes "createNextHandlingCycle i = Inr d"
  obtains op sup where
    "dec_transitions d = (if head_status (current i) = Open then [sup] else []) @ [op]"
    "tr_kind sup = TK_closed" "tr_cycleNumber sup = currentCycleNumber (current i)"
    "transitionReason sup = Closed_for CR_superseded_by_source_revision"
    "organizationId sup = organizationId (current i)"
    "tr_kind op \<noteq> TK_closed" "tr_cycleNumber op = cycleNumber (dec_cycle d)"
    "\<And>why. transitionReason op \<noteq> Closed_for why"
    "\<And>m. transitionReason op = Reopened_for m \<Longrightarrow> nx_openedReason i = Next_manual_reopen"
    "scope_of (dec_cycle d) = scope_of (current i)" "scope_of (dec_head d) = scope_of (current i)"
    "head_status (dec_head d) = Open" "currentCycleNumber (dec_head d) = cycleNumber (dec_cycle d)"
    "cycleNumber (dec_cycle d) = num_add (currentCycleNumber (current i)) (nint 1)"
    "sourceRevision (dec_cycle d) = nx_sourceRevision i" "openedAt (dec_cycle d) = nx_openedAt i"
    "currentSourceRevision (dec_head d) = nx_sourceRevision i"
  using assms
proof (rule createNextHandlingCycle_okE)
  fix m n s s' reason explanation
  assume r: "currentCycleNumber (current i) = nint m" "nx_sourceRevision i = nint s'"
    "dec_cycle d = cycle_scope.extend (scope_of (current i))
       (handling_cycle.fields (nint (m + 1)) (nint s') (later_reason (nx_openedReason i)) reason
          explanation (Some (nint m)) (nx_openedBy i) (nx_openedAt i))"
    "dec_head d = (current i)\<lparr>currentCycleNumber := nint (m + 1),
       currentSourceRevision := nint s',
       stateRevision := nint (n + (if head_status (current i) = Open then 2 else 1)),
       head_status := Open\<rparr>"
    "dec_transitions d =
       (if head_status (current i) = Open then [superseding_transition i (n + 1)] else [])
       @ [opening_transition i reason (m + 1)
            (n + (if head_status (current i) = Open then 2 else 1))]"
  show thesis
    by (rule that[of "superseding_transition i (n + 1)"
          "opening_transition i reason (m + 1) (n + (if head_status (current i) = Open then 2 else 1))"])
      (simp_all add: r superseding_transition_def opening_transition_def opening_reason_of_cases)
qed

lemma history_current:
  assumes "history_ok h"
  shows "currentCycleNumber (hist_head h) = nint (int (length (hist_cycles h)))"
    "cycle_log (hist_log h) (int (length (hist_cycles h))) (head_status (hist_head h))"
    "set (map cycleNumber (hist_cycles h)) = nint ` {1..int (length (hist_cycles h))}"
proof -
  show "currentCycleNumber (hist_head h) = nint (int (length (hist_cycles h)))"
    "cycle_log (hist_log h) (int (length (hist_cycles h))) (head_status (hist_head h))"
    using assms by (simp_all add: history_ok_def)
  have "map cycleNumber (hist_cycles h) = map nint [1..int (length (hist_cycles h))]"
    using assms by (simp add: history_ok_def chain_ok_def)
  then show "set (map cycleNumber (hist_cycles h)) = nint ` {1..int (length (hist_cycles h))}"
    by simp
qed

section \<open>Rows that stop and settle\<close>

lemma list_all2_source: "list_all2 P xs ys \<Longrightarrow> y \<in> set ys \<Longrightarrow> \<exists>x \<in> set xs. P x y"
  by (induction rule: list_all2_induct) auto

lemma list_all2_image: "list_all2 P xs ys \<Longrightarrow> x \<in> set xs \<Longrightarrow> \<exists>y \<in> set ys. P x y"
  by (induction rule: list_all2_induct) auto

lemma targets_stopped_keys:
  assumes "targets_stopped n why ts ts'"
  shows "map tg_cycleNumber ts' = map tg_cycleNumber ts"
proof -
  from assms have "list_all2 (\<lambda>t t'. t' = t \<or> target_stops n why t t') ts ts'"
    by (simp add: targets_stopped_def)
  then show ?thesis
    by (induction rule: list_all2_induct) (auto simp: target_stops_def)
qed

lemma targets_stopped_row:
  assumes "targets_stopped n why ts ts'" "t' \<in> set ts'"
  obtains t where "t \<in> set ts" "t' = t \<or> target_stops n why t t'"
    "tg_cycleNumber t' = n \<Longrightarrow> performanceEligibility t' = Measured \<Longrightarrow> tg_completionAt t' \<noteq> None"
proof -
  from assms have "list_all2 (\<lambda>t t'. t' = t \<or> target_stops n why t t') ts ts'"
    by (simp add: targets_stopped_def)
  then obtain t where "t \<in> set ts" "t' = t \<or> target_stops n why t t'"
    using assms(2) by (blast dest: list_all2_source)
  moreover have "tg_cycleNumber t' = n \<Longrightarrow> performanceEligibility t' = Measured
      \<Longrightarrow> tg_completionAt t' \<noteq> None"
    using assms by (auto simp: targets_stopped_def)
  ultimately show thesis by (rule that)
qed

lemma targets_stopped_image:
  assumes "targets_stopped n why ts ts'" "t \<in> set ts"
  obtains t' where "t' \<in> set ts'" "t' = t \<or> target_stops n why t t'"
proof -
  from assms have "list_all2 (\<lambda>t t'. t' = t \<or> target_stops n why t t') ts ts'"
    by (simp add: targets_stopped_def)
  then show thesis
    using assms(2) that by (blast dest: list_all2_image)
qed

lemma target_stops_same:
  assumes "target_stops n why t t'"
  shows "scope_of t' = scope_of t" "tg_cycleNumber t' = tg_cycleNumber t"
    "tg_sourceRevision t' = tg_sourceRevision t" "tg_kind t' = tg_kind t"
    "performanceEligibility t' = performanceEligibility t" "tg_startAt t' = tg_startAt t"
    "tg_dueAt t' = tg_dueAt t" "slot_of_target t' m = slot_of_target t m"
  using assms by (auto simp: target_stops_def slot_of_target_def scope_of_eq_iff)

lemma slots_settled_keys:
  assumes "slots_settled ms ms'"
  shows "map reminder_key ms' = map reminder_key ms"
proof -
  from assms have "list_all2 (\<lambda>m m'. m' = m \<or> slot_settles m m') ms ms'"
    by (simp add: slots_settled_def)
  then show ?thesis
    by (induction rule: list_all2_induct) (auto simp: slot_settles_def reminder_key_def)
qed

lemma slots_settled_row:
  assumes "slots_settled ms ms'" "m' \<in> set ms'"
  obtains m where "m \<in> set ms" "m' = m \<or> slot_settles m m'"
  using assms unfolding slots_settled_def by (blast dest: list_all2_source)

lemma slot_settles_same:
  assumes "slot_settles m m'"
  shows "rm_cycleNumber m' = rm_cycleNumber m" "slot_of_target t m' = slot_of_target t m"
    "reminder_row_valid m'" "\<not> pending m'" "pending m"
  using assms by (auto simp: slot_settles_def slot_of_target_def pending_def)

lemma reminders_settled_ok:
  assumes old: "\<forall>m \<in> set ms. reminder_row_valid m \<and> (\<exists>t \<in> set ts. slot_of_target t m) \<and> (pending m \<longrightarrow> P m)"
    and ms: "slots_settled ms ms'"
    and ts: "\<And>t. t \<in> set ts \<Longrightarrow> \<exists>t' \<in> set ts'. \<forall>m. slot_of_target t m \<longrightarrow> slot_of_target t' m"
    and m: "m' \<in> set ms'"
  shows "reminder_row_valid m'" "\<exists>t \<in> set ts'. slot_of_target t m'" "pending m' \<Longrightarrow> P m'"
proof -
  from ms m obtain m0 where m0: "m0 \<in> set ms" "m' = m0 \<or> slot_settles m0 m'"
    by (rule slots_settled_row)
  with old obtain t where "t \<in> set ts" "slot_of_target t m0" "reminder_row_valid m0"
    "pending m0 \<longrightarrow> P m0"
    by blast
  moreover from this ts obtain t' where "t' \<in> set ts'" "slot_of_target t' m0" by blast
  ultimately show "reminder_row_valid m'" "\<exists>t \<in> set ts'. slot_of_target t m'" "pending m' \<Longrightarrow> P m'"
    using m0(2) slot_settles_same by blast+
qed

section \<open>Every step keeps the invariant\<close>

text \<open>Of a cycle that stops, every target keeps its slots; the outcomes of others keep their deadline.\<close>

lemma targets_stopped_slots:
  assumes "targets_stopped n why ts ts'" "t \<in> set ts"
  shows "\<exists>t' \<in> set ts'. \<forall>m. slot_of_target t m \<longrightarrow> slot_of_target t' m"
  using assms by (rule targets_stopped_image) (metis target_stops_same(8))

lemma targets_stopped_deadline:
  assumes ts: "targets_stopped n why ts ts'" and n: "out_cycleNumber x \<noteq> n"
    and x: "outcome_deadline ts x"
  shows "outcome_deadline ts' x"
  unfolding outcome_deadline_def
proof (intro conjI ballI impI)
  fix t' assume t': "t' \<in> set ts'" "tg_cycleNumber t' = out_cycleNumber x"
  from ts t'(1) obtain t where "t \<in> set ts" "t' = t \<or> target_stops n why t t'"
    by (rule targets_stopped_row)
  moreover from t'(2) n have "\<not> target_stops n why t t'"
    by (auto simp: target_stops_def)
  ultimately show "deadlineResult x = deadline_of (tg_result t')"
    using x t'(2) by (simp add: outcome_deadline_def)
next
  assume "\<forall>t \<in> set ts'. tg_cycleNumber t \<noteq> out_cycleNumber x"
  then have "out_cycleNumber x \<notin> set (map tg_cycleNumber ts')" by auto
  then have "\<forall>t \<in> set ts. tg_cycleNumber t \<noteq> out_cycleNumber x"
    unfolding targets_stopped_keys[OF ts] by (auto simp: image_iff)
  then show "deadlineResult x = Deadline_not_measured"
    using x by (simp add: outcome_deadline_def)
qed

text \<open>An outcome never belongs to the cycle that is open.\<close>

lemma outcome_not_open:
  assumes "work_ok w" "head_status (wk_head w) = Open" "x \<in> set (wk_outcomes w)"
  shows "out_cycleNumber x \<noteq> currentCycleNumber (wk_head w)"
proof -
  from assms(1,3) obtain t where t: "t \<in> set (wk_log w)" "completes t x"
    by (auto simp: work_ok_def outcomes_ok_def)
  from assms(1) have h: "history_ok (wk_history w)" by (simp add: work_ok_def)
  with assms(2) have "cycle_log (wk_log w) (int (length (wk_cycles w))) Open"
    using history_current(2)[OF h] by simp
  from open_cycle_not_closed[OF this t(1)] t(2) history_current(1)[OF h] show ?thesis
    by (simp add: completes_def handled_close_def)
qed

lemma closed_targets_ok:
  assumes w: "work_ok w" and c: "closeHandlingCycle (i\<lparr>cl_current := wk_head w\<rparr>) = Inr (h, t)"
    and ts: "targets_stopped (currentCycleNumber (wk_head w)) (stop_of (cl_closeReason i)) (wk_targets w) ts"
  shows "targets_ok (closed_work w h t ts ms)"
proof -
  note sh = closeHandlingCycle_shape[OF c, simplified]
  from w have old: "\<And>u. u \<in> set (wk_targets w) \<Longrightarrow> target_ok w u"
    "distinct (map tg_cycleNumber (wk_targets w))"
    by (auto simp: work_ok_def targets_ok_def)
  have "target_ok (closed_work w h t ts ms) u'" if u': "u' \<in> set ts" for u'
  proof -
    from ts u' obtain u where u: "u \<in> set (wk_targets w)"
      "u' = u \<or> target_stops (currentCycleNumber (wk_head w)) (stop_of (cl_closeReason i)) u u'"
      "tg_cycleNumber u' = currentCycleNumber (wk_head w) \<Longrightarrow> performanceEligibility u' = Measured
        \<Longrightarrow> tg_completionAt u' \<noteq> None"
      by (rule targets_stopped_row) (rule that)
    from u(2) show ?thesis
    proof
      assume "u' = u"
      then show ?thesis
        using old(1)[OF u(1)] u(3) sh
        by (auto simp: target_ok_def closed_work_def split: if_splits)
    next
      assume st: "target_stops (currentCycleNumber (wk_head w)) (stop_of (cl_closeReason i)) u u'"
      note same = target_stops_same[OF st]
      from st have "target_row_valid u'" "stopReason u' = Some (stop_of (cl_closeReason i))"
        "tg_result u' \<noteq> None" "tg_completionAt u' \<noteq> None"
        "tg_cycleNumber u' = currentCycleNumber (wk_head w)"
        by (auto simp: target_stops_def)
      then show ?thesis
        using old(1)[OF u(1)] sh same
        by (auto simp: target_ok_def closed_work_def)
    qed
  qed
  with old(2) show ?thesis
    by (simp add: targets_ok_def closed_work_def targets_stopped_keys[OF ts])
qed

lemma closed_reminders_ok:
  assumes w: "work_ok w"
    and ts: "targets_stopped (currentCycleNumber (wk_head w)) why (wk_targets w) ts"
    and ms: "slots_stopped (currentCycleNumber (wk_head w)) (wk_reminders w) ms"
    and n: "currentCycleNumber h = currentCycleNumber (wk_head w)"
  shows "reminders_ok (closed_work w h t ts ms)"
proof -
  from ms have set: "slots_settled (wk_reminders w) ms"
    and none: "\<And>m. m \<in> set ms \<Longrightarrow> rm_cycleNumber m = currentCycleNumber (wk_head w) \<Longrightarrow> \<not> pending m"
    by (auto simp: slots_stopped_def)
  from w have old: "\<forall>m \<in> set (wk_reminders w). reminder_row_valid m
      \<and> (\<exists>t \<in> set (wk_targets w). slot_of_target t m)
      \<and> (pending m \<longrightarrow> rm_cycleNumber m = currentCycleNumber (wk_head w))"
    by (auto simp: work_ok_def reminders_ok_def)
  note keep = reminders_settled_ok[OF old set targets_stopped_slots[OF ts]]
  have "reminder_row_valid m \<and> (\<exists>t \<in> set ts. slot_of_target t m) \<and> \<not> pending m"
    if "m \<in> set ms" for m
    using keep[OF _ that] none[OF that] by blast
  with w show ?thesis
    by (simp add: reminders_ok_def closed_work_def slots_settled_keys[OF set] work_ok_def)
qed

lemma outcomes_of_append [simp]: "outcomes_of n (xs @ ys) = outcomes_of n xs @ outcomes_of n ys"
  by (simp add: outcomes_of_def)

lemma outcomes_of_single [simp]: "outcomes_of n [x] = (if out_cycleNumber x = n then [x] else [])"
  by (simp add: outcomes_of_def)

lemma outcome_scope_cong: "scope_of h' = scope_of h \<Longrightarrow> outcome_scope h' x = outcome_scope h x"
  by (auto simp: outcome_scope_def scope_of_eq_iff)

lemma closed_outcomes_ok:
  assumes w: "work_ok w" and c: "closeHandlingCycle (i\<lparr>cl_current := wk_head w\<rparr>) = Inr (h, t)"
    and ts: "targets_stopped (currentCycleNumber (wk_head w)) why (wk_targets w) ts"
  shows "\<forall>x \<in> set (wk_outcomes w). outcome_row_valid x \<and> outcome_scope h x
      \<and> outcome_deadline ts x \<and> (\<exists>t' \<in> set (wk_log w @ [t]). completes t' x)"
proof
  fix x assume x: "x \<in> set (wk_outcomes w)"
  note sh = closeHandlingCycle_shape[OF c, simplified]
  from w x have "outcome_row_valid x" "outcome_scope (wk_head w) x" "outcome_deadline (wk_targets w) x"
    "\<exists>t' \<in> set (wk_log w). completes t' x"
    by (auto simp: work_ok_def outcomes_ok_def)
  moreover from this(2) sh(4) have "outcome_scope h x"
    using outcome_scope_cong by blast
  moreover from \<open>outcome_deadline (wk_targets w) x\<close> have "outcome_deadline ts x"
    by (rule targets_stopped_deadline[OF ts outcome_not_open[OF w sh(1) x]])
  ultimately show "outcome_row_valid x \<and> outcome_scope h x
      \<and> outcome_deadline ts x \<and> (\<exists>t' \<in> set (wk_log w @ [t]). completes t' x)"
    by auto
qed

lemma closed_history_ok:
  assumes "work_ok w" "closeHandlingCycle (i\<lparr>cl_current := wk_head w\<rparr>) = Inr (h, t)"
  shows "history_ok \<lparr>hist_cycles = wk_cycles w, hist_head = h, hist_log = wk_log w @ [t]\<rparr>"
  using assms by (intro history_ok_close(1)) (simp_all add: work_ok_def)

lemma honest_snoc:
  "honest (l @ [t]) \<longleftrightarrow> honest l \<and> (manager_move t \<longrightarrow> source_available l)"
  by (auto simp: honest_def sorted_wrt_append source_available_def)

lemma close_ok:
  assumes w: "work_ok w" and c: "closeHandlingCycle (i\<lparr>cl_current := wk_head w\<rparr>) = Inr (h, t)"
    and r: "cl_closeReason i \<noteq> CR_private_feedback_handled"
    and ts: "targets_stopped (currentCycleNumber (wk_head w)) (stop_of (cl_closeReason i)) (wk_targets w) ts"
    and ms: "slots_stopped (currentCycleNumber (wk_head w)) (wk_reminders w) ms"
  shows "work_ok (closed_work w h t ts ms)"
proof -
  note sh = closeHandlingCycle_shape[OF c, simplified]
  have no: "\<not> handled_close t" "\<not> manager_move t"
    using sh(6) r by (simp_all add: handled_close_def manager_move_def)
  have "outcomes_ok (closed_work w h t ts ms)"
    using closed_outcomes_ok[OF w c ts] w no
    by (simp add: outcomes_ok_def closed_work_def work_ok_def)
  moreover have "sourceType h = Src_feedback \<longrightarrow> honest (wk_log w @ [t])"
    using w sh(4) no by (simp add: honest_snoc work_ok_def scope_of_eq_iff)
  ultimately show ?thesis
    using closed_history_ok[OF w c] closed_targets_ok[OF w c ts] closed_reminders_ok[OF w ts ms sh(3)]
    by (simp add: work_ok_def closed_work_def)
qed

lemma handle_ok:
  assumes w: "work_ok w" and c: "closeHandlingCycle (i\<lparr>cl_current := wk_head w\<rparr>) = Inr (h, t)"
    and r: "cl_closeReason i = CR_private_feedback_handled"
    and ts: "targets_stopped (currentCycleNumber (wk_head w)) Stop_private_feedback_handled (wk_targets w) ts"
    and ms: "slots_stopped (currentCycleNumber (wk_head w)) (wk_reminders w) ms"
    and av: "source_available (wk_log w)"
    and none: "outcomes_of (currentCycleNumber (wk_head w)) (wk_outcomes w) = []"
    and x: "outcome_row_valid x" "outcomeRevision x = nint 1" "supersedesOutcomeId x = None"
      "outcome_scope h x" "completes t x" "outcome_deadline ts x"
  shows "work_ok ((closed_work w h t ts ms)\<lparr>wk_outcomes := wk_outcomes w @ [x]\<rparr>)"
proof -
  note sh = closeHandlingCycle_shape[OF c, simplified]
  have ts': "targets_stopped (currentCycleNumber (wk_head w)) (stop_of (cl_closeReason i)) (wk_targets w) ts"
    using ts r by simp
  have n: "out_cycleNumber x = currentCycleNumber (wk_head w)"
    using x(5) sh(7) by (simp add: completes_def)
  have "correction_chain (outcomes_of m (wk_outcomes w @ [x]))" for m
  proof (cases "out_cycleNumber x = m")
    case True
    with n none x(2,3) show ?thesis by (simp add: correction_chain_def)
  next
    case False
    with w show ?thesis by (simp add: work_ok_def outcomes_ok_def)
  qed
  moreover have "handled_close t'
      \<longrightarrow> outcomes_of (tr_cycleNumber t') (wk_outcomes w @ [x]) \<noteq> []" if "t' \<in> set (wk_log w @ [t])" for t'
    using that w n sh(7) by (auto simp: work_ok_def outcomes_ok_def)
  ultimately have "outcomes_ok ((closed_work w h t ts ms)\<lparr>wk_outcomes := wk_outcomes w @ [x]\<rparr>)"
    using closed_outcomes_ok[OF w c ts] x by (simp add: outcomes_ok_def closed_work_def)
  moreover have "sourceType h = Src_feedback \<longrightarrow> honest (wk_log w @ [t])"
    using w sh(4) av by (simp add: honest_snoc work_ok_def scope_of_eq_iff)
  moreover have "targets_ok ((closed_work w h t ts ms)\<lparr>wk_outcomes := wk_outcomes w @ [x]\<rparr>)"
    using closed_targets_ok[OF w c ts', where ms = ms] by (simp add: targets_ok_def target_ok_def)
  moreover have "reminders_ok ((closed_work w h t ts ms)\<lparr>wk_outcomes := wk_outcomes w @ [x]\<rparr>)"
    using closed_reminders_ok[OF w ts ms sh(3), where t = t] by (simp add: reminders_ok_def)
  ultimately show ?thesis
    using closed_history_ok[OF w c] by (simp add: work_ok_def closed_work_def)
qed

text \<open>The next cycle: what it finds of the old one, and what it brings.\<close>

definition next_ready :: "work \<Rightarrow> target_row list \<Rightarrow> reminder_row list \<Rightarrow> bool" where
  "next_ready w ts ms =
     (if head_status (wk_head w) = Open
      then targets_stopped (currentCycleNumber (wk_head w)) Stop_superseded_by_source_revision
             (wk_targets w) ts
           \<and> slots_stopped (currentCycleNumber (wk_head w)) (wk_reminders w) ms
      else ts = wk_targets w \<and> ms = wk_reminders w)"

lemma next_history_ok:
  assumes "work_ok w" "createNextHandlingCycle (i\<lparr>current := wk_head w\<rparr>) = Inr d"
  shows "history_ok \<lparr>hist_cycles = wk_cycles w @ [dec_cycle d], hist_head = dec_head d,
     hist_log = wk_log w @ dec_transitions d\<rparr>"
  using assms by (intro history_ok_next(1)) (simp_all add: work_ok_def)

lemma next_cycle_is_new:
  assumes w: "work_ok w" and c: "createNextHandlingCycle (i\<lparr>current := wk_head w\<rparr>) = Inr d"
  shows "x \<in> set (wk_cycles w) \<Longrightarrow> cycleNumber x \<noteq> cycleNumber (dec_cycle d)"
    and "x' \<in> set (wk_log w) \<Longrightarrow> tr_cycleNumber x' \<noteq> cycleNumber (dec_cycle d)"
proof -
  from w have h: "history_ok (wk_history w)" by (simp add: work_ok_def)
  from c have n: "cycleNumber (dec_cycle d) = nint (int (length (wk_cycles w)) + 1)"
    by (rule createNextHandlingCycle_shape) (simp add: history_current(1)[OF h])
  show "x \<in> set (wk_cycles w) \<Longrightarrow> cycleNumber x \<noteq> cycleNumber (dec_cycle d)"
    using history_current(3)[OF h] n by (force simp: image_iff set_eq_iff)
  show "x' \<in> set (wk_log w) \<Longrightarrow> tr_cycleNumber x' \<noteq> cycleNumber (dec_cycle d)"
    using cycle_log_numbers[OF history_current(2)[OF h]] n by fastforce
qed

lemma next_old_target:
  assumes w: "work_ok w" and c: "createNextHandlingCycle (i\<lparr>current := wk_head w\<rparr>) = Inr d"
    and r: "next_ready w ts ms" and u: "u \<in> set ts"
  shows "target_ok (next_work w d ts' ms') u"
  using c
proof (rule createNextHandlingCycle_shape)
  fix op sup
  assume sh: "dec_transitions d = (if head_status (current (i\<lparr>current := wk_head w\<rparr>)) = Open
        then [sup] else []) @ [op]"
    "tr_kind sup = TK_closed" "tr_cycleNumber sup = currentCycleNumber (current (i\<lparr>current := wk_head w\<rparr>))"
    "transitionReason sup = Closed_for CR_superseded_by_source_revision"
    "scope_of (dec_head d) = scope_of (current (i\<lparr>current := wk_head w\<rparr>))"
    "head_status (dec_head d) = Open" "currentCycleNumber (dec_head d) = cycleNumber (dec_cycle d)"
  have new: "tg_cycleNumber v \<noteq> cycleNumber (dec_cycle d)" if "v \<in> set (wk_targets w)" for v
    using that w next_cycle_is_new(1)[OF w c] by (force simp: work_ok_def targets_ok_def target_ok_def)
  have old: "v \<in> set (wk_targets w) \<Longrightarrow> target_ok w v" for v
    using w by (auto simp: work_ok_def targets_ok_def)
  show "target_ok (next_work w d ts' ms') u"
  proof (cases "head_status (wk_head w)")
    case Closed
    with r u have "u \<in> set (wk_targets w)" by (simp add: next_ready_def)
    from old[OF this] new[OF this] Closed sh show ?thesis
      by (auto simp: target_ok_def next_work_def split: if_splits)
  next
    case Open
    with r have ts: "targets_stopped (currentCycleNumber (wk_head w)) Stop_superseded_by_source_revision
        (wk_targets w) ts" by (simp add: next_ready_def)
    from ts u obtain v where v: "v \<in> set (wk_targets w)"
      "u = v \<or> target_stops (currentCycleNumber (wk_head w)) Stop_superseded_by_source_revision v u"
      "tg_cycleNumber u = currentCycleNumber (wk_head w) \<Longrightarrow> performanceEligibility u = Measured
        \<Longrightarrow> tg_completionAt u \<noteq> None"
      by (rule targets_stopped_row) (rule that)
    from v(2) show ?thesis
    proof
      assume "u = v"
      then show ?thesis
        using old[OF v(1)] new[OF v(1)] v(3) Open sh
        by (auto simp: target_ok_def next_work_def split: if_splits)
    next
      assume st: "target_stops (currentCycleNumber (wk_head w)) Stop_superseded_by_source_revision v u"
      note same = target_stops_same[OF st]
      from st have "target_row_valid u" "stopReason u = Some (stop_of CR_superseded_by_source_revision)"
        "tg_result u \<noteq> None" "tg_completionAt u \<noteq> None"
        "tg_cycleNumber u = currentCycleNumber (wk_head w)"
        by (auto simp: target_stops_def)
      then show ?thesis
        using old[OF v(1)] new[OF v(1)] sh same Open
        by (auto simp: target_ok_def next_work_def)
    qed
  qed
qed

lemma next_ready_keys:
  assumes "next_ready w ts ms"
  shows "map tg_cycleNumber ts = map tg_cycleNumber (wk_targets w)"
    "map reminder_key ms = map reminder_key (wk_reminders w)"
  using assms by (auto simp: next_ready_def slots_stopped_def targets_stopped_keys slots_settled_keys
      split: if_splits)

lemma next_targets_ok:
  assumes w: "work_ok w" and c: "createNextHandlingCycle (i\<lparr>current := wk_head w\<rparr>) = Inr d"
    and r: "next_ready w ts ms" and new: "cycle_targets (dec_cycle d) ts' ms'"
  shows "targets_ok (next_work w d (ts @ ts') (ms @ ms'))"
proof -
  have scope: "scope_of (dec_cycle d) = scope_of (dec_head d)"
    "currentCycleNumber (dec_head d) = cycleNumber (dec_cycle d)" "head_status (dec_head d) = Open"
    using c by (rule createNextHandlingCycle_shape; simp)+
  have "target_ok (next_work w d (ts @ ts') (ms @ ms')) u" if u: "u \<in> set (ts @ ts')" for u
  proof (cases "u \<in> set ts")
    case True
    then show ?thesis by (rule next_old_target[OF w c r])
  next
    case False
    with u new have "new_target (dec_cycle d) u" by (simp add: cycle_targets_def)
    with scope show ?thesis
      by (simp add: new_target_def target_ok_def next_work_def)
  qed
  moreover have "distinct (map tg_cycleNumber (ts @ ts'))"
  proof -
    have "distinct (map tg_cycleNumber ts)"
      using w unfolding next_ready_keys(1)[OF r] by (simp add: work_ok_def targets_ok_def)
    moreover have "distinct (map tg_cycleNumber ts')" and one: "tg_cycleNumber ` set ts' \<subseteq> {cycleNumber (dec_cycle d)}"
      using new by (cases ts'; auto simp: cycle_targets_def new_target_def)+
    moreover have two: "cycleNumber (dec_cycle d) \<notin> set (map tg_cycleNumber ts)"
      using w next_cycle_is_new(1)[OF w c] unfolding next_ready_keys(1)[OF r]
      by (force simp: work_ok_def targets_ok_def target_ok_def)
    moreover have "set (map tg_cycleNumber ts) \<inter> set (map tg_cycleNumber ts') = {}"
      using one two by (auto simp: image_subset_iff image_iff)
    ultimately show ?thesis unfolding map_append distinct_append by blast
  qed
  ultimately show ?thesis
    by (simp add: targets_ok_def next_work_def)
qed

lemma next_reminders_ok:
  assumes w: "work_ok w" and c: "createNextHandlingCycle (i\<lparr>current := wk_head w\<rparr>) = Inr d"
    and r: "next_ready w ts ms" and new: "cycle_targets (dec_cycle d) ts' ms'"
  shows "reminders_ok (next_work w d (ts @ ts') (ms @ ms'))"
proof -
  have head: "currentCycleNumber (dec_head d) = cycleNumber (dec_cycle d)" "head_status (dec_head d) = Open"
    using c by (rule createNextHandlingCycle_shape; simp)+
  have old: "\<forall>m \<in> set (wk_reminders w). reminder_row_valid m
      \<and> (\<exists>t \<in> set (wk_targets w). slot_of_target t m)
      \<and> (pending m \<longrightarrow> rm_cycleNumber m = currentCycleNumber (wk_head w) \<and> head_status (wk_head w) = Open)"
    using w by (auto simp: work_ok_def reminders_ok_def)
  have one: "reminder_row_valid m \<and> (\<exists>t \<in> set ts. slot_of_target t m) \<and> \<not> pending m" if m: "m \<in> set ms" for m
  proof (cases "head_status (wk_head w)")
    case Closed
    with r m old show ?thesis by (auto simp: next_ready_def)
  next
    case Open
    with r have ts: "targets_stopped (currentCycleNumber (wk_head w)) Stop_superseded_by_source_revision
        (wk_targets w) ts"
      and ms: "slots_settled (wk_reminders w) ms"
        "\<And>m. m \<in> set ms \<Longrightarrow> rm_cycleNumber m = currentCycleNumber (wk_head w) \<Longrightarrow> \<not> pending m"
      by (auto simp: next_ready_def slots_stopped_def)
    from reminders_settled_ok[OF old ms(1) targets_stopped_slots[OF ts] m] ms(2)[OF m] show ?thesis
      by blast
  qed
  have "reminder_row_valid m \<and> (\<exists>t \<in> set (ts @ ts'). slot_of_target t m)
      \<and> (pending m \<longrightarrow> rm_cycleNumber m = cycleNumber (dec_cycle d))" if "m \<in> set (ms @ ms')" for m
  proof (cases "m \<in> set ms")
    case True
    from one[OF this] show ?thesis by auto
  next
    case False
    with that new obtain t where t: "t \<in> set ts'" "reminder_row_valid m" "slot_of_target t m"
      by (auto simp: cycle_targets_def)
    with new have "rm_cycleNumber m = cycleNumber (dec_cycle d)"
      by (auto simp: cycle_targets_def slot_of_target_def new_target_def)
    with t show ?thesis by auto
  qed
  moreover have "distinct (map reminder_key (ms @ ms'))"
  proof -
    have "distinct (map reminder_key ms)"
      using w unfolding next_ready_keys(2)[OF r] by (simp add: work_ok_def reminders_ok_def)
    moreover have "distinct (map reminder_key ms')"
      using new by (simp add: cycle_targets_def)
    moreover have "rm_cycleNumber m \<noteq> rm_cycleNumber m'" if m: "m \<in> set ms" and m': "m' \<in> set ms'" for m m'
    proof -
      from one[OF m] obtain t where "t \<in> set ts" "tg_cycleNumber t = rm_cycleNumber m"
        by (auto simp: slot_of_target_def)
      then have "rm_cycleNumber m \<in> set (map tg_cycleNumber ts)"
        unfolding set_map by (metis imageI)
      then obtain t' where "t' \<in> set (wk_targets w)" "tg_cycleNumber t' = rm_cycleNumber m"
        unfolding next_ready_keys(1)[OF r] by auto
      with w next_cycle_is_new(1)[OF w c] have "rm_cycleNumber m \<noteq> cycleNumber (dec_cycle d)"
        by (force simp: work_ok_def targets_ok_def target_ok_def)
      moreover from new m' obtain u where "u \<in> set ts'" "slot_of_target u m'"
        by (auto simp: cycle_targets_def)
      with new have "rm_cycleNumber m' = cycleNumber (dec_cycle d)"
        by (auto simp: cycle_targets_def slot_of_target_def new_target_def)
      ultimately show ?thesis by simp
    qed
    then have "reminder_key ` set ms \<inter> reminder_key ` set ms' = {}"
      unfolding reminder_key_def by blast
    ultimately show ?thesis by simp
  qed
  ultimately show ?thesis
    using head by (simp add: reminders_ok_def next_work_def)
qed

lemma next_outcomes_ok:
  assumes w: "work_ok w" and c: "createNextHandlingCycle (i\<lparr>current := wk_head w\<rparr>) = Inr d"
    and r: "next_ready w ts ms" and new: "cycle_targets (dec_cycle d) ts' ms'"
  shows "outcomes_ok (next_work w d (ts @ ts') (ms @ ms'))"
  using c
proof (rule createNextHandlingCycle_shape)
  fix op sup
  assume sh: "dec_transitions d = (if head_status (current (i\<lparr>current := wk_head w\<rparr>)) = Open
        then [sup] else []) @ [op]"
    "transitionReason sup = Closed_for CR_superseded_by_source_revision"
    "tr_kind op \<noteq> TK_closed"
    "scope_of (dec_head d) = scope_of (current (i\<lparr>current := wk_head w\<rparr>))"
  have no: "\<not> handled_close t" if "t \<in> set (dec_transitions d)" for t
    using that sh by (auto simp: handled_close_def split: if_splits)
  have "outcome_row_valid x \<and> outcome_scope (dec_head d) x \<and> outcome_deadline (ts @ ts') x
      \<and> (\<exists>t \<in> set (wk_log w @ dec_transitions d). completes t x)"
    if x: "x \<in> set (wk_outcomes w)" for x
  proof -
    from w x obtain t where o: "outcome_row_valid x" "outcome_scope (wk_head w) x"
      "outcome_deadline (wk_targets w) x" "t \<in> set (wk_log w)" "completes t x"
      by (auto simp: work_ok_def outcomes_ok_def)
    have "out_cycleNumber x \<noteq> cycleNumber (dec_cycle d)"
      using next_cycle_is_new(2)[OF w c o(4)] o(5) by (simp add: completes_def)
    then have fresh: "\<forall>u \<in> set ts'. tg_cycleNumber u \<noteq> out_cycleNumber x"
      using new by (auto simp: cycle_targets_def new_target_def)
    have "outcome_deadline ts x"
    proof (cases "head_status (wk_head w)")
      case Open
      with r have "targets_stopped (currentCycleNumber (wk_head w)) Stop_superseded_by_source_revision
          (wk_targets w) ts" by (simp add: next_ready_def)
      then show ?thesis
        using outcome_not_open[OF w Open x] o(3) by (rule targets_stopped_deadline)
    qed (use r o(3) in \<open>simp add: next_ready_def\<close>)
    with fresh have "outcome_deadline (ts @ ts') x"
      unfolding outcome_deadline_def set_append by blast
    moreover have "outcome_scope (dec_head d) x"
      using o(2) sh(4) outcome_scope_cong[of "dec_head d" "wk_head w"] by simp
    moreover have "\<exists>t \<in> set (wk_log w @ dec_transitions d). completes t x"
      using o(4,5) by auto
    ultimately show ?thesis using o(1) by blast
  qed
  moreover have "outcomes_of (tr_cycleNumber t) (wk_outcomes w) \<noteq> []"
    if "t \<in> set (wk_log w @ dec_transitions d)" "handled_close t" for t
    using that no w by (auto simp: work_ok_def outcomes_ok_def)
  moreover have "correction_chain (outcomes_of n (wk_outcomes w))" for n
    using w by (simp add: work_ok_def outcomes_ok_def)
  ultimately show "outcomes_ok (next_work w d (ts @ ts') (ms @ ms'))"
    by (simp add: outcomes_ok_def next_work_def)
qed

lemma next_ok:
  assumes w: "work_ok w" and c: "createNextHandlingCycle (i\<lparr>current := wk_head w\<rparr>) = Inr d"
    and av: "nx_openedReason i = Next_manual_reopen \<and> sourceType (wk_head w) = Src_feedback
      \<longrightarrow> source_available (wk_log w)"
    and r: "next_ready w ts ms" and new: "cycle_targets (dec_cycle d) ts' ms'"
  shows "work_ok (next_work w d (ts @ ts') (ms @ ms'))"
proof -
  have "honest (wk_log w @ dec_transitions d)" if fb: "sourceType (dec_head d) = Src_feedback"
    using c
  proof (rule createNextHandlingCycle_shape)
    fix op sup
    assume sh: "dec_transitions d = (if head_status (current (i\<lparr>current := wk_head w\<rparr>)) = Open
          then [sup] else []) @ [op]"
      "transitionReason sup = Closed_for CR_superseded_by_source_revision"
      "\<And>why. transitionReason op \<noteq> Closed_for why"
      "\<And>m. transitionReason op = Reopened_for m
        \<Longrightarrow> nx_openedReason (i\<lparr>current := wk_head w\<rparr>) = Next_manual_reopen"
      "scope_of (dec_head d) = scope_of (current (i\<lparr>current := wk_head w\<rparr>))"
    from sh(2) have sup: "\<not> manager_move sup" "\<not> unavailable_close sup"
      by (auto simp: manager_move_def handled_close_def unavailable_close_def)
    from sh(5) fb have fb': "sourceType (wk_head w) = Src_feedback" by (simp add: scope_of_eq_iff)
    with w have "honest (wk_log w)" by (simp add: work_ok_def)
    moreover have "manager_move op \<longrightarrow> source_available (wk_log w)"
      using sh(3,4) av fb' by (auto simp: manager_move_def handled_close_def)
    ultimately show "honest (wk_log w @ dec_transitions d)"
      using sup by (simp add: sh(1) honest_snoc source_available_def
          flip: append_assoc append.simps)
  qed
  then show ?thesis
    using next_history_ok[OF w c] next_targets_ok[OF w c r new] next_reminders_ok[OF w c r new]
      next_outcomes_ok[OF w c r new]
    by (simp add: work_ok_def next_work_def)
qed

lemma carry_ok:
  assumes w: "work_ok w" and c: "carry_head n (wk_head w) = Some h"
  shows "work_ok (w\<lparr>wk_history := (wk_history w)\<lparr>hist_head := h\<rparr>\<rparr>)"
proof -
  from w have "history_ok (wk_history w)" by (simp add: work_ok_def)
  from history_ok_carry[OF this c] have "history_ok ((wk_history w)\<lparr>hist_head := h\<rparr>)" .
  moreover from c obtain k where "h = (wk_head w)\<lparr>currentSourceRevision := k\<rparr>"
    by (rule carry_head_okE)
  ultimately show ?thesis
    using w by (simp add: work_ok_def targets_ok_def target_ok_def reminders_ok_def outcomes_ok_def
        outcome_scope_def)
qed

lemma correct_ok:
  assumes w: "work_ok w"
    and xs: "outcomes_of (currentCycleNumber (wk_head w)) (wk_outcomes w) = xs @ [x]"
    and y: "outcome_row_valid y" "outcome_scope (wk_head w) y" "corrects x y"
  shows "work_ok (w\<lparr>wk_outcomes := wk_outcomes w @ [y]\<rparr>)"
proof -
  have x: "x \<in> set (wk_outcomes w)" "out_cycleNumber x = currentCycleNumber (wk_head w)"
    using arg_cong[OF xs, of set] by (auto simp: outcomes_of_def)
  from w x(1) obtain t where o: "outcome_deadline (wk_targets w) x" "t \<in> set (wk_log w)" "completes t x"
    by (auto simp: work_ok_def outcomes_ok_def)
  from o(1,3) y(3) have "outcome_deadline (wk_targets w) y" "completes t y"
    by (simp_all add: corrects_def outcome_deadline_def completes_def)
  moreover have "correction_chain (outcomes_of n (wk_outcomes w @ [y]))" for n
  proof (cases "n = currentCycleNumber (wk_head w)")
    case True
    have "correction_chain (xs @ [x])"
      using w xs unfolding work_ok_def outcomes_ok_def by metis
    with y(3) have "correction_chain ((xs @ [x]) @ [y])"
      by (auto simp: correction_chain_def successively_append_iff hd_append)
    with True xs x(2) y(3) show ?thesis by (simp add: corrects_def)
  next
    case False
    with w x(2) y(3) show ?thesis by (simp add: work_ok_def outcomes_ok_def corrects_def)
  qed
  ultimately have "outcomes_ok (w\<lparr>wk_outcomes := wk_outcomes w @ [y]\<rparr>)"
    using w o(2) y by (auto simp: outcomes_ok_def work_ok_def)
  with w show ?thesis
    by (simp add: work_ok_def targets_ok_def target_ok_def reminders_ok_def)
qed

lemma settle_ok:
  assumes w: "work_ok w" and ms: "slots_settled (wk_reminders w) ms"
  shows "work_ok (w\<lparr>wk_reminders := ms\<rparr>)"
proof -
  from w have old: "\<forall>m \<in> set (wk_reminders w). reminder_row_valid m
      \<and> (\<exists>t \<in> set (wk_targets w). slot_of_target t m)
      \<and> (pending m \<longrightarrow> rm_cycleNumber m = currentCycleNumber (wk_head w) \<and> head_status (wk_head w) = Open)"
    by (simp add: work_ok_def reminders_ok_def)
  have "reminders_ok (w\<lparr>wk_reminders := ms\<rparr>)"
    using reminders_settled_ok[OF old ms, of "wk_targets w"] w
    by (auto simp: reminders_ok_def slots_settled_keys[OF ms] work_ok_def)
  with w show ?thesis
    by (simp add: work_ok_def targets_ok_def target_ok_def outcomes_ok_def)
qed

theorem work_step_ok:
  assumes "work_step w w'" "work_ok w"
  shows "work_ok w'"
  using assms
proof (cases rule: work_step.cases)
  case step_next
  then show ?thesis
    using assms(2) next_ok by (auto simp: next_ready_def split: if_splits)
qed (use assms(2) in \<open>auto intro: close_ok handle_ok carry_ok correct_ok settle_ok\<close>)

interpretation works: step_machine work_step work_ok
  by unfold_locales (rule work_step_ok)

text \<open>The first cycle of an item.\<close>

definition first_work :: "cycle_decision \<Rightarrow> target_row list \<Rightarrow> reminder_row list \<Rightarrow> work" where
  "first_work d ts ms = \<lparr>wk_history = history_of d, wk_targets = ts, wk_reminders = ms, wk_outcomes = []\<rparr>"

lemma first_ok:
  assumes "createInitialHandlingCycle i = Inr d" "in_status i = Open" "cycle_targets (dec_cycle d) ts ms"
  shows "work_ok (first_work d ts ms)"
proof -
  have "history_ok (history_of d)"
    using assms(1,2) by (rule history_ok_initial)
  moreover have "targets_ok (first_work d ts ms) \<and> reminders_ok (first_work d ts ms)
      \<and> outcomes_ok (first_work d ts ms) \<and> honest (dec_transitions d)"
    using assms(1)
  proof (rule createInitialHandlingCycle_okE)
    fix s assume r: "dec_cycle d = cycle_scope.extend (scope_of i)
        (handling_cycle.fields (nint 1) (nint s) (first_reason (in_openedReason i)) None None None
          None (in_openedAt i))"
      "dec_head d = cycle_scope.extend (scope_of i)
        (handling_head.fields (nint 1) (nint s) (nint 1) (in_status i))"
      "dec_transitions d = [cycle_scope.extend (scope_of i)
        (handling_transition.fields (nint 1) (nint 1) (nint s) TK_opened
          (Opened_for (first_reason (in_openedReason i))) (in_actorType i) None
          (in_triggerEventId i) (in_openedAt i))]"
    have "distinct (map tg_cycleNumber ts)"
      using assms(3) by (cases ts) (auto simp: cycle_targets_def)
    then show ?thesis
      using assms(2,3) r
      by (auto simp: targets_ok_def target_ok_def reminders_ok_def outcomes_ok_def first_work_def
          history_of_def cycle_targets_def new_target_def slot_of_target_def honest_def
          handled_close_def outcomes_of_def correction_chain_def)
  qed
  ultimately show ?thesis by (simp add: work_ok_def first_work_def history_of_def)
qed

end
