(* ===== verification/InboxEffects.thy ===== *)
theory InboxEffects
  imports CycleStore InboxWork
begin

text \<open>
  What the statements of the Inbox stores do to the rows of an item when they succeed, and that the
  two sequences every store shares - closing the current cycle and writing the next one - are steps
  of the machine of \<open>InboxWork\<close>. \<open>core_ok\<close> is the invariant of the rows of one item while a
  transaction runs; between transactions the status of the item mirrors its head as well
  (\<open>item_ok\<close>).
\<close>

section \<open>Statements\<close>

lemma must_ok [txn_simps]: "must t e r = Inr (x, r') \<longleftrightarrow> t r = Inr (Some x, r')"
  by (auto simp: must_def txn_simps)

lemma insert_cycle_ok [txn_simps]:
  "insert_cycle c r = Inr (u, r') \<longleftrightarrow> cycle_row_valid c \<and> cycleNumber c \<notin> cycleNumber ` set (row_cycles r)
     \<and> r' = r\<lparr>row_cycles := row_cycles r @ [c]\<rparr>"
  by (auto simp: insert_cycle_def txn_simps)

lemma insert_transition_ok [txn_simps]:
  "insert_transition t r = Inr (u, r') \<longleftrightarrow> transition_row_valid t
     \<and> tr_stateRevision t \<notin> tr_stateRevision ` set (row_log r)
     \<and> r' = r\<lparr>row_log := row_log r @ [t]\<rparr>"
  by (auto simp: insert_transition_def txn_simps)

lemma insert_head_ok [txn_simps]:
  "insert_head h r = Inr (u, r') \<longleftrightarrow> head_row_valid h \<and> row_head r = None \<and> r' = r\<lparr>row_head := Some h\<rparr>"
  by (auto simp: insert_head_def txn_simps)

lemma update_head_Some [txn_simps]:
  "update_head p f r = Inr (Some h', r') \<longleftrightarrow>
     (\<exists>h. row_head r = Some h \<and> p h \<and> head_row_valid (f h) \<and> h' = f h \<and> r' = r\<lparr>row_head := Some (f h)\<rparr>)"
  by (cases "row_head r") (auto simp: update_head_def txn_simps chosen_def split: option.splits if_splits)

lemma update_item_Some [txn_simps]:
  "update_item p f r = Inr (Some i', r') \<longleftrightarrow>
     (\<exists>i. row_item r = Some i \<and> p i \<and> item_row_valid (f i) \<and> i' = f i \<and> r' = r\<lparr>row_item := Some (f i)\<rparr>)"
  by (cases "row_item r") (auto simp: update_item_def txn_simps chosen_def split: option.splits if_splits)

lemma update_item_None [txn_simps]:
  "update_item p f r = Inr (None, r') \<longleftrightarrow> (\<forall>i. row_item r = Some i \<longrightarrow> \<not> p i) \<and> r' = r"
  by (cases "row_item r") (auto simp: update_item_def txn_simps chosen_def split: option.splits)

lemma insertOutboxRow_ok [txn_simps]:
  "insertOutboxRow f r = Inr (u, r') \<longleftrightarrow> r' = r\<lparr>row_facts := row_facts r @ [f]\<rparr>"
  by (simp add: insertOutboxRow_def txn_simps)

lemma insert_facts_ok [txn_simps]:
  "insert_facts fs r = Inr (u, r') \<longleftrightarrow> r' = r\<lparr>row_facts := row_facts r @ fs\<rparr>"
  unfolding insert_facts_def by (induction fs arbitrary: r) (auto simp: txn_simps)

lemma insert_target_ok [txn_simps]:
  "insert_target t r = Inr (u, r') \<longleftrightarrow> target_row_valid t
     \<and> tg_cycleNumber t \<notin> tg_cycleNumber ` set (row_targets r)
     \<and> r' = r\<lparr>row_targets := row_targets r @ [t]\<rparr>"
  by (auto simp: insert_target_def txn_simps)

lemma insert_reminder_ok [txn_simps]:
  "insert_reminder m r = Inr (u, r') \<longleftrightarrow> reminder_row_valid m
     \<and> reminder_key m \<notin> reminder_key ` set (row_reminders r)
     \<and> r' = r\<lparr>row_reminders := row_reminders r @ [m]\<rparr>"
  by (auto simp: insert_reminder_def txn_simps)

lemma insert_outcome_ok [txn_simps]:
  "insert_outcome x r = Inr (u, r') \<longleftrightarrow> outcome_row_valid x
     \<and> out_id x \<notin> out_id ` set (row_outcomes r)
     \<and> (out_cycleNumber x, outcomeRevision x)
         \<notin> (\<lambda>y. (out_cycleNumber y, outcomeRevision y)) ` set (row_outcomes r)
     \<and> resultingCommandRevision x \<notin> resultingCommandRevision ` set (row_outcomes r)
     \<and> r' = r\<lparr>row_outcomes := row_outcomes r @ [x]\<rparr>"
  by (auto simp: insert_outcome_def txn_simps)

lemma insert_transitions_ok:
  assumes "for_each insert_transition ts r = Inr (u, r')"
  shows "r' = r\<lparr>row_log := row_log r @ ts\<rparr>"
  using assms
proof (induction ts arbitrary: r)
  case (Cons t ts)
  then have "for_each insert_transition ts (r\<lparr>row_log := row_log r @ [t]\<rparr>) = Inr (u, r')"
    by (auto simp: txn_simps)
  from Cons.IH[OF this] show ?case by simp
qed (simp add: txn_simps)

lemma insert_reminders_ok:
  assumes "for_each (\<lambda>x. insert_reminder (f x)) xs r = Inr (u, r')"
  shows "r' = r\<lparr>row_reminders := row_reminders r @ map f xs\<rparr>
    \<and> (\<forall>x \<in> set xs. reminder_row_valid (f x)) \<and> distinct (map reminder_key (map f xs))
    \<and> reminder_key ` f ` set xs \<inter> reminder_key ` set (row_reminders r) = {}"
  using assms
proof (induction xs arbitrary: r)
  case (Cons x xs)
  from Cons.prems have one: "reminder_row_valid (f x)"
    "reminder_key (f x) \<notin> reminder_key ` set (row_reminders r)"
    and rest: "for_each (\<lambda>x. insert_reminder (f x)) xs (r\<lparr>row_reminders := row_reminders r @ [f x]\<rparr>) = Inr (u, r')"
    by (auto simp: txn_simps)
  from Cons.IH[OF rest] one show ?case by auto
qed (simp add: txn_simps)

section \<open>A target with its slots\<close>

lemma measured_target_sel [simp]:
  "scope_of (measured_target c s) = scope_of c" "tg_cycleNumber (measured_target c s) = cycleNumber c"
  "organizationId (measured_target c s) = organizationId c" "propertyId (measured_target c s) = propertyId c"
  "tg_sourceRevision (measured_target c s) = sourceRevision c" "tg_kind (measured_target c s) = targetKind s"
  "performanceEligibility (measured_target c s) = Measured" "tg_startAt (measured_target c s) = Some (startAt s)"
  "tg_dueAt (measured_target c s) = Some (dueAt s)" "tg_completionAt (measured_target c s) = None"
  "tg_result (measured_target c s) = None" "stopReason (measured_target c s) = None"
  by (simp_all add: measured_target_def target_row.defs scope_of_def cycle_scope.defs)

lemma unmeasured_target_sel [simp]:
  "scope_of (unmeasured_target c k e) = scope_of c" "tg_cycleNumber (unmeasured_target c k e) = cycleNumber c"
  "tg_sourceRevision (unmeasured_target c k e) = sourceRevision c"
  "performanceEligibility (unmeasured_target c k e) = e" "tg_completionAt (unmeasured_target c k e) = None"
  "tg_result (unmeasured_target c k e) = None" "stopReason (unmeasured_target c k e) = None"
  by (simp_all add: unmeasured_target_def target_row.defs scope_of_def cycle_scope.defs)

lemma reminder_of_sel [simp]:
  "rm_cycleNumber (reminder_of c k x) = cycleNumber c" "rm_organizationId (reminder_of c k x) = organizationId c"
  "rm_propertyId (reminder_of c k x) = propertyId c" "rm_targetKind (reminder_of c k x) = k"
  by (simp_all add: reminder_of_def)

lemma insertMeasuredTarget_ok:
  assumes "insertMeasuredTarget c s at' r = Inr (u, r')"
  obtains ms where
    "r' = r\<lparr>row_targets := row_targets r @ [measured_target c s], row_reminders := row_reminders r @ ms\<rparr>"
    "cycle_targets c [measured_target c s] ms"
proof -
  from assms obtain rems where v: "target_row_valid (measured_target c s)"
    and f: "for_each (\<lambda>rem. insert_reminder (reminder_of c (targetKind s) rem)) rems
      (r\<lparr>row_targets := row_targets r @ [measured_target c s]\<rparr>) = Inr (u, r')"
    by (auto simp: insertMeasuredTarget_def insertSchedulableReminders_def txn_simps)
  from insert_reminders_ok[OF f] v show thesis
    by (intro that[of "map (reminder_of c (targetKind s)) rems"])
      (auto simp: cycle_targets_def new_target_def slot_of_target_def)
qed

lemma insertResponseTargetForHandlingCycle_ok:
  assumes "insertResponseTargetForHandlingCycle env c at' a r = Inr (u, r')"
  obtains ts ms where
    "r' = r\<lparr>row_targets := row_targets r @ ts, row_reminders := row_reminders r @ ms\<rparr>"
    "cycle_targets c ts ms"
proof -
  note goal = that
  have unmeasured: thesis
    if "e \<noteq> Measured" "insert_target (unmeasured_target c k e) r = Inr (u, r')" for k e
    using that by (intro goal[of "[]" "[unmeasured_target c k e]"])
      (auto simp: txn_simps cycle_targets_def new_target_def)
  have measured: thesis if "insertMeasuredTarget c s at' r = Inr (u, r')" for s
    using that by (rule insertMeasuredTarget_ok) (rule goal)
  show thesis
    using assms unmeasured measured
    by (auto simp: insertResponseTargetForHandlingCycle_def txn_simps split: if_splits)
qed

lemma insert_chosen_target_ok:
  assumes "insert_chosen_target env c at' choice r = Inr (u, r')"
  obtains ts ms where
    "r' = r\<lparr>row_targets := row_targets r @ ts, row_reminders := row_reminders r @ ms\<rparr>"
    "cycle_targets c ts ms"
proof (cases choice)
  case Suppressed
  with assms show thesis
    by (intro that[of "[]" "[]"]) (simp_all add: insert_chosen_target_def txn_simps cycle_targets_def)
next
  case (Anchored a)
  with assms have "insertResponseTargetForHandlingCycle env c at' a r = Inr (u, r')"
    by (simp add: insert_chosen_target_def)
  then show thesis by (rule insertResponseTargetForHandlingCycle_ok) (rule that)
qed

section \<open>Stopping a target with its slots\<close>

lemma stop_target_ok:
  assumes "stop_target p n done res why r = Inr (b, r')"
  shows "r' = r\<lparr>row_targets := map (\<lambda>t. if unfinished p n t
      then t\<lparr>tg_completionAt := Some done, tg_result := Some res, stopReason := Some why\<rparr> else t) (row_targets r)\<rparr>"
    and "\<And>t. t \<in> set (row_targets r) \<Longrightarrow> unfinished p n t \<Longrightarrow>
      target_row_valid (t\<lparr>tg_completionAt := Some done, tg_result := Some res, stopReason := Some why\<rparr>)"
    and "b = (\<exists>t \<in> set (row_targets r). unfinished p n t)"
  using assms by (auto simp: stop_target_def txn_simps filter_empty_conv)

lemma cancel_reminders_ok [txn_simps]:
  "cancel_reminders p n d r = Inr (u, r') \<longleftrightarrow> r' = r\<lparr>row_reminders :=
     map (\<lambda>m. if rm_cycleNumber m = n \<and> pending m \<and> p m then m\<lparr>cancelledAt := Some d\<rparr> else m)
       (row_reminders r)\<rparr>"
  by (auto simp: cancel_reminders_def txn_simps)

lemma stopped_targets:
  assumes "distinct (map tg_cycleNumber ts)" "t \<in> set ts" "tg_cycleNumber t = n" "performanceEligibility t = Measured"
    and p: "p t"
    and valid: "\<And>u. u \<in> set ts \<Longrightarrow> unfinished p n u \<Longrightarrow> target_row_valid (f u)"
    and f: "\<And>u. f u = u\<lparr>tg_completionAt := Some fin, tg_result := Some res, stopReason := Some why\<rparr>"
  shows "targets_stopped n why ts (map (\<lambda>u. if unfinished p n u then f u else u) ts)"
proof -
  have one: "u = t" if "u \<in> set ts" "tg_cycleNumber u = n" for u
    using that assms(1-3) by (auto simp: distinct_map inj_on_def)
  have "list_all2 (\<lambda>u u'. u' = u \<or> target_stops n why u u') ts (map (\<lambda>u. if unfinished p n u then f u else u) ts)"
    using one assms(4) valid
    by (auto simp: list_all2_map2 list_all2_same unfinished_def target_stops_def f)
  moreover have "tg_completionAt u' \<noteq> None"
    if u': "u' \<in> set (map (\<lambda>u. if unfinished p n u then f u else u) ts)" "tg_cycleNumber u' = n" for u'
  proof -
    from u'(1) obtain u where u: "u \<in> set ts" "u' = (if unfinished p n u then f u else u)" by auto
    with u'(2) have "tg_cycleNumber u = n" by (simp add: f split: if_splits)
    with one[OF u(1)] have "u = t" by simp
    with p assms(3) u(2) show ?thesis by (auto simp: unfinished_def f)
  qed
  ultimately show ?thesis by (simp add: targets_stopped_def)
qed

section \<open>The invariant of an item's rows\<close>

definition work_of :: "handling_head \<Rightarrow> item_rows \<Rightarrow> work" where
  "work_of h r =
     \<lparr>wk_history = \<lparr>hist_cycles = row_cycles r, hist_head = h, hist_log = row_log r\<rparr>,
      wk_targets = row_targets r, wk_reminders = row_reminders r, wk_outcomes = row_outcomes r\<rparr>"

lemma work_of_sel [simp]:
  "wk_history (work_of h r) = \<lparr>hist_cycles = row_cycles r, hist_head = h, hist_log = row_log r\<rparr>"
  "wk_targets (work_of h r) = row_targets r" "wk_reminders (work_of h r) = row_reminders r"
  "wk_outcomes (work_of h r) = row_outcomes r"
  by (simp_all add: work_of_def)

definition work_in :: "item_rows \<Rightarrow> work option" where
  "work_in r = map_option (\<lambda>h. work_of h r) (row_head r)"

definition linked :: "inbox_item \<Rightarrow> handling_head \<Rightarrow> bool" where
  "linked i h =
     (inboxItemId h = item_id i \<and> organizationId h = item_organizationId i
      \<and> propertyId h = item_propertyId i \<and> sourceType h = item_sourceType i
      \<and> sourceId h = item_sourceId i)"

definition core_ok :: "string \<Rightarrow> item_rows \<Rightarrow> bool" where
  "core_ok k r =
     ((case row_item r of None \<Rightarrow> True | Some i \<Rightarrow> item_id i = k \<and> item_row_valid i)
      \<and> (case row_head r of
           None \<Rightarrow> row_cycles r = [] \<and> row_log r = [] \<and> row_targets r = [] \<and> row_reminders r = []
             \<and> row_outcomes r = []
         | Some h \<Rightarrow> (case row_item r of None \<Rightarrow> False | Some i \<Rightarrow> linked i h) \<and> work_ok (work_of h r)))"

definition mirrored :: "item_rows \<Rightarrow> bool" where
  "mirrored r =
     (case (row_item r, row_head r) of (Some i, Some h) \<Rightarrow> item_status i = head_status h | _ \<Rightarrow> True)"

definition item_ok :: "string \<Rightarrow> item_rows \<Rightarrow> bool" where
  "item_ok k r = (core_ok k r \<and> mirrored r)"

definition same_key :: "inbox_item \<Rightarrow> inbox_item \<Rightarrow> bool" where
  "same_key i j =
     (item_id i = item_id j \<and> item_organizationId i = item_organizationId j
      \<and> item_propertyId i = item_propertyId j \<and> item_sourceType i = item_sourceType j
      \<and> item_sourceId i = item_sourceId j)"

lemma same_key_refl [simp]: "same_key i i"
  by (simp add: same_key_def)

definition same_item :: "item_rows \<Rightarrow> item_rows \<Rightarrow> bool" where
  "same_item r r' = rel_option same_key (row_item r') (row_item r)"

lemma same_item_eq [simp]: "row_item r' = row_item r \<Longrightarrow> same_item r r'"
  by (simp add: same_item_def option.rel_refl)

lemma same_item_Some: "row_item r = Some i \<Longrightarrow> row_item r' = Some i' \<Longrightarrow> same_key i' i \<Longrightarrow> same_item r r'"
  by (simp add: same_item_def)

text \<open>A transaction moves the work along steps of the machine and keeps the identity of the item.\<close>

definition evolves :: "item_rows \<Rightarrow> item_rows \<Rightarrow> bool" where
  "evolves r r' = (rel_option work_step\<^sup>*\<^sup>* (work_in r) (work_in r') \<and> same_item r r')"

lemma evolves_refl [simp]: "evolves r r"
  by (simp add: evolves_def option.rel_refl)

lemma evolves_trans: "evolves a b \<Longrightarrow> evolves b c \<Longrightarrow> evolves a c"
  unfolding evolves_def same_item_def
  by (auto simp: option_rel_Some1 option_rel_Some2 same_key_def elim!: option.rel_cases intro: rtranclp_trans)

lemma evolves_step:
  "row_head r = Some h \<Longrightarrow> row_head r' = Some h' \<Longrightarrow> work_step (work_of h r) (work_of h' r') \<Longrightarrow> same_item r r'
     \<Longrightarrow> evolves r r'"
  by (simp add: evolves_def work_in_def)

text \<open>The columns outside the work of an item.\<close>

lemma work_of_frame [simp]:
  "work_of h (r\<lparr>row_item := i\<rparr>) = work_of h r" "work_of h (r\<lparr>row_facts := fs\<rparr>) = work_of h r"
  "work_of h (r\<lparr>row_head := h'\<rparr>) = work_of h r"
  "work_of h (r\<lparr>row_notes := ns\<rparr>) = work_of h r" "work_of h (r\<lparr>row_assignments := as\<rparr>) = work_of h r"
  "work_of h (r\<lparr>row_escalations := es\<rparr>) = work_of h r" "work_of h (r\<lparr>row_priorities := ps\<rparr>) = work_of h r"
  "work_of h (r\<lparr>row_exclusions := xs\<rparr>) = work_of h r"
  by (simp_all add: work_of_def)

lemma core_ok_frame [simp]:
  "core_ok k (r\<lparr>row_facts := fs\<rparr>) = core_ok k r" "core_ok k (r\<lparr>row_notes := ns\<rparr>) = core_ok k r"
  "core_ok k (r\<lparr>row_assignments := as\<rparr>) = core_ok k r" "core_ok k (r\<lparr>row_escalations := es\<rparr>) = core_ok k r"
  "core_ok k (r\<lparr>row_priorities := ps\<rparr>) = core_ok k r" "core_ok k (r\<lparr>row_exclusions := xs\<rparr>) = core_ok k r"
  by (simp_all add: core_ok_def split: option.splits)

lemma mirrored_frame [simp]:
  "mirrored (r\<lparr>row_facts := fs\<rparr>) = mirrored r" "mirrored (r\<lparr>row_notes := ns\<rparr>) = mirrored r"
  "mirrored (r\<lparr>row_assignments := as\<rparr>) = mirrored r" "mirrored (r\<lparr>row_escalations := es\<rparr>) = mirrored r"
  "mirrored (r\<lparr>row_priorities := ps\<rparr>) = mirrored r" "mirrored (r\<lparr>row_exclusions := xs\<rparr>) = mirrored r"
  by (simp_all add: mirrored_def)

lemma work_in_frame [simp]:
  "work_in (r\<lparr>row_facts := fs\<rparr>) = work_in r" "work_in (r\<lparr>row_notes := ns\<rparr>) = work_in r"
  "work_in (r\<lparr>row_assignments := as\<rparr>) = work_in r" "work_in (r\<lparr>row_escalations := es\<rparr>) = work_in r"
  "work_in (r\<lparr>row_priorities := ps\<rparr>) = work_in r" "work_in (r\<lparr>row_exclusions := xs\<rparr>) = work_in r"
  "work_in (r\<lparr>row_item := i\<rparr>) = work_in r"
  by (simp_all add: work_in_def)

lemma core_okD:
  assumes "core_ok k r" "row_head r = Some h"
  obtains i where "row_item r = Some i" "item_id i = k" "item_row_valid i" "linked i h" "work_ok (work_of h r)"
  using assms by (auto simp: core_ok_def split: option.splits)

lemma core_ok_item:
  "core_ok k r \<Longrightarrow> row_item r = Some i \<Longrightarrow> same_key i' i \<Longrightarrow> item_row_valid i'
     \<Longrightarrow> core_ok k (r\<lparr>row_item := Some i'\<rparr>)"
  by (auto simp: core_ok_def same_key_def linked_def split: option.splits)

section \<open>A cycle stops\<close>

definition stops_cycle :: "number \<Rightarrow> stop_reason \<Rightarrow> item_rows \<Rightarrow> item_rows \<Rightarrow> bool" where
  "stops_cycle n why r r' =
     (\<exists>ts ms. r' = r\<lparr>row_targets := ts, row_reminders := ms\<rparr>
        \<and> targets_stopped n why (row_targets r) ts \<and> slots_stopped n (row_reminders r) ms)"

lemma work_slot:
  assumes "work_ok w" "m \<in> set (wk_reminders w)"
  obtains t where "t \<in> set (wk_targets w)" "slot_of_target t m" "performanceEligibility t = Measured"
    "tg_cycleNumber t = rm_cycleNumber m" "rm_organizationId m = organizationId (wk_head w)"
    "reminder_row_valid m" "pending m \<Longrightarrow> tg_completionAt t = None"
proof -
  from assms obtain t where t: "t \<in> set (wk_targets w)" "slot_of_target t m" "reminder_row_valid m"
    "pending m \<longrightarrow> rm_cycleNumber m = currentCycleNumber (wk_head w) \<and> head_status (wk_head w) = Open"
    by (auto simp: work_ok_def reminders_ok_def)
  moreover from assms(1) t(1) have "target_ok w t" by (simp add: work_ok_def targets_ok_def)
  ultimately show thesis
    by (intro that[of t]) (auto simp: slot_of_target_def target_ok_def scope_of_eq_iff)
qed

lemma nothing_to_stop:
  assumes "work_ok (work_of h r)"
    and "\<And>t. t \<in> set (row_targets r) \<Longrightarrow> tg_cycleNumber t = n \<Longrightarrow> performanceEligibility t = Measured
      \<Longrightarrow> tg_completionAt t \<noteq> None"
  shows "stops_cycle n why r r"
proof -
  have "\<not> pending m" if "m \<in> set (row_reminders r)" "rm_cycleNumber m = n" for m
    using work_slot[OF assms(1), of m] that assms(2) by auto
  with assms(2) show ?thesis
    unfolding stops_cycle_def
    by (intro exI[of _ "row_targets r"] exI[of _ "row_reminders r"])
      (auto simp: targets_stopped_def slots_stopped_def slots_settled_def list_all2_same)
qed

lemma reminders_cancelled:
  assumes "work_ok (work_of h r)" and p: "\<And>m. m \<in> set (row_reminders r) \<Longrightarrow> p m"
  shows "slots_stopped n (row_reminders r) (map (\<lambda>m. if rm_cycleNumber m = n \<and> pending m \<and> p m
      then m\<lparr>cancelledAt := Some d\<rparr> else m) (row_reminders r))" (is "slots_stopped n _ (map ?g _)")
proof -
  have g: "?g m = m \<or> slot_settles m (?g m)" "rm_cycleNumber (?g m) = n \<longrightarrow> \<not> pending (?g m)"
    if m: "m \<in> set (row_reminders r)" for m
  proof -
    have "reminder_row_valid m" using work_slot[OF assms(1), of m] m by auto
    then have "pending m \<Longrightarrow> slot_settles m (m\<lparr>cancelledAt := Some d\<rparr>)"
      unfolding slot_settles_def by (auto simp: pending_def reminder_row_valid_def)
    then show "?g m = m \<or> slot_settles m (?g m)" by simp
    show "rm_cycleNumber (?g m) = n \<longrightarrow> \<not> pending (?g m)"
      using p[OF m] by (cases "pending m") (auto simp: pending_def split: if_splits)
  qed
  have "list_all2 (\<lambda>m m'. m' = m \<or> slot_settles m m') (row_reminders r) (map ?g (row_reminders r))"
    unfolding list_all2_map2 list_all2_same using g(1) by blast
  moreover have "\<not> pending m'" if "m' \<in> set (map ?g (row_reminders r))" "rm_cycleNumber m' = n" for m'
  proof -
    from that(1) obtain m where "m \<in> set (row_reminders r)" "m' = ?g m" unfolding set_map by (rule imageE)
    with g(2) that(2) show ?thesis by simp
  qed
  ultimately show ?thesis unfolding slots_stopped_def slots_settled_def by blast
qed

lemma target_stopped_with_slots:
  assumes ok: "work_ok (work_of h r)"
    and t: "t \<in> set (row_targets r)" "tg_cycleNumber t = n" "performanceEligibility t = Measured" "p t"
    and stop: "stop_target p n done res why r = Inr (b, u)"
    and cancel: "cancel_reminders q n d u = Inr (x, r')"
    and q: "\<And>m. rm_organizationId m = organizationId h \<Longrightarrow> q m"
  shows "stops_cycle n why r r'"
proof -
  note s = stop_target_ok[OF stop]
  have "distinct (map tg_cycleNumber (row_targets r))"
    using ok by (simp add: work_ok_def targets_ok_def)
  then have "targets_stopped n why (row_targets r) (map (\<lambda>t. if unfinished p n t
      then t\<lparr>tg_completionAt := Some done, tg_result := Some res, stopReason := Some why\<rparr> else t) (row_targets r))"
    using t s(2) by (rule stopped_targets[where p = p and res = res]) simp_all
  moreover have "q m" if "m \<in> set (row_reminders r)" for m
    using work_slot[OF ok, of m] that q by auto
  ultimately show ?thesis
    using reminders_cancelled[OF ok, where p = q] cancel s(1) unfolding stops_cycle_def
    by (intro exI[of _ "row_targets r'"] exI[of _ "row_reminders r'"]) (simp add: txn_simps)
qed

lemma cancelResponseTargetForCycle_ok:
  assumes ok: "work_ok (work_of h r)" and org: "organizationId h = org"
    and run: "cancelResponseTargetForCycle n org d why r = Inr (b, r')"
  shows "stops_cycle n (cancellation_stop why) r r'"
proof -
  have scope: "organizationId t = org" if "t \<in> set (row_targets r)" for t
    using that ok org by (auto simp: work_ok_def targets_ok_def target_ok_def scope_of_eq_iff)
  have one: "u = t" if "u \<in> set (row_targets r)" "t \<in> set (row_targets r)"
    "tg_cycleNumber u = tg_cycleNumber t" for u t
    using that ok by (auto simp: work_ok_def targets_ok_def distinct_map inj_on_def)
  show ?thesis
  proof (cases "List.find (\<lambda>t. tg_cycleNumber t = n \<and> organizationId t = org) (row_targets r)")
    case None
    then have "tg_cycleNumber t \<noteq> n" if "t \<in> set (row_targets r)" for t
      using that scope by (auto simp: find_None_iff)
    moreover from run None have "r' = r" by (simp add: cancelResponseTargetForCycle_def txn_simps)
    ultimately show ?thesis using nothing_to_stop[OF ok] by blast
  next
    case (Some t)
    then have t: "t \<in> set (row_targets r)" "tg_cycleNumber t = n"
      by (auto simp: find_Some_iff in_set_conv_nth)
    show ?thesis
    proof (cases "performanceEligibility t = Measured \<and> tg_completionAt t = None")
      case True
      with run Some obtain b' u where u:
        "stop_target (\<lambda>_. True) n d Target_cancelled (cancellation_stop why) r = Inr (b', u)"
        "(if \<not> b' then ret False else seq (cancel_reminders (\<lambda>_. True) n d) (\<lambda>_. ret True)) u = Inr (b, r')"
        by (auto simp: cancelResponseTargetForCycle_def txn_simps)
      from stop_target_ok(3)[OF u(1)] t True have b' by (auto simp: unfinished_def)
      with u(2) obtain x where "cancel_reminders (\<lambda>_. True) n d u = Inr (x, r')"
        by (auto simp: txn_simps)
      from target_stopped_with_slots[OF ok t _ _ u(1) this] True show ?thesis by simp
    next
      case False
      with run Some have "r' = r"
        by (auto simp: cancelResponseTargetForCycle_def txn_simps split: if_splits)
      with False nothing_to_stop[OF ok] one[OF _ t(1)] t(2) show ?thesis by metis
    qed
  qed
qed

lemma find_of_head:
  assumes ok: "work_ok (work_of h r)" and kind: "(kind = Google_review_response) = (sourceType h = Src_review)"
  shows "List.find (target_of h kind) (row_targets r) = None \<Longrightarrow> t \<in> set (row_targets r)
      \<Longrightarrow> tg_cycleNumber t \<noteq> currentCycleNumber h"
    and "List.find (target_of h kind) (row_targets r) = Some u \<Longrightarrow>
      u \<in> set (row_targets r) \<and> tg_cycleNumber u = currentCycleNumber h"
    and "List.find (target_of h kind) (row_targets r) = Some u \<Longrightarrow> t \<in> set (row_targets r)
      \<Longrightarrow> tg_cycleNumber t = currentCycleNumber h \<Longrightarrow> t = u"
proof -
  have k: "tg_kind t = kind \<and> organizationId t = organizationId h" if "t \<in> set (row_targets r)" for t
    using that ok kind
    by (cases kind; cases "tg_kind t")
      (auto simp: work_ok_def targets_ok_def target_ok_def target_row_valid_def scope_of_eq_iff)
  show "List.find (target_of h kind) (row_targets r) = None \<Longrightarrow> t \<in> set (row_targets r)
      \<Longrightarrow> tg_cycleNumber t \<noteq> currentCycleNumber h"
    using k[of t] by (auto simp: find_None_iff target_of_def)
  show found: "List.find (target_of h kind) (row_targets r) = Some u \<Longrightarrow>
      u \<in> set (row_targets r) \<and> tg_cycleNumber u = currentCycleNumber h"
    by (auto simp: find_Some_iff target_of_def in_set_conv_nth)
  show "List.find (target_of h kind) (row_targets r) = Some u \<Longrightarrow> t \<in> set (row_targets r)
      \<Longrightarrow> tg_cycleNumber t = currentCycleNumber h \<Longrightarrow> t = u"
    using found ok by (auto simp: work_ok_def targets_ok_def distinct_map inj_on_def)
qed

lemma unmeasured_unfinished:
  assumes "work_ok w" "t \<in> set (wk_targets w)" "performanceEligibility t \<noteq> Measured"
  shows "tg_completionAt t = None" "tg_result t = None"
  using assms by (auto simp: work_ok_def targets_ok_def target_ok_def target_row_valid_def
      target_stop_valid_def Let_def)

text \<open>What a stop tells of the target of the current cycle.\<close>

definition target_result_is :: "number \<Rightarrow> item_rows \<Rightarrow> target_result option \<Rightarrow> bool" where
  "target_result_is n r res =
     ((\<forall>t \<in> set (row_targets r). tg_cycleNumber t = n \<longrightarrow> tg_result t = res)
      \<and> ((\<forall>t \<in> set (row_targets r). tg_cycleNumber t \<noteq> n) \<longrightarrow> res = None))"

lemma target_result_deadline:
  "target_result_is n r res \<Longrightarrow> out_cycleNumber x = n \<Longrightarrow> deadlineResult x = deadline_of res
     \<Longrightarrow> outcome_deadline (row_targets r) x"
  by (auto simp: target_result_is_def outcome_deadline_def deadline_of_def)

lemma stopPrivateFeedbackTarget_ok:
  assumes ok: "work_ok (work_of h r)" and run: "stopPrivateFeedbackTarget h d stop r = Inr (res, r')"
  shows "sourceType h = Src_feedback"
    and "stops_cycle (currentCycleNumber h)
      (if stop = Stop_withdrawn then Stop_guest_withdrawn else Stop_private_feedback_handled) r r'"
    and "target_result_is (currentCycleNumber h) r' res"
proof -
  let ?n = "currentCycleNumber h" and ?why = "if stop = Stop_withdrawn then Stop_guest_withdrawn
      else Stop_private_feedback_handled"
    and ?find = "List.find (target_of h Private_feedback_handling) (row_targets r)"
  from run show fb: "sourceType h = Src_feedback"
    by (simp add: stopPrivateFeedbackTarget_def txn_simps)
  note found = find_of_head[OF ok, of Private_feedback_handling]
  have "stops_cycle ?n ?why r r' \<and> target_result_is ?n r' res"
  proof (cases "?find")
    case None
    with run have "r' = r" "res = None" by (simp_all add: stopPrivateFeedbackTarget_def txn_simps)
    moreover have "tg_cycleNumber t \<noteq> ?n" if "t \<in> set (row_targets r)" for t
      using found(1)[of t] None that fb by simp
    ultimately show ?thesis
      using nothing_to_stop[OF ok, of ?n ?why] by (auto simp: target_result_is_def)
  next
    case (Some t)
    then have t: "t \<in> set (row_targets r)" "tg_cycleNumber t = ?n" using found(2)[of t] fb by simp_all
    have one: "u = t" if "u \<in> set (row_targets r)" "tg_cycleNumber u = ?n" for u
      using found(3)[of t u] that Some fb by simp
    show ?thesis
    proof (cases "performanceEligibility t = Measured")
      case False
      with run Some have "r' = r" "res = None" by (simp_all add: stopPrivateFeedbackTarget_def txn_simps)
      moreover from unmeasured_unfinished[OF ok, of t] t False have "tg_result t = None" by simp
      then have "target_result_is ?n r None"
        unfolding target_result_is_def using one by blast
      moreover have "stops_cycle ?n ?why r r"
        by (rule nothing_to_stop[OF ok]) (use one False in blast)
      ultimately show ?thesis by simp
    next
      case True
      with run Some obtain res' b u where u: "tg_completionAt t = None"
        "stop_target (\<lambda>_. True) ?n d res' ?why r = Inr (b, u)"
        "cancel_reminders (\<lambda>_. True) ?n d u = Inr ((), r')" "res = Some res'"
        by (auto simp: stopPrivateFeedbackTarget_def txn_simps Let_def)
      from target_stopped_with_slots[OF ok t True _ u(2,3)] have "stops_cycle ?n ?why r r'" by simp
      moreover have "tg_result v = res" if v: "v \<in> set (row_targets r')" "tg_cycleNumber v = ?n" for v
      proof -
        from v(1) stop_target_ok(1)[OF u(2)] u(3) obtain v0 where v0: "v0 \<in> set (row_targets r)"
          "v = (if unfinished (\<lambda>_. True) ?n v0 then v0\<lparr>tg_completionAt := Some d,
             tg_result := Some res', stopReason := Some ?why\<rparr> else v0)"
          by (auto simp: txn_simps)
        with v(2) have "tg_cycleNumber v0 = ?n" by (simp split: if_splits)
        with one[OF v0(1)] v0(2) u(1,4) t(2) show ?thesis by (simp add: unfinished_def)
      qed
      moreover have "\<exists>v \<in> set (row_targets r'). tg_cycleNumber v = ?n"
      proof
        let ?v = "if unfinished (\<lambda>_. True) ?n t then t\<lparr>tg_completionAt := Some d,
           tg_result := Some res', stopReason := Some ?why\<rparr> else t"
        have "?v \<in> (\<lambda>t. if unfinished (\<lambda>_. True) ?n t then t\<lparr>tg_completionAt := Some d,
           tg_result := Some res', stopReason := Some ?why\<rparr> else t) ` set (row_targets r)"
          using t(1) by (rule imageI)
        then show "?v \<in> set (row_targets r')"
          using stop_target_ok(1)[OF u(2)] u(3) by (simp add: txn_simps)
        show "tg_cycleNumber ?v = ?n" using t(2) by simp
      qed
      ultimately show ?thesis unfolding target_result_is_def by blast
    qed
  qed
  then show "stops_cycle ?n ?why r r'" "target_result_is ?n r' res" by simp_all
qed

lemma completeGoogleReviewTarget_ok:
  assumes ok: "work_ok (work_of h r)" and run: "completeGoogleReviewTarget h d replied r = Inr (x, r')"
  shows "sourceType h = Src_review" "stops_cycle (currentCycleNumber h) Stop_confirmed_on_google r r'"
proof -
  let ?n = "currentCycleNumber h" and ?find = "List.find (target_of h Google_review_response) (row_targets r)"
  from run show rv: "sourceType h = Src_review"
    by (simp add: completeGoogleReviewTarget_def txn_simps)
  note found = find_of_head[OF ok, of Google_review_response]
  show "stops_cycle ?n Stop_confirmed_on_google r r'"
  proof (cases "chosen (\<lambda>t. performanceEligibility t = Measured) ?find")
    case None
    with run have "r' = r" by (auto simp: completeGoogleReviewTarget_def txn_simps)
    moreover have "performanceEligibility t \<noteq> Measured"
      if t: "t \<in> set (row_targets r)" "tg_cycleNumber t = ?n" for t
    proof (cases ?find)
      case None
      with found(1)[of t] t rv show ?thesis by simp
    next
      case (Some u)
      with found(3)[of u t] t rv have "t = u" by simp
      with Some None \<open>chosen _ ?find = None\<close> show ?thesis by (auto simp: chosen_None)
    qed
    ultimately show ?thesis using nothing_to_stop[OF ok, of ?n] by blast
  next
    case (Some t)
    then have f: "?find = Some t" and m: "performanceEligibility t = Measured" by simp_all
    from f have t: "t \<in> set (row_targets r)" "tg_cycleNumber t = ?n" "organizationId t = organizationId h"
      using found(2)[of t] rv by (auto simp: find_Some_iff target_of_def)
    from run Some obtain fin res b u where u:
      "stop_target (\<lambda>t. organizationId t = organizationId h) ?n fin res Stop_confirmed_on_google r = Inr (b, u)"
      "cancel_reminders (\<lambda>m. rm_organizationId m = organizationId h) ?n d u = Inr ((), r')"
      by (auto simp: completeGoogleReviewTarget_def txn_simps Let_def)
    from target_stopped_with_slots[OF ok t(1,2) m t(3) u] show ?thesis by simp
  qed
qed

section \<open>Closing the current cycle\<close>

lemma settle_head_close:
  "closeHandlingCycle c = Inr (ch, t) \<Longrightarrow> settle_head ch (cl_current c) = ch"
  by (auto simp: closeHandlingCycle_def settle_head_def Let_def split: if_splits)

lemma close_current:
  "closeHandlingCycle c = Inr (ch, t) \<Longrightarrow> cl_current c = h \<Longrightarrow> closeHandlingCycle (c\<lparr>cl_current := h\<rparr>) = Inr (ch, t)"
  by auto

text \<open>The stop, the transition and the compare-and-set of the head, as every close writes them.\<close>

lemma close_written:
  assumes c: "closeHandlingCycle c = Inr (ch, t)" and h: "cl_current c = h" "row_head r = Some h"
    and stop: "stops_cycle (currentCycleNumber h) why r r1"
    and ins: "insert_transition t r1 = Inr (u, r2)"
    and upd: "update_head p (settle_head ch) r2 = Inr (Some h', r3)"
  obtains ts ms where
    "r3 = r\<lparr>row_targets := ts, row_reminders := ms, row_log := row_log r @ [t], row_head := Some ch\<rparr>"
    "targets_stopped (currentCycleNumber h) why (row_targets r) ts"
    "slots_stopped (currentCycleNumber h) (row_reminders r) ms" "h' = ch"
proof -
  from stop obtain ts ms where s: "r1 = r\<lparr>row_targets := ts, row_reminders := ms\<rparr>"
    "targets_stopped (currentCycleNumber h) why (row_targets r) ts"
    "slots_stopped (currentCycleNumber h) (row_reminders r) ms"
    by (auto simp: stops_cycle_def)
  have "settle_head ch h = ch" using settle_head_close[OF c] h(1) by simp
  with s(1) ins upd h(2) show thesis
    by (intro that[OF _ s(2,3)]) (auto simp: txn_simps)
qed

lemma closed_work_of:
  "r' = r\<lparr>row_targets := ts, row_reminders := ms, row_log := row_log r @ [t], row_head := Some ch\<rparr>
     \<Longrightarrow> work_of ch r' = closed_work (work_of h r) ch t ts ms"
  by (simp add: work_of_def closed_work_def)

lemma close_step:
  assumes ok: "core_ok k r" and c: "closeHandlingCycle c = Inr (ch, t)"
    and h: "cl_current c = h" "row_head r = Some h"
    and reason: "cl_closeReason c \<noteq> CR_private_feedback_handled"
    and stop: "stops_cycle (currentCycleNumber h) (stop_of (cl_closeReason c)) r r1"
    and ins: "insert_transition t r1 = Inr (u, r2)"
    and upd: "update_head p (settle_head ch) r2 = Inr (Some h', r3)"
  shows "core_ok k r3" "row_head r3 = Some ch" "head_status ch = Closed" "row_item r3 = row_item r"
    "evolves r r3" "h' = ch" "head_status h = Open"
proof -
  from c h(1) have c': "closeHandlingCycle (c\<lparr>cl_current := wk_head (work_of h r)\<rparr>) = Inr (ch, t)"
    by (auto simp: close_current)
  note shape = closeHandlingCycle_shape[OF c']
  obtain ts ms where w: "r3 = r\<lparr>row_targets := ts, row_reminders := ms, row_log := row_log r @ [t], row_head := Some ch\<rparr>"
    "targets_stopped (currentCycleNumber h) (stop_of (cl_closeReason c)) (row_targets r) ts"
    "slots_stopped (currentCycleNumber h) (row_reminders r) ms" "h' = ch"
    by (rule close_written[OF c h stop ins upd])
  from ok h(2) obtain i where i: "row_item r = Some i" "item_id i = k" "item_row_valid i" "linked i h"
    "work_ok (work_of h r)"
    by (rule core_okD)
  have "work_step (work_of h r) (closed_work (work_of h r) ch t ts ms)"
    using c' reason w(2,3) by (intro step_close[where i = c]) simp_all
  with closed_work_of[OF w(1), of h] have step: "work_step (work_of h r) (work_of ch r3)" by simp
  then have "work_ok (work_of ch r3)" using i(5) by (rule work_step_ok)
  moreover from shape(4) i(4) have "linked i ch" by (simp add: linked_def scope_of_eq_iff)
  ultimately show "core_ok k r3" using i w(1) by (simp add: core_ok_def)
  show "row_head r3 = Some ch" "row_item r3 = row_item r" "h' = ch" "head_status ch = Closed" "head_status h = Open"
    using w shape(1,2) by simp_all
  with h(2) step show "evolves r r3" by (intro evolves_step) simp_all
qed

section \<open>Writing the next cycle\<close>

lemma superseded_transition_shape:
  assumes "createNextHandlingCycle i = Inr d"
  shows "superseded_transition d = None \<longleftrightarrow> head_status (current i) \<noteq> Open"
    and "superseded_transition d = Some t \<Longrightarrow> tr_cycleNumber t = currentCycleNumber (current i)
      \<and> organizationId t = organizationId (current i)"
proof -
  from assms show "superseded_transition d = None \<longleftrightarrow> head_status (current i) \<noteq> Open"
    by (rule createNextHandlingCycle_shape) (auto simp: superseded_transition_def)
  show "superseded_transition d = Some t \<Longrightarrow> tr_cycleNumber t = currentCycleNumber (current i)
      \<and> organizationId t = organizationId (current i)"
    using assms by (rule createNextHandlingCycle_shape) (auto simp: superseded_transition_def split: if_splits)
qed

lemma insertNextHandlingCycleDecision_ok:
  assumes ok: "work_ok (work_of h r)" and c: "createNextHandlingCycle i = Inr d" "current i = h"
    and run: "insertNextHandlingCycleDecision env d at' choice marks r = Inr (facts, r')"
  obtains ts ms ts' ms' where
    "r' = r\<lparr>row_cycles := row_cycles r @ [dec_cycle d], row_targets := ts @ ts',
       row_reminders := ms @ ms', row_log := row_log r @ dec_transitions d\<rparr>"
    "next_ready (work_of h r) ts ms" "cycle_targets (dec_cycle d) ts' ms'"
proof -
  from run obtain x1 r1 u r2 where a:
    "(case superseded_transition d of None \<Rightarrow> ret ()
       | Some t \<Rightarrow> seq (cancelResponseTargetForCycle (tr_cycleNumber t) (organizationId t) at'
           Cancel_superseded) (\<lambda>_. ret ())) r = Inr (x1, r1)"
    "insert_chosen_target env (dec_cycle d) at' choice (r1\<lparr>row_cycles := row_cycles r1 @ [dec_cycle d]\<rparr>) = Inr (u, r2)"
    "for_each insert_transition (dec_transitions d) r2 = Inr ((), r')"
    by (auto simp: insertNextHandlingCycleDecision_def txn_simps)
  from a(2) obtain ts' ms' where new:
    "r2 = (r1\<lparr>row_cycles := row_cycles r1 @ [dec_cycle d]\<rparr>)\<lparr>row_targets := row_targets r1 @ ts',
       row_reminders := row_reminders r1 @ ms'\<rparr>"
    "cycle_targets (dec_cycle d) ts' ms'"
    by (rule insert_chosen_target_ok) simp
  have ready: "\<exists>ts ms. r1 = r\<lparr>row_targets := ts, row_reminders := ms\<rparr> \<and> next_ready (work_of h r) ts ms"
  proof (cases "superseded_transition d")
    case None
    with a(1) superseded_transition_shape(1)[OF c(1)] c(2) show ?thesis
      by (intro exI[of _ "row_targets r"] exI[of _ "row_reminders r"]) (simp add: txn_simps next_ready_def)
  next
    case (Some t)
    note t = superseded_transition_shape(2)[OF c(1) Some]
    from Some superseded_transition_shape(1)[OF c(1)] c(2) have "head_status h = Open" by auto
    moreover from a(1) Some obtain b where
      "cancelResponseTargetForCycle (tr_cycleNumber t) (organizationId t) at' Cancel_superseded r = Inr (b, r1)"
      by (auto simp: txn_simps)
    then have "stops_cycle (tr_cycleNumber t) (cancellation_stop Cancel_superseded) r r1"
      by (rule cancelResponseTargetForCycle_ok[OF ok, rotated]) (use t c(2) in simp)
    ultimately show ?thesis
      using t c(2) by (auto simp: stops_cycle_def next_ready_def)
  qed
  then obtain ts ms where "r1 = r\<lparr>row_targets := ts, row_reminders := ms\<rparr>" "next_ready (work_of h r) ts ms"
    by blast
  with new insert_transitions_ok[OF a(3)] show thesis
    by (intro that[of ms ms' ts ts']) simp_all
qed

lemma advance_head_next:
  "createNextHandlingCycle i = Inr d \<Longrightarrow> advance_head (dec_head d) (current i) = dec_head d"
  by (erule createNextHandlingCycle_okE) (simp add: advance_head_def)

text \<open>The next cycle with its compare-and-set of the head, as every opening writes them.\<close>

lemma next_step:
  assumes ok: "core_ok k r" and c: "createNextHandlingCycle i = Inr d"
    and h: "current i = h" "row_head r = Some h"
    and av: "nx_openedReason i = Next_manual_reopen \<Longrightarrow> sourceType h = Src_feedback
      \<Longrightarrow> source_available (row_log r)"
    and ins: "insertNextHandlingCycleDecision env d at' choice marks r = Inr (facts, r1)"
    and upd: "update_head p (advance_head (dec_head d)) r1 = Inr (Some h', r2)"
  shows "core_ok k r2" "row_head r2 = Some (dec_head d)" "head_status (dec_head d) = Open"
    "row_item r2 = row_item r" "evolves r r2" "h' = dec_head d"
proof -
  from ok h(2) obtain it where i: "row_item r = Some it" "item_id it = k" "item_row_valid it" "linked it h"
    "work_ok (work_of h r)"
    by (rule core_okD)
  obtain ts ms ts' ms' where w:
    "r1 = r\<lparr>row_cycles := row_cycles r @ [dec_cycle d], row_targets := ts @ ts',
       row_reminders := ms @ ms', row_log := row_log r @ dec_transitions d\<rparr>"
    "next_ready (work_of h r) ts ms" "cycle_targets (dec_cycle d) ts' ms'"
    by (rule insertNextHandlingCycleDecision_ok[OF i(5) c h(1) ins])
  from advance_head_next[OF c] h(1) have adv: "advance_head (dec_head d) h = dec_head d" by simp
  from upd w(1) h(2) adv have r2: "r2 = r1\<lparr>row_head := Some (dec_head d)\<rparr>" "h' = dec_head d"
    by (auto simp: txn_simps)
  have c': "createNextHandlingCycle (i\<lparr>current := wk_head (work_of h r)\<rparr>) = Inr d"
    using c h(1) by auto
  have "work_step (work_of h r) (next_work (work_of h r) d (ts @ ts') (ms @ ms'))"
    using c' w(2,3) av by (intro step_next[where i = i]) (auto simp: next_ready_def)
  moreover have "next_work (work_of h r) d (ts @ ts') (ms @ ms') = work_of (dec_head d) r2"
    by (simp add: r2 w(1) work_of_def next_work_def)
  ultimately have step: "work_step (work_of h r) (work_of (dec_head d) r2)" by simp
  then have "work_ok (work_of (dec_head d) r2)" using i(5) by (rule work_step_ok)
  moreover have "linked it (dec_head d)"
    using c i(4) h(1) by (elim createNextHandlingCycle_shape) (simp add: linked_def scope_of_eq_iff)
  ultimately show "core_ok k r2" using i r2 w(1) by (simp add: core_ok_def)
  show "row_head r2 = Some (dec_head d)" "row_item r2 = row_item r" "h' = dec_head d"
    using r2 w(1) by simp_all
  with h(2) step show "evolves r r2" by (intro evolves_step) simp_all
  show "head_status (dec_head d) = Open" using c by (rule createNextHandlingCycle_shape)
qed

section \<open>The carry\<close>

lemma carry_step:
  assumes ok: "core_ok k r" and h: "row_head r = Some h"
    and run: "advanceHeadAcrossSourceEpochCarry item h0 n r = Inr (Some h', r')"
  shows "core_ok k r'" "row_head r' = Some h'" "head_status h' = head_status h" "row_item r' = row_item r"
    "evolves r r'"
proof -
  from run h have e: "sourceType h = Src_review" "currentSourceRevision h = n"
    "head_row_valid (h\<lparr>currentSourceRevision := num_add n (nint 1)\<rparr>)"
    "h' = h\<lparr>currentSourceRevision := num_add n (nint 1)\<rparr>" "r' = r\<lparr>row_head := Some h'\<rparr>"
    by (auto simp: advanceHeadAcrossSourceEpochCarry_def txn_simps)
  from ok h obtain it where i: "row_item r = Some it" "item_id it = k" "item_row_valid it" "linked it h"
    "work_ok (work_of h r)"
    by (rule core_okD)
  have "carry_head n (wk_head (work_of h r)) = Some h'"
    using e(1-4) by (simp add: carry_head_def head_row_valid_def)
  from step_carry[OF this] have step: "work_step (work_of h r) (work_of h' r')"
    by (simp add: e(5) work_of_def)
  then have "work_ok (work_of h' r')" using i(5) by (rule work_step_ok)
  moreover from i(4) e(4) have "linked it h'" by (simp add: linked_def)
  ultimately show "core_ok k r'" using i e(5) by (simp add: core_ok_def)
  show "row_head r' = Some h'" "head_status h' = head_status h" "row_item r' = row_item r"
    using e(4,5) by simp_all
  with h step show "evolves r r'" by (intro evolves_step) simp_all
qed

end
