(* ===== verification/InboxRefine.thy ===== *)
theory InboxRefine
  imports InboxEffects FeedbackStore InboxCommands ReviewStore ReminderStore
begin

text \<open>
  Every transaction of the Inbox stores on one item implements the machine of \<open>InboxWork\<close>: from rows
  that satisfy the invariant it leaves rows that do, by steps of the machine (\<open>refines\<close>). A command
  that only touches the item and its decision logs is no step at all; the rules of \<open>refines_rules\<close>
  split it into its statements. The commands that close, open or settle are shown one by one.
\<close>

section \<open>Refinement\<close>

lemma Some_eq_chosen [simp]: "Some y = chosen p x \<longleftrightarrow> x = Some y \<and> p y"
  by (subst eq_commute) simp

definition refines :: "string \<Rightarrow> 'a item_txn \<Rightarrow> bool" where
  "refines k t = (\<forall>r x r'. item_ok k r \<longrightarrow> t r = Inr (x, r') \<longrightarrow> item_ok k r' \<and> evolves r r')"

named_theorems refines_rules

lemma refinesI:
  "(\<And>r x r'. item_ok k r \<Longrightarrow> t r = Inr (x, r') \<Longrightarrow> item_ok k r' \<and> evolves r r') \<Longrightarrow> refines k t"
  by (simp add: refines_def)

lemma refinesD: "refines k t \<Longrightarrow> item_ok k r \<Longrightarrow> t r = Inr (x, r') \<Longrightarrow> item_ok k r' \<and> evolves r r'"
  by (simp add: refines_def)

lemma refines_seq [refines_rules]:
  assumes "refines k t" "\<And>x. refines k (f x)"
  shows "refines k (seq t f)"
proof (rule refinesI)
  fix r x r' assume r: "item_ok k r" "seq t f r = Inr (x, r')"
  then obtain y u where u: "t r = Inr (y, u)" "f y u = Inr (x, r')" by (auto simp: seq_ok)
  from refinesD[OF assms(1) r(1) u(1)] have "item_ok k u" "evolves r u" by simp_all
  with refinesD[OF assms(2) _ u(2)] show "item_ok k r' \<and> evolves r r'"
    by (blast intro: evolves_trans)
qed

lemma refines_pure [refines_rules]:
  "refines k (ret x)" "refines k (refuse e)" "refines k (require b e)" "refines k (inspect f)"
  "refines k (present v e)" "refines k (decide g res)"
  by (simp_all add: refines_def txn_simps)

lemma refines_if [refines_rules]:
  "(b \<Longrightarrow> refines k t) \<Longrightarrow> (\<not> b \<Longrightarrow> refines k u) \<Longrightarrow> refines k (if b then t else u)"
  by simp

lemma refines_option [refines_rules]:
  "(v = None \<Longrightarrow> refines k t) \<Longrightarrow> (\<And>x. v = Some x \<Longrightarrow> refines k (f x))
     \<Longrightarrow> refines k (case v of None \<Rightarrow> t | Some x \<Rightarrow> f x)"
  by (cases v) simp_all

lemma refines_must [refines_rules]: "refines k t \<Longrightarrow> refines k (must t e)"
  unfolding must_def by (intro refines_rules)

lemma refines_frame:
  assumes "\<And>r. core_ok k (g r) = core_ok k r" "\<And>r. mirrored (g r) = mirrored r" "\<And>r. work_in (g r) = work_in r"
    "\<And>r. row_item (g r) = row_item r"
  shows "refines k (modify g)"
  using assms by (auto simp: refines_def txn_simps item_ok_def evolves_def option.rel_refl)

lemma refines_logs [refines_rules]:
  "refines k (insertOutboxRow fact')" "refines k (insert_assignment a)" "refines k (insert_escalation e)"
  "refines k (insert_priority p)" "refines k (modify (\<lambda>r. r\<lparr>row_notes := row_notes r @ [n]\<rparr>))"
  unfolding insertOutboxRow_def insert_assignment_def insert_escalation_def insert_priority_def
  by (intro refines_rules refines_frame; simp)+

lemma refines_facts [refines_rules]: "refines k (insert_facts fs)"
  by (rule refinesI) (auto simp: txn_simps item_ok_def evolves_def option.rel_refl)

text \<open>Updates of the item row that leave its key and its status alone.\<close>

definition keeps_item :: "(inbox_item \<Rightarrow> inbox_item) \<Rightarrow> bool" where
  "keeps_item f = (\<forall>i. same_key (f i) i \<and> item_status (f i) = item_status i)"

lemma keeps_item_same:
  assumes "item_ok k r" "row_item r = Some i" "same_key i' i" "item_status i' = item_status i" "item_row_valid i'"
  shows "item_ok k (r\<lparr>row_item := Some i'\<rparr>) \<and> evolves r (r\<lparr>row_item := Some i'\<rparr>)"
  using assms core_ok_item[of k r i i']
  by (auto simp: item_ok_def mirrored_def evolves_def same_item_def option.rel_refl split: option.splits)

lemma refines_update_item [refines_rules]:
  assumes "keeps_item f"
  shows "refines k (update_item p f)"
proof (rule refinesI)
  fix r x r' assume r: "item_ok k r" "update_item p f r = Inr (x, r')"
  show "item_ok k r' \<and> evolves r r'"
  proof (cases x)
    case None
    with r show ?thesis by (simp add: txn_simps)
  next
    case (Some j)
    with r(2) obtain i where "row_item r = Some i" "item_row_valid (f i)" "r' = r\<lparr>row_item := Some (f i)\<rparr>"
      by (auto simp: txn_simps)
    with r(1) assms keeps_item_same show ?thesis by (simp add: keeps_item_def)
  qed
qed

lemma refines_updateItemRow [refines_rules]:
  assumes "keeps_item f"
  shows "refines k (tryUpdateItemRow item f)" "refines k (updateItemRow item f message)"
proof -
  have "keeps_item (\<lambda>i. (f i)\<lparr>commandRevision := n\<rparr>)" for n
    using assms by (simp add: keeps_item_def same_key_def)
  then show one: "refines k (tryUpdateItemRow item f)"
    unfolding tryUpdateItemRow_def Let_def by (intro refines_rules)
  show "refines k (updateItemRow item f message)"
    unfolding updateItemRow_def by (intro refines_rules one)
qed

lemma refines_authority [refines_rules]: "refines k (assertCommandAuthority authorize org at' reqs)"
  unfolding assertCommandAuthority_def
  by (cases "authorize org at' reqs") (auto intro: refines_rules)

section \<open>Triage, notes and assignment\<close>

lemma refines_transition:
  assumes "keeps_item f" "\<And>row. refines k (logging row)" "refines k insertFact"
  shows "refines k (transition authorize item f message event stamp logging insertFact)"
  unfolding transition_def by (intro refines_rules assms)

lemma refines_escalate [refines_rules]: "refines k (escalate authorize item user' event stamp)"
  unfolding escalate_def appendEscalationHistory_def
  by (intro refines_transition refines_rules) (simp add: keeps_item_def same_key_def)

lemma refines_resolveEscalation [refines_rules]:
  "refines k (resolveEscalation authorize item user' event stamp)"
  unfolding resolveEscalation_def appendEscalationHistory_def
  by (intro refines_transition refines_rules) (simp add: keeps_item_def same_key_def)

lemma refines_setPriority [refines_rules]:
  "refines k (setPriority authorize item priority user' event stamp)"
  unfolding setPriority_def appendPriorityHistory_def
  by (intro refines_transition refines_rules)
    (simp add: keeps_item_def same_key_def managerPriorityColumns_def split: option.splits)

lemma refines_addNote [refines_rules]: "refines k (addNote authorize dbNow item note event)"
  unfolding addNote_def Let_def
  by (intro refines_rules) (simp add: keeps_item_def same_key_def)

lemma refines_assignment_fact [refines_rules]: "refines k (insertAssignmentFact e n)"
  by (simp add: insertAssignmentFact_def refines_rules)

lemma refines_assign [refines_rules]: "refines k (assign authorize item assignee event stamp)"
  unfolding assign_def Let_def currentAssignmentCycleNumber_def
  by (intro refines_rules) (simp add: keeps_item_def same_key_def)

lemma refines_bulk_assign [refines_rules]:
  "refines k (applyBulkAssignmentToItem item row head assignee actor bulk instant)"
  unfolding applyBulkAssignmentToItem_def Let_def
  by (intro refines_rules) (simp add: keeps_item_def same_key_def)

section \<open>Reminder slots\<close>

lemma refines_settle:
  assumes r: "item_ok k r" and r': "r' = r\<lparr>row_reminders := ms\<rparr>" and ms: "slots_settled (row_reminders r) ms"
  shows "item_ok k r' \<and> evolves r r'"
proof (cases "row_head r")
  case None
  with r have "row_reminders r = []" by (simp add: item_ok_def core_ok_def)
  with ms have "ms = row_reminders r" by (simp add: slots_settled_def)
  with r r' show ?thesis by simp
next
  case (Some h)
  from r have "core_ok k r" by (simp add: item_ok_def)
  then obtain i where i: "row_item r = Some i" "item_id i = k" "item_row_valid i" "linked i h"
    "work_ok (work_of h r)"
    using Some by (rule core_okD)
  have "work_of h r' = (work_of h r)\<lparr>wk_reminders := ms\<rparr>"
    by (simp add: work_of_def r')
  moreover from ms have "work_step (work_of h r) ((work_of h r)\<lparr>wk_reminders := ms\<rparr>)"
    by (intro step_settle) simp
  ultimately have step: "work_step (work_of h r) (work_of h r')" by simp
  have "core_ok k r'"
    using i work_step_ok[OF step i(5)] Some by (simp add: core_ok_def r')
  moreover from r have "mirrored r'" by (simp add: item_ok_def mirrored_def r')
  ultimately show ?thesis
    using evolves_step[OF Some _ step] Some by (simp add: item_ok_def r')
qed

lemma slots_settled_map:
  "(\<And>m. m \<in> set ms \<Longrightarrow> g m = m \<or> slot_settles m (g m)) \<Longrightarrow> slots_settled ms (map g ms)"
  by (simp add: slots_settled_def list_all2_map2 list_all2_same)

lemma item_slot_valid: "item_ok k r \<Longrightarrow> m \<in> set (row_reminders r) \<Longrightarrow> reminder_row_valid m"
  by (auto simp: item_ok_def core_ok_def work_ok_def reminders_ok_def split: option.splits)

lemma slot_cancels:
  "reminder_row_valid m \<Longrightarrow> pending m \<Longrightarrow> slot_settles m (m\<lparr>cancelledAt := Some d\<rparr>)"
  unfolding slot_settles_def by (auto simp: pending_def reminder_row_valid_def)

lemma refines_cancel_reminders [refines_rules]: "refines k (cancel_reminders p n d)"
proof (rule refinesI)
  fix r x r' assume r: "item_ok k r" "cancel_reminders p n d r = Inr (x, r')"
  show "item_ok k r' \<and> evolves r r'"
  proof (rule refines_settle[OF r(1)])
    show "r' = r\<lparr>row_reminders := map (\<lambda>m. if rm_cycleNumber m = n \<and> pending m \<and> p m
        then m\<lparr>cancelledAt := Some d\<rparr> else m) (row_reminders r)\<rparr>"
      using r(2) by (simp add: txn_simps)
    show "slots_settled (row_reminders r) (map (\<lambda>m. if rm_cycleNumber m = n \<and> pending m \<and> p m
        then m\<lparr>cancelledAt := Some d\<rparr> else m) (row_reminders r))"
      by (rule slots_settled_map) (use item_slot_valid[OF r(1)] slot_cancels in simp)
  qed
qed

lemma refines_settleLockedSlot [refines_rules]: "refines k (settleLockedSlot item slot now)"
proof (rule refinesI)
  fix r x r' assume r: "item_ok k r" and run: "settleLockedSlot item slot now r = Inr (x, r')"
  obtain m t where slot: "slot = (m, t)" by (cases slot)
  define sup where "sup = (case tg_dueAt t of None \<Rightarrow> False | Some due \<Rightarrow> isSupersededReminder (rm_kind m) due now)"
  define hit where "hit = (\<lambda>y. reminder_key y = reminder_key m \<and> pending y)"
  show "item_ok k r' \<and> evolves r r'"
  proof (cases "filter hit (row_reminders r) = []")
    case True
    with run have "r' = r" by (simp add: settleLockedSlot_def slot hit_def txn_simps Let_def)
    with r show ?thesis by simp
  next
    case False
    let ?g = "\<lambda>y. if hit y then settled_slot sup now y else y"
    from False run have valid: "\<forall>y \<in> set (filter hit (row_reminders r)). reminder_row_valid (settled_slot sup now y)"
      and r'': "(if sup then ret Slot_cancelled_superseded
         else seq (insertOutboxRow (Reminder_due (due_fact item m now))) (\<lambda>_. ret Slot_released))
         (r\<lparr>row_reminders := map ?g (row_reminders r)\<rparr>) = Inr (x, r')"
      by (auto simp: settleLockedSlot_def slot hit_def sup_def Let_def txn_simps)
    have "slots_settled (row_reminders r) (map ?g (row_reminders r))"
      by (rule slots_settled_map)
        (use valid in \<open>auto simp: slot_settles_def hit_def settled_slot_def\<close>)
    from refines_settle[OF r refl this]
    have mid: "item_ok k (r\<lparr>row_reminders := map ?g (row_reminders r)\<rparr>)
        \<and> evolves r (r\<lparr>row_reminders := map ?g (row_reminders r)\<rparr>)" .
    from r'' consider "r' = r\<lparr>row_reminders := map ?g (row_reminders r)\<rparr>"
      | fs where "r' = (r\<lparr>row_reminders := map ?g (row_reminders r)\<rparr>)\<lparr>row_facts := fs\<rparr>"
      by (cases sup) (auto simp: txn_simps)
    then show ?thesis
      using mid by cases (simp_all add: item_ok_def evolves_def)
  qed
qed

lemma refines_releaseReminderSlot [refines_rules]: "refines k (releaseReminderSlot item key now)"
  unfolding releaseReminderSlot_def
proof (rule refines_seq)
  show "refines k (case due of [] \<Rightarrow> ret Slot_skipped | slot # _ \<Rightarrow> settleLockedSlot item slot now)" for due
    by (cases due) (auto intro: refines_rules)
qed (rule refines_rules)

lemma refines_exclusions [refines_rules]: "refines k (modify (\<lambda>r. r\<lparr>row_exclusions := row_exclusions r @ xs\<rparr>))"
  by (rule refines_frame) simp_all

lemma refines_excludeOne [refines_rules]: "refines k (excludeOne c instant)"
  unfolding excludeOne_def
proof (intro refines_rules)
  show "refines k (case p of (inserted, slots) \<Rightarrow> seq (if inserted
          then modify (\<lambda>r. r\<lparr>row_exclusions := row_exclusions r @ [xc_cycleNumber c]\<rparr>) else ret ())
        (\<lambda>_. seq (cancel_reminders (\<lambda>m. rm_organizationId m = xc_organizationId c) (xc_cycleNumber c) instant)
          (\<lambda>_. ret (if inserted then Excluded_now slots else Already_excluded slots))))" for p
    by (cases p) (auto intro!: refines_rules)
qed

section \<open>Handling private feedback\<close>

lemma unavailable_reasons:
  assumes "\<forall>t \<in> set (row_log r). organizationId t = org"
    and "''guest_withdrawn'' \<notin> set (selectSourceUnavailableCloseReasons org r)"
      "''source_ineligible'' \<notin> set (selectSourceUnavailableCloseReasons org r)"
  shows "source_available (row_log r)"
  using assms
  by (force simp: source_available_def unavailable_close_def selectSourceUnavailableCloseReasons_def
      SOURCE_UNAVAILABLE_CLOSE_REASONS_def image_iff)

lemma item_headD:
  assumes "item_ok k r" "row_head r = Some h"
  obtains i where "row_item r = Some i" "item_id i = k" "item_row_valid i" "linked i h"
    "work_ok (work_of h r)" "item_status i = head_status h" "core_ok k r"
proof -
  from assms(1) have "core_ok k r" "mirrored r" by (simp_all add: item_ok_def)
  moreover from this(1) assms(2) obtain i where "row_item r = Some i" "item_id i = k"
    "item_row_valid i" "linked i h" "work_ok (work_of h r)"
    by (rule core_okD)
  ultimately show thesis
    using assms(2) by (intro that) (simp_all add: mirrored_def)
qed

lemma log_scope: "work_ok (work_of h r) \<Longrightarrow> \<forall>t \<in> set (row_log r). organizationId t = organizationId h"
  by (auto simp: work_ok_def history_ok_def scope_of_eq_iff)

lemma lockCurrent_ok:
  assumes "lockCurrent item r = Inr ((i, h), r')"
  shows "r' = r" "row_item r = Some i" "row_head r = Some h" "sourceType h = Src_feedback"
    "item_organizationId i = item_organizationId item"
  using assms by (auto simp: lockCurrent_def txn_simps)

lemma historyFor_empty:
  assumes "work_ok (work_of h r)" "historyFor n (organizationId h) r = []"
  shows "outcomes_of n (row_outcomes r) = []"
proof -
  have "foldr insert_by_revision xs [] \<noteq> []" if "xs \<noteq> []" for xs
  proof -
    have "insert_by_revision x ys \<noteq> []" for x ys by (cases ys) auto
    with that show ?thesis by (cases xs) auto
  qed
  note nonempty = this
  have "filter (\<lambda>x. out_organizationId x = organizationId h \<and> out_cycleNumber x = n) (row_outcomes r) = []"
    by (rule ccontr) (use nonempty assms(2) in \<open>simp add: historyFor_def\<close>)
  moreover have "out_organizationId x = organizationId h" if "x \<in> set (row_outcomes r)" for x
    using assms(1) that by (auto simp: work_ok_def outcomes_ok_def outcome_scope_def)
  ultimately show ?thesis
    by (auto simp: outcomes_of_def filter_empty_conv)
qed

lemma assertCurrentAuthority_ok [txn_simps]:
  "assertCurrentAuthority authorize item user' at' r = Inr (u, r') \<Longrightarrow> r' = r"
  by (auto simp: assertCurrentAuthority_def txn_simps split: authority_decision.splits)

lemma assertManagerHandlingStillHonest_ok:
  assumes "assertManagerHandlingStillHonest h r = Inr (u, r')" "work_ok (work_of h r)"
  shows "r' = r" "source_available (row_log r)"
proof -
  from assms(1) show "r' = r" by (auto simp: assertManagerHandlingStillHonest_def txn_simps)
  from assms(1) have "assertManagerHandlingPermitted h
      (selectSourceUnavailableCloseReasons (organizationId h) r) = Inr u"
    by (auto simp: assertManagerHandlingStillHonest_def txn_simps)
  then show "source_available (row_log r)"
    by (intro unavailable_reasons[OF log_scope[OF assms(2)]]) (simp_all add: assertManagerHandlingPermitted_ok)
qed

lemma outcomeInsert_sel [simp]:
  "outcomeRevision (outcomeInsert f n m) = outcomeRevision f" "out_id (outcomeInsert f n m) = out_id f"
  "supersedesOutcomeId (outcomeInsert f n m) = supersedesOutcomeId f"
  "out_cycleNumber (outcomeInsert f n m) = out_cycleNumber f"
  "out_sourceRevision (outcomeInsert f n m) = out_sourceRevision f"
  "out_inboxItemId (outcomeInsert f n m) = out_inboxItemId f"
  "out_organizationId (outcomeInsert f n m) = out_organizationId f"
  "out_propertyId (outcomeInsert f n m) = out_propertyId f"
  "out_feedbackId (outcomeInsert f n m) = out_feedbackId f"
  "completionAt (outcomeInsert f n m) = completionAt f" "deadlineResult (outcomeInsert f n m) = deadlineResult f"
  "completionStateRevision (outcomeInsert f n m) = n" "resultingCommandRevision (outcomeInsert f n m) = m"
  by (simp_all add: outcomeInsert_def outcome_fact.defs outcome_row.defs)

lemma close_of_sel [simp]:
  "cl_current (close_of h why actor user' trigger at') = h" "cl_closeReason (close_of h why actor user' trigger at') = why"
  "cl_closedAt (close_of h why actor user' trigger at') = at'"
  by (simp_all add: close_of_def)

theorem refines_markHandled [refines_rules]: "refines k (markHandled authorize c e)"
proof (rule refinesI)
  fix r x r' assume r: "item_ok k r" and run: "markHandled authorize c e r = Inr (x, r')"
  from run obtain i h dl r0 r00 r1 f ch t r2 r3 r4 h' i' fs where step:
    "lockCurrent (fc_item c) r = Inr ((i, h), r0)"
    "head_status h = Open" "historyFor (currentCycleNumber h) (item_organizationId i) r0 = []"
    "assertCurrentAuthority authorize i (fc_actorUserId c) (fc_recordedAt c) r0 = Inr ((), r00)"
    "assertManagerHandlingStillHonest h r00 = Inr ((), r00)"
    "completePrivateFeedbackTarget h (fc_recordedAt c) r00 = Inr (dl, r1)"
    "recordFeedbackHandlingOutcome
       \<lparr>ro_id = fc_outcomeId c, ro_current = h, ro_outcome = fc_outcome c,
        ro_internalNote = fc_internalNote c, ro_recordedBy = fc_actorUserId c,
        ro_recordedAt = fc_recordedAt c, ro_deadlineResult = dl\<rparr> = Inr f"
    "closeHandlingCycle (close_of h CR_private_feedback_handled Actor_user
       (Some (fc_actorUserId c)) (Some (out_id f)) (fc_recordedAt c)) = Inr (ch, t)"
    "insert_transition t r1 = Inr ((), r2)"
    "update_head (\<lambda>h'. stateRevision h' = stateRevision h \<and> head_status h' = Open) (settle_head ch) r2
       = Inr (Some h', r3)"
    "update_item (\<lambda>i'. item_organizationId i' = item_organizationId i
       \<and> commandRevision i' = commandRevision i \<and> item_status i' = Open) (handled_item c) r3 = Inr (Some i', r4)"
    "outcome_row_valid (outcomeInsert f (stateRevision ch) (num_add (commandRevision i) (nint 1)))"
    "r' = r4\<lparr>row_outcomes := row_outcomes r4
       @ [outcomeInsert f (stateRevision ch) (num_add (commandRevision i) (nint 1))], row_facts := fs\<rparr>"
    by (auto simp: markHandled_def seq_ok must_ok require_ok inspect_ok decide_ok ret_ok insertOutboxRow_ok
        insert_outcome_ok assertManagerHandlingStillHonest_def split: prod.splits)
  note lock = lockCurrent_ok[OF step(1)]
  have r0: "r0 = r" "r00 = r" using lock(1) step(4) assertCurrentAuthority_ok by blast+
  obtain i2 where i: "row_item r = Some i2" "item_id i2 = k" "item_row_valid i2" "linked i2 h"
    "work_ok (work_of h r)" "item_status i2 = head_status h" "core_ok k r"
    by (rule item_headD[OF r lock(3)[unfolded r0]])
  from lock(2) i(1) r0 have i2: "i2 = i" by simp
  note honest = assertManagerHandlingStillHonest_ok[OF step(5)[unfolded r0] i(5)]
  from step(6) r0 obtain res where stop: "stopPrivateFeedbackTarget h (fc_recordedAt c) Stop_handled r = Inr (res, r1)"
    and dl: "dl = deadline_of res"
    by (auto simp: completePrivateFeedbackTarget_def txn_simps)
  note stopped = stopPrivateFeedbackTarget_ok[OF i(5) stop, simplified]
  have "historyFor (currentCycleNumber h) (organizationId h) r = []"
    using step(3) i(4) i2 r0 by (simp add: linked_def)
  note none = historyFor_empty[OF i(5) this]
  note f = step(7)[unfolded recordFeedbackHandlingOutcome_ok, simplified]
  from f obtain note' where fs: "f = \<lparr>out_id = fc_outcomeId c, out_inboxItemId = inboxItemId h,
      out_organizationId = organizationId h, out_propertyId = propertyId h, out_feedbackId = sourceId h,
      out_cycleNumber = currentCycleNumber h, out_sourceRevision = currentSourceRevision h,
      outcomeRevision = nint 1, out_outcome = fc_outcome c, internalNote = note',
      recordedBy = fc_actorUserId c, recordedAt = fc_recordedAt c, completionAt = fc_recordedAt c,
      deadlineResult = dl, supersedesOutcomeId = None\<rparr>"
    by auto
  let ?x = "outcomeInsert f (stateRevision ch) (num_add (commandRevision i) (nint 1))"
  obtain ts ms where w: "r3 = r\<lparr>row_targets := ts, row_reminders := ms, row_log := row_log r @ [t], row_head := Some ch\<rparr>"
    "targets_stopped (currentCycleNumber h) Stop_private_feedback_handled (row_targets r) ts"
    "slots_stopped (currentCycleNumber h) (row_reminders r) ms"
    by (rule close_written[OF step(8) _ lock(3)[unfolded r0] stopped(2) step(9,10)]) simp_all
  from step(8) have close: "closeHandlingCycle ((close_of h CR_private_feedback_handled Actor_user
       (Some (fc_actorUserId c)) (Some (out_id f)) (fc_recordedAt c))
         \<lparr>cl_current := wk_head (work_of h r)\<rparr>) = Inr (ch, t)"
    by (simp add: close_of_def)
  note shape = closeHandlingCycle_shape[OF close, simplified]
  have "row_targets r3 = row_targets r1"
    using step(9,10) by (auto simp: txn_simps)
  with w(1) have "row_targets r1 = ts" by simp
  then have deadline: "outcome_deadline ts ?x"
    using target_result_deadline[OF stopped(3), of ?x] dl fs by simp
  have "work_step (work_of h r) ((closed_work (work_of h r) ch t ts ms)\<lparr>wk_outcomes := wk_outcomes (work_of h r) @ [?x]\<rparr>)"
  proof (rule step_handle[OF close])
    show "outcome_scope ch ?x" using fs shape(4) stopped(1) by (simp add: outcome_scope_def scope_of_eq_iff)
    show "completes t ?x" using fs shape by (simp add: completes_def handled_close_def)
  qed (use w honest none step(12) fs deadline in simp_all)
  moreover have "(closed_work (work_of h r) ch t ts ms)\<lparr>wk_outcomes := wk_outcomes (work_of h r) @ [?x]\<rparr> = work_of ch r'"
    using w(1) step(11,13) by (auto simp: work_of_def closed_work_def txn_simps)
  ultimately have ws: "work_step (work_of h r) (work_of ch r')" by simp
  have rows: "row_head r' = Some ch" "row_item r' = Some (handled_item c i)" "item_row_valid (handled_item c i)"
    using w(1) step(11,13) i(1) i2 by (auto simp: txn_simps)
  have "core_ok k r'"
    using rows work_step_ok[OF ws i(5)] i(2,4) i2 shape(4)
    by (simp add: core_ok_def linked_def handled_item_def scope_of_eq_iff)
  moreover have "mirrored r'"
    using rows shape(2) by (simp add: mirrored_def handled_item_def)
  ultimately show "item_ok k r' \<and> evolves r r'"
    using evolves_step[OF lock(3)[unfolded r0] rows(1) ws same_item_Some] rows i(1) i2 by (simp add: item_ok_def handled_item_def same_key_def)
qed

section \<open>Correcting an outcome\<close>

lemma newest_by_last:
  assumes "sorted_wrt (\<lambda>a b. num_lt (key a) (key b)) xs" "xs \<noteq> []"
  shows "newest_by key xs = Some (last xs)"
  using assms
proof (induction xs)
  case (Cons x xs)
  show ?case
  proof (cases xs)
    case Nil
    then show ?thesis by simp
  next
    case (Cons y ys)
    then have last: "newest_by key xs = Some (last xs)" "last xs \<in> set xs"
      using Cons.IH Cons.prems by auto
    with Cons.prems have "num_lt (key x) (key (last xs))" by simp
    then have "\<not> num_lt (key (last xs)) (key x)" by (cases "key x"; cases "key (last xs)") auto
    with last Cons show ?thesis by simp
  qed
qed simp

lemma correction_chain_revisions:
  "correction_chain xs \<Longrightarrow> map outcomeRevision xs = map nint [1..int (length xs)]"
proof (induction xs rule: rev_induct)
  case (snoc y xs)
  then have xs: "correction_chain xs"
    by (auto simp: correction_chain_def successively_append_iff hd_append split: if_splits)
  have "outcomeRevision y = nint (int (length xs) + 1)"
  proof (cases xs rule: rev_cases)
    case Nil
    with snoc.prems show ?thesis by (simp add: correction_chain_def)
  next
    case (snoc zs z)
    with snoc.prems have "corrects z y" by (simp add: correction_chain_def successively_append_iff)
    moreover from snoc.IH[OF xs] snoc have "outcomeRevision z = nint (int (length xs))"
      using upto_snoc[of "length zs"] by (simp add: add.commute)
    ultimately show ?thesis by (simp add: corrects_def)
  qed
  with snoc.IH[OF xs] show ?case using upto_snoc[of "length xs"] by (simp add: add.commute)
qed simp

lemma latest_outcome_last:
  assumes "work_ok (work_of h r)" "latest_outcome n r = Some x"
  obtains xs where "outcomes_of n (row_outcomes r) = xs @ [x]"
proof -
  let ?os = "outcomes_of n (row_outcomes r)"
  have "?os \<noteq> []" using assms(2) by (auto simp: latest_outcome_def outcomes_of_def)
  have "correction_chain ?os" using assms(1) by (simp add: work_ok_def outcomes_ok_def)
  then have "map outcomeRevision ?os = map nint [1..int (length ?os)]"
    by (rule correction_chain_revisions)
  moreover have "sorted_wrt (\<lambda>a b. num_lt a b) (map nint [1..int (length ?os)])"
    by (simp add: sorted_wrt_map sorted_wrt_upto)
  ultimately have "sorted_wrt (\<lambda>a b. num_lt (outcomeRevision a) (outcomeRevision b)) ?os"
    by (metis sorted_wrt_map)
  then have "latest_outcome n r = Some (last ?os)"
    using \<open>?os \<noteq> []\<close> by (simp add: latest_outcome_def newest_by_last flip: outcomes_of_def)
  with assms(2) have "last ?os = x" by simp
  with \<open>?os \<noteq> []\<close> have "?os = butlast ?os @ [x]" by (metis append_butlast_last_id)
  then show thesis by (rule that)
qed

theorem refines_correctOutcome [refines_rules]: "refines k (correctOutcome authorize c e)"
proof (rule refinesI)
  fix r x r' assume r: "item_ok k r" and run: "correctOutcome authorize c e r = Inr (x, r')"
  from run obtain i h r0 r00 latest f r4 i' where step:
    "lockCurrent (fc_item c) r = Inr ((i, h), r0)"
    "head_status h = Closed" "latest_outcome (currentCycleNumber h) r0 = Some latest"
    "assertCurrentAuthority authorize i (fc_actorUserId c) (fc_recordedAt c) r0 = Inr ((), r00)"
    "assertManagerHandlingStillHonest h r00 = Inr ((), r00)"
    "correctFeedbackHandlingOutcomeFact
       \<lparr>co_id = fc_outcomeId c, co_current = h, co_previous = outcomeFromRow latest,
        co_outcome = fc_outcome c, co_internalNote = fc_internalNote c,
        co_recordedBy = fc_actorUserId c, co_recordedAt = fc_recordedAt c\<rparr> = Inr f"
    "update_item (\<lambda>i'. item_organizationId i' = item_organizationId i
       \<and> commandRevision i' = commandRevision i \<and> item_status i' = Closed)
       (\<lambda>i. i\<lparr>commandRevision := num_add (commandRevision i) (nint 1),
              item_updatedAt := fc_recordedAt c\<rparr>) r00 = Inr (Some i', r4)"
    "outcome_row_valid (outcomeInsert f (completionStateRevision latest) (num_add (commandRevision i) (nint 1)))"
    "r' = r4\<lparr>row_outcomes := row_outcomes r4
       @ [outcomeInsert f (completionStateRevision latest) (num_add (commandRevision i) (nint 1))]\<rparr>"
    by (auto simp: correctOutcome_def seq_ok must_ok require_ok inspect_ok decide_ok ret_ok insertOutboxRow_ok
        insert_outcome_ok assertManagerHandlingStillHonest_def split: prod.splits)
  note lock = lockCurrent_ok[OF step(1)]
  have r0: "r0 = r" "r00 = r" using lock(1) step(4) assertCurrentAuthority_ok by blast+
  obtain i2 where i: "row_item r = Some i2" "item_id i2 = k" "item_row_valid i2" "linked i2 h"
    "work_ok (work_of h r)" "item_status i2 = head_status h" "core_ok k r"
    by (rule item_headD[OF r lock(3)[unfolded r0]])
  note honest = assertManagerHandlingStillHonest_ok[OF step(5)[unfolded r0] i(5)]
  obtain xs where xs: "outcomes_of (currentCycleNumber h) (row_outcomes r) = xs @ [latest]"
    by (rule latest_outcome_last[OF i(5) step(3)[unfolded r0]])
  let ?y = "outcomeInsert f (completionStateRevision latest) (num_add (commandRevision i) (nint 1))"
  from step(6) obtain note' where f: "f = (outcomeFromRow latest)\<lparr>out_id := fc_outcomeId c,
      outcomeRevision := num_add (outcomeRevision (outcomeFromRow latest)) (nint 1),
      out_outcome := fc_outcome c, internalNote := note', recordedBy := fc_actorUserId c,
      recordedAt := fc_recordedAt c, supersedesOutcomeId := Some (out_id (outcomeFromRow latest))\<rparr>"
    by (auto simp: correctFeedbackHandlingOutcomeFact_ok)
  have latest: "latest \<in> set (row_outcomes r)"
    using arg_cong[OF xs, of set] by (auto simp: outcomes_of_def)
  with i(5) have "outcome_scope h latest" by (simp add: work_ok_def outcomes_ok_def)
  then have "outcome_scope h ?y" "corrects latest ?y"
    by (simp_all add: f outcome_scope_def corrects_def outcomeFromRow_def outcome_fact.defs)
  then have "work_step (work_of h r) ((work_of h r)\<lparr>wk_outcomes := wk_outcomes (work_of h r) @ [?y]\<rparr>)"
    by (intro step_correct[OF _ _ _ step(8), where xs = xs and x = latest]) (use step(2) xs honest in simp_all)
  moreover have "(work_of h r)\<lparr>wk_outcomes := wk_outcomes (work_of h r) @ [?y]\<rparr> = work_of h r'"
    using step(7,9) r0 by (auto simp: work_of_def txn_simps)
  ultimately have ws: "work_step (work_of h r) (work_of h r')" by simp
  have rows: "row_head r' = Some h" "row_item r' = Some i'" "item_row_valid i'" "same_key i' i2"
    "item_status i' = item_status i2"
    using step(7,9) i(1) lock(3) r0 by (auto simp: txn_simps same_key_def)
  have "core_ok k r'"
    using rows work_step_ok[OF ws i(5)] i(2,4) by (simp add: core_ok_def linked_def same_key_def)
  moreover have "mirrored r'" using rows i(6) by (simp add: mirrored_def)
  ultimately show "item_ok k r' \<and> evolves r r'"
    using evolves_step[OF lock(3)[unfolded r0] rows(1) ws same_item_Some] rows i(1) by (simp add: item_ok_def)
qed

section \<open>Reopening by hand\<close>

lemma assertManualReopenHonest_ok:
  assumes "assertManualReopenHonest h r = Inr (u, r')" "work_ok (work_of h r)"
  shows "r' = r" "sourceType h = Src_feedback \<Longrightarrow> source_available (row_log r)"
proof -
  from assms(1) show "r' = r" by (auto simp: assertManualReopenHonest_def txn_simps split: if_splits)
  assume fb: "sourceType h = Src_feedback"
  with assms(1) have "assertManualReopenPermitted h
      (selectSourceUnavailableCloseReasons (organizationId h) r) = Inr u"
    by (auto simp: assertManualReopenHonest_def txn_simps)
  with fb show "source_available (row_log r)"
    by (intro unavailable_reasons[OF log_scope[OF assms(2)]]) (simp_all add: assertManualReopenPermitted_ok)
qed

lemma assertManualReopenHonest_state: "assertManualReopenHonest h r = Inr (u, r') \<Longrightarrow> r' = r"
  by (auto simp: assertManualReopenHonest_def txn_simps split: if_splits)

lemma resolveReopenAssignee_ok:
  "resolveReopenAssignee authorize message item row actor at' r = Inr (x, r') \<Longrightarrow> r' = r"
  by (auto simp: resolveReopenAssignee_def txn_simps split: option.splits authority_decision.splits if_splits)

lemma assertCommandAuthority_ok:
  "assertCommandAuthority authorize org at' reqs r = Inr (x, r') \<Longrightarrow> r' = r"
  by (auto simp: assertCommandAuthority_def txn_simps split: authority_decision.splits if_splits)

lemma tryUpdateItemRow_ok:
  assumes "tryUpdateItemRow item f r = Inr (Some row, r')"
  shows "\<exists>j. update_item (\<lambda>i. item_organizationId i = item_organizationId item
        \<and> commandRevision i = commandRevision item)
      (\<lambda>i. (f i)\<lparr>commandRevision := num_add (commandRevision item) (nint 1)\<rparr>) r = Inr (Some j, r')"
  using assms unfolding tryUpdateItemRow_def Let_def seq_ok require_ok ret_ok by (auto simp del: update_item_Some dest!: sym[of "Some row"])

lemma lock_item_and_head_ok:
  assumes "lock_item_and_head item message r = Inr ((i, h), r')"
  shows "r' = r \<and> row_item r = Some i \<and> row_head r = Some h"
  using assms by (auto simp: lock_item_and_head_def txn_simps split: option.splits)

text \<open>The item row follows the head it now has.\<close>

lemma item_written:
  assumes "core_ok k r" "row_head r = Some h" "update_item p f r = Inr (Some j, r')"
    and f: "\<And>i. same_key (f i) i" "\<And>i. item_status (f i) = head_status h"
  shows "item_ok k r'" "evolves r r'" "row_head r' = Some h"
proof -
  from assms(3) obtain i where i: "row_item r = Some i" "item_row_valid (f i)" "r' = r\<lparr>row_item := Some (f i)\<rparr>"
    by (auto simp: txn_simps)
  with assms(1) f(1) have "core_ok k r'" by (simp add: core_ok_item)
  with i assms(2) f(2) show "item_ok k r'" by (simp add: item_ok_def mirrored_def)
  show "evolves r r'" using i f(1) by (simp add: evolves_def same_item_def option.rel_refl)
  show "row_head r' = Some h" using i assms(2) by simp
qed

lemma reopened:
  assumes r: "item_ok k r" and h: "row_head r = Some h"
    and honest: "assertManualReopenHonest h r = Inr ((), r0)"
    and c: "createNextHandlingCycle i = Inr d" "current i = h"
    and ins: "insertNextHandlingCycleDecision env d at' choice marks r0 = Inr (facts, r1)"
    and upd: "update_head p (advance_head (dec_head d)) r1 = Inr (Some h', r2)"
    and it: "update_item q f r2 = Inr (Some j, r3)" "\<And>i. same_key (f i) i" "\<And>i. item_status (f i) = Open"
    and rest: "refines k t" "t r3 = Inr (x, r')"
  shows "item_ok k r' \<and> evolves r r'"
proof -
  obtain i2 where i2: "work_ok (work_of h r)" "core_ok k r"
    by (rule item_headD[OF r h])
  note av = assertManualReopenHonest_ok[OF honest i2(1)]
  note n = next_step[OF i2(2) c h av(2) ins[unfolded av(1)] upd]
  have "item_ok k r3" "evolves r2 r3"
    using item_written[OF n(1,2) it(1)] it(2,3) n(3) by simp_all
  with refinesD[OF rest(1) this(1) rest(2)] n(5) show ?thesis
    by (blast intro: evolves_trans)
qed

theorem refines_reopenReviewCycle [refines_rules]: "refines k (reopenReviewCycle env authorize c)"
proof (rule refinesI)
  fix r x r' assume r: "item_ok k r" and run: "reopenReviewCycle env authorize c r = Inr (x, r')"
  define rest where "rest saved d unassigned itemRow actor facts =
    seq (case unassigned of None \<Rightarrow> ret ()
         | Some _ \<Rightarrow> insert_assignment (dropped_assignment (rc_item c) itemRow
             (commandRevision saved) (currentCycleNumber (dec_head d)) actor None (rc_now c)))
      (\<lambda>_. seq (insertOutboxRow (Status_changed (rc_fact c)))
        (\<lambda>_. seq (insert_facts facts)
          (\<lambda>_. seq (case unassigned of None \<Rightarrow> ret ()
               | Some u \<Rightarrow> insertAssignmentFact u (commandRevision saved))
            (\<lambda>_. ret (itemFromRow saved)))))" for saved :: inbox_item and d :: cycle_decision and unassigned :: "assignment_event option"
      and itemRow :: inbox_item and actor facts
  from run[unfolded reopenReviewCycle_def Let_def, folded rest_def]
  obtain i h actor d assignee unassigned facts r0 r1 r2 r3 h' saved where step:
    "row_head r = Some h" "assertManualReopenHonest h r = Inr ((), r0)"
    "createNextHandlingCycle (manual_reopen_input h (rc_reason c) (rc_explanation c) actor
       (rc_factEventId c) (rc_now c)) = Inr d"
    "insertNextHandlingCycleDecision env d (rc_now c) (Anchored (rc_responseTarget c)) no_marks r0 = Inr (facts, r1)"
    "update_head (\<lambda>h. organizationId h = item_organizationId (rc_item c)
        \<and> currentCycleNumber h = ex_cycleNumber (rc_expected c)
        \<and> currentSourceRevision h = ex_sourceRevision (rc_expected c)
        \<and> stateRevision h = ex_stateRevision (rc_expected c) \<and> head_status h = Closed)
       (advance_head (dec_head d)) r1 = Inr (Some h', r2)"
    "update_item (\<lambda>i. item_organizationId i = item_organizationId (rc_item c)
        \<and> commandRevision i = commandRevision (rc_item c) \<and> item_status i = Closed)
       (reopened_item (num_add (commandRevision (rc_item c)) (nint 1)) assignee (rc_now c)) r2 = Inr (Some saved, r3)"
    "rest saved d unassigned i actor facts r3 = Inr (x, r')"
    by (auto simp: seq_ok must_ok require_ok inspect_ok decide_ok ret_ok present_ok
        split: prod.splits dest!: lock_item_and_head_ok resolveReopenAssignee_ok assertCommandAuthority_ok)
  show "item_ok k r' \<and> evolves r r'"
  proof (rule reopened[OF r], rule step(1), rule step(2), rule step(3), simp add: manual_reopen_input_def next_cycle_input_def,
      rule step(4), rule step(5), rule step(6))
    show "rest saved d unassigned i actor facts r3 = Inr (x, r')" by (rule step(7))
    show "refines k (rest saved d unassigned i actor facts)"
      unfolding rest_def by (intro refines_rules)
  qed (simp_all add: reopened_item_def same_key_def)
qed

text \<open>The locked rows of a bulk command are the current ones.\<close>

theorem refines_reopenLockedBulkItem:
  assumes r: "item_ok k r" and h: "row_head r = Some h"
    and run: "reopenLockedBulkItem env authorize item event eventId itemRow h reason explanation bulk
      target now r = Inr (x, r')"
  shows "item_ok k r' \<and> evolves r r'"
proof -
  define rest where "rest row d unassigned actor facts =
    seq (case unassigned of None \<Rightarrow> ret ()
         | Some _ \<Rightarrow> insert_assignment (dropped_assignment item itemRow (commandRevision row)
             (currentCycleNumber (dec_head d)) actor (Some bulk) now))
      (\<lambda>_. seq (insert_facts facts)
        (\<lambda>_. seq (case unassigned of None \<Rightarrow> ret ()
             | Some u \<Rightarrow> insertAssignmentFact u (commandRevision row))
          (\<lambda>_. seq (insertOutboxRow (Bulk_status_changed event))
            (\<lambda>_. ret \<lparr>rp_inboxItemId = item_id item, rp_propertyId = item_propertyId item,
               rp_sourceType = item_sourceType item, rp_sourceId = item_sourceId item,
               rp_cycleNumber = currentCycleNumber (dec_head d),
               rp_sourceRevision = currentSourceRevision (dec_head d),
               rp_stateRevision = stateRevision (dec_head d)\<rparr>))))" for row :: inbox_item and d :: cycle_decision and unassigned :: "assignment_event option"
      and actor facts
  from run[unfolded reopenLockedBulkItem_def Let_def, folded rest_def]
  obtain actor assignee unassigned d facts r0 r1 r2 r3 h' row where step:
    "assertManualReopenHonest h r = Inr ((), r0)"
    "createNextHandlingCycle (manual_reopen_input h reason explanation actor eventId now) = Inr d"
    "insertNextHandlingCycleDecision env d now (Anchored target)
       \<lparr>mark_bulkId = Some bulk, openedWithItem = False\<rparr> r0 = Inr (facts, r1)"
    "update_head (\<lambda>h'. organizationId h' = item_organizationId item
        \<and> currentCycleNumber h' = currentCycleNumber h
        \<and> stateRevision h' = stateRevision h \<and> head_status h' = Closed)
       (advance_head (dec_head d)) r1 = Inr (Some h', r2)"
    "tryUpdateItemRow (itemFromRow itemRow) (\<lambda>i. i\<lparr>item_status := Open, closedAt := None,
        assignedTo := assignee, item_updatedAt := now\<rparr>) r2 = Inr (Some row, r3)"
    "rest row d unassigned actor facts r3 = Inr (x, r')"
    by (auto simp: seq_ok must_ok require_ok inspect_ok decide_ok ret_ok present_ok
        split: prod.splits dest!: resolveReopenAssignee_ok)
  from step(5) obtain p j where it: "update_item p (\<lambda>i. i\<lparr>item_status := Open, closedAt := None,
      assignedTo := assignee, item_updatedAt := now,
      commandRevision := num_add (commandRevision (itemFromRow itemRow)) (nint 1)\<rparr>) r2 = Inr (Some j, r3)"
    by (auto dest!: tryUpdateItemRow_ok)
  show ?thesis
  proof (rule reopened[OF r h], rule step(1), rule step(2), simp add: manual_reopen_input_def next_cycle_input_def,
      rule step(3), rule step(4), rule it)
    show "rest row d unassigned actor facts r3 = Inr (x, r')" by (rule step(6))
    show "refines k (rest row d unassigned actor facts)"
      unfolding rest_def by (intro refines_rules)
  qed (simp_all add: same_key_def)
qed

end
