(* ===== verification/InboxSources.thy ===== *)
theory InboxSources
  imports InboxRefine
begin

text \<open>
  What the events of Review and Guest do to an item implements the machine of \<open>InboxWork\<close> as well:
  the projection of a Review with its catch-up, the end of a source, the reply Google shows or has
  lost, the resubmission and the withdrawal of private feedback (\<open>ReviewStore\<close>), and the first cycle
  of a new item.
\<close>

section \<open>Closing with the item\<close>

lemma closed:
  assumes r: "core_ok k r" and h: "row_head r = Some h" and c: "closeHandlingCycle c = Inr (ch, t)" "cl_current c = h"
    and reason: "cl_closeReason c \<noteq> CR_private_feedback_handled"
    and stop: "stops_cycle (currentCycleNumber h) (stop_of (cl_closeReason c)) r r1"
    and ins: "insert_transition t r1 = Inr (u, r2)"
    and upd: "update_head p (settle_head ch) r2 = Inr (Some h', r3)"
    and it: "update_item q f r3 = Inr (Some j, r4)" "\<And>i. same_key (f i) i" "\<And>i. item_status (f i) = Closed"
  shows "item_ok k r4" "evolves r r4"
proof -
  note s = close_step[OF r c h reason stop ins upd]
  from item_written[OF s(1,2) it(1)] it(2,3) s(3)
  have "item_ok k r4" "evolves r3 r4" by simp_all
  with s(5) show "item_ok k r4" "evolves r r4" by (blast intro: evolves_trans)+
qed

lemma opened:
  assumes r: "core_ok k r" and h: "row_head r = Some h"
    and c: "createNextHandlingCycle i = Inr d" "current i = h" "nx_openedReason i \<noteq> Next_manual_reopen"
    and ins: "insertNextHandlingCycleDecision env d at' choice marks r = Inr (facts, r1)"
    and upd: "update_head p (advance_head (dec_head d)) r1 = Inr (Some h', r2)"
    and it: "update_item q f r2 = Inr (Some j, r3)" "\<And>i. same_key (f i) i" "\<And>i. item_status (f i) = Open"
  shows "item_ok k r3" "evolves r r3"
proof -
  note n = next_step[OF r c(1,2) h _ ins upd]
  from item_written[OF n(1,2) it(1)] it(2,3) n(3) c(3)
  have "item_ok k r3" "evolves r2 r3" by simp_all
  with n(5) c(3) show "item_ok k r3" "evolves r r3" by (blast intro: evolves_trans)+
qed

lemma after_facts:
  "item_ok k r1 \<Longrightarrow> evolves r r1 \<Longrightarrow> r' = r1\<lparr>row_facts := fs\<rparr> \<Longrightarrow> item_ok k r' \<and> evolves r r'"
  by (simp add: item_ok_def evolves_def same_item_def)

section \<open>Withdrawn feedback\<close>

lemma cancelPrivateFeedbackTarget_ok:
  assumes "work_ok (work_of h r)" "cancelPrivateFeedbackTarget h d r = Inr (u, r')"
  shows "stops_cycle (currentCycleNumber h) Stop_guest_withdrawn r r'"
  using assms stopPrivateFeedbackTarget_ok(2)[of h r d Stop_withdrawn]
  by (auto simp: cancelPrivateFeedbackTarget_def seq_ok ret_ok)

theorem refines_withdraw_source:
  assumes fb: "item_sourceType (sw_item c) = Src_feedback"
  shows "refines k (withdraw_source c)"
proof (rule refinesI)
  fix r x r' assume r: "item_ok k r" and run: "withdraw_source c r = Inr (x, r')"
  show "item_ok k r' \<and> evolves r r'"
  proof (cases "r' = r")
    case True
    with r show ?thesis by simp
  next
    case False
    with run fb obtain h ch t r1 r2 r3 h' r4 j fs where step:
      "row_head r = Some h"
      "closeHandlingCycle (close_of h CR_guest_withdrawn Actor_guest None (Some (sw_eventId c)) (sw_now c)) = Inr (ch, t)"
      "cancelPrivateFeedbackTarget h (sw_now c) r = Inr ((), r1)"
      "insert_transition t r1 = Inr ((), r2)"
      "update_head (\<lambda>h'. organizationId h' = item_organizationId (sw_item c)
          \<and> stateRevision h' = stateRevision h \<and> head_status h' = Open) (settle_head ch) r2 = Inr (Some h', r3)"
      "update_item (row_of_item (sw_item c))
         (\<lambda>i. i\<lparr>item_status := Closed, closedAt := Some (sw_now c),
            commandRevision := num_add (commandRevision i) (nint 1), item_updatedAt := sw_now c\<rparr>) r3
         = Inr (Some j, r4)"
      "r' = r4\<lparr>row_facts := fs\<rparr>"
      by (auto simp: withdraw_source_def Let_def seq_ok must_ok inspect_ok decide_ok ret_ok insertOutboxRow_ok
          head_of_item_def split: prod.splits option.splits if_splits)
    obtain i where i: "work_ok (work_of h r)" "core_ok k r" by (rule item_headD[OF r step(1)])
    note stop = cancelPrivateFeedbackTarget_ok[OF i(1) step(3)]
    have "item_ok k r4" "evolves r r4"
      by (rule closed[OF i(2) step(1,2) _ _ _ step(4,5,6)]; use stop in \<open>simp add: same_key_def\<close>)+
    then show ?thesis using step(7) by (rule after_facts)
  qed
qed

section \<open>Resubmitted feedback\<close>

theorem refines_openNextFeedbackCycleOnResubmission [refines_rules]:
  "refines k (openNextFeedbackCycleOnResubmission env c anchor at' item)"
proof (rule refinesI)
  fix r x r' assume r: "item_ok k r"
    and run: "openNextFeedbackCycleOnResubmission env c anchor at' item r = Inr (x, r')"
  show "item_ok k r' \<and> evolves r r'"
  proof (cases "r' = r")
    case True
    with r show ?thesis by simp
  next
    case False
    with run obtain h d facts r1 h' r2 j r3 fs where step:
      "row_head r = Some h" "organizationId h = item_organizationId item" "sourceType h = Src_feedback"
      "sourceId h = item_sourceId item"
      "createNextHandlingCycle (next_cycle_input h (an_sourceRevision anchor) Next_feedback_submitted None None
         None Actor_guest (Some (sc_eventId c)) at') = Inr d"
      "insertNextHandlingCycleDecision env d at' (Anchored None) no_marks r = Inr (facts, r1)"
      "update_head (\<lambda>h'. stateRevision h' = stateRevision h \<and> currentSourceRevision h' = currentSourceRevision h)
         (advance_head (dec_head d)) r1 = Inr (Some h', r2)"
      "update_item (\<lambda>i. item_organizationId i = item_organizationId item
            \<and> item_sourceType i = Src_feedback \<and> item_sourceId i = item_sourceId item)
         (\<lambda>i. i\<lparr>item_status := Open, closedAt := None, sourceDate := sourceDate (sc_item c),
            commandRevision := num_add (commandRevision i) (nint 1),
            item_updatedAt := item_updatedAt (sc_item c)\<rparr>) r2 = Inr (j, r3)"
      "r' = r3\<lparr>row_facts := fs\<rparr>"
      by (auto simp: openNextFeedbackCycleOnResubmission_def seq_ok must_ok inspect_ok decide_ok ret_ok
          insert_facts_ok split: prod.splits option.splits if_splits)
    obtain i where i: "row_item r = Some i" "linked i h" "core_ok k r" by (rule item_headD[OF r step(1)])
    note n = next_step[OF i(3) step(5) _ step(1) _ step(6,7)]
    have "row_item r2 = Some i" using n(4) i(1) by (simp add: next_cycle_input_def)
    with step(8) i(2) step(2-4) obtain j' where j: "j = Some j'"
      by (cases j) (auto simp: update_item_None linked_def)
    have "item_ok k r3" "evolves r r3"
      by (rule opened[OF i(3) step(1,5) _ _ step(6,7) step(8)[unfolded j]];
          simp add: next_cycle_input_def same_key_def)+
    then show ?thesis using step(9) by (rule after_facts)
  qed
qed

section \<open>The reply Google shows\<close>

lemma lockReviewRowsForObservation_ok:
  assumes r: "item_ok k r" and run: "lockReviewRowsForObservation item ob r = Inr ((i, h), r')"
  shows "item_ok k r'" "evolves r r'" "row_item r' = Some i" "row_head r' = Some h"
proof -
  from run obtain h0 where h0: "row_item r = Some i" "row_head r = Some h0"
    and cont: "(if num_eq (currentSourceRevision h0) (ro_materialReviewRevision ob) then ret (i, h0)
       else seq (must (inspect (\<lambda>_. chosen (\<lambda>k. num_eq (currentSourceRevision h0) k
            \<and> num_eq (ro_materialReviewRevision ob) (num_add k (nint 1))) (sourceEpochCarryFrom ob))) observation_conflict)
         (\<lambda>carriedFrom. seq (must (advanceHeadAcrossSourceEpochCarry item h0 carriedFrom)
            (refused IE_revision_conflict ''Review Inbox Handling Cycle changed during source-epoch carry''))
           (\<lambda>h'. ret (i, h')))) r = Inr ((i, h), r')"
    by (auto simp: lockReviewRowsForObservation_def seq_ok inspect_ok require_ok refuse_ok
        split: prod.splits option.splits if_splits simp: ret_ok must_ok)
  have "item_ok k r' \<and> evolves r r' \<and> row_item r' = Some i \<and> row_head r' = Some h"
  proof (cases "num_eq (currentSourceRevision h0) (ro_materialReviewRevision ob)")
    case True
    with cont h0 r show ?thesis by (simp add: ret_ok)
  next
    case False
    with cont obtain n where n: "advanceHeadAcrossSourceEpochCarry item h0 n r = Inr (Some h, r')"
      by (auto simp: seq_ok must_ok inspect_ok ret_ok)
    obtain i2 where i: "row_item r = Some i2" "item_status i2 = head_status h0" "core_ok k r"
      by (rule item_headD[OF r h0(2)])
    note c = carry_step[OF i(3) h0(2) n]
    from c(1,2,3,4) i h0(1) have "item_ok k r'" by (simp add: item_ok_def mirrored_def)
    with c h0(1) show ?thesis by simp
  qed
  then show "item_ok k r'" "evolves r r'" "row_item r' = Some i" "row_head r' = Some h" by simp_all
qed

lemma closeReviewCycleOnGoogleReply_ok:
  assumes r: "item_ok k r" and h: "row_head r = Some h"
    and run: "closeReviewCycleOnGoogleReply item itemRow h ob trigger recorded r = Inr (x, r')"
  shows "item_ok k r' \<and> evolves r r'"
proof -
  from run obtain q replied ch t r1 r2 r3 h' j where step:
    "completeGoogleReviewTarget h (ro_observedAt ob) (providerReplyUpdatedAt ob) r = Inr ((q, replied), r1)"
    "closeHandlingCycle (close_of h (reply_close_reason ob) Actor_provider None trigger (ro_observedAt ob)) = Inr (ch, t)"
    "insert_transition t r1 = Inr ((), r2)"
    "update_head (\<lambda>h'. organizationId h' = item_organizationId item \<and> stateRevision h' = stateRevision h
        \<and> head_status h' = Open) (settle_head ch) r2 = Inr (Some h', r3)"
    "update_item (\<lambda>i. item_organizationId i = item_organizationId item \<and> item_status i = Open)
       (answered_item ob (firstReplyPublishedAt itemRow = None) replied recorded) r3 = Inr (Some j, r')"
    by (auto simp: closeReviewCycleOnGoogleReply_def seq_ok must_ok decide_ok ret_ok split: prod.splits)
  obtain i where i: "work_ok (work_of h r)" "core_ok k r" by (rule item_headD[OF r h])
  note stop = completeGoogleReviewTarget_ok(2)[OF i(1) step(1)]
  have reason: "stop_of (reply_close_reason ob) = Stop_confirmed_on_google"
    "reply_close_reason ob \<noteq> CR_private_feedback_handled"
    by (simp_all add: reply_close_reason_def)
  have "item_ok k r'" "evolves r r'"
    by (rule closed[OF i(2) h step(2) _ _ _ step(3-5)];
        use stop reason in \<open>simp add: same_key_def answered_item_def\<close>)+
  then show ?thesis by simp
qed

theorem refines_observe_reply [refines_rules]: "refines k (observe_reply env c)"
proof (rule refinesI)
  fix r x r' assume r: "item_ok k r" and run: "observe_reply env c r = Inr (x, r')"
  let ?ob = "currentObservation c" and ?item = "ob_item c"
  from run obtain i h r0 where lock: "lockReviewRowsForObservation ?item ?ob r = Inr ((i, h), r0)"
    and cont: "(if isAnsweringGoogleReply ?ob \<and> item_status i = Open then closeCycleOnObservedReply c i h
       else if reply_lost ?ob \<and> item_status i = Closed then reopenCycleOnDeletedReply env c h
       else ret ()) r0 = Inr (x, r')"
    by (auto simp: observe_reply_def Let_def seq_ok decide_ok split: prod.splits)
  note r0 = lockReviewRowsForObservation_ok[OF r lock]
  have "item_ok k r' \<and> evolves r0 r'"
  proof (cases "isAnsweringGoogleReply ?ob \<and> item_status i = Open")
    case True
    with cont obtain y r1 fs where c: "closeReviewCycleOnGoogleReply ?item i h ?ob (Some (ob_eventId c))
        (ro_observedAt ?ob) r0 = Inr (y, r1)" "r' = r1\<lparr>row_facts := fs\<rparr>"
      by (auto simp: closeCycleOnObservedReply_def seq_ok insertOutboxRow_ok split: prod.splits)
    from closeReviewCycleOnGoogleReply_ok[OF r0(1,4) c(1)] c(2) after_facts show ?thesis by blast
  next
    case False
    show ?thesis
    proof (cases "r' = r0")
      case True
      with r0(1) show ?thesis by simp
    next
      case diff: False
      with cont False have "reopenCycleOnDeletedReply env c h r0 = Inr (x, r')"
        by (auto simp: ret_ok split: if_splits)
      then obtain d facts r1 h' r2 j r3 fs where step:
        "createNextHandlingCycle (next_cycle_input h (ro_materialReviewRevision ?ob)
           Next_provider_reply_deleted None None None Actor_provider (Some (ob_eventId c)) (ro_observedAt ?ob)) = Inr d"
        "insertNextHandlingCycleDecision env d (ro_observedAt ?ob) (Anchored (Some (operational_anchor ?ob)))
           no_marks r0 = Inr (facts, r1)"
        "update_head (\<lambda>h'. stateRevision h' = stateRevision h \<and> head_status h' = Closed)
           (advance_head (dec_head d)) r1 = Inr (Some h', r2)"
        "update_item (\<lambda>i. item_organizationId i = item_organizationId ?item \<and> item_status i = Closed)
           (\<lambda>i. i\<lparr>item_status := Open, closedAt := None,
              commandRevision := num_add (commandRevision i) (nint 1), item_updatedAt := ro_observedAt ?ob\<rparr>) r2
           = Inr (Some j, r3)"
        "r' = r3\<lparr>row_facts := fs\<rparr>"
        by (auto simp: reopenCycleOnDeletedReply_def Let_def seq_ok must_ok decide_ok ret_ok insert_facts_ok insertOutboxRow_ok)
      obtain i2 where i: "core_ok k r0" by (rule item_headD[OF r0(1,4)])
      have "item_ok k r3" "evolves r0 r3"
        by (rule opened[OF i r0(4) step(1) _ _ step(2-4)]; simp add: next_cycle_input_def same_key_def)+
      then show ?thesis using step(5) by (rule after_facts)
    qed
  qed
  with r0(2) show "item_ok k r' \<and> evolves r r'" by (blast intro: evolves_trans)
qed

section \<open>The projection of a Review\<close>

text \<open>While it catches up, the head runs ahead of the item; the row converges at the end.\<close>

definition runs_ahead :: "string \<Rightarrow> item_rows \<Rightarrow> item_rows \<Rightarrow> handling_head \<Rightarrow> bool" where
  "runs_ahead k r r' h =
     (core_ok k r' \<and> row_head r' = Some h \<and> row_item r' = row_item r \<and> evolves r r')"

lemma runs_ahead_refl: "core_ok k r \<Longrightarrow> row_head r = Some h \<Longrightarrow> runs_ahead k r r h"
  by (simp add: runs_ahead_def)

lemma runs_ahead_trans: "runs_ahead k a b h \<Longrightarrow> runs_ahead k b c h' \<Longrightarrow> runs_ahead k a c h'"
  unfolding runs_ahead_def by (auto intro: evolves_trans)

lemma runs_ahead_facts: "runs_ahead k a b h \<Longrightarrow> c = b\<lparr>row_facts := fs\<rparr> \<Longrightarrow> runs_ahead k a c h"
  by (simp add: runs_ahead_def evolves_def)

lemma catch_up_one_ok:
  assumes r: "core_ok k r" and h: "row_head r = Some h" and run: "catch_up_one env item rv active h new r = Inr (h', r')"
  shows "runs_ahead k r r' h'"
proof (cases "sourceEpochCarry rv")
  case True
  with run have "advanceHeadAcrossSourceEpochCarry item h (currentSourceRevision h) r = Inr (Some h', r')"
    by (simp add: catch_up_one_def must_ok)
  from carry_step[OF r h this] show ?thesis by (simp add: runs_ahead_def)
next
  case False
  with run obtain d facts r1 h2 r2 fs where step:
    "createNextHandlingCycle (next_cycle_input h (ra_materialReviewRevision rv) Next_material_revision_changed
       None None None Actor_provider None (observedAt rv)) = Inr d"
    "insertNextHandlingCycleDecision env d (observedAt rv)
       (if active then Anchored (Some (projectionTargetAnchor rv)) else Suppressed)
       \<lparr>mark_bulkId = None, openedWithItem = new\<rparr> r = Inr (facts, r1)"
    "update_head (\<lambda>h'. organizationId h' = item_organizationId item \<and> stateRevision h' = stateRevision h
        \<and> currentSourceRevision h' = currentSourceRevision h) (advance_head (dec_head d)) r1 = Inr (Some h2, r2)"
    "h' = dec_head d" "r' = r2\<lparr>row_facts := fs\<rparr>"
    by (auto simp: catch_up_one_def seq_ok must_ok decide_ok ret_ok insert_facts_ok)
  note n = next_step[OF r step(1) _ h _ step(2,3)]
  have "runs_ahead k r r2 (dec_head d)"
    using n(1,2,4,5) by (simp add: runs_ahead_def next_cycle_input_def)
  with step(4,5) show ?thesis by (simp add: runs_ahead_facts)
qed

lemma catchUpProjectionRevisions_ok:
  assumes "core_ok k r" "row_head r = Some h"
    "catchUpProjectionRevisions env item rvs active h new r = Inr ((h', moved), r')"
  shows "runs_ahead k r r' h'"
  using assms
proof (induction rvs arbitrary: r h moved)
  case Nil
  then show ?case by (simp add: ret_ok runs_ahead_refl)
next
  case (Cons rv rvs)
  show ?case
  proof (cases "num_le (ra_materialReviewRevision rv) (currentSourceRevision h)")
    case True
    with Cons.prems show ?thesis by (intro Cons.IH) simp_all
  next
    case False
    with Cons.prems(3) obtain h1 r1 m where s: "catch_up_one env item rv active h new r = Inr (h1, r1)"
      "catchUpProjectionRevisions env item rvs active h1 new r1 = Inr ((h', m), r')"
      by (auto simp: seq_ok ret_ok refuse_ok split: if_splits prod.splits)
    note one = catch_up_one_ok[OF Cons.prems(1,2) s(1)]
    then have "core_ok k r1" "row_head r1 = Some h1" by (simp_all add: runs_ahead_def)
    from runs_ahead_trans[OF one Cons.IH[OF this s(2)]] show ?thesis .
  qed
qed

lemma closeCycleForErasedSource_ok:
  assumes r: "core_ok k r" and h: "row_head r = Some h" and run: "closeCycleForErasedSource item h at' r = Inr (h', r')"
  shows "runs_ahead k r r' h'" "head_status h' = Closed"
proof -
  from run obtain b ch t r1 r2 r3 h2 fs where step:
    "cancelResponseTargetForCycle (currentCycleNumber h) (organizationId h) at' Cancel_source_ineligible r = Inr (b, r1)"
    "closeHandlingCycle (close_of h CR_source_ineligible Actor_provider None None at') = Inr (ch, t)"
    "insert_transition t r1 = Inr ((), r2)"
    "update_head (\<lambda>h'. organizationId h' = item_organizationId item \<and> stateRevision h' = stateRevision h
        \<and> head_status h' = Open) (settle_head ch) r2 = Inr (Some h2, r3)"
    "r' = r3\<lparr>row_facts := fs\<rparr>" "h' = ch"
    by (auto simp: closeCycleForErasedSource_def seq_ok must_ok decide_ok ret_ok insertOutboxRow_ok split: prod.splits)
  obtain i where i: "work_ok (work_of h r)" by (rule core_okD[OF r h])
  note stop = cancelResponseTargetForCycle_ok[OF i refl step(1)]
  note c = close_step[OF r step(2) _ h _ _ step(3,4)]
  have "runs_ahead k r r3 ch" using c(1,2,4,5) stop by (simp add: runs_ahead_def)
  with step(5,6) show "runs_ahead k r r' h'" by (simp add: runs_ahead_facts)
  show "head_status h' = Closed" using c(3) stop step(6) by simp
qed

lemma noted_if_open:
  assumes "(case s of Open \<Rightarrow> (case e of None \<Rightarrow> ret () | Some t \<Rightarrow> insertOutboxRow (f t))
      | Closed \<Rightarrow> ret ()) r = Inr (u, r')"
  shows "\<exists>fs. r' = r\<lparr>row_facts := fs\<rparr>"
proof -
  have "\<exists>fs. r = r\<lparr>row_facts := fs\<rparr>" by (rule exI[of _ "row_facts r"]) simp
  with assms show ?thesis
    by (auto simp: insertOutboxRow_ok ret_ok split: inbox_status.splits option.splits)
qed

lemma lockReviewProjectionRows_ok:
  assumes "lockReviewProjectionRows item r = Inr ((i, h), r')"
  shows "r' = r \<and> row_item r = Some i \<and> row_head r = Some h"
  using assms by (auto simp: lockReviewProjectionRows_def seq_ok inspect_ok ret_ok refuse_ok split: option.splits)

theorem refines_project_review [refines_rules]: "refines k (project_review env c item new)"
proof (rule refinesI)
  fix r x r' assume r: "item_ok k r" and run: "project_review env c item new r = Inr (x, r')"
  let ?p = "projection c"
  define active where "active = (sourceContentState ?p = Sc_active)"
  define erased where "erased = (if active then None else sourceContentErasedAt ?p)"
  define tail where "tail moved ended = (ret (new \<or> moved \<or> ended) :: bool item_txn)" for moved ended
  have tail: "tail moved ended r = Inr (y, r') \<Longrightarrow> r' = r" for moved ended r y r'
    by (simp add: tail_def ret_ok)
  from run[unfolded project_review_def Let_def, folded tail_def active_def, folded erased_def]
  obtain i h h1 moved r1 h2 ended r2 r3 fs closing j where step:
    "row_item r = Some i" "row_head r = Some h"
    "catchUpProjectionRevisions env item (revisions ?p) active h new r = Inr ((h1, moved), r1)"
    "(case (head_status h1, erased) of
        (Open, Some t) \<Rightarrow> seq (closeCycleForErasedSource item h1 t) (\<lambda>h. ret (h, True))
      | _ \<Rightarrow> ret (h1, False)) r1 = Inr ((h2, ended), r2)"
    "r3 = r2\<lparr>row_facts := fs\<rparr>"
    "update_item (\<lambda>i. item_organizationId i = item_organizationId item \<and> item_propertyId i = item_propertyId item
        \<and> item_sourceType i = Src_review \<and> item_sourceId i = item_sourceId item)
       (converged_item ?p (head_status h2) closing (pc_now c)) r3 = Inr (Some j, r')"
    by (auto simp: seq_ok require_ok ret_ok convergeProjectedItemRow_def must_ok
        split: prod.splits dest!: lockReviewProjectionRows_ok noted_if_open tail)
  obtain i2 where i: "core_ok k r" by (rule item_headD[OF r step(2)])
  note one = catchUpProjectionRevisions_ok[OF i step(2,3)]
  then have r1: "core_ok k r1" "row_head r1 = Some h1" by (simp_all add: runs_ahead_def)
  from step(4) consider "h2 = h1" "r2 = r1"
    | t where "closeCycleForErasedSource item h1 t r1 = Inr (h2, r2)"
    by (auto simp: ret_ok seq_ok split: option.splits inbox_status.splits if_splits)
  then have "runs_ahead k r1 r2 h2"
  proof cases
    case 1
    with runs_ahead_refl[OF r1] show ?thesis by simp
  next
    case 2
    from closeCycleForErasedSource_ok(1)[OF r1 this] show ?thesis .
  qed
  from runs_ahead_facts[OF runs_ahead_trans[OF one this] step(5)]
  have r3: "core_ok k r3" "row_head r3 = Some h2" "evolves r r3" by (simp_all add: runs_ahead_def)
  from item_written[OF r3(1,2) step(6)] have "item_ok k r'" "evolves r3 r'"
    by (simp_all add: converged_item_def Let_def same_key_def)
  with r3(3) show "item_ok k r' \<and> evolves r r'" by (blast intro: evolves_trans)
qed

section \<open>The end of a source\<close>

lemma noted_each:
  assumes "(if b then insertOutboxRow g else ret ()) r = Inr (u, r1)"
    "(case f of None \<Rightarrow> ret () | Some f \<Rightarrow> insertOutboxRow f) r1 = Inr (v, r')"
  shows "\<exists>fs. r' = r\<lparr>row_facts := fs\<rparr>"
proof -
  from assms have "r' = r\<lparr>row_facts := row_facts r'\<rparr>"
    by (cases b; cases f) (simp_all add: insertOutboxRow_ok ret_ok)
  then show ?thesis ..
qed

lemma seq_inspect: "seq (inspect f) g r = g (f r) r"
  by (simp add: seq_def inspect_def)

lemma seq_require: "seq (require b e) g r = (if b then g () r else Inl e)"
  by (simp add: seq_def require_def ret_def refuse_def)

lemma closeCycleForSourceTransition_ok:
  assumes r: "core_ok k r" and h: "row_head r = Some h"
    and run: "closeCycleForSourceTransition c h r = Inr (f, r')"
    and reason: "st_closeReason c = None \<or> st_closeReason c = Some CR_source_ineligible"
  shows "core_ok k r'" "\<exists>ch. row_head r' = Some ch \<and> head_status ch = Closed" "evolves r r'"
proof -
  from run reason obtain b ch t r1 r2 h2 where step:
    "cancelResponseTargetForCycle (currentCycleNumber h) (organizationId h) (transitionedAt' c)
       Cancel_source_ineligible r = Inr (b, r1)"
    "closeHandlingCycle (close_of h CR_source_ineligible Actor_provider None (Some (st_eventId c))
       (transitionedAt' c)) = Inr (ch, t)"
    "insert_transition t r1 = Inr ((), r2)"
    "update_head (\<lambda>h'. organizationId h' = item_organizationId (st_item c)
        \<and> stateRevision h' = stateRevision h \<and> head_status h' = Open) (settle_head ch) r2 = Inr (Some h2, r')"
    by (auto simp: closeCycleForSourceTransition_def seq_ok must_ok decide_ok ret_ok split: prod.splits option.splits)
  obtain i where i: "work_ok (work_of h r)" by (rule core_okD[OF r h])
  note stop = cancelResponseTargetForCycle_ok[OF i refl step(1)]
  note c = close_step[OF r step(2) _ h _ _ step(3,4)]
  show "core_ok k r'" "\<exists>ch. row_head r' = Some ch \<and> head_status ch = Closed" "evolves r r'"
    using c(1-3,5) stop by simp_all
qed

lemma scrubbed_item_same [simp]:
  "same_key (scrubbed_item b at' i) i" "item_status (scrubbed_item b at' i) = (if b then Closed else item_status i)"
  by (simp_all add: scrubbed_item_def same_key_def)

theorem refines_end_review_source:
  assumes reason: "st_closeReason c = None \<or> st_closeReason c = Some CR_source_ineligible"
  shows "refines k (end_review_source c)"
proof (rule refinesI)
  fix r x r' assume r: "item_ok k r" and run: "end_review_source c r = Inr (x, r')"
  show "item_ok k r' \<and> evolves r r'"
  proof (cases "r' = r")
    case True
    with r show ?thesis by simp
  next
    case False
    define found where "found = chosen (\<lambda>h. organizationId h = item_organizationId (st_item c)
      \<and> sourceType h = Src_review \<and> sourceId h = item_sourceId (st_item c)) (row_head r)"
    define openHead where "openHead = (if closeIfOpen c then chosen (\<lambda>h. head_status h = Open) found else None)"
    define row where "row = chosen (\<lambda>i. item_organizationId i = item_organizationId (st_item c)
      \<and> item_propertyId i = item_propertyId (st_item c) \<and> item_sourceType i = Src_review
      \<and> item_sourceId i = item_sourceId (st_item c)) (row_item r)"
    note run1 = run[unfolded end_review_source_def Let_def seq_inspect, folded found_def,
      unfolded seq_require seq_inspect, folded openHead_def row_def]
    from run1 False obtain i where row: "row = Some i" and has_head: "closeIfOpen c \<Longrightarrow> found \<noteq> None"
      and body: "seq (case openHead of None \<Rightarrow> ret None
          | Some h \<Rightarrow> seq (closeCycleForSourceTransition c h) (\<lambda>f. ret (Some f)))
        (\<lambda>f. seq (scrubTransitionedItemRow c i (closeIfOpen c \<and> item_status i = Open))
          (\<lambda>_. seq (if closeIfOpen c \<and> item_status i = Open
                then insertOutboxRow (Status_changed (st_closeFact c)) else ret ())
            (\<lambda>_. case f of None \<Rightarrow> ret () | Some f \<Rightarrow> insertOutboxRow f))) r = Inr (x, r')"
      by (cases row) (auto simp: ret_ok split: if_splits)
    from row have i: "row_item r = Some i" by (simp add: row_def)
    obtain f r1 j r2 fs where step:
      "(case openHead of None \<Rightarrow> ret None
        | Some h \<Rightarrow> seq (closeCycleForSourceTransition c h) (\<lambda>f. ret (Some f))) r = Inr (f, r1)"
      "update_item (\<lambda>j. item_organizationId j = item_organizationId i \<and> item_sourceType j = Src_review)
         (scrubbed_item (closeIfOpen c \<and> item_status i = Open) (transitionedAt' c)) r1 = Inr (Some j, r2)"
      "r' = r2\<lparr>row_facts := fs\<rparr>"
      using body by (auto simp: seq_ok scrubTransitionedItemRow_def must_ok ret_ok dest!: noted_each)
    have "item_ok k r2 \<and> evolves r r2"
    proof (cases openHead)
      case None
      with step(1) have r1: "r1 = r" by (simp add: ret_ok)
      have "\<not> (closeIfOpen c \<and> item_status i = Open)"
        using None i has_head r by (auto simp: openHead_def found_def item_ok_def mirrored_def chosen_None split: option.splits)
      with step(2) have upd: "update_item (\<lambda>j. item_organizationId j = item_organizationId i \<and> item_sourceType j = Src_review)
         (scrubbed_item False (transitionedAt' c)) r = Inr (Some j, r2)"
        using r1 by simp
      have "refines k (update_item (\<lambda>j. item_organizationId j = item_organizationId i
          \<and> item_sourceType j = Src_review) (scrubbed_item False (transitionedAt' c)))"
        by (rule refines_update_item) (simp add: keeps_item_def)
      from refinesD[OF this r upd] show ?thesis .
    next
      case (Some h)
      then have h: "row_head r = Some h" "head_status h = Open" "closeIfOpen c"
        by (auto simp: openHead_def found_def split: if_splits)
      from Some step(1) obtain f' where f: "closeCycleForSourceTransition c h r = Inr (f', r1)"
        by (auto simp: seq_ok ret_ok)
      obtain i2 where i2: "row_item r = Some i2" "item_status i2 = head_status h" "core_ok k r"
        by (rule item_headD[OF r h(1)])
      note c = closeCycleForSourceTransition_ok[OF i2(3) h(1) f reason]
      from c(2) obtain ch where ch: "row_head r1 = Some ch" "head_status ch = Closed" by blast
      have "closeIfOpen c \<and> item_status i = Open" using i2(1,2) i(1) h(2,3) by simp
      then have "item_ok k r2" "evolves r1 r2"
        using item_written[OF c(1) ch(1) step(2)] ch(2) by simp_all
      with c(3) show ?thesis by (blast intro: evolves_trans)
    qed
    then show ?thesis by (elim conjE) (rule after_facts[OF _ _ step(3)])
  qed
qed

section \<open>The first cycle\<close>

text \<open>The work of an item begins with its first cycle and moves by the steps of the machine.\<close>

inductive work_move :: "work option \<Rightarrow> work option \<Rightarrow> bool" where
  work_begins:
    "createInitialHandlingCycle i = Inr d \<Longrightarrow> in_status i = Open \<Longrightarrow> cycle_targets (dec_cycle d) ts ms
     \<Longrightarrow> work_move None (Some (first_work d ts ms))"
| work_moves: "work_step w w' \<Longrightarrow> work_move (Some w) (Some w')"

lemma evolves_moves:
  assumes "evolves r r'"
  shows "work_move\<^sup>*\<^sup>* (work_in r) (work_in r')"
proof (cases "work_in r")
  case None
  with assms show ?thesis by (simp add: evolves_def)
next
  case (Some w)
  with assms obtain w' where w: "work_in r' = Some w'" "work_step\<^sup>*\<^sup>* w w'"
    by (auto simp: evolves_def option_rel_Some1)
  from w(2) have "work_move\<^sup>*\<^sup>* (Some w) (Some w')"
    by (induction rule: rtranclp_induct) (auto intro: rtranclp.rtrancl_into_rtrancl work_moves)
  with Some w(1) show ?thesis by simp
qed

lemma work_move_ok: "work_move v v' \<Longrightarrow> pred_option work_ok v \<Longrightarrow> pred_option work_ok v'"
  by (induction rule: work_move.induct) (auto intro: first_ok work_step_ok)

interpretation moves: step_machine work_move "pred_option work_ok"
  by unfold_locales (rule work_move_ok)

lemma insertInitialHandlingCycle_ok:
  assumes run: "insertInitialHandlingCycle env item a r = Inr (d, r')"
    and fresh: "r = no_rows\<lparr>row_item := Some i\<rparr>"
    and i: "item_row_valid i" "item_id i = k" "same_key item i" "item_status i = Open" "item_status item = Open"
  shows "item_ok k r'" "work_move (work_in r) (work_in r')" "row_item r' = Some i"
proof -
  let ?at = "case an_openedAt a of Some t \<Rightarrow> t | None \<Rightarrow> item_createdAt item"
  from run obtain r1 r2 r3 where step:
    "createInitialHandlingCycle (initial_input item a ?at) = Inr d"
    "insert_cycle (dec_cycle d) r = Inr ((), r1)"
    "insert_chosen_target env (dec_cycle d) ?at (an_responseTarget a) r1 = Inr ((), r2)"
    "insert_head (dec_head d) r2 = Inr ((), r3)"
    "for_each insert_transition (dec_transitions d) r3 = Inr ((), r')"
    by (auto simp: insertInitialHandlingCycle_def Let_def seq_ok decide_ok ret_ok)
  obtain ts ms where t: "r2 = r1\<lparr>row_targets := row_targets r1 @ ts, row_reminders := row_reminders r1 @ ms\<rparr>"
    "cycle_targets (dec_cycle d) ts ms"
    using step(3) by (rule insert_chosen_target_ok)
  have status: "in_status (initial_input item a ?at) = Open" using i(5) by (simp add: initial_input_def)
  have r': "r' = no_rows\<lparr>row_item := Some i, row_cycles := [dec_cycle d], row_targets := ts, row_reminders := ms,
      row_head := Some (dec_head d), row_log := dec_transitions d\<rparr>"
    using step(2,4) t(1) insert_transitions_ok[OF step(5)] fresh
    by (auto simp: insert_cycle_ok insert_head_ok no_rows_def)
  then have w: "work_of (dec_head d) r' = first_work d ts ms"
    by (simp add: work_of_def first_work_def history_of_def no_rows_def)
  have head: "linked i (dec_head d)" "head_status (dec_head d) = Open"
    using step(1) i(3,5)
    by (auto elim!: createInitialHandlingCycle_okE simp: linked_def same_key_def initial_input_def
        scope_of_def cycle_scope.defs handling_head.defs)
  have "core_ok k r'"
    using i(1,2) head(1) w r' first_ok[OF step(1) status t(2)] by (simp add: core_ok_def no_rows_def)
  then show "item_ok k r'" using head(2) i(4) r' by (simp add: item_ok_def mirrored_def)
  show "work_move (work_in r) (work_in r')"
    using work_begins[OF step(1) status t(2)] w r' fresh by (simp add: work_in_def no_rows_def)
  show "row_item r' = Some i" using r' by simp
qed

end
