(* ===== verification/InboxMachine.thy ===== *)
theory InboxMachine
  imports InboxSources InboxPasses
begin

text \<open>
  The Inbox as one machine. A state is the database of \<open>InboxStore\<close>; a step is one committed
  transaction of the command store (\<open>perform\<close>), the arrival of an event in the outbox, or a change of
  the response-target policies. Any order of commands is a run, so what holds in every run holds
  under every interleaving of workers and people, the transactions being serialised by their row
  locks.

  \<open>db_ok\<close> is the invariant of the database and \<open>implements\<close> the refinement: a transaction that
  commits keeps the invariant and moves the work of every item along the machine of \<open>InboxWork\<close>.
\<close>

section \<open>The invariant\<close>

definition source_key :: "inbox_item \<Rightarrow> string \<times> source_type \<times> string" where
  "source_key i = (item_organizationId i, item_sourceType i, item_sourceId i)"

definition one_item_per_source :: "inbox_db \<Rightarrow> bool" where
  "one_item_per_source db =
     (\<forall>j k a b. row_item (db_rows db j) = Some a \<longrightarrow> row_item (db_rows db k) = Some b
        \<longrightarrow> source_key a = source_key b \<longrightarrow> j = k)"

definition items_listed :: "inbox_db \<Rightarrow> bool" where
  "items_listed db =
     (distinct (db_items db) \<and> (\<forall>k. (k \<in> set (db_items db)) = (row_item (db_rows db k) \<noteq> None)))"

definition receipts_of_events :: "inbox_db \<Rightarrow> bool" where
  "receipts_of_events db = (fst ` dom (db_receipts db) \<subseteq> dom (db_events db))"

definition db_ok :: "inbox_db \<Rightarrow> bool" where
  "db_ok db =
     ((\<forall>k. item_ok k (db_rows db k)) \<and> items_listed db \<and> one_item_per_source db \<and> receipts_of_events db)"

text \<open>Work moves along the machine, and neither a receipt nor a stored event is ever taken back.\<close>

definition db_evolves :: "inbox_db \<Rightarrow> inbox_db \<Rightarrow> bool" where
  "db_evolves db db' =
     ((\<forall>k. work_move\<^sup>*\<^sup>* (work_in (db_rows db k)) (work_in (db_rows db' k)))
      \<and> dom (db_receipts db) \<subseteq> dom (db_receipts db') \<and> db_events db \<subseteq>\<^sub>m db_events db')"

lemma db_evolves_refl [simp]: "db_evolves db db"
  by (simp add: db_evolves_def)

lemma db_evolves_trans: "db_evolves a b \<Longrightarrow> db_evolves b c \<Longrightarrow> db_evolves a c"
  unfolding db_evolves_def by (blast intro: rtranclp_trans map_le_trans)

lemma same_key_source: "same_key a b \<Longrightarrow> source_key a = source_key b"
  by (simp add: same_key_def source_key_def)

section \<open>Transactions that implement the machine\<close>

definition implements :: "'a inbox_txn \<Rightarrow> bool" where
  "implements t = (\<forall>db x db'. db_ok db \<longrightarrow> t db = Inr (x, db') \<longrightarrow> db_ok db' \<and> db_evolves db db')"

named_theorems implements_rules

lemma implementsI:
  "(\<And>db x db'. db_ok db \<Longrightarrow> t db = Inr (x, db') \<Longrightarrow> db_ok db' \<and> db_evolves db db') \<Longrightarrow> implements t"
  by (simp add: implements_def)

lemma implementsD: "implements t \<Longrightarrow> db_ok db \<Longrightarrow> t db = Inr (x, db') \<Longrightarrow> db_ok db' \<and> db_evolves db db'"
  by (simp add: implements_def)

lemma implements_seq [implements_rules]:
  assumes "implements t" "\<And>x. implements (f x)"
  shows "implements (seq t f)"
proof (rule implementsI)
  fix db x db' assume db: "db_ok db" "seq t f db = Inr (x, db')"
  then obtain y u where u: "t db = Inr (y, u)" "f y u = Inr (x, db')" by (auto simp: seq_ok)
  from implementsD[OF assms(1) db(1) u(1)] have "db_ok u" "db_evolves db u" by simp_all
  with implementsD[OF assms(2) _ u(2)] show "db_ok db' \<and> db_evolves db db'"
    by (blast intro: db_evolves_trans)
qed

lemma implements_pure [implements_rules]:
  "implements (ret x)" "implements (refuse e)" "implements (require b e)" "implements (inspect f)"
  "implements (present v e)" "implements (decide g res)"
  by (simp_all add: implements_def txn_simps)

lemma implements_if [implements_rules]:
  "(b \<Longrightarrow> implements t) \<Longrightarrow> (\<not> b \<Longrightarrow> implements u) \<Longrightarrow> implements (if b then t else u)"
  by simp

lemma implements_option [implements_rules]:
  "(v = None \<Longrightarrow> implements t) \<Longrightarrow> (\<And>x. v = Some x \<Longrightarrow> implements (f x))
     \<Longrightarrow> implements (case v of None \<Rightarrow> t | Some x \<Rightarrow> f x)"
  by (cases v) simp_all

lemma implements_list [implements_rules]:
  "(xs = [] \<Longrightarrow> implements t) \<Longrightarrow> (\<And>y ys. xs = y # ys \<Longrightarrow> implements (f y ys))
     \<Longrightarrow> implements (case xs of [] \<Rightarrow> t | y # ys \<Rightarrow> f y ys)"
  by (cases xs) simp_all

lemma implements_pair [implements_rules]: "(\<And>a b. implements (f a b)) \<Longrightarrow> implements (case p of (a, b) \<Rightarrow> f a b)"
  by (cases p) simp

text \<open>One item changes, and stays the item it is.\<close>

lemma db_ok_item:
  assumes "db_ok db" "item_ok k r" "same_item (db_rows db k) r"
  shows "db_ok (db\<lparr>db_rows := (db_rows db)(k := r)\<rparr>)"
proof -
  from assms(3) have item: "(row_item r = None) = (row_item (db_rows db k) = None)"
    "\<And>a. row_item r = Some a \<Longrightarrow> \<exists>b. row_item (db_rows db k) = Some b \<and> source_key a = source_key b"
    by (auto simp: same_item_def option_rel_Some1 same_key_source elim: option.rel_cases)
  then have "\<exists>b. row_item (db_rows db j) = Some b \<and> source_key a = source_key b"
    if "row_item (((db_rows db)(k := r)) j) = Some a" for a j
    using that by (cases "j = k") auto
  note before = this
  have "one_item_per_source (db\<lparr>db_rows := (db_rows db)(k := r)\<rparr>)"
    unfolding one_item_per_source_def
  proof (intro allI impI)
    fix j l a b
    assume "row_item (db_rows (db\<lparr>db_rows := (db_rows db)(k := r)\<rparr>) j) = Some a"
      "row_item (db_rows (db\<lparr>db_rows := (db_rows db)(k := r)\<rparr>) l) = Some b"
    then obtain a' b' where "row_item (db_rows db j) = Some a'" "source_key a = source_key a'"
      "row_item (db_rows db l) = Some b'" "source_key b = source_key b'"
      using before[of j a] before[of l b] by auto
    moreover assume "source_key a = source_key b"
    ultimately show "j = l"
      using assms(1) by (auto simp: db_ok_def one_item_per_source_def)
  qed
  with assms(1,2) item(1) show ?thesis
    by (auto simp: db_ok_def items_listed_def receipts_of_events_def)
qed

lemma implements_on_item [implements_rules]:
  assumes "refines k t"
  shows "implements (on_item k t)"
proof (rule implementsI)
  fix db x db' assume db: "db_ok db" and run: "on_item k t db = Inr (x, db')"
  from run obtain r where r: "t (db_rows db k) = Inr (x, r)" "db' = db\<lparr>db_rows := (db_rows db)(k := r)\<rparr>"
    by (auto simp: on_item_def split: sum.splits)
  from db have "item_ok k (db_rows db k)" by (simp add: db_ok_def)
  from refinesD[OF assms this r(1)] have "item_ok k r" and e: "evolves (db_rows db k) r" by simp_all
  moreover from e have "same_item (db_rows db k) r" by (simp add: evolves_def)
  ultimately have "db_ok db'" using db db_ok_item r(2) by simp
  moreover have "db_evolves db db'"
    using evolves_moves[OF e] r(2) by (simp add: db_evolves_def)
  ultimately show "db_ok db' \<and> db_evolves db db'" ..
qed

lemma implements_modify:
  assumes "\<And>db. db_rows (f db) = db_rows db" "\<And>db. db_items (f db) = db_items db"
    "\<And>db. db_events (f db) = db_events db"
    "\<And>db. dom (db_receipts (f db)) = dom (db_receipts db)"
  shows "implements (modify f)"
proof (rule implementsI)
  fix db x db' assume db: "db_ok db" "modify f db = Inr (x, db')"
  then have db': "db' = f db" by (simp add: txn_simps)
  with db(1) assms have "db_ok db'"
    by (simp add: db_ok_def items_listed_def one_item_per_source_def receipts_of_events_def)
  moreover have "db_evolves db db'" using assms db' by (simp add: db_evolves_def)
  ultimately show "db_ok db' \<and> db_evolves db db'" ..
qed

lemma implements_org_fact [implements_rules]: "implements (insert_org_fact f)"
  unfolding insert_org_fact_def by (rule implements_modify) simp_all

section \<open>Receipts\<close>

lemma receipt_written:
  assumes "db_ok db" "db_events db e \<noteq> None"
  shows "db_ok (db\<lparr>db_receipts := (db_receipts db)((e, c) \<mapsto> s)\<rparr>)
    \<and> db_evolves db (db\<lparr>db_receipts := (db_receipts db)((e, c) \<mapsto> s)\<rparr>)"
proof -
  have "receipts_of_events (db\<lparr>db_receipts := (db_receipts db)((e, c) \<mapsto> s)\<rparr>)"
    using assms by (auto simp: db_ok_def receipts_of_events_def)
  with assms(1) show ?thesis
    by (auto simp: db_ok_def items_listed_def one_item_per_source_def db_evolves_def)
qed

lemma insertReceiptRow_ok:
  "insertReceiptRow e c s db = Inr (b, db') \<longleftrightarrow>
     (if db_receipts db (e, c) \<noteq> None then \<not> b \<and> db' = db
      else b \<and> db_events db e \<noteq> None \<and> db' = db\<lparr>db_receipts := (db_receipts db)((e, c) \<mapsto> s)\<rparr>)"
  by (auto simp: insertReceiptRow_def txn_simps)

lemma implements_insertReceiptRow [implements_rules]: "implements (insertReceiptRow e c s)"
  by (rule implementsI) (auto simp: insertReceiptRow_ok receipt_written split: if_splits)

lemma implements_receipts [implements_rules]:
  "implements (reserveReceiptRow e c)" "implements (recordReceipt e c s)" "implements (restateReceiptRow e c s)"
  unfolding reserveReceiptRow_def recordReceipt_def restateReceiptRow_def
  by (intro implements_rules implements_modify; auto)+

lemma implements_settleSuperseded [implements_rules]: "implements (settleSupersededDeliveryRow e c org)"
  unfolding settleSupersededDeliveryRow_def
  by (rule implementsI) (auto simp: txn_simps receipt_written)

section \<open>Commands on one item\<close>

lemma refines_release_row [refines_rules]: "refines k (release_row input cycle)"
  unfolding release_row_def
  by (intro refines_rules) (simp add: keeps_item_def same_key_def)

lemma refines_close_new [refines_rules]:
  "refines k (seq (lockReviewRowsForObservation item ob)
     (\<lambda>(row, head). closeReviewCycleOnGoogleReply item row head ob trigger recorded))"
proof (rule refinesI)
  fix r x r' assume r: "item_ok k r" and run: "seq (lockReviewRowsForObservation item ob)
     (\<lambda>(row, head). closeReviewCycleOnGoogleReply item row head ob trigger recorded) r = Inr (x, r')"
  from run obtain i h r0 where s: "lockReviewRowsForObservation item ob r = Inr ((i, h), r0)"
    "closeReviewCycleOnGoogleReply item i h ob trigger recorded r0 = Inr (x, r')"
    by (auto simp: seq_ok)
  note l = lockReviewRowsForObservation_ok[OF r s(1)]
  from closeReviewCycleOnGoogleReply_ok[OF l(1,4) s(2)] l(2)
  show "item_ok k r' \<and> evolves r r'" by (blast intro: evolves_trans)
qed

section \<open>Creating an item\<close>

lemma find_by_source_None:
  assumes "db_ok db" "find_by_source item db = None" "row_item (db_rows db j) = Some a"
  shows "source_key a \<noteq> source_key item"
proof
  assume "source_key a = source_key item"
  moreover from assms(1,3) have "j \<in> set (db_items db)" by (simp add: db_ok_def items_listed_def)
  moreover have "\<forall>k \<in> set (db_items db). chosen (row_of_item item) (row_item (db_rows db k)) = None"
  proof (cases "List.find (\<lambda>k. chosen (row_of_item item) (row_item (db_rows db k)) \<noteq> None) (db_items db)")
    case None
    then show ?thesis by (auto simp: find_None_iff chosen_None)
  next
    case (Some k)
    then have "chosen (row_of_item item) (row_item (db_rows db k)) \<noteq> None" by (auto simp: find_Some_iff)
    with assms(2) Some show ?thesis by (auto simp: find_by_source_def)
  qed
  ultimately show False
    using assms(3) by (auto simp: chosen_None row_of_item_def source_key_def)
qed

lemma fresh_item:
  assumes db: "db_ok db" and row: "row_item (db_rows db k) = None"
    and r: "item_ok k r" "row_item r = Some i" and new: "\<And>j a. row_item (db_rows db j) = Some a \<Longrightarrow> source_key a \<noteq> source_key i"
  shows "db_ok (db\<lparr>db_items := db_items db @ [k], db_rows := (db_rows db)(k := r)\<rparr>)"
proof -
  have "k \<notin> set (db_items db)" using db row by (simp add: db_ok_def items_listed_def)
  moreover have "one_item_per_source (db\<lparr>db_items := db_items db @ [k], db_rows := (db_rows db)(k := r)\<rparr>)"
    unfolding one_item_per_source_def
  proof (intro allI impI)
    fix j l a b
    assume "row_item (db_rows (db\<lparr>db_items := db_items db @ [k], db_rows := (db_rows db)(k := r)\<rparr>) j) = Some a"
      "row_item (db_rows (db\<lparr>db_items := db_items db @ [k], db_rows := (db_rows db)(k := r)\<rparr>) l) = Some b"
      "source_key a = source_key b"
    then show "j = l"
      using db r(2) new[of j a] new[of l b] by (auto simp: db_ok_def one_item_per_source_def split: if_splits)
  qed
  ultimately show ?thesis
    using db r by (auto simp: db_ok_def items_listed_def receipts_of_events_def)
qed

lemma no_work_before: "db_ok db \<Longrightarrow> row_item (db_rows db k) = None \<Longrightarrow> work_in (db_rows db k) = None"
proof -
  assume "db_ok db" and row: "row_item (db_rows db k) = None"
  then have "item_ok k (db_rows db k)" by (simp add: db_ok_def)
  with row show ?thesis by (cases "row_head (db_rows db k)") (simp_all add: item_ok_def core_ok_def work_in_def)
qed

lemma implements_insertItemIdempotent [implements_rules]:
  assumes status: "item_status item = Open"
  shows "implements (insertItemIdempotent dbNow item anchor)"
proof (rule implementsI)
  fix db x db' assume db: "db_ok db" and run: "insertItemIdempotent dbNow item anchor db = Inr (x, db')"
  let ?k = "item_id item" and ?row = "inboxItemToInsertRow dbNow item"
  let ?r = "no_rows\<lparr>row_item := Some ?row\<rparr>"
  let ?db = "db\<lparr>db_items := db_items db @ [?k], db_rows := (db_rows db)(?k := ?r)\<rparr>"
  show "db_ok db' \<and> db_evolves db db'"
  proof (cases "find_by_source item db")
    case (Some row)
    with run have "db' = db" by (auto simp: insertItemIdempotent_def txn_simps)
    with db show ?thesis by simp
  next
    case None
    have key: "item_id ?row = ?k" "source_key ?row = source_key item" "item_status ?row = Open"
      using status by (simp_all add: inboxItemToInsertRow_def source_key_def)
    from run None key have valid: "item_row_valid ?row" and free: "row_item (db_rows db ?k) = None"
      and body: "(case anchor of None \<Rightarrow> db' = ?db
        | Some a \<Rightarrow> \<exists>d r. insertInitialHandlingCycle (db_policies db) (itemFromRow ?row)
              (normalizeCreationAnchor (itemFromRow ?row) a) ?r = Inr (d, r)
            \<and> db' = ?db\<lparr>db_rows := (db_rows ?db)(?k := r)\<rparr>)"
      by (auto simp: insertItemIdempotent_def insert_item_row_def on_item_def seq_ok require_ok inspect_ok
          modify_ok ret_ok Let_def split: option.splits sum.splits)
    have new: "row_item (db_rows db j) = Some a \<Longrightarrow> source_key a \<noteq> source_key ?row" for j a
      using find_by_source_None[OF db None] key(2) by simp
    note none = no_work_before[OF db free]
    have "\<exists>r. item_ok ?k r \<and> row_item r = Some ?row \<and> work_move\<^sup>*\<^sup>* None (work_in r)
        \<and> db' = db\<lparr>db_items := db_items db @ [?k], db_rows := (db_rows db)(?k := r)\<rparr>"
    proof (cases anchor)
      case None
      have "item_ok ?k ?r" using valid key by (simp add: item_ok_def core_ok_def mirrored_def no_rows_def)
      moreover have "work_in ?r = None" by (simp add: work_in_def no_rows_def)
      ultimately show ?thesis using body None by (intro exI[of _ ?r]) simp
    next
      case (Some a)
      with body obtain d r where i: "insertInitialHandlingCycle (db_policies db) (itemFromRow ?row)
          (normalizeCreationAnchor (itemFromRow ?row) a) ?r = Inr (d, r)"
        and db': "db' = ?db\<lparr>db_rows := (db_rows ?db)(?k := r)\<rparr>"
        by auto
      have same: "same_key (itemFromRow ?row) ?row" "item_status (itemFromRow ?row) = Open"
        using key(3) by (simp_all add: itemFromRow_def same_key_def)
      note first = insertInitialHandlingCycle_ok[OF i refl valid key(1) same(1) key(3) same(2)]
      have "work_in ?r = None" by (simp add: work_in_def no_rows_def)
      with first db' show ?thesis by (intro exI[of _ r]) auto
    qed
    then obtain r where r: "item_ok ?k r" "row_item r = Some ?row" "work_move\<^sup>*\<^sup>* None (work_in r)"
      "db' = db\<lparr>db_items := db_items db @ [?k], db_rows := (db_rows db)(?k := r)\<rparr>" by blast
    have "db_ok db'" using fresh_item[OF db free r(1,2) new] r(4) by simp
    moreover have "db_evolves db db'" using none r(3,4) by (simp add: db_evolves_def)
    ultimately show ?thesis ..
  qed
qed

lemma implements_createItem:
  "item_status item = Open \<Longrightarrow> implements (createItem dbNow item event anchor)"
  unfolding createItem_def by (intro implements_rules refines_rules)

lemma implements_createReviewItemAnsweredOnGoogle:
  "item_status item = Open \<Longrightarrow> implements (createReviewItemAnsweredOnGoogle dbNow item revision ob now)"
  unfolding createReviewItemAnsweredOnGoogle_def by (intro implements_rules refines_rules)

section \<open>Deliveries\<close>

lemma implements_applySourceCreatedOnce:
  "item_status (sc_item c) = Open \<Longrightarrow> implements (applySourceCreatedOnce dbNow c)"
  unfolding applySourceCreatedOnce_def Let_def by (intro implements_rules refines_rules)

lemma implements_applyReviewProjectionOnce:
  "item_status (pc_item c) = Open \<Longrightarrow> implements (applyReviewProjectionOnce dbNow c)"
  unfolding applyReviewProjectionOnce_def Let_def by (intro implements_rules refines_rules)

lemma implements_answer [implements_rules]:
  "implements t \<Longrightarrow> implements u \<Longrightarrow> implements v
     \<Longrightarrow> implements (case a of Withdrawal_applied \<Rightarrow> t | Withdrawal_no_head \<Rightarrow> u | Withdrawal_other_revision \<Rightarrow> v)"
  by (cases a) simp_all

lemma implements_applySourceWithdrawnOnce:
  "item_sourceType (sw_item c) = Src_feedback \<Longrightarrow> implements (applySourceWithdrawnOnce c)"
  unfolding applySourceWithdrawnOnce_def by (intro implements_rules refines_withdraw_source)

lemma implements_applyReviewSourceTransitionedOnce:
  "st_closeReason c = None \<or> st_closeReason c = Some CR_source_ineligible
     \<Longrightarrow> implements (applyReviewSourceTransitionedOnce c)"
  unfolding applyReviewSourceTransitionedOnce_def by (intro implements_rules refines_end_review_source)

lemma implements_applyReplyObservedOnce: "implements (applyReplyObservedOnce c)"
  unfolding applyReplyObservedOnce_def by (intro implements_rules refines_rules)

section \<open>Several items\<close>

lemma implements_command_authority [implements_rules]: "implements (assertCommandAuthority authorize org now reqs)"
  unfolding assertCommandAuthority_def
  by (cases "authorize org now reqs") (auto intro: implements_rules)

lemma implements_cases [implements_rules]:
  "implements t \<Longrightarrow> (\<And>o' p. implements (f o' p))
     \<Longrightarrow> implements (case a of Bulk_unchanged \<Rightarrow> t | Bulk_moved o' p \<Rightarrow> f o' p)"
  "implements t \<Longrightarrow> (\<And>why. implements (g why))
     \<Longrightarrow> implements (case d of Allowed \<Rightarrow> t | Denied why \<Rightarrow> g why)"
  by (cases a; simp) (cases d; simp)

lemma implements_assign_items [implements_rules]: "implements (assign_items locked c items)"
proof (induction items)
  case (Cons item items)
  show ?case
  proof (cases "row_item (db_rows locked (item_id item))")
    case (Some i)
    then show ?thesis
      by (simp add: Let_def) (intro implements_rules refines_rules Cons.IH)
  qed (simp add: Let_def implements_rules)
qed (simp add: implements_rules)

lemma implements_bulkAssign: "implements (bulkAssign authorize c)"
  unfolding bulkAssign_def Let_def by (intro implements_rules)

lemma implements_release_rows [implements_rules]: "implements (release_rows input locked items)"
  by (induction items) (auto intro!: implements_rules refines_rules)

lemma implements_releaseAssignmentRows [implements_rules]: "implements (releaseAssignmentRows input candidates)"
  unfolding releaseAssignmentRows_def Let_def by (intro implements_rules)

lemma implements_denied_keys [implements_rules]: "implements (denied_keys authorize input items)"
proof (induction items)
  case (Cons i items)
  then show ?case by (simp only: denied_keys.simps) (intro implements_rules Cons.IH)
qed (simp add: implements_rules)

lemma implements_releases:
  "implements (releaseAssignmentsForUser input)" "implements (releaseIneligibleAssignmentsForUser authorize input)"
  unfolding releaseAssignmentsForUser_def releaseIneligibleAssignmentsForUser_def by (intro implements_rules)+

lemma implements_settle_slots [implements_rules]: "implements (settle_slots now slots)"
  by (induction slots) (auto intro!: implements_rules refines_rules)

lemma implements_releaseDueReminders: "implements (releaseDueReminders now limit)"
  unfolding releaseDueReminders_def by (intro implements_rules)

text \<open>
  A bulk reopen works on the rows it locked first. An item that came twice would be reopened from a
  row that has moved on; the completed fact, which names every item once, rules that out.
\<close>

lemma reopened_cycle_id:
  "reopenLockedBulkItem env authorize item event eventId i h reason explanation bulk target now r = Inr (x, r')
     \<Longrightarrow> rp_inboxItemId x = item_id item"
  unfolding reopenLockedBulkItem_def Let_def by (auto simp: seq_ok ret_ok split: prod.splits)

lemma reopen_entries_ok:
  assumes "db_ok db" "reopen_entries authorize locked c bulk now bs db = Inr ((results, reopened), db')"
    "distinct (map rp_inboxItemId reopened)"
    "\<And>n b. (n, b) \<in> set bs \<Longrightarrow> item_id (be_item b) \<in> rp_inboxItemId ` set reopened
       \<Longrightarrow> db_rows db (item_id (be_item b)) = db_rows locked (item_id (be_item b))"
  shows "db_ok db' \<and> db_evolves db db'"
  using assms
proof (induction bs arbitrary: db results reopened)
  case Nil
  then show ?case by (simp add: ret_ok)
next
  case (Cons nb bs)
  obtain n b where nb: "nb = (n, b)" by (cases nb)
  let ?item = "be_item b"
  let ?k = "item_id ?item"
  let ?row = "chosen (\<lambda>i. item_organizationId i = item_organizationId ?item) (row_item (db_rows locked ?k))"
  let ?head = "chosen (\<lambda>h. organizationId h = item_organizationId ?item) (row_head (db_rows locked ?k))"
  define exact where "exact = (case (?row, ?head) of
      (Some i, Some h) \<Rightarrow> if matchesLockedBulkReopenState ?item i h then Some (i, h) else None | _ \<Rightarrow> None)"
  note run = Cons.prems(2)[unfolded nb reopen_entries.simps Let_def, folded exact_def]
  show ?case
  proof (cases exact)
    case None
    with run obtain rs where "reopen_entries authorize locked c bulk now bs db = Inr ((rs, reopened), db')"
      by (auto simp: seq_ok ret_ok)
    show ?thesis
    proof (rule Cons.IH[OF Cons.prems(1) \<open>reopen_entries _ _ _ _ _ bs db = _\<close> Cons.prems(3)])
      fix m b' assume "(m, b') \<in> set bs" "item_id (be_item b') \<in> rp_inboxItemId ` set reopened"
      then show "db_rows db (item_id (be_item b')) = db_rows locked (item_id (be_item b'))"
        by (intro Cons.prems(4)[of m b']) simp_all
    qed
  next
    case (Some ih)
    obtain i h where ih: "ih = (i, h)" by (cases ih)
    from run Some ih obtain cycle db1 rs rest where s:
      "on_item ?k (reopenLockedBulkItem (db_policies locked) authorize ?item (be_event b) (be_eventId b) i h
         (br_reason c) (trimmed_explanation (br_explanation c)) bulk (br_responseTargets c ?k) now) db
         = Inr (cycle, db1)"
      "reopen_entries authorize locked c bulk now bs db1 = Inr ((rs, rest), db')" "reopened = cycle # rest"
      by (auto simp: seq_ok ret_ok)
    from s(1) obtain r where r:
      "reopenLockedBulkItem (db_policies locked) authorize ?item (be_event b) (be_eventId b) i h
         (br_reason c) (trimmed_explanation (br_explanation c)) bulk (br_responseTargets c ?k) now (db_rows db ?k)
         = Inr (cycle, r)" "db1 = db\<lparr>db_rows := (db_rows db)(?k := r)\<rparr>"
      by (auto simp: on_item_def split: sum.splits)
    note id = reopened_cycle_id[OF r(1)]
    have same: "db_rows db ?k = db_rows locked ?k"
      using Cons.prems(4)[of n b] nb s(3) id by simp
    have "row_head (db_rows db ?k) = Some h"
      using Some ih same by (auto simp: exact_def split: option.splits if_splits)
    moreover have ok: "item_ok ?k (db_rows db ?k)" using Cons.prems(1) by (simp add: db_ok_def)
    ultimately have one: "item_ok ?k r" "evolves (db_rows db ?k) r"
      using refines_reopenLockedBulkItem[OF _ _ r(1)] by simp_all
    then have "db_ok db1" using db_ok_item[OF Cons.prems(1)] r(2) by (simp add: evolves_def)
    moreover have "db_evolves db db1" using evolves_moves[OF one(2)] r(2) by (simp add: db_evolves_def)
    moreover have "db_ok db' \<and> db_evolves db1 db'"
    proof (rule Cons.IH[OF \<open>db_ok db1\<close> s(2)])
      show "distinct (map rp_inboxItemId rest)" using Cons.prems(3) s(3) by simp
      fix m b' assume b': "(m, b') \<in> set bs" "item_id (be_item b') \<in> rp_inboxItemId ` set rest"
      with Cons.prems(3) s(3) id have "item_id (be_item b') \<noteq> ?k" by auto
      with Cons.prems(4)[of m b'] b' s(3) r(2)
      show "db_rows db1 (item_id (be_item b')) = db_rows locked (item_id (be_item b'))" by simp
    qed
    ultimately show ?thesis by (blast intro: db_evolves_trans)
  qed
qed

lemma implements_reopen_entries [implements_rules]:
  assumes "\<And>results reopened. implements (f (results, reopened))"
    and "\<And>results reopened db x db'. f (results, reopened) db = Inr (x, db') \<Longrightarrow> distinct (map rp_inboxItemId reopened)"
  shows "implements (seq (inspect id) (\<lambda>locked. seq (reopen_entries authorize locked c bulk now bs) f))"
proof (rule implementsI)
  fix db x db' assume db: "db_ok db"
    and "seq (inspect id) (\<lambda>locked. seq (reopen_entries authorize locked c bulk now bs) f) db = Inr (x, db')"
  then obtain results reopened u where u: "reopen_entries authorize db c bulk now bs db = Inr ((results, reopened), u)"
    "f (results, reopened) u = Inr (x, db')"
    by (auto simp: seq_ok inspect_ok)
  from reopen_entries_ok[OF db u(1) assms(2)[OF u(2)]] have "db_ok u" "db_evolves db u" by simp_all
  with implementsD[OF assms(1) _ u(2)] show "db_ok db' \<and> db_evolves db db'"
    by (blast intro: db_evolves_trans)
qed

lemma implements_bulkUpdateStatus: "implements (bulkUpdateStatus authorize c)"
proof -
  have "implements (seq (inspect id) (\<lambda>locked. seq (reopen_entries authorize locked c bulk now bs)
      (\<lambda>(results, reopened). seq (if reopened = [] then ret ()
          else seq (require (assertBulkReopenCompleted bulk reopened) (Assertion ''bulk reopen completed''))
            (\<lambda>_. insert_org_fact (Bulk_reopen_completed org actor bulk (sort_key rp_inboxItemId reopened) now)))
        (\<lambda>_. ret (map snd (sort_key fst results))))))" for bulk now bs org actor
    by (rule implements_reopen_entries)
      (auto intro!: implements_rules simp: seq_ok require_ok assertBulkReopenCompleted_def split: if_splits)
  note loop = this
  show ?thesis
    unfolding bulkUpdateStatus_def Let_def by (intro implements_rules loop)
qed

section \<open>An archived property\<close>

lemma implements_archived:
  "implements (modify (\<lambda>db. db\<lparr>db_rows := (\<lambda>k. (db_rows db k)\<lparr>row_reminders :=
     map (\<lambda>m. if rm_organizationId m = org \<and> rm_propertyId m = property \<and> pending m
              then m\<lparr>cancelledAt := Some instant\<rparr> else m) (row_reminders (db_rows db k))\<rparr>)\<rparr>))"
  (is "implements (modify (\<lambda>db. db\<lparr>db_rows := (\<lambda>k. ?settle (db_rows db k))\<rparr>))")
proof (rule implementsI)
  let ?hit = "\<lambda>m. rm_organizationId m = org \<and> rm_propertyId m = property \<and> pending m"
  fix db x db' assume db: "db_ok db"
    and "modify (\<lambda>db. db\<lparr>db_rows := (\<lambda>k. ?settle (db_rows db k))\<rparr>) db = Inr (x, db')"
  then have db': "db' = db\<lparr>db_rows := (\<lambda>k. ?settle (db_rows db k))\<rparr>" by (simp add: txn_simps)
  have one: "item_ok k (?settle (db_rows db k)) \<and> evolves (db_rows db k) (?settle (db_rows db k))" for k
  proof -
    have ok: "item_ok k (db_rows db k)" using db by (simp add: db_ok_def)
    have "slots_settled (row_reminders (db_rows db k))
        (map (\<lambda>m. if ?hit m then m\<lparr>cancelledAt := Some instant\<rparr> else m) (row_reminders (db_rows db k)))"
      by (rule slots_settled_map) (use item_slot_valid[OF ok] slot_cancels in simp)
    with ok show ?thesis by (intro refines_settle) simp_all
  qed
  have "db_ok db'"
    using db one db' by (simp add: db_ok_def items_listed_def one_item_per_source_def receipts_of_events_def)
  moreover have "db_evolves db db'"
    using one evolves_moves db' by (simp add: db_evolves_def)
  ultimately show "db_ok db' \<and> db_evolves db db'" ..
qed

lemma implements_cancelArchived:
  "implements (cancelArchivedPropertyRemindersOnce active event consumer org property instant)"
  unfolding cancelArchivedPropertyRemindersOnce_def Let_def by (intro implements_rules implements_archived)

end
