(* ===== verification/InboxRepository.thy ===== *)
theory InboxRepository
  imports InboxMachine
begin

text \<open>
  The reads of the Inbox that its consumers and use cases decide on, and the one write that is not a
  command of the store: \<^verbatim>\<open>src/src/contexts/inbox/infrastructure/repositories/inbox.repository.ts\<close>. An
  active read joins the item with its head and shows the status of the head; \<open>findBySource\<close> reads
  the row alone. The lists, counts and pages of the repository are not modelled.
\<close>

section \<open>Reads\<close>

definition withDefaults :: "inbox_item \<Rightarrow> inbox_item" where
  "withDefaults row = (itemFromRow row)\<lparr>propertyName := None\<rparr>"

definition activeHandlingCycleJoin :: "inbox_item \<Rightarrow> handling_head \<Rightarrow> bool" where
  "activeHandlingCycleJoin i h =
     (inboxItemId h = item_id i \<and> organizationId h = item_organizationId i
      \<and> propertyId h = item_propertyId i \<and> sourceType h = item_sourceType i
      \<and> sourceId h = item_sourceId i)"

definition active_row :: "item_rows \<Rightarrow> inbox_item option" where
  "active_row r =
     (case (row_item r, row_head r) of
        (Some i, Some h) \<Rightarrow>
          if activeHandlingCycleJoin i h then Some (i\<lparr>item_status := head_status h\<rparr>) else None
      | _ \<Rightarrow> None)"

definition findById :: "string \<Rightarrow> string \<Rightarrow> inbox_db \<Rightarrow> inbox_item option" where
  "findById k org db =
     map_option withDefaults (chosen (\<lambda>i. item_organizationId i = org) (active_row (db_rows db k)))"

definition findByIds :: "string list \<Rightarrow> string \<Rightarrow> inbox_db \<Rightarrow> inbox_item list" where
  "findByIds ks org db = List.map_filter (\<lambda>k. findById k org db) (filter (\<lambda>k. k \<in> set ks) (db_items db))"

definition findBySource :: "source_type \<Rightarrow> string \<Rightarrow> string \<Rightarrow> inbox_db \<Rightarrow> inbox_item option" where
  "findBySource ty source org db =
     (case List.map_filter (\<lambda>k. chosen (\<lambda>i. item_sourceType i = ty \<and> item_sourceId i = source
              \<and> item_organizationId i = org) (row_item (db_rows db k))) (db_items db) of
        [] \<Rightarrow> None
      | i # _ \<Rightarrow> Some (withDefaults i))"

text \<open>The head of an item, as the cycle store finds it.\<close>

definition findSourceHead :: "string \<Rightarrow> string \<Rightarrow> inbox_db \<Rightarrow> handling_head option" where
  "findSourceHead k org db = chosen (\<lambda>h. organizationId h = org) (row_head (db_rows db k))"

definition findHead ::
  "string \<Rightarrow> string \<Rightarrow> inbox_db \<Rightarrow> (store_error, handling_head option) result" where
  "findHead k org db =
     (case findSourceHead k org db of
        None \<Rightarrow> ok None
      | Some h \<Rightarrow>
          if sourceType h \<noteq> Src_review
          then err (refused IE_invalid_input ''Stored Review Handling Cycle head is invalid'')
          else ok (Some h))"

section \<open>Milestones\<close>

definition stamped :: "date option \<Rightarrow> date option \<Rightarrow> date option" where
  "stamped new old = (case new of None \<Rightarrow> old | Some _ \<Rightarrow> new)"

definition stampReplyMilestones ::
  "string \<Rightarrow> string \<Rightarrow> date option \<Rightarrow> date option \<Rightarrow> date \<Rightarrow> inbox_item option inbox_txn" where
  "stampReplyMilestones k org submitted published instant =
     seq (on_item k (update_item (\<lambda>i. item_organizationId i = org)
           (\<lambda>i. i\<lparr>firstReplySubmittedAt := stamped submitted (firstReplySubmittedAt i),
                  firstReplyPublishedAt := stamped published (firstReplyPublishedAt i),
                  commandRevision := num_add (commandRevision i) (nint 1), item_updatedAt := instant\<rparr>)))
       (\<lambda>saved. ret (map_option withDefaults saved))"

lemma implements_stampReplyMilestones: "implements (stampReplyMilestones k org submitted published instant)"
  unfolding stampReplyMilestones_def
  by (intro implements_rules refines_rules) (simp add: keeps_item_def same_key_def)

section \<open>What a read tells\<close>

lemma withDefaults_key [simp]:
  "item_id (withDefaults i) = item_id i" "item_organizationId (withDefaults i) = item_organizationId i"
  "item_propertyId (withDefaults i) = item_propertyId i" "item_sourceType (withDefaults i) = item_sourceType i"
  "item_sourceId (withDefaults i) = item_sourceId i" "item_status (withDefaults i) = item_status i"
  "commandRevision (withDefaults i) = commandRevision i"
  by (simp_all add: withDefaults_def itemFromRow_def)

lemma in_map_filter: "x \<in> set (List.map_filter f xs) \<longleftrightarrow> (\<exists>k \<in> set xs. f k = Some x)"
  by (induction xs) (auto simp: List.map_filter_simps split: option.splits)

lemma findBySource_Some:
  assumes "findBySource ty source org db = Some i"
  shows "item_sourceType i = ty" "item_sourceId i = source" "item_organizationId i = org"
proof -
  let ?P = "\<lambda>i. item_sourceType i = ty \<and> item_sourceId i = source \<and> item_organizationId i = org"
  define found where "found = List.map_filter (\<lambda>k. chosen ?P (row_item (db_rows db k))) (db_items db)"
  have "(case found of [] \<Rightarrow> None | i # _ \<Rightarrow> Some (withDefaults i)) = Some i"
    using assms unfolding findBySource_def found_def .
  then obtain j js where j: "found = j # js" "i = withDefaults j"
    by (cases found) auto
  then have "j \<in> set found" by simp
  then obtain k where "chosen ?P (row_item (db_rows db k)) = Some j"
    unfolding found_def in_map_filter by blast
  then have "?P j" by (simp add: chosen_def split: option.splits if_splits)
  with j(2) show "item_sourceType i = ty" "item_sourceId i = source" "item_organizationId i = org" by simp_all
qed

text \<open>A stored item is found under its source.\<close>

lemma findBySource_stored:
  assumes "k \<in> set (db_items db)" "row_item (db_rows db k) = Some i"
  shows "findBySource (item_sourceType i) (item_sourceId i) (item_organizationId i) db \<noteq> None"
proof -
  have "i \<in> set (List.map_filter (\<lambda>k. chosen (\<lambda>j. item_sourceType j = item_sourceType i
      \<and> item_sourceId j = item_sourceId i \<and> item_organizationId j = item_organizationId i)
      (row_item (db_rows db k))) (db_items db))"
    unfolding in_map_filter using assms by (intro bexI[of _ k]) (simp_all add: chosen_def)
  then show ?thesis by (cases "List.map_filter (\<lambda>k. chosen (\<lambda>j. item_sourceType j = item_sourceType i
      \<and> item_sourceId j = item_sourceId i \<and> item_organizationId j = item_organizationId i)
      (row_item (db_rows db k))) (db_items db)") (simp_all add: findBySource_def)
qed

end
