(* ===== verification/InboxRuns.thy ===== *)
theory InboxRuns
  imports InboxRepository
begin

text \<open>
  The commands of the Inbox, their runs, and what holds in every run. \<open>perform\<close> is the transaction
  behind each method of the command store (\<^verbatim>\<open>inbox-command-store.ts\<close>), of the feedback-handling
  store, of the reminder release, of the exclusion pass and of the milestones of a reply; \<open>admissible\<close> says what its callers pass:
  an item is created open, only private feedback is withdrawn, and the end of a source closes for
  that reason.
\<close>

section \<open>Commands\<close>

datatype inbox_command =
    Create_item date inbox_item "created_fact option" "cycle_anchor option"
  | Create_answered_review date inbox_item number reply_observation date
  | Deliver_source_created date source_created_command
  | Deliver_review_projection date projection_command
  | Deliver_source_withdrawn source_withdrawn_command
  | Deliver_source_transition source_transition_command
  | Deliver_reply_observed reply_observed_command
  | Record_receipt string string receipt_status
  | Settle_superseded string string string
  | Reopen_item reopen_command
  | Reopen_items bulk_reopen_command
  | Assign_item inbox_item "string option" "assignment_event option" date
  | Assign_items bulk_assign_command
  | Escalate_item inbox_item string item_fact date
  | Resolve_escalation inbox_item string item_fact date
  | Set_priority inbox_item "inbox_priority option" string priority_fact date
  | Add_note date inbox_item inbox_note item_fact
  | Mark_handled feedback_command feedback_expectation
  | Correct_outcome feedback_command correction_expectation
  | Release_member release_input
  | Release_ineligible release_input
  | Release_due_reminders date number
  | Release_reminder string slot_key date
  | Cancel_archived "bool option" string string string string date
  | Exclude_cycle string exclusion_candidate date
  | Stamp_milestones string string "date option" "date option" date

definition forget :: "'a inbox_txn \<Rightarrow> unit inbox_txn" where
  "forget t = seq t (\<lambda>_. ret ())"

definition perform :: "authority \<Rightarrow> inbox_command \<Rightarrow> unit inbox_txn" where
  "perform authorize c =
     (case c of
        Create_item dbNow item event anchor \<Rightarrow> forget (createItem dbNow item event anchor)
      | Create_answered_review dbNow item revision ob now \<Rightarrow>
          forget (createReviewItemAnsweredOnGoogle dbNow item revision ob now)
      | Deliver_source_created dbNow s \<Rightarrow> forget (applySourceCreatedOnce dbNow s)
      | Deliver_review_projection dbNow p \<Rightarrow> forget (applyReviewProjectionOnce dbNow p)
      | Deliver_source_withdrawn w \<Rightarrow> forget (applySourceWithdrawnOnce w)
      | Deliver_source_transition s \<Rightarrow> applyReviewSourceTransitionedOnce s
      | Deliver_reply_observed ob \<Rightarrow> applyReplyObservedOnce ob
      | Record_receipt event consumer status \<Rightarrow> recordReceipt event consumer status
      | Settle_superseded event consumer org \<Rightarrow> settleSupersededDeliveryRow event consumer org
      | Reopen_item r \<Rightarrow> seq (inspect db_policies)
          (\<lambda>env. forget (on_item (item_id (rc_item r)) (reopenReviewCycle env authorize r)))
      | Reopen_items b \<Rightarrow> forget (bulkUpdateStatus authorize b)
      | Assign_item item assignee event stamp \<Rightarrow>
          forget (on_item (item_id item) (assign authorize item assignee event stamp))
      | Assign_items b \<Rightarrow> forget (bulkAssign authorize b)
      | Escalate_item item user event stamp \<Rightarrow>
          forget (on_item (item_id item) (escalate authorize item user event stamp))
      | Resolve_escalation item user event stamp \<Rightarrow>
          forget (on_item (item_id item) (resolveEscalation authorize item user event stamp))
      | Set_priority item priority user event stamp \<Rightarrow>
          forget (on_item (item_id item) (setPriority authorize item priority user event stamp))
      | Add_note dbNow item note event \<Rightarrow>
          forget (on_item (item_id item) (addNote authorize dbNow item note event))
      | Mark_handled f e \<Rightarrow> forget (on_item (item_id (fc_item f)) (markHandled authorize f e))
      | Correct_outcome f e \<Rightarrow> forget (on_item (item_id (fc_item f)) (correctOutcome authorize f e))
      | Release_member input \<Rightarrow> forget (releaseAssignmentsForUser input)
      | Release_ineligible input \<Rightarrow> forget (releaseIneligibleAssignmentsForUser authorize input)
      | Release_due_reminders now limit \<Rightarrow> forget (releaseDueReminders now limit)
      | Release_reminder item key now \<Rightarrow> forget (on_item item (releaseReminderSlot item key now))
      | Cancel_archived active event consumer org property instant \<Rightarrow>
          forget (cancelArchivedPropertyRemindersOnce active event consumer org property instant)
      | Exclude_cycle item x instant \<Rightarrow> forget (on_item item (excludeOne x instant))
      | Stamp_milestones item org submitted published instant \<Rightarrow>
          forget (stampReplyMilestones item org submitted published instant))"

definition admissible :: "inbox_command \<Rightarrow> bool" where
  "admissible c =
     (case c of
        Create_item _ item _ _ \<Rightarrow> item_status item = Open
      | Create_answered_review _ item _ _ _ \<Rightarrow> item_status item = Open
      | Deliver_source_created _ s \<Rightarrow> item_status (sc_item s) = Open
      | Deliver_review_projection _ p \<Rightarrow> item_status (pc_item p) = Open
      | Deliver_source_withdrawn w \<Rightarrow> item_sourceType (sw_item w) = Src_feedback
      | Deliver_source_transition s \<Rightarrow> st_closeReason s \<in> {None, Some CR_source_ineligible}
      | _ \<Rightarrow> True)"

lemmas store_implements =
  implements_createItem implements_createReviewItemAnsweredOnGoogle implements_applySourceCreatedOnce
  implements_applyReviewProjectionOnce implements_applySourceWithdrawnOnce
  implements_applyReviewSourceTransitionedOnce implements_applyReplyObservedOnce implements_bulkUpdateStatus
  implements_stampReplyMilestones implements_bulkAssign implements_releases implements_releaseDueReminders implements_cancelArchived

lemma implements_forget: "implements t \<Longrightarrow> implements (forget t)"
  unfolding forget_def by (intro implements_rules)

lemma implements_perform: "admissible c \<Longrightarrow> implements (perform authorize c)"
  by (cases c)
    (auto simp: perform_def admissible_def intro!: implements_forget implements_rules store_implements refines_rules)

section \<open>Runs\<close>

definition empty_inbox :: "target_policies \<Rightarrow> inbox_db" where
  "empty_inbox ps =
     \<lparr>db_rows = (\<lambda>_. no_rows), db_items = [], db_receipts = (\<lambda>_. None), db_events = (\<lambda>_. None),
      db_facts = [], db_policies = ps\<rparr>"

inductive inbox_step :: "inbox_db \<Rightarrow> inbox_db \<Rightarrow> bool" where
  commits: "admissible c \<Longrightarrow> perform authorize c db = Inr ((), db') \<Longrightarrow> inbox_step db db'"
| event_stored: "db_events db e = None \<Longrightarrow> inbox_step db (db\<lparr>db_events := (db_events db)(e \<mapsto> org)\<rparr>)"
| policies_set: "inbox_step db (db\<lparr>db_policies := ps\<rparr>)"

abbreviation inbox_run :: "inbox_db \<Rightarrow> inbox_db \<Rightarrow> bool" where
  "inbox_run \<equiv> inbox_step\<^sup>*\<^sup>*"

lemma empty_inbox_ok: "db_ok (empty_inbox ps)"
  by (simp add: db_ok_def empty_inbox_def items_listed_def one_item_per_source_def receipts_of_events_def
      item_ok_def core_ok_def mirrored_def no_rows_def)

lemma inbox_step_ok: "inbox_step db db' \<Longrightarrow> db_ok db \<Longrightarrow> db_ok db' \<and> db_evolves db db'"
proof (induction rule: inbox_step.induct)
  case (commits c authorize db db')
  from implementsD[OF implements_perform[OF commits.hyps(1)] commits.prems commits.hyps(2)] show ?case .
next
  case (event_stored db e org)
  then have "receipts_of_events (db\<lparr>db_events := (db_events db)(e \<mapsto> org)\<rparr>)"
    by (simp add: db_ok_def receipts_of_events_def) blast
  with event_stored show ?case
    by (auto simp: db_ok_def items_listed_def one_item_per_source_def db_evolves_def map_le_def)
next
  case (policies_set db ps)
  then show ?case
    by (simp add: db_ok_def items_listed_def one_item_per_source_def receipts_of_events_def db_evolves_def)
qed

interpretation inbox: evolving_machine inbox_step db_ok db_evolves
  by unfold_locales (auto dest: inbox_step_ok intro: db_evolves_trans)

lemma inbox_run_ok: "inbox_run db db' \<Longrightarrow> db_ok db \<Longrightarrow> db_ok db' \<and> db_evolves db db'"
  using inbox.runs_inv inbox.runs_evolve by blast

lemma inbox_run_item: "inbox_run (empty_inbox ps) db \<Longrightarrow> item_ok k (db_rows db k)"
  using inbox_run_ok[OF _ empty_inbox_ok] by (simp add: db_ok_def)

lemma inbox_run_work:
  assumes "inbox_run (empty_inbox ps) db" "row_head (db_rows db k) = Some h"
  shows "work_ok (work_of h (db_rows db k))"
  by (rule item_headD[OF inbox_run_item[OF assms(1)] assms(2)])

end
