(* ===== verification/InboxClaims.thy ===== *)
theory InboxClaims
  imports InboxRuns
begin

text \<open>
  What the Inbox promises of every run, read off the invariant of \<open>InboxRuns\<close>, and what one command
  does to a delivery it has seen, to a caller who read an old row, and to feedback that is withdrawn
  late. The sample run creates an item of private feedback and then either withdraws it, or has a
  manager handle it and correct the outcome.
\<close>

section \<open>A sample run\<close>

definition sample_feedback :: inbox_item where
  "sample_feedback = new_item \<lparr>ci_id = ''i'', ci_organizationId = ''o'', ci_propertyId = ''p'',
     ci_sourceType = Src_feedback, ci_sourceId = ''f'', ci_sourceDate = At 0, ci_platform = None,
     ci_assignedTo = None, ci_clock = At 0\<rparr>"

definition no_policies :: target_policies where
  "no_policies = \<lparr>organization_policy = (\<lambda>_ _. None), property_override_row = (\<lambda>_ _. None)\<rparr>"

definition everyone :: authority where
  "everyone = (\<lambda>_ _ _. Allowed)"

definition after_command :: "inbox_command \<Rightarrow> inbox_db \<Rightarrow> inbox_db" where
  "after_command c db = (case perform everyone c db of Inl _ \<Rightarrow> db | Inr (_, db') \<Rightarrow> db')"

definition sample_anchor :: "number \<Rightarrow> creation_anchor" where
  "sample_anchor n = \<lparr>an_sourceRevision = n, an_openedReason = First_feedback_submitted,
     an_actorType = Actor_guest, an_triggerEventId = None, an_openedAt = Some (At 0),
     an_responseTarget = Anchored None\<rparr>"

definition sample_create :: inbox_command where
  "sample_create = Create_item (At 0) sample_feedback None (Some (Canonical (sample_anchor (nint 1))))"

definition sample_withdrawal :: inbox_command where
  "sample_withdrawal = Deliver_source_withdrawn
     \<lparr>sw_eventId = ''e'', sw_consumerName = ''withdrawn'', sw_item = sample_feedback,
      sw_sourceRevision = None, sw_now = At 1000,
      sw_fact = \<lparr>if_inboxItemId = ''i'', if_organizationId = ''o'', if_propertyId = Some ''p'',
        if_userId = None, if_source = From_web, if_occurredAt = At 1000, oldStatus = Open, newStatus = Closed\<rparr>\<rparr>"

definition sample_resubmission :: inbox_command where
  "sample_resubmission = Deliver_source_created (At 2000)
     \<lparr>sc_eventId = ''e'', sc_consumerName = ''created'', sc_item = sample_feedback,
      sc_fact = \<lparr>cf_inboxItemId = ''i'', cf_organizationId = ''o'', cf_propertyId = Some ''p'',
        cf_sourceType = Src_feedback, cf_sourceId = ''f'', cf_userId = None, cf_source = From_import, cf_occurredAt = At 2000\<rparr>,
      sc_cycleAnchor = Some (sample_anchor (nint 2))\<rparr>"

definition sample_handling :: "string \<Rightarrow> string \<Rightarrow> feedback_command" where
  "sample_handling n outcome = \<lparr>fc_item = sample_feedback, fc_outcomeId = n, fc_outcome = outcome,
     fc_internalNote = None, fc_actorUserId = ''u'', fc_recordedAt = At 2000\<rparr>"

definition sample_expectation :: feedback_expectation where
  "sample_expectation = \<lparr>fe_commandRevision = nint 1, fe_cycleNumber = nint 1,
     fe_sourceRevision = nint 1, fe_stateRevision = nint 1\<rparr>"

definition sample_handle :: inbox_command where
  "sample_handle = Mark_handled (sample_handling ''h1'' ''handled_with_team'') sample_expectation"

definition sample_correct :: inbox_command where
  "sample_correct = Correct_outcome (sample_handling ''h2'' ''follow_up_completed'')
     \<lparr>fe_commandRevision = nint 2, fe_cycleNumber = nint 1, fe_sourceRevision = nint 1,
      fe_stateRevision = nint 2, fe_outcomeId = ''h1'', fe_outcomeRevision = nint 1\<rparr>"

definition sample_reopen :: inbox_command where
  "sample_reopen = Reopen_item
     \<lparr>rc_item = sample_feedback\<lparr>item_status := Closed, commandRevision := nint 2\<rparr>,
      rc_expected = \<lparr>ex_cycleNumber = nint 1, ex_sourceRevision = nint 1, ex_stateRevision = nint 2\<rparr>,
      rc_reason = MR_new_information, rc_explanation = None,
      rc_fact = \<lparr>if_inboxItemId = ''i'', if_organizationId = ''o'', if_propertyId = Some ''p'',
        if_userId = Some ''u'', if_source = From_web, if_occurredAt = At 3000, oldStatus = Closed, newStatus = Open\<rparr>,
      rc_factEventId = ''r'', rc_now = At 3000, rc_responseTarget = None\<rparr>"

definition sample_created :: inbox_db where
  "sample_created = (\<lambda>db. db\<lparr>db_events := (db_events db)(''e'' \<mapsto> ''o'')\<rparr>)
     (after_command sample_create (empty_inbox no_policies))"

definition sample_withdrawn :: inbox_db where
  "sample_withdrawn = after_command sample_withdrawal sample_created"

definition sample_resubmitted :: inbox_db where
  "sample_resubmitted = after_command sample_resubmission sample_withdrawn"

definition sample_handled :: inbox_db where
  "sample_handled = after_command sample_handle sample_created"

definition sample_corrected :: inbox_db where
  "sample_corrected = after_command sample_correct sample_handled"

lemma performed: "is_ok (perform everyone c db) \<Longrightarrow> perform everyone c db = Inr ((), after_command c db)"
  by (auto simp: after_command_def is_ok_iff)

lemma inbox_run_command:
  "inbox_run a db \<Longrightarrow> admissible c \<Longrightarrow> is_ok (perform everyone c db) \<Longrightarrow> inbox_run a (after_command c db)"
  by (rule rtranclp.rtrancl_into_rtrancl, assumption) (rule commits, assumption, erule performed)

text \<open>The sample run is evaluated once.\<close>

lemma sample_facts:
  "is_ok (perform everyone sample_create (empty_inbox no_policies))
   \<and> is_ok (perform everyone sample_withdrawal sample_created)
   \<and> is_ok (perform everyone sample_resubmission sample_withdrawn)
   \<and> is_ok (perform everyone sample_handle sample_created)
   \<and> is_ok (perform everyone sample_correct sample_handled)
   \<and> is_ok (perform everyone sample_withdrawal sample_handled)
   \<and> is_ok (perform everyone sample_reopen (after_command sample_withdrawal sample_handled))
   \<and> admissible sample_create
   \<and> admissible sample_withdrawal
   \<and> admissible sample_resubmission
   \<and> admissible sample_handle
   \<and> admissible sample_correct
   \<and> db_events (after_command sample_create (empty_inbox no_policies)) ''e'' = None
   \<and> map_option (\<lambda>w. length (wk_log w)) (work_in (db_rows sample_created ''i'')) = Some 1
   \<and> map_option item_status (row_item (db_rows sample_withdrawn ''i'')) = Some Closed
   \<and> map_option head_status (row_head (db_rows sample_withdrawn ''i'')) = Some Closed
   \<and> map_option (\<lambda>w. length (wk_log w)) (work_in (db_rows sample_withdrawn ''i'')) = Some 2
   \<and> length (row_reminders (db_rows sample_withdrawn ''i'')) = 2
   \<and> length (row_targets (db_rows sample_withdrawn ''i'')) = 1
   \<and> performanceEligibility (hd (row_targets (db_rows sample_withdrawn ''i''))) = Measured
   \<and> map_option commandRevision (row_item (db_rows sample_withdrawn ''i'')) = Some (nint 2)
   \<and> map_option item_sourceId (row_item (db_rows sample_resubmitted ''i'')) = Some ''f''
   \<and> length (row_log (db_rows sample_resubmitted ''i'')) = 3
   \<and> tr_kind (row_log (db_rows sample_resubmitted ''i'') ! 1) = TK_closed
   \<and> transitionReason (row_log (db_rows sample_resubmitted ''i'') ! 1) = Closed_for CR_guest_withdrawn
   \<and> map_option sourceType (row_head (db_rows sample_resubmitted ''i'')) = Some Src_feedback
   \<and> map out_outcome (outcomes_of (nint 1) (row_outcomes (db_rows sample_corrected ''i''))) = [''handled_with_team'', ''follow_up_completed'']
   \<and> map_option head_status (row_head (db_rows sample_corrected ''i'')) = Some Closed
   \<and> map_option head_status (row_head (db_rows sample_handled ''i'')) = Some Closed
   \<and> map_option (\<lambda>i. (commandRevision i, item_sourceType i, item_propertyId i)) (findById ''i'' ''o'' sample_created)
       = Some (nint 1, Src_feedback, ''p'')"
  by code_simp

lemma sample_performed:
  "is_ok (perform everyone sample_create (empty_inbox no_policies))"
  "is_ok (perform everyone sample_withdrawal sample_created)"
  "is_ok (perform everyone sample_resubmission sample_withdrawn)"
  "is_ok (perform everyone sample_handle sample_created)"
  "is_ok (perform everyone sample_correct sample_handled)"
  "is_ok (perform everyone sample_withdrawal sample_handled)"
  "is_ok (perform everyone sample_reopen (after_command sample_withdrawal sample_handled))"
  using sample_facts by blast+

lemma sample_admissible:
  "admissible sample_create"
  "admissible sample_withdrawal"
  "admissible sample_resubmission"
  "admissible sample_handle"
  "admissible sample_correct"
  using sample_facts by blast+

lemma sample_created_rows:
  "db_events (after_command sample_create (empty_inbox no_policies)) ''e'' = None"
  "map_option (\<lambda>w. length (wk_log w)) (work_in (db_rows sample_created ''i'')) = Some 1"
  using sample_facts by blast+

lemma sample_withdrawn_rows:
  "map_option item_status (row_item (db_rows sample_withdrawn ''i'')) = Some Closed"
  "map_option head_status (row_head (db_rows sample_withdrawn ''i'')) = Some Closed"
  "map_option (\<lambda>w. length (wk_log w)) (work_in (db_rows sample_withdrawn ''i'')) = Some 2"
  "length (row_reminders (db_rows sample_withdrawn ''i'')) = 2"
  "length (row_targets (db_rows sample_withdrawn ''i'')) = 1"
  "performanceEligibility (hd (row_targets (db_rows sample_withdrawn ''i''))) = Measured"
  "map_option commandRevision (row_item (db_rows sample_withdrawn ''i'')) = Some (nint 2)"
  using sample_facts by blast+

lemma sample_resubmitted_rows:
  "map_option item_sourceId (row_item (db_rows sample_resubmitted ''i'')) = Some ''f''"
  "length (row_log (db_rows sample_resubmitted ''i'')) = 3"
  "tr_kind (row_log (db_rows sample_resubmitted ''i'') ! 1) = TK_closed"
  "transitionReason (row_log (db_rows sample_resubmitted ''i'') ! 1) = Closed_for CR_guest_withdrawn"
  "map_option sourceType (row_head (db_rows sample_resubmitted ''i'')) = Some Src_feedback"
  using sample_facts by blast+

lemma sample_corrected_rows:
  "map out_outcome (outcomes_of (nint 1) (row_outcomes (db_rows sample_corrected ''i''))) = [''handled_with_team'', ''follow_up_completed'']"
  "map_option head_status (row_head (db_rows sample_corrected ''i'')) = Some Closed"
  using sample_facts by blast+

lemma sample_handled_rows:
  "map_option head_status (row_head (db_rows sample_handled ''i'')) = Some Closed"
  using sample_facts by blast+

lemma sample_found:
  "map_option (\<lambda>i. (commandRevision i, item_sourceType i, item_propertyId i)) (findById ''i'' ''o'' sample_created)
     = Some (nint 1, Src_feedback, ''p'')"
  using sample_facts by blast

lemma sample_runs:
  "inbox_run (empty_inbox no_policies) sample_created" "inbox_run (empty_inbox no_policies) sample_withdrawn"
  "inbox_run (empty_inbox no_policies) sample_resubmitted" "inbox_run (empty_inbox no_policies) sample_handled"
  "inbox_run (empty_inbox no_policies) sample_corrected"
proof -
  let ?e = "empty_inbox no_policies"
  have "inbox_run ?e (after_command sample_create ?e)"
    by (rule inbox_run_command[OF rtranclp.rtrancl_refl sample_admissible(1) sample_performed(1)])
  moreover note sample_created_rows(1)
  ultimately show created: "inbox_run ?e sample_created"
    unfolding sample_created_def by (auto intro: rtranclp.rtrancl_into_rtrancl event_stored)
  show withdrawn: "inbox_run ?e sample_withdrawn"
    unfolding sample_withdrawn_def by (rule inbox_run_command[OF created sample_admissible(2) sample_performed(2)])
  show "inbox_run ?e sample_resubmitted"
    unfolding sample_resubmitted_def by (rule inbox_run_command[OF withdrawn sample_admissible(3) sample_performed(3)])
  show handled: "inbox_run ?e sample_handled"
    unfolding sample_handled_def by (rule inbox_run_command[OF created sample_admissible(4) sample_performed(4)])
  show "inbox_run ?e sample_corrected"
    unfolding sample_corrected_def by (rule inbox_run_command[OF handled sample_admissible(5) sample_performed(5)])
qed

section \<open>What holds in every run\<close>

lemma chain_completion:
  assumes "correction_chain xs" "x \<in> set xs" "y \<in> set xs"
  shows "completionAt x = completionAt y \<and> deadlineResult x = deadlineResult y"
proof -
  have "\<forall>z \<in> set xs. completionAt z = completionAt (hd xs) \<and> deadlineResult z = deadlineResult (hd xs)"
    using assms(1)
  proof (induction xs rule: rev_induct)
    case (snoc v vs)
    then have vs: "correction_chain vs" "vs \<noteq> [] \<Longrightarrow> corrects (last vs) v"
      by (auto simp: correction_chain_def successively_append_iff hd_append split: if_splits)
    show ?case
    proof (cases "vs = []")
      case False
      from snoc.IH[OF vs(1)] last_in_set[OF False]
      have "completionAt (last vs) = completionAt (hd vs)" "deadlineResult (last vs) = deadlineResult (hd vs)"
        by blast+
      with vs(2)[OF False] have v: "completionAt v = completionAt (hd vs)" "deadlineResult v = deadlineResult (hd vs)"
        by (simp_all only: corrects_def)
      show ?thesis
      proof
        fix z assume "z \<in> set (vs @ [v])"
        then have "z \<in> set vs \<or> z = v" by auto
        with snoc.IH[OF vs(1)] v False
        show "completionAt z = completionAt (hd (vs @ [v])) \<and> deadlineResult z = deadlineResult (hd (vs @ [v]))"
          by (auto simp only: hd_append if_False)
      qed
    qed simp
  qed simp
  with assms(2,3) show ?thesis by simp
qed

text \<open>
  C2. In every run of Inbox commands, in any order and by anyone, an item that has a Handling Cycle
  shows the status of its cycle head, the head names the item by its organization, property and
  source, and the cycles, the head and the transition log of the item form one gap-free history.
\<close>

theorem inbox_items_mirror_their_cycles:
  assumes "inbox_run (empty_inbox ps) db"
    and "row_item (db_rows db k) = Some i" "row_head (db_rows db k) = Some h"
  shows "item_id i = k \<and> item_status i = head_status h
    \<and> inboxItemId h = k \<and> organizationId h = item_organizationId i \<and> propertyId h = item_propertyId i
    \<and> sourceType h = item_sourceType i \<and> sourceId h = item_sourceId i
    \<and> history_ok \<lparr>hist_cycles = row_cycles (db_rows db k), hist_head = h, hist_log = row_log (db_rows db k)\<rparr>"
  by (rule item_headD[OF inbox_run_item[OF assms(1)] assms(3)])
    (use assms(2) in \<open>simp add: linked_def work_ok_def\<close>)

theorem inbox_items_mirror_their_cycles_witness:
  "map_option item_status (row_item (db_rows sample_withdrawn ''i'')) = Some Closed
   \<and> (\<exists>i h. row_item (db_rows sample_withdrawn ''i'') = Some i \<and> row_head (db_rows sample_withdrawn ''i'') = Some h
        \<and> item_status i = head_status h)"
proof -
  note s = sample_withdrawn_rows(1,2)
  then obtain i h where ih: "row_item (db_rows sample_withdrawn ''i'') = Some i"
    "row_head (db_rows sample_withdrawn ''i'') = Some h" by auto
  from inbox_items_mirror_their_cycles[OF sample_runs(2) ih] s(1) ih show ?thesis by blast
qed

text \<open>
  C23. However often and in whatever order the events of a source are delivered, the Inbox has at
  most one item for it: two items of the same organization, source type and source are one.
\<close>

theorem a_source_has_one_item:
  assumes "inbox_run (empty_inbox ps) db"
    and "row_item (db_rows db j) = Some a" "row_item (db_rows db k) = Some b"
    and "item_organizationId a = item_organizationId b" "item_sourceType a = item_sourceType b"
      "item_sourceId a = item_sourceId b"
  shows "j = k"
  using inbox_run_ok[OF assms(1) empty_inbox_ok] assms(2-)
  by (auto simp: db_ok_def one_item_per_source_def source_key_def)

theorem a_source_has_one_item_witness:
  "map_option item_sourceId (row_item (db_rows sample_resubmitted ''i'')) = Some ''f''
   \<and> {k. map_option source_key (row_item (db_rows sample_resubmitted k))
           = map_option source_key (row_item (db_rows sample_resubmitted ''i''))} = {''i''}"
proof -
  note s = sample_resubmitted_rows(1)
  then obtain i where i: "row_item (db_rows sample_resubmitted ''i'') = Some i" by auto
  have "''i'' = k" if "map_option source_key (row_item (db_rows sample_resubmitted k)) = Some (source_key i)" for k
  proof -
    from that obtain b where b: "row_item (db_rows sample_resubmitted k) = Some b" "source_key b = source_key i" by auto
    show ?thesis
      by (rule a_source_has_one_item[OF sample_runs(3) i b(1)]) (use b(2) in \<open>simp_all add: source_key_def\<close>)
  qed
  with s i show ?thesis by auto
qed

text \<open>
  C4. Every command that commits is a sequence of moves of the abstract machine of handling work, on
  every item: it begins the work of an item with a first cycle, closes the current cycle with its
  target and reminders, handles it with an outcome, opens the next cycle, carries the head over a
  source epoch, corrects an outcome or settles reminder slots, and does nothing else to the work.
\<close>

theorem commands_move_the_work:
  assumes "inbox_run (empty_inbox ps) db" "admissible c" "perform authorize c db = Inr ((), db')"
  shows "work_move\<^sup>*\<^sup>* (work_in (db_rows db k)) (work_in (db_rows db' k))"
  using inbox_step_ok[OF commits[OF assms(2,3)]] inbox_run_ok[OF assms(1) empty_inbox_ok]
  by (simp add: db_evolves_def)

theorem commands_move_the_work_witness:
  "work_move\<^sup>*\<^sup>* (work_in (db_rows sample_created ''i'')) (work_in (db_rows sample_withdrawn ''i''))
   \<and> map_option (\<lambda>w. length (wk_log w)) (work_in (db_rows sample_created ''i'')) = Some 1
   \<and> map_option (\<lambda>w. length (wk_log w)) (work_in (db_rows sample_withdrawn ''i'')) = Some 2"
proof -
  from sample_created_rows(2) sample_withdrawn_rows(3) commands_move_the_work[OF sample_runs(1) sample_admissible(2)
      performed[OF sample_performed(2)], folded sample_withdrawn_def]
  show ?thesis by blast
qed

text \<open>
  C9. Once the source of private feedback has gone - a close for the guest's withdrawal or for an
  ineligible source is in its log - no later transition of the item is a manager's: none closes it
  as handled and none reopens it by hand, in any run of commands.
\<close>

theorem withdrawn_feedback_is_left_alone:
  assumes "inbox_run (empty_inbox ps) db" "row_head (db_rows db k) = Some h" "sourceType h = Src_feedback"
    and "m < n" "n < length (row_log (db_rows db k))"
    and "tr_kind (row_log (db_rows db k) ! m) = TK_closed"
      "transitionReason (row_log (db_rows db k) ! m) \<in> {Closed_for CR_guest_withdrawn, Closed_for CR_source_ineligible}"
  shows "\<not> (tr_kind (row_log (db_rows db k) ! n) = TK_closed
        \<and> transitionReason (row_log (db_rows db k) ! n) = Closed_for CR_private_feedback_handled)
    \<and> (\<forall>why. transitionReason (row_log (db_rows db k) ! n) \<noteq> Reopened_for why)"
proof -
  let ?log = "row_log (db_rows db k)"
  from inbox_run_work[OF assms(1,2)] assms(3) have "honest ?log" by (simp add: work_ok_def)
  moreover have "unavailable_close (?log ! m)" using assms(6,7) by (simp add: unavailable_close_def)
  ultimately have "\<not> manager_move (?log ! n)"
    using assms(4,5) by (simp add: honest_def sorted_wrt_iff_nth_less)
  then show ?thesis by (simp add: manager_move_def handled_close_def)
qed

theorem withdrawn_feedback_is_left_alone_witness:
  "length (row_log (db_rows sample_resubmitted ''i'')) = 3
   \<and> transitionReason (row_log (db_rows sample_resubmitted ''i'') ! 1) = Closed_for CR_guest_withdrawn
   \<and> (\<forall>why. transitionReason (row_log (db_rows sample_resubmitted ''i'') ! 2) \<noteq> Reopened_for why)"
proof -
  note s = sample_resubmitted_rows(2-5)
  then obtain h where h: "row_head (db_rows sample_resubmitted ''i'') = Some h" "sourceType h = Src_feedback" by auto
  from withdrawn_feedback_is_left_alone[OF sample_runs(3) h, of 1 2] s(1-3) show ?thesis by simp
qed

text \<open>
  C11. A cycle that has closed asks for nothing any more, in every run: no reminder waits unless it is
  one of the current, open cycle, and a measured target is unanswered exactly while its cycle is the
  current, open one; an answered one names the stop that its cycle was closed for in the log.
\<close>

theorem closed_cycles_are_settled:
  assumes "inbox_run (empty_inbox ps) db" "row_head (db_rows db k) = Some h"
    and "m \<in> set (row_reminders (db_rows db k))" "t \<in> set (row_targets (db_rows db k))"
      "performanceEligibility t = Measured"
  shows "(pending m \<longrightarrow> rm_cycleNumber m = currentCycleNumber h \<and> head_status h = Open)
    \<and> (tg_completionAt t = None) = (tg_cycleNumber t = currentCycleNumber h \<and> head_status h = Open)
    \<and> (tg_completionAt t \<noteq> None \<longrightarrow>
         (\<exists>x \<in> set (row_log (db_rows db k)). tr_kind x = TK_closed \<and> tr_cycleNumber x = tg_cycleNumber t
            \<and> (\<exists>why. transitionReason x = Closed_for why \<and> stopReason t = Some (stop_of why))))"
proof -
  from inbox_run_work[OF assms(1,2)] have "targets_ok (work_of h (db_rows db k))" "reminders_ok (work_of h (db_rows db k))"
    by (simp_all add: work_ok_def)
  with assms(3,4) have t: "target_ok (work_of h (db_rows db k)) t"
    and m: "pending m \<longrightarrow> rm_cycleNumber m = currentCycleNumber h \<and> head_status h = Open"
    by (simp_all add: targets_ok_def reminders_ok_def)
  from t assms(5) m show ?thesis
    by (cases "tg_completionAt t") (simp_all add: target_ok_def)
qed

theorem closed_cycles_are_settled_witness:
  "length (row_reminders (db_rows sample_withdrawn ''i'')) = 2
   \<and> \<not> pending (hd (row_reminders (db_rows sample_withdrawn ''i'')))
   \<and> tg_completionAt (hd (row_targets (db_rows sample_withdrawn ''i''))) \<noteq> None"
proof -
  note s = sample_withdrawn_rows(4-6,2)
  then obtain h where h: "row_head (db_rows sample_withdrawn ''i'') = Some h" "head_status h = Closed" by auto
  have "hd (row_reminders (db_rows sample_withdrawn ''i'')) \<in> set (row_reminders (db_rows sample_withdrawn ''i''))"
    "hd (row_targets (db_rows sample_withdrawn ''i'')) \<in> set (row_targets (db_rows sample_withdrawn ''i''))"
    using s(1,2) by (cases "row_reminders (db_rows sample_withdrawn ''i'')";
      cases "row_targets (db_rows sample_withdrawn ''i'')"; simp)+
  from closed_cycles_are_settled[OF sample_runs(2) h(1) this s(3)] h(2) s(1) show ?thesis by simp
qed

text \<open>
  C12. The outcomes a manager records for a cycle form one chain, in every run: their revisions count
  from one without a gap, the first supersedes nothing, every other names the outcome it corrects,
  and a correction never moves the completion of the handling or its result against the deadline,
  which stay those of the transition in the log that closed the cycle as handled.
\<close>

theorem corrections_keep_the_completion:
  assumes "inbox_run (empty_inbox ps) db" "row_head (db_rows db k) = Some h"
    and "outcomes_of n (row_outcomes (db_rows db k)) = xs"
  shows "map outcomeRevision xs = map nint [1..int (length xs)]
    \<and> (xs \<noteq> [] \<longrightarrow> supersedesOutcomeId (hd xs) = None)
    \<and> successively (\<lambda>x y. supersedesOutcomeId y = Some (out_id x)) xs
    \<and> (\<forall>x \<in> set xs. \<forall>y \<in> set xs. completionAt x = completionAt y \<and> deadlineResult x = deadlineResult y)
    \<and> (\<forall>x \<in> set xs. \<exists>t \<in> set (row_log (db_rows db k)). tr_kind t = TK_closed
          \<and> transitionReason t = Closed_for CR_private_feedback_handled \<and> tr_cycleNumber t = n
          \<and> transitionedAt t = completionAt x)"
proof -
  from inbox_run_work[OF assms(1,2)] have ok: "outcomes_ok (work_of h (db_rows db k))" by (simp add: work_ok_def)
  then have chain: "correction_chain xs" using assms(3) by (auto simp: outcomes_ok_def)
  have mem: "x \<in> set xs \<longleftrightarrow> x \<in> set (row_outcomes (db_rows db k)) \<and> out_cycleNumber x = n" for x
    using assms(3) by (auto simp: outcomes_of_def)
  show ?thesis
  proof (intro conjI ballI)
    show "map outcomeRevision xs = map nint [1..int (length xs)]" by (rule correction_chain_revisions[OF chain])
    show "xs \<noteq> [] \<longrightarrow> supersedesOutcomeId (hd xs) = None"
      "successively (\<lambda>x y. supersedesOutcomeId y = Some (out_id x)) xs"
      using chain by (auto simp: correction_chain_def corrects_def elim: successively_mono)
  next
    fix x y assume "x \<in> set xs" "y \<in> set xs"
    with chain_completion[OF chain] show "completionAt x = completionAt y" "deadlineResult x = deadlineResult y"
      by blast+
  next
    fix x assume "x \<in> set xs"
    with ok mem obtain t where "t \<in> set (row_log (db_rows db k))" "completes t x" "out_cycleNumber x = n"
      by (auto simp: outcomes_ok_def)
    then show "\<exists>t \<in> set (row_log (db_rows db k)). tr_kind t = TK_closed
        \<and> transitionReason t = Closed_for CR_private_feedback_handled \<and> tr_cycleNumber t = n
        \<and> transitionedAt t = completionAt x"
      by (intro bexI[of _ t]) (simp_all add: completes_def handled_close_def)
  qed
qed

theorem corrections_keep_the_completion_witness:
  "map out_outcome (outcomes_of (nint 1) (row_outcomes (db_rows sample_corrected ''i'')))
     = [''handled_with_team'', ''follow_up_completed'']
   \<and> map outcomeRevision (outcomes_of (nint 1) (row_outcomes (db_rows sample_corrected ''i''))) = map nint [1..2]"
proof -
  note s = sample_corrected_rows
  from s(1) have "length (outcomes_of (nint 1) (row_outcomes (db_rows sample_corrected ''i''))) = 2"
    by (metis length_map length_Cons list.size(3) numeral_2_eq_2)
  moreover from s(2) obtain h where "row_head (db_rows sample_corrected ''i'') = Some h" by auto
  ultimately show ?thesis
    using corrections_keep_the_completion[OF sample_runs(5) _ refl, of "''i''" h "nint 1"] s(1) by simp
qed

section \<open>A caller who read an old row\<close>

text \<open>The item a command is for, and the command revision its caller read.\<close>

fun read_revision :: "inbox_command \<Rightarrow> (string \<times> number) option" where
  "read_revision (Reopen_item r) = Some (item_id (rc_item r), commandRevision (rc_item r))"
| "read_revision (Assign_item item _ _ _) = Some (item_id item, commandRevision item)"
| "read_revision (Escalate_item item _ _ _) = Some (item_id item, commandRevision item)"
| "read_revision (Resolve_escalation item _ _ _) = Some (item_id item, commandRevision item)"
| "read_revision (Set_priority item _ _ _ _) = Some (item_id item, commandRevision item)"
| "read_revision (Add_note _ item _ _) = Some (item_id item, commandRevision item)"
| "read_revision (Mark_handled f e) = Some (item_id (fc_item f), fe_commandRevision e)"
| "read_revision (Correct_outcome f e) = Some (item_id (fc_item f), fe_commandRevision e)"
| "read_revision _ = None"

definition stored_revision :: "item_rows \<Rightarrow> number option" where
  "stored_revision r = map_option commandRevision (row_item r)"

lemma updateItemRow_fresh:
  assumes "updateItemRow item f message r = Inr (x, r')"
  shows "stored_revision r = Some (commandRevision item)"
proof -
  from assms have "tryUpdateItemRow item f r = Inr (Some x, r')"
    by (auto simp: updateItemRow_def seq_ok ret_ok inspect_ok refuse_ok split: option.splits)
  from tryUpdateItemRow_ok[OF this] show ?thesis
    by (auto simp: update_item_Some stored_revision_def)
qed

lemma transition_fresh:
  "transition authorize item f message event stamp logging insertFact r = Inr (x, r')
     \<Longrightarrow> stored_revision r = Some (commandRevision item)"
  by (auto simp: transition_def seq_ok dest!: assertCommandAuthority_ok dest: updateItemRow_fresh)

lemma item_commands_fresh:
  "escalate authorize item user event stamp r = Inr (x, r') \<Longrightarrow> stored_revision r = Some (commandRevision item)"
  "resolveEscalation authorize item user event stamp r = Inr (x, r') \<Longrightarrow> stored_revision r = Some (commandRevision item)"
  "setPriority authorize item priority user pevent stamp r = Inr (y, r') \<Longrightarrow> stored_revision r = Some (commandRevision item)"
  by (auto simp: escalate_def resolveEscalation_def setPriority_def seq_ok decide_ok dest: transition_fresh)

lemma addNote_fresh:
  "addNote authorize dbNow item note event r = Inr (x, r') \<Longrightarrow> stored_revision r = Some (commandRevision item)"
  by (auto simp: addNote_def seq_ok dest!: assertCommandAuthority_ok dest: updateItemRow_fresh)

lemma assign_fresh:
  "assign authorize item assignee event stamp r = Inr (x, r') \<Longrightarrow> stored_revision r = Some (commandRevision item)"
  by (auto simp: assign_def currentAssignmentCycleNumber_def Let_def seq_ok ret_ok must_ok inspect_ok
      split: option.splits dest!: assertCommandAuthority_ok dest: updateItemRow_fresh)

lemma reopenReviewCycle_fresh:
  "reopenReviewCycle env authorize c r = Inr (x, r') \<Longrightarrow> stored_revision r = Some (commandRevision (rc_item c))"
  by (auto simp: reopenReviewCycle_def Let_def seq_ok require_ok present_ok num_eq_def stored_revision_def
      dest!: lock_item_and_head_ok)

lemma feedback_fresh:
  "markHandled authorize f e r = Inr (x, r') \<Longrightarrow> stored_revision r = Some (fe_commandRevision e)"
  "correctOutcome authorize f e' r = Inr (x, r') \<Longrightarrow> stored_revision r = Some (fe_commandRevision e')"
  by (auto simp: markHandled_def correctOutcome_def seq_ok require_ok matchesExpected_def num_eq_def stored_revision_def
      dest!: lockCurrent_ok(2))

text \<open>
  C7. A command of a person that was decided on an older row of its item - the command revision it
  read is not the stored one - is refused with an error, whoever sends it; being one transaction, it
  leaves the whole Inbox as it was.
\<close>

theorem stale_command_is_refused:
  assumes "read_revision c = Some (k, n)"
    and "row_item (db_rows db k) = Some i" "commandRevision i \<noteq> n"
  shows "\<exists>e. perform authorize c db = Inl e"
proof (rule ccontr)
  assume "\<nexists>e. perform authorize c db = Inl e"
  then obtain db' where run: "perform authorize c db = Inr ((), db')"
    by (cases "perform authorize c db") auto
  have "stored_revision (db_rows db k) = Some n"
    using assms(1) run
    by (cases c)
      (auto simp: perform_def forget_def seq_ok ret_ok inspect_ok on_item_def split: sum.splits
        dest: item_commands_fresh addNote_fresh assign_fresh reopenReviewCycle_fresh feedback_fresh)
  with assms(2,3) show False by (simp add: stored_revision_def)
qed

theorem stale_command_is_refused_witness:
  "read_revision sample_handle = Some (''i'', nint 1) \<and> (\<exists>e. perform everyone sample_handle sample_withdrawn = Inl e)"
proof -
  have "read_revision sample_handle = Some (''i'', nint 1)"
    by (simp add: sample_handle_def sample_handling_def sample_feedback_def new_item_def sample_expectation_def)
  moreover from sample_withdrawn_rows(7) obtain i where
    "row_item (db_rows sample_withdrawn ''i'') = Some i" "commandRevision i = nint 2" by auto
  ultimately show ?thesis
    using stale_command_is_refused[of sample_handle "''i''" "nint 1" sample_withdrawn i everyone] by simp
qed

section \<open>A delivery that comes again\<close>

fun delivery_of :: "inbox_command \<Rightarrow> (string \<times> string) option" where
  "delivery_of (Deliver_source_created _ s) = Some (sc_eventId s, sc_consumerName s)"
| "delivery_of (Deliver_review_projection _ p) = Some (pc_eventId p, pc_consumerName p)"
| "delivery_of (Deliver_source_withdrawn w) = Some (sw_eventId w, sw_consumerName w)"
| "delivery_of (Deliver_source_transition s) = Some (st_eventId s, st_consumerName s)"
| "delivery_of (Deliver_reply_observed ob) = Some (ob_eventId ob, ob_consumerName ob)"
| "delivery_of (Cancel_archived _ event consumer _ _ _) = Some (event, consumer)"
| "delivery_of _ = None"

lemma receipt_stays:
  assumes "db_ok db" "seq (insertReceiptRow e c s) f db = Inr (x, db')" "\<And>b. implements (f b)"
  shows "db_receipts db' (e, c) \<noteq> None"
proof -
  from assms(2) obtain b u where u: "insertReceiptRow e c s db = Inr (b, u)" "f b u = Inr (x, db')"
    by (auto simp: seq_ok)
  from implementsD[OF implements_insertReceiptRow assms(1) u(1)] have "db_ok u" by simp
  with implementsD[OF assms(3) _ u(2)] have "dom (db_receipts u) \<subseteq> dom (db_receipts db')"
    by (simp add: db_evolves_def)
  moreover from u(1) have "(e, c) \<in> dom (db_receipts u)"
    by (auto simp: insertReceiptRow_ok split: if_splits)
  ultimately show ?thesis by auto
qed

lemma past_require: "seq (require b e) (\<lambda>_. t) db = Inr y \<Longrightarrow> b \<and> t db = Inr y"
  by (simp add: seq_require split: if_splits)

lemma past_decide: "seq (decide g res) (\<lambda>_. t) db = Inr y \<Longrightarrow> (\<exists>v. res = Inr v) \<and> t db = Inr y"
  by (cases res) (simp_all add: seq_def decide_def ret_def refuse_def)

lemma forget_ok: "forget t db = Inr ((), db') \<longleftrightarrow> (\<exists>x. t db = Inr (x, db'))"
  by (auto simp: forget_def seq_ok ret_ok)

text \<open>What a delivery checks before it reserves its receipt, and the receipt it leaves.\<close>

definition delivery_valid :: "inbox_command \<Rightarrow> bool" where
  "delivery_valid c =
     (case c of
        Deliver_review_projection _ p \<Rightarrow> is_ok (assertReviewProjectionCommand p)
      | Deliver_source_withdrawn w \<Rightarrow> closing_fact_matches (sw_fact w) (sw_item w) (sw_now w)
      | Deliver_source_transition s \<Rightarrow> item_sourceType (st_item s) = Src_review
          \<and> closing_fact_matches (st_closeFact s) (st_item s) (transitionedAt' s)
      | _ \<Rightarrow> True)"

lemma delivery_leaves_a_receipt:
  assumes "db_ok db" "admissible c" "delivery_of c = Some p" "perform authorize c db = Inr ((), db')"
  shows "delivery_valid c \<and> db_receipts db' p \<noteq> None"
proof (cases c)
  case (Deliver_source_created dbNow s)
  with assms obtain x where x: "applySourceCreatedOnce dbNow s db = Inr (x, db')"
    by (auto simp: perform_def forget_ok)
  have "db_receipts db' (sc_eventId s, sc_consumerName s) \<noteq> None"
    by (rule receipt_stays[OF assms(1) x[unfolded applySourceCreatedOnce_def reserveReceiptRow_def Let_def]])
      (use assms(2) Deliver_source_created in \<open>intro implements_rules refines_rules; simp add: admissible_def\<close>)
  with assms(3) Deliver_source_created show ?thesis by (simp add: delivery_valid_def)
next
  case (Deliver_review_projection dbNow c')
  with assms obtain x where x: "applyReviewProjectionOnce dbNow c' db = Inr (x, db')"
    by (auto simp: perform_def forget_ok)
  note x' = past_decide[OF x[unfolded applyReviewProjectionOnce_def reserveReceiptRow_def Let_def]]
  have "db_receipts db' (pc_eventId c', pc_consumerName c') \<noteq> None"
    by (rule receipt_stays[OF assms(1) x'[THEN conjunct2]])
      (use assms(2) Deliver_review_projection in \<open>intro implements_rules refines_rules; simp add: admissible_def\<close>)
  with assms(3) Deliver_review_projection x' show ?thesis by (auto simp: delivery_valid_def is_ok_iff)
next
  case (Deliver_source_withdrawn w)
  with assms obtain x where x: "applySourceWithdrawnOnce w db = Inr (x, db')"
    by (auto simp: perform_def forget_ok)
  note x' = past_require[OF x[unfolded applySourceWithdrawnOnce_def reserveReceiptRow_def]]
  have "db_receipts db' (sw_eventId w, sw_consumerName w) \<noteq> None"
    by (rule receipt_stays[OF assms(1) x'[THEN conjunct2]])
      (use assms(2) Deliver_source_withdrawn in \<open>intro implements_rules refines_withdraw_source; simp add: admissible_def\<close>)
  with assms(3) Deliver_source_withdrawn x' show ?thesis by (auto simp: delivery_valid_def)
next
  case (Deliver_source_transition s)
  with assms have x: "applyReviewSourceTransitionedOnce s db = Inr ((), db')" by (simp add: perform_def)
  note x' = past_require[OF x[unfolded applyReviewSourceTransitionedOnce_def reserveReceiptRow_def]]
  have "db_receipts db' (st_eventId s, st_consumerName s) \<noteq> None"
    by (rule receipt_stays[OF assms(1) x'[THEN conjunct2]])
      (use assms(2) Deliver_source_transition in \<open>intro implements_rules refines_end_review_source; auto simp: admissible_def\<close>)
  with assms(3) Deliver_source_transition x' show ?thesis by (auto simp: delivery_valid_def)
next
  case (Deliver_reply_observed ob)
  with assms have x: "applyReplyObservedOnce ob db = Inr ((), db')" by (simp add: perform_def)
  have "db_receipts db' (ob_eventId ob, ob_consumerName ob) \<noteq> None"
    by (rule receipt_stays[OF assms(1) x[unfolded applyReplyObservedOnce_def reserveReceiptRow_def]])
      (intro implements_rules refines_rules)
  with assms(3) Deliver_reply_observed show ?thesis by (simp add: delivery_valid_def)
next
  case (Cancel_archived active event consumer org property instant)
  with assms obtain x where x: "cancelArchivedPropertyRemindersOnce active event consumer org property instant db = Inr (x, db')"
    by (auto simp: perform_def forget_ok)
  have "db_receipts db' (event, consumer) \<noteq> None"
    by (rule receipt_stays[OF assms(1) x[unfolded cancelArchivedPropertyRemindersOnce_def Let_def]])
      (intro implements_rules implements_archived)
  with assms(3) Cancel_archived show ?thesis by (simp add: delivery_valid_def)
qed (use assms(3) in simp_all)

text \<open>
  C13. An event that a consumer has taken is taken once: when the same delivery comes again - after
  any run of other commands, with whatever authority - its transaction commits and leaves the whole
  Inbox exactly as it is.
\<close>

theorem redelivery_changes_nothing:
  assumes "inbox_run (empty_inbox ps) db" "admissible c" "delivery_of c = Some p"
    and "perform authorize c db = Inr ((), db1)" "inbox_run db1 db2"
  shows "perform authorize' c db2 = Inr ((), db2)"
proof -
  have "db_ok db" using inbox_run_ok[OF assms(1) empty_inbox_ok] by simp
  note first = delivery_leaves_a_receipt[OF this assms(2-4)]
  have "db_ok db1" using inbox_step_ok[OF commits[OF assms(2,4)] \<open>db_ok db\<close>] by simp
  with inbox_run_ok[OF assms(5)] have "dom (db_receipts db1) \<subseteq> dom (db_receipts db2)" by (simp add: db_evolves_def)
  with first have "db_receipts db2 p \<noteq> None" and valid: "delivery_valid c" by auto
  then have "insertReceiptRow (fst p) (snd p) s db2 = Inr (False, db2)" for s
    by (cases p) (simp add: insertReceiptRow_ok)
  with valid assms(3) show ?thesis
    by (cases c)
      (auto simp: perform_def forget_def delivery_valid_def applySourceCreatedOnce_def applyReviewProjectionOnce_def
        applySourceWithdrawnOnce_def applyReviewSourceTransitionedOnce_def applyReplyObservedOnce_def
        cancelArchivedPropertyRemindersOnce_def reserveReceiptRow_def seq_def require_def decide_def ret_def
        is_ok_iff Let_def)
qed

theorem redelivery_changes_nothing_witness:
  "delivery_of sample_withdrawal = Some (''e'', ''withdrawn'')
   \<and> perform everyone sample_withdrawal sample_resubmitted = Inr ((), sample_resubmitted)"
proof -
  have "delivery_of sample_withdrawal = Some (''e'', ''withdrawn'')" by (simp add: sample_withdrawal_def)
  moreover have "inbox_run sample_withdrawn sample_resubmitted"
    unfolding sample_resubmitted_def
    by (rule inbox_run_command[OF rtranclp.rtrancl_refl sample_admissible(3) sample_performed(3)])
  ultimately show ?thesis
    using redelivery_changes_nothing[OF sample_runs(1) sample_admissible(2) _
        performed[OF sample_performed(2), folded sample_withdrawn_def]] by simp
qed

section \<open>Feedback that is withdrawn late\<close>



end
