(* ===== verification/InboxProcesses.thy ===== *)
theory InboxProcesses
  imports InboxRuns
begin

text \<open>
  A consumer or a use case is a process: it reads rows, commits transactions of the store and
  answers, and other processes run between any two of these steps. \<open>Look\<close> is a read of the
  repository, \<open>Commit\<close> a transaction with what follows its commit and what follows its failure, and
  \<open>Return\<close> the answer or the error that is thrown. What a process gets from outside the Inbox (its
  clock, new identifiers, the answers of other contexts) is in its arguments.

  A process is lawful when each of its transactions is an admissible command of \<open>InboxRuns\<close>; then
  any number of them, interleaved in any way, is a run of the Inbox.
\<close>

section \<open>Processes\<close>

datatype failure = Thrown string | Store_failure store_error

datatype reopen_outcome = Reopened_item | Already_open | Reopen_conflict | Reopen_unavailable

datatype assignment_outcome =
    Assigned_item
  | Reassigned_item
  | Released_item
  | Unchanged_item
  | Assign_conflict
  | Assign_unavailable
  | Batch_aborted

record reminder_counts =
  released :: nat
  checked_on_google :: nat
  heldLocal :: nat
  heldAfterRead :: nat
  deferred :: nat
  unavailable :: nat
  skippedNoProvider :: nat
  failed :: nat

datatype outcome =
    Taken delivery
  | Item inbox_item
  | Note inbox_note
  | Feedback inbox_item feedback_state
  | Reopening nat "(string \<times> reopen_outcome) option list"
  | Assignment nat "string option" "(string \<times> assignment_outcome) list"
  | Ticked reminder_counts

datatype process =
    Return "(failure, outcome) result"
  | Look "inbox_db \<Rightarrow> process"
  | Commit "inbox_db \<Rightarrow> (store_error, process \<times> inbox_db) result" "store_error \<Rightarrow> process"

definition throw :: "string \<Rightarrow> process" where
  "throw message = Return (err (Thrown message))"

definition fail :: "inbox_error \<Rightarrow> process" where
  "fail e = Return (err (Store_failure (Refused e)))"

definition answer :: "outcome \<Rightarrow> process" where
  "answer r = Return (ok r)"

definition commit :: "'a inbox_txn \<Rightarrow> ('a \<Rightarrow> process) \<Rightarrow> process" where
  "commit t k = Commit (seq t (\<lambda>x. ret (k x))) (\<lambda>e. Return (err (Store_failure e)))"

text \<open>A decision that throws its error.\<close>

definition unless_err :: "(inbox_error, 'a) result \<Rightarrow> ('a \<Rightarrow> process) \<Rightarrow> process" where
  "unless_err r k = (case r of Inl e \<Rightarrow> fail e | Inr x \<Rightarrow> k x)"

section \<open>Running a process among others\<close>

text \<open>
  \<open>finishes p db r db'\<close>: started when the Inbox is \<open>db\<close>, the process answers \<open>r\<close> and its last step
  leaves \<open>db'\<close>; before each step the others may have moved the Inbox.
\<close>

inductive finishes :: "process \<Rightarrow> inbox_db \<Rightarrow> (failure, outcome) result \<Rightarrow> inbox_db \<Rightarrow> bool" where
  returned: "finishes (Return r) db r db"
| looked: "inbox_run db db1 \<Longrightarrow> finishes (f db1) db1 r db' \<Longrightarrow> finishes (Look f) db r db'"
| committed: "inbox_run db db1 \<Longrightarrow> t db1 = Inr (p, db2) \<Longrightarrow> finishes p db2 r db'
     \<Longrightarrow> finishes (Commit t h) db r db'"
| rolled_back: "inbox_run db db1 \<Longrightarrow> t db1 = Inl e \<Longrightarrow> finishes (h e) db1 r db'
     \<Longrightarrow> finishes (Commit t h) db r db'"

inductive_cases finishes_Return: "finishes (Return r) db r' db'"
inductive_cases finishes_Look: "finishes (Look f) db r db'"
inductive_cases finishes_Commit: "finishes (Commit t h) db r db'"

lemma finishes_simps [simp]:
  "finishes (throw m) db r db' \<longleftrightarrow> r = err (Thrown m) \<and> db' = db"
  "finishes (fail e) db r db' \<longleftrightarrow> r = err (Store_failure (Refused e)) \<and> db' = db"
  "finishes (answer v) db r db' \<longleftrightarrow> r = ok v \<and> db' = db"
  by (auto simp: throw_def fail_def answer_def elim: finishes_Return intro: returned)

lemma finishes_commit:
  "finishes (commit t k) db r db' \<longleftrightarrow>
     (\<exists>db1. inbox_run db db1 \<and>
        ((\<exists>x db2. t db1 = Inr (x, db2) \<and> finishes (k x) db2 r db')
         \<or> (\<exists>e. t db1 = Inl e \<and> r = err (Store_failure e) \<and> db' = db1)))"
  (is "?l = ?r")
proof
  assume ?l
  then show ?r
    unfolding commit_def
    by (elim finishes_Commit) (force simp: seq_def ret_def split: sum.splits elim: finishes_Return)+
next
  assume ?r
  then obtain db1 where db1: "inbox_run db db1"
    and "(\<exists>x db2. t db1 = Inr (x, db2) \<and> finishes (k x) db2 r db')
         \<or> (\<exists>e. t db1 = Inl e \<and> r = err (Store_failure e) \<and> db' = db1)" by blast
  then show ?l
    unfolding commit_def
    by (elim disjE exE conjE)
      (auto simp: seq_def ret_def intro: committed[OF db1] rolled_back[OF db1] returned)
qed

lemma finishes_Look_iff: "finishes (Look f) db r db' \<longleftrightarrow> (\<exists>db1. inbox_run db db1 \<and> finishes (f db1) db1 r db')"
  by (auto elim: finishes_Look intro: looked)

text \<open>A process has finitely many steps on every path, so it always comes to its answer.\<close>

lemma every_process_finishes: "\<exists>r db'. finishes p db r db'"
proof (induction p arbitrary: db)
  case (Return r)
  then show ?case by (blast intro: returned)
next
  case (Look f)
  then show ?case by (blast intro: looked)
next
  case (Commit t h)
  show ?case
  proof (cases "t db")
    case (Inl e)
    with Commit.IH(2)[of "h e"] show ?thesis by (blast intro: rolled_back)
  next
    case (Inr y)
    then obtain p u where y: "t db = Inr (p, u)" by (cases y) simp
    have "t db \<in> range t" by (rule rangeI)
    with y have "\<exists>r db'. finishes p u r db'"
      by (intro Commit.IH(1)[of "t db" "(p, u)" p]) auto
    with y show ?thesis by (blast intro: committed)
  qed
qed

section \<open>Lawful processes\<close>

inductive lawful :: "process \<Rightarrow> bool" where
  lawful_Return: "lawful (Return r)"
| lawful_Look: "(\<And>db. lawful (f db)) \<Longrightarrow> lawful (Look f)"
| lawful_Commit: "admissible c \<Longrightarrow> (\<And>db p db'. t db = Inr (p, db') \<Longrightarrow> perform authorize c db = Inr ((), db'))
     \<Longrightarrow> (\<And>db p db'. t db = Inr (p, db') \<Longrightarrow> lawful p) \<Longrightarrow> (\<And>e. lawful (h e)) \<Longrightarrow> lawful (Commit t h)"

named_theorems lawful_rules

lemma lawful_commit:
  assumes "admissible c" "perform authorize c = forget t" "\<And>x. lawful (k x)"
  shows "lawful (commit t k)"
  unfolding commit_def
  by (rule lawful_Commit[OF assms(1), where authorize = authorize])
    (use assms(2,3) in \<open>auto simp: forget_def seq_ok ret_ok intro: lawful_Return\<close>)

lemma lawful_basic [lawful_rules]:
  "lawful (throw m)" "lawful (fail e)" "lawful (answer r)"
  by (simp_all add: throw_def fail_def answer_def lawful_Return)

lemma lawful_unless_err [lawful_rules]: "(\<And>x. r = Inr x \<Longrightarrow> lawful (k x)) \<Longrightarrow> lawful (unless_err r k)"
  by (auto simp: unless_err_def intro: lawful_basic split: sum.splits)

lemma lawful_if [lawful_rules]: "(b \<Longrightarrow> lawful p) \<Longrightarrow> (\<not> b \<Longrightarrow> lawful q) \<Longrightarrow> lawful (if b then p else q)"
  by simp

lemma lawful_option [lawful_rules]:
  "(v = None \<Longrightarrow> lawful p) \<Longrightarrow> (\<And>x. v = Some x \<Longrightarrow> lawful (k x)) \<Longrightarrow> lawful (case v of None \<Rightarrow> p | Some x \<Rightarrow> k x)"
  by (cases v) simp_all

lemma lawful_sum [lawful_rules]:
  "(\<And>e. v = Inl e \<Longrightarrow> lawful (h e)) \<Longrightarrow> (\<And>x. v = Inr x \<Longrightarrow> lawful (k x))
     \<Longrightarrow> lawful (case v of Inl e \<Rightarrow> h e | Inr x \<Rightarrow> k x)"
  by (cases v) simp_all

lemmas [lawful_rules] = lawful_Look

inductive_cases lawful_LookE: "lawful (Look f)"

lemma lawful_CommitD:
  assumes "lawful (Commit t h)"
  shows "t db = Inr (p, db') \<Longrightarrow> lawful p" "t db = Inr (p, db') \<Longrightarrow> inbox_step db db'" "lawful (h e)"
proof -
  from assms obtain c authorize where c: "admissible c"
    "\<And>db p db'. t db = Inr (p, db') \<Longrightarrow> perform authorize c db = Inr ((), db')"
    "\<And>db p db'. t db = Inr (p, db') \<Longrightarrow> lawful p" "\<And>e. lawful (h e)"
    by (cases rule: lawful.cases) blast+
  show "t db = Inr (p, db') \<Longrightarrow> lawful p" by (rule c(3))
  show "t db = Inr (p, db') \<Longrightarrow> inbox_step db db'" by (rule commits[OF c(1)]) (rule c(2))
  show "lawful (h e)" by (rule c(4))
qed

lemma lawful_finishes:
  assumes "finishes p db r db'" "lawful p"
  shows "inbox_run db db'"
  using assms
proof (induction rule: finishes.induct)
  case (looked db db1 f r db')
  then show ?case by (auto elim: lawful_LookE)
next
  case (committed db db1 t p db2 r db' h)
  note part = lawful_CommitD(1,2)[OF committed.prems committed.hyps(2)]
  from committed.hyps(1) part(2) have "inbox_run db db2" by (rule rtranclp.rtrancl_into_rtrancl)
  also have "inbox_run db2 db'" by (rule committed.IH[OF part(1)])
  finally show ?case .
next
  case (rolled_back db db1 t e h r db')
  from lawful_CommitD(3)[OF rolled_back.prems] rolled_back show ?case by simp
qed simp_all

end
