(* ===== verification/InboxAccess.thy ===== *)
theory InboxAccess
  imports InboxProcesses
begin

text \<open>
  Who may see and handle what in the Inbox: permissions and their scope
  (\<^verbatim>\<open>src/src/shared/domain/permissions.ts\<close>, \<^verbatim>\<open>property-access.ts\<close>) and the guards the use cases of
  the Inbox share (\<^verbatim>\<open>src/src/contexts/inbox/application/inbox-access.ts\<close>). A permission is its name.
  The permission table and the properties a person is assigned to come from the identity context.

  The guards come before the revision fence on purpose: a conflict tells the caller the revision and
  status of the item. SystemClaims states that of every command on one item.
\<close>

section \<open>Permissions\<close>

datatype role = Account_admin | Property_manager | Member_role

datatype data_scope = Organization_scope | Assigned_scope | No_scope

record auth_context =
  ctx_userId :: string
  ctx_organizationId :: string
  ctx_role :: role
  effectivePermissions :: "string list option"
  scopeByPermission :: "(string \<Rightarrow> data_scope option) option"

record staff_api =
  role_table :: "(role \<Rightarrow> string \<Rightarrow> bool) option"
  getAccessiblePropertyIds :: "string \<Rightarrow> string \<Rightarrow> bool \<Rightarrow> (string, string list option) result"

definition check :: "(failure, 'a) result \<Rightarrow> ('a \<Rightarrow> (failure, 'b) result) \<Rightarrow> (failure, 'b) result" where
  "check r k = (case r of Inl e \<Rightarrow> err e | Inr x \<Rightarrow> k x)"

definition refusal :: "inbox_error_code \<Rightarrow> string \<Rightarrow> failure" where
  "refusal code message = Store_failure (Refused (inboxError code message []))"

definition can :: "staff_api \<Rightarrow> role \<Rightarrow> string \<Rightarrow> (failure, bool) result" where
  "can api role permission =
     (case role_table api of
        None \<Rightarrow> err (Thrown ''permissions_not_initialized'')
      | Some table \<Rightarrow> ok (table role permission))"

definition canForContext :: "staff_api \<Rightarrow> auth_context \<Rightarrow> string \<Rightarrow> (failure, bool) result" where
  "canForContext api ctx permission =
     (case effectivePermissions ctx of
        Some ps \<Rightarrow> ok (permission \<in> set ps)
      | None \<Rightarrow> can api (ctx_role ctx) permission)"

fun BUILT_IN_SCOPE_FOR_ROLE :: "role \<Rightarrow> data_scope" where
  "BUILT_IN_SCOPE_FOR_ROLE Account_admin = Organization_scope"
| "BUILT_IN_SCOPE_FOR_ROLE Property_manager = Assigned_scope"
| "BUILT_IN_SCOPE_FOR_ROLE Member_role = Assigned_scope"

definition scopeForPermission :: "auth_context \<Rightarrow> string \<Rightarrow> data_scope" where
  "scopeForPermission ctx permission =
     (case scopeByPermission ctx of
        Some scopes \<Rightarrow> (case scopes permission of Some s \<Rightarrow> s | None \<Rightarrow> No_scope)
      | None \<Rightarrow> BUILT_IN_SCOPE_FOR_ROLE (ctx_role ctx))"

definition lookup :: "staff_api \<Rightarrow> auth_context \<Rightarrow> (failure, string list option) result" where
  "lookup api ctx =
     (case getAccessiblePropertyIds api (ctx_organizationId ctx) (ctx_userId ctx) False of
        Inl e \<Rightarrow> err (Thrown e) | Inr ps \<Rightarrow> ok ps)"

definition isPropertyAccessibleForPermission ::
  "staff_api \<Rightarrow> auth_context \<Rightarrow> string \<Rightarrow> string \<Rightarrow> (failure, bool) result" where
  "isPropertyAccessibleForPermission api ctx permission property =
     (case scopeForPermission ctx permission of
        Organization_scope \<Rightarrow> ok True
      | No_scope \<Rightarrow> ok False
      | Assigned_scope \<Rightarrow> check (lookup api ctx)
          (\<lambda>accessible. ok (accessible = None \<or> property \<in> set (the accessible))))"

definition getAccessiblePropertyIdsForPermission ::
  "staff_api \<Rightarrow> auth_context \<Rightarrow> string \<Rightarrow> (failure, string list option) result" where
  "getAccessiblePropertyIdsForPermission api ctx permission =
     (case scopeForPermission ctx permission of
        Organization_scope \<Rightarrow> ok None
      | No_scope \<Rightarrow> ok (Some [])
      | Assigned_scope \<Rightarrow> lookup api ctx)"

section \<open>Guards of the Inbox\<close>

datatype access_kind = Read_access | Handle_access

fun SOURCE_READ_PERMISSION :: "source_type \<Rightarrow> string" where
  "SOURCE_READ_PERMISSION Src_review = ''review.read''"
| "SOURCE_READ_PERMISSION Src_feedback = ''feedback.read''"

fun SOURCE_HANDLE_PERMISSION :: "source_type \<Rightarrow> string" where
  "SOURCE_HANDLE_PERMISSION Src_review = ''review.read''"
| "SOURCE_HANDLE_PERMISSION Src_feedback = ''feedback.handle''"

definition both :: "(failure, bool) result \<Rightarrow> (failure, bool) result \<Rightarrow> (failure, bool) result" where
  "both a b = check a (\<lambda>x. if x then b else ok False)"

definition canReadInboxSource :: "staff_api \<Rightarrow> auth_context \<Rightarrow> source_type \<Rightarrow> (failure, bool) result" where
  "canReadInboxSource api ctx ty =
     both (canForContext api ctx ''inbox.read'') (canForContext api ctx (SOURCE_READ_PERMISSION ty))"

definition canHandleInboxSource :: "staff_api \<Rightarrow> auth_context \<Rightarrow> source_type \<Rightarrow> (failure, bool) result" where
  "canHandleInboxSource api ctx ty =
     both (canForContext api ctx ''inbox.write'') (canForContext api ctx (SOURCE_HANDLE_PERMISSION ty))"

definition intersectPropertyScopes :: "string list option \<Rightarrow> string list option \<Rightarrow> string list option" where
  "intersectPropertyScopes base source =
     (case base of
        None \<Rightarrow> source
      | Some ps \<Rightarrow> (case source of None \<Rightarrow> base | Some qs \<Rightarrow> Some (filter (\<lambda>p. p \<in> set qs) ps)))"

record source_scope =
  sco_sourceType :: source_type
  sco_propertyIds :: "string list option"

definition base_permission :: "access_kind \<Rightarrow> string" where
  "base_permission kind = (if kind = Read_access then ''inbox.read'' else ''inbox.write'')"

definition source_permission :: "access_kind \<Rightarrow> source_type \<Rightarrow> string" where
  "source_permission kind ty =
     (if kind = Read_access then SOURCE_READ_PERMISSION ty else SOURCE_HANDLE_PERMISSION ty)"

definition source_scope_of ::
  "staff_api \<Rightarrow> auth_context \<Rightarrow> access_kind \<Rightarrow> string list option \<Rightarrow> source_type
     \<Rightarrow> (failure, source_scope list) result" where
  "source_scope_of api ctx kind base ty =
     check (canForContext api ctx (source_permission kind ty))
       (\<lambda>granted. if \<not> granted then ok []
        else check (getAccessiblePropertyIdsForPermission api ctx (source_permission kind ty))
          (\<lambda>scope. let ps = intersectPropertyScopes base scope in
            ok (if ps = Some [] then [] else [\<lparr>sco_sourceType = ty, sco_propertyIds = ps\<rparr>])))"

definition resolveInboxSourceScopes ::
  "staff_api \<Rightarrow> auth_context \<Rightarrow> access_kind \<Rightarrow> (failure, source_scope list) result" where
  "resolveInboxSourceScopes api ctx kind =
     check (canForContext api ctx (base_permission kind))
       (\<lambda>granted. if \<not> granted then ok []
        else check (getAccessiblePropertyIdsForPermission api ctx (base_permission kind))
          (\<lambda>base. check (source_scope_of api ctx kind base Src_review)
            (\<lambda>reviews. check (source_scope_of api ctx kind base Src_feedback)
              (\<lambda>feedback. ok (reviews @ feedback)))))"

definition isInboxSourcePropertyWithinScopes :: "source_scope list \<Rightarrow> source_type \<Rightarrow> string \<Rightarrow> bool" where
  "isInboxSourcePropertyWithinScopes scopes ty property =
     list_ex (\<lambda>s. sco_sourceType s = ty
        \<and> (case sco_propertyIds s of None \<Rightarrow> True | Some ps \<Rightarrow> property \<in> set ps)) scopes"

definition assertPropertyAccessible ::
  "staff_api \<Rightarrow> auth_context \<Rightarrow> string \<Rightarrow> string \<Rightarrow> (failure, unit) result" where
  "assertPropertyAccessible api ctx permission property =
     check (isPropertyAccessibleForPermission api ctx permission property)
       (\<lambda>accessible. if accessible then ok ()
        else err (Store_failure (Refused (inboxError IE_forbidden ''No access to this property''
               [(''propertyId'', JStr property)]))))"

definition assertInboxSourcePropertyAccessible ::
  "staff_api \<Rightarrow> auth_context \<Rightarrow> access_kind \<Rightarrow> source_type \<Rightarrow> string \<Rightarrow> (failure, unit) result" where
  "assertInboxSourcePropertyAccessible api ctx kind ty property =
     check (assertPropertyAccessible api ctx (base_permission kind) property)
       (\<lambda>_. assertPropertyAccessible api ctx (source_permission kind ty) property)"

definition nullable :: "string option \<Rightarrow> jsval" where
  "nullable v = (case v of None \<Rightarrow> JNull | Some s \<Rightarrow> JStr s)"

definition assertExpectedCommandRevision :: "inbox_item \<Rightarrow> number \<Rightarrow> (failure, unit) result" where
  "assertExpectedCommandRevision item expected =
     (if num_eq (commandRevision item) expected then ok ()
      else err (Store_failure (Refused (inboxError IE_revision_conflict
             ''Inbox item changed; reload current state''
             [(''expectedCommandRevision'', JNum expected),
              (''currentCommandRevision'', JNum (commandRevision item)),
              (''currentStatus'', JStr (status_text (item_status item))),
              (''currentAssignedTo'', nullable (assignedTo item)),
              (''currentEscalated'', JBool (isEscalated item \<and> escalationResolvedAt item = None))]))))"

section \<open>Loading the item of a command\<close>

definition checked :: "(failure, 'a) result \<Rightarrow> ('a \<Rightarrow> process) \<Rightarrow> process" where
  "checked r k = (case r of Inl e \<Rightarrow> Return (err e) | Inr x \<Rightarrow> k x)"

definition granted_or :: "(failure, bool) result \<Rightarrow> string \<Rightarrow> process \<Rightarrow> process" where
  "granted_or r message k =
     checked r (\<lambda>granted. if granted then k else Return (err (refusal IE_forbidden message)))"

definition loadInboxItemOrThrow :: "string \<Rightarrow> string \<Rightarrow> (inbox_item \<Rightarrow> process) \<Rightarrow> process" where
  "loadInboxItemOrThrow k org next =
     Look (\<lambda>db. case findById k org db of
        None \<Rightarrow> fail (inboxError IE_not_found ''Inbox item not found'' [(''inboxItemId'', JStr k)])
      | Some item \<Rightarrow> next item)"

definition loadItemForCommand ::
  "staff_api \<Rightarrow> string \<Rightarrow> number \<Rightarrow> auth_context \<Rightarrow> (inbox_item \<Rightarrow> process) \<Rightarrow> process" where
  "loadItemForCommand api k expected ctx next =
     granted_or (canForContext api ctx ''inbox.write'') ''No inbox write permission''
       (loadInboxItemOrThrow k (ctx_organizationId ctx)
         (\<lambda>item. granted_or (canHandleInboxSource api ctx (item_sourceType item))
             ''No permission to handle this inbox source''
           (checked (assertInboxSourcePropertyAccessible api ctx Handle_access (item_sourceType item)
               (item_propertyId item))
             (\<lambda>_. checked (assertExpectedCommandRevision item expected) (\<lambda>_. next item)))))"

lemma lawful_checked [lawful_rules]: "(\<And>x. r = Inr x \<Longrightarrow> lawful (k x)) \<Longrightarrow> lawful (checked r k)"
  by (auto simp: checked_def intro: lawful_Return split: sum.splits)

lemma lawful_granted [lawful_rules]: "lawful p \<Longrightarrow> lawful (granted_or b message p)"
  by (auto simp: granted_or_def checked_def intro: lawful_Return split: sum.splits)

lemma lawful_loadInboxItem [lawful_rules]:
  "(\<And>item. lawful (next item)) \<Longrightarrow> lawful (loadInboxItemOrThrow k org next)"
  unfolding loadInboxItemOrThrow_def by (intro lawful_rules)

lemma lawful_loadItem [lawful_rules]:
  "(\<And>item. lawful (next item)) \<Longrightarrow> lawful (loadItemForCommand api k expected ctx next)"
  unfolding loadItemForCommand_def by (intro lawful_rules)

section \<open>What an error tells\<close>

text \<open>The caller may handle the source at the property: both permissions, each within its own scope.\<close>

definition in_scope :: "staff_api \<Rightarrow> auth_context \<Rightarrow> source_type \<Rightarrow> string \<Rightarrow> bool" where
  "in_scope api ctx ty property =
     (canHandleInboxSource api ctx ty = ok True
      \<and> isPropertyAccessibleForPermission api ctx ''inbox.write'' property = ok True
      \<and> isPropertyAccessibleForPermission api ctx (SOURCE_HANDLE_PERMISSION ty) property = ok True)"

text \<open>An answer that carries nothing of the item: the caller is told to stay away, or that a service failed.\<close>

definition withholds :: "(failure, outcome) result \<Rightarrow> bool" where
  "withholds r =
     (case r of
        Inl (Thrown _) \<Rightarrow> True
      | Inl (Store_failure (Refused e)) \<Rightarrow> ie_code e \<in> {IE_forbidden, IE_not_found, IE_assignment_not_allowed}
      | _ \<Rightarrow> False)"

lemma withholds_simps [simp]:
  "withholds (err (Thrown m))" "withholds (err (refusal IE_forbidden m))"
  "withholds (err (Store_failure (Refused (inboxError IE_forbidden m c))))"
  "withholds (err (Store_failure (Refused (inboxError IE_not_found m c))))"
  "withholds (err (Store_failure (Refused (inboxError IE_assignment_not_allowed m c))))"
  by (simp_all add: withholds_def refusal_def inboxError_def)

lemma assert_accessible_ok:
  "assertPropertyAccessible api ctx permission property = Inr u
     \<longleftrightarrow> isPropertyAccessibleForPermission api ctx permission property = ok True"
  by (auto simp: assertPropertyAccessible_def check_def split: sum.splits)

lemma scope_checked:
  "canHandleInboxSource api ctx ty = ok True
     \<Longrightarrow> assertInboxSourcePropertyAccessible api ctx Handle_access ty property = Inr u \<Longrightarrow> in_scope api ctx ty property"
  by (auto simp: in_scope_def assertInboxSourcePropertyAccessible_def check_def assert_accessible_ok
      base_permission_def source_permission_def split: sum.splits)

text \<open>The guards withhold: what they throw says nothing of the item.\<close>

definition discreet :: "(failure, 'a) result \<Rightarrow> bool" where
  "discreet r = (case r of Inl e \<Rightarrow> withholds (err e) | Inr _ \<Rightarrow> True)"

lemma discreet_check [intro]: "discreet r \<Longrightarrow> (\<And>x. r = Inr x \<Longrightarrow> discreet (k x)) \<Longrightarrow> discreet (check r k)"
  by (auto simp: discreet_def check_def split: sum.splits)

lemma discreet_ok [simp]: "discreet (ok x)"
  by (simp add: discreet_def)

lemma discreet_guards [simp]:
  "discreet (canForContext api ctx permission)" "discreet (canHandleInboxSource api ctx ty)"
  "discreet (both (canForContext api ctx p) (canForContext api ctx q))"
  "discreet (both (canForContext api ctx p) (canHandleInboxSource api ctx ty))"
  "discreet (assertPropertyAccessible api ctx permission property)"
  "discreet (assertInboxSourcePropertyAccessible api ctx kind ty property)"
proof -
  show can: "discreet (canForContext api ctx permission)" for permission
    by (simp add: discreet_def canForContext_def can_def split: option.splits)
  show both: "discreet (both (canForContext api ctx p) (canForContext api ctx q))" for p q
    unfolding both_def by (intro discreet_check) (simp_all add: can)
  then show handle: "discreet (canHandleInboxSource api ctx ty)" for ty
    unfolding canHandleInboxSource_def .
  show "discreet (both (canForContext api ctx p) (canHandleInboxSource api ctx ty))"
    unfolding both_def by (intro discreet_check) (simp_all add: can handle)
  have "discreet (isPropertyAccessibleForPermission api ctx permission property)" for permission
    by (auto simp: isPropertyAccessibleForPermission_def lookup_def discreet_def check_def
        split: data_scope.splits sum.splits)
  then show access: "discreet (assertPropertyAccessible api ctx permission property)" for permission
    unfolding assertPropertyAccessible_def by (intro discreet_check) (simp_all add: discreet_def)
  show "discreet (assertInboxSourcePropertyAccessible api ctx kind ty property)"
    unfolding assertInboxSourcePropertyAccessible_def by (intro discreet_check access)
qed

lemma finishes_checked:
  "finishes (checked g k) db r db' \<Longrightarrow> discreet g \<Longrightarrow> withholds r \<or> (\<exists>x. g = Inr x \<and> finishes (k x) db r db')"
  by (auto simp: checked_def discreet_def elim!: finishes_Return split: sum.splits)

lemma finishes_granted:
  "finishes (granted_or g message p) db r db' \<Longrightarrow> discreet g
     \<Longrightarrow> withholds r \<or> (g = ok True \<and> finishes p db r db')"
  unfolding granted_or_def by (drule (1) finishes_checked) (auto elim!: finishes_Return split: if_splits)

lemma finishes_load:
  "finishes (loadInboxItemOrThrow k org next) db r db'
     \<Longrightarrow> withholds r \<or> (\<exists>db1 item. inbox_run db db1 \<and> findById k org db1 = Some item \<and> finishes (next item) db1 r db')"
  by (auto simp: loadInboxItemOrThrow_def finishes_Look_iff split: option.splits)

lemma loaded_in_scope:
  assumes "finishes (loadItemForCommand api k expected ctx next) db r db'" "\<not> withholds r"
  shows "\<exists>db1 item. inbox_run db db1 \<and> findById k (ctx_organizationId ctx) db1 = Some item
    \<and> in_scope api ctx (item_sourceType item) (item_propertyId item)"
proof -
  from finishes_granted[OF assms(1)[unfolded loadItemForCommand_def] discreet_guards(1)] assms(2)
  have loaded: "finishes (loadInboxItemOrThrow k (ctx_organizationId ctx) (\<lambda>item.
      granted_or (canHandleInboxSource api ctx (item_sourceType item)) ''No permission to handle this inbox source''
        (checked (assertInboxSourcePropertyAccessible api ctx Handle_access (item_sourceType item) (item_propertyId item))
          (\<lambda>_. checked (assertExpectedCommandRevision item expected) (\<lambda>_. next item))))) db r db'"
    by blast
  from finishes_load[OF loaded] assms(2)
  obtain db1 item where item: "inbox_run db db1" "findById k (ctx_organizationId ctx) db1 = Some item"
    and rest: "finishes (granted_or (canHandleInboxSource api ctx (item_sourceType item))
      ''No permission to handle this inbox source''
      (checked (assertInboxSourcePropertyAccessible api ctx Handle_access (item_sourceType item) (item_propertyId item))
        (\<lambda>_. checked (assertExpectedCommandRevision item expected) (\<lambda>_. next item)))) db1 r db'"
    by blast
  from finishes_granted[OF rest discreet_guards(2)] assms(2)
  have handles: "canHandleInboxSource api ctx (item_sourceType item) = ok True"
    and rest2: "finishes (checked (assertInboxSourcePropertyAccessible api ctx Handle_access
      (item_sourceType item) (item_propertyId item))
        (\<lambda>_. checked (assertExpectedCommandRevision item expected) (\<lambda>_. next item))) db1 r db'"
    by blast+
  from finishes_checked[OF rest2 discreet_guards(6)] assms(2)
  obtain u where "assertInboxSourcePropertyAccessible api ctx Handle_access (item_sourceType item)
    (item_propertyId item) = Inr u" by blast
  from scope_checked[OF handles this] item show ?thesis by blast
qed

end
