(* ===== verification/InboxConsumers.thy ===== *)
theory InboxConsumers
  imports InboxProcesses
begin

text \<open>
  The durable consumers of the Inbox: \<^verbatim>\<open>src/src/contexts/inbox/infrastructure/outbox-consumers.ts\<close>,
  \<^verbatim>\<open>guest-feedback-outbox-consumers.ts\<close> and \<^verbatim>\<open>property-lifecycle-outbox-consumers.ts\<close>. A payload is
  cast, not parsed: its record has the fields the handler reads, a date as \<^verbatim>\<open>new Date(...)\<close> gives it.

  The authorities of Review hold a fence while the callback runs; each is a function of the payload
  that answers the permit, or \<open>None\<close> when the event is obsolete. Logging and the registration with
  the dispatcher are left out.
\<close>

section \<open>Events\<close>

record 'p consumer_event =
  ev_eventId :: string
  ev_organizationId :: string
  ev_propertyId :: "string option"
  ev_occurredAt :: "date option"
  payload :: 'p

record review_payload =
  rp_reviewId :: string
  rp_organizationId :: string
  rp_propertyId :: string

record projection_payload = review_payload +
  rp_sourceEpoch :: number
  rp_sourceRevision :: number

record transition_payload = projection_payload +
  rp_analysisSequence :: number
  rp_change :: source_content_state
  rp_occurredAt :: date

record observed_payload = review_payload +
  op_observationRevision :: number
  op_sourceEpoch :: number
  op_materialReviewRevision :: number
  op_change :: reply_change
  op_resolution :: reading_resolution
  op_occurredAt :: date

record feedback_payload =
  fp_feedbackId :: string
  fp_organizationId :: string
  fp_propertyId :: string
  fp_occurredAt :: date
  fp_responseRevision :: "number option"

record retraction_payload = feedback_payload +
  supersedesSourceEventId :: string

record feedback_snippet =
  comment :: "js_string option"
  responseRevision :: "number option"

record consumer_deps =
  projection_authority :: "projection_payload \<Rightarrow> projection_kind \<Rightarrow> inbox_projection option"
  transition_authority :: "transition_payload \<Rightarrow> bool"
  observation_authority :: "observed_payload \<Rightarrow> reply_observation option"
  getFeedbackSnippetById :: "string \<Rightarrow> string \<Rightarrow> feedback_snippet option"
  property_active :: "bool option"
  idGen :: string
  clock :: date
  database_clock :: date

definition inboxItemCreated :: "inbox_item \<Rightarrow> date \<Rightarrow> created_fact" where
  "inboxItemCreated item occurred =
     \<lparr>cf_inboxItemId = item_id item, cf_organizationId = item_organizationId item,
      cf_propertyId = Some (item_propertyId item), cf_sourceType = item_sourceType item,
      cf_sourceId = item_sourceId item, cf_userId = None, cf_source = From_web, cf_occurredAt = occurred\<rparr>"

definition inboxItemStatusChanged ::
  "inbox_item \<Rightarrow> inbox_status \<Rightarrow> inbox_status \<Rightarrow> string option \<Rightarrow> date \<Rightarrow> status_fact" where
  "inboxItemStatusChanged item old new user occurred =
     \<lparr>if_inboxItemId = item_id item, if_organizationId = item_organizationId item,
      if_propertyId = Some (item_propertyId item), if_userId = user, if_source = From_web,
      if_occurredAt = occurred, oldStatus = old, newStatus = new\<rparr>"

definition record_and_answer :: "string \<Rightarrow> string \<Rightarrow> receipt_status \<Rightarrow> delivery \<Rightarrow> process" where
  "record_and_answer event consumer status d = commit (recordReceipt event consumer status) (\<lambda>_. answer (Taken d))"

section \<open>Reviews\<close>

definition ON_REVIEW_CREATED :: string where "ON_REVIEW_CREATED = ''inbox.on-review-created''"
definition ON_REVIEW_EXPIRED :: string where "ON_REVIEW_EXPIRED = ''inbox.on-review-expired''"
definition ON_REVIEW_UPDATED :: string where "ON_REVIEW_UPDATED = ''inbox.on-review-updated''"
definition ON_REVIEW_SOURCE_TRANSITIONED :: string where
  "ON_REVIEW_SOURCE_TRANSITIONED = ''inbox.on-review-source-transitioned''"
definition ON_REPLY_PUBLISHED :: string where "ON_REPLY_PUBLISHED = ''inbox.on-reply-published''"
definition ON_REPLY_OBSERVED :: string where "ON_REPLY_OBSERVED = ''inbox.on-reply-observed''"
definition ON_REPLY_SUBMITTED :: string where "ON_REPLY_SUBMITTED = ''inbox.on-reply-submitted''"

definition attributed :: "string \<Rightarrow> string \<Rightarrow> 'p consumer_event \<Rightarrow> bool" where
  "attributed org property ev = (org = ev_organizationId ev \<and> Some property = ev_propertyId ev)"

definition handleInboxReviewProjection ::
  "consumer_deps \<Rightarrow> projection_payload consumer_event \<Rightarrow> projection_kind \<Rightarrow> string \<Rightarrow> process" where
  "handleInboxReviewProjection deps ev kind consumer =
     (let p = payload ev in
      if \<not> attributed (rp_organizationId p) (rp_propertyId p) ev
      then throw ''Review projection envelope attribution does not match payload''
      else if \<not> is_safe_integer (rp_sourceEpoch p) \<or> num_lt (rp_sourceEpoch p) (nint 0)
              \<or> \<not> is_safe_integer (rp_sourceRevision p) \<or> num_lt (rp_sourceRevision p) (nint 1)
      then throw ''Review projection source version is invalid''
      else
        (case projection_authority deps p kind of
           None \<Rightarrow> record_and_answer (ev_eventId ev) consumer Receipt_obsolete Obsolete
         | Some proj \<Rightarrow>
             unless_err (createInboxItem
                 \<lparr>ci_id = idGen deps, ci_organizationId = rp_organizationId p,
                  ci_propertyId = ip_propertyId proj, ci_sourceType = Src_review,
                  ci_sourceId = rp_reviewId p, ci_sourceDate = ip_sourceDate proj,
                  ci_platform = Some (ip_platform proj), ci_assignedTo = None,
                  ci_clock = observedAt (hd (revisions proj))\<rparr>)
               (\<lambda>item. commit (applyReviewProjectionOnce (database_clock deps)
                     \<lparr>pc_eventId = ev_eventId ev, pc_consumerName = consumer, eventKind = kind,
                      pc_item = item, pc_fact = inboxItemCreated item (item_createdAt item),
                      projection = proj, pc_now = clock deps\<rparr>)
                  (\<lambda>d. answer (Taken d)))))"

definition handleInboxReviewCreated :: "consumer_deps \<Rightarrow> projection_payload consumer_event \<Rightarrow> process" where
  "handleInboxReviewCreated deps ev =
     handleInboxReviewProjection deps ev Projection_created ON_REVIEW_CREATED"

definition handleInboxReviewUpdated :: "consumer_deps \<Rightarrow> projection_payload consumer_event \<Rightarrow> process" where
  "handleInboxReviewUpdated deps ev =
     handleInboxReviewProjection deps ev Projection_updated ON_REVIEW_UPDATED"

definition end_of_source :: "string \<Rightarrow> string \<Rightarrow> inbox_item \<Rightarrow> date \<Rightarrow> bool \<Rightarrow> source_transition_command" where
  "end_of_source event consumer item instant close =
     \<lparr>st_eventId = event, st_consumerName = consumer, st_item = item, transitionedAt' = instant,
      closeIfOpen = close, st_closeReason = Some CR_source_ineligible,
      st_closeFact = inboxItemStatusChanged item Open Closed None instant\<rparr>"

text \<open>The old event carries no source version: it may erase copies, but never close.\<close>

definition handleInboxReviewExpired :: "consumer_deps \<Rightarrow> review_payload consumer_event \<Rightarrow> process" where
  "handleInboxReviewExpired deps ev =
     (let p = payload ev in
      Look (\<lambda>db. case findBySource Src_review (rp_reviewId p) (rp_organizationId p) db of
          None \<Rightarrow> record_and_answer (ev_eventId ev) ON_REVIEW_EXPIRED Receipt_applied Delivered
        | Some item \<Rightarrow>
            commit (applyReviewSourceTransitionedOnce
                (end_of_source (ev_eventId ev) ON_REVIEW_EXPIRED item (clock deps) False))
              (\<lambda>_. answer (Taken Delivered))))"

definition handleInboxReviewSourceTransitioned ::
  "consumer_deps \<Rightarrow> transition_payload consumer_event \<Rightarrow> process" where
  "handleInboxReviewSourceTransitioned deps ev =
     (let p = payload ev in
      if \<not> attributed (rp_organizationId p) (rp_propertyId p) ev
      then throw ''Review source transition envelope attribution does not match payload''
      else if get_time (rp_occurredAt p) = NaN
      then throw ''Review source transition occurredAt is invalid''
      else if \<not> transition_authority deps p
      then record_and_answer (ev_eventId ev) ON_REVIEW_SOURCE_TRANSITIONED Receipt_obsolete Obsolete
      else Look (\<lambda>db. case findBySource Src_review (rp_reviewId p) (rp_organizationId p) db of
          None \<Rightarrow> fail (inboxError IE_not_found
                    ''Current Review source transition is waiting for its Inbox item'' [])
        | Some item \<Rightarrow>
            if item_propertyId item \<noteq> rp_propertyId p
            then throw ''Review source transition Property does not match Inbox item''
            else commit (applyReviewSourceTransitionedOnce (end_of_source (ev_eventId ev)
                   ON_REVIEW_SOURCE_TRANSITIONED item (rp_occurredAt p) True))
                 (\<lambda>_. answer (Taken Delivered))))"

section \<open>Replies\<close>

definition handleInboxReplyPublished :: "consumer_deps \<Rightarrow> review_payload consumer_event \<Rightarrow> process" where
  "handleInboxReplyPublished deps ev =
     record_and_answer (ev_eventId ev) ON_REPLY_PUBLISHED Receipt_applied Delivered"

definition handleInboxReplySubmitted :: "consumer_deps \<Rightarrow> review_payload consumer_event \<Rightarrow> process" where
  "handleInboxReplySubmitted deps ev =
     (let p = payload ev;
          receipt = record_and_answer (ev_eventId ev) ON_REPLY_SUBMITTED Receipt_applied Delivered in
      Look (\<lambda>db. case findBySource Src_review (rp_reviewId p) (rp_organizationId p) db of
          None \<Rightarrow> receipt
        | Some item \<Rightarrow>
            if firstReplySubmittedAt item \<noteq> None then receipt
            else
              let submitted = (case ev_occurredAt ev of Some t \<Rightarrow> t | None \<Rightarrow> clock deps) in
              commit (stampReplyMilestones (item_id item) (item_organizationId item)
                  (Some submitted) None submitted)
                (\<lambda>_. receipt)))"

text \<open>A head behind the observation waits, unless the revision only carried it into a new epoch.\<close>

definition head_is_behind :: "handling_head \<Rightarrow> reply_observation \<Rightarrow> bool" where
  "head_is_behind h ob =
     (num_lt (currentSourceRevision h) (ro_materialReviewRevision ob)
      \<and> \<not> (sourceEpochCarryFrom ob = Some (currentSourceRevision h)
           \<and> num_eq (ro_materialReviewRevision ob) (num_add (currentSourceRevision h) (nint 1))))"

definition handleInboxReplyObserved :: "consumer_deps \<Rightarrow> observed_payload consumer_event \<Rightarrow> process" where
  "handleInboxReplyObserved deps ev =
     (let p = payload ev in
      if \<not> attributed (rp_organizationId p) (rp_propertyId p) ev
      then throw ''Reply observation envelope attribution does not match payload''
      else if get_time (op_occurredAt p) = NaN
      then throw ''Reply observation occurredAt is invalid''
      else
        (case observation_authority deps p of
           None \<Rightarrow> record_and_answer (ev_eventId ev) ON_REPLY_OBSERVED Receipt_obsolete Obsolete
         | Some ob \<Rightarrow>
             Look (\<lambda>db. case findBySource Src_review (rp_reviewId p) (rp_organizationId p) db of
               None \<Rightarrow> fail (inboxError IE_not_found
                         ''Current reply observation is waiting for its Review Inbox item'' [])
             | Some item \<Rightarrow>
                 Look (\<lambda>db. case findHead (item_id item) (rp_organizationId p) db of
                   Inl e \<Rightarrow> Return (err (Store_failure e))
                 | Inr None \<Rightarrow> fail (inboxError IE_not_found
                         ''Current reply observation is waiting for its Inbox Handling Cycle'' [])
                 | Inr (Some h) \<Rightarrow>
                     if head_is_behind h ob
                     then fail (inboxError IE_revision_conflict
                         ''Current reply observation is waiting for the Inbox material revision'' [])
                     else if num_lt (ro_materialReviewRevision ob) (currentSourceRevision h)
                     then record_and_answer (ev_eventId ev) ON_REPLY_OBSERVED Receipt_obsolete Obsolete
                     else commit (applyReplyObservedOnce
                         \<lparr>ob_eventId = ev_eventId ev, ob_consumerName = ON_REPLY_OBSERVED, ob_item = item,
                          currentObservation = ob,
                          ob_closeFact = inboxItemStatusChanged item Open Closed None (ro_observedAt ob),
                          ob_reopenFact = inboxItemStatusChanged item Closed Open None (ro_observedAt ob)\<rparr>)
                       (\<lambda>_. answer (Taken Delivered))))))"

section \<open>Private feedback\<close>

definition CONSUMER_NAME :: string where "CONSUMER_NAME = ''inbox.on-guest-feedback-submitted''"
definition RETRACTION_CONSUMER_NAME :: string where
  "RETRACTION_CONSUMER_NAME = ''inbox.on-guest-feedback-retracted''"

definition first_given :: "number option \<Rightarrow> number option \<Rightarrow> number" where
  "first_given a b = (case a of Some n \<Rightarrow> n | None \<Rightarrow> (case b of Some n \<Rightarrow> n | None \<Rightarrow> nint 1))"

definition handleInboxGuestFeedbackSubmitted ::
  "consumer_deps \<Rightarrow> feedback_payload consumer_event \<Rightarrow> process" where
  "handleInboxGuestFeedbackSubmitted deps ev =
     (let p = payload ev;
          gone = record_and_answer (ev_eventId ev) CONSUMER_NAME Receipt_obsolete Obsolete in
      if \<not> attributed (fp_organizationId p) (fp_propertyId p) ev
      then throw ''Guest feedback envelope attribution does not match its payload''
      else if get_time (fp_occurredAt p) = NaN then throw ''Guest feedback occurredAt is invalid''
      else
        (case getFeedbackSnippetById deps (fp_feedbackId p) (fp_organizationId p) of
           None \<Rightarrow> gone
         | Some source \<Rightarrow>
             if comment source = None \<or> comment source = Some [] then gone
             else
               let revision = first_given (fp_responseRevision p) (responseRevision source) in
               if \<not> is_safe_integer revision \<or> num_lt revision (nint 1)
                  \<or> (fp_responseRevision p \<noteq> None \<and> responseRevision source \<noteq> None
                     \<and> fp_responseRevision p \<noteq> responseRevision source)
               then gone
               else
                 unless_err (createInboxItem
                     \<lparr>ci_id = idGen deps, ci_organizationId = fp_organizationId p,
                      ci_propertyId = fp_propertyId p, ci_sourceType = Src_feedback,
                      ci_sourceId = fp_feedbackId p, ci_sourceDate = fp_occurredAt p,
                      ci_platform = None, ci_assignedTo = None, ci_clock = clock deps\<rparr>)
                   (\<lambda>item. commit (applySourceCreatedOnce (database_clock deps)
                       \<lparr>sc_eventId = ev_eventId ev, sc_consumerName = CONSUMER_NAME, sc_item = item,
                        sc_fact = inboxItemCreated item (item_createdAt item),
                        sc_cycleAnchor = Some \<lparr>an_sourceRevision = revision,
                          an_openedReason = First_feedback_submitted, an_actorType = Actor_guest,
                          an_triggerEventId = Some (ev_eventId ev),
                          an_openedAt = Some (fp_occurredAt p), an_responseTarget = Anchored None\<rparr>\<rparr>)
                     (\<lambda>d. answer (Taken d)))))"

text \<open>
  A withdrawal first settles the delivery of the submission it takes back, so that the submission
  either created its item already or never will.
\<close>

definition settleSupersededSubmission :: "string \<Rightarrow> string \<Rightarrow> process \<Rightarrow> process" where
  "settleSupersededSubmission submitted org k =
     (if \<not> UUID_TEXT submitted then k
      else commit (settleSupersededDeliveryRow submitted CONSUMER_NAME org) (\<lambda>_. k))"

record retraction_input =
  ri_eventId :: string
  ri_feedbackId :: string
  ri_organizationId :: string
  ri_propertyId :: string
  ri_supersedes :: string
  ri_responseRevision :: "number option"
  ri_occurredAt :: date

definition applyInboxGuestFeedbackRetraction :: "retraction_input \<Rightarrow> process" where
  "applyInboxGuestFeedbackRetraction input =
     (let revision = first_given (ri_responseRevision input) None in
      if get_time (ri_occurredAt input) = NaN then throw ''Guest feedback occurredAt is invalid''
      else if \<not> is_safe_integer revision \<or> num_lt revision (nint 1)
      then throw ''Guest feedback responseRevision is invalid''
      else settleSupersededSubmission (ri_supersedes input) (ri_organizationId input)
        (Look (\<lambda>db. case findBySource Src_feedback (ri_feedbackId input) (ri_organizationId input) db of
            None \<Rightarrow> record_and_answer (ri_eventId input) RETRACTION_CONSUMER_NAME Receipt_applied Delivered
          | Some item \<Rightarrow>
              if item_propertyId item \<noteq> ri_propertyId input
              then throw ''Guest feedback Inbox scope does not match its source fact''
              else commit (applySourceWithdrawnOnce
                  \<lparr>sw_eventId = ri_eventId input, sw_consumerName = RETRACTION_CONSUMER_NAME,
                   sw_item = item, sw_sourceRevision = Some revision, sw_now = ri_occurredAt input,
                   sw_fact = inboxItemStatusChanged item Open Closed None (ri_occurredAt input)\<rparr>)
                (\<lambda>d. answer (Taken d)))))"

definition handleInboxGuestFeedbackRetracted :: "retraction_payload consumer_event \<Rightarrow> process" where
  "handleInboxGuestFeedbackRetracted ev =
     (let p = payload ev in
      if \<not> attributed (fp_organizationId p) (fp_propertyId p) ev
      then throw ''Guest feedback envelope attribution does not match its payload''
      else applyInboxGuestFeedbackRetraction
        \<lparr>ri_eventId = ev_eventId ev, ri_feedbackId = fp_feedbackId p,
         ri_organizationId = fp_organizationId p, ri_propertyId = fp_propertyId p,
         ri_supersedes = supersedesSourceEventId p, ri_responseRevision = fp_responseRevision p,
         ri_occurredAt = fp_occurredAt p\<rparr>)"

section \<open>Properties\<close>

definition ON_PROPERTY_ARCHIVED :: string where "ON_PROPERTY_ARCHIVED = ''inbox.on-property-archived''"

text \<open>The payload is \<open>None\<close> when it fails its schema.\<close>

definition handleInboxPropertyArchived ::
  "consumer_deps \<Rightarrow> (string \<times> string) option consumer_event \<Rightarrow> process" where
  "handleInboxPropertyArchived deps ev =
     (case payload ev of
        None \<Rightarrow> throw ''Property archive envelope attribution does not match its payload''
      | Some (org, property) \<Rightarrow>
          if \<not> attributed org property ev
          then throw ''Property archive envelope attribution does not match its payload''
          else commit (cancelArchivedPropertyRemindersOnce (property_active deps) (ev_eventId ev)
                 ON_PROPERTY_ARCHIVED org property (clock deps))
               (\<lambda>d. answer (Taken d)))"

end
