(* ===== verification/InboxUseCases.thy ===== *)
theory InboxUseCases
  imports InboxAccess InboxConsumers
begin

text \<open>
  What a person does in the Inbox: \<^verbatim>\<open>src/src/contexts/inbox/application/use-cases\<close>
  (\<^verbatim>\<open>assign-inbox-item\<close>, \<^verbatim>\<open>escalate-inbox-item\<close>, \<^verbatim>\<open>resolve-escalation\<close>, \<^verbatim>\<open>set-inbox-item-priority\<close>,
  \<^verbatim>\<open>add-inbox-note\<close>, \<^verbatim>\<open>mark-feedback-handled\<close>, \<^verbatim>\<open>correct-feedback-handling-outcome\<close>,
  \<^verbatim>\<open>update-inbox-status\<close>, \<^verbatim>\<open>bulk-assign-inbox-items\<close>, \<^verbatim>\<open>bulk-update-inbox-status\<close>). Each loads the item,
  checks who asks and what he has seen, and commits one command of the store. The cycle store always
  offers the head of any source, so the older read of a Review's head is not modelled.

  The permit of Review is a function of what is expected of it, or \<open>None\<close> when the source moved on.
\<close>

section \<open>What a use case is given\<close>

record target_expectation =
  te_organizationId :: string
  te_propertyId :: string
  te_reviewId :: string
  te_sourceEpoch :: number

record use_case_deps =
  staffPublicApi :: staff_api
  authorization :: authority
  uc_clock :: date
  uc_idGen :: string
  uc_database_clock :: date
  getReviewSourceEpoch :: "string \<Rightarrow> string \<Rightarrow> number option"
  withExactCurrent :: "target_expectation \<Rightarrow> review_authority option"
  withExactCurrentBatch :: "target_expectation list \<Rightarrow> review_authority list option"
  fact_ids :: "string \<Rightarrow> string"

definition itemFact :: "inbox_item \<Rightarrow> string \<Rightarrow> date \<Rightarrow> item_fact" where
  "itemFact item user occurred =
     \<lparr>if_inboxItemId = item_id item, if_organizationId = item_organizationId item,
      if_propertyId = Some (item_propertyId item), if_userId = Some user, if_source = From_web,
      if_occurredAt = occurred\<rparr>"

section \<open>Assignment\<close>

definition touchesAnotherAssignee :: "string option \<Rightarrow> inbox_item \<Rightarrow> string \<Rightarrow> bool" where
  "touchesAnotherAssignee target item user =
     ((target \<noteq> None \<and> target \<noteq> Some user) \<or> (assignedTo item \<noteq> None \<and> assignedTo item \<noteq> Some user))"

definition assignmentEvent :: "inbox_item \<Rightarrow> string option \<Rightarrow> string \<Rightarrow> date \<Rightarrow> assignment_event option" where
  "assignmentEvent item target user instant =
     (let f = assignment_fact_for item (Some user) target (assignedTo item) None instant in
      if \<not> falsy_id target then Some (Assigned f)
      else if \<not> falsy_id (assignedTo item)
      then Some (Unassigned (f\<lparr>af_assignedTo := None\<rparr>)) else None)"

definition assignInboxItem ::
  "use_case_deps \<Rightarrow> string \<Rightarrow> string option \<Rightarrow> number \<Rightarrow> auth_context \<Rightarrow> process" where
  "assignInboxItem deps k target expected ctx =
     (let api = staffPublicApi deps in
      granted_or (canForContext api ctx ''inbox.write'') ''No inbox write permission''
        (loadInboxItemOrThrow k (ctx_organizationId ctx)
          (\<lambda>item. granted_or (canHandleInboxSource api ctx (item_sourceType item))
              ''No permission to handle this inbox source''
            (let others = touchesAnotherAssignee target item (ctx_userId ctx) in
             checked (if others then canForContext api ctx ''inbox.manage'' else ok True)
               (\<lambda>managed. if \<not> managed
                  then fail (inboxError IE_assignment_not_allowed
                         ''Managing another assignee is not available for this role'' [])
                else
                  checked (assertInboxSourcePropertyAccessible api ctx Handle_access
                      (item_sourceType item) (item_propertyId item))
                    (\<lambda>_. checked (if others
                         then assertPropertyAccessible api ctx ''inbox.manage'' (item_propertyId item) else ok ())
                      (\<lambda>_. checked (assertExpectedCommandRevision item expected)
                        (\<lambda>_. if assignedTo item = target then answer (Item item)
                         else commit (on_item (item_id item) (assign (authorization deps) item target
                                (assignmentEvent item target (ctx_userId ctx) (uc_clock deps)) (uc_clock deps)))
                              (\<lambda>saved. answer (Item saved))))))))))"

section \<open>Escalation, priority, notes\<close>

definition escalateInboxItem :: "use_case_deps \<Rightarrow> string \<Rightarrow> number \<Rightarrow> auth_context \<Rightarrow> process" where
  "escalateInboxItem deps k expected ctx =
     loadItemForCommand (staffPublicApi deps) k expected ctx
       (\<lambda>item. if isEscalated item \<and> escalationResolvedAt item = None then answer (Item item)
        else commit (on_item (item_id item) (escalate (authorization deps) item (ctx_userId ctx)
               (itemFact item (ctx_userId ctx) (uc_clock deps)) (uc_clock deps)))
             (\<lambda>saved. answer (Item saved)))"

definition resolveEscalation' :: "use_case_deps \<Rightarrow> string \<Rightarrow> number \<Rightarrow> auth_context \<Rightarrow> process" where
  "resolveEscalation' deps k expected ctx =
     loadItemForCommand (staffPublicApi deps) k expected ctx
       (\<lambda>item. if \<not> isEscalated item \<or> escalationResolvedAt item \<noteq> None then answer (Item item)
        else commit (on_item (item_id item) (resolveEscalation (authorization deps) item (ctx_userId ctx)
               (itemFact item (ctx_userId ctx) (uc_clock deps)) (uc_clock deps)))
             (\<lambda>saved. answer (Item saved)))"

definition setInboxItemPriority ::
  "use_case_deps \<Rightarrow> string \<Rightarrow> number \<Rightarrow> inbox_priority option \<Rightarrow> inbox_priority option \<Rightarrow> auth_context \<Rightarrow> process"
where
  "setInboxItemPriority deps k expected seen priority ctx =
     loadItemForCommand (staffPublicApi deps) k expected ctx
       (\<lambda>item. let current = managerPriority item; f = itemFact item (ctx_userId ctx) (uc_clock deps) in
        if current = priority then answer (Item item)
        else if current \<noteq> seen
        then fail (inboxError IE_priority_changed
               ''Someone else changed the priority just now. Check it and choose again.''
               [(''inboxItemId'', JStr (item_id item)),
                (''currentCommandRevision'', JNum (commandRevision item))])
        else commit (on_item (item_id item) (setPriority (authorization deps) item priority (ctx_userId ctx)
               (item_fact.extend f \<lparr>pf_priority = priority, pf_previousPriority = current\<rparr>) (uc_clock deps)))
             (\<lambda>saved. answer (Item saved)))"

definition addInboxNote :: "use_case_deps \<Rightarrow> string \<Rightarrow> js_string \<Rightarrow> number \<Rightarrow> auth_context \<Rightarrow> process" where
  "addInboxNote deps k content expected ctx =
     loadItemForCommand (staffPublicApi deps) k expected ctx
       (\<lambda>item. unless_err (createInboxNote
            \<lparr>cn_id = uc_idGen deps, cn_inboxItemId = k, cn_organizationId = ctx_organizationId ctx,
             cn_userId = ctx_userId ctx, cn_text = content, cn_clock = uc_clock deps\<rparr>)
          (\<lambda>note. commit (on_item (item_id item) (addNote (authorization deps) (uc_database_clock deps) item note
                 (itemFact item (note_userId note) (note_createdAt note))))
             (\<lambda>saved. answer (Note saved))))"

section \<open>Private feedback\<close>

definition feedbackCommand ::
  "use_case_deps \<Rightarrow> inbox_item \<Rightarrow> string \<Rightarrow> js_string option \<Rightarrow> auth_context \<Rightarrow> feedback_command" where
  "feedbackCommand deps item out note ctx =
     \<lparr>fc_item = item, fc_outcomeId = uc_idGen deps, fc_outcome = out, fc_internalNote = note,
      fc_actorUserId = ctx_userId ctx, fc_recordedAt = uc_clock deps\<rparr>"

text \<open>What the two feedback commands share before the store.\<close>

definition loadFeedbackForCommand ::
  "staff_api \<Rightarrow> string \<Rightarrow> number \<Rightarrow> string \<Rightarrow> string \<Rightarrow> auth_context \<Rightarrow> (inbox_item \<Rightarrow> process) \<Rightarrow> process" where
  "loadFeedbackForCommand api k expected forbidden elsewhere ctx next =
     granted_or (both (canForContext api ctx ''inbox.write'') (canHandleInboxSource api ctx Src_feedback))
         forbidden
       (loadInboxItemOrThrow k (ctx_organizationId ctx)
         (\<lambda>item. checked (assertInboxSourcePropertyAccessible api ctx Handle_access Src_feedback
               (item_propertyId item))
           (\<lambda>_. checked (assertExpectedCommandRevision item expected)
             (\<lambda>_. if item_sourceType item \<noteq> Src_feedback
                  then fail (inboxError IE_invalid_input elsewhere []) else next item))))"

definition markFeedbackHandled ::
  "use_case_deps \<Rightarrow> string \<Rightarrow> feedback_expectation \<Rightarrow> string \<Rightarrow> js_string option \<Rightarrow> auth_context \<Rightarrow> process"
where
  "markFeedbackHandled deps k expected out note ctx =
     loadFeedbackForCommand (staffPublicApi deps) k (fe_commandRevision expected)
       ''No permission to handle private feedback''
       ''Mark as handled is available only for private feedback'' ctx
       (\<lambda>item. commit (on_item (item_id item) (markHandled (authorization deps)
              (feedbackCommand deps item out note ctx) expected))
          (\<lambda>(saved, state). answer (Feedback saved state)))"

definition correctFeedbackHandlingOutcome ::
  "use_case_deps \<Rightarrow> string \<Rightarrow> correction_expectation \<Rightarrow> string \<Rightarrow> js_string option \<Rightarrow> auth_context \<Rightarrow> process"
where
  "correctFeedbackHandlingOutcome deps k expected out note ctx =
     loadFeedbackForCommand (staffPublicApi deps) k (fe_commandRevision expected)
       ''No permission to correct private feedback''
       ''Handling outcome correction is available only for private feedback'' ctx
       (\<lambda>item. commit (on_item (item_id item) (correctOutcome (authorization deps)
              (feedbackCommand deps item out note ctx) expected))
          (\<lambda>(saved, state). answer (Feedback saved state)))"

section \<open>Reopening\<close>

definition reopen_txn :: "authority \<Rightarrow> reopen_command \<Rightarrow> inbox_item inbox_txn" where
  "reopen_txn authorize c =
     seq (inspect db_policies) (\<lambda>env. on_item (item_id (rc_item c)) (reopenReviewCycle env authorize c))"

definition reopenUnderResponseTargetAuthority ::
  "use_case_deps \<Rightarrow> inbox_item \<Rightarrow> handling_head \<Rightarrow> reopen_command \<Rightarrow> process" where
  "reopenUnderResponseTargetAuthority deps item head command =
     (case getReviewSourceEpoch deps (item_sourceId item) (item_organizationId item) of
        None \<Rightarrow> fail (inboxError IE_not_found ''Review source is unavailable'' [])
      | Some epoch \<Rightarrow>
          (case withExactCurrent deps \<lparr>te_organizationId = item_organizationId item,
                  te_propertyId = item_propertyId item, te_reviewId = item_sourceId item,
                  te_sourceEpoch = epoch\<rparr> of
             None \<Rightarrow> fail (inboxError IE_revision_conflict ''Review source changed; reload and retry'' [])
           | Some permit \<Rightarrow>
               if \<not> num_eq (ra_materialReviewRevision permit) (currentSourceRevision head)
               then fail (inboxError IE_revision_conflict
                      ''Review Material Revision changed; reload and retry'' [])
               else commit (reopen_txn (authorization deps) (command\<lparr>rc_responseTarget :=
                        Some \<lparr>reviewAuthority = permit, targetStart = Operational_reopen (rc_now command)\<rparr>\<rparr>))
                    (\<lambda>saved. answer (Item saved))))"

definition updateInboxStatus ::
  "use_case_deps \<Rightarrow> string \<Rightarrow> inbox_status \<Rightarrow> number \<Rightarrow> manual_reason option \<Rightarrow> js_string option
     \<Rightarrow> auth_context \<Rightarrow> process" where
  "updateInboxStatus deps k new expected reason explanation ctx =
     loadItemForCommand (staffPublicApi deps) k expected ctx
       (\<lambda>item. if new = Closed
        then fail (inboxError IE_invalid_input
               (if item_sourceType item = Src_review
                then ''Google review work closes after the current reply is observed on Google''
                else ''Use Mark as handled and choose a private-feedback outcome'') [])
        else unless_err (validateTransition (item_status item) new)
          (\<lambda>_. case reason of
             None \<Rightarrow> fail (inboxError IE_invalid_input ''A neutral reopen reason is required'' [])
           | Some why \<Rightarrow>
               Look (\<lambda>db. case findSourceHead (item_id item) (item_organizationId item) db of
                  None \<Rightarrow> fail (inboxError IE_not_found ''Inbox item has no current Handling Cycle'' [])
                | Some head \<Rightarrow>
                    let command = \<lparr>rc_item = item,
                          rc_expected = \<lparr>ex_cycleNumber = currentCycleNumber head,
                            ex_sourceRevision = currentSourceRevision head,
                            ex_stateRevision = stateRevision head\<rparr>,
                          rc_reason = why, rc_explanation = explanation,
                          rc_fact = inboxItemStatusChanged item (item_status item) new
                            (Some (ctx_userId ctx)) (uc_clock deps),
                          rc_factEventId = fact_ids deps (item_id item), rc_now = uc_clock deps,
                          rc_responseTarget = None\<rparr> in
                    if item_sourceType item \<noteq> Src_review
                    then commit (reopen_txn (authorization deps) command) (\<lambda>saved. answer (Item saved))
                    else reopenUnderResponseTargetAuthority deps item head command)))"

section \<open>Several items at once\<close>

definition INBOX_BULK_LIMIT :: nat where "INBOX_BULK_LIMIT = 100"

definition selection_invalid :: "(string \<times> number) list \<Rightarrow> bool" where
  "selection_invalid commands =
     (commands = [] \<or> length commands > INBOX_BULK_LIMIT \<or> \<not> distinct (map fst commands))"

fun check_each :: "('a \<Rightarrow> (failure, 'b) result) \<Rightarrow> 'a list \<Rightarrow> (failure, 'b list) result" where
  "check_each f [] = ok []"
| "check_each f (x # xs) = check (f x) (\<lambda>y. check (check_each f xs) (\<lambda>ys. ok (y # ys)))"

definition item_with_id :: "inbox_item list \<Rightarrow> string \<Rightarrow> inbox_item option" where
  "item_with_id items k = List.find (\<lambda>i. item_id i = k) items"

text \<open>The item is handed on, or the outcome of its command is known already.\<close>

definition selectValidBulkItem ::
  "staff_api \<Rightarrow> auth_context \<Rightarrow> source_scope list \<Rightarrow> inbox_item list \<Rightarrow> string \<times> number
     \<Rightarrow> (failure, reopen_outcome + inbox_item) result" where
  "selectValidBulkItem api ctx scopes items command =
     (case item_with_id items (fst command) of
        None \<Rightarrow> ok (Inl Reopen_unavailable)
      | Some item \<Rightarrow>
          check (canHandleInboxSource api ctx (item_sourceType item))
            (\<lambda>handles. ok
              (if \<not> handles then Inl Reopen_unavailable
               else if \<not> isInboxSourcePropertyWithinScopes scopes (item_sourceType item) (item_propertyId item)
               then Inl Reopen_unavailable
               else if \<not> num_eq (commandRevision item) (snd command) then Inl Reopen_conflict
               else if \<not> is_ok (validateTransition (item_status item) Open) then Inl Already_open
               else Inr item)))"

definition settled_results :: "(string \<times> number) list \<Rightarrow> (reopen_outcome + inbox_item) list
     \<Rightarrow> (string \<times> reopen_outcome) list" where
  "settled_results commands selected =
     List.map_filter (\<lambda>(c, s). case s of Inl r \<Rightarrow> Some (fst c, r) | Inr _ \<Rightarrow> None) (zip commands selected)"

definition valid_items :: "(reopen_outcome + inbox_item) list \<Rightarrow> inbox_item list" where
  "valid_items selected = List.map_filter (\<lambda>s. case s of Inl _ \<Rightarrow> None | Inr i \<Rightarrow> Some i) selected"

definition results_by_id ::
  "(string \<times> number) list \<Rightarrow> (string \<times> reopen_outcome) list \<Rightarrow> (string \<times> reopen_outcome) option list" where
  "results_by_id commands results =
     map (\<lambda>c. map_option (Pair (fst c)) (map_of (rev results) (fst c))) commands"

definition buildBulkStatusEvent ::
  "use_case_deps \<Rightarrow> auth_context \<Rightarrow> inbox_item \<Rightarrow> bulk_entry" where
  "buildBulkStatusEvent deps ctx item =
     \<lparr>be_item = item,
      be_event = status_fact.extend
        ((inboxItemStatusChanged item (item_status item) Open (Some (ctx_userId ctx)) (uc_clock deps))
           \<lparr>if_organizationId := ctx_organizationId ctx\<rparr>)
        \<lparr>sf_bulkId = uc_idGen deps\<rparr>,
      be_eventId = fact_ids deps (item_id item)\<rparr>"

definition stored_outcome :: "string \<times> bulk_outcome \<Rightarrow> string \<times> reopen_outcome" where
  "stored_outcome r = (fst r, if snd r = Reopened then Reopened_item else Reopen_conflict)"

definition commitBulkReopen ::
  "use_case_deps \<Rightarrow> auth_context \<Rightarrow> manual_reason \<Rightarrow> js_string option \<Rightarrow> (string \<times> number) list
     \<Rightarrow> (reopen_outcome + inbox_item) list \<Rightarrow> (string \<Rightarrow> target_anchor option) \<Rightarrow> process" where
  "commitBulkReopen deps ctx why explanation commands selected targets =
     commit (bulkUpdateStatus (authorization deps)
         \<lparr>br_entries = map (buildBulkStatusEvent deps ctx) (valid_items selected), br_reason = why,
          br_explanation = explanation, br_responseTargets = targets\<rparr>)
       (\<lambda>stored. answer (Reopening (length (filter (\<lambda>r. snd r = Reopened) stored))
          (results_by_id commands (settled_results commands selected @ map stored_outcome stored))))"

text \<open>The permit of each Review of the selection, by item.\<close>

definition permit_targets ::
  "date \<Rightarrow> inbox_item list \<Rightarrow> review_authority list \<Rightarrow> (string \<times> target_anchor) list option" where
  "permit_targets instant reviews permits =
     those (map (\<lambda>p. map_option
         (\<lambda>i. (item_id i, \<lparr>reviewAuthority = p, targetStart = Operational_reopen instant\<rparr>))
         (List.find (\<lambda>i. item_sourceId i = ra_reviewId p) reviews)) permits)"

definition bulkReopenReviews ::
  "use_case_deps \<Rightarrow> auth_context \<Rightarrow> inbox_item list \<Rightarrow> ((string \<Rightarrow> target_anchor option) \<Rightarrow> process) \<Rightarrow> process"
where
  "bulkReopenReviews deps ctx reviews next =
     (let epoch = (\<lambda>i. getReviewSourceEpoch deps (item_sourceId i) (ctx_organizationId ctx));
          found = remdups (map item_sourceId (filter (\<lambda>i. epoch i \<noteq> None) reviews)) in
      if length found \<noteq> length reviews
      then fail (inboxError IE_revision_conflict ''A Review source changed; reload and retry'' [])
      else
        (case withExactCurrentBatch deps (map (\<lambda>i. \<lparr>te_organizationId = item_organizationId i,
                te_propertyId = item_propertyId i, te_reviewId = item_sourceId i,
                te_sourceEpoch = the (epoch i)\<rparr>) reviews) of
           None \<Rightarrow> fail (inboxError IE_revision_conflict ''A Review source changed; reload and retry'' [])
         | Some permits \<Rightarrow>
             (case permit_targets (uc_clock deps) reviews permits of
                None \<Rightarrow> fail (inboxError IE_revision_conflict
                          ''Review target authority did not match the bulk selection'' [])
              | Some targets \<Rightarrow> next (map_of (rev targets)))))"

definition bulkUpdateInboxStatus ::
  "use_case_deps \<Rightarrow> (string \<times> number) list \<Rightarrow> manual_reason \<Rightarrow> js_string option \<Rightarrow> auth_context \<Rightarrow> process"
where
  "bulkUpdateInboxStatus deps commands why explanation ctx =
     (let api = staffPublicApi deps in
      granted_or (canForContext api ctx ''inbox.write'') ''No inbox write permission''
        (if selection_invalid commands
         then fail (inboxError IE_invalid_input ''Inbox bulk reopen selection is invalid'' [])
         else
           (case resolveInboxSourceScopes api ctx Handle_access of
              Inl _ \<Rightarrow> answer (Reopening 0 (map (\<lambda>c. Some (fst c, Reopen_unavailable)) commands))
            | Inr scopes \<Rightarrow>
                Look (\<lambda>db. let items = findByIds (map fst commands) (ctx_organizationId ctx) db in
                  checked (check_each (selectValidBulkItem api ctx scopes items) commands)
                    (\<lambda>selected. let reviews = filter (\<lambda>i. item_sourceType i = Src_review) (valid_items selected);
                         store = commitBulkReopen deps ctx why explanation commands selected in
                     if valid_items selected = []
                     then answer (Reopening 0 (results_by_id commands (settled_results commands selected)))
                     else if reviews = [] then store (\<lambda>_. None)
                     else bulkReopenReviews deps ctx reviews store)))))"

definition preflightAssignment ::
  "staff_api \<Rightarrow> auth_context \<Rightarrow> source_scope list \<Rightarrow> string list option \<Rightarrow> inbox_item list \<Rightarrow> string \<times> number
     \<Rightarrow> (failure, assignment_outcome option) result" where
  "preflightAssignment api ctx scopes managed items command =
     (case item_with_id items (fst command) of
        None \<Rightarrow> ok (Some Assign_unavailable)
      | Some item \<Rightarrow>
          check (canHandleInboxSource api ctx (item_sourceType item))
            (\<lambda>handles. ok
              (if \<not> handles
                  \<or> \<not> isInboxSourcePropertyWithinScopes scopes (item_sourceType item) (item_propertyId item)
                  \<or> \<not> (case managed of None \<Rightarrow> True | Some ps \<Rightarrow> item_propertyId item \<in> set ps)
               then Some Assign_unavailable
               else if \<not> num_eq (commandRevision item) (snd command) then Some InboxProcesses.Assign_conflict
               else None)))"

fun assigned_outcome :: "assign_outcome \<Rightarrow> assignment_outcome" where
  "assigned_outcome InboxStore.Assign_conflict = InboxProcesses.Assign_conflict"
| "assigned_outcome Assign_unchanged = Unchanged_item"
| "assigned_outcome (Assign_moved why) =
     (if why = AR_release then Released_item else if why = AR_reassign then Reassigned_item else Assigned_item)"

definition bulkAssignInboxItems ::
  "use_case_deps \<Rightarrow> (string \<times> number) list \<Rightarrow> string option \<Rightarrow> auth_context \<Rightarrow> process" where
  "bulkAssignInboxItems deps commands target ctx =
     (let api = staffPublicApi deps in
      granted_or (both (canForContext api ctx ''inbox.write'') (canForContext api ctx ''inbox.manage''))
          ''No permission to manage Inbox assignments''
        (if selection_invalid commands
         then fail (inboxError IE_invalid_input ''Inbox bulk assignment selection is invalid'' [])
         else
           (case check (resolveInboxSourceScopes api ctx Handle_access) (\<lambda>scopes.
                check (getAccessiblePropertyIdsForPermission api ctx ''inbox.manage'') (\<lambda>managed. ok (scopes, managed))) of
              Inl _ \<Rightarrow> answer (Assignment 0 None (map (\<lambda>c. (fst c, Assign_unavailable)) commands))
            | Inr (scopes, managed) \<Rightarrow>
                Look (\<lambda>db. let items = findByIds (map fst commands) (ctx_organizationId ctx) db in
                  checked (check_each (preflightAssignment api ctx scopes managed items) commands)
                    (\<lambda>preflight. if list_ex (\<lambda>r. r \<noteq> None) preflight
                     then answer (Assignment 0 None
                            (map (\<lambda>(c, r). (fst c, case r of Some o' \<Rightarrow> o' | None \<Rightarrow> Batch_aborted))
                               (zip commands preflight)))
                     else commit (bulkAssign (authorization deps)
                            \<lparr>ba_items = List.map_filter (\<lambda>c. item_with_id items (fst c)) commands,
                             ba_assignedTo = target, ba_actorId = ctx_userId ctx,
                             ba_bulkId = uc_idGen deps, ba_occurredAt = uc_clock deps\<rparr>)
                          (\<lambda>stored. answer (Assignment
                             (length (filter (\<lambda>r. snd r \<notin> {InboxStore.Assign_conflict, Assign_unchanged}) stored))
                             (Some (uc_idGen deps)) (map (\<lambda>r. (fst r, assigned_outcome (snd r))) stored))))))))"

end
