(* ===== verification/InboxReminders.thy ===== *)
theory InboxReminders
  imports InboxProcesses
begin

text \<open>
  One pass of the reminder scheduler:
  \<^verbatim>\<open>src/src/contexts/inbox/application/use-cases/release-response-target-reminders.ts\<close>. It lists the
  due slots, releases those that need no look at Google, and for the others reads Google within the
  limits of one tick; a slot that throws is counted and left pending.

  The clock is a sequence of readings; the index of the next one is threaded through the pass. What
  Google and Review answer are functions of the slot. The log is left out.
\<close>

section \<open>Counts\<close>

definition NO_COUNTS :: reminder_counts where
  "NO_COUNTS = \<lparr>released = 0, checked_on_google = 0, heldLocal = 0, heldAfterRead = 0, deferred = 0,
     unavailable = 0, skippedNoProvider = 0, failed = 0\<rparr>"

definition add :: "reminder_counts \<Rightarrow> reminder_counts \<Rightarrow> reminder_counts" where
  "add a b = \<lparr>released = released a + released b,
     checked_on_google = checked_on_google a + checked_on_google b,
     heldLocal = heldLocal a + heldLocal b, heldAfterRead = heldAfterRead a + heldAfterRead b,
     deferred = deferred a + deferred b, unavailable = unavailable a + unavailable b,
     skippedNoProvider = skippedNoProvider a + skippedNoProvider b, failed = failed a + failed b\<rparr>"

definition RESPONSE_TARGET_REMINDER_RELEASE_LIMIT :: int where
  "RESPONSE_TARGET_REMINDER_RELEASE_LIMIT = 100"

definition RESPONSE_TARGET_REMINDER_GOOGLE_READ_CAP :: nat where
  "RESPONSE_TARGET_REMINDER_GOOGLE_READ_CAP = 20"

definition RESPONSE_TARGET_REMINDER_TICK_BUDGET_MS :: int where
  "RESPONSE_TARGET_REMINDER_TICK_BUDGET_MS = 35000"

section \<open>What a tick is given\<close>

type_synonym candidate = "string \<times> due_slot"

datatype check_outcome =
    Google_read
  | Google_reply_unreadable
  | Google_review_missing
  | Google_not_checkable bool
  | Google_unavailable bool

text \<open>Not checkable for want of a provider; unavailable for ever. A check that throws reads as
  unavailable until later.\<close>

record tick_deps =
  getGoogleReplyHeads :: "string \<Rightarrow> string list \<Rightarrow> (string \<times> reminder_reply_head) list option"
  google_check :: "candidate \<Rightarrow> check_outcome option"
  head_after_read :: "candidate \<Rightarrow> reminder_reply_head option option"
  clock_readings :: "nat \<Rightarrow> date"

definition scope_of :: "candidate \<Rightarrow> hold_scope" where
  "scope_of c = \<lparr>targetStartAt = tg_startAt (snd (snd c)),
     cycleMaterialReviewRevision = tg_sourceRevision (snd (snd c))\<rparr>"

definition candidate_key :: "candidate \<Rightarrow> slot_key" where
  "candidate_key c = \<lparr>sk_cycleNumber = rm_cycleNumber (fst (snd c)), sk_reminderKind = rm_kind (fst (snd c))\<rparr>"

definition source_of :: "candidate \<Rightarrow> string" where
  "source_of c = sourceId (snd (snd c))"

definition organization_of :: "candidate \<Rightarrow> string" where
  "organization_of c = rm_organizationId (fst (snd c))"

section \<open>One slot\<close>

definition releaseSlot :: "candidate \<Rightarrow> date \<Rightarrow> (reminder_counts \<Rightarrow> process) \<Rightarrow> process" where
  "releaseSlot c now k =
     Commit (seq (on_item (fst c) (releaseReminderSlot (fst c) (candidate_key c) now))
         (\<lambda>answered. ret (k (if answered = Slot_released then NO_COUNTS\<lparr>released := 1\<rparr> else NO_COUNTS))))
       (\<lambda>e. k (NO_COUNTS\<lparr>failed := 1\<rparr>))"

fun toDecisionOutcome :: "check_outcome \<Rightarrow> google_check_outcome" where
  "toDecisionOutcome Google_read = Check_read"
| "toDecisionOutcome Google_reply_unreadable = Check_reply_unreadable"
| "toDecisionOutcome Google_review_missing = Check_review_missing"
| "toDecisionOutcome (Google_not_checkable _) = Check_not_checkable"
| "toDecisionOutcome (Google_unavailable never) =
     (if never then Check_permanent_failure else Check_transient_failure)"

fun readCounts :: "check_outcome \<Rightarrow> reminder_counts" where
  "readCounts (Google_not_checkable no_provider) =
     NO_COUNTS\<lparr>skippedNoProvider := if no_provider then 1 else 0\<rparr>"
| "readCounts (Google_unavailable _) = NO_COUNTS\<lparr>checked_on_google := 1, unavailable := 1\<rparr>"
| "readCounts _ = NO_COUNTS\<lparr>checked_on_google := 1\<rparr>"

definition readGoogle :: "tick_deps \<Rightarrow> candidate \<Rightarrow> check_outcome" where
  "readGoogle deps c = (case google_check deps c of Some out \<Rightarrow> out | None \<Rightarrow> Google_unavailable False)"

definition afterLookupFailure ::
  "tick_deps \<Rightarrow> candidate \<Rightarrow> nat \<Rightarrow> (nat \<Rightarrow> reminder_counts \<Rightarrow> process) \<Rightarrow> process" where
  "afterLookupFailure deps c n k =
     (let now = clock_readings deps n in
      if decideReminderAfterGoogleCheck (scope_of c) Check_transient_failure None
           (rm_scheduledFor (fst (snd c))) now = reminder_decision.Release_reminder
      then releaseSlot c now (k (n + 1)) else k (n + 1) (NO_COUNTS\<lparr>failed := 1\<rparr>))"

definition checkSlot ::
  "tick_deps \<Rightarrow> candidate \<Rightarrow> nat \<Rightarrow> (nat \<Rightarrow> reminder_counts \<Rightarrow> process) \<Rightarrow> process" where
  "checkSlot deps c n k =
     (let out = readGoogle deps c; counts = readCounts out;
          head = (if out = Google_read then head_after_read deps c else Some None) in
      case head of
        None \<Rightarrow> afterLookupFailure deps c n (\<lambda>n' d. k n' (add counts d))
      | Some h \<Rightarrow>
          let now = clock_readings deps n in
          (case decideReminderAfterGoogleCheck (scope_of c) (toDecisionOutcome out) h
                  (rm_scheduledFor (fst (snd c))) now of
             Hold_reminder \<Rightarrow> k (n + 1) (add counts (NO_COUNTS\<lparr>heldAfterRead := 1\<rparr>))
           | Defer_reminder \<Rightarrow> k (n + 1) (add counts (NO_COUNTS\<lparr>deferred := 1\<rparr>))
           | reminder_decision.Release_reminder \<Rightarrow> releaseSlot c now (\<lambda>d. k (n + 1) (add counts d))))"

section \<open>One tick\<close>

text \<open>One lookup per organization; an organization whose lookup fails is unreadable.\<close>

definition google_organizations :: "candidate list \<Rightarrow> string list" where
  "google_organizations cs =
     rev (remdups (rev (map organization_of (filter (\<lambda>c. rm_targetKind (fst (snd c)) = Google_review_response) cs))))"

definition organization_lookup ::
  "tick_deps \<Rightarrow> candidate list \<Rightarrow> string \<Rightarrow> (string \<times> reminder_reply_head) list option" where
  "organization_lookup deps cs org =
     getGoogleReplyHeads deps org (map source_of (filter (\<lambda>c. rm_targetKind (fst (snd c)) = Google_review_response
        \<and> organization_of c = org) cs))"

definition loaded_heads :: "tick_deps \<Rightarrow> candidate list \<Rightarrow> string \<Rightarrow> reminder_reply_head option" where
  "loaded_heads deps cs = map_of (rev (concat (map (\<lambda>org. case organization_lookup deps cs org of
      None \<Rightarrow> [] | Some found \<Rightarrow> found) (google_organizations cs))))"

definition unreadableOrganizations :: "tick_deps \<Rightarrow> candidate list \<Rightarrow> string list" where
  "unreadableOrganizations deps cs =
     filter (\<lambda>org. organization_lookup deps cs org = None) (google_organizations cs)"

definition plan_of :: "tick_deps \<Rightarrow> candidate list \<Rightarrow> date \<Rightarrow> candidate \<Rightarrow> release_plan" where
  "plan_of deps cs started c =
     planReminderRelease (scope_of c) (rm_targetKind (fst (snd c))) (rm_kind (fst (snd c)))
       (tg_dueAt (snd (snd c))) started (loaded_heads deps cs (source_of c))"

fun release_unchecked ::
  "tick_deps \<Rightarrow> candidate list \<Rightarrow> nat \<Rightarrow> reminder_counts \<Rightarrow> (nat \<Rightarrow> reminder_counts \<Rightarrow> process) \<Rightarrow> process" where
  "release_unchecked deps [] n counts k = k n counts"
| "release_unchecked deps (c # cs) n counts k =
     releaseSlot c (clock_readings deps n) (\<lambda>d. release_unchecked deps cs (n + 1) (add counts d) k)"

definition within_budget :: "date \<Rightarrow> date \<Rightarrow> bool" where
  "within_budget started now =
     num_lt (num_sub (get_time now) (get_time started)) (nint RESPONSE_TARGET_REMINDER_TICK_BUDGET_MS)"

fun work_through ::
  "tick_deps \<Rightarrow> date \<Rightarrow> string list \<Rightarrow> (candidate \<times> release_plan) list \<Rightarrow> nat \<Rightarrow> reminder_counts
     \<Rightarrow> (nat \<Rightarrow> reminder_counts \<Rightarrow> process) \<Rightarrow> process" where
  "work_through deps started unreadable [] n counts k = k n counts"
| "work_through deps started unreadable ((c, plan) # cs) n counts k =
     (let onward = (\<lambda>m d. work_through deps started unreadable cs m (add counts d) k) in
      if organization_of c \<in> set unreadable then afterLookupFailure deps c n onward
      else if plan = Hold_local then onward n (NO_COUNTS\<lparr>heldLocal := 1\<rparr>)
      else if \<not> checked_on_google counts < RESPONSE_TARGET_REMINDER_GOOGLE_READ_CAP
      then onward n (NO_COUNTS\<lparr>deferred := 1\<rparr>)
      else if within_budget started (clock_readings deps n) then checkSlot deps c (n + 1) onward
      else onward (n + 1) (NO_COUNTS\<lparr>deferred := 1\<rparr>))"

definition releaseDueResponseTargetReminders :: "tick_deps \<Rightarrow> process" where
  "releaseDueResponseTargetReminders deps =
     (let started = clock_readings deps 0 in
      Look (\<lambda>db. case listDueReminderCandidates started (nint RESPONSE_TARGET_REMINDER_RELEASE_LIMIT) db of
          Inl e \<Rightarrow> Return (err (Store_failure e))
        | Inr (cs, _) \<Rightarrow>
            let planned = map (\<lambda>c. (c, plan_of deps cs started c)) cs in
            release_unchecked deps (map fst (filter (\<lambda>p. snd p = Release_unchecked) planned)) 1 NO_COUNTS
              (\<lambda>n counts. work_through deps started (unreadableOrganizations deps cs)
                 (filter (\<lambda>p. snd p \<noteq> Release_unchecked) planned) n counts
                 (\<lambda>_ total. answer (Ticked total)))))"

section \<open>A tick ends within its limits\<close>

text \<open>\<open>leads_to\<close>: whatever the process answers, one of its continuations answers, with small counts.\<close>

definition leads_to :: "process \<Rightarrow> (nat \<Rightarrow> reminder_counts \<Rightarrow> process) \<Rightarrow> (reminder_counts \<Rightarrow> bool) \<Rightarrow> bool" where
  "leads_to p k small =
     (\<forall>db r db'. finishes p db r db' \<longrightarrow> (\<exists>n d db1. small d \<and> finishes (k n d) db1 r db'))"

abbreviation (input) slot_counts :: "nat \<Rightarrow> reminder_counts \<Rightarrow> bool" where
  "slot_counts reads d \<equiv> released d \<le> 1 \<and> checked_on_google d \<le> reads"

lemma leads_to_here: "small d \<Longrightarrow> leads_to (k n d) k small"
  by (auto simp: leads_to_def)

lemma finishes_releaseSlot:
  assumes "finishes (releaseSlot c now k) db r db'"
  shows "\<exists>d db1. d \<in> {NO_COUNTS, NO_COUNTS\<lparr>released := 1\<rparr>, NO_COUNTS\<lparr>failed := 1\<rparr>} \<and> finishes (k d) db1 r db'"
proof -
  from assms consider (saved) db1 p db2 where
      "seq (on_item (fst c) (releaseReminderSlot (fst c) (candidate_key c) now))
         (\<lambda>answered. ret (k (if answered = Slot_released then NO_COUNTS\<lparr>released := 1\<rparr> else NO_COUNTS))) db1
       = Inr (p, db2)" "finishes p db2 r db'"
    | (thrown) db1 where "finishes (k (NO_COUNTS\<lparr>failed := 1\<rparr>)) db1 r db'"
    unfolding releaseSlot_def by (elim finishes_Commit) blast+
  then show ?thesis
  proof cases
    case saved
    then obtain x where "p = k (if x = Slot_released then NO_COUNTS\<lparr>released := 1\<rparr> else NO_COUNTS)"
      by (auto simp: seq_ok ret_ok)
    with saved(2) show ?thesis
      by (intro exI[of _ "if x = Slot_released then NO_COUNTS\<lparr>released := 1\<rparr> else NO_COUNTS"] exI[of _ db2]) simp
  next
    case thrown
    then show ?thesis by blast
  qed
qed

lemma releaseSlot_leads:
  assumes "small NO_COUNTS" "small (NO_COUNTS\<lparr>released := 1\<rparr>)" "small (NO_COUNTS\<lparr>failed := 1\<rparr>)"
  shows "leads_to (releaseSlot c now (k n)) k small"
  unfolding leads_to_def using finishes_releaseSlot[of c now "k n"] assms by blast

lemma NO_COUNTS_simps [simp]:
  "released NO_COUNTS = 0" "checked_on_google NO_COUNTS = 0" "failed NO_COUNTS = 0"
  by (simp_all add: NO_COUNTS_def)

lemma add_simps [simp]:
  "released (add a b) = released a + released b"
  "checked_on_google (add a b) = checked_on_google a + checked_on_google b"
  by (simp_all add: add_def)

lemma readCounts_small: "released (readCounts out) = 0" "checked_on_google (readCounts out) \<le> 1"
  by (cases out; simp)+

lemma afterLookupFailure_leads: "leads_to (afterLookupFailure deps c n k) k (slot_counts 0)"
  unfolding afterLookupFailure_def Let_def
  by (auto intro: releaseSlot_leads leads_to_here)

lemma checkSlot_leads: "leads_to (checkSlot deps c n k) k (slot_counts 1)"
proof -
  define counts where "counts = readCounts (readGoogle deps c)"
  have small: "slot_counts 1 (add counts d)" if "slot_counts 0 d" for d
    using readCounts_small[of "readGoogle deps c"] that by (simp add: counts_def)
  have after: "leads_to (afterLookupFailure deps c n (\<lambda>n' d. k n' (add counts d))) k (slot_counts 1)"
    using afterLookupFailure_leads[of deps c n "\<lambda>n' d. k n' (add counts d)"] small
    unfolding leads_to_def by blast
  have "leads_to (releaseSlot c now (\<lambda>d. k (n + 1) (add counts d))) (\<lambda>n d. k n (add counts d)) (slot_counts 0)" for now
    using releaseSlot_leads[of "slot_counts 0" c now "\<lambda>n d. k n (add counts d)" "n + 1"] by simp
  then have release: "leads_to (releaseSlot c now (\<lambda>d. k (n + 1) (add counts d))) k (slot_counts 1)" for now
    using small unfolding leads_to_def by blast
  have other: "leads_to (k (n + 1) (add counts d)) k (slot_counts 1)" if "slot_counts 0 d" for d
    using small[OF that] unfolding leads_to_def by blast
  have decided: "leads_to (case v of Hold_reminder \<Rightarrow> k (n + 1) (add counts (NO_COUNTS\<lparr>heldAfterRead := 1\<rparr>))
      | Defer_reminder \<Rightarrow> k (n + 1) (add counts (NO_COUNTS\<lparr>deferred := 1\<rparr>))
      | reminder_decision.Release_reminder \<Rightarrow> releaseSlot c (clock_readings deps n) (\<lambda>d. k (n + 1) (add counts d)))
      k (slot_counts 1)" for v
    by (cases v) (simp_all only: reminder_decision.case release, (rule other, simp add: NO_COUNTS_def)+)
  show ?thesis
    unfolding checkSlot_def Let_def counts_def[symmetric]
    by (cases "if readGoogle deps c = Google_read then head_after_read deps c else Some None")
      (simp_all only: option.case after decided)
qed

lemma release_unchecked_leads:
  "leads_to (release_unchecked deps cs n counts k) k
     (\<lambda>d. released d \<le> released counts + length cs \<and> checked_on_google d = checked_on_google counts)"
proof (induction cs arbitrary: n counts)
  case Nil
  then show ?case by (simp add: leads_to_here)
next
  case (Cons c cs)
  show ?case
    unfolding leads_to_def
  proof (intro allI impI)
    fix db r db' assume "finishes (release_unchecked deps (c # cs) n counts k) db r db'"
    then obtain d db1 where d: "slot_counts 0 d" and fin: "finishes (release_unchecked deps cs (n + 1) (add counts d) k) db1 r db'"
      using finishes_releaseSlot[of c "clock_readings deps n"] by force
    from Cons.IH[of "n + 1" "add counts d", unfolded leads_to_def] fin obtain m e db2 where
      "released e \<le> released (add counts d) + length cs" "checked_on_google e = checked_on_google (add counts d)"
      "finishes (k m e) db2 r db'" by blast
    with d show "\<exists>n d db1. (released d \<le> released counts + length (c # cs)
        \<and> checked_on_google d = checked_on_google counts) \<and> finishes (k n d) db1 r db'"
      by (intro exI[of _ m] exI[of _ e] exI[of _ db2]) simp
  qed
qed

lemma work_through_leads:
  "checked_on_google counts \<le> RESPONSE_TARGET_REMINDER_GOOGLE_READ_CAP \<Longrightarrow>
   leads_to (work_through deps started unreadable cs n counts k) k
     (\<lambda>d. released d \<le> released counts + length cs
        \<and> checked_on_google d \<le> RESPONSE_TARGET_REMINDER_GOOGLE_READ_CAP)"
proof (induction cs arbitrary: n counts)
  case Nil
  then show ?case by (simp add: leads_to_here)
next
  case (Cons p cs)
  obtain c plan where p: "p = (c, plan)" by (cases p)
  let ?k = "\<lambda>m d. work_through deps started unreadable cs m (add counts d) k"
  have "\<exists>reads. checked_on_google counts + reads \<le> RESPONSE_TARGET_REMINDER_GOOGLE_READ_CAP
      \<and> leads_to (work_through deps started unreadable (p # cs) n counts k) ?k (slot_counts reads)"
  proof (cases "organization_of c \<notin> set unreadable \<and> plan \<noteq> Hold_local
      \<and> checked_on_google counts < RESPONSE_TARGET_REMINDER_GOOGLE_READ_CAP
      \<and> within_budget started (clock_readings deps n)")
    case True
    with checkSlot_leads[of deps c "n + 1" ?k] show ?thesis
      by (intro exI[of _ 1]) (simp add: p Let_def)
  next
    case False
    then show ?thesis
      using Cons.prems afterLookupFailure_leads[of deps c n ?k]
      by (intro exI[of _ 0]) (auto simp: p Let_def intro!: leads_to_here[where k = ?k])
  qed
  then obtain reads where reads: "checked_on_google counts + reads \<le> RESPONSE_TARGET_REMINDER_GOOGLE_READ_CAP"
    and lead: "leads_to (work_through deps started unreadable (p # cs) n counts k) ?k (slot_counts reads)" by blast
  show ?case
    unfolding leads_to_def
  proof (intro allI impI)
    fix db r db' assume "finishes (work_through deps started unreadable (p # cs) n counts k) db r db'"
    with lead obtain m d db1 where d: "slot_counts reads d" and fin: "finishes (?k m d) db1 r db'"
      unfolding leads_to_def by blast
    have "checked_on_google (add counts d) \<le> RESPONSE_TARGET_REMINDER_GOOGLE_READ_CAP" using d reads by simp
    from Cons.IH[OF this, of m, unfolded leads_to_def] fin obtain m' e db2 where
      "released e \<le> released (add counts d) + length cs"
      "checked_on_google e \<le> RESPONSE_TARGET_REMINDER_GOOGLE_READ_CAP" "finishes (k m' e) db2 r db'" by blast
    with d show "\<exists>n d db1. (released d \<le> released counts + length (p # cs)
        \<and> checked_on_google d \<le> RESPONSE_TARGET_REMINDER_GOOGLE_READ_CAP) \<and> finishes (k n d) db1 r db'"
      by (intro exI[of _ m'] exI[of _ e] exI[of _ db2]) simp
  qed
qed

end
