(* ===== verification/InboxHistory.thy ===== *)
theory InboxHistory
  imports InboxRows "HOL-Library.Char_ord" "HOL-Library.List_Lexorder" "HOL-Library.Product_Lexorder"
    "HOL-Library.Multiset"
begin

text \<open>
  The handling history a manager reads, merged from six append-only tables:
  \<^verbatim>\<open>src/src/contexts/inbox/domain/handling-history.ts\<close>. The comparator is translated as it is, over
  JavaScript numbers; on entries with valid dates and finite numbers it is the lexicographic order of
  \<open>history_key\<close>, so the story does not depend on the order the queries answered in.
\<close>

section \<open>Entries\<close>

datatype history_kind =
    HK_cycle_opened | HK_cycle_transition | HK_assignment | HK_escalation | HK_handling_outcome | HK_priority

datatype history_assignment_reason =
    HA_claim | HA_assign | HA_reassign | HA_release | HA_eligibility_lost | HA_reopen_restore

datatype history_detail =
    Cycle_opened_detail open_reason "manual_reason option" "js_string option" "number option" number
  | Cycle_transition_detail transition_kind string actor_type
  | Assignment_detail history_assignment_reason "string option" "string option" "js_string option"
      "js_string option" "string option"
  | Escalation_detail escalation_kind
  | Outcome_detail string number target_result date "string option" "js_string option"
  | Priority_detail "inbox_priority option" "inbox_priority option"

record history_entry =
  he_id :: string
  he_inboxItemId :: string
  he_kind :: history_kind
  he_occurredAt :: date
  he_cycleNumber :: "number option"
  he_stateRevision :: "number option"
  he_actorUserId :: "string option"
  he_actorDisplayName :: "js_string option"
  he_legacy :: bool
  he_detail :: history_detail

section \<open>The order\<close>

fun KIND_RANK :: "history_kind \<Rightarrow> int" where
  "KIND_RANK HK_cycle_opened = 0"
| "KIND_RANK HK_cycle_transition = 1"
| "KIND_RANK HK_assignment = 2"
| "KIND_RANK HK_escalation = 3"
| "KIND_RANK HK_handling_outcome = 4"
| "KIND_RANK HK_priority = 5"

definition NO_CYCLE :: number where "NO_CYCLE = nint max_safe_integer"

definition NO_STATE_REVISION :: number where "NO_STATE_REVISION = nint (- max_safe_integer)"

definition compareText :: "string \<Rightarrow> string \<Rightarrow> number" where
  "compareText l r = (if l = r then nint 0 else if l < r then nint (- 1) else nint 1)"

definition given :: "number option \<Rightarrow> number \<Rightarrow> number" where
  "given v d = (case v of None \<Rightarrow> d | Some n \<Rightarrow> n)"

definition compareInboxHistoryEntries :: "history_entry \<Rightarrow> history_entry \<Rightarrow> number" where
  "compareInboxHistoryEntries l r =
     (let byInstant = num_sub (get_time (he_occurredAt l)) (get_time (he_occurredAt r));
          byCycle = num_sub (given (he_cycleNumber l) NO_CYCLE) (given (he_cycleNumber r) NO_CYCLE);
          byState = num_sub (given (he_stateRevision l) NO_STATE_REVISION)
                      (given (he_stateRevision r) NO_STATE_REVISION);
          byKind = nint (KIND_RANK (he_kind l) - KIND_RANK (he_kind r)) in
      if \<not> num_eq byInstant (nint 0) then byInstant
      else if \<not> num_eq byCycle (nint 0) then byCycle
      else if \<not> num_eq byState (nint 0) then byState
      else if \<not> num_eq byKind (nint 0) then byKind
      else compareText (he_id l) (he_id r))"

text \<open>\<^verbatim>\<open>Array.prototype.sort\<close> is stable: an entry goes before the first one it does not follow.\<close>

fun insert_entry :: "history_entry \<Rightarrow> history_entry list \<Rightarrow> history_entry list" where
  "insert_entry e [] = [e]"
| "insert_entry e (x # xs) =
     (if num_lt (nint 0) (compareInboxHistoryEntries e x) then x # insert_entry e xs else e # x # xs)"

definition orderInboxHistory :: "history_entry list \<Rightarrow> history_entry list" where
  "orderInboxHistory entries = foldr insert_entry entries []"

definition redactLegacyActor :: "history_entry \<Rightarrow> history_entry" where
  "redactLegacyActor e =
     (if \<not> he_legacy e then e else e\<lparr>he_actorUserId := None, he_actorDisplayName := None\<rparr>)"

section \<open>The order is total\<close>

instantiation history_kind :: linorder
begin

definition less_eq_history_kind :: "history_kind \<Rightarrow> history_kind \<Rightarrow> bool" where
  "less_eq_history_kind a b = (KIND_RANK a \<le> KIND_RANK b)"

definition less_history_kind :: "history_kind \<Rightarrow> history_kind \<Rightarrow> bool" where
  "less_history_kind a b = (KIND_RANK a < KIND_RANK b)"

instance
proof
  fix a b :: history_kind
  show "a \<le> b \<Longrightarrow> b \<le> a \<Longrightarrow> a = b"
    by (cases a; cases b) (simp_all add: less_eq_history_kind_def)
qed (auto simp: less_eq_history_kind_def less_history_kind_def)

end

text \<open>What a stored row gives: a valid date and finite revisions.\<close>

fun finite_part :: "number \<Rightarrow> rat" where
  "finite_part (Fin q) = q"
| "finite_part x = 0"

definition storable_entry :: "history_entry \<Rightarrow> bool" where
  "storable_entry e =
     (he_occurredAt e \<noteq> InvalidDate \<and> is_finite (given (he_cycleNumber e) NO_CYCLE)
      \<and> is_finite (given (he_stateRevision e) NO_STATE_REVISION))"

definition history_key :: "history_entry \<Rightarrow> rat \<times> rat \<times> rat \<times> history_kind \<times> string" where
  "history_key e =
     (finite_part (get_time (he_occurredAt e)), finite_part (given (he_cycleNumber e) NO_CYCLE),
      finite_part (given (he_stateRevision e) NO_STATE_REVISION), he_kind e, he_id e)"

lemma finite_partD: "is_finite x \<Longrightarrow> x = Fin (finite_part x)"
  by (cases x) simp_all

lemma same_rank: "KIND_RANK a = KIND_RANK b \<longleftrightarrow> a = b"
  by (cases a; cases b) simp_all

lemma compares_keys:
  assumes "storable_entry a" "storable_entry b"
  shows "num_lt (nint 0) (compareInboxHistoryEntries a b) \<longleftrightarrow> history_key b < history_key a"
proof -
  obtain t u where t: "he_occurredAt a = At t" "he_occurredAt b = At u"
    using assms by (cases "he_occurredAt a"; cases "he_occurredAt b") (simp_all add: storable_entry_def)
  obtain p q where p: "given (he_cycleNumber a) NO_CYCLE = Fin p" "given (he_cycleNumber b) NO_CYCLE = Fin q"
    using assms finite_partD by (metis storable_entry_def)
  obtain v w where v: "given (he_stateRevision a) NO_STATE_REVISION = Fin v"
    "given (he_stateRevision b) NO_STATE_REVISION = Fin w"
    using assms finite_partD by (metis storable_entry_def)
  show ?thesis
    using t p v
    by (auto simp: compareInboxHistoryEntries_def Let_def history_key_def compareText_def num_sub_def num_eq_def
        nint_def less_history_kind_def same_rank less_eq_history_kind_def)
      (metis same_rank order_le_less)
qed

lemma insert_entry_insort:
  assumes "storable_entry e" "\<forall>x \<in> set xs. storable_entry x"
  shows "insert_entry e xs = insort_key history_key e xs"
  using assms(2) by (induction xs) (auto simp: compares_keys[OF assms(1)])

lemma orderInboxHistory_sort:
  "\<forall>x \<in> set xs. storable_entry x \<Longrightarrow> orderInboxHistory xs = sort_key history_key xs"
  unfolding orderInboxHistory_def
proof (induction xs)
  case (Cons x xs)
  then show ?case using insert_entry_insort[of x "sort_key history_key xs"] by simp
qed simp

text \<open>
  C32. The handling history tells one story: however the queries return the entries, they are put in the
  same order, none is lost or doubled, and each stands after every entry the comparator puts before
  it. This holds for entries with valid dates and finite revisions whose ids differ.
\<close>

theorem history_tells_one_story:
  assumes "\<forall>e \<in> set xs. storable_entry e" "distinct (map he_id xs)" "mset ys = mset xs"
  shows "orderInboxHistory ys = orderInboxHistory xs
    \<and> mset (orderInboxHistory xs) = mset xs
    \<and> sorted_wrt (\<lambda>a b. \<not> num_lt (nint 0) (compareInboxHistoryEntries a b)) (orderInboxHistory xs)"
proof -
  have same: "set ys = set xs" using assms(3) by (rule mset_eq_setD)
  have xs: "orderInboxHistory xs = sort_key history_key xs" and ys: "orderInboxHistory ys = sort_key history_key ys"
    using assms(1) same by (auto intro: orderInboxHistory_sort)
  have "inj_on history_key (set xs)"
    using assms(2) by (auto simp: history_key_def distinct_map inj_on_def)
  then have "sort_key history_key xs = sort_key history_key ys"
    by (intro sort_key_inj_key_eq) (simp_all add: assms(3))
  moreover have "sorted_wrt (\<lambda>a b. \<not> num_lt (nint 0) (compareInboxHistoryEntries a b)) (sort_key history_key xs)"
  proof (rule sorted_wrt_mono_rel)
    show "sorted_wrt (\<lambda>a b. history_key a \<le> history_key b) (sort_key history_key xs)"
      using sorted_sort_key[of history_key xs] by (simp add: sorted_map)
  next
    fix a b assume "a \<in> set (sort_key history_key xs)" "b \<in> set (sort_key history_key xs)" "history_key a \<le> history_key b"
    with assms(1) show "\<not> num_lt (nint 0) (compareInboxHistoryEntries a b)"
      by (simp add: compares_keys not_less)
  qed
  ultimately show ?thesis using xs ys assms(3) by simp
qed

definition sample_closed :: history_entry where
  "sample_closed = \<lparr>he_id = ''t2'', he_inboxItemId = ''i'', he_kind = HK_cycle_transition, he_occurredAt = At 5,
     he_cycleNumber = Some (nint 1), he_stateRevision = Some (nint 2), he_actorUserId = Some ''u'',
     he_actorDisplayName = None, he_legacy = False,
     he_detail = Cycle_transition_detail TK_closed ''private_feedback_handled'' Actor_user\<rparr>"

definition sample_note :: history_entry where
  "sample_note = sample_closed\<lparr>he_id := ''o1'', he_kind := HK_handling_outcome, he_stateRevision := Some (nint 2),
     he_detail := Outcome_detail ''handled_with_team'' (nint 1) On_time (At 5) None None\<rparr>"

theorem history_tells_one_story_witness:
  "orderInboxHistory [sample_note, sample_closed] = orderInboxHistory [sample_closed, sample_note]
   \<and> map he_id (orderInboxHistory [sample_note, sample_closed]) = [''t2'', ''o1'']"
proof -
  have "\<forall>e \<in> set [sample_closed, sample_note]. storable_entry e" "distinct (map he_id [sample_closed, sample_note])"
    "mset [sample_note, sample_closed] = mset [sample_closed, sample_note]"
    by (simp_all add: storable_entry_def sample_note_def sample_closed_def given_def nint_def)
  from history_tells_one_story[OF this]
  have "orderInboxHistory [sample_note, sample_closed] = orderInboxHistory [sample_closed, sample_note]" by blast
  moreover have "map he_id (orderInboxHistory [sample_note, sample_closed]) = [''t2'', ''o1'']" by code_simp
  ultimately show ?thesis by blast
qed

end
