(* ===== verification/InboxSystem.thy ===== *)
theory InboxSystem
  imports InboxUseCases InboxReminders InboxClaims
begin

text \<open>
  The Inbox with everything that acts on it at once: the consumers of its outbox, the use cases of
  people and the reminder scheduler, each a process of \<open>InboxProcesses\<close>, in any number and any
  interleaving of their reads and transactions. Every process is lawful, so what \<open>InboxRuns\<close> proves
  of all runs of store commands holds of the whole, and the condition \<open>admissible\<close> is discharged by
  the code that calls the store.
\<close>

section \<open>Every process is lawful\<close>

lemma forget_seq: "forget (seq t f) = seq t (\<lambda>x. forget (f x))"
  by (rule ext) (simp add: forget_def seq_def split: sum.splits)

lemma forget_unit: "forget t = t"
  by (rule ext) (simp add: forget_def seq_def ret_def split: sum.splits)

lemma created_item_open:
  "createInboxItem input = Inr item \<Longrightarrow> item_status item = Open"
  by (auto simp: createInboxItem_def new_item_def split: option.splits if_splits)

lemma lawful_receipt [lawful_rules]: "lawful (record_and_answer event consumer status d)"
  unfolding record_and_answer_def
  by (rule lawful_commit[where c = "Record_receipt event consumer status" and authorize = a for a])
    (simp_all add: admissible_def perform_def forget_unit lawful_basic)

lemma lawful_projection [lawful_rules]: "lawful (handleInboxReviewProjection deps ev kind consumer)"
proof -
  have store: "lawful (commit (applyReviewProjectionOnce dbNow p) (\<lambda>d. answer (Taken d)))"
    if "item_status (pc_item p) = Open" for dbNow p
    by (rule lawful_commit[where c = "Deliver_review_projection dbNow p" and authorize = a for a])
      (simp_all add: admissible_def perform_def that lawful_basic)
  show ?thesis
    unfolding handleInboxReviewProjection_def Let_def
    by (intro lawful_rules store) (simp add: created_item_open)
qed

lemma lawful_transition [lawful_rules]:
  "lawful (commit (applyReviewSourceTransitionedOnce (end_of_source event consumer item instant close))
     (\<lambda>_. answer (Taken d)))"
  by (rule lawful_commit[where c = "Deliver_source_transition (end_of_source event consumer item instant close)"
        and authorize = a for a])
    (simp_all add: admissible_def perform_def forget_unit lawful_basic end_of_source_def)

lemma lawful_observation [lawful_rules]:
  "lawful (commit (applyReplyObservedOnce ob) (\<lambda>_. answer (Taken d)))"
  by (rule lawful_commit[where c = "Deliver_reply_observed ob" and authorize = a for a])
    (simp_all add: admissible_def perform_def forget_unit lawful_basic)

lemma lawful_stamp [lawful_rules]:
  "(\<And>x. lawful (next x)) \<Longrightarrow> lawful (commit (stampReplyMilestones k org submitted published instant) next)"
  by (rule lawful_commit[where c = "Stamp_milestones k org submitted published instant" and authorize = a for a])
    (simp_all add: admissible_def perform_def)

lemma lawful_withdrawal [lawful_rules]:
  "item_sourceType (sw_item w) = Src_feedback \<Longrightarrow> lawful (commit (applySourceWithdrawnOnce w) (\<lambda>d. answer (Taken d)))"
  by (rule lawful_commit[where c = "Deliver_source_withdrawn w" and authorize = a for a])
    (simp_all add: admissible_def perform_def lawful_basic)

lemma lawful_submission [lawful_rules]:
  "item_status (sc_item s) = Open
     \<Longrightarrow> lawful (commit (applySourceCreatedOnce dbNow s) (\<lambda>d. answer (Taken d)))"
  by (rule lawful_commit[where c = "Deliver_source_created dbNow s" and authorize = a for a])
    (simp_all add: admissible_def perform_def lawful_basic)

lemma lawful_settle [lawful_rules]: "lawful p \<Longrightarrow> lawful (settleSupersededSubmission submitted org p)"
  unfolding settleSupersededSubmission_def
  by (intro lawful_if, assumption,
      rule lawful_commit[where c = "Settle_superseded submitted CONSUMER_NAME org" and authorize = a for a])
    (simp_all add: admissible_def perform_def forget_unit)

lemma lawful_consumers:
  "lawful (handleInboxReviewCreated deps ev1)" "lawful (handleInboxReviewUpdated deps ev1)"
  "lawful (handleInboxReviewExpired deps ev2)" "lawful (handleInboxReviewSourceTransitioned deps ev3)"
  "lawful (handleInboxReplyPublished deps ev2)" "lawful (handleInboxReplySubmitted deps ev2)"
  "lawful (handleInboxReplyObserved deps ev4)" "lawful (handleInboxGuestFeedbackSubmitted deps ev5)"
proof -
  show "lawful (handleInboxReviewCreated deps ev1)" "lawful (handleInboxReviewUpdated deps ev1)"
    unfolding handleInboxReviewCreated_def handleInboxReviewUpdated_def by (intro lawful_rules)+
  show "lawful (handleInboxReviewExpired deps ev2)"
    unfolding handleInboxReviewExpired_def Let_def by (intro lawful_rules)
  show "lawful (handleInboxReviewSourceTransitioned deps ev3)"
    unfolding handleInboxReviewSourceTransitioned_def Let_def by (intro lawful_rules)
  show "lawful (handleInboxReplyPublished deps ev2)"
    unfolding handleInboxReplyPublished_def by (intro lawful_rules)
  show "lawful (handleInboxReplySubmitted deps ev2)"
    unfolding handleInboxReplySubmitted_def Let_def by (intro lawful_rules)
  show "lawful (handleInboxReplyObserved deps ev4)"
    unfolding handleInboxReplyObserved_def Let_def by (intro lawful_rules lawful_Return)
  show "lawful (handleInboxGuestFeedbackSubmitted deps ev5)"
    unfolding handleInboxGuestFeedbackSubmitted_def Let_def
    by (intro lawful_rules) (simp add: created_item_open)
qed

lemma lawful_retraction:
  "lawful (applyInboxGuestFeedbackRetraction input)" "lawful (handleInboxGuestFeedbackRetracted ev)"
proof -
  show "lawful (applyInboxGuestFeedbackRetraction input)" for input
    unfolding applyInboxGuestFeedbackRetraction_def Let_def
    by (intro lawful_rules) (simp add: findBySource_Some)
  then show "lawful (handleInboxGuestFeedbackRetracted ev)"
    unfolding handleInboxGuestFeedbackRetracted_def Let_def by (intro lawful_rules)
qed

lemma lawful_archived: "lawful (handleInboxPropertyArchived deps ev)"
proof -
  have "lawful (commit (cancelArchivedPropertyRemindersOnce active event consumer org property instant)
      (\<lambda>d. answer (Taken d)))" for active event consumer org property instant
    by (rule lawful_commit[where c = "Cancel_archived active event consumer org property instant" and authorize = a for a])
      (simp_all add: admissible_def perform_def lawful_basic)
  then show ?thesis
    unfolding handleInboxPropertyArchived_def
    by (auto intro!: lawful_rules split: option.splits)
qed

lemma lawful_item_command:
  assumes "admissible c" "perform authorize c = forget (on_item k t)" "\<And>x. lawful (next x)"
  shows "lawful (commit (on_item k t) next)"
  by (rule lawful_commit[OF assms])

lemma lawful_reopen [lawful_rules]:
  "(\<And>x. lawful (next x)) \<Longrightarrow> lawful (commit (reopen_txn authorize c) next)"
  unfolding reopen_txn_def
  by (rule lawful_commit[where c = "Reopen_item c" and authorize = authorize])
    (simp_all add: admissible_def perform_def forget_seq)

lemma lawful_store_commands [lawful_rules]:
  "(\<And>x. lawful (next1 x)) \<Longrightarrow> lawful (commit (on_item (item_id item) (assign authorize item target event stamp)) next1)"
  "(\<And>x. lawful (next1 x)) \<Longrightarrow> lawful (commit (on_item (item_id item) (escalate authorize item user f stamp)) next1)"
  "(\<And>x. lawful (next1 x)) \<Longrightarrow> lawful (commit (on_item (item_id item) (resolveEscalation authorize item user f stamp)) next1)"
  "(\<And>x. lawful (next1 x)) \<Longrightarrow> lawful (commit (on_item (item_id item) (setPriority authorize item p user pf stamp)) next1)"
  "(\<And>x. lawful (next2 x)) \<Longrightarrow> lawful (commit (on_item (item_id item) (addNote authorize dbNow item note f)) next2)"
  "(\<And>x. lawful (next3 x)) \<Longrightarrow> lawful (commit (on_item (item_id (fc_item fc)) (markHandled authorize fc e)) next3)"
  "(\<And>x. lawful (next3 x)) \<Longrightarrow> lawful (commit (on_item (item_id (fc_item fc)) (correctOutcome authorize fc e')) next3)"
  "(\<And>x. lawful (next4 x)) \<Longrightarrow> lawful (commit (bulkUpdateStatus authorize b) next4)"
  "(\<And>x. lawful (next5 x)) \<Longrightarrow> lawful (commit (bulkAssign authorize ba) next5)"
proof -
  note law = lawful_commit[where authorize = authorize]
  note perf = admissible_def perform_def
  show "(\<And>x. lawful (next1 x)) \<Longrightarrow> lawful (commit (on_item (item_id item) (assign authorize item target event stamp)) next1)"
    by (rule law[where c = "Assign_item item target event stamp"]) (simp_all add: perf)
  show "(\<And>x. lawful (next1 x)) \<Longrightarrow> lawful (commit (on_item (item_id item) (escalate authorize item user f stamp)) next1)"
    by (rule law[where c = "Escalate_item item user f stamp"]) (simp_all add: perf)
  show "(\<And>x. lawful (next1 x)) \<Longrightarrow> lawful (commit (on_item (item_id item) (resolveEscalation authorize item user f stamp)) next1)"
    by (rule law[where c = "Resolve_escalation item user f stamp"]) (simp_all add: perf)
  show "(\<And>x. lawful (next1 x)) \<Longrightarrow> lawful (commit (on_item (item_id item) (setPriority authorize item p user pf stamp)) next1)"
    by (rule law[where c = "Set_priority item p user pf stamp"]) (simp_all add: perf)
  show "(\<And>x. lawful (next2 x)) \<Longrightarrow> lawful (commit (on_item (item_id item) (addNote authorize dbNow item note f)) next2)"
    by (rule law[where c = "Add_note dbNow item note f"]) (simp_all add: perf)
  show "(\<And>x. lawful (next3 x)) \<Longrightarrow> lawful (commit (on_item (item_id (fc_item fc)) (markHandled authorize fc e)) next3)"
    by (rule law[where c = "Mark_handled fc e"]) (simp_all add: perf)
  show "(\<And>x. lawful (next3 x)) \<Longrightarrow> lawful (commit (on_item (item_id (fc_item fc)) (correctOutcome authorize fc e')) next3)"
    by (rule law[where c = "Correct_outcome fc e'"]) (simp_all add: perf)
  show "(\<And>x. lawful (next4 x)) \<Longrightarrow> lawful (commit (bulkUpdateStatus authorize b) next4)"
    by (rule law[where c = "Reopen_items b"]) (simp_all add: perf)
  show "(\<And>x. lawful (next5 x)) \<Longrightarrow> lawful (commit (bulkAssign authorize ba) next5)"
    by (rule law[where c = "Assign_items ba"]) (simp_all add: perf)
qed

lemma lawful_feedback [lawful_rules]:
  "(\<And>item. lawful (next item)) \<Longrightarrow> lawful (loadFeedbackForCommand api k expected forbidden elsewhere ctx next)"
  unfolding loadFeedbackForCommand_def by (intro lawful_rules)

lemma lawful_use_cases:
  "lawful (assignInboxItem deps k target expected ctx)" "lawful (escalateInboxItem deps k expected ctx)"
  "lawful (resolveEscalation' deps k expected ctx)" "lawful (setInboxItemPriority deps k expected seen priority ctx)"
  "lawful (addInboxNote deps k content expected ctx)" "lawful (markFeedbackHandled deps k fe out note ctx)"
  "lawful (correctFeedbackHandlingOutcome deps k ce out note ctx)"
  "lawful (updateInboxStatus deps k new expected reason explanation ctx)"
proof -
  show "lawful (assignInboxItem deps k target expected ctx)"
    unfolding assignInboxItem_def Let_def by (intro lawful_rules)
  show "lawful (escalateInboxItem deps k expected ctx)" "lawful (resolveEscalation' deps k expected ctx)"
    "lawful (setInboxItemPriority deps k expected seen priority ctx)" "lawful (addInboxNote deps k content expected ctx)"
    unfolding escalateInboxItem_def resolveEscalation'_def setInboxItemPriority_def addInboxNote_def Let_def
    by (intro lawful_rules)+
  have handled: "lawful (commit (on_item (item_id item) (markHandled a (feedbackCommand deps item out note ctx) e)) next1)"
    "lawful (commit (on_item (item_id item) (correctOutcome a (feedbackCommand deps item out note ctx) e')) next1)"
    if "\<And>x. lawful (next1 x)" for item a e e' next1
    using lawful_store_commands(6,7)[of next1 "feedbackCommand deps item out note ctx" a] that
    by (simp_all add: feedbackCommand_def)
  have answered: "lawful ((\<lambda>(saved, state). answer (Feedback saved state)) x)" for x :: "inbox_item \<times> feedback_state"
    by (cases x) (simp add: lawful_basic)
  show "lawful (markFeedbackHandled deps k fe out note ctx)" "lawful (correctFeedbackHandlingOutcome deps k ce out note ctx)"
    unfolding markFeedbackHandled_def correctFeedbackHandlingOutcome_def
    by (intro lawful_feedback handled answered)+
  have "lawful (reopenUnderResponseTargetAuthority deps item head c)" for item head c
    unfolding reopenUnderResponseTargetAuthority_def Let_def by (intro lawful_rules)
  then show "lawful (updateInboxStatus deps k new expected reason explanation ctx)"
    unfolding updateInboxStatus_def Let_def by (intro lawful_rules)
qed

lemma lawful_bulk:
  "lawful (bulkUpdateInboxStatus deps commands why explanation ctx)"
  "lawful (bulkAssignInboxItems deps commands target ctx)"
proof -
  have reviews: "(\<And>f. lawful (next f)) \<Longrightarrow> lawful (bulkReopenReviews deps ctx items next)" for items "next"
    unfolding bulkReopenReviews_def Let_def by (intro lawful_rules)
  have store: "lawful (commitBulkReopen deps ctx why explanation commands selected targets)" for selected targets
    unfolding commitBulkReopen_def by (intro lawful_rules)
  show "lawful (bulkUpdateInboxStatus deps commands why explanation ctx)"
    unfolding bulkUpdateInboxStatus_def Let_def by (intro lawful_rules reviews store)
  show "lawful (bulkAssignInboxItems deps commands target ctx)"
    unfolding bulkAssignInboxItems_def Let_def
    by (intro lawful_rules) (auto split: prod.splits intro!: lawful_rules)
qed

lemma lawful_releaseSlot: "(\<And>d. lawful (k d)) \<Longrightarrow> lawful (releaseSlot c now k)"
  unfolding releaseSlot_def
  by (rule lawful_Commit[where c = "Release_reminder (fst c) (candidate_key c) now" and authorize = a for a])
    (auto simp: admissible_def perform_def forget_def seq_ok ret_ok)

lemma lawful_afterLookupFailure: "(\<And>n d. lawful (k n d)) \<Longrightarrow> lawful (afterLookupFailure deps c n k)"
  unfolding afterLookupFailure_def Let_def by (intro lawful_if lawful_releaseSlot)

lemma lawful_checkSlot: "(\<And>n d. lawful (k n d)) \<Longrightarrow> lawful (checkSlot deps c n k)"
  unfolding checkSlot_def Let_def
  by (intro lawful_option lawful_afterLookupFailure)
    (auto intro: lawful_releaseSlot split: reminder_decision.splits)

lemma lawful_release_unchecked:
  "(\<And>n d. lawful (k n d)) \<Longrightarrow> lawful (release_unchecked deps cs n counts k)"
  by (induction cs arbitrary: n counts) (auto intro: lawful_releaseSlot)

lemma lawful_work_through:
  "(\<And>n d. lawful (k n d)) \<Longrightarrow> lawful (work_through deps started unreadable cs n counts k)"
proof (induction cs arbitrary: n counts)
  case (Cons p cs)
  then show ?case
    by (cases p) (auto simp: Let_def intro: lawful_afterLookupFailure lawful_checkSlot)
qed simp

lemma lawful_tick: "lawful (releaseDueResponseTargetReminders deps)"
  unfolding releaseDueResponseTargetReminders_def Let_def
  by (rule lawful_Look)
    (auto intro: lawful_release_unchecked lawful_work_through lawful_basic lawful_Return split: sum.splits prod.splits)

section \<open>The system\<close>

text \<open>A consumer of one event: its handler, with the event and the name its receipt is kept under.\<close>

inductive consumer :: "string \<Rightarrow> string \<Rightarrow> process \<Rightarrow> bool" where
  "consumer (ev_eventId ev) ON_REVIEW_CREATED (handleInboxReviewCreated deps ev)"
| "consumer (ev_eventId ev) ON_REVIEW_UPDATED (handleInboxReviewUpdated deps ev)"
| "consumer (ev_eventId ev) ON_REVIEW_EXPIRED (handleInboxReviewExpired deps ev)"
| "consumer (ev_eventId ev) ON_REVIEW_SOURCE_TRANSITIONED (handleInboxReviewSourceTransitioned deps ev)"
| "consumer (ev_eventId ev) ON_REPLY_PUBLISHED (handleInboxReplyPublished deps ev)"
| "consumer (ev_eventId ev) ON_REPLY_SUBMITTED (handleInboxReplySubmitted deps ev)"
| "consumer (ev_eventId ev) ON_REPLY_OBSERVED (handleInboxReplyObserved deps ev)"
| "consumer (ev_eventId ev) CONSUMER_NAME (handleInboxGuestFeedbackSubmitted deps ev)"
| "consumer (ev_eventId ev) RETRACTION_CONSUMER_NAME (handleInboxGuestFeedbackRetracted ev)"
| "consumer (ev_eventId ev) ON_PROPERTY_ARCHIVED (handleInboxPropertyArchived deps ev)"

text \<open>
  What a person does with one item, and the source the command is for when it is for one only.
\<close>

inductive item_use_case ::
  "staff_api \<Rightarrow> string \<Rightarrow> auth_context \<Rightarrow> source_type option \<Rightarrow> process \<Rightarrow> bool" where
  "item_use_case (staffPublicApi deps) k ctx None (assignInboxItem deps k target expected ctx)"
| "item_use_case (staffPublicApi deps) k ctx None (escalateInboxItem deps k expected ctx)"
| "item_use_case (staffPublicApi deps) k ctx None (resolveEscalation' deps k expected ctx)"
| "item_use_case (staffPublicApi deps) k ctx None (setInboxItemPriority deps k expected seen priority ctx)"
| "item_use_case (staffPublicApi deps) k ctx None (addInboxNote deps k content expected ctx)"
| "item_use_case (staffPublicApi deps) k ctx None (updateInboxStatus deps k new expected reason explanation ctx)"
| "item_use_case (staffPublicApi deps) k ctx (Some Src_feedback) (markFeedbackHandled deps k fe out note ctx)"
| "item_use_case (staffPublicApi deps) k ctx (Some Src_feedback) (correctFeedbackHandlingOutcome deps k ce out note ctx)"

inductive entry :: "process \<Rightarrow> bool" where
  "consumer event name p \<Longrightarrow> entry p"
| "item_use_case api k ctx ty p \<Longrightarrow> entry p"
| "entry (bulkUpdateInboxStatus deps commands why explanation ctx)"
| "entry (bulkAssignInboxItems deps commands target ctx)"
| "entry (releaseDueResponseTargetReminders tick)"

lemma entry_lawful: "entry p \<Longrightarrow> lawful p"
  by (auto elim!: entry.cases consumer.cases item_use_case.cases
      intro: lawful_consumers lawful_retraction lawful_archived lawful_use_cases lawful_bulk lawful_tick)

text \<open>
  The processes run side by side. \<open>elsewhere\<close> is an event or a policy that arrives, or a command of
  the store that another part of the application issues.
\<close>

inductive system_step :: "inbox_db \<times> process list \<Rightarrow> inbox_db \<times> process list \<Rightarrow> bool" where
  starts: "entry p \<Longrightarrow> system_step (db, ps) (db, ps @ [p])"
| reads: "n < length ps \<Longrightarrow> ps ! n = Look f \<Longrightarrow> system_step (db, ps) (db, ps[n := f db])"
| commits_one: "n < length ps \<Longrightarrow> ps ! n = Commit t h \<Longrightarrow> t db = Inr (p, db')
     \<Longrightarrow> system_step (db, ps) (db', ps[n := p])"
| rolls_back: "n < length ps \<Longrightarrow> ps ! n = Commit t h \<Longrightarrow> t db = Inl e \<Longrightarrow> system_step (db, ps) (db, ps[n := h e])"
| elsewhere: "inbox_step db db' \<Longrightarrow> system_step (db, ps) (db', ps)"

abbreviation system_run :: "inbox_db \<times> process list \<Rightarrow> inbox_db \<times> process list \<Rightarrow> bool" where
  "system_run \<equiv> system_step\<^sup>*\<^sup>*"

lemma system_step_lawful:
  assumes "system_step s s'" "\<forall>p \<in> set (snd s). lawful p"
  shows "inbox_run (fst s) (fst s') \<and> (\<forall>p \<in> set (snd s'). lawful p)"
  using assms
proof (induction rule: system_step.induct)
  case (starts p db ps)
  then show ?case using entry_lawful by auto
next
  case (reads n ps f db)
  then have "lawful (Look f)" using nth_mem[of n ps] by simp
  then have "lawful (f db)" by (auto elim: lawful_LookE)
  with reads show ?case by (auto dest: set_update_subset_insert[THEN subsetD])
next
  case (commits_one n ps t h db p db')
  then have "lawful (Commit t h)" using nth_mem[of n ps] by simp
  then have "lawful p" "inbox_step db db'"
    using lawful_CommitD(1,2) commits_one.hyps(3) by blast+
  with commits_one show ?case by (auto dest: set_update_subset_insert[THEN subsetD])
next
  case (rolls_back n ps t h db e)
  then have "lawful (Commit t h)" using nth_mem[of n ps] by simp
  then have "lawful (h e)" by (rule lawful_CommitD(3))
  with rolls_back show ?case by (auto dest: set_update_subset_insert[THEN subsetD])
qed auto

lemma system_run_lawful:
  "system_run s s' \<Longrightarrow> \<forall>p \<in> set (snd s). lawful p \<Longrightarrow> inbox_run (fst s) (fst s') \<and> (\<forall>p \<in> set (snd s'). lawful p)"
proof (induction rule: rtranclp_induct)
  case (step t u)
  with system_step_lawful[of t u] show ?case by (meson rtranclp_trans)
qed simp

end
