(* ===== verification/SystemClaims.thy ===== *)
theory SystemClaims
  imports InboxSystem
begin

text \<open>
  What the Inbox promises as a whole, with its consumers, its use cases and its scheduler running at
  once: the invariant of every run, that a caller outside the scope of an item learns nothing of it,
  that a withdrawal outruns its submission, that an answered event has its receipt, and the limits of
  a tick.
\<close>

section \<open>The invariant\<close>

text \<open>
  C3. Whatever consumers, use cases and scheduler ticks run at once, with any reads and transactions
  interleaved and from an empty Inbox, the database is one that a run of admissible commands
  reaches: its invariant holds, and the work of every item got where it is by moves of the abstract
  machine.
\<close>

theorem the_whole_inbox_keeps_its_invariant:
  assumes "system_run (empty_inbox ps, []) (db, qs)"
  shows "inbox_run (empty_inbox ps) db \<and> db_ok db
    \<and> (\<forall>k. work_move\<^sup>*\<^sup>* None (work_in (db_rows db k)))"
proof -
  from system_run_lawful[OF assms] have run: "inbox_run (empty_inbox ps) db" by simp
  have "work_in (db_rows (empty_inbox ps) k) = None" for k
    by (simp add: empty_inbox_def work_in_def no_rows_def)
  with inbox_run_ok[OF run empty_inbox_ok] run show ?thesis by (simp add: db_evolves_def)
qed

definition sample_event :: "review_payload consumer_event" where
  "sample_event = \<lparr>ev_eventId = ''e'', ev_organizationId = ''o'', ev_propertyId = Some ''p'', ev_occurredAt = None,
     payload = \<lparr>rp_reviewId = ''r'', rp_organizationId = ''o'', rp_propertyId = ''p''\<rparr>\<rparr>"

definition sample_consumer_deps :: consumer_deps where
  "sample_consumer_deps = \<lparr>projection_authority = (\<lambda>_ _. None), transition_authority = (\<lambda>_. False),
     observation_authority = (\<lambda>_. None), getFeedbackSnippetById = (\<lambda>_ _. None), property_active = None,
     idGen = ''i'', clock = At 0, database_clock = At 0\<rparr>"

definition with_event :: "string \<Rightarrow> inbox_db \<Rightarrow> inbox_db" where
  "with_event e db = db\<lparr>db_events := (db_events db)(e \<mapsto> ''o'')\<rparr>"

lemma with_event_run: "inbox_run (empty_inbox ps) (with_event e (empty_inbox ps))"
  unfolding with_event_def by (rule r_into_rtranclp) (rule event_stored, simp add: empty_inbox_def)

theorem the_whole_inbox_keeps_its_invariant_witness:
  "\<exists>db. system_run (empty_inbox no_policies, []) (db, [answer (Taken Delivered)])
     \<and> db_receipts db (''e'', ON_REPLY_PUBLISHED) = Some Receipt_applied \<and> db_ok db"
proof -
  let ?db = "with_event ''e'' (empty_inbox no_policies)"
  let ?p = "handleInboxReplyPublished sample_consumer_deps sample_event"
  let ?db' = "?db\<lparr>db_receipts := (db_receipts ?db)((''e'', ON_REPLY_PUBLISHED) \<mapsto> Receipt_applied)\<rparr>"
  have p: "?p = commit (recordReceipt ''e'' ON_REPLY_PUBLISHED Receipt_applied) (\<lambda>_. answer (Taken Delivered))"
    by (simp add: handleInboxReplyPublished_def record_and_answer_def sample_event_def)
  have "consumer (ev_eventId sample_event) ON_REPLY_PUBLISHED ?p" by (rule consumer.intros)
  then have "entry ?p" by (rule entry.intros)
  have receipt: "recordReceipt ''e'' ON_REPLY_PUBLISHED Receipt_applied ?db = Inr ((), ?db')"
    by (auto simp: recordReceipt_def seq_ok ret_ok insertReceiptRow_ok with_event_def empty_inbox_def)
  have "system_step (?db, [?p]) (?db', [?p][0 := answer (Taken Delivered)])"
    by (rule commits_one[where t = "seq (recordReceipt ''e'' ON_REPLY_PUBLISHED Receipt_applied) (\<lambda>_. ret (answer (Taken Delivered)))"
          and h = "\<lambda>e. Return (err (Store_failure e))"]) (simp_all add: p commit_def seq_def ret_def receipt)
  moreover have "system_step (?db, []) (?db, [] @ [?p])" by (rule starts) fact
  moreover have "system_step (empty_inbox no_policies, []) (?db, [])"
    unfolding with_event_def by (rule elsewhere, rule event_stored) (simp add: empty_inbox_def)
  ultimately have run: "system_run (empty_inbox no_policies, []) (?db', [answer (Taken Delivered)])"
    by (auto intro: rtranclp.rtrancl_into_rtrancl)
  with the_whole_inbox_keeps_its_invariant[OF run] show ?thesis by auto
qed

section \<open>Who is told what\<close>

lemma feedback_in_scope:
  assumes "finishes (loadFeedbackForCommand api k expected forbidden elsewhere ctx next) db r db'" "\<not> withholds r"
  shows "\<exists>db1 item. inbox_run db db1 \<and> findById k (ctx_organizationId ctx) db1 = Some item
    \<and> in_scope api ctx Src_feedback (item_propertyId item)"
proof -
  let ?next = "\<lambda>item. checked (assertInboxSourcePropertyAccessible api ctx Handle_access Src_feedback (item_propertyId item))
    (\<lambda>_. checked (assertExpectedCommandRevision item expected)
      (\<lambda>_. if item_sourceType item \<noteq> Src_feedback then fail (inboxError IE_invalid_input elsewhere []) else next item))"
  from finishes_granted[OF assms(1)[unfolded loadFeedbackForCommand_def] discreet_guards(4)] assms(2)
  have both: "both (canForContext api ctx ''inbox.write'') (canHandleInboxSource api ctx Src_feedback) = ok True"
    and loaded: "finishes (loadInboxItemOrThrow k (ctx_organizationId ctx) ?next) db r db'" by blast+
  from both have handles: "canHandleInboxSource api ctx Src_feedback = ok True"
    by (auto simp: both_def check_def split: sum.splits if_splits)
  from finishes_load[OF loaded] assms(2) obtain db1 item where
    item: "inbox_run db db1" "findById k (ctx_organizationId ctx) db1 = Some item" and rest: "finishes (?next item) db1 r db'"
    by blast
  from finishes_checked[OF rest discreet_guards(6)] assms(2)
  obtain u where "assertInboxSourcePropertyAccessible api ctx Handle_access Src_feedback (item_propertyId item) = Inr u"
    by blast
  from scope_checked[OF handles this] item show ?thesis by blast
qed

lemma assign_in_scope:
  assumes "finishes (assignInboxItem deps k target expected ctx) db r db'" "\<not> withholds r"
  shows "\<exists>db1 item. inbox_run db db1 \<and> findById k (ctx_organizationId ctx) db1 = Some item
    \<and> in_scope (staffPublicApi deps) ctx (item_sourceType item) (item_propertyId item)"
proof -
  let ?api = "staffPublicApi deps"
  let ?managed = "\<lambda>item. if touchesAnotherAssignee target item (ctx_userId ctx)
    then canForContext ?api ctx ''inbox.manage'' else ok True"
  let ?access = "\<lambda>item. assertInboxSourcePropertyAccessible ?api ctx Handle_access (item_sourceType item) (item_propertyId item)"
  let ?next = "\<lambda>item (_ :: unit). checked (if touchesAnotherAssignee target item (ctx_userId ctx)
      then assertPropertyAccessible ?api ctx ''inbox.manage'' (item_propertyId item) else ok ())
    (\<lambda>_. checked (assertExpectedCommandRevision item expected)
      (\<lambda>_. if assignedTo item = target then answer (Item item)
       else commit (on_item (item_id item) (assign (authorization deps) item target
              (assignmentEvent item target (ctx_userId ctx) (uc_clock deps)) (uc_clock deps)))
            (\<lambda>saved. answer (Item saved))))"
  from finishes_granted[OF assms(1)[unfolded assignInboxItem_def Let_def] discreet_guards(1)] assms(2)
  have loaded: "finishes (loadInboxItemOrThrow k (ctx_organizationId ctx)
      (\<lambda>item. granted_or (canHandleInboxSource ?api ctx (item_sourceType item))
        ''No permission to handle this inbox source''
        (checked (?managed item) (\<lambda>managed. if \<not> managed then fail (inboxError IE_assignment_not_allowed
               ''Managing another assignee is not available for this role'' [])
             else checked (?access item) (?next item))))) db r db'"
    by blast
  from finishes_load[OF loaded] assms(2) obtain db1 item where
    item: "inbox_run db db1" "findById k (ctx_organizationId ctx) db1 = Some item"
    and one: "finishes (granted_or (canHandleInboxSource ?api ctx (item_sourceType item))
        ''No permission to handle this inbox source''
        (checked (?managed item) (\<lambda>managed. if \<not> managed then fail (inboxError IE_assignment_not_allowed
               ''Managing another assignee is not available for this role'' [])
             else checked (?access item) (?next item)))) db1 r db'"
    by blast
  from finishes_granted[OF one discreet_guards(2)] assms(2)
  have handles: "canHandleInboxSource ?api ctx (item_sourceType item) = ok True"
    and two: "finishes (checked (?managed item) (\<lambda>managed. if \<not> managed then fail (inboxError IE_assignment_not_allowed
           ''Managing another assignee is not available for this role'' [])
         else checked (?access item) (?next item))) db1 r db'" by blast+
  have "discreet (?managed item)" by simp
  from finishes_checked[OF two this] assms(2)
  have three: "finishes (checked (?access item) (?next item)) db1 r db'"
    by (auto split: if_splits)
  from finishes_checked[OF three discreet_guards(6)] assms(2)
  obtain u where "?access item = Inr u" by blast
  from scope_checked[OF handles this] item show ?thesis by blast
qed


definition sample_caller :: auth_context where
  "sample_caller = \<lparr>ctx_userId = ''u'', ctx_organizationId = ''o'', ctx_role = Property_manager,
     effectivePermissions = Some [''inbox.write'', ''feedback.handle''],
     scopeByPermission = Some (\<lambda>_. Some Assigned_scope)\<rparr>"

definition sample_deps :: use_case_deps where
  "sample_deps = \<lparr>staffPublicApi = \<lparr>role_table = None, getAccessiblePropertyIds = (\<lambda>_ _ _. Inr (Some [''p'']))\<rparr>,
     authorization = everyone, uc_clock = At 0, uc_idGen = ''n'', uc_database_clock = At 0,
     getReviewSourceEpoch = (\<lambda>_ _. None), withExactCurrent = (\<lambda>_. None), withExactCurrentBatch = (\<lambda>_. None),
     fact_ids = (\<lambda>_. ''f'')\<rparr>"


section \<open>Withdrawals and receipts\<close>

lemma events_stay: "inbox_run db db' \<Longrightarrow> db_ok db \<Longrightarrow> db_events db e = Some org \<Longrightarrow> db_events db' e = Some org"
  using inbox_run_ok[of db db'] by (force simp: db_evolves_def map_le_def)

lemma receipts_stay: "inbox_run db db' \<Longrightarrow> db_ok db \<Longrightarrow> db_receipts db p \<noteq> None \<Longrightarrow> db_receipts db' p \<noteq> None"
  using inbox_run_ok[of db db'] by (force simp: db_evolves_def)

text \<open>
  C10. A withdrawal settles the submission it takes back. Once the guest's withdrawal of private feedback
  was answered, the delivery of that submission - however late, after any run of other commands -
  commits as a duplicate and leaves the whole Inbox as it is, so no work is opened for feedback the
  guest has withdrawn.
\<close>

theorem a_withdrawal_settles_its_submission:
  assumes "inbox_run (empty_inbox ps) db"
    and "finishes (applyInboxGuestFeedbackRetraction input) db (ok d) db1" "inbox_run db1 db2"
    and "UUID_TEXT (ri_supersedes input)" "db_events db (ri_supersedes input) = Some (ri_organizationId input)"
    and "sc_eventId c = ri_supersedes input" "sc_consumerName c = CONSUMER_NAME"
  shows "applySourceCreatedOnce dbNow c db2 = Inr (Duplicate, db2)"
proof -
  let ?key = "(ri_supersedes input, CONSUMER_NAME)"
  have ok: "db_ok db" using inbox_run_ok[OF assms(1) empty_inbox_ok] by simp
  let ?p = "Look (\<lambda>db. case findBySource Src_feedback (ri_feedbackId input) (ri_organizationId input) db of
      None \<Rightarrow> record_and_answer (ri_eventId input) RETRACTION_CONSUMER_NAME Receipt_applied Delivered
    | Some item \<Rightarrow> if item_propertyId item \<noteq> ri_propertyId input
        then throw ''Guest feedback Inbox scope does not match its source fact''
        else commit (applySourceWithdrawnOnce
            \<lparr>sw_eventId = ri_eventId input, sw_consumerName = RETRACTION_CONSUMER_NAME, sw_item = item,
             sw_sourceRevision = Some (first_given (ri_responseRevision input) None), sw_now = ri_occurredAt input,
             sw_fact = inboxItemStatusChanged item Open Closed None (ri_occurredAt input)\<rparr>)
          (\<lambda>d. answer (Taken d)))"
  have p: "lawful ?p" by (intro lawful_rules) (simp add: findBySource_Some)
  from assms(2) have "finishes (settleSupersededSubmission (ri_supersedes input) (ri_organizationId input) ?p) db (ok d) db1"
    unfolding applyInboxGuestFeedbackRetraction_def Let_def by (simp split: if_splits)
  then obtain u v where u: "inbox_run db u"
    and v: "settleSupersededDeliveryRow (ri_supersedes input) CONSUMER_NAME (ri_organizationId input) u = Inr ((), v)"
    and rest: "finishes ?p v (ok d) db1"
    using assms(4) by (auto simp: settleSupersededSubmission_def finishes_commit)
  from u ok have "db_ok u" "db_events u (ri_supersedes input) = Some (ri_organizationId input)"
    using inbox_run_ok events_stay assms(5) by blast+
  with v have "db_receipts v ?key \<noteq> None"
    by (auto simp: settleSupersededDeliveryRow_def modify_ok split: if_splits)
  moreover have "inbox_step u v"
    by (rule commits[where c = "Settle_superseded (ri_supersedes input) CONSUMER_NAME (ri_organizationId input)"])
      (simp_all add: admissible_def perform_def v)
  then have "db_ok v" using inbox_step_ok \<open>db_ok u\<close> by blast
  moreover have "inbox_run v db2" using lawful_finishes[OF rest p] assms(3) by (rule rtranclp_trans)
  ultimately have "db_receipts db2 ?key \<noteq> None" using receipts_stay by blast
  then have "insertReceiptRow (ri_supersedes input) CONSUMER_NAME s db2 = Inr (False, db2)" for s
    by (simp add: insertReceiptRow_ok)
  with assms(6,7) show ?thesis
    by (simp add: applySourceCreatedOnce_def reserveReceiptRow_def seq_def ret_def)
qed

definition sample_retraction :: retraction_input where
  "sample_retraction = \<lparr>ri_eventId = ''w'', ri_feedbackId = ''fb'', ri_organizationId = ''o'', ri_propertyId = ''p'',
     ri_supersedes = ''00000000-0000-4000-8000-000000000000'', ri_responseRevision = None, ri_occurredAt = At 0\<rparr>"

definition sample_submission :: source_created_command where
  "sample_submission = (case sample_resubmission of Deliver_source_created _ c \<Rightarrow>
     c\<lparr>sc_eventId := ri_supersedes sample_retraction, sc_consumerName := CONSUMER_NAME\<rparr>)"

text \<open>The withdrawal is delivered first, to an Inbox without the item.\<close>

theorem a_withdrawal_settles_its_submission_witness:
  "\<exists>db. applySourceCreatedOnce (At 0) sample_submission db = Inr (Duplicate, db)
     \<and> db_receipts db (''w'', RETRACTION_CONSUMER_NAME) = Some Receipt_applied"
proof -
  let ?id = "''00000000-0000-4000-8000-000000000000''"
  define db where "db = with_event ''w'' (with_event ?id (empty_inbox no_policies))"
  define db1 where "db1 = db\<lparr>db_receipts := (db_receipts db)((?id, CONSUMER_NAME) \<mapsto> Receipt_obsolete,
    (''w'', RETRACTION_CONSUMER_NAME) \<mapsto> Receipt_applied)\<rparr>"
  have "inbox_step (with_event ?id (empty_inbox no_policies)) db"
    unfolding db_def with_event_def by (rule event_stored) (simp add: empty_inbox_def)
  with with_event_run have run: "inbox_run (empty_inbox no_policies) db" by (rule rtranclp.rtrancl_into_rtrancl)
  have uuid: "UUID_TEXT (ri_supersedes sample_retraction)" by code_simp
  have none: "findBySource Src_feedback ''fb'' ''o'' d = None" if "db_items d = []" for d
    using that by (simp add: findBySource_def map_filter_def)
  have fin: "finishes (applyInboxGuestFeedbackRetraction sample_retraction) db (ok (Taken Delivered)) db1"
  proof -
    let ?db = "db\<lparr>db_receipts := (db_receipts db)((?id, CONSUMER_NAME) \<mapsto> Receipt_obsolete)\<rparr>"
    have settled: "settleSupersededDeliveryRow ?id CONSUMER_NAME ''o'' db = Inr ((), ?db)"
      by (simp add: settleSupersededDeliveryRow_def modify_ok db_def with_event_def empty_inbox_def)
    have "finishes (record_and_answer ''w'' RETRACTION_CONSUMER_NAME Receipt_applied Delivered) ?db
        (ok (Taken Delivered)) db1"
      unfolding record_and_answer_def finishes_commit
      by (rule exI[of _ ?db]) (auto simp: recordReceipt_def txn_simps insertReceiptRow_ok db1_def db_def
          with_event_def empty_inbox_def CONSUMER_NAME_def RETRACTION_CONSUMER_NAME_def)
    then have "finishes (Look (\<lambda>d. case findBySource Src_feedback ''fb'' ''o'' d of
          None \<Rightarrow> record_and_answer (ri_eventId sample_retraction) RETRACTION_CONSUMER_NAME Receipt_applied Delivered
        | Some item \<Rightarrow> g item)) ?db
        (ok (Taken Delivered)) db1" for g
      unfolding finishes_Look_iff
      by (intro exI[of _ ?db]) (simp add: none db_def with_event_def empty_inbox_def sample_retraction_def)
    note looked = this
    have settles: "finishes (settleSupersededSubmission ?id ''o'' p) db r db1" if "finishes p ?db r db1" for p r
    proof -
      have "UUID_TEXT ?id" using uuid by (simp add: sample_retraction_def)
      then show ?thesis
        by (simp add: settleSupersededSubmission_def finishes_commit) (rule exI[of _ db], simp add: settled that)
    qed
    have "is_safe_integer (first_given None None)" "\<not> num_lt (first_given None None) (nint 1)" "get_time (At 0) \<noteq> NaN"
      by code_simp+
    then show ?thesis
      unfolding applyInboxGuestFeedbackRetraction_def Let_def
      by (simp add: sample_retraction_def[THEN arg_cong, of ri_supersedes]
          sample_retraction_def[THEN arg_cong, of ri_organizationId] sample_retraction_def[THEN arg_cong, of ri_feedbackId]
          sample_retraction_def[THEN arg_cong, of ri_responseRevision]
          sample_retraction_def[THEN arg_cong, of ri_occurredAt]) (rule settles, rule looked)
  qed
  have "applySourceCreatedOnce (At 0) sample_submission db1 = Inr (Duplicate, db1)"
    by (rule a_withdrawal_settles_its_submission[OF run fin rtranclp.rtrancl_refl uuid])
      (simp_all add: db_def with_event_def sample_submission_def sample_retraction_def sample_resubmission_def)
  then show ?thesis by (auto simp: db1_def)
qed

text \<open>Whoever answers an event has left its receipt, whatever path it took.\<close>

definition leaves :: "string \<times> string \<Rightarrow> process \<Rightarrow> bool" where
  "leaves q p = (\<forall>db d db'. db_ok db \<longrightarrow> finishes p db (ok d) db' \<longrightarrow> db_receipts db' q \<noteq> None)"

named_theorems leaves_rules

lemma leaves_basic [leaves_rules]:
  "leaves q (throw m)" "leaves q (fail e)" "leaves q (Return (err f))"
  by (auto simp: leaves_def elim: finishes_Return)

lemma leaves_look [leaves_rules]: "(\<And>db. leaves q (f db)) \<Longrightarrow> leaves q (Look f)"
  unfolding leaves_def finishes_Look_iff using inbox_run_ok by blast

lemma leaves_if [leaves_rules]: "(b \<Longrightarrow> leaves q p) \<Longrightarrow> (\<not> b \<Longrightarrow> leaves q p') \<Longrightarrow> leaves q (if b then p else p')"
  by simp

lemma leaves_option [leaves_rules]:
  "(v = None \<Longrightarrow> leaves q p) \<Longrightarrow> (\<And>x. v = Some x \<Longrightarrow> leaves q (k x))
     \<Longrightarrow> leaves q (case v of None \<Rightarrow> p | Some x \<Rightarrow> k x)"
  by (cases v) simp_all

lemma leaves_sum [leaves_rules]:
  "(\<And>e. v = Inl e \<Longrightarrow> leaves q (h e)) \<Longrightarrow> (\<And>x. v = Inr x \<Longrightarrow> leaves q (k x))
     \<Longrightarrow> leaves q (case v of Inl e \<Rightarrow> h e | Inr x \<Rightarrow> k x)"
  by (cases v) simp_all

lemma leaves_unless_err [leaves_rules]: "(\<And>x. r = Inr x \<Longrightarrow> leaves q (k x)) \<Longrightarrow> leaves q (unless_err r k)"
  by (auto simp: unless_err_def intro: leaves_basic split: sum.splits)

lemma leaves_receipt [leaves_rules]: "leaves (source, name) (record_and_answer source name status d)"
  by (auto simp: leaves_def record_and_answer_def finishes_commit recordReceipt_def txn_simps insertReceiptRow_ok
      split: if_splits)

lemma leaves_delivery:
  assumes "admissible c" "perform authorize c = forget t" "delivery_of c = Some q"
  shows "leaves q (commit t (\<lambda>x. answer (g x)))"
  unfolding leaves_def finishes_commit
proof (intro allI impI)
  fix db d db'
  assume "db_ok db" and fin: "\<exists>db1. inbox_run db db1 \<and>
      ((\<exists>x db2. t db1 = Inr (x, db2) \<and> finishes (answer (g x)) db2 (ok d) db')
       \<or> (\<exists>e. t db1 = Inl e \<and> ok d = err (Store_failure e) \<and> db' = db1))"
  from fin obtain db1 x where db1: "inbox_run db db1" and t: "t db1 = Inr (x, db')" by auto
  from db1 \<open>db_ok db\<close> have "db_ok db1" using inbox_run_ok by blast
  moreover from t have "perform authorize c db1 = Inr ((), db')" by (auto simp: assms(2) forget_ok)
  ultimately show "db_receipts db' q \<noteq> None" using delivery_leaves_a_receipt[OF _ assms(1,3)] by blast
qed

lemma leaves_after:
  assumes "admissible c" "perform authorize c = forget t" "\<And>x. leaves q (k x)"
  shows "leaves q (commit t k)"
  unfolding leaves_def finishes_commit
proof (intro allI impI)
  fix db d db'
  assume "db_ok db" and "\<exists>db1. inbox_run db db1 \<and>
      ((\<exists>x db2. t db1 = Inr (x, db2) \<and> finishes (k x) db2 (ok d) db')
       \<or> (\<exists>e. t db1 = Inl e \<and> ok d = err (Store_failure e) \<and> db' = db1))"
  then obtain db1 x db2 where db1: "inbox_run db db1" "t db1 = Inr (x, db2)"
    and rest: "finishes (k x) db2 (ok d) db'" by auto
  have "inbox_step db1 db2"
    by (rule commits[OF assms(1), where authorize = authorize]) (use db1(2) in \<open>auto simp: assms(2) forget_ok\<close>)
  with db1(1) \<open>db_ok db\<close> have "db_ok db2" using inbox_run_ok inbox_step_ok by blast
  with rest assms(3) show "db_receipts db' q \<noteq> None" by (auto simp: leaves_def)
qed

lemma leaves_first_step [leaves_rules]:
  "(\<And>x. leaves q (next x)) \<Longrightarrow> leaves q (commit (stampReplyMilestones k org submitted published instant) next)"
  "leaves q p \<Longrightarrow> leaves q (settleSupersededSubmission source org p)"
proof -
  show "(\<And>x. leaves q (next x)) \<Longrightarrow> leaves q (commit (stampReplyMilestones k org submitted published instant) next)"
    by (rule leaves_after[where c = "Stamp_milestones k org submitted published instant" and authorize = a for a])
      (simp_all add: admissible_def perform_def)
  show "leaves q p \<Longrightarrow> leaves q (settleSupersededSubmission source org p)"
    unfolding settleSupersededSubmission_def
    by (intro leaves_if, assumption,
        rule leaves_after[where c = "Settle_superseded source CONSUMER_NAME org" and authorize = a for a])
      (simp_all add: admissible_def perform_def forget_unit)
qed

lemma leaves_deliveries [leaves_rules]:
  "q = (pc_eventId p, pc_consumerName p) \<Longrightarrow> item_status (pc_item p) = Open
     \<Longrightarrow> leaves q (commit (applyReviewProjectionOnce dbNow p) (\<lambda>d. answer (Taken d)))"
  "q = (sc_eventId s, sc_consumerName s) \<Longrightarrow> item_status (sc_item s) = Open
     \<Longrightarrow> leaves q (commit (applySourceCreatedOnce dbNow s) (\<lambda>d. answer (Taken d)))"
  "q = (sw_eventId w, sw_consumerName w) \<Longrightarrow> item_sourceType (sw_item w) = Src_feedback
     \<Longrightarrow> leaves q (commit (applySourceWithdrawnOnce w) (\<lambda>d. answer (Taken d)))"
  "q = (source, name) \<Longrightarrow> leaves q (commit (applyReviewSourceTransitionedOnce
     (end_of_source source name item instant close)) (\<lambda>_. answer (Taken d)))"
  "q = (ob_eventId ob, ob_consumerName ob)
     \<Longrightarrow> leaves q (commit (applyReplyObservedOnce ob) (\<lambda>_. answer (Taken d)))"
  "q = (source, name) \<Longrightarrow> leaves q (commit (cancelArchivedPropertyRemindersOnce active source name org property instant)
     (\<lambda>d. answer (Taken d)))"
proof -
  note by_command = leaves_delivery[where authorize = a for a]
  note defs = admissible_def perform_def forget_unit
  show "q = (pc_eventId p, pc_consumerName p) \<Longrightarrow> item_status (pc_item p) = Open
     \<Longrightarrow> leaves q (commit (applyReviewProjectionOnce dbNow p) (\<lambda>d. answer (Taken d)))"
    by (rule by_command[where c = "Deliver_review_projection dbNow p"]) (simp_all add: defs)
  show "q = (sc_eventId s, sc_consumerName s) \<Longrightarrow> item_status (sc_item s) = Open
     \<Longrightarrow> leaves q (commit (applySourceCreatedOnce dbNow s) (\<lambda>d. answer (Taken d)))"
    by (rule by_command[where c = "Deliver_source_created dbNow s"]) (simp_all add: defs)
  show "q = (sw_eventId w, sw_consumerName w) \<Longrightarrow> item_sourceType (sw_item w) = Src_feedback
     \<Longrightarrow> leaves q (commit (applySourceWithdrawnOnce w) (\<lambda>d. answer (Taken d)))"
    by (rule by_command[where c = "Deliver_source_withdrawn w"]) (simp_all add: defs)
  show "q = (source, name) \<Longrightarrow> leaves q (commit (applyReviewSourceTransitionedOnce
     (end_of_source source name item instant close)) (\<lambda>_. answer (Taken d)))"
    by (rule by_command[where c = "Deliver_source_transition (end_of_source source name item instant close)"])
      (simp_all add: defs end_of_source_def)
  show "q = (ob_eventId ob, ob_consumerName ob)
     \<Longrightarrow> leaves q (commit (applyReplyObservedOnce ob) (\<lambda>_. answer (Taken d)))"
    by (rule by_command[where c = "Deliver_reply_observed ob"]) (simp_all add: defs)
  show "q = (source, name) \<Longrightarrow> leaves q (commit (cancelArchivedPropertyRemindersOnce active source name org property instant)
     (\<lambda>d. answer (Taken d)))"
    by (rule by_command[where c = "Cancel_archived active source name org property instant"]) (simp_all add: defs)
qed

lemma leaves_consumers:
  "consumer source name p \<Longrightarrow> leaves (source, name) p"
proof (induction rule: consumer.induct)
  have projection: "leaves (ev_eventId ev, name) (handleInboxReviewProjection deps ev kind name)" for deps ev kind name
    unfolding handleInboxReviewProjection_def Let_def by (intro leaves_rules) (simp_all add: created_item_open)
  show "leaves (ev_eventId ev, ON_REVIEW_CREATED) (handleInboxReviewCreated deps ev)" for deps ev
    unfolding handleInboxReviewCreated_def by (rule projection)
  show "leaves (ev_eventId ev, ON_REVIEW_UPDATED) (handleInboxReviewUpdated deps ev)" for deps ev
    unfolding handleInboxReviewUpdated_def by (rule projection)
  show "leaves (ev_eventId ev, ON_REVIEW_EXPIRED) (handleInboxReviewExpired deps ev)" for deps ev
    unfolding handleInboxReviewExpired_def Let_def by (intro leaves_rules refl)
  show "leaves (ev_eventId ev, ON_REVIEW_SOURCE_TRANSITIONED) (handleInboxReviewSourceTransitioned deps ev)" for deps ev
    unfolding handleInboxReviewSourceTransitioned_def Let_def by (intro leaves_rules refl)
  show "leaves (ev_eventId ev, ON_REPLY_PUBLISHED) (handleInboxReplyPublished deps ev)" for deps ev
    unfolding handleInboxReplyPublished_def by (rule leaves_rules)
  show "leaves (ev_eventId ev, ON_REPLY_SUBMITTED) (handleInboxReplySubmitted deps ev)" for deps ev
    unfolding handleInboxReplySubmitted_def Let_def by (intro leaves_rules)
  show "leaves (ev_eventId ev, ON_REPLY_OBSERVED) (handleInboxReplyObserved deps ev)" for deps ev
    unfolding handleInboxReplyObserved_def Let_def by (intro leaves_rules) simp
  show "leaves (ev_eventId ev, CONSUMER_NAME) (handleInboxGuestFeedbackSubmitted deps ev)" for deps ev
    unfolding handleInboxGuestFeedbackSubmitted_def Let_def by (intro leaves_rules) (simp_all add: created_item_open)
  show "leaves (ev_eventId ev, RETRACTION_CONSUMER_NAME) (handleInboxGuestFeedbackRetracted ev)" for ev
    unfolding handleInboxGuestFeedbackRetracted_def applyInboxGuestFeedbackRetraction_def Let_def
    by (simp, intro conjI impI leaves_rules) (simp_all add: findBySource_Some leaves_receipt)
  show "leaves (ev_eventId ev, ON_PROPERTY_ARCHIVED) (handleInboxPropertyArchived deps ev)" for deps ev
    unfolding handleInboxPropertyArchived_def by (auto intro!: leaves_rules split: option.splits)
qed

text \<open>
  C14. An answered event has its receipt. Whichever consumer answers an event, and on whichever of its
  paths - applied, obsolete, duplicate, nothing to do - the receipt of that event under the name of
  the consumer is stored when it answers, and stays; so a crash after the answer never makes the
  event be handled as new. A consumer that throws leaves the event to be delivered again.
\<close>

theorem consumers_leave_a_receipt:
  assumes "inbox_run (empty_inbox ps) db" "consumer source name p" "finishes p db (ok d) db1" "inbox_run db1 db2"
  shows "db_receipts db2 (source, name) \<noteq> None"
proof -
  have ok: "db_ok db" using inbox_run_ok[OF assms(1) empty_inbox_ok] by simp
  with leaves_consumers[OF assms(2)] assms(3) have "db_receipts db1 (source, name) \<noteq> None"
    by (auto simp: leaves_def)
  moreover have "lawful p" using entry_lawful[OF entry.intros(1)[OF assms(2)]] .
  then have "db_ok db1" using inbox_run_ok lawful_finishes[OF assms(3)] ok by blast
  ultimately show ?thesis using receipts_stay[OF assms(4)] by blast
qed

theorem consumers_leave_a_receipt_witness:
  "\<exists>db. finishes (handleInboxReplyPublished sample_consumer_deps sample_event)
        (with_event ''e'' (empty_inbox no_policies)) (ok (Taken Delivered)) db
     \<and> db_receipts db (''e'', ON_REPLY_PUBLISHED) \<noteq> None"
proof -
  let ?p = "handleInboxReplyPublished sample_consumer_deps sample_event"
  let ?db = "with_event ''e'' (empty_inbox no_policies)"
  have "consumer (ev_eventId sample_event) ON_REPLY_PUBLISHED ?p" by (rule consumer.intros)
  then have c: "consumer ''e'' ON_REPLY_PUBLISHED ?p" by (simp add: sample_event_def)
  have "\<exists>db. finishes ?p ?db (ok (Taken Delivered)) db"
    unfolding handleInboxReplyPublished_def record_and_answer_def finishes_commit
    by (rule exI, rule exI[of _ ?db])
      (auto simp: recordReceipt_def txn_simps insertReceiptRow_ok with_event_def empty_inbox_def sample_event_def)
  then obtain db where fin: "finishes ?p ?db (ok (Taken Delivered)) db" ..
  from consumers_leave_a_receipt[OF with_event_run c fin rtranclp.rtrancl_refl] fin show ?thesis by blast
qed

section \<open>A tick\<close>

lemma due_candidates:
  obtains cs where "listDueReminderCandidates now (nint RESPONSE_TARGET_REMINDER_RELEASE_LIMIT) db = Inr (cs, db)"
    "length cs \<le> 100"
proof -
  have "assertBatchLimit (nint RESPONSE_TARGET_REMINDER_RELEASE_LIMIT) = Inr ()" by code_simp
  then show ?thesis
    by (intro that[of "take 100 (all_due_slots now db)"])
      (simp_all add: listDueReminderCandidates_def seq_def decide_def ret_def inspect_def limit_nat_def
        RESPONSE_TARGET_REMINDER_RELEASE_LIMIT_def)
qed

text \<open>
  C31. A tick ends, and within its limits. A pass of the reminder scheduler always comes to an answer,
  whatever its reads of Google and of the clock return and whoever commits in between; the answer is
  its counts, never an error, with at most twenty reads of Google and at most a hundred slots
  released.
\<close>

theorem reminder_tick_is_bounded:
  "(\<exists>r db'. finishes (releaseDueResponseTargetReminders deps) db r db')
   \<and> (\<forall>r db'. finishes (releaseDueResponseTargetReminders deps) db r db'
        \<longrightarrow> (\<exists>c. r = ok (Ticked c) \<and> checked_on_google c \<le> 20 \<and> released c \<le> 100))"
proof (intro conjI allI impI every_process_finishes)
  let ?started = "clock_readings deps 0"
  fix r db' assume "finishes (releaseDueResponseTargetReminders deps) db r db'"
  then obtain db1 where tick: "finishes (case listDueReminderCandidates ?started
        (nint RESPONSE_TARGET_REMINDER_RELEASE_LIMIT) db1 of
      Inl e \<Rightarrow> Return (err (Store_failure e))
    | Inr (cs, _) \<Rightarrow>
        release_unchecked deps (map fst (filter (\<lambda>p. snd p = Release_unchecked)
            (map (\<lambda>c. (c, plan_of deps cs ?started c)) cs))) 1 NO_COUNTS
          (\<lambda>n counts. work_through deps ?started (unreadableOrganizations deps cs)
             (filter (\<lambda>p. snd p \<noteq> Release_unchecked) (map (\<lambda>c. (c, plan_of deps cs ?started c)) cs)) n counts
             (\<lambda>_ total. answer (Ticked total)))) db1 r db'"
    unfolding releaseDueResponseTargetReminders_def Let_def finishes_Look_iff by blast
  obtain cs where cs: "listDueReminderCandidates ?started (nint RESPONSE_TARGET_REMINDER_RELEASE_LIMIT) db1
    = Inr (cs, db1)" "length cs \<le> 100" by (rule due_candidates)
  define planned where "planned = map (\<lambda>c. (c, plan_of deps cs ?started c)) cs"
  let ?first = "map fst (filter (\<lambda>p. snd p = Release_unchecked) planned)"
  let ?later = "filter (\<lambda>p. snd p \<noteq> Release_unchecked) planned"
  let ?answer = "\<lambda>(_ :: nat) all. answer (Ticked all)"
  let ?work = "\<lambda>n counts. work_through deps ?started (unreadableOrganizations deps cs) ?later n counts ?answer"
  from tick cs(1) have "finishes (release_unchecked deps ?first 1 NO_COUNTS ?work) db1 r db'"
    by (simp add: planned_def)
  with release_unchecked_leads[of deps ?first 1 NO_COUNTS ?work] obtain n d db2 where
    d: "released d \<le> length ?first" "checked_on_google d = 0" and work: "finishes (?work n d) db2 r db'"
    unfolding leads_to_def by (metis NO_COUNTS_simps(1,2) add_0)
  have "checked_on_google d \<le> RESPONSE_TARGET_REMINDER_GOOGLE_READ_CAP" using d by simp
  from work_through_leads[OF this, of deps ?started "unreadableOrganizations deps cs" ?later n ?answer,
      unfolded leads_to_def] work
  obtain m c db3 where c: "released c \<le> released d + length ?later"
    "checked_on_google c \<le> RESPONSE_TARGET_REMINDER_GOOGLE_READ_CAP" "finishes (?answer m c) db3 r db'" by blast
  have "length ?first + length ?later = length planned"
    using sum_length_filter_compl[of "\<lambda>p. snd p = Release_unchecked" planned] by simp
  then have "length ?first + length ?later = length cs" by (simp add: planned_def)
  with c d cs(2) show "\<exists>c. r = ok (Ticked c) \<and> checked_on_google c \<le> 20 \<and> released c \<le> 100"
    by (intro exI[of _ c]) (auto simp: RESPONSE_TARGET_REMINDER_GOOGLE_READ_CAP_def)
qed

definition sample_tick :: tick_deps where
  "sample_tick = \<lparr>getGoogleReplyHeads = (\<lambda>_ _. None), google_check = (\<lambda>_. None), head_after_read = (\<lambda>_. None),
     clock_readings = (\<lambda>_. At 0)\<rparr>"

theorem reminder_tick_is_bounded_witness:
  "\<exists>c db'. finishes (releaseDueResponseTargetReminders sample_tick) sample_created (ok (Ticked c)) db'
     \<and> checked_on_google c \<le> 20 \<and> released c \<le> 100"
proof -
  note bounded = reminder_tick_is_bounded[of sample_tick sample_created]
  from bounded obtain r db' where fin: "finishes (releaseDueResponseTargetReminders sample_tick) sample_created r db'"
    by blast
  with bounded obtain c where "r = ok (Ticked c)" "checked_on_google c \<le> 20" "released c \<le> 100" by blast
  with fin show ?thesis by blast
qed

end
