(* ===== verification/Spec2Isabelle.thy ===== *)
theory Spec2Isabelle
  imports Prelude Sha256 JsDate ReplyPublication ReplyCommands ReplyObservation MaterialRevision
    Discovery HeadCheck ReplyDb ReplyStore ObservationStore ReplyMachine ReplyInvariant
    ObservationInvariant ReplyRuns ObservationClaims
    InboxTypes HandlingCycles HandlingLog ResponseTarget FeedbackHandling Transactions
    InboxRows TargetStore CycleStore InboxGuards FeedbackStore InboxCommands ReviewStore ReminderStore
    InboxStore InboxPasses InboxWork InboxEffects InboxRefine InboxSources
    InboxMachine InboxRepository InboxRuns InboxClaims InboxProcesses InboxAccess InboxConsumers InboxUseCases
    InboxReminders InboxHistory InboxSystem SystemClaims
begin

text \<open>
  A verification library of the review and reply core of the Reputation Key application, a
  TypeScript program with which the managers of properties answer their guests' reviews. It covers two
  contexts of the source, \<^verbatim>\<open>src/src/contexts/review\<close> (how a reply gets published on Google) and
  \<^verbatim>\<open>src/src/contexts/inbox\<close> (the work of the people who handle reviews and private feedback), down to
  the transactions of their stores.

  \<^bold>\<open>How the program works.\<close> A sync reads reviews and replies from Google. A person writes a reply;
  submitting and approving it authorizes one publication cycle with a digest of its text. A job
  claims the cycle, opens an attempt and sends the text. Google may answer late or not at all, so
  the only thing that publishes a reply is a later read that shows the authorized text: the
  observation authority appends the read to the history of the review and settles the cycle it
  proves or overtakes. Beside this the Inbox keeps one item per review or feedback. Its Handling
  Cycles are numbered spans of work, each with a Response Target (a deadline), two reminder slots
  and, for feedback, a chain of outcomes. Events of the other contexts reach the Inbox through an
  outbox, at least once and in any order; a receipt per event and consumer makes each apply once.

  \<^bold>\<open>Conventions.\<close> Prelude has the JavaScript values (numbers with NaN and infinities, dates, UTF-16
  text, values of type \<^verbatim>\<open>unknown\<close>), the result type (\<open>Inl\<close> an error, \<open>Inr\<close> a value) and the locales
  for machines. A store command is a function from a database state to an error, which leaves the
  state as it was (a thrown error rolls back), or to a value and the new state. Row locks serialise
  transactions, so an interleaving of workers and people is a sequence of such functions; that a
  caller decided on older rows is modelled by giving each command an arbitrary snapshot as its
  argument. A conditional update tests its WHERE clause on the row and answers how many rows it
  changed; a CHECK constraint or unique index that would be broken refuses. Definitions carry the
  name of the function they translate; a method of a store is a definition of the same name.

  \<^bold>\<open>Replies: the decisions.\<close>
  \<^item> Sha256, JsDate: \<^verbatim>\<open>shared/domain/sha256.ts\<close> and \<^verbatim>\<open>google-reply-text.ts\<close> on words, and the printed
    form of a date. Bounded by the length of the text; every loop is over a list.
  \<^item> ReplyPublication: \<^verbatim>\<open>reply-publication-workflow.ts\<close>: keys, the state table, the reconciliation
    ladder and the failure classes. Lemmas: idempotency keys are injective, the ladder ends, a claim
    has its grant, an ambiguous send is not repeated without evidence.
  \<^item> ReplyCommands: the reply record, its status table, which command may start where, the slot fence
    and the AI text rules (\<^verbatim>\<open>types.ts\<close>, \<^verbatim>\<open>rules.ts\<close>, \<^verbatim>\<open>reply-command-preconditions.ts\<close>,
    \<^verbatim>\<open>reply-ai-text.ts\<close>).
  \<^item> ReplyObservation: what a read of the reply proves (\<^verbatim>\<open>google-reply-observation.ts\<close>,
    \<^verbatim>\<open>reply-moderation.ts\<close>). Lemmas: only our text confirms, only foreign text supersedes.
  \<^item> MaterialRevision, HeadCheck, Discovery: whether a provider record is a new revision of a review,
    whether Google's newest page agrees with the stored copies, and when to look again
    (\<^verbatim>\<open>material-review-revision.ts\<close>, \<^verbatim>\<open>head-check.ts\<close>, \<^verbatim>\<open>head-persist.ts\<close>, \<^verbatim>\<open>discovery-*.ts\<close>,
    \<^verbatim>\<open>snapshot-failure-backoff.ts\<close>).

  \<^bold>\<open>Replies: the stores and their runs.\<close>
  \<^item> ReplyDb: rows, locks, guarded updates (\<^verbatim>\<open>reply-write-guards.ts\<close>, \<^verbatim>\<open>reply-set-clause.ts\<close>,
    \<^verbatim>\<open>reply-publication-dispatch-evidence.ts\<close>). ReplyStore: the commands of
    \<^verbatim>\<open>reply-command-store.ts\<close>. ObservationStore: \<^verbatim>\<open>google-reply-observation-store.ts\<close> and its helpers.
  \<^item> ReplyMachine, ReplyInvariant, ObservationInvariant: the commands as one machine, and that
    \<open>store_inv\<close> (status, publication state, authorizations, attempts and heads agree) survives each
    of them; the interpretation \<open>store\<close> of \<open>guarded_machine\<close> carries it to every run.
  \<^item> ReplyRuns, ObservationClaims: what follows for runs. Only our text seen on Google publishes, at
    most one attempt is in flight, only an authorized text is sent, a stale snapshot changes
    nothing, publication states follow the table, and an admitted read is always recorded, once.

  \<^bold>\<open>The Inbox: the decisions.\<close>
  \<^item> InboxTypes: \<^verbatim>\<open>types.ts\<close>, \<^verbatim>\<open>errors.ts\<close>, \<^verbatim>\<open>rules.ts\<close>, \<^verbatim>\<open>priority.ts\<close>, \<^verbatim>\<open>constructors.ts\<close>.
  \<^item> HandlingCycles, HandlingLog: \<^verbatim>\<open>handling-cycles.ts\<close>, and its contract. The transition log is the
    truth and the head a projection of it; \<open>handling\<close> interprets \<open>fenced_machine\<close>, whose rank, the
    length of the log plus the source revision, every step raises.
  \<^item> ResponseTarget: \<^verbatim>\<open>response-target.ts\<close>, \<^verbatim>\<open>reminder-release.ts\<close>. FeedbackHandling:
    \<^verbatim>\<open>feedback-handling.ts\<close>, \<^verbatim>\<open>handling-outcome-authority.ts\<close>.

  \<^bold>\<open>The Inbox: the stores.\<close> Transactions has the monad of a transaction. InboxRows has the rows of one
  item with their constraints (\<^verbatim>\<open>inbox.schema.ts\<close>). Over them: TargetStore
  (\<^verbatim>\<open>response-target.store.ts\<close>, \<^verbatim>\<open>google-review-target-completion.ts\<close>), CycleStore
  (\<^verbatim>\<open>review-handling-cycle.store.ts\<close>, \<^verbatim>\<open>review-epoch-carry-head.ts\<close>), InboxGuards
  (\<^verbatim>\<open>inbox-command-guards.ts\<close>, \<^verbatim>\<open>inbox-command-authority.ts\<close>), FeedbackStore
  (\<^verbatim>\<open>feedback-handling.store.ts\<close>), and \<^verbatim>\<open>inbox-command-store.ts\<close> in four parts: InboxCommands
  (commands of people), ReviewStore (events of the source), InboxStore (receipts, idempotent inserts,
  bulk commands) and InboxPasses (the passes over all items). ReminderStore has
  \<^verbatim>\<open>response-target-reminder-release.store.ts\<close> and \<^verbatim>\<open>restated-revision-target-exclusion.store.ts\<close>.

  \<^bold>\<open>The Inbox: specification and refinement.\<close>
  \<^item> InboxWork is the abstract machine: \<open>work\<close> is the cycles, log, targets, reminder slots and
    outcomes of one item, \<open>work_step\<close> what may happen to them, \<open>work_ok\<close> the invariant (\<open>works\<close>).
  \<^item> InboxEffects, InboxRefine, InboxSources: each transaction on one item that commits is a sequence
    of its steps and keeps \<open>item_ok\<close> (\<open>refines\<close>, with rules that split a transaction into its
    statements; \<open>work_move\<close> adds the first cycle).
  \<^item> InboxMachine lifts this to the database of all items (\<open>db_ok\<close>, \<open>implements\<close>), InboxRuns has every
    command (\<open>inbox_command\<close>, \<open>perform\<close>) and its runs, and \<open>inbox\<close> interprets \<open>evolving_machine\<close>:
    every run keeps \<open>db_ok\<close>, moves the work of every item along \<open>work_move\<close> and forgets no receipt.
  \<^item> InboxClaims reads the promises off it: an item mirrors its head, a source has one item, closed
    cycles wait for nothing, withdrawn feedback is never a manager's again, corrections keep the
    completion, stale commands are refused, and a delivery that comes again changes nothing.

  What the callers of the store guarantee is \<open>admissible\<close>: an item is created open (each builds it
  with \<open>new_item\<close>), only private feedback is withdrawn, and the end of a source closes a cycle as
  \<open>CR_source_ineligible\<close>. A run starts from an empty Inbox.

  \<^bold>\<open>The Inbox: who calls the stores.\<close>
  \<^item> InboxRepository: the reads of \<^verbatim>\<open>inbox.repository.ts\<close> and \<^verbatim>\<open>review-handling-cycle.store.ts\<close> that
    decide something, and the stamp of the reply milestones.
  \<^item> InboxProcesses: a consumer or a use case is a tree of reads, transactions and answers;
    \<open>finishes\<close> runs it with others committing between any two of its steps, and a \<open>lawful\<close> one
    only commits admissible commands. Every process ends: each path of the tree is finite.
  \<^item> InboxConsumers: the ten handlers of \<^verbatim>\<open>outbox-consumers.ts\<close>, \<^verbatim>\<open>guest-feedback-outbox-consumers.ts\<close>
    and \<^verbatim>\<open>property-lifecycle-outbox-consumers.ts\<close>. InboxAccess: permissions and scope
    (\<^verbatim>\<open>shared/domain/permissions.ts\<close>, \<^verbatim>\<open>property-access.ts\<close>, \<^verbatim>\<open>inbox-access.ts\<close>). InboxUseCases: the
    eight commands on one item and the two bulk commands of \<^verbatim>\<open>application/use-cases\<close>. InboxReminders:
    one tick of \<^verbatim>\<open>release-response-target-reminders.ts\<close>. InboxHistory: \<^verbatim>\<open>handling-history.ts\<close>, whose
    comparator is a linear order on stored entries, so that the story does not depend on the queries.
  \<^item> InboxSystem puts any number of these processes side by side and proves each of them lawful, which
    discharges \<open>admissible\<close> for them. SystemClaims reads off what the whole promises: the invariant of
    every interleaving, that the state of an item is told only to a caller in whose scope it is, that
    a withdrawal settles the submission it takes back, that an answered event has its receipt, and
    the limits of a tick (twenty reads of Google, a hundred slots).

  \<^bold>\<open>Arguments of the model.\<close> Unicode NFC (\<open>nfc\<close>); the actor of a reply command and the authority of an
  Inbox command (the identity context); whether an AI draft's sources are current, the permit of a
  property and the policies of response targets (tables of other contexts); fresh identifiers and the
  clock. No law of any of them is assumed, except where a theorem says so.

  \<^bold>\<open>Bounds.\<close> No definition needs fuel: every loop is over a list or a counted range, and the one
  recursion that is not structural (\<open>slot_matches\<close>, the scan for unfilled slots) has a measure.
  Numbers are exact rationals; the guards of the code keep revisions and counts within the safe
  integers, where doubles are exact, and the guards are part of the model. SHA-256 is on 32-bit
  words.

  \<^bold>\<open>Not modelled.\<close> The measurement rows a reply command carries along, and the operator scan for
  restated revisions with its report. The store that projects reviews and imports pages
  (\<^verbatim>\<open>review-command-store.ts\<close>) is reduced to what the modelled stores read of its rows; its pure
  decisions are above. The use cases, jobs and server functions of the review context parse their
  input and call one command each. Of the Inbox, the operator rebuild of the projection
  (\<^verbatim>\<open>rebuild-inbox-projection.ts\<close>) is left out: the commands it issues are the step \<open>elsewhere\<close> of
  InboxSystem, taken to be admissible. Lists, counts, analytics and the registration of consumers
  change no state. The contexts ai, feed, guest,
  identity, integration, portal, property and reporting are other subsystems, met here as events or
  as arguments. The database, outbox, jobs and authentication of \<^verbatim>\<open>src/src/shared\<close>, the user interface,
  and the tooling are effects and glue. Liveness of the queue (that a job runs at all) is outside.
\<close>

end
